(* ===== verification/Prelude.thy ===== *)
theory Prelude
  imports Complex_Main "HOL-Library.AList" "HOL-Library.Sublist"
begin

text \<open>
  Shared vocabulary of the development: the dynamically typed values that the runtime
  passes around (JSON-shaped Python objects), dictionaries, exceptions as values of a sum
  type, and the string operations of the Python standard library that the source calls.

  A Python \<open>str\<close> is a \<open>string\<close>, read as the bytes of its UTF-8 encoding. Equality,
  concatenation, prefix, suffix and substring tests, splitting at ASCII separators and the
  stripping of ASCII white space commute with that encoding. Case conversion
  (\<open>lower\<close>, \<open>casefold\<close>) is modelled on ASCII letters; white space is the ASCII white
  space of \<open>str.isspace\<close> (codes 9 to 13 and 28 to 32).
\<close>

named_theorems res_simps \<open>evaluation of results\<close>
named_theorems pv_simps \<open>evaluation of Python values\<close>
named_theorems str_simps \<open>evaluation of string operations\<close>

section \<open>Python values\<close>

text \<open>
  A float carries its value and the text that \<open>repr\<close> prints for it: the interpreter's
  shortest-representation algorithm is not modelled, so the text travels with the value.
  Dictionaries keep insertion order and have string keys, as JSON objects have.
\<close>

datatype pv =
    PNone
  | PBool bool
  | PInt int
  | PFloat rat string
  | PStr string
  | PList "pv list"
  | PDict "(string \<times> pv) list"

type_synonym pdict = "(string \<times> pv) list"

definition dget :: "pdict \<Rightarrow> string \<Rightarrow> pv" where
  \<comment> \<open>\<open>d.get(k)\<close>\<close>
  "dget d k = (case map_of d k of None \<Rightarrow> PNone | Some v \<Rightarrow> v)"

definition dget_or :: "pdict \<Rightarrow> string \<Rightarrow> pv \<Rightarrow> pv" where
  \<comment> \<open>\<open>d.get(k, default)\<close>\<close>
  "dget_or d k v0 = (case map_of d k of None \<Rightarrow> v0 | Some v \<Rightarrow> v)"

definition dhas :: "pdict \<Rightarrow> string \<Rightarrow> bool" where
  \<comment> \<open>\<open>k in d\<close>\<close>
  "dhas d k \<longleftrightarrow> map_of d k \<noteq> None"

definition dput :: "string \<Rightarrow> pv \<Rightarrow> pdict \<Rightarrow> pdict" where
  \<comment> \<open>\<open>d[k] = v\<close>: an existing key keeps its position\<close>
  "dput k v d = AList.update k v d"

definition dpop :: "string \<Rightarrow> pdict \<Rightarrow> pdict" where
  \<comment> \<open>\<open>d.pop(k, None)\<close>\<close>
  "dpop k d = AList.delete k d"

definition dupdate :: "pdict \<Rightarrow> pdict \<Rightarrow> pdict" where
  \<comment> \<open>\<open>d.update(e)\<close>\<close>
  "dupdate d e = foldl (\<lambda>acc (k, v). dput k v acc) d e"

fun truthy :: "pv \<Rightarrow> bool" where
  "truthy PNone = False"
| "truthy (PBool b) = b"
| "truthy (PInt i) = (i \<noteq> 0)"
| "truthy (PFloat r _) = (r \<noteq> 0)"
| "truthy (PStr s) = (s \<noteq> [])"
| "truthy (PList xs) = (xs \<noteq> [])"
| "truthy (PDict d) = (d \<noteq> [])"

definition por :: "pv \<Rightarrow> pv \<Rightarrow> pv" where
  \<comment> \<open>\<open>a or b\<close>\<close>
  "por a b = (if truthy a then a else b)"

definition is_none :: "pv \<Rightarrow> bool" where
  "is_none v \<longleftrightarrow> v = PNone"

fun is_bool :: "pv \<Rightarrow> bool" where
  "is_bool (PBool _) = True" | "is_bool _ = False"

fun is_str :: "pv \<Rightarrow> bool" where
  "is_str (PStr _) = True" | "is_str _ = False"

fun is_list :: "pv \<Rightarrow> bool" where
  "is_list (PList _) = True" | "is_list _ = False"

fun is_dict :: "pv \<Rightarrow> bool" where
  "is_dict (PDict _) = True" | "is_dict _ = False"

text \<open>\<open>isinstance(v, int)\<close> accepts booleans; \<open>isinstance(v, (int, float))\<close> too.\<close>

fun is_int :: "pv \<Rightarrow> bool" where
  "is_int (PInt _) = True" | "is_int (PBool _) = True" | "is_int _ = False"

fun pnum :: "pv \<Rightarrow> rat option" where
  "pnum (PBool b) = Some (if b then 1 else 0)"
| "pnum (PInt i) = Some (of_int i)"
| "pnum (PFloat r _) = Some r"
| "pnum _ = None"

fun the_str :: "pv \<Rightarrow> string" where
  "the_str (PStr s) = s" | "the_str _ = []"

fun the_list :: "pv \<Rightarrow> pv list" where
  "the_list (PList xs) = xs" | "the_list _ = []"

fun the_dict :: "pv \<Rightarrow> pdict" where
  "the_dict (PDict d) = d" | "the_dict _ = []"

text \<open>\<open>v is True\<close>\<close>

definition is_true :: "pv \<Rightarrow> bool" where
  "is_true v \<longleftrightarrow> v = PBool True"

text \<open>Only lists and dictionaries are unhashable among these values.\<close>

fun hashable :: "pv \<Rightarrow> bool" where
  "hashable (PList _) = False" | "hashable (PDict _) = False" | "hashable _ = True"

text \<open>Python's \<open>==\<close>: numbers compare across types, dictionaries as maps.\<close>

function py_eq :: "pv \<Rightarrow> pv \<Rightarrow> bool"
  and py_eq_list :: "pv list \<Rightarrow> pv list \<Rightarrow> bool"
  and py_eq_dict :: "pdict \<Rightarrow> pdict \<Rightarrow> bool" where
  "py_eq v w =
     (case (v, w) of
        (PNone, PNone) \<Rightarrow> True
      | (PStr s, PStr t) \<Rightarrow> s = t
      | (PList xs, PList ys) \<Rightarrow> py_eq_list xs ys
      | (PDict d, PDict e) \<Rightarrow> length d = length e \<and> py_eq_dict d e
      | _ \<Rightarrow> (case pnum v of None \<Rightarrow> False | Some a \<Rightarrow> pnum w = Some a))"
| "py_eq_list [] ys = (ys = [])"
| "py_eq_list (x # xs) ys = (case ys of [] \<Rightarrow> False | y # ys' \<Rightarrow> py_eq x y \<and> py_eq_list xs ys')"
| "py_eq_dict [] e = True"
| "py_eq_dict ((k, v) # d) e =
     (case map_of e k of None \<Rightarrow> False | Some w \<Rightarrow> py_eq v w \<and> py_eq_dict d e)"
  by pat_completeness auto
termination
  by (relation "measure (case_sum (\<lambda>(v, _). size v)
        (case_sum (\<lambda>(xs, _). size_list size xs) (\<lambda>(d, _). size_list (size_prod (\<lambda>_. 0) size) d)))")
     auto

declare py_eq.simps [simp del]

lemma py_eq_str [simp]: "py_eq (PStr s) w \<longleftrightarrow> w = PStr s"
  by (cases w) (auto simp: py_eq.simps)

lemma py_eq_str2 [simp]: "py_eq w (PStr s) \<longleftrightarrow> w = PStr s"
  by (cases w) (auto simp: py_eq.simps split: option.splits)

definition py_mem :: "pv \<Rightarrow> pv list \<Rightarrow> bool" where
  \<comment> \<open>\<open>x in xs\<close> for a list\<close>
  "py_mem x xs \<longleftrightarrow> (\<exists>y \<in> set xs. py_eq y x)"

section \<open>Exceptions as values\<close>

text \<open>
  The exceptions that code of the runtime can raise; \<open>IntegrityErr\<close> is
  \<open>sqlite3.IntegrityError\<close>, for a duplicate primary key.
\<close>

datatype exn = TypeErr | AttrErr | ValueErr | KeyErr | IndexErr | IntegrityErr | RuntimeErr

type_synonym 'a res = "exn + 'a"

definition rbind :: "'e + 'a \<Rightarrow> ('a \<Rightarrow> 'e + 'b) \<Rightarrow> 'e + 'b" where
  "rbind m f = (case m of Inl e \<Rightarrow> Inl e | Inr x \<Rightarrow> f x)"

lemma rbind_Inl [simp, res_simps]: "rbind (Inl e) f = Inl e"
  by (simp add: rbind_def)

lemma rbind_Inr [simp, res_simps]: "rbind (Inr x) f = f x"
  by (simp add: rbind_def)

lemma rbind_eq_Inr: "rbind m f = Inr y \<longleftrightarrow> (\<exists>x. m = Inr x \<and> f x = Inr y)"
  by (cases m) auto

lemma rbind_eq_Inl: "rbind m f = Inl e \<longleftrightarrow> m = Inl e \<or> (\<exists>x. m = Inr x \<and> f x = Inl e)"
  by (cases m) auto

lemma rbind_assoc: "rbind (rbind m f) g = rbind m (\<lambda>x. rbind (f x) g)"
  by (cases m) auto

text \<open>A loop whose body may raise, threading a state; and one that collects lists.\<close>

fun rfold :: "('a \<Rightarrow> 's \<Rightarrow> 'e + 's) \<Rightarrow> 'a list \<Rightarrow> 's \<Rightarrow> 'e + 's" where
  "rfold f [] s = Inr s"
| "rfold f (x # xs) s = rbind (f x s) (rfold f xs)"

fun rconcat :: "('a \<Rightarrow> 'e + 'b list) \<Rightarrow> 'a list \<Rightarrow> 'e + 'b list" where
  "rconcat f [] = Inr []"
| "rconcat f (x # xs) = rbind (f x) (\<lambda>ys. rbind (rconcat f xs) (\<lambda>zs. Inr (ys @ zs)))"

lemma rconcat_Inr_Nil:
  "rconcat f xs = Inr [] \<longleftrightarrow> (\<forall>x \<in> set xs. f x = Inr [])"
  by (induction xs) (auto simp: rbind_eq_Inr)

lemma rconcat_total:
  "(\<And>x. x \<in> set xs \<Longrightarrow> f x = Inr (g x)) \<Longrightarrow> rconcat f xs = Inr (concat (map g xs))"
  by (induction xs) auto

lemma rfold_invariant:
  assumes "rfold f xs s = Inr t" and "I s"
    and "\<And>x s s'. x \<in> set xs \<Longrightarrow> I s \<Longrightarrow> f x s = Inr s' \<Longrightarrow> I s'"
  shows "I t"
  using assms
proof (induction xs arbitrary: s)
  case Nil
  then show ?case by simp
next
  case (Cons x xs)
  from Cons.prems(1) obtain s' where s': "f x s = Inr s'" "rfold f xs s' = Inr t"
    by (auto simp: rbind_eq_Inr)
  moreover have "I s'" using Cons.prems(2,3) s'(1) by auto
  ultimately show ?case using Cons.IH Cons.prems(3) by auto
qed

lemma rfold_append: "rfold f (xs @ ys) s = rbind (rfold f xs s) (rfold f ys)"
proof (induction xs arbitrary: s)
  case (Cons x xs)
  then show ?case by (cases "f x s") auto
qed simp

text \<open>
  \<open>v in {"a", "b"}\<close> for a set of strings hashes \<open>v\<close>, and so raises \<open>TypeError\<close> on a list or
  a dictionary; \<open>v in ("a", "b")\<close> compares only.
\<close>

definition pin_set :: "pv \<Rightarrow> string list \<Rightarrow> bool res" where
  "pin_set v ss = (if hashable v then Inr (v \<in> PStr ` set ss) else Inl TypeErr)"

definition pin_tuple :: "pv \<Rightarrow> string list \<Rightarrow> bool" where
  "pin_tuple v ss \<longleftrightarrow> v \<in> PStr ` set ss"

lemma pin_set_str [simp]: "pin_set (PStr s) ss = Inr (s \<in> set ss)"
  by (auto simp: pin_set_def)

lemma pin_set_Inr: "pin_set v ss = Inr b \<Longrightarrow> b \<longleftrightarrow> (\<exists>s \<in> set ss. v = PStr s)"
  by (auto simp: pin_set_def split: if_splits)

lemma pin_set_True: "pin_set v ss = Inr True \<longleftrightarrow> (\<exists>s \<in> set ss. v = PStr s)"
  by (auto simp: pin_set_def)

section \<open>Strings\<close>

definition is_ws :: "char \<Rightarrow> bool" where
  "is_ws c \<longleftrightarrow> (let n = of_char c :: nat in (9 \<le> n \<and> n \<le> 13) \<or> (28 \<le> n \<and> n \<le> 32))"

definition is_digit :: "char \<Rightarrow> bool" where
  "is_digit c \<longleftrightarrow> (let n = of_char c :: nat in 48 \<le> n \<and> n \<le> 57)"

definition lower_char :: "char \<Rightarrow> char" where
  "lower_char c = (let n = of_char c :: nat in if 65 \<le> n \<and> n \<le> 90 then char_of (n + 32) else c)"

definition lower :: "string \<Rightarrow> string" where
  \<comment> \<open>\<open>s.lower()\<close> and \<open>s.casefold()\<close>\<close>
  "lower s = map lower_char s"

definition rstrip_by :: "(char \<Rightarrow> bool) \<Rightarrow> string \<Rightarrow> string" where
  "rstrip_by p s = rev (dropWhile p (rev s))"

definition strip_by :: "(char \<Rightarrow> bool) \<Rightarrow> string \<Rightarrow> string" where
  "strip_by p s = rstrip_by p (dropWhile p s)"

definition strip :: "string \<Rightarrow> string" where
  \<comment> \<open>\<open>s.strip()\<close>\<close>
  "strip s = strip_by is_ws s"

definition strip_chars :: "string \<Rightarrow> string \<Rightarrow> string" where
  \<comment> \<open>\<open>s.strip(cs)\<close>\<close>
  "strip_chars cs s = strip_by (\<lambda>c. c \<in> set cs) s"

definition replace_char :: "char \<Rightarrow> char \<Rightarrow> string \<Rightarrow> string" where
  \<comment> \<open>\<open>s.replace(a, b)\<close> for one-character strings\<close>
  "replace_char a b s = map (\<lambda>c. if c = a then b else c) s"

fun split_on :: "char \<Rightarrow> string \<Rightarrow> string list" where
  \<comment> \<open>\<open>s.split(c)\<close> for a one-character separator\<close>
  "split_on c [] = [[]]"
| "split_on c (x # xs) =
     (if x = c then [] # split_on c xs
      else (case split_on c xs of [] \<Rightarrow> [[x]] | y # ys \<Rightarrow> (x # y) # ys))"

function split_ws :: "string \<Rightarrow> string list" where
  \<comment> \<open>\<open>s.split()\<close>\<close>
  "split_ws s =
     (let t = dropWhile is_ws s in
      if t = [] then [] else takeWhile (\<lambda>c. \<not> is_ws c) t # split_ws (dropWhile (\<lambda>c. \<not> is_ws c) t))"
  by pat_completeness auto

lemma length_dropWhile_less: "xs \<noteq> [] \<Longrightarrow> P (hd xs) \<Longrightarrow> length (dropWhile P xs) < length xs"
  by (cases xs) (auto simp: le_imp_less_Suc length_dropWhile_le)

termination split_ws
proof (relation "measure length", simp)
  fix s t :: string
  assume t: "t = dropWhile is_ws s" and ne: "t \<noteq> []"
  then have "\<not> is_ws (hd t)" using hd_dropWhile by blast
  then have "length (dropWhile (\<lambda>c. \<not> is_ws c) t) < length t"
    using ne by (intro length_dropWhile_less) auto
  also have "\<dots> \<le> length s" by (simp add: t length_dropWhile_le)
  finally show "(dropWhile (\<lambda>c. \<not> is_ws c) t, s) \<in> measure length" by simp
qed

declare split_ws.simps [simp del]

fun join :: "string \<Rightarrow> string list \<Rightarrow> string" where
  \<comment> \<open>\<open>sep.join(xs)\<close>\<close>
  "join sep [] = []"
| "join sep [x] = x"
| "join sep (x # y # zs) = x @ sep @ join sep (y # zs)"

definition squash :: "string \<Rightarrow> string" where
  \<comment> \<open>\<open>" ".join(s.split())\<close>\<close>
  "squash s = join '' '' (split_ws s)"

definition has_sub :: "string \<Rightarrow> string \<Rightarrow> bool" where
  \<comment> \<open>\<open>needle in hay\<close>\<close>
  "has_sub needle hay \<longleftrightarrow> sublist needle hay"

definition starts :: "string \<Rightarrow> string \<Rightarrow> bool" where
  \<comment> \<open>\<open>s.startswith(p)\<close>\<close>
  "starts p s \<longleftrightarrow> prefix p s"

definition ends :: "string \<Rightarrow> string \<Rightarrow> bool" where
  \<comment> \<open>\<open>s.endswith(p)\<close>\<close>
  "ends p s \<longleftrightarrow> suffix p s"

definition rsplit_last :: "char \<Rightarrow> string \<Rightarrow> string" where
  \<comment> \<open>\<open>s.rsplit(c, 1)[-1]\<close>\<close>
  "rsplit_last c s = rev (takeWhile (\<lambda>x. x \<noteq> c) (rev s))"

lemma starts_Nil [simp, str_simps]: "starts [] s"
  by (simp add: starts_def)

lemma starts_Cons [simp, str_simps]:
  "starts (x # xs) (y # ys) \<longleftrightarrow> x = y \<and> starts xs ys" "\<not> starts (x # xs) []"
  by (auto simp: starts_def)

lemma has_sub_Cons [str_simps]:
  "has_sub (x # xs) [] \<longleftrightarrow> False"
  "has_sub xs (y # ys) \<longleftrightarrow> starts xs (y # ys) \<or> has_sub xs ys"
  by (auto simp: has_sub_def starts_def sublist_Cons_right)

text \<open>
  The characters of a \<open>str\<close>: a leading byte with its continuation bytes (128 to 191).
  \<open>len(s)\<close> and \<open>s[:n]\<close> count these.
\<close>

definition cont_byte :: "char \<Rightarrow> bool" where
  "cont_byte c \<longleftrightarrow> (let n = of_char c :: nat in 128 \<le> n \<and> n < 192)"

function utf8_chars :: "string \<Rightarrow> string list" where
  "utf8_chars [] = []"
| "utf8_chars (c # cs) = (c # takeWhile cont_byte cs) # utf8_chars (dropWhile cont_byte cs)"
  by pat_completeness auto
termination
  by (relation "measure length") (auto simp: le_imp_less_Suc length_dropWhile_le)

definition ulen :: "string \<Rightarrow> nat" where
  "ulen s = length (utf8_chars s)"

definition utake :: "nat \<Rightarrow> string \<Rightarrow> string" where
  "utake n s = concat (take n (utf8_chars s))"

lemma concat_utf8_chars: "concat (utf8_chars s) = s"
  by (induction s rule: utf8_chars.induct) auto

lemma prefix_utake: "prefix (utake n s) s"
proof -
  have "s = concat (take n (utf8_chars s)) @ concat (drop n (utf8_chars s))"
    by (metis append_take_drop_id concat_append concat_utf8_chars)
  then show ?thesis unfolding utake_def prefix_def by blast
qed

lemma utake_all: "ulen s \<le> n \<Longrightarrow> utake n s = s"
  by (simp add: utake_def ulen_def concat_utf8_chars)

lemma takeWhile_append_prefix:
  assumes "prefix u (dropWhile p xs)"
  shows "takeWhile p (takeWhile p xs @ u) = takeWhile p xs" "dropWhile p (takeWhile p xs @ u) = u"
proof -
  have all: "\<forall>x \<in> set (takeWhile p xs). p x" by (auto dest: set_takeWhileD)
  have stop: "takeWhile p u = [] \<and> dropWhile p u = u"
  proof (cases u)
    case (Cons a v)
    then obtain zs where "dropWhile p xs = a # zs" using assms by (auto elim: prefixE)
    then have "\<not> p a" using hd_dropWhile [of p xs] by simp
    then show ?thesis using Cons by simp
  qed simp
  show "takeWhile p (takeWhile p xs @ u) = takeWhile p xs" using all stop by (simp add: takeWhile_append2)
  show "dropWhile p (takeWhile p xs @ u) = u" using all stop by (simp add: dropWhile_append2)
qed

lemma utf8_chars_utake: "utf8_chars (utake n s) = take n (utf8_chars s)"
proof (induction s arbitrary: n rule: utf8_chars.induct)
  case 1
  show ?case by (simp add: utake_def)
next
  case (2 c cs)
  show ?case
  proof (cases n)
    case 0
    then show ?thesis by (simp add: utake_def)
  next
    case (Suc m)
    have eq: "utake n (c # cs) = c # takeWhile cont_byte cs @ utake m (dropWhile cont_byte cs)"
      by (simp add: utake_def Suc)
    show ?thesis
      unfolding eq using takeWhile_append_prefix [OF prefix_utake [of m "dropWhile cont_byte cs"]] 2 [of m]
      by (simp add: Suc)
  qed
qed

lemma ulen_utake: "ulen (utake n s) = min n (ulen s)"
  by (simp add: ulen_def utf8_chars_utake)

lemma utake_eq_Nil: "utake n s = [] \<longleftrightarrow> n = 0 \<or> s = []"
  by (cases s; cases n) (auto simp: utake_def)

lemma ulen_ascii: "list_all (\<lambda>c. \<not> cont_byte c) s \<Longrightarrow> ulen s = length s"
proof (induction s)
  case (Cons c s)
  then have "takeWhile cont_byte s = [] \<and> dropWhile cont_byte s = s" by (cases s) auto
  then show ?case using Cons by (simp add: ulen_def)
qed (simp add: ulen_def)

lemma ulen_eq_0: "ulen s = 0 \<longleftrightarrow> s = []"
  by (cases s) (auto simp: ulen_def)

lemma ulen_ge_1: "Suc 0 \<le> ulen s \<longleftrightarrow> s \<noteq> []"
  using ulen_eq_0 [of s] by linarith

section \<open>Printing\<close>

fun nat_digits :: "nat \<Rightarrow> string" where
  "nat_digits n = (if n < 10 then [char_of (48 + n)] else nat_digits (n div 10) @ [char_of (48 + n mod 10)])"

declare nat_digits.simps [simp del]

lemma digits_ascii: "list_all (\<lambda>c. \<not> cont_byte c) (nat_digits n)"
proof (induction n rule: nat_digits.induct)
  case (1 n)
  have d: "\<not> cont_byte (char_of (48 + m))" if "m < 10" for m :: nat
    using that by (simp add: cont_byte_def Let_def)
  show ?case
  proof (cases "n < 10")
    case True
    then show ?thesis using d by (subst nat_digits.simps) simp
  next
    case False
    then have "list_all (\<lambda>c. \<not> cont_byte c) (nat_digits (n div 10))" using 1 by simp
    then show ?thesis using False d [of "n mod 10"] by (subst nat_digits.simps) simp
  qed
qed

definition int_str :: "int \<Rightarrow> string" where
  "int_str i = (if i < 0 then ''-'' @ nat_digits (nat (- i)) else nat_digits (nat i))"

definition hex_digit :: "nat \<Rightarrow> char" where
  "hex_digit n = (if n < 10 then char_of (48 + n) else char_of (87 + n))"

definition quote_char :: "string \<Rightarrow> char" where
  "quote_char s = (if CHR 0x27 \<in> set s \<and> CHR 0x22 \<notin> set s then CHR 0x22 else CHR 0x27)"

definition escape_char :: "char \<Rightarrow> char \<Rightarrow> string" where
  "escape_char q c =
     (let n = of_char c :: nat in
      if c = q \<or> c = CHR 0x5C then [CHR 0x5C, c]
      else if n = 10 then [CHR 0x5C, CHR ''n'']
      else if n = 13 then [CHR 0x5C, CHR ''r'']
      else if n = 9 then [CHR 0x5C, CHR ''t'']
      else if n < 32 \<or> n = 127 then [CHR 0x5C, CHR ''x'', hex_digit (n div 16), hex_digit (n mod 16)]
      else [c])"

definition repr_str :: "string \<Rightarrow> string" where
  "repr_str s = (let q = quote_char s in [q] @ concat (map (escape_char q) s) @ [q])"

fun py_repr :: "pv \<Rightarrow> string" where
  "py_repr PNone = ''None''"
| "py_repr (PBool b) = (if b then ''True'' else ''False'')"
| "py_repr (PInt i) = int_str i"
| "py_repr (PFloat r t) = t"
| "py_repr (PStr s) = repr_str s"
| "py_repr (PList xs) = ''['' @ join '', '' (map py_repr xs) @ '']''"
| "py_repr (PDict d) = ''{'' @ join '', '' (map (\<lambda>(k, v). repr_str k @ '': '' @ py_repr v) d) @ ''}''"

fun py_str :: "pv \<Rightarrow> string" where
  \<comment> \<open>\<open>str(v)\<close>\<close>
  "py_str (PStr s) = s"
| "py_str v = py_repr v"

section \<open>Parsing of integers\<close>

definition digits_value :: "string \<Rightarrow> nat" where
  "digits_value s = foldl (\<lambda>n c. 10 * n + (of_char c - 48)) 0 s"

definition parse_nat :: "string \<Rightarrow> nat option" where
  \<comment> \<open>digits, with single underscores between them\<close>
  "parse_nat s =
     (let parts = split_on CHR ''_'' s in
      if list_all (\<lambda>p. p \<noteq> [] \<and> list_all is_digit p) parts then Some (digits_value (concat parts)) else None)"

definition parse_int :: "string \<Rightarrow> int option" where
  \<comment> \<open>\<open>int(s)\<close> for a string; \<open>None\<close> stands for the \<open>ValueError\<close>\<close>
  "parse_int s =
     (case strip s of
        [] \<Rightarrow> None
      | c # cs \<Rightarrow> if c = CHR ''-'' then map_option (\<lambda>n. - int n) (parse_nat cs)
                  else if c = CHR ''+'' then map_option int (parse_nat cs)
                  else map_option int (parse_nat (c # cs)))"

definition trunc_rat :: "rat \<Rightarrow> int" where
  "trunc_rat r = (if r < 0 then - floor (- r) else floor r)"

definition py_int :: "pv \<Rightarrow> int res" where
  \<comment> \<open>\<open>int(v)\<close>\<close>
  "py_int v =
     (case v of
        PBool b \<Rightarrow> Inr (if b then 1 else 0)
      | PInt i \<Rightarrow> Inr i
      | PFloat r _ \<Rightarrow> Inr (trunc_rat r)
      | PStr s \<Rightarrow> (case parse_int s of None \<Rightarrow> Inl ValueErr | Some i \<Rightarrow> Inr i)
      | _ \<Rightarrow> Inl TypeErr)"

section \<open>Iteration and membership\<close>

definition py_iter :: "pv \<Rightarrow> pv list res" where
  \<comment> \<open>\<open>iter(v)\<close>\<close>
  "py_iter v = (case v of PList xs \<Rightarrow> Inr xs
                        | PDict d \<Rightarrow> Inr (map (PStr \<circ> fst) d)
                        | PStr s \<Rightarrow> Inr (map PStr (utf8_chars s))
                        | _ \<Rightarrow> Inl TypeErr)"

definition pin :: "pv \<Rightarrow> pv \<Rightarrow> bool res" where
  \<comment> \<open>\<open>x in v\<close>\<close>
  "pin x v = (case v of PList xs \<Rightarrow> Inr (py_mem x xs)
                      | PDict d \<Rightarrow> if hashable x then Inr (case x of PStr k \<Rightarrow> dhas d k | _ \<Rightarrow> False) else Inl TypeErr
                      | PStr s \<Rightarrow> (case x of PStr u \<Rightarrow> Inr (has_sub u s) | _ \<Rightarrow> Inl TypeErr)
                      | _ \<Rightarrow> Inl TypeErr)"

section \<open>Lists\<close>

definition enum :: "'a list \<Rightarrow> (nat \<times> 'a) list" where
  \<comment> \<open>\<open>enumerate(xs)\<close>\<close>
  "enum xs = zip [0..<length xs] xs"

lemma setcompr_image: "{g r |r. r \<in> f ` S \<and> P r} = {g (f r) |r. r \<in> S \<and> P (f r)}"
  by blast

lemma set_enum: "set (enum xs) = {(i, xs ! i) |i. i < length xs}"
  by (force simp: enum_def set_zip)

lemma snd_set_enum: "snd ` set (enum xs) = set xs"
proof -
  have "map snd (enum xs) = xs" by (simp add: enum_def)
  then show ?thesis by (metis list.set_map)
qed

fun dedupe :: "'a list \<Rightarrow> 'a list \<Rightarrow> 'a list" where
  \<comment> \<open>the loop \<open>if x in seen: continue; seen.add(x); out.append(x)\<close>\<close>
  "dedupe seen [] = []"
| "dedupe seen (x # xs) = (if x \<in> set seen then dedupe seen xs else x # dedupe (x # seen) xs)"

lemma set_dedupe: "set (dedupe seen xs) = set xs - set seen"
  by (induction seen xs rule: dedupe.induct) auto

lemma distinct_dedupe: "distinct (dedupe seen xs)"
  by (induction seen xs rule: dedupe.induct) (auto simp: set_dedupe)

lemma dedupe_cong_set: "set s = set t \<Longrightarrow> dedupe s xs = dedupe t xs"
proof (induction xs arbitrary: s t)
  case (Cons x xs)
  from Cons.prems have "set (x # s) = set (x # t)" by simp
  then show ?case using Cons.IH [of "x # s" "x # t"] Cons.IH [OF Cons.prems] Cons.prems by simp
qed simp

lemma dedupe_append: "dedupe seen (xs @ ys) = dedupe seen xs @ dedupe (xs @ seen) ys"
proof (induction xs arbitrary: seen)
  case (Cons x xs)
  have "dedupe (xs @ x # seen) ys = dedupe (x # xs @ seen) ys" by (rule dedupe_cong_set) auto
  moreover have "x \<in> set seen \<Longrightarrow> dedupe (xs @ seen) ys = dedupe (x # xs @ seen) ys"
    by (rule dedupe_cong_set) auto
  ultimately show ?case using Cons.IH by simp
qed simp

lemma dedupe_distinct: "distinct xs \<Longrightarrow> set xs \<inter> set seen = {} \<Longrightarrow> dedupe seen xs = xs"
  by (induction xs arbitrary: seen) auto

lemma dedupe_subset: "set xs \<subseteq> set seen \<Longrightarrow> dedupe seen xs = []"
  by (induction xs) auto

section \<open>Lemmas on dictionaries and strings\<close>

lemma dget_dput: "dget (dput k v d) k' = (if k' = k then v else dget d k')"
  by (simp add: dget_def dput_def update_conv')

lemma dhas_dput: "dhas (dput k v d) k' \<longleftrightarrow> k' = k \<or> dhas d k'"
  by (simp add: dhas_def dput_def update_conv')

lemma dget_dpop: "dget (dpop k d) k' = (if k' = k then PNone else dget d k')"
  by (simp add: dget_def dpop_def delete_conv')

lemma dhas_dpop: "dhas (dpop k d) k' \<longleftrightarrow> k' \<noteq> k \<and> dhas d k'"
  by (simp add: dhas_def dpop_def delete_conv')

lemma dget_not_dhas: "\<not> dhas d k \<Longrightarrow> dget d k = PNone"
  by (simp add: dget_def dhas_def)

lemma dget_Nil [simp]: "dget [] k = PNone"
  by (simp add: dget_def)

lemma dget_Cons: "dget ((k, v) # d) k' = (if k' = k then v else dget d k')"
  by (simp add: dget_def)

lemma dropWhile_idem: "dropWhile P (dropWhile P xs) = dropWhile P xs"
  by (induction xs) auto

lemma rstrip_by_idem: "rstrip_by p (rstrip_by p s) = rstrip_by p s"
  by (simp add: rstrip_by_def dropWhile_idem)

lemma rstrip_by_Nil [simp]: "rstrip_by p [] = []"
  by (simp add: rstrip_by_def)

lemma rstrip_by_Cons:
  "rstrip_by p (x # xs) = (if p x \<and> rstrip_by p xs = [] then [] else x # rstrip_by p xs)"
  by (auto simp: rstrip_by_def dropWhile_append dropWhile_eq_Nil_conv)

lemma hd_rstrip_by: "rstrip_by p s \<noteq> [] \<Longrightarrow> hd (rstrip_by p s) = hd s"
  by (cases s) (auto simp: rstrip_by_Cons split: if_splits)

lemma strip_by_idem: "strip_by p (strip_by p s) = strip_by p s"
proof (cases "strip_by p s")
  case Nil
  then show ?thesis by (simp add: strip_by_def)
next
  case (Cons a list)
  then have ne: "rstrip_by p (dropWhile p s) \<noteq> []" by (simp add: strip_by_def)
  then have "dropWhile p s \<noteq> []" by (metis rstrip_by_Nil)
  then have "\<not> p (hd (dropWhile p s))" using hd_dropWhile by blast
  then have "\<not> p (hd (strip_by p s))" using ne by (simp add: strip_by_def hd_rstrip_by)
  then have "dropWhile p (strip_by p s) = strip_by p s" using Cons by simp
  then show ?thesis by (metis strip_by_def rstrip_by_idem)
qed

lemma strip_idem [simp]: "strip (strip s) = strip s"
  by (simp add: strip_def strip_by_idem)

end
