(* ===== verification/TaskState.thy ===== *)
theory TaskState
  imports Prelude
begin

text \<open>
  The task state machine (\<open>state/task_state_machine.py\<close>) and the operations that move a
  task through it: cancelling and pausing (\<open>orchestrator/publishing.py\<close>), resuming after an
  approval (\<open>orchestrator/approval_flow.py\<close>) and the per-session queue
  (\<open>orchestrator/service.py\<close>). The task table is a list of rows in insertion order; the
  effects on the outside (events, hooks, background commands) are a trace, in order.
\<close>

section \<open>The transition table\<close>

definition valid_transitions :: "(string \<times> string list) list" where
  "valid_transitions =
    [(''queued'', [''running'', ''cancelled'']),
     (''running'', [''completed'', ''failed'', ''cancelled'', ''paused'', ''waiting_approval'']),
     (''paused'', [''running'', ''cancelled'']),
     (''waiting_approval'', [''running'', ''cancelled'', ''failed'', ''paused'']),
     (''planning'', [''running'', ''failed'', ''cancelled'']),
     (''verifying'', [''running'', ''failed'', ''cancelled'']),
     (''completed'', []),
     (''failed'', []),
     (''cancelled'', [])]"

definition allowed_targets :: "string \<Rightarrow> string list" where
  "allowed_targets s = (case map_of valid_transitions s of None \<Rightarrow> [] | Some ts \<Rightarrow> ts)"

text \<open>
  The error carries the task, the two statuses and the allowed targets that the message
  prints. The result of an accepted call says whether the warning was logged.
\<close>

datatype transition_error = IllegalTransition string string string "string list"

definition assert_transition ::
  "string \<Rightarrow> string \<Rightarrow> string \<Rightarrow> bool \<Rightarrow> transition_error + bool" where
  "assert_transition current_status target_status task_id silent =
     (let allowed = allowed_targets current_status in
      if target_status \<in> set allowed then Inr False
      else if \<not> silent then Inl (IllegalTransition task_id current_status target_status allowed)
      else Inr True)"

section \<open>State machines given by a table\<close>

text \<open>
  The contract of a table-driven machine: the listed terminal states have no successor, and
  every successor is itself a state of the table. What follows for runs is proved once.
\<close>

locale table_machine =
  fixes targets :: "'s \<Rightarrow> 's list"
    and terminal :: "'s \<Rightarrow> bool"
    and known :: "'s \<Rightarrow> bool"
  assumes terminal_stuck: "terminal s \<Longrightarrow> targets s = []"
    and targets_known: "t \<in> set (targets s) \<Longrightarrow> known t"
begin

lemma run_from_terminal: "(\<lambda>a b. b \<in> set (targets a))\<^sup>*\<^sup>* s t \<Longrightarrow> terminal s \<Longrightarrow> t = s"
  by (induction rule: rtranclp_induct) (auto simp: terminal_stuck)

lemma run_known: "(\<lambda>a b. b \<in> set (targets a))\<^sup>*\<^sup>* s t \<Longrightarrow> known s \<Longrightarrow> known t"
  by (induction rule: rtranclp_induct) (auto simp: targets_known)

end

definition terminal_status :: "string \<Rightarrow> bool" where
  "terminal_status s \<longleftrightarrow> s \<in> {''completed'', ''failed'', ''cancelled''}"

definition known_status :: "string \<Rightarrow> bool" where
  "known_status s \<longleftrightarrow> s \<in> fst ` set valid_transitions"

lemmas tsm_defs = allowed_targets_def valid_transitions_def terminal_status_def known_status_def

interpretation tsm: table_machine allowed_targets terminal_status known_status
proof
  fix s t
  show "terminal_status s \<Longrightarrow> allowed_targets s = []" by (auto simp: tsm_defs)
  assume "t \<in> set (allowed_targets s)"
  then show "known_status t" by (auto simp: tsm_defs split: if_splits)
qed

text \<open>One accepted, non-silent call of \<open>assert_transition\<close> is a step of the machine.\<close>

inductive tsm_step :: "string \<Rightarrow> string \<Rightarrow> bool" where
  accepted: "assert_transition s t task_id False = Inr w \<Longrightarrow> tsm_step s t"

inductive_simps tsm_step_iff: "tsm_step s t"

lemma tsm_step_targets: "tsm_step s t \<longleftrightarrow> t \<in> set (allowed_targets s)"
  by (auto simp: tsm_step_iff assert_transition_def Let_def)

lemma tsm_step_eq: "tsm_step = (\<lambda>a b. b \<in> set (allowed_targets a))"
  by (intro ext) (simp add: tsm_step_targets)

lemma assert_transition_Inr: "assert_transition s t i False = Inr w \<longleftrightarrow> t \<in> set (allowed_targets s) \<and> \<not> w"
  by (auto simp: assert_transition_def Let_def)

section \<open>The task table\<close>

record task_row =
  t_id :: string
  t_session :: string
  t_status :: string
  t_created :: int
  t_updated :: int

datatype effect =
    Published string string string \<comment> \<open>event type, task, status in the payload\<close>
  | HookFired string string
  | BackgroundCancelled string
  | PendingToolTerminated string string
  | PendingReactCleared string
  | StorageCleanup string
  | MessageCreated string
  | BackgroundStarted string
  | TaskRemembered string
  | MemoriesConsolidated string
  | MetricsRecorded string string

record runtime =
  tasks :: "task_row list"
  clock :: int
  effects :: "effect list"

datatype task_error = TaskNotFound string | Transition transition_error

definition emit :: "effect list \<Rightarrow> runtime \<Rightarrow> runtime" where
  "emit es st = st\<lparr>effects := effects st @ es\<rparr>"

definition find_task :: "runtime \<Rightarrow> string \<Rightarrow> task_row option" where
  "find_task st i = List.find (\<lambda>r. t_id r = i) (tasks st)"

definition get_task :: "runtime \<Rightarrow> string \<Rightarrow> task_error + task_row" where
  "get_task st i = (case find_task st i of None \<Rightarrow> Inl (TaskNotFound i) | Some r \<Rightarrow> Inr r)"

definition set_status :: "string \<Rightarrow> string \<Rightarrow> runtime \<Rightarrow> runtime" where
  "set_status i s st =
     st\<lparr>tasks := map (\<lambda>r. if t_id r = i then r\<lparr>t_status := s, t_updated := clock st\<rparr> else r) (tasks st)\<rparr>"

definition update_task_status :: "runtime \<Rightarrow> string \<Rightarrow> string \<Rightarrow> task_error + (runtime \<times> task_row)" where
  "update_task_status st i s =
     (let st' = set_status i s st in rbind (get_task st' i) (\<lambda>r. Inr (st', r)))"

text \<open>\<open>update_task(task_id, status=...)\<close> also triggers the storage cleanup on a final status.\<close>

definition update_task_with_status :: "runtime \<Rightarrow> string \<Rightarrow> string \<Rightarrow> task_error + (runtime \<times> task_row)" where
  "update_task_with_status st i s =
     (let st' = set_status i s st;
          st'' = (if terminal_status s then emit [StorageCleanup (''task_'' @ s)] st' else st')
      in rbind (get_task st'' i) (\<lambda>r. Inr (st'', r)))"

definition validate_task_transition :: "string \<Rightarrow> string \<Rightarrow> string \<Rightarrow> bool \<Rightarrow> task_error + bool" where
  "validate_task_transition current target i silent =
     (case assert_transition current target i silent of Inl e \<Rightarrow> Inl (Transition e) | Inr w \<Rightarrow> Inr w)"

definition cancel_task :: "runtime \<Rightarrow> string \<Rightarrow> task_error + (runtime \<times> task_row)" where
  "cancel_task st i =
     rbind (get_task st i) (\<lambda>task.
       if terminal_status (t_status task) then Inr (st, task)
       else rbind (validate_task_transition (t_status task) ''cancelled'' (t_id task) False) (\<lambda>_.
         let st1 = emit [BackgroundCancelled (t_id task), PendingToolTerminated (t_id task) ''cancelled''] st
         in rbind (update_task_with_status st1 i ''cancelled'') (\<lambda>(st2, task2).
              Inr (emit [PendingReactCleared (t_id task2),
                         Published ''task.cancelled'' (t_id task2) (t_status task2),
                         HookFired ''on_task_cancel'' (t_id task2)] st2, task2))))"

definition pause_task :: "runtime \<Rightarrow> string \<Rightarrow> task_error + (runtime \<times> task_row)" where
  "pause_task st i =
     rbind (get_task st i) (\<lambda>task.
       rbind (validate_task_transition (t_status task) ''paused'' (t_id task) False) (\<lambda>_.
         rbind (update_task_with_status st (t_id task) ''paused'') (\<lambda>(st2, paused).
           Inr (emit [Published ''task.paused'' (t_id paused) (t_status paused),
                      HookFired ''on_task_pause'' (t_id paused)] st2, paused))))"

text \<open>The caller passes its own copy of the task; only its status is looked at.\<close>

definition ensure_task_running_after_approval ::
  "runtime \<Rightarrow> task_row \<Rightarrow> task_error + (runtime \<times> task_row)" where
  "ensure_task_running_after_approval st task =
     (if t_status task = ''running'' then Inr (st, task)
      else rbind (validate_task_transition (t_status task) ''running'' (t_id task) False) (\<lambda>_.
        rbind (update_task_status st (t_id task) ''running'') (\<lambda>(st2, t2).
          Inr (emit [Published ''task.updated'' (t_id t2) ''running''] st2, t2))))"

section \<open>The session queue\<close>

definition list_session_tasks :: "runtime \<Rightarrow> string \<Rightarrow> task_row list" where
  \<comment> \<open>\<open>ORDER BY updated_at DESC, created_at DESC\<close>\<close>
  "list_session_tasks st sid =
     sort_key (\<lambda>r. - t_updated r) (sort_key (\<lambda>r. - t_created r) (filter (\<lambda>r. t_session r = sid) (tasks st)))"

definition list_tasks_by_session_and_status :: "runtime \<Rightarrow> string \<Rightarrow> string \<Rightarrow> task_row list" where
  "list_tasks_by_session_and_status st sid s =
     sort_key t_created (filter (\<lambda>r. t_session r = sid \<and> t_status r = s) (tasks st))"

definition open_statuses :: "string list" where
  "open_statuses = [''running'', ''planning'', ''verifying'', ''waiting_approval'', ''queued'', ''paused'']"

definition active_statuses :: "string list" where
  "active_statuses = [''running'', ''planning'', ''verifying'', ''waiting_approval'', ''paused'']"

definition find_open_session_task :: "runtime \<Rightarrow> string \<Rightarrow> task_row option" where
  "find_open_session_task st sid =
     List.find (\<lambda>r. t_status r \<in> set open_statuses) (list_session_tasks st sid)"

definition drain_session_queue :: "runtime \<Rightarrow> string \<Rightarrow> task_error + runtime" where
  "drain_session_queue st sid =
     (if \<exists>r \<in> set (list_session_tasks st sid). t_status r \<in> set active_statuses then Inr st
      else case list_tasks_by_session_and_status st sid ''queued'' of
        [] \<Rightarrow> Inr st
      | next_task # _ \<Rightarrow>
          rbind (validate_task_transition ''queued'' ''running'' (t_id next_task) False) (\<lambda>_.
          rbind (update_task_status st (t_id next_task) ''running'') (\<lambda>(st2, _).
            Inr (emit [MessageCreated (t_id next_task),
                       Published ''message.created'' (t_id next_task) ''streaming'',
                       Published ''task.started'' (t_id next_task) ''running'',
                       BackgroundStarted (t_id next_task)] st2))))"

section \<open>Lemmas\<close>

lemma tasks_emit [simp]: "tasks (emit es st) = tasks st"
  by (simp add: emit_def)

lemma find_emit [simp]: "find_task (emit es st) i = find_task st i"
  by (simp add: find_task_def)

lemma find_task_set_status:
  "find_task (set_status i s st) j =
     (if j = i then map_option (\<lambda>r. r\<lparr>t_status := s, t_updated := clock st\<rparr>) (find_task st i)
      else find_task st j)"
proof -
  have "List.find (\<lambda>r. t_id r = j) (map (\<lambda>r. if t_id r = i then r\<lparr>t_status := s, t_updated := c\<rparr> else r) rs) =
     (if j = i then map_option (\<lambda>r. r\<lparr>t_status := s, t_updated := c\<rparr>) (List.find (\<lambda>r. t_id r = i) rs)
      else List.find (\<lambda>r. t_id r = j) rs)" for c and rs :: "task_row list"
    by (induction rs) auto
  then show ?thesis by (simp add: find_task_def set_status_def)
qed

lemma find_task_id: "find_task st i = Some r \<Longrightarrow> t_id r = i \<and> r \<in> set (tasks st)"
  by (auto simp: find_task_def find_Some_iff)

lemma get_task_Inr: "get_task st i = Inr r \<longleftrightarrow> find_task st i = Some r"
  by (auto simp: get_task_def split: option.splits)

lemma clock_emit [simp]: "clock (emit es st) = clock st"
  by (simp add: emit_def)

lemma update_task_with_status_found:
  "find_task st i = Some r \<Longrightarrow> update_task_with_status st i s =
     Inr (if terminal_status s then emit [StorageCleanup (''task_'' @ s)] (set_status i s st) else set_status i s st,
          r\<lparr>t_status := s, t_updated := clock st\<rparr>)"
  by (simp add: update_task_with_status_def get_task_def find_task_set_status Let_def)

lemma update_task_status_found:
  "find_task st i = Some r \<Longrightarrow>
   update_task_status st i s = Inr (set_status i s st, r\<lparr>t_status := s, t_updated := clock st\<rparr>)"
  by (simp add: update_task_status_def get_task_def find_task_set_status Let_def)

lemmas task_op_defs = update_task_status_def update_task_with_status_def
  validate_task_transition_def get_task_def find_task_set_status Let_def

definition status_at :: "runtime \<Rightarrow> string \<Rightarrow> string option" where
  "status_at st i = map_option t_status (find_task st i)"

lemma status_at_set_status:
  "status_at (set_status i s st) j = (if j = i \<and> find_task st i \<noteq> None then Some s else status_at st j)"
  by (auto simp: status_at_def find_task_set_status)

lemma status_at_emit [simp]: "status_at (emit es st) j = status_at st j"
  by (simp add: status_at_def)

lemma set_status_missing: "find_task st i = None \<Longrightarrow> status_at (set_status i s st) j = status_at st j"
  by (auto simp: status_at_set_status)

lemma non_terminal_cancellable:
  "known_status s \<Longrightarrow> \<not> terminal_status s \<Longrightarrow> ''cancelled'' \<in> set (allowed_targets s)"
  by (auto simp: tsm_defs)

lemma pausable_iff: "''paused'' \<in> set (allowed_targets s) \<longleftrightarrow> s \<in> {''running'', ''waiting_approval''}"
  by (auto simp: tsm_defs)

lemma queued_to_running: "''running'' \<in> set (allowed_targets ''queued'')"
  by (simp add: tsm_defs)

section \<open>Properties of the state machine\<close>

text \<open>
  C1. A status of the table is one of completed, failed and cancelled exactly when no run of
  accepted transitions ever leaves it: final statuses are final, and no other status is stuck.
\<close>

theorem terminal_statuses_absorbing:
  assumes "known_status s"
  shows "terminal_status s \<longleftrightarrow> (\<forall>t. tsm_step\<^sup>*\<^sup>* s t \<longrightarrow> t = s)"
proof
  assume "terminal_status s"
  then show "\<forall>t. tsm_step\<^sup>*\<^sup>* s t \<longrightarrow> t = s"
    using tsm.run_from_terminal by (auto simp: tsm_step_eq)
next
  assume stuck: "\<forall>t. tsm_step\<^sup>*\<^sup>* s t \<longrightarrow> t = s"
  show "terminal_status s"
  proof (rule ccontr)
    assume nt: "\<not> terminal_status s"
    with assms have "tsm_step s ''cancelled''"
      by (simp add: tsm_step_targets non_terminal_cancellable)
    then have "s = ''cancelled''" using stuck by (metis r_into_rtranclp)
    with nt show False by (simp add: terminal_status_def)
  qed
qed

theorem terminal_statuses_absorbing_witness: "\<not> tsm_step\<^sup>*\<^sup>* ''cancelled'' ''running''"
proof
  assume run: "tsm_step\<^sup>*\<^sup>* ''cancelled'' ''running''"
  have "known_status ''cancelled''" and t: "terminal_status ''cancelled''" by (simp_all add: tsm_defs)
  from terminal_statuses_absorbing [OF this(1)] t run have "''running'' = ''cancelled''" by metis
  then show False by simp
qed

lemma reach_from_queued:
  "tsm_step\<^sup>*\<^sup>* ''queued'' t \<Longrightarrow>
   t \<in> {''queued'', ''running'', ''paused'', ''waiting_approval'', ''completed'', ''failed'', ''cancelled''}"
  by (induction rule: rtranclp_induct) (auto simp: tsm_step_targets tsm_defs)

lemma running_from_queued: "tsm_step\<^sup>*\<^sup>* ''queued'' ''running''"
  by (rule r_into_rtranclp) (simp add: tsm_step_targets tsm_defs)

lemma running_targets:
  "allowed_targets ''running'' = [''completed'', ''failed'', ''cancelled'', ''paused'', ''waiting_approval'']"
  by (simp add: tsm_defs)

lemma steps_from_queued:
  assumes "t \<in> set (allowed_targets ''running'')"
  shows "tsm_step\<^sup>*\<^sup>* ''queued'' t"
  by (rule rtranclp.rtrancl_into_rtrancl [OF running_from_queued]) (simp add: tsm_step_targets assms)

text \<open>
  The statuses that accepted transitions can reach from a freshly queued task are exactly
  seven: planning and verifying, though they have outgoing transitions, are never entered.
\<close>

theorem queued_reachable_statuses:
  "{t. tsm_step\<^sup>*\<^sup>* ''queued'' t} =
   {''queued'', ''running'', ''paused'', ''waiting_approval'', ''completed'', ''failed'', ''cancelled''}"
  (is "?L = ?R")
proof
  show "?L \<subseteq> ?R" by (rule subsetI, drule CollectD, rule reach_from_queued)
  show "?R \<subseteq> ?L"
  proof
    fix t
    assume "t \<in> ?R"
    then have "t = ''queued'' \<or> t = ''running'' \<or> t \<in> set (allowed_targets ''running'')"
      unfolding running_targets by (elim insertE emptyE) simp_all
    then consider "t = ''queued''" | "t = ''running''" | "t \<in> set (allowed_targets ''running'')"
      by (elim disjE)
    then have "tsm_step\<^sup>*\<^sup>* ''queued'' t"
    proof cases
      case 1
      show ?thesis unfolding 1 by (rule rtranclp.rtrancl_refl)
    next
      case 2
      show ?thesis unfolding 2 by (rule running_from_queued)
    next
      case 3
      then show ?thesis by (rule steps_from_queued)
    qed
    then show "t \<in> ?L" by (rule CollectI)
  qed
qed

text \<open>
  Cancelling a task that exists in a known status never fails. A task that is already
  final is returned as it is, with no effect at all; any other task ends cancelled, its
  background commands, pending tool call and stored continuation are dropped in that order
  around the update, and no other task changes its status.
\<close>

theorem cancel_task_correct:
  assumes "find_task st i = Some r" and "known_status (t_status r)"
  shows "\<exists>st' r'. cancel_task st i = Inr (st', r') \<and> terminal_status (t_status r') \<and>
     (terminal_status (t_status r) \<longrightarrow> st' = st \<and> r' = r) \<and>
     (\<not> terminal_status (t_status r) \<longrightarrow> status_at st' i = Some ''cancelled'' \<and>
        effects st' = effects st @
          [BackgroundCancelled i, PendingToolTerminated i ''cancelled'', StorageCleanup ''task_cancelled'',
           PendingReactCleared i, Published ''task.cancelled'' i ''cancelled'',
           HookFired ''on_task_cancel'' i]) \<and>
     (\<forall>j. j \<noteq> i \<longrightarrow> status_at st' j = status_at st j)"
proof (cases "terminal_status (t_status r)")
  case True
  then show ?thesis using assms by (simp add: cancel_task_def get_task_def)
next
  case False
  then have a: "''cancelled'' \<in> set (allowed_targets (t_status r))"
    using assms(2) by (simp add: non_terminal_cancellable)
  have i: "t_id r = i" using find_task_id [OF assms(1)] by simp
  have t: "terminal_status ''cancelled''" by (simp add: terminal_status_def)
  let ?st1 = "emit [BackgroundCancelled i, PendingToolTerminated i ''cancelled''] st"
  let ?r' = "r\<lparr>t_status := ''cancelled'', t_updated := clock st\<rparr>"
  have u: "update_task_with_status ?st1 i ''cancelled'' =
      Inr (emit [StorageCleanup ''task_cancelled''] (set_status i ''cancelled'' ?st1), ?r')"
    using update_task_with_status_found [of ?st1 i r "''cancelled''"] assms(1) t by simp
  have v: "validate_task_transition (t_status r) ''cancelled'' i False = Inr False"
    using a by (simp add: validate_task_transition_def assert_transition_def)
  show ?thesis
    using assms(1) False u v i t
    by (simp add: cancel_task_def get_task_def status_at_set_status) (simp add: emit_def set_status_def)
qed

theorem cancel_task_correct_witness:
  "\<exists>st' r'. cancel_task \<lparr>tasks = [\<lparr>t_id = ''t1'', t_session = ''s'', t_status = ''paused'', t_created = 1, t_updated = 1\<rparr>],
       clock = 5, effects = []\<rparr> ''t1'' = Inr (st', r') \<and> status_at st' ''t1'' = Some ''cancelled''"
proof -
  let ?r = "\<lparr>t_id = ''t1'', t_session = ''s'', t_status = ''paused'', t_created = 1, t_updated = 1\<rparr>"
  let ?st = "\<lparr>tasks = [?r], clock = 5, effects = []\<rparr>"
  have f: "find_task ?st ''t1'' = Some ?r" by (simp add: find_task_def)
  have k: "known_status (t_status ?r)" by (simp add: tsm_defs)
  have n: "\<not> terminal_status (t_status ?r)" by (simp add: tsm_defs)
  from cancel_task_correct [OF f k] n show ?thesis by blast
qed

text \<open>
  Pausing succeeds exactly for a running task and one that waits for an approval; the task
  is then paused, one event and one hook follow. From every other status the call raises the
  transition error and leaves the table as it was (no state is returned).
\<close>

theorem pause_task_exact:
  assumes "find_task st i = Some r"
  shows "(\<exists>st' r'. pause_task st i = Inr (st', r') \<and> status_at st' i = Some ''paused'' \<and>
            effects st' = effects st @ [Published ''task.paused'' i ''paused'', HookFired ''on_task_pause'' i] \<and>
            (\<forall>j. j \<noteq> i \<longrightarrow> status_at st' j = status_at st j)) \<and> t_status r \<in> {''running'', ''waiting_approval''}
     \<or> pause_task st i = Inl (Transition (IllegalTransition i (t_status r) ''paused'' (allowed_targets (t_status r)))) \<and>
       t_status r \<notin> {''running'', ''waiting_approval''}"
proof (cases "''paused'' \<in> set (allowed_targets (t_status r))")
  case True
  have i: "t_id r = i" using find_task_id [OF assms] by simp
  have t: "\<not> terminal_status ''paused''" by (simp add: terminal_status_def)
  have "validate_task_transition (t_status r) ''paused'' i False = Inr False"
    using True by (simp add: validate_task_transition_def assert_transition_def)
  moreover have "update_task_with_status st i ''paused'' =
      Inr (set_status i ''paused'' st, r\<lparr>t_status := ''paused'', t_updated := clock st\<rparr>)"
    using update_task_with_status_found [OF assms, of "''paused''"] t by simp
  ultimately show ?thesis
    using assms True i pausable_iff [of "t_status r"]
    by (simp add: pause_task_def get_task_def status_at_set_status) (simp add: emit_def set_status_def)
next
  case False
  then show ?thesis
    using assms find_task_id [OF assms] pausable_iff [of "t_status r"]
    by (simp add: pause_task_def get_task_def validate_task_transition_def assert_transition_def)
qed

theorem pause_task_exact_witness:
  "pause_task \<lparr>tasks = [\<lparr>t_id = ''t1'', t_session = ''s'', t_status = ''queued'', t_created = 1, t_updated = 1\<rparr>],
       clock = 5, effects = []\<rparr> ''t1'' =
     Inl (Transition (IllegalTransition ''t1'' ''queued'' ''paused'' [''running'', ''cancelled'']))"
proof -
  let ?r = "\<lparr>t_id = ''t1'', t_session = ''s'', t_status = ''queued'', t_created = 1, t_updated = 1\<rparr>"
  let ?st = "\<lparr>tasks = [?r], clock = 5, effects = []\<rparr>"
  have f: "find_task ?st ''t1'' = Some ?r" by (simp add: find_task_def)
  have a: "allowed_targets ''queued'' = [''running'', ''cancelled'']" by (simp add: tsm_defs)
  from pause_task_exact [OF f] a show ?thesis by auto
qed

section \<open>The queue starts at most one task\<close>

definition active_in :: "runtime \<Rightarrow> string \<Rightarrow> string set" where
  "active_in st sid = {t_id r |r. r \<in> set (tasks st) \<and> t_session r = sid \<and> t_status r \<in> set active_statuses}"

lemma set_list_session_tasks: "set (list_session_tasks st sid) = {r \<in> set (tasks st). t_session r = sid}"
  by (auto simp: list_session_tasks_def)

lemma list_session_active:
  "(\<exists>r \<in> set (list_session_tasks st sid). t_status r \<in> set active_statuses) \<longleftrightarrow> active_in st sid \<noteq> {}"
  by (auto simp: set_list_session_tasks active_in_def)

lemma queued_head:
  assumes "list_tasks_by_session_and_status st sid s = q # qs"
  shows "q \<in> set (tasks st) \<and> t_session q = sid \<and> t_status q = s \<and>
    (\<forall>r \<in> set (tasks st). t_session r = sid \<and> t_status r = s \<longrightarrow> t_created q \<le> t_created r)"
proof -
  let ?ys = "filter (\<lambda>r. t_session r = sid \<and> t_status r = s) (tasks st)"
  from assms have eq: "sort_key t_created ?ys = q # qs" by (simp add: list_tasks_by_session_and_status_def)
  then have sets: "set ?ys = insert q (set qs)" by (metis list.simps(15) set_sort)
  moreover have "sorted (map t_created (q # qs))" using eq by (metis sorted_sort_key)
  then have "\<forall>r \<in> set ?ys. t_created q \<le> t_created r" using sets by auto
  ultimately show ?thesis by auto
qed

lemma find_task_distinct:
  "distinct (map t_id (tasks st)) \<Longrightarrow> r \<in> set (tasks st) \<Longrightarrow> find_task st (t_id r) = Some r"
proof -
  have "distinct (map t_id rs) \<Longrightarrow> r \<in> set rs \<Longrightarrow> List.find (\<lambda>x. t_id x = t_id r) rs = Some r"
    for rs :: "task_row list"
    by (induction rs) force+
  then show "distinct (map t_id (tasks st)) \<Longrightarrow> r \<in> set (tasks st) \<Longrightarrow> find_task st (t_id r) = Some r"
    by (simp add: find_task_def)
qed

lemma tasks_set_status:
  "set (tasks (set_status i s st)) =
     (\<lambda>r. if t_id r = i then r\<lparr>t_status := s, t_updated := clock st\<rparr> else r) ` set (tasks st)"
  by (simp add: set_status_def)

lemma active_in_set_status:
  assumes d: "distinct (map t_id (tasks st))" and q: "q \<in> set (tasks st)" and s: "s \<in> set active_statuses"
  shows "active_in (set_status (t_id q) s st) sid' =
    (active_in st sid' \<union> (if t_session q = sid' then {t_id q} else {}))"
proof -
  have same: "r = q" if "r \<in> set (tasks st)" "t_id r = t_id q" for r
    using find_task_distinct [OF d that(1)] find_task_distinct [OF d q] that(2) by (metis option.inject)
  let ?f = "\<lambda>r. if t_id r = t_id q then r\<lparr>t_status := s, t_updated := clock st\<rparr> else r"
  have "active_in (set_status (t_id q) s st) sid' =
      {t_id (?f r) |r. r \<in> set (tasks st) \<and> t_session (?f r) = sid' \<and> t_status (?f r) \<in> set active_statuses}"
    unfolding active_in_def tasks_set_status by (rule setcompr_image)
  also have "\<dots> = {t_id r |r. r \<in> set (tasks st) \<and> t_session r = sid' \<and> (r = q \<or> t_status r \<in> set active_statuses)}"
    (is "?A = ?B")
  proof
    show "?A \<subseteq> ?B" using same by (fastforce split: if_splits)
    show "?B \<subseteq> ?A" using s by (fastforce split: if_splits)
  qed
  also have "\<dots> = active_in st sid' \<union> (if t_session q = sid' then {t_id q} else {})"
    using q by (auto simp: active_in_def)
  finally show ?thesis .
qed

text \<open>
  Draining the queue of a session never fails. It does nothing while some task of the
  session is active; otherwise, when tasks are queued, it starts exactly one, the one created
  first, which becomes the only active task of the session, and other sessions are untouched.
\<close>

theorem drain_session_queue_correct:
  assumes "distinct (map t_id (tasks st))"
  shows "\<exists>st'. drain_session_queue st sid = Inr st' \<and>
    (if active_in st sid \<noteq> {} then st' = st
     else case list_tasks_by_session_and_status st sid ''queued'' of
        [] \<Rightarrow> st' = st
      | q # _ \<Rightarrow> active_in st' sid = {t_id q} \<and> BackgroundStarted (t_id q) \<in> set (effects st') \<and>
          (\<forall>r \<in> set (tasks st). t_session r = sid \<and> t_status r = ''queued'' \<longrightarrow> t_created q \<le> t_created r) \<and>
          (\<forall>sid'. sid' \<noteq> sid \<longrightarrow> active_in st' sid' = active_in st sid'))"
proof (cases "active_in st sid \<noteq> {}")
  case True
  then show ?thesis using list_session_active [of st sid] by (simp add: drain_session_queue_def)
next
  case idle: False
  show ?thesis
  proof (cases "list_tasks_by_session_and_status st sid ''queued''")
    case Nil
    with idle show ?thesis using list_session_active [of st sid] by (simp add: drain_session_queue_def)
  next
    case (Cons q qs)
    note q = queued_head [OF Cons]
    have run: "''running'' \<in> set active_statuses" by (simp add: active_statuses_def)
    have f: "find_task st (t_id q) = Some q" using find_task_distinct [OF assms] q by blast
    have v: "validate_task_transition ''queued'' ''running'' (t_id q) False = Inr False"
      using queued_to_running by (simp add: validate_task_transition_def assert_transition_def)
    let ?es = "[MessageCreated (t_id q), Published ''message.created'' (t_id q) ''streaming'',
                Published ''task.started'' (t_id q) ''running'', BackgroundStarted (t_id q)]"
    let ?st' = "emit ?es (set_status (t_id q) ''running'' st)"
    have "drain_session_queue st sid = Inr ?st'"
      using idle list_session_active [of st sid] Cons v update_task_status_found [OF f, of "''running''"]
      by (simp add: drain_session_queue_def)
    moreover have "active_in ?st' sid' = active_in (set_status (t_id q) ''running'' st) sid'" for sid'
      by (simp add: active_in_def)
    moreover have "BackgroundStarted (t_id q) \<in> set (effects ?st')" by (simp add: emit_def)
    ultimately show ?thesis
      using idle Cons q active_in_set_status [OF assms _ run, of q] by (simp del: set_simps)
  qed
qed

theorem drain_session_queue_correct_witness:
  "\<exists>st'. drain_session_queue \<lparr>tasks = [\<lparr>t_id = ''b'', t_session = ''s'', t_status = ''queued'', t_created = 2, t_updated = 2\<rparr>,
        \<lparr>t_id = ''a'', t_session = ''s'', t_status = ''queued'', t_created = 1, t_updated = 3\<rparr>],
       clock = 5, effects = []\<rparr> ''s'' = Inr st' \<and> active_in st' ''s'' = {''a''}"
proof -
  let ?st = "\<lparr>tasks = [\<lparr>t_id = ''b'', t_session = ''s'', t_status = ''queued'', t_created = 2, t_updated = 2\<rparr>,
        \<lparr>t_id = ''a'', t_session = ''s'', t_status = ''queued'', t_created = 1, t_updated = 3\<rparr>],
       clock = 5, effects = []\<rparr>"
  have d: "distinct (map t_id (tasks ?st))" by simp
  have i: "active_in ?st ''s'' = {}" by (auto simp: active_in_def active_statuses_def)
  have l: "list_tasks_by_session_and_status ?st ''s'' ''queued'' =
     [\<lparr>t_id = ''a'', t_session = ''s'', t_status = ''queued'', t_created = 1, t_updated = 3\<rparr>,
      \<lparr>t_id = ''b'', t_session = ''s'', t_status = ''queued'', t_created = 2, t_updated = 2\<rparr>]"
    by (simp add: list_tasks_by_session_and_status_def sort_key_def)
  from drain_session_queue_correct [OF d, of "''s''"] i l show ?thesis by auto
qed

end
