(* ===== verification/TextMatch.thy ===== *)
theory TextMatch
  imports Prelude
begin

text \<open>
  The two pattern languages of the Python standard library that the policies use: regular
  expressions (\<open>re\<close>) and shell globs (\<open>fnmatch\<close>, on a platform where \<open>normcase\<close> is the
  identity). Regular expressions are matched by backtracking over the list of all ways to
  match, in the order in which \<open>re\<close> tries them, so the first result is the match that \<open>re\<close>
  reports and its capture groups are the ones \<open>re\<close> returns.
\<close>

section \<open>Regular expressions\<close>

datatype rx =
    REps
  | RCls "char \<Rightarrow> bool"
  | RSeq rx rx
  | RAlt rx rx
  | RStar rx
  | RGroup nat rx
  | RWordB
  | RBos
  | REos
  | RLook rx

type_synonym caps = "(nat \<times> nat \<times> nat) list"

definition is_word :: "char \<Rightarrow> bool" where
  \<comment> \<open>\<open>\\w\<close>; the bytes of a non-ASCII character count as word characters\<close>
  "is_word c \<longleftrightarrow> (let n = of_char c :: nat in (48 \<le> n \<and> n \<le> 57) \<or> (65 \<le> n \<and> n \<le> 90) \<or> n = 95 \<or>
                    (97 \<le> n \<and> n \<le> 122) \<or> 128 \<le> n)"

definition word_at :: "string \<Rightarrow> nat \<Rightarrow> bool" where
  "word_at s i \<longleftrightarrow> i < length s \<and> is_word (s ! i)"

definition word_boundary :: "string \<Rightarrow> nat \<Rightarrow> bool" where
  "word_boundary s i \<longleftrightarrow> (i > 0 \<and> word_at s (i - 1)) \<noteq> word_at s i"

text \<open>
  A greedy star: every further iteration has to advance. The first argument bounds the
  number of iterations; the length of the subject is enough (\<open>star_m_stable\<close>).
\<close>

fun star_m :: "nat \<Rightarrow> (nat \<times> 'c \<Rightarrow> (nat \<times> 'c) list) \<Rightarrow> nat \<times> 'c \<Rightarrow> (nat \<times> 'c) list" where
  "star_m 0 m st = [st]"
| "star_m (Suc n) m st = concat (map (star_m n m) (filter (\<lambda>t. fst st < fst t) (m st))) @ [st]"

primrec rx_m :: "rx \<Rightarrow> string \<Rightarrow> nat \<times> caps \<Rightarrow> (nat \<times> caps) list" where
  "rx_m REps s st = [st]"
| "rx_m (RCls p) s st = (if fst st < length s \<and> p (s ! fst st) then [(Suc (fst st), snd st)] else [])"
| "rx_m (RSeq a b) s st = concat (map (rx_m b s) (rx_m a s st))"
| "rx_m (RAlt a b) s st = rx_m a s st @ rx_m b s st"
| "rx_m (RStar a) s st = star_m (length s) (rx_m a s) st"
| "rx_m (RGroup n a) s st = map (\<lambda>(j, c). (j, (n, fst st, j) # c)) (rx_m a s st)"
| "rx_m RWordB s st = (if word_boundary s (fst st) then [st] else [])"
| "rx_m RBos s st = (if fst st = 0 then [st] else [])"
| "rx_m REos s st =
     (if fst st = length s \<or> (Suc (fst st) = length s \<and> s ! fst st = CHR 0x0A) then [st] else [])"
| "rx_m (RLook a) s st = (case rx_m a s st of [] \<Rightarrow> [] | t # _ \<Rightarrow> [(fst st, snd t)])"

definition rx_match_at :: "rx \<Rightarrow> string \<Rightarrow> nat \<Rightarrow> (nat \<times> caps) option" where
  "rx_match_at r s i = (case rx_m r s (i, []) of [] \<Rightarrow> None | t # _ \<Rightarrow> Some t)"

definition rx_match :: "rx \<Rightarrow> string \<Rightarrow> (nat \<times> caps) option" where
  \<comment> \<open>\<open>re.match\<close>\<close>
  "rx_match r s = rx_match_at r s 0"

definition rx_search :: "rx \<Rightarrow> string \<Rightarrow> (nat \<times> nat \<times> caps) option" where
  \<comment> \<open>\<open>re.search\<close>: start, end and groups of the leftmost match\<close>
  "rx_search r s =
     (case List.find (\<lambda>i. rx_match_at r s i \<noteq> None) [0..<Suc (length s)] of
        None \<Rightarrow> None
      | Some i \<Rightarrow> map_option (\<lambda>(j, c). (i, j, c)) (rx_match_at r s i))"

definition rx_found :: "rx \<Rightarrow> string \<Rightarrow> bool" where
  "rx_found r s \<longleftrightarrow> rx_search r s \<noteq> None"

definition slice :: "string \<Rightarrow> nat \<Rightarrow> nat \<Rightarrow> string" where
  "slice s i j = take (j - i) (drop i s)"

definition group :: "string \<Rightarrow> caps \<Rightarrow> nat \<Rightarrow> string option" where
  \<comment> \<open>\<open>match.group(n)\<close>\<close>
  "group s c n = map_option (\<lambda>(i, j). slice s i j) (map_of c n)"

definition rseq :: "rx list \<Rightarrow> rx" where
  "rseq rs = foldr RSeq rs REps"

definition ralt :: "rx list \<Rightarrow> rx" where
  "ralt rs = foldr RAlt rs (RCls (\<lambda>_. False))"

definition rlit :: "string \<Rightarrow> rx" where
  "rlit s = rseq (map (\<lambda>c. RCls ((=) c)) s)"

definition ropt :: "rx \<Rightarrow> rx" where
  "ropt r = RAlt r REps"

definition rplus :: "rx \<Rightarrow> rx" where
  "rplus r = RSeq r (RStar r)"

definition rspace :: rx where "rspace = RCls is_ws"
definition rdigit :: rx where "rdigit = RCls is_digit"
definition rany :: rx where "rany = RCls (\<lambda>c. c \<noteq> CHR 0x0A)"
definition rnonspace :: rx where "rnonspace = RCls (\<lambda>c. \<not> is_ws c)"

lemmas rx_defs = rseq_def ralt_def rlit_def ropt_def rplus_def rspace_def rdigit_def rany_def rnonspace_def

text \<open>Every result ends at or after the start, and within the subject.\<close>

lemma star_m_bounds:
  assumes "\<And>st t. t \<in> set (m st) \<Longrightarrow> fst st \<le> L \<Longrightarrow> fst st \<le> fst t \<and> fst t \<le> L"
  shows "t \<in> set (star_m n m st) \<Longrightarrow> fst st \<le> L \<Longrightarrow> fst st \<le> fst t \<and> fst t \<le> L"
proof (induction n arbitrary: st)
  case 0
  then show ?case by simp
next
  case (Suc n)
  show ?case
  proof (cases "t = st")
    case True
    then show ?thesis using Suc.prems by simp
  next
    case False
    with Suc.prems obtain u where u: "u \<in> set (m st)" "fst st < fst u" "t \<in> set (star_m n m u)" by auto
    then have "fst u \<le> L" using assms Suc.prems by blast
    then show ?thesis using Suc.IH [OF u(3)] u(2) by auto
  qed
qed

lemma rx_m_bounds:
  "t \<in> set (rx_m r s st) \<Longrightarrow> fst st \<le> length s \<Longrightarrow> fst st \<le> fst t \<and> fst t \<le> length s"
proof (induction r arbitrary: st t)
  case (RSeq a b)
  then obtain u where u: "u \<in> set (rx_m a s st)" "t \<in> set (rx_m b s u)" by auto
  with RSeq.IH(1) RSeq.prems(2) have "fst st \<le> fst u \<and> fst u \<le> length s" by blast
  with RSeq.IH(2) [OF u(2)] show ?case by auto
next
  case (RStar a)
  have "t \<in> set (star_m (length s) (rx_m a s) st)" using RStar.prems(1) by simp
  from star_m_bounds [OF RStar.IH this RStar.prems(2)] show ?case by simp
next
  case (RAlt a b)
  from RAlt.prems(1) consider "t \<in> set (rx_m a s st)" | "t \<in> set (rx_m b s st)" by (simp only: rx_m.simps set_append Un_iff) blast
  then show ?case using RAlt.IH RAlt.prems(2) by cases blast+
next
  case (RGroup n a)
  from RGroup.prems(1) obtain u where u: "u \<in> set (rx_m a s st)" "fst t = fst u" by auto
  show ?case using RGroup.IH [OF u(1) RGroup.prems(2)] u(2) by simp
next
  case (RLook a)
  then show ?case by (auto split: list.splits)
qed (auto split: if_splits)

text \<open>The iteration bound is no restriction: more iterations than characters left add nothing.\<close>

lemma star_m_stable:
  assumes m: "\<And>st t. t \<in> set (m st) \<Longrightarrow> fst st \<le> L \<Longrightarrow> fst t \<le> L"
  shows "fst st \<le> L \<Longrightarrow> L - fst st \<le> n \<Longrightarrow> star_m (Suc n) m st = star_m n m st"
proof (induction n arbitrary: st)
  case 0
  then have "filter (\<lambda>t. fst st < fst t) (m st) = []"
    using m [of _ st] by (force simp: filter_empty_conv)
  then show ?case by simp
next
  case (Suc n)
  have "star_m (Suc n) m t = star_m n m t" if "t \<in> set (filter (\<lambda>t. fst st < fst t) (m st))" for t
    using that Suc.prems m [of t st] by (intro Suc.IH) auto
  then have "map (star_m (Suc n) m) (filter (\<lambda>t. fst st < fst t) (m st)) =
      map (star_m n m) (filter (\<lambda>t. fst st < fst t) (m st))"
    by (intro map_cong refl)
  then show ?case by (metis star_m.simps(2))
qed

lemma rx_match_at_bounds:
  "rx_match_at r s i = Some (j, c) \<Longrightarrow> i \<le> length s \<Longrightarrow> i \<le> j \<and> j \<le> length s"
  using rx_m_bounds [of "(j, c)" r s "(i, [])"]
  by (auto simp: rx_match_at_def split: list.splits)

text \<open>A star over a character class runs as far as it can, then gives back one character at a time.\<close>

definition run_length :: "(char \<Rightarrow> bool) \<Rightarrow> string \<Rightarrow> nat \<Rightarrow> nat" where
  "run_length p s i = length (takeWhile p (drop i s))"

lemma run_length_step:
  "run_length p s i = (if i < length s \<and> p (s ! i) then Suc (run_length p s (Suc i)) else 0)"
  by (cases "i < length s") (auto simp: run_length_def Cons_nth_drop_Suc [symmetric])

lemma star_m_class:
  "run_length p s i \<le> n \<Longrightarrow>
   star_m n (rx_m (RCls p) s) (i, c) = map (\<lambda>j. (j, c)) (rev [i..<Suc (i + run_length p s i)])"
proof (induction n arbitrary: i)
  case 0
  then show ?case by simp
next
  case (Suc n)
  show ?case
  proof (cases "i < length s \<and> p (s ! i)")
    case True
    then have r: "run_length p s i = Suc (run_length p s (Suc i))" by (simp add: run_length_step [of p s i])
    have "star_m n (rx_m (RCls p) s) (Suc i, c) = map (\<lambda>j. (j, c)) (rev [Suc i..<Suc (i + run_length p s i)])"
      using Suc.IH [of "Suc i"] Suc.prems r by (simp del: upt_Suc rx_m.simps)
    moreover have "[i..<Suc (i + run_length p s i)] = i # [Suc i..<Suc (i + run_length p s i)]"
      by (simp add: upt_conv_Cons del: upt_Suc)
    moreover have "filter (\<lambda>t. i < fst t) (rx_m (RCls p) s (i, c)) = [(Suc i, c)]" using True by simp
    ultimately show ?thesis by (simp only: star_m.simps(2) fst_conv list.map concat.simps append_Nil2 rev.simps map_append)
  next
    case False
    then have "run_length p s i = 0" by (simp add: run_length_step [of p s i])
    then show ?thesis using False by auto
  qed
qed

lemma run_length_bound: "run_length p s i \<le> length s"
  by (simp add: run_length_def) (metis diff_le_self dual_order.trans length_drop length_takeWhile_le)

lemma rx_m_star_class:
  "rx_m (RStar (RCls p)) s (i, c) = map (\<lambda>j. (j, c)) (rev [i..<Suc (i + run_length p s i)])"
  unfolding rx_m.simps(5) by (rule star_m_class [OF run_length_bound])

text \<open>The first result of each construct; greedy matching composes first results where they succeed.\<close>

definition rx_head :: "rx \<Rightarrow> string \<Rightarrow> nat \<times> caps \<Rightarrow> (nat \<times> caps) option" where
  "rx_head r s st = (case rx_m r s st of [] \<Rightarrow> None | t # _ \<Rightarrow> Some t)"

lemma rx_match_head: "rx_match r s = rx_head r s (0, [])"
  by (simp add: rx_match_def rx_match_at_def rx_head_def)

lemma rx_head_seq: "rx_head a s st = Some t \<Longrightarrow> rx_head b s t = Some u \<Longrightarrow> rx_head (RSeq a b) s st = Some u"
  by (auto simp: rx_head_def split: list.splits)

lemma rx_head_alt:
  "rx_head a s st = Some t \<Longrightarrow> rx_head (RAlt a b) s st = Some t"
  "rx_m a s st = [] \<Longrightarrow> rx_head (RAlt a b) s st = rx_head b s st"
  by (auto simp: rx_head_def split: list.splits)

lemma rx_head_group: "rx_head a s (i, c) = Some (j, c') \<Longrightarrow> rx_head (RGroup n a) s (i, c) = Some (j, (n, i, j) # c')"
  by (auto simp: rx_head_def split: list.splits)

lemma rx_head_star_class: "rx_head (RStar (RCls p)) s (i, c) = Some (i + run_length p s i, c)"
  unfolding rx_head_def rx_m_star_class by simp

lemma rx_head_class: "i < length s \<Longrightarrow> p (s ! i) \<Longrightarrow> rx_head (RCls p) s (i, c) = Some (Suc i, c)"
  by (simp add: rx_head_def)

lemma rx_head_anchors:
  "rx_head RBos s (0, c) = Some (0, c)" "rx_head REps s st = Some st"
  "rx_head REos s (length s, c) = Some (length s, c)"
  by (simp_all add: rx_head_def)

section \<open>Globs\<close>

datatype gtok = GStar | GAny | GLit char | GCls bool "(char \<times> char) list"

fun class_items :: "string \<Rightarrow> (char \<times> char) list" where
  "class_items (a # b # c # cs) =
     (if b = CHR ''-'' then (a, c) # class_items cs else (a, a) # class_items (b # c # cs))"
| "class_items (a # cs) = (a, a) # class_items cs"
| "class_items [] = []"

definition split_class :: "string \<Rightarrow> (bool \<times> string \<times> string) option" where
  \<comment> \<open>what follows an opening bracket: negation, items and the rest after the closing bracket\<close>
  "split_class r =
     (let (neg, r1) = (case r of c # r' \<Rightarrow> if c = CHR ''!'' then (True, r') else (False, r) | [] \<Rightarrow> (False, r));
          (h, r2) = (case r1 of c # r' \<Rightarrow> if c = CHR '']'' then ([c], r') else ([], r1) | [] \<Rightarrow> ([], r1));
          body = takeWhile (\<lambda>c. c \<noteq> CHR '']'') r2;
          rest = dropWhile (\<lambda>c. c \<noteq> CHR '']'') r2
      in if rest = [] then None else Some (neg, h @ body, tl rest))"

lemma length_tl_dropWhile: "dropWhile P xs \<noteq> [] \<Longrightarrow> length (tl (dropWhile P xs)) < length xs"
  using length_dropWhile_le [of P xs] by (cases "dropWhile P xs") auto

lemma split_class_shorter:
  assumes "split_class r = Some (neg, items, rest)"
  shows "length rest < length r"
proof -
  define q1 where "q1 = (case r of c # r' \<Rightarrow> if c = CHR ''!'' then (True, r') else (False, r) | [] \<Rightarrow> (False, r))"
  define q2 where "q2 = (case snd q1 of c # r' \<Rightarrow> if c = CHR '']'' then ([c], r') else ([], snd q1) | [] \<Rightarrow> ([], snd q1))"
  have 1: "length (snd q1) \<le> length r" by (simp add: q1_def split: list.split)
  have 2: "length (snd q2) \<le> length (snd q1)" by (simp add: q2_def split: list.split)
  have "rest = tl (dropWhile (\<lambda>c. c \<noteq> CHR '']'') (snd q2)) \<and> dropWhile (\<lambda>c. c \<noteq> CHR '']'') (snd q2) \<noteq> []"
    using assms unfolding split_class_def Let_def
    by (simp add: q1_def [symmetric] case_prod_beta q2_def [symmetric] split: if_splits)
  then have "length rest < length (snd q2)" using length_tl_dropWhile by blast
  then show ?thesis using 1 2 by linarith
qed

function glob_parse :: "string \<Rightarrow> gtok list" where
  "glob_parse [] = []"
| "glob_parse (c # cs) =
     (if c = CHR ''*'' then GStar # glob_parse cs
      else if c = CHR ''?'' then GAny # glob_parse cs
      else if c = CHR ''['' then
        (case split_class cs of
           None \<Rightarrow> GLit c # glob_parse cs
         | Some (neg, items, rest) \<Rightarrow> GCls neg (class_items items) # glob_parse rest)
      else GLit c # glob_parse cs)"
  by pat_completeness auto
termination
  by (relation "measure length") (auto dest: split_class_shorter)

definition in_class :: "(char \<times> char) list \<Rightarrow> char \<Rightarrow> bool" where
  "in_class items c \<longleftrightarrow>
     (\<exists>(a, b) \<in> set items. (of_char a :: nat) \<le> of_char c \<and> (of_char c :: nat) \<le> of_char b)"

function glob_match :: "gtok list \<Rightarrow> string \<Rightarrow> bool" where
  "glob_match [] s = (s = [])"
| "glob_match (GStar # ts) s =
     (glob_match ts s \<or> (case s of [] \<Rightarrow> False | _ # s' \<Rightarrow> glob_match (GStar # ts) s'))"
| "glob_match (GAny # ts) s = (case s of [] \<Rightarrow> False | _ # s' \<Rightarrow> glob_match ts s')"
| "glob_match (GLit c # ts) s = (case s of [] \<Rightarrow> False | x # s' \<Rightarrow> x = c \<and> glob_match ts s')"
| "glob_match (GCls neg items # ts) s =
     (case s of [] \<Rightarrow> False | x # s' \<Rightarrow> in_class items x \<noteq> neg \<and> glob_match ts s')"
  by pat_completeness auto
termination
  by (relation "measure (\<lambda>(ts, s). length ts + length s)") auto

definition fnmatch :: "string \<Rightarrow> string \<Rightarrow> bool" where
  \<comment> \<open>\<open>fnmatch.fnmatch(name, pattern)\<close>\<close>
  "fnmatch name pat = glob_match (glob_parse pat) name"

declare glob_match.simps(2) [simp del]

lemma glob_match_star_simps [simp]:
  "glob_match (GStar # ts) [] \<longleftrightarrow> glob_match ts []"
  "glob_match (GStar # ts) (x # s) \<longleftrightarrow> glob_match ts (x # s) \<or> glob_match (GStar # ts) s"
  by (subst glob_match.simps(2), simp)+

lemma glob_match_star: "glob_match (GStar # ts) s \<longleftrightarrow> (\<exists>u v. s = u @ v \<and> glob_match ts v)"
  by (induction s) (auto simp: Cons_eq_append_conv)

lemma fnmatch_star [simp]: "fnmatch s ''*''"
  by (simp add: fnmatch_def glob_match_star)

definition plain_pattern :: "string \<Rightarrow> bool" where
  "plain_pattern p \<longleftrightarrow> set p \<inter> set ''*?[]'' = {}"

lemma glob_parse_plain: "plain_pattern p \<Longrightarrow> glob_parse p = map GLit p"
  by (induction p) (auto simp: plain_pattern_def)

lemma glob_match_lits: "glob_match (map GLit p) s \<longleftrightarrow> s = p"
  by (induction p arbitrary: s) (auto split: list.splits)

lemma fnmatch_plain: "plain_pattern p \<Longrightarrow> fnmatch s p \<longleftrightarrow> s = p"
  by (simp add: fnmatch_def glob_parse_plain glob_match_lits)

end
