(* ===== verification/Paths.thy ===== *)
theory Paths
  imports TextMatch
begin

text \<open>
  Workspace-relative paths: the normalisation, the validity check and the containment test
  that the planner contract and the proposal validator share (\<open>policy/planner_contract.py\<close>;
  the same three functions stand in \<open>policy/proposal_validator.py\<close>), with
  \<open>posixpath.normpath\<close> written out. The lemmas give the meaning of the three functions on
  component lists: a normalised path that passes the validity check has no parent component,
  and containment is the prefix order of component lists. The locale \<open>scope_tree\<close> is the
  contract that the checks for overlapping write scopes rest on.
\<close>

section \<open>Definitions\<close>

definition initial_slashes :: "string \<Rightarrow> nat" where
  "initial_slashes p =
     (if starts ''/'' p then (if starts ''//'' p \<and> \<not> starts ''///'' p then 2 else 1) else 0)"

definition norm_comp :: "nat \<Rightarrow> string \<Rightarrow> string list \<Rightarrow> string list" where
  \<comment> \<open>one step of the loop of \<open>normpath\<close>; the list is \<open>new_comps\<close> reversed\<close>
  "norm_comp slashes part acc =
     (if part = '''' \<or> part = ''.'' then acc
      else if part \<noteq> ''..'' \<or> (slashes = 0 \<and> acc = []) \<or> (acc \<noteq> [] \<and> hd acc = ''..'') then part # acc
      else tl acc)"

definition norm_comps :: "string \<Rightarrow> string list" where
  "norm_comps p = rev (fold (norm_comp (initial_slashes p)) (split_on CHR ''/'' p) [])"

definition normpath :: "string \<Rightarrow> string" where
  "normpath p =
     (if p = '''' then ''.''
      else let q = replicate (initial_slashes p) CHR ''/'' @ join ''/'' (norm_comps p)
           in if q = '''' then ''.'' else q)"

fun drop_dot_slash :: "string \<Rightarrow> string" where
  \<comment> \<open>\<open>while text.startswith("./"): text = text[2:]\<close>\<close>
  "drop_dot_slash (a # b # s) =
     (if a = CHR ''.'' \<and> b = CHR ''/'' then drop_dot_slash s else a # b # s)"
| "drop_dot_slash s = s"

definition normalize_relative_path :: "pv \<Rightarrow> string" where
  "normalize_relative_path v =
     (let text = drop_dot_slash (strip (replace_char CHR 0x5C CHR ''/'' (py_str v)));
          normalized = normpath text
      in if normalized = '''' then ''.'' else rstrip_by (\<lambda>c. c = CHR ''/'') normalized)"

definition is_alpha :: "char \<Rightarrow> bool" where
  "is_alpha c \<longleftrightarrow> (let n = of_char c :: nat in (65 \<le> n \<and> n \<le> 90) \<or> (97 \<le> n \<and> n \<le> 122))"

definition windows_drive :: "string \<Rightarrow> bool" where
  "windows_drive p = (case p of a # b # _ \<Rightarrow> is_alpha a \<and> b = CHR '':'' | _ \<Rightarrow> False)"

definition is_invalid_relative_path :: "string \<Rightarrow> bool" where
  "is_invalid_relative_path p \<longleftrightarrow>
     p = '''' \<or> starts ''/'' p \<or> p = ''..'' \<or> starts ''../'' p \<or> windows_drive p"

definition path_contains :: "string \<Rightarrow> string \<Rightarrow> bool" where
  "path_contains scope target =
     (if \<exists>ch \<in> set ''*?[]''. ch \<in> set scope then fnmatch target scope
      else if scope = ''.'' then \<not> is_invalid_relative_path target
      else target = scope \<or> starts (rstrip_by (\<lambda>c. c = CHR ''/'') scope @ ''/'') target)"

section \<open>Components\<close>

lemma split_on_ne [simp]: "split_on c s \<noteq> []"
  by (induction s) (auto split: list.splits)

lemma split_on_app: "split_on c (u @ c # v) = split_on c u @ split_on c v"
proof (induction u)
  case (Cons x u)
  then show ?case by (cases "split_on c u") auto
qed simp

lemma split_on_single: "c \<notin> set u \<Longrightarrow> split_on c u = [u]"
  by (induction u) auto

lemma split_on_no_sep: "u \<in> set (split_on c s) \<Longrightarrow> c \<notin> set u"
  by (induction s arbitrary: u) (auto split: if_splits list.splits)

lemma join_Cons: "xs \<noteq> [] \<Longrightarrow> join sep (x # xs) = x @ sep @ join sep xs"
  by (cases xs) auto

lemma split_on_join:
  "xs \<noteq> [] \<Longrightarrow> \<forall>x \<in> set xs. c \<notin> set x \<Longrightarrow> split_on c (join [c] xs) = xs"
proof (induction xs)
  case (Cons x xs)
  then show ?case by (cases "xs = []") (simp_all add: join_Cons split_on_single split_on_app)
qed simp

lemma join_split_on: "join [c] (split_on c s) = s"
proof (induction s)
  case (Cons x s)
  then show ?case by (cases "split_on c s") (auto simp: join_Cons, cases "tl (split_on c s)", auto)
qed simp

lemma join_append: "xs \<noteq> [] \<Longrightarrow> ys \<noteq> [] \<Longrightarrow> join sep (xs @ ys) = join sep xs @ sep @ join sep ys"
proof (induction xs)
  case (Cons x xs)
  then show ?case by (cases "xs = []") (simp_all add: join_Cons)
qed simp

definition plain_comp :: "string \<Rightarrow> bool" where
  "plain_comp c \<longleftrightarrow> c \<noteq> '''' \<and> c \<noteq> ''.'' \<and> c \<noteq> ''..''"

lemma plain_comp_Nil [simp]: "\<not> plain_comp []"
  by (simp add: plain_comp_def)

text \<open>The components kept by a relative path: parents first, then plain names.\<close>

definition norm_shape :: "nat \<Rightarrow> string list \<Rightarrow> bool" where
  "norm_shape slashes acc \<longleftrightarrow>
     (\<exists>xs k. acc = xs @ replicate k ''..'' \<and> (\<forall>x \<in> set xs. plain_comp x) \<and> (slashes > 0 \<longrightarrow> k = 0))"

lemma norm_comp_shape: "norm_shape sl acc \<Longrightarrow> norm_shape sl (norm_comp sl part acc)"
proof -
  assume "norm_shape sl acc"
  then obtain xs k where a: "acc = xs @ replicate k ''..''" "\<forall>x \<in> set xs. plain_comp x" "sl > 0 \<longrightarrow> k = 0"
    by (auto simp: norm_shape_def)
  consider (skip) "part = '''' \<or> part = ''.''" | (plain) "plain_comp part" | (up) "part = ''..''"
    by (auto simp: plain_comp_def)
  then show ?thesis
  proof cases
    case skip
    then show ?thesis using \<open>norm_shape sl acc\<close> by (simp add: norm_comp_def)
  next
    case plain
    then have "norm_comp sl part acc = (part # xs) @ replicate k ''..''"
      using a by (simp add: norm_comp_def plain_comp_def)
    then show ?thesis using a plain unfolding norm_shape_def
      by (intro exI [of _ "part # xs"] exI [of _ k]) auto
  next
    case up
    show ?thesis
    proof (cases xs)
      case Nil
      show ?thesis
      proof (cases "sl = 0")
        case True
        then have "norm_comp sl part acc = [] @ replicate (Suc k) ''..''"
          using a Nil up by (cases k) (simp_all add: norm_comp_def)
        then show ?thesis using True unfolding norm_shape_def
          by (intro exI [of _ "[]"] exI [of _ "Suc k"]) auto
      next
        case False
        then have "norm_comp sl part acc = []" using a Nil up by (simp add: norm_comp_def)
        then show ?thesis unfolding norm_shape_def by (intro exI [of _ "[]"] exI [of _ 0]) auto
      qed
    next
      case (Cons y ys)
      then have "y \<noteq> ''..''" using a by (simp add: plain_comp_def)
      then have "norm_comp sl part acc = ys @ replicate k ''..''"
        using a Cons up by (simp add: norm_comp_def)
      then show ?thesis using a Cons unfolding norm_shape_def
        by (intro exI [of _ ys] exI [of _ k]) auto
    qed
  qed
qed

lemma norm_comps_shape: "norm_shape (initial_slashes p) (rev (norm_comps p))"
proof -
  have "norm_shape sl acc \<Longrightarrow> norm_shape sl (fold (norm_comp sl) cs acc)" for sl cs acc
    by (induction cs arbitrary: acc) (auto intro: norm_comp_shape)
  then show ?thesis by (auto simp: norm_comps_def norm_shape_def)
qed

lemma norm_comps_no_sep: "c \<in> set (norm_comps p) \<Longrightarrow> CHR ''/'' \<notin> set c"
proof -
  have *: "set (norm_comp sl x acc) \<subseteq> insert x (set acc)" for sl x acc
    by (cases acc) (auto simp: norm_comp_def)
  have "set (fold (norm_comp sl) cs acc) \<subseteq> set cs \<union> set acc" for sl cs acc
  proof (induction cs arbitrary: acc)
    case (Cons x cs)
    show ?case using Cons.IH [of "norm_comp sl x acc"] * [of sl x acc] by auto
  qed simp
  from this [of "initial_slashes p" "split_on CHR ''/'' p" "[]"]
  show "c \<in> set (norm_comps p) \<Longrightarrow> CHR ''/'' \<notin> set c"
    by (auto simp: norm_comps_def dest: split_on_no_sep)
qed

text \<open>
  A well-formed relative path is the dot, or plain components separated by single slashes.
\<close>

definition rel_path :: "string \<Rightarrow> bool" where
  "rel_path p \<longleftrightarrow> p = ''.'' \<or> (\<forall>c \<in> set (split_on CHR ''/'' p). plain_comp c)"

definition path_comps :: "string \<Rightarrow> string list" where
  "path_comps p = (if p = ''.'' then [] else split_on CHR ''/'' p)"

lemma starts_split: "starts (u @ [c]) p \<longleftrightarrow> (\<exists>v. p = u @ c # v)"
  by (auto simp: starts_def prefix_def)

lemma rstrip_by_noop: "p = [] \<or> \<not> P (last p) \<Longrightarrow> rstrip_by P p = p"
  by (cases p rule: rev_cases) (auto simp: rstrip_by_def)

lemma rel_path_last:
  assumes "rel_path p" shows "p \<noteq> [] \<and> last p \<noteq> CHR ''/''"
proof (cases "p = ''.''")
  case False
  with assms have c: "\<forall>c \<in> set (split_on CHR ''/'' p). plain_comp c" by (simp add: rel_path_def)
  then have "p \<noteq> []" by (cases p) simp_all
  moreover have "last p \<noteq> CHR ''/''"
  proof
    assume "last p = CHR ''/''"
    with \<open>p \<noteq> []\<close> have "p = butlast p @ CHR ''/'' # []" by (metis append_butlast_last_id)
    then have "[] \<in> set (split_on CHR ''/'' p)"
      using split_on_app [of "CHR ''/''" "butlast p" "[]"] by simp
    with c show False by (metis plain_comp_Nil)
  qed
  ultimately show ?thesis by simp
qed simp

lemma rel_path_rstrip [simp]: "rel_path p \<Longrightarrow> rstrip_by (\<lambda>c. c = CHR ''/'') p = p"
  using rel_path_last [of p] by (simp add: rstrip_by_noop)

lemma rel_path_join:
  assumes "xs \<noteq> []" "\<forall>x \<in> set xs. plain_comp x \<and> CHR ''/'' \<notin> set x"
  shows "rel_path (join ''/'' xs)" "path_comps (join ''/'' xs) = xs"
proof -
  have s: "split_on CHR ''/'' (join ''/'' xs) = xs" using assms by (intro split_on_join) auto
  then show "rel_path (join ''/'' xs)" using assms by (simp add: rel_path_def)
  have "join ''/'' xs \<noteq> ''.''"
  proof
    assume "join ''/'' xs = ''.''"
    with s have "xs = [''.'']" by simp
    with assms show False by (simp add: plain_comp_def)
  qed
  with s show "path_comps (join ''/'' xs) = xs" by (simp add: path_comps_def)
qed

text \<open>What normalisation followed by the validity check guarantees.\<close>

lemma norm_comps_relative:
  assumes "initial_slashes p = 0" and "norm_comps p = [] \<or> hd (norm_comps p) \<noteq> ''..''"
  shows "\<forall>x \<in> set (norm_comps p). plain_comp x"
proof -
  from norm_comps_shape [of p] obtain xs k where
    e: "rev (norm_comps p) = xs @ replicate k ''..''" "\<forall>x \<in> set xs. plain_comp x"
    unfolding norm_shape_def by blast
  then have n: "norm_comps p = replicate k ''..'' @ rev xs" by (metis rev_append rev_replicate rev_rev_ident)
  have "k = 0"
  proof (rule ccontr)
    assume "k \<noteq> 0"
    then obtain k' where "k = Suc k'" by (cases k) auto
    then have "norm_comps p \<noteq> [] \<and> hd (norm_comps p) = ''..''" using n by simp
    with assms(2) show False by simp
  qed
  with n e(2) show ?thesis by simp
qed

lemma normpath_valid:
  assumes "\<not> is_invalid_relative_path (normpath p)"
  shows "rel_path (normpath p)"
proof (cases "normpath p = ''.''")
  case True
  then show ?thesis by (simp add: rel_path_def)
next
  case False
  let ?n = "norm_comps p"
  have s0: "initial_slashes p = 0"
  proof (rule ccontr)
    assume "initial_slashes p \<noteq> 0"
    then have "starts ''/'' (normpath p)" using False
      by (cases "initial_slashes p") (auto simp: normpath_def Let_def initial_slashes_def)
    with assms show False by (simp add: is_invalid_relative_path_def)
  qed
  have ne: "?n \<noteq> []" and np: "normpath p = join ''/'' ?n"
    using False s0 by (auto simp: normpath_def Let_def split: if_splits)
  have "hd ?n \<noteq> ''..''"
  proof
    assume h: "hd ?n = ''..''"
    have "normpath p = ''..'' \<or> starts ''../'' (normpath p)"
    proof (cases "tl ?n")
      case Nil
      then have "?n = [''..'']" using h ne by (metis list.collapse)
      then show ?thesis using np by simp
    next
      case (Cons y ys)
      then have "?n = ''..'' # y # ys" using h ne by (metis list.collapse)
      then show ?thesis using np by simp
    qed
    with assms show False by (simp add: is_invalid_relative_path_def)
  qed
  then have "\<forall>x \<in> set ?n. plain_comp x" using s0 norm_comps_relative by blast
  then show ?thesis unfolding np by (intro rel_path_join ne) (auto simp: norm_comps_no_sep)
qed

lemma normpath_ne: "normpath p \<noteq> []"
  by (simp add: normpath_def Let_def)

lemma norm_comps_ne: "x \<in> set (norm_comps p) \<Longrightarrow> x \<noteq> []"
proof -
  assume x: "x \<in> set (norm_comps p)"
  from norm_comps_shape [of p] obtain xs k where
    e: "rev (norm_comps p) = xs @ replicate k ''..''" "\<forall>x \<in> set xs. plain_comp x"
    unfolding norm_shape_def by blast
  from x have "x \<in> set (xs @ replicate k ''..'')" by (metis e(1) set_rev)
  then have "plain_comp x \<or> x = ''..''" using e(2) by (auto split: if_splits)
  then show "x \<noteq> []" by (metis plain_comp_Nil list.distinct(1))
qed

lemma normpath_rstrip:
  "rstrip_by (\<lambda>c. c = CHR ''/'') (normpath p) = normpath p \<or>
   rstrip_by (\<lambda>c. c = CHR ''/'') (normpath p) = []"
proof (cases "norm_comps p = []")
  case True
  have "normpath p = ''.'' \<or> normpath p = replicate (initial_slashes p) CHR ''/''"
    using True by (simp add: normpath_def Let_def)
  then show ?thesis
  proof
    assume "normpath p = replicate (initial_slashes p) CHR ''/''"
    then show ?thesis by (simp add: rstrip_by_def dropWhile_eq_Nil_conv)
  qed (simp add: rstrip_by_def)
next
  case False
  let ?l = "last (norm_comps p)"
  have l: "?l \<in> set (norm_comps p)" using False by simp
  then have lne: "?l \<noteq> []" and lno: "CHR ''/'' \<notin> set ?l"
    using norm_comps_ne norm_comps_no_sep by blast+
  have last_join: "xs \<noteq> [] \<Longrightarrow> last xs \<noteq> [] \<Longrightarrow> join ''/'' xs \<noteq> [] \<and> last (join ''/'' xs) = last (last xs)" for xs
    by (induction xs) (auto simp: join_Cons)
  have j: "join ''/'' (norm_comps p) \<noteq> []" "last (join ''/'' (norm_comps p)) = last ?l"
    using last_join [OF False lne] by auto
  have "last ?l \<noteq> CHR ''/''" using lne lno by (metis last_in_set)
  moreover have "p \<noteq> []" using False by (cases p) (simp_all add: norm_comps_def norm_comp_def)
  then have "last (normpath p) = last ?l" using j by (simp add: normpath_def Let_def)
  ultimately show ?thesis by (simp add: rstrip_by_noop)
qed

lemma normalize_valid:
  assumes "\<not> is_invalid_relative_path (normalize_relative_path v)"
  shows "rel_path (normalize_relative_path v)"
proof -
  obtain q where q: "normalize_relative_path v = rstrip_by (\<lambda>c. c = CHR ''/'') (normpath q)"
    by (simp add: normalize_relative_path_def Let_def normpath_ne)
  show ?thesis
  proof (cases "is_invalid_relative_path (normpath q)")
    case False
    then show ?thesis using q normpath_valid rel_path_rstrip by metis
  next
    case True
    then show ?thesis using q normpath_rstrip [of q] assms by (auto simp: is_invalid_relative_path_def)
  qed
qed

section \<open>Containment\<close>

definition literal_scope :: "string \<Rightarrow> bool" where
  "literal_scope p \<longleftrightarrow> set p \<inter> set ''*?[]'' = {}"

text \<open>A path that validation lets through: normalised, relative and below the workspace root.\<close>

definition safe_path :: "string \<Rightarrow> bool" where
  "safe_path p \<longleftrightarrow> rel_path p \<and> \<not> is_invalid_relative_path p"

lemma normalize_safe:
  "\<not> is_invalid_relative_path (normalize_relative_path v) \<Longrightarrow> safe_path (normalize_relative_path v)"
  by (simp add: safe_path_def normalize_valid)

lemma starts_iff_prefix_comps:
  assumes "p \<noteq> q"
  shows "starts (p @ ''/'') q \<longleftrightarrow> prefix (split_on CHR ''/'' p) (split_on CHR ''/'' q)"
proof
  assume "starts (p @ ''/'') q"
  then show "prefix (split_on CHR ''/'' p) (split_on CHR ''/'' q)"
    by (auto simp: starts_split split_on_app)
next
  assume "prefix (split_on CHR ''/'' p) (split_on CHR ''/'' q)"
  then obtain zs where z: "split_on CHR ''/'' q = split_on CHR ''/'' p @ zs" by (auto simp: prefix_def)
  have "zs \<noteq> []" using z assms by (metis append_Nil2 join_split_on)
  then have "q = p @ ''/'' @ join ''/'' zs"
    using z join_split_on [of "CHR ''/''" q] join_split_on [of "CHR ''/''" p]
      join_append [of "split_on CHR ''/'' p" zs "''/''"] by simp
  then show "starts (p @ ''/'') q" by (simp add: starts_split)
qed

lemma safe_dot: "safe_path p \<Longrightarrow> starts ''./'' p \<Longrightarrow> False"
proof -
  assume s: "safe_path p" and d: "starts ''./'' p"
  then obtain v where v: "p = ''.'' @ CHR ''/'' # v" using starts_split [of "''.''" "CHR ''/''" p] by auto
  then have "''.'' \<in> set (split_on CHR ''/'' p)" using split_on_app [of "CHR ''/''" "''.''" v] by simp
  moreover have "p \<noteq> ''.''" using v by simp
  ultimately show False using s by (auto simp: safe_path_def rel_path_def plain_comp_def)
qed

lemma path_contains_literal:
  assumes "safe_path s" "safe_path t" "literal_scope s"
  shows "path_contains s t \<longleftrightarrow> prefix (path_comps s) (path_comps t)"
proof -
  have w: "\<not> (\<exists>ch \<in> set ''*?[]''. ch \<in> set s)" using assms(3) by (auto simp: literal_scope_def)
  have rs: "rstrip_by (\<lambda>c. c = CHR ''/'') s = s" using assms(1) by (simp add: safe_path_def)
  show ?thesis
  proof (cases "s = ''.''")
    case True
    then show ?thesis using assms(2) by (simp add: path_contains_def path_comps_def safe_path_def)
  next
    case s: False
    have pc: "path_contains s t \<longleftrightarrow> t = s \<or> starts (s @ ''/'') t"
      using w s by (simp only: path_contains_def rs if_False)
    show ?thesis
    proof (cases "t = ''.''")
      case True
      then have "\<not> starts (s @ ''/'') t" using s by (cases s; cases "tl s") (auto simp: starts_def)
      then show ?thesis using pc True s by (simp add: path_comps_def)
    next
      case False
      then show ?thesis using pc s starts_iff_prefix_comps [of s t]
        by (cases "s = t") (auto simp: path_comps_def)
    qed
  qed
qed

section \<open>The contract of scope containment\<close>

text \<open>
  Scopes form a forest: containment is a preorder, and two scopes that contain a common path
  are comparable. The check for overlapping scopes compares every new scope with the ones
  kept so far in both directions; under this contract that makes the kept scopes disjoint
  as sets of paths.
\<close>

locale scope_tree =
  fixes covers :: "'p \<Rightarrow> 'p \<Rightarrow> bool" and scope :: "'p \<Rightarrow> bool" and target :: "'p \<Rightarrow> bool"
  assumes scope_target: "scope s \<Longrightarrow> target s"
    and refl: "scope s \<Longrightarrow> covers s s"
    and trans: "\<lbrakk>scope s; scope t; target u; covers s t; covers t u\<rbrakk> \<Longrightarrow> covers s u"
    and linear: "\<lbrakk>scope s; scope t; target u; covers s u; covers t u\<rbrakk> \<Longrightarrow> covers s t \<or> covers t s"
begin

lemma disjoint_scopes:
  assumes "scope s" "scope t" "target u" and "\<not> covers s t" "\<not> covers t s" and "covers s u"
  shows "\<not> covers t u"
  using assms linear by blast

lemma pairwise_disjoint:
  assumes "sorted_wrt (\<lambda>a b. \<not> (covers a b \<or> covers b a)) ss" and "target u"
    and "i < length ss" "scope (ss ! i)" "covers (ss ! i) u"
    and "j < length ss" "scope (ss ! j)" "covers (ss ! j) u"
  shows "i = j"
proof (rule ccontr)
  assume "i \<noteq> j"
  have no: "\<not> (covers (ss ! a) u \<and> covers (ss ! b) u)"
    if "a < b" "b < length ss" "scope (ss ! a)" "scope (ss ! b)" for a b
    using that assms(1,2) disjoint_scopes [of "ss ! a" "ss ! b" u]
    by (auto simp: sorted_wrt_iff_nth_less)
  from \<open>i \<noteq> j\<close> show False using no [of i j] no [of j i] assms(3-) by (cases "i < j") auto
qed

lemma nested_scopes:
  assumes "scope s" "scope t" "target u" "covers s t" "\<not> covers s u"
  shows "\<not> covers t u"
  using assms trans by blast

lemma covers_self_or_disjoint:
  assumes "scope s" "scope t" and "\<not> covers s t" "\<not> covers t s"
  shows "s \<noteq> t" "\<And>u. target u \<Longrightarrow> \<not> (covers s u \<and> covers t u)"
  using assms refl disjoint_scopes by blast+

end

definition safe_literal :: "string \<Rightarrow> bool" where
  "safe_literal p \<longleftrightarrow> safe_path p \<and> literal_scope p"

interpretation scopes: scope_tree path_contains safe_literal safe_path
proof unfold_locales
  fix s t u
  assume "safe_literal s"
  then show "safe_path s" "path_contains s s" by (simp_all add: safe_literal_def path_contains_literal)
next
  fix s t u
  assume "safe_literal s" "safe_literal t" "safe_path u" "path_contains s t" "path_contains t u"
  then show "path_contains s u" by (auto simp: safe_literal_def path_contains_literal intro: prefix_order.trans)
next
  fix s t u
  assume "safe_literal s" "safe_literal t" "safe_path u" "path_contains s u" "path_contains t u"
  then show "path_contains s t \<or> path_contains t s"
    by (simp add: safe_literal_def path_contains_literal prefix_same_cases)
qed

section \<open>The scan for overlapping scopes\<close>

text \<open>
  The loop that both validators run over the write scopes of all tasks. An entry is the index
  of a task, its name and one scope; \<open>scope_map\<close> holds the scopes kept so far with their
  owners. The two message builders are the only difference between the validators.
\<close>

definition overlaps :: "string \<Rightarrow> string \<Rightarrow> bool" where
  "overlaps existing scope \<longleftrightarrow> path_contains existing scope \<or> path_contains scope existing"

definition scan_scope ::
  "(nat \<Rightarrow> pv \<Rightarrow> pv \<Rightarrow> string) \<Rightarrow> (string \<Rightarrow> pv \<Rightarrow> pv \<Rightarrow> string) \<Rightarrow> nat \<times> pv \<times> pv \<Rightarrow>
   (string \<times> pv) list \<times> string list \<Rightarrow> (string \<times> pv) list \<times> string list" where
  "scan_scope bad clash e st =
     (let (i, name, scope) = e; (scope_map, reasons) = st; scope_str = normalize_relative_path scope in
      if is_invalid_relative_path scope_str then (scope_map, reasons @ [bad i name scope])
      else case List.find (\<lambda>(existing, _). overlaps existing scope_str) scope_map of
          Some (_, owner) \<Rightarrow> (scope_map, reasons @ [clash scope_str owner name])
        | None \<Rightarrow> (scope_map @ [(scope_str, name)], reasons))"

lemma scan_scope_reasons:
  "snd (fold (scan_scope bad clash) es (m, rs)) = [] \<Longrightarrow> rs = []"
proof (induction es arbitrary: m rs)
  case (Cons x xs)
  obtain a1 b1 where s: "scan_scope bad clash x (m, rs) = (a1, b1)" by fastforce
  with Cons have "b1 = []" by simp
  with s show ?case by (cases x) (auto simp: scan_scope_def Let_def split: if_splits option.splits)
qed simp

lemma scan_scope_clean:
  assumes "fold (scan_scope bad clash) es (m, rs) = (m', [])" "sorted_wrt (\<lambda>a b. \<not> overlaps a b) (map fst m)"
  shows "rs = [] \<and> map fst m' = map fst m @ map (\<lambda>(i, n, s). normalize_relative_path s) es \<and>
    sorted_wrt (\<lambda>a b. \<not> overlaps a b) (map fst m') \<and>
    (\<forall>(i, n, s) \<in> set es. \<not> is_invalid_relative_path (normalize_relative_path s))"
  using assms
proof (induction es arbitrary: m rs)
  case Nil
  then show ?case by simp
next
  case (Cons e es)
  obtain i n s where e: "e = (i, n, s)" by (cases e) auto
  let ?s = "normalize_relative_path s"
  obtain m1 rs1 where st: "scan_scope bad clash e (m, rs) = (m1, rs1)" by fastforce
  with Cons.prems(1) have f: "fold (scan_scope bad clash) es (m1, rs1) = (m', [])" by simp
  have "rs1 = []" using scan_scope_reasons f by (metis snd_conv)
  with st e have *: "\<not> is_invalid_relative_path ?s" "List.find (\<lambda>(x, _). overlaps x ?s) m = None"
    "rs = []" "m1 = m @ [(?s, n)]"
    by (auto simp: scan_scope_def Let_def split: if_splits option.splits)
  then have "sorted_wrt (\<lambda>a b. \<not> overlaps a b) (map fst m1)"
    using Cons.prems(2) by (auto simp: sorted_wrt_append find_None_iff)
  from Cons.IH [OF f this] * e show ?case by auto
qed

end
