(* ===== verification/ChildTools.thy ===== *)
theory ChildTools
  imports Prelude
begin

text \<open>
  What a child worker may be given: the tool allowlist (\<open>services/worker_environment.py\<close>) and
  the normalisation of the contract that a parent writes for a subtask
  (\<open>services/subagent_contract.py\<close>): agent type, owned scope, expected artifacts,
  verification requirements and the test that a requirement's command is a shell command.
\<close>

section \<open>The allowlist of a child worker\<close>

definition default_child_tool_allowlist :: "string list" where
  "default_child_tool_allowlist =
     [''list_dir'', ''search_files'', ''read_file'', ''git_status'', ''git_diff'', ''code_search'',
      ''web_fetch'', ''browser'', ''ask_user_question'']"

definition default_child_local_tool_allowlist :: "string list" where
  "default_child_local_tool_allowlist =
     [''list_dir'', ''search_files'', ''read_file'', ''git_status'', ''git_diff'', ''code_search'']"

definition unsafe_child_tools :: "string list" where
  "unsafe_child_tools = [''agent'', ''task'']"

definition known_child_tools :: "string list" where
  "known_child_tools = default_child_tool_allowlist @ [''run_command'', ''apply_patch'', ''write_file'']"

definition tool_alias_map :: "(string \<times> string) list" where
  "tool_alias_map =
     [(''rg'', ''search_files''), (''grep'', ''search_files''), (''search'', ''search_files''),
      (''cat'', ''read_file''), (''read'', ''read_file''), (''git status'', ''git_status''),
      (''status'', ''git_status''), (''git diff'', ''git_diff''), (''diff'', ''git_diff''),
      (''shell'', ''run_command''), (''command'', ''run_command''), (''patch'', ''apply_patch'')]"

definition resolve_tool_alias :: "string \<Rightarrow> string" where
  "resolve_tool_alias name =
     (case map_of tool_alias_map name of Some n \<Rightarrow> n | None \<Rightarrow> name)"

definition writing_tools :: "string list" where
  "writing_tools = [''run_command'', ''apply_patch'', ''write_file'']"

definition child_tool_ok :: "string \<Rightarrow> bool" where
  \<comment> \<open>the negation of the condition under which the loop raises\<close>
  "child_tool_ok name \<longleftrightarrow> name \<notin> set unsafe_child_tools \<and> name \<in> set known_child_tools"

definition child_tool_step :: "pv \<Rightarrow> string list \<Rightarrow> string list res" where
  \<comment> \<open>the loop body; \<open>seen\<close> always holds the elements of \<open>normalized\<close>\<close>
  "child_tool_step item normalized =
     (let name = strip (py_str item) in
      if name = '''' then Inr normalized
      else if name = ''mcp__*'' \<or> starts ''mcp__'' name then
        Inr (if name \<in> set normalized then normalized else normalized @ [name])
      else let name = resolve_tool_alias name in
        if name \<in> set normalized then Inr normalized
        else if \<not> child_tool_ok name then Inl ValueErr
        else Inr (normalized @ [name]))"

definition expand_local_tools :: "string list \<Rightarrow> string list" where
  "expand_local_tools normalized =
     (if \<exists>name \<in> set normalized. name \<in> set writing_tools
      then dedupe [] (default_child_local_tool_allowlist @ normalized)
      else normalized)"

definition child_raw_items :: "pv \<Rightarrow> pv list res" where
  "child_raw_items v = (case v of PNone \<Rightarrow> Inr (map PStr default_child_tool_allowlist)
                                | PStr s \<Rightarrow> Inr (map PStr (split_on CHR '','' s))
                                | _ \<Rightarrow> py_iter v)"

definition normalize_child_tool_allowlist :: "pv \<Rightarrow> string list res" where
  "normalize_child_tool_allowlist v =
     rbind (child_raw_items v) (\<lambda>raw_items.
     rbind (rfold child_tool_step raw_items []) (\<lambda>normalized.
     Inr (expand_local_tools normalized)))"

text \<open>The lists of tools, as facts for the simplifier.\<close>

lemmas tool_lists = default_child_tool_allowlist_def default_child_local_tool_allowlist_def
  unsafe_child_tools_def known_child_tools_def writing_tools_def

definition granted :: "string \<Rightarrow> bool" where
  \<comment> \<open>the names that a normalised allowlist may hold\<close>
  "granted name \<longleftrightarrow> starts ''mcp__'' name \<and> strip name = name \<or> child_tool_ok name"

lemma known_tools_facts:
  "list_all (\<lambda>n. resolve_tool_alias n = n \<and> strip n = n \<and> n \<noteq> '''' \<and> \<not> starts ''mcp__'' n) known_child_tools"
  by code_simp

lemma local_tools_facts: "list_all child_tool_ok default_child_local_tool_allowlist"
  by code_simp

lemma child_tool_ok_facts:
  assumes "child_tool_ok n"
  shows "resolve_tool_alias n = n" "strip n = n" "n \<noteq> ''''" "\<not> starts ''mcp__'' n"
  using assms known_tools_facts by (simp_all add: child_tool_ok_def list_all_iff)

lemma granted_facts:
  assumes "granted n"
  shows "strip n = n" "n \<noteq> ''''" "n \<notin> set unsafe_child_tools"
    "starts ''mcp__'' n \<or> n \<in> set known_child_tools \<and> resolve_tool_alias n = n"
proof -
  have m: "starts ''mcp__'' n \<Longrightarrow> n \<noteq> '''' \<and> n \<notin> set unsafe_child_tools"
    by (auto simp: unsafe_child_tools_def)
  show "strip n = n" "n \<noteq> ''''" "n \<notin> set unsafe_child_tools"
    "starts ''mcp__'' n \<or> n \<in> set known_child_tools \<and> resolve_tool_alias n = n"
    using assms m child_tool_ok_facts [of n] by (auto simp: granted_def child_tool_ok_def)
qed

definition granted_list :: "string list \<Rightarrow> bool" where
  "granted_list xs \<longleftrightarrow> distinct xs \<and> (\<forall>n \<in> set xs. granted n)"

lemma child_tool_step_granted:
  assumes "granted_list acc" "child_tool_step item acc = Inr acc'"
  shows "granted_list acc'"
proof -
  obtain n where n: "strip (py_str item) = n" "strip n = n" by simp
  have "strip ''mcp__*'' = ''mcp__*''" by code_simp
  with n(2) show ?thesis using assms unfolding child_tool_step_def Let_def n(1)
    by (auto simp: granted_list_def granted_def split: if_splits)
qed

lemma child_loop_fixpoint:
  "distinct (acc @ xs) \<Longrightarrow> \<forall>n \<in> set xs. granted n \<Longrightarrow>
   rfold child_tool_step (map PStr xs) acc = Inr (acc @ xs)"
proof (induction xs arbitrary: acc)
  case (Cons x xs)
  have g: "granted x" using Cons.prems by simp
  have "child_tool_step (PStr x) acc = Inr (acc @ [x])"
    using g granted_facts [OF g] Cons.prems child_tool_ok_facts [of x]
    by (auto simp: child_tool_step_def Let_def granted_def)
  then show ?case using Cons.IH [of "acc @ [x]"] Cons.prems by simp
qed simp

lemma expand_local_tools_idem: "expand_local_tools (expand_local_tools xs) = expand_local_tools xs"
proof (cases "\<exists>n \<in> set xs. n \<in> set writing_tools")
  case True
  let ?L = default_child_local_tool_allowlist
  have d: "distinct ?L" by (simp add: default_child_local_tool_allowlist_def)
  have e: "dedupe [] (?L @ ys) = ?L @ dedupe ?L ys" for ys
    using dedupe_distinct [OF d, of "[]"] by (simp add: dedupe_append)
  have x: "expand_local_tools xs = ?L @ dedupe ?L xs" using True e by (simp add: expand_local_tools_def)
  have "\<exists>n \<in> set (?L @ dedupe ?L xs). n \<in> set writing_tools" using True by (auto simp: set_dedupe)
  then have "expand_local_tools (?L @ dedupe ?L xs) = ?L @ dedupe ?L (?L @ dedupe ?L xs)"
    using e by (simp only: expand_local_tools_def if_True)
  also have "dedupe ?L (?L @ dedupe ?L xs) = dedupe ?L xs"
    by (simp add: dedupe_append dedupe_subset)
      (rule dedupe_distinct, auto simp: distinct_dedupe set_dedupe)
  finally show ?thesis using x by simp
qed (simp add: expand_local_tools_def)

lemma expand_local_tools_granted: "granted_list xs \<Longrightarrow> granted_list (expand_local_tools xs)"
  using local_tools_facts
  by (auto simp: expand_local_tools_def granted_list_def distinct_dedupe set_dedupe granted_def list_all_iff)

lemma expand_local_tools_complete:
  "n \<in> set (expand_local_tools xs) \<Longrightarrow> n \<in> set writing_tools \<Longrightarrow>
   set default_child_local_tool_allowlist \<subseteq> set (expand_local_tools xs)"
  by (auto simp: expand_local_tools_def set_dedupe split: if_splits)

lemma normalize_child_tools_shape:
  assumes "normalize_child_tool_allowlist v = Inr r"
  obtains xs where "granted_list xs" "r = expand_local_tools xs"
proof -
  from assms obtain items xs where xs: "rfold child_tool_step items [] = Inr xs" "r = expand_local_tools xs"
    by (auto simp: normalize_child_tool_allowlist_def rbind_eq_Inr)
  have "granted_list xs"
    by (rule rfold_invariant [where I = granted_list, OF xs(1)])
      (auto simp: granted_list_def [of "[]"] intro: child_tool_step_granted)
  with xs(2) that show thesis by blast
qed

text \<open>
  Whatever a parent asks for, an accepted allowlist of a child worker is free of
  duplicates, holds only known child tools and tools of MCP servers, never the tools that
  start further agents, comes with every read-only local tool as soon as it holds a writing
  tool, and is a fixed point of the normalisation, so applying it again at the next hand-over
  neither fails nor changes the list.
\<close>

theorem child_allowlist_correct:
  assumes "normalize_child_tool_allowlist v = Inr r"
  shows "distinct r \<and>
    (\<forall>n \<in> set r. n \<notin> set unsafe_child_tools \<and> (n \<in> set known_child_tools \<or> starts ''mcp__'' n)) \<and>
    (set writing_tools \<inter> set r \<noteq> {} \<longrightarrow> set default_child_local_tool_allowlist \<subseteq> set r) \<and>
    normalize_child_tool_allowlist (PList (map PStr r)) = Inr r"
proof -
  from assms obtain xs where xs: "granted_list xs" "r = expand_local_tools xs"
    by (rule normalize_child_tools_shape)
  then have g: "granted_list r" by (simp add: expand_local_tools_granted)
  then have "rfold child_tool_step (map PStr r) [] = Inr r"
    using child_loop_fixpoint [of "[]" r] by (simp add: granted_list_def)
  then have "normalize_child_tool_allowlist (PList (map PStr r)) = Inr r"
    using xs(2) by (simp add: normalize_child_tool_allowlist_def child_raw_items_def py_iter_def
        expand_local_tools_idem)
  moreover have "set writing_tools \<inter> set r \<noteq> {} \<longrightarrow> set default_child_local_tool_allowlist \<subseteq> set r"
    using xs(2) expand_local_tools_complete by blast
  moreover have "n \<notin> set unsafe_child_tools \<and> (n \<in> set known_child_tools \<or> starts ''mcp__'' n)"
    if "n \<in> set r" for n
    using that g granted_facts(3,4) [of n] unfolding granted_list_def by blast
  ultimately show ?thesis using g by (simp add: granted_list_def)
qed

lemma child_allowlist_correct_witness:
  "normalize_child_tool_allowlist (PStr '' rg, patch '') =
     Inr (default_child_local_tool_allowlist @ [''apply_patch'']) \<and>
   ''task'' \<notin> set (default_child_local_tool_allowlist @ [''apply_patch''])"
proof -
  have e: "normalize_child_tool_allowlist (PStr '' rg, patch '') =
      Inr (default_child_local_tool_allowlist @ [''apply_patch''])" by code_simp
  show ?thesis using child_allowlist_correct [OF e] e by (auto simp: unsafe_child_tools_def)
qed

section \<open>The contract of a subtask\<close>

definition valid_subtask_agent_types :: "string list" where
  "valid_subtask_agent_types = [''planner'', ''worker'', ''reviewer'', ''summarizer'']"

definition writing_child_tool_allowlist :: "string list" where
  "writing_child_tool_allowlist = default_child_tool_allowlist @ [''run_command'', ''apply_patch'', ''write_file'']"

definition normalize_subtask_agent_type :: "string \<Rightarrow> pv \<Rightarrow> string" where
  \<comment> \<open>the first argument is the keyword \<open>default\<close>\<close>
  "normalize_subtask_agent_type default_type v =
     (case v of
        PStr s \<Rightarrow> (let normalized = lower (strip s) in
                   if normalized \<in> set valid_subtask_agent_types then normalized else default_type)
      | _ \<Rightarrow> default_type)"

definition child_tool_allowlist_for_agent :: "pv \<Rightarrow> string list" where
  "child_tool_allowlist_for_agent agent_type =
     (if normalize_subtask_agent_type ''worker'' agent_type = ''worker''
      then writing_child_tool_allowlist else default_child_tool_allowlist)"

definition normalize_subtask_owned_scope :: "pv \<Rightarrow> string list" where
  "normalize_subtask_owned_scope v =
     (case v of
        PStr s \<Rightarrow> dedupe [''''] [strip s]
      | PList items \<Rightarrow> dedupe [''''] (map (\<lambda>item. strip (py_str item)) items)
      | _ \<Rightarrow> [])"

definition normalize_subtask_object_list :: "pv \<Rightarrow> pdict list" where
  "normalize_subtask_object_list v =
     (case v of PList items \<Rightarrow> map the_dict (filter is_dict items) | _ \<Rightarrow> [])"

definition str_or_empty :: "pv \<Rightarrow> string" where
  \<comment> \<open>\<open>str(v or "")\<close>\<close>
  "str_or_empty v = py_str (por v (PStr ''''))"

definition normalize_subtask_expected_artifacts :: "pv \<Rightarrow> pdict list" where
  "normalize_subtask_expected_artifacts v =
     filter (\<lambda>artifact. strip (str_or_empty (dget artifact ''kind'')) \<noteq> '''') (normalize_subtask_object_list v)"

definition path_suffixes :: "string list" where
  "path_suffixes = [''.py'', ''.js'', ''.mjs'', ''.cjs'', ''.ts'', ''.tsx'', ''.jsx'', ''.json'', ''.html'', ''.css'', ''.md'']"

definition looks_like_path_token :: "string \<Rightarrow> bool" where
  "looks_like_path_token token =
     (let normalized = strip_chars [CHR 0x60, CHR 0x22, CHR 0x27, CHR ''('', CHR '')'', CHR '',''] (strip token) in
      normalized \<noteq> '''' \<and>
      (list_ex (\<lambda>e. ends e normalized) path_suffixes \<or>
       has_sub ''/'' normalized \<or> has_sub [CHR 0x5C] normalized \<or> has_sub ''*'' normalized \<or>
       starts ''test_'' normalized \<or> starts ''tests'' normalized))"

definition command_stop_tokens :: "string list" where
  \<comment> \<open>full stop and blank, the ideographic full stop (UTF-8), line feed\<close>
  "command_stop_tokens = [''. '', [CHR 0xE3, CHR 0x80, CHR 0x82], [CHR 0x0A]]"

definition command_prefixes :: "string list" where
  "command_prefixes = [''python'', ''py'', ''pytest'', ''node'', ''npm'', ''pnpm'', ''yarn'', ''bun'', ''go'', ''cargo'',
     ''dotnet'', ''javac'', ''java'', ''tsc'', ''mypy'', ''ruff'', ''eslint'']"

definition is_option :: "string \<Rightarrow> bool" where
  "is_option token \<longleftrightarrow> starts ''-'' token"

definition python_tail_ok :: "string list \<Rightarrow> bool" where
  \<comment> \<open>the branch for \<open>head in {"python", "py"}\<close>\<close>
  "python_tail_ok tail =
     (if ''-c'' \<in> set tail then True
      else if ''-m'' \<in> set tail then
        (case tl (dropWhile (\<lambda>x. x \<noteq> ''-m'') tail) of
           [] \<Rightarrow> False
         | m # remainder \<Rightarrow>
             (let module = lower m in
              if module = '''' then False
              else if module = ''pytest'' then
                list_ex is_option remainder \<or>
                list_ex (\<lambda>token. looks_like_path_token token \<or> token \<in> {''tests'', ''test'', ''::''}) remainder
              else if module \<in> {''py_compile'', ''compileall''} then list_ex looks_like_path_token remainder
              else remainder \<noteq> [] \<and> (list_ex is_option remainder \<or> list_ex looks_like_path_token remainder)))
      else list_ex is_option tail \<or> list_ex looks_like_path_token tail)"

definition looks_like_shell_command :: "string \<Rightarrow> bool" where
  "looks_like_shell_command command =
     (if list_ex (\<lambda>token. has_sub token command) command_stop_tokens then False
      else (case split_ws command of
          [] \<Rightarrow> False
        | head # tail \<Rightarrow>
            (let h = lower head;
                 has_option = list_ex is_option tail;
                 has_path = list_ex looks_like_path_token tail
             in if h \<in> {''python'', ''py''} then python_tail_ok tail
                else if h = ''pytest'' then
                  has_option \<or> has_path \<or> list_ex (\<lambda>token. token \<in> {''tests'', ''test'', ''::''}) tail
                else has_option \<or> has_path)))"

definition command_strip_chars :: string where
  "command_strip_chars = [CHR 0x60, CHR 0x22, CHR 0x27] @ '' '' @ [CHR 0x09] @ ''.,:;!?''"

definition requirement_command :: "pdict \<Rightarrow> string" where
  "requirement_command item = strip_chars command_strip_chars (strip (str_or_empty (dget item ''command'')))"

definition requirement_step :: "pdict \<Rightarrow> pdict list" where
  \<comment> \<open>what the loop body appends for one requirement\<close>
  "requirement_step item =
     (if lower (strip (str_or_empty (dget item ''kind''))) \<noteq> ''command'' then [item]
      else let command = requirement_command item; lowered = lower command in
        if command = '''' \<or> \<not> list_ex (\<lambda>p. starts p lowered) command_prefixes then []
        else if \<not> looks_like_shell_command command then []
        else [dput ''command'' (PStr command) (dput ''kind'' (PStr ''command'') item)])"

definition normalize_subtask_verification_requirements :: "pv \<Rightarrow> pdict list" where
  "normalize_subtask_verification_requirements v =
     concat (map requirement_step (normalize_subtask_object_list v))"

definition contract_owned_scope :: "pdict \<Rightarrow> pdict \<Rightarrow> pdict" where
  "contract_owned_scope d n =
     (if list_ex (dhas d) [''ownedScope'', ''owned_scope'', ''writeScope'', ''write_scope''] then
        dpop ''write_scope'' (dpop ''writeScope'' (dpop ''owned_scope''
          (dput ''ownedScope'' (PList (map PStr (normalize_subtask_owned_scope
             (por (por (por (dget d ''ownedScope'') (dget d ''owned_scope'')) (dget d ''writeScope''))
                  (dget d ''write_scope''))))) n)))
      else n)"

definition contract_artifacts :: "pdict \<Rightarrow> pdict \<Rightarrow> pdict" where
  "contract_artifacts d n =
     (if list_ex (dhas d) [''expectedArtifacts'', ''expected_artifacts''] then
        dpop ''expected_artifacts'' (dput ''expectedArtifacts'' (PList (map PDict
          (normalize_subtask_expected_artifacts (por (dget d ''expectedArtifacts'') (dget d ''expected_artifacts''))))) n)
      else n)"

definition contract_verification :: "pdict \<Rightarrow> pdict \<Rightarrow> pdict" where
  "contract_verification d n =
     (if list_ex (dhas d) [''verificationRequirements'', ''verification_requirements''] then
        dpop ''verification_requirements'' (dput ''verificationRequirements'' (PList (map PDict
          (normalize_subtask_verification_requirements
             (por (dget d ''verificationRequirements'') (dget d ''verification_requirements''))))) n)
      else n)"

definition normalize_subtask_profile_contract :: "pv \<Rightarrow> pdict option" where
  "normalize_subtask_profile_contract v =
     (case v of
        PDict d \<Rightarrow> Some (contract_verification d (contract_artifacts d (contract_owned_scope d d)))
      | _ \<Rightarrow> None)"

lemma dedupe_stripped:
  assumes "\<And>x. strip (f x) = f x"
  shows "distinct (dedupe [''''] (map f xs)) \<and> (\<forall>s \<in> set (dedupe [''''] (map f xs)). s \<noteq> '''' \<and> strip s = s)"
  using assms by (auto simp: distinct_dedupe set_dedupe)

lemma owned_scope_normal:
  "distinct (normalize_subtask_owned_scope v) \<and> (\<forall>s \<in> set (normalize_subtask_owned_scope v). s \<noteq> '''' \<and> strip s = s)"
proof -
  have "normalize_subtask_owned_scope v =
      dedupe [''''] (map strip (case v of PStr s \<Rightarrow> [s] | PList items \<Rightarrow> map py_str items | _ \<Rightarrow> []))"
    by (cases v) (simp_all only: normalize_subtask_owned_scope_def pv.case list.map map_map comp_def dedupe.simps)
  then show ?thesis using dedupe_stripped [of strip, OF strip_idem] by simp
qed

definition command_kind :: "pdict \<Rightarrow> bool" where
  "command_kind item \<longleftrightarrow> lower (strip (str_or_empty (dget item ''kind''))) = ''command''"

definition runnable_requirement :: "pdict \<Rightarrow> bool" where
  "runnable_requirement item \<longleftrightarrow>
     (\<exists>c. dget item ''command'' = PStr c \<and> looks_like_shell_command c \<and> CHR 0x0A \<notin> set c \<and>
          list_ex (\<lambda>p. starts p (lower c)) command_prefixes)"

lemma shell_command_one_line: "looks_like_shell_command c \<Longrightarrow> CHR 0x0A \<notin> set c"
proof
  assume l: "looks_like_shell_command c" and "CHR 0x0A \<in> set c"
  then obtain u v where "c = u @ [CHR 0x0A] @ v" by (metis split_list append_Cons append_Nil)
  then have "has_sub [CHR 0x0A] c" by (auto simp: has_sub_def sublist_def)
  with l show False by (simp add: looks_like_shell_command_def command_stop_tokens_def)
qed

lemma requirement_step_runnable:
  assumes "r \<in> set (requirement_step item)" "command_kind r"
  shows "runnable_requirement r"
proof (cases "command_kind item")
  case True
  let ?c = "requirement_command item"
  have "r = dput ''command'' (PStr ?c) (dput ''kind'' (PStr ''command'') item) \<and>
      looks_like_shell_command ?c \<and> list_ex (\<lambda>p. starts p (lower ?c)) command_prefixes"
    using assms(1) True by (auto simp: requirement_step_def command_kind_def Let_def split: if_splits)
  then show ?thesis by (auto simp: runnable_requirement_def dget_dput shell_command_one_line)
next
  case False
  then have "requirement_step item = [item]" by (simp add: requirement_step_def command_kind_def)
  with assms False show ?thesis by simp
qed

lemma requirements_runnable:
  "r \<in> set (normalize_subtask_verification_requirements v) \<Longrightarrow> command_kind r \<Longrightarrow> runnable_requirement r"
  using requirement_step_runnable by (auto simp: normalize_subtask_verification_requirements_def)

definition legacy_contract_keys :: "string list" where
  "legacy_contract_keys = [''owned_scope'', ''writeScope'', ''write_scope'', ''expected_artifacts'', ''verification_requirements'']"

definition contract_keys :: "string list" where
  "contract_keys = [''ownedScope'', ''expectedArtifacts'', ''verificationRequirements'']"

lemma contract_verification_frame:
  assumes "k \<noteq> ''verificationRequirements''" "k \<noteq> ''verification_requirements''"
  shows "dget (contract_verification d n) k = dget n k" "dhas (contract_verification d n) k = dhas n k"
  using assms by (simp_all add: contract_verification_def dget_dput dget_dpop dhas_dput dhas_dpop)

lemma contract_artifacts_frame:
  assumes "k \<noteq> ''expectedArtifacts''" "k \<noteq> ''expected_artifacts''"
  shows "dget (contract_artifacts d n) k = dget n k" "dhas (contract_artifacts d n) k = dhas n k"
  using assms by (simp_all add: contract_artifacts_def dget_dput dget_dpop dhas_dput dhas_dpop)

lemma contract_owned_scope_frame:
  assumes "k \<noteq> ''ownedScope''" "k \<noteq> ''owned_scope''" "k \<noteq> ''writeScope''" "k \<noteq> ''write_scope''"
  shows "dget (contract_owned_scope d n) k = dget n k" "dhas (contract_owned_scope d n) k = dhas n k"
  using assms by (simp_all add: contract_owned_scope_def dget_dput dget_dpop dhas_dput dhas_dpop)

lemmas contract_frames = contract_verification_frame contract_artifacts_frame contract_owned_scope_frame

lemma contract_verification_legacy:
  "dhas n ''verification_requirements'' = dhas d ''verification_requirements'' \<Longrightarrow>
   \<not> dhas (contract_verification d n) ''verification_requirements''"
  by (simp add: contract_verification_def dhas_dput dhas_dpop)

lemma contract_artifacts_legacy:
  "dhas n ''expected_artifacts'' = dhas d ''expected_artifacts'' \<Longrightarrow>
   \<not> dhas (contract_artifacts d n) ''expected_artifacts''"
  by (simp add: contract_artifacts_def dhas_dput dhas_dpop)

lemma contract_scope_legacy:
  "\<not> dhas (contract_owned_scope d d) ''owned_scope''"
  "\<not> dhas (contract_owned_scope d d) ''writeScope''"
  "\<not> dhas (contract_owned_scope d d) ''write_scope''"
  by (simp_all add: contract_owned_scope_def dhas_dput dhas_dpop)

lemma contract_scope_value:
  assumes "dhas (contract_owned_scope d d) ''ownedScope''"
  shows "\<exists>w. dget (contract_owned_scope d d) ''ownedScope'' = PList (map PStr (normalize_subtask_owned_scope w))"
proof (cases "list_ex (dhas d) [''ownedScope'', ''owned_scope'', ''writeScope'', ''write_scope'']")
  case True
  then show ?thesis unfolding contract_owned_scope_def by (simp only: if_True) (simp add: dget_dput dget_dpop, blast)
next
  case False
  then show ?thesis using assms by (simp add: contract_owned_scope_def)
qed

lemma contract_requirements_value:
  assumes "dhas (contract_verification d n) ''verificationRequirements''"
    and "dhas n ''verificationRequirements'' \<longleftrightarrow> dhas d ''verificationRequirements''"
  shows "\<exists>w. dget (contract_verification d n) ''verificationRequirements'' =
    PList (map PDict (normalize_subtask_verification_requirements w))"
proof (cases "list_ex (dhas d) [''verificationRequirements'', ''verification_requirements'']")
  case True
  then show ?thesis unfolding contract_verification_def by (simp only: if_True) (simp add: dget_dput dget_dpop, blast)
next
  case False
  then show ?thesis using assms by (simp add: contract_verification_def)
qed

text \<open>
  A normalised subtask contract has no legacy spelling of a field left and the fields it
  does not normalise are untouched; its owned scope is a list of distinct, trimmed, non-empty
  paths; and each verification requirement of kind command that survives names a one-line
  command that starts with a known tool and passes the shell command test.
\<close>

theorem profile_contract_normal:
  assumes "normalize_subtask_profile_contract (PDict d) = Some n"
  shows "(\<forall>k \<in> set legacy_contract_keys. \<not> dhas n k) \<and>
    (\<forall>k. k \<notin> set legacy_contract_keys \<and> k \<notin> set contract_keys \<longrightarrow> dget n k = dget d k) \<and>
    (dhas n ''ownedScope'' \<longrightarrow> (\<exists>ss. dget n ''ownedScope'' = PList (map PStr ss) \<and> distinct ss \<and>
       (\<forall>s \<in> set ss. s \<noteq> '''' \<and> strip s = s))) \<and>
    (dhas n ''verificationRequirements'' \<longrightarrow> (\<exists>rs. dget n ''verificationRequirements'' = PList (map PDict rs) \<and>
       (\<forall>r \<in> set rs. command_kind r \<longrightarrow> runnable_requirement r)))"
proof (intro conjI)
  let ?s = "contract_owned_scope d d"
  let ?a = "contract_artifacts d ?s"
  have n: "n = contract_verification d ?a"
    using assms by (simp add: normalize_subtask_profile_contract_def)
  have "\<not> dhas n ''verification_requirements''"
    unfolding n by (rule contract_verification_legacy) (simp add: contract_frames)
  moreover have "\<not> dhas ?a ''expected_artifacts''"
    by (rule contract_artifacts_legacy) (simp add: contract_frames)
  ultimately show "\<forall>k \<in> set legacy_contract_keys. \<not> dhas n k"
    by (simp add: legacy_contract_keys_def n contract_frames contract_scope_legacy)
  show "\<forall>k. k \<notin> set legacy_contract_keys \<and> k \<notin> set contract_keys \<longrightarrow> dget n k = dget d k"
    by (simp add: n legacy_contract_keys_def contract_keys_def contract_frames)
  have "dhas ?s ''ownedScope'' \<longrightarrow> (\<exists>ss. dget ?s ''ownedScope'' = PList (map PStr ss) \<and> distinct ss \<and>
       (\<forall>s \<in> set ss. s \<noteq> '''' \<and> strip s = s))"
    using contract_scope_value [of d] owned_scope_normal by blast
  then show "dhas n ''ownedScope'' \<longrightarrow> (\<exists>ss. dget n ''ownedScope'' = PList (map PStr ss) \<and> distinct ss \<and>
       (\<forall>s \<in> set ss. s \<noteq> '''' \<and> strip s = s))"
  proof -
    have "dget n ''ownedScope'' = dget ?s ''ownedScope''" "dhas n ''ownedScope'' = dhas ?s ''ownedScope''"
      by (simp_all add: n contract_frames)
    then show ?thesis using \<open>dhas ?s ''ownedScope'' \<longrightarrow> _\<close> by simp
  qed
  have "dhas ?a ''verificationRequirements'' \<longleftrightarrow> dhas d ''verificationRequirements''"
    by (simp add: contract_frames)
  then show "dhas n ''verificationRequirements'' \<longrightarrow>
      (\<exists>rs. dget n ''verificationRequirements'' = PList (map PDict rs) \<and>
       (\<forall>r \<in> set rs. command_kind r \<longrightarrow> runnable_requirement r))"
    unfolding n using contract_requirements_value [of d ?a] requirements_runnable by blast
qed

definition sample_contract :: pdict where
  "sample_contract =
     [(''name'', PStr ''t''), (''write_scope'', PList [PStr '' a '', PStr ''a'', PStr '''']),
      (''verification_requirements'', PList [PDict [(''kind'', PStr ''Command''), (''command'', PStr ''pytest -q;'')],
         PDict [(''kind'', PStr ''command''), (''command'', PStr ''rm -rf x'')]])]"

lemma profile_contract_normal_witness:
  "\<exists>n. normalize_subtask_profile_contract (PDict sample_contract) = Some n \<and>
    \<not> dhas n ''write_scope'' \<and> dget n ''ownedScope'' = PList [PStr ''a''] \<and> dget n ''name'' = PStr ''t'' \<and>
    dget n ''verificationRequirements'' =
      PList [PDict [(''kind'', PStr ''command''), (''command'', PStr ''pytest -q'')]]"
proof -
  define n where "n = the (normalize_subtask_profile_contract (PDict sample_contract))"
  have e: "normalize_subtask_profile_contract (PDict sample_contract) = Some n"
    unfolding n_def by (simp add: normalize_subtask_profile_contract_def)
  have "dget n ''ownedScope'' = PList [PStr ''a''] \<and> dget n ''verificationRequirements'' =
      PList [PDict [(''kind'', PStr ''command''), (''command'', PStr ''pytest -q'')]]"
    unfolding n_def by code_simp
  moreover have "\<not> dhas n ''write_scope''" "dget n ''name'' = dget sample_contract ''name''"
    using profile_contract_normal [OF e] by (simp_all add: legacy_contract_keys_def contract_keys_def)
  ultimately show ?thesis using e by (simp add: sample_contract_def dget_def)
qed

end
