(* ===== verification/Planner.thy ===== *)
theory Planner
  imports Paths ChildTools "HOL-Library.List_Lexorder" "HOL-Library.Char_ord"
begin

text \<open>
  The planner contract (\<open>policy/planner_contract.py\<close>): validation of agent profiles and of a
  planner's output, the execution layers of the dependency graph and the tasks that a failed
  task blocks. A validator returns the list of its reasons, or the exception that it raises
  when a value that is not hashable is tested for membership in a set.
\<close>

section \<open>Agent profiles\<close>

definition required_profile_fields :: "string list" where
  \<comment> \<open>sorted\<close>
  "required_profile_fields = [''baseType'', ''mission'', ''name'']"

definition valid_base_types :: "string list" where
  "valid_base_types = [''explorer'', ''reviewer'', ''summarizer'', ''verifier'', ''worker'']"

definition valid_risk_levels :: "string list" where
  "valid_risk_levels = [''critical'', ''high'', ''low'', ''medium'']"

definition repr_strs :: "string list \<Rightarrow> string" where
  "repr_strs ss = py_repr (PList (map PStr ss))"

definition reason_if :: "bool \<Rightarrow> string \<Rightarrow> string list" where
  \<comment> \<open>\<open>if b: reasons.append(r)\<close>\<close>
  "reason_if b r = (if b then [r] else [])"

lemma reason_if_Nil [simp]: "reason_if b r = [] \<longleftrightarrow> \<not> b"
  by (simp add: reason_if_def)

definition required_field_reasons :: "pdict \<Rightarrow> string list" where
  "required_field_reasons p =
     concat (map (\<lambda>f. reason_if (\<not> dhas p f \<or> \<not> truthy (dget p f))
       (''Agent profile missing required field: '' @ repr_str f)) required_profile_fields)"

definition base_type_reasons :: "pdict \<Rightarrow> string list res" where
  "base_type_reasons p =
     (let base_type = dget p ''baseType'' in
      if truthy base_type then
        rbind (pin_set base_type valid_base_types) (\<lambda>ok. Inr (reason_if (\<not> ok)
          (''Invalid baseType: '' @ py_repr base_type @ ''. Must be one of '' @ repr_strs valid_base_types)))
      else Inr [])"

definition tool_reasons :: "pv \<Rightarrow> string list" where
  "tool_reasons tool =
     (let resolved = resolve_tool_alias (py_str tool) in
      if resolved \<in> set unsafe_child_tools then
        [''Unsafe tool in profile: '' @ py_repr tool @ '' (resolved: '' @ repr_str resolved @ '')'']
      else if resolved \<notin> set known_child_tools then
        [''Unknown tool in profile: '' @ py_repr tool @ '' (resolved: '' @ repr_str resolved @ '')'']
      else [])"

definition allowed_tools_reasons :: "pdict \<Rightarrow> string list" where
  "allowed_tools_reasons p =
     (case dget p ''allowedTools'' of
        PNone \<Rightarrow> []
      | PList tools \<Rightarrow> concat (map tool_reasons tools)
      | _ \<Rightarrow> [''allowedTools must be a list''])"

definition owned_scope_items :: "pv \<Rightarrow> pv list option" where
  \<comment> \<open>a string counts as a one-element list\<close>
  "owned_scope_items v = (case v of PStr s \<Rightarrow> Some [PStr s] | PList xs \<Rightarrow> Some xs | _ \<Rightarrow> None)"

definition scope_reasons :: "pdict \<Rightarrow> string list" where
  "scope_reasons p =
     (let v = dget p ''ownedScope'' in
      if is_none v then []
      else (case owned_scope_items v of
          None \<Rightarrow> [''ownedScope must be a string or list'']
        | Some scopes \<Rightarrow> concat (map (\<lambda>s. reason_if (\<not> is_str s \<or> strip (the_str s) = '''')
            (''Invalid scope path: '' @ py_repr s)) scopes)))"

definition risk_reasons :: "pdict \<Rightarrow> string list res" where
  "risk_reasons p =
     (let risk = dget p ''riskLevel'' in
      if is_none risk then Inr []
      else rbind (pin_set risk valid_risk_levels) (\<lambda>ok. Inr (reason_if (\<not> ok)
        (''Invalid riskLevel: '' @ py_repr risk @ ''. Must be one of '' @ repr_strs valid_risk_levels))))"

definition artifact_reasons :: "pdict \<Rightarrow> string list" where
  "artifact_reasons p =
     (case dget p ''expectedArtifacts'' of
        PNone \<Rightarrow> []
      | PList arts \<Rightarrow> concat (map (\<lambda>(j, art).
          (case art of
             PDict a \<Rightarrow> reason_if (\<not> dhas a ''kind'')
               (''expectedArtifacts['' @ int_str (int j) @ ''] missing required field '' @ repr_str ''kind'')
           | _ \<Rightarrow> [''expectedArtifacts['' @ int_str (int j) @ ''] must be a dict''])) (enum arts))
      | _ \<Rightarrow> [''expectedArtifacts must be a list''])"

definition optional_field_reasons :: "pdict \<Rightarrow> string list" where
  \<comment> \<open>handoffNotes, priority, verificationRequirements and prompt\<close>
  "optional_field_reasons p =
     (let handoff = dget p ''handoffNotes''; priority = dget p ''priority'';
          verification = dget p ''verificationRequirements''; prompt = dget p ''prompt''
      in reason_if (\<not> is_none handoff \<and> \<not> is_str handoff) ''handoffNotes must be a string'' @
         reason_if (\<not> is_none priority \<and> (\<not> is_int priority \<or> the (pnum priority) < 0))
           ''priority must be a non-negative integer'' @
         (if is_none verification then []
          else if \<not> is_list verification then [''verificationRequirements must be a list'']
          else reason_if (the_list verification = []) ''verificationRequirements must be non-empty if provided'') @
         reason_if (\<not> is_none prompt \<and> \<not> is_str prompt) ''prompt must be a string'')"

definition done_reasons :: "pdict \<Rightarrow> string list" where
  "done_reasons p =
     (let d = dget p ''doneCriteria'' in
      reason_if (\<not> is_none d \<and> (\<not> is_list d \<or> the_list d = [])) ''doneCriteria must be a non-empty list'')"

definition validate_agent_profile :: "pdict \<Rightarrow> string list res" where
  "validate_agent_profile p =
     rbind (base_type_reasons p) (\<lambda>base. rbind (risk_reasons p) (\<lambda>risk.
       Inr (required_field_reasons p @ base @ allowed_tools_reasons p @ scope_reasons p @ risk @
            done_reasons p @ artifact_reasons p @ optional_field_reasons p)))"

section \<open>Planner output\<close>

definition subtask_tag :: "nat \<Rightarrow> string" where
  "subtask_tag i = ''subtasks['' @ int_str (int i) @ '']''"

definition profile_step :: "nat \<times> pv \<Rightarrow> pv list \<times> string list \<Rightarrow> (pv list \<times> string list) res" where
  \<comment> \<open>the first loop: profile checks and \<open>task_names\<close>\<close>
  "profile_step t st =
     (let (i, task) = t; (task_names, reasons) = st in
      case task of
        PDict d \<Rightarrow>
          rbind (validate_agent_profile d) (\<lambda>rs.
            let reasons = reasons @ map (\<lambda>r. subtask_tag i @ '': '' @ r) rs; name = dget d ''name'' in
            if \<not> truthy name then Inr (task_names, reasons)
            else if \<not> hashable name then Inl TypeErr
            else Inr (if py_mem name task_names then task_names else task_names @ [name],
                      reasons @ reason_if (py_mem name task_names)
                        (subtask_tag i @ '': duplicate name '' @ py_repr name)))
      | _ \<Rightarrow> Inr (task_names, reasons @ [subtask_tag i @ '' must be a dict'']))"

definition dependency_reasons :: "pv list \<Rightarrow> nat \<times> pv \<Rightarrow> string list res" where
  \<comment> \<open>the second loop\<close>
  "dependency_reasons task_names t =
     (let (i, task) = t in
      case task of
        PDict d \<Rightarrow>
          (case dget_or d ''dependencies'' (PList []) of
             PList deps \<Rightarrow>
               rconcat (\<lambda>dep. if \<not> hashable dep then Inl TypeErr
                 else Inr (reason_if (\<not> py_mem dep task_names)
                   (subtask_tag i @ '': references unknown dependency '' @ py_repr dep))) deps
           | _ \<Rightarrow> Inr [])
      | _ \<Rightarrow> Inr [])"

definition self_dependency_reasons :: "nat \<times> pv \<Rightarrow> string list res" where
  \<comment> \<open>the third loop; \<open>name in deps\<close> runs on whatever \<open>dependencies\<close> holds\<close>
  "self_dependency_reasons t =
     (let (i, task) = t in
      case task of
        PDict d \<Rightarrow>
          (let name = dget d ''name''; deps = dget_or d ''dependencies'' (PList []) in
           if \<not> truthy name then Inr []
           else rbind (pin name deps) (\<lambda>b. Inr (reason_if b (subtask_tag i @ '': self-dependency on '' @ py_repr name))))
      | _ \<Rightarrow> Inr [])"

definition scope_entries :: "nat \<times> pv \<Rightarrow> (nat \<times> pv \<times> pv) list" where
  \<comment> \<open>index, owner and scope, in the order of the nested loops\<close>
  "scope_entries t =
     (let (i, task) = t in
      case task of
        PDict d \<Rightarrow>
          (let name = por (dget d ''name'') (PStr (''subtask_'' @ int_str (int i))) in
           case owned_scope_items (dget d ''ownedScope'') of
             None \<Rightarrow> []
           | Some scopes \<Rightarrow> map (\<lambda>scope. (i, name, scope)) scopes)
      | _ \<Rightarrow> [])"

definition scope_step ::
  "nat \<times> pv \<times> pv \<Rightarrow> (string \<times> pv) list \<times> string list \<Rightarrow> (string \<times> pv) list \<times> string list" where
  "scope_step =
     scan_scope
       (\<lambda>i name scope. subtask_tag i @ '': invalid write scope '' @ py_repr scope)
       (\<lambda>scope_str owner name. ''Overlapping write scope '' @ repr_str scope_str @ '' between '' @
          py_repr owner @ '' and '' @ py_repr name)"

definition gate_reasons :: "nat \<times> pv \<Rightarrow> string list" where
  \<comment> \<open>the last loop\<close>
  "gate_reasons t =
     (let (i, task) = t in
      case task of
        PDict d \<Rightarrow>
          (let risk = dget d ''riskLevel''; gates = dget d ''approvalGates'' in
           reason_if (pin_tuple risk [''high'', ''critical''] \<and> (\<not> is_list gates \<or> the_list gates = []))
             (subtask_tag i @ '': risk level '' @ py_repr risk @ '' requires approval gates''))
      | _ \<Rightarrow> [])"

definition validate_planner_output :: "pdict \<Rightarrow> string list res" where
  "validate_planner_output output =
     (let title = reason_if (\<not> truthy (dget output ''title'')) (''Planner output missing '' @ repr_str ''title'');
          subtasks = dget output ''subtasks''
      in if \<not> is_list subtasks \<or> the_list subtasks = [] then
           Inr (title @ [''Planner output must contain non-empty '' @ repr_str ''subtasks'' @ '' list''])
         else let tasks = enum (the_list subtasks) in
           rbind (rfold profile_step tasks ([], [])) (\<lambda>(task_names, profile).
           rbind (rconcat (dependency_reasons task_names) tasks) (\<lambda>deps.
           rbind (rconcat self_dependency_reasons tasks) (\<lambda>self.
             Inr (title @ profile @ deps @ self @
                  snd (fold scope_step (concat (map scope_entries tasks)) ([], [])) @
                  concat (map gate_reasons tasks))))))"

section \<open>What acceptance of a planner output means\<close>

lemma base_type_accepted: "base_type_reasons p = Inr [] \<Longrightarrow> truthy (dget p ''baseType'') \<Longrightarrow>
    \<exists>b \<in> set valid_base_types. dget p ''baseType'' = PStr b"
  by (auto simp: base_type_reasons_def Let_def rbind_eq_Inr pin_set_True split: if_splits)

lemma risk_accepted: "risk_reasons p = Inr [] \<Longrightarrow>
    dget p ''riskLevel'' = PNone \<or> (\<exists>r \<in> set valid_risk_levels. dget p ''riskLevel'' = PStr r)"
  by (auto simp: risk_reasons_def Let_def rbind_eq_Inr pin_set_True is_none_def split: if_splits)

lemma tool_accepted: "tool_reasons t = [] \<longleftrightarrow> child_tool_ok (resolve_tool_alias (py_str t))"
  by (simp add: tool_reasons_def Let_def child_tool_ok_def)

definition profile_tools :: "pdict \<Rightarrow> pv list" where
  "profile_tools p = the_list (dget p ''allowedTools'')"

lemma tools_accepted: "allowed_tools_reasons p = [] \<Longrightarrow>
    \<forall>t \<in> set (profile_tools p). child_tool_ok (resolve_tool_alias (py_str t))"
  by (cases "dget p ''allowedTools''") (simp_all add: allowed_tools_reasons_def profile_tools_def tool_accepted)

lemma profile_accepted:
  assumes "validate_agent_profile p = Inr []"
  shows "truthy (dget p ''name'')" "truthy (dget p ''mission'')"
    "\<exists>b \<in> set valid_base_types. dget p ''baseType'' = PStr b"
    "\<forall>t \<in> set (profile_tools p). child_tool_ok (resolve_tool_alias (py_str t))"
    "dget p ''riskLevel'' = PNone \<or> (\<exists>r \<in> set valid_risk_levels. dget p ''riskLevel'' = PStr r)"
proof -
  from assms have r: "required_field_reasons p = []" "base_type_reasons p = Inr []"
    "allowed_tools_reasons p = []" "risk_reasons p = Inr []"
    by (auto simp: validate_agent_profile_def rbind_eq_Inr)
  from r(1) show "truthy (dget p ''name'')" "truthy (dget p ''mission'')"
    by (simp_all add: required_field_reasons_def required_profile_fields_def)
  have "truthy (dget p ''baseType'')"
    using r(1) by (simp add: required_field_reasons_def required_profile_fields_def)
  then show "\<exists>b \<in> set valid_base_types. dget p ''baseType'' = PStr b" using r(2) base_type_accepted by blast
  show "\<forall>t \<in> set (profile_tools p). child_tool_ok (resolve_tool_alias (py_str t))"
    using r(3) tools_accepted by blast
  show "dget p ''riskLevel'' = PNone \<or> (\<exists>r \<in> set valid_risk_levels. dget p ''riskLevel'' = PStr r)"
    using r(4) risk_accepted by blast
qed

definition apart :: "pv list \<Rightarrow> bool" where
  \<comment> \<open>pairwise different, in Python's sense of equality\<close>
  "apart ns \<longleftrightarrow> sorted_wrt (\<lambda>a b. \<not> py_eq a b) ns"

lemma profile_step_clean:
  assumes "profile_step (i, task) (ns, rs) = Inr (ns', [])"
  obtains d where "task = PDict d" "rs = []" "validate_agent_profile d = Inr []"
    "ns' = ns @ [dget d ''name'']" "\<not> py_mem (dget d ''name'') ns"
proof (cases task)
  case (PDict d)
  with assms obtain ps where v: "validate_agent_profile d = Inr ps"
    by (auto simp: profile_step_def rbind_eq_Inr)
  with assms PDict have e: "ps = []" "rs = []"
    by (auto simp: profile_step_def Let_def split: if_splits)
  then have "truthy (dget d ''name'')" using v profile_accepted(1) by blast
  then have "ns' = ns @ [dget d ''name'']" "\<not> py_mem (dget d ''name'') ns"
    using assms PDict v e by (auto simp: profile_step_def Let_def split: if_splits)
  then show thesis using that PDict v e by blast
qed (use assms in \<open>auto simp: profile_step_def\<close>)

lemma profile_loop_clean:
  assumes "rfold profile_step tasks (ns, rs) = Inr (ns', [])" "apart ns"
  shows "rs = [] \<and> apart ns' \<and> (\<exists>ds. map snd tasks = map PDict ds \<and> ns' = ns @ map (\<lambda>d. dget d ''name'') ds \<and>
     (\<forall>d \<in> set ds. validate_agent_profile d = Inr []))"
  using assms
proof (induction tasks arbitrary: ns rs)
  case Nil
  then show ?case by simp
next
  case (Cons t tasks)
  obtain i task where t: "t = (i, task)" by fastforce
  from Cons.prems(1) obtain ns1 rs1 where s: "profile_step (i, task) (ns, rs) = Inr (ns1, rs1)"
    and f: "rfold profile_step tasks (ns1, rs1) = Inr (ns', [])"
    unfolding t by (auto simp: rbind_eq_Inr)
  have r1: "apart ns1 \<Longrightarrow> rs1 = []" using Cons.IH [OF f] by simp
  have "rs1 = []"
  proof -
    have "rfold profile_step xs (a, b) = Inr (c, []) \<Longrightarrow> b = []" for xs a b c
    proof (induction xs arbitrary: a b)
      case (Cons x xs)
      obtain j u where x: "x = (j, u)" by fastforce
      from Cons.prems obtain a1 b1 where p: "profile_step (j, u) (a, b) = Inr (a1, b1)"
        "rfold profile_step xs (a1, b1) = Inr (c, [])" unfolding x by (auto simp: rbind_eq_Inr)
      from Cons.IH [OF p(2)] p(1) have "profile_step (j, u) (a, b) = Inr (a1, [])" by simp
      then show ?case by (rule profile_step_clean)
    qed simp
    then show ?thesis using f by blast
  qed
  with s obtain d where d: "task = PDict d" "rs = []" "validate_agent_profile d = Inr []"
    "ns1 = ns @ [dget d ''name'']" "\<not> py_mem (dget d ''name'') ns" by (metis profile_step_clean)
  then have "apart ns1" using Cons.prems(2) by (auto simp: apart_def sorted_wrt_append py_mem_def)
  from Cons.IH [OF f this] obtain ds where ds: "apart ns'" "map snd tasks = map PDict ds"
    "ns' = ns1 @ map (\<lambda>d. dget d ''name'') ds" "\<forall>d \<in> set ds. validate_agent_profile d = Inr []" by blast
  then show ?case using d t by (intro conjI exI [of _ "d # ds"]) auto
qed

definition planner_tasks :: "pdict \<Rightarrow> pdict list" where
  "planner_tasks output = map the_dict (the_list (dget output ''subtasks''))"

definition task_deps :: "pdict \<Rightarrow> pv list" where
  "task_deps d = the_list (dget_or d ''dependencies'' (PList []))"

definition planner_scopes :: "pdict \<Rightarrow> string list" where
  \<comment> \<open>the write scopes of all subtasks, normalised, in order\<close>
  "planner_scopes output =
     map (\<lambda>(i, n, s). normalize_relative_path s)
       (concat (map scope_entries (enum (the_list (dget output ''subtasks'')))))"

definition gated :: "pdict \<Rightarrow> bool" where
  "gated d \<longleftrightarrow> (pin_tuple (dget d ''riskLevel'') [''high'', ''critical''] \<longrightarrow>
     is_list (dget d ''approvalGates'') \<and> the_list (dget d ''approvalGates'') \<noteq> [])"

lemma map_snd_enum: "map snd (enum xs) = xs"
  by (simp add: enum_def)

lemma in_enum: "t \<in> set xs \<Longrightarrow> \<exists>i. (i, t) \<in> set (enum xs)"
  by (auto simp: set_enum in_set_conv_nth)

lemma planner_parts:
  assumes "validate_planner_output out = Inr []"
  obtains names where "the_list (dget out ''subtasks'') \<noteq> []" "truthy (dget out ''title'')"
    "is_list (dget out ''subtasks'')"
    "rfold profile_step (enum (the_list (dget out ''subtasks''))) ([], []) = Inr (names, [])"
    "rconcat (dependency_reasons names) (enum (the_list (dget out ''subtasks''))) = Inr []"
    "rconcat self_dependency_reasons (enum (the_list (dget out ''subtasks''))) = Inr []"
    "snd (fold scope_step (concat (map scope_entries (enum (the_list (dget out ''subtasks''))))) ([], [])) = []"
    "\<forall>t \<in> set (enum (the_list (dget out ''subtasks''))). gate_reasons t = []"
  using assms by (auto simp: validate_planner_output_def Let_def rbind_eq_Inr split: if_splits)

lemma deps_accepted:
  assumes "dependency_reasons names (i, PDict d) = Inr []" "dep \<in> set (task_deps d)"
  shows "py_mem dep names"
proof -
  from assms(2) obtain xs where "dget_or d ''dependencies'' (PList []) = PList xs" "dep \<in> set xs"
    by (cases "dget_or d ''dependencies'' (PList [])") (auto simp: task_deps_def)
  with assms(1) show ?thesis
    by (auto simp: dependency_reasons_def rconcat_Inr_Nil split: if_splits)
qed

lemma self_dep_accepted:
  assumes "self_dependency_reasons (i, PDict d) = Inr []" "dep \<in> set (task_deps d)" "truthy (dget d ''name'')"
  shows "\<not> py_eq dep (dget d ''name'')"
proof -
  from assms(2) obtain xs where "dget_or d ''dependencies'' (PList []) = PList xs" "dep \<in> set xs"
    by (cases "dget_or d ''dependencies'' (PList [])") (auto simp: task_deps_def)
  with assms(1,3) show ?thesis
    by (auto simp: self_dependency_reasons_def Let_def pin_def rbind_eq_Inr py_mem_def)
qed

lemma gate_accepted: "gate_reasons (i, PDict d) = [] \<Longrightarrow> gated d"
  by (simp add: gate_reasons_def Let_def gated_def)

text \<open>
  A planner output that the validator accepts is a non-empty list of tasks with pairwise
  different names; every task has a known base type, only known and safe child tools after
  alias resolution, dependencies that all name other tasks of the same output, and approval
  gates when its risk level is high or critical.
\<close>

theorem planner_output_accepted:
  assumes "validate_planner_output out = Inr []"
  shows "planner_tasks out \<noteq> [] \<and> dget out ''subtasks'' = PList (map PDict (planner_tasks out)) \<and>
    apart (map (\<lambda>d. dget d ''name'') (planner_tasks out)) \<and>
    (\<forall>d \<in> set (planner_tasks out).
       truthy (dget d ''name'') \<and> truthy (dget d ''mission'') \<and>
       (\<exists>b \<in> set valid_base_types. dget d ''baseType'' = PStr b) \<and>
       (\<forall>t \<in> set (profile_tools d). child_tool_ok (resolve_tool_alias (py_str t))) \<and>
       (\<forall>dep \<in> set (task_deps d). py_mem dep (map (\<lambda>d. dget d ''name'') (planner_tasks out)) \<and>
          \<not> py_eq dep (dget d ''name'')) \<and>
       gated d)"
proof -
  let ?ts = "the_list (dget out ''subtasks'')"
  from assms obtain names where p: "?ts \<noteq> []" "is_list (dget out ''subtasks'')"
    "rfold profile_step (enum ?ts) ([], []) = Inr (names, [])"
    "rconcat (dependency_reasons names) (enum ?ts) = Inr []"
    "rconcat self_dependency_reasons (enum ?ts) = Inr []"
    "\<forall>t \<in> set (enum ?ts). gate_reasons t = []"
    by (rule planner_parts) blast
  have "apart []" by (simp add: apart_def)
  from profile_loop_clean [OF p(3) this] obtain ds where
    ds: "?ts = map PDict ds" "names = map (\<lambda>d. dget d ''name'') ds" "apart names"
    "\<forall>d \<in> set ds. validate_agent_profile d = Inr []" by (auto simp: map_snd_enum)
  then have pt: "planner_tasks out = ds" by (simp add: planner_tasks_def comp_def)
  have "truthy (dget d ''name'') \<and> truthy (dget d ''mission'') \<and>
       (\<exists>b \<in> set valid_base_types. dget d ''baseType'' = PStr b) \<and>
       (\<forall>t \<in> set (profile_tools d). child_tool_ok (resolve_tool_alias (py_str t))) \<and>
       (\<forall>dep \<in> set (task_deps d). py_mem dep names \<and> \<not> py_eq dep (dget d ''name'')) \<and> gated d"
    if d: "d \<in> set ds" for d
  proof -
    from d ds(1) obtain i where "(i, PDict d) \<in> set (enum ?ts)" using in_enum [of "PDict d" ?ts] by auto
    then have "dependency_reasons names (i, PDict d) = Inr []" "self_dependency_reasons (i, PDict d) = Inr []"
      "gate_reasons (i, PDict d) = []" using p by (auto simp: rconcat_Inr_Nil)
    then show ?thesis using d ds(4) profile_accepted [of d] deps_accepted self_dep_accepted gate_accepted
      by blast
  qed
  moreover have "dget out ''subtasks'' = PList (map PDict ds)"
    using p(2) ds(1) by (cases "dget out ''subtasks''") auto
  ultimately show ?thesis using p(1) ds pt by simp
qed

text \<open>
  The write scopes of an accepted planner output are safe relative paths, and no path of
  the workspace lies in two literal scopes: two tasks never own the same file.
\<close>

theorem planner_scopes_disjoint:
  assumes "validate_planner_output out = Inr []"
  shows "(\<forall>s \<in> set (planner_scopes out). safe_path s) \<and>
    (\<forall>u i j. safe_path u \<and> i < length (planner_scopes out) \<and> j < length (planner_scopes out) \<and>
       literal_scope (planner_scopes out ! i) \<and> literal_scope (planner_scopes out ! j) \<and>
       path_contains (planner_scopes out ! i) u \<and> path_contains (planner_scopes out ! j) u \<longrightarrow> i = j)"
proof -
  let ?es = "concat (map scope_entries (enum (the_list (dget out ''subtasks''))))"
  from assms have "snd (fold scope_step ?es ([], [])) = []" by (rule planner_parts)
  then obtain m where "fold scope_step ?es ([], []) = (m, [])" by (metis prod.collapse)
  from scan_scope_clean [OF this [unfolded scope_step_def]] have
    sw: "sorted_wrt (\<lambda>a b. \<not> overlaps a b) (planner_scopes out)" and
    safe: "\<forall>s \<in> set (planner_scopes out). safe_path s"
    by (auto simp: planner_scopes_def intro!: normalize_safe)
  have "i = j" if "safe_path u" "i < length (planner_scopes out)" "j < length (planner_scopes out)"
    "literal_scope (planner_scopes out ! i)" "literal_scope (planner_scopes out ! j)"
    "path_contains (planner_scopes out ! i) u" "path_contains (planner_scopes out ! j) u" for u i j
    using that safe sw
    by (intro scopes.pairwise_disjoint [of "planner_scopes out" u]) (auto simp: overlaps_def safe_literal_def)
  with safe show ?thesis by blast
qed

definition sample_task :: "string \<Rightarrow> string list \<Rightarrow> string \<Rightarrow> pdict" where
  "sample_task name deps scope =
     [(''name'', PStr name), (''baseType'', PStr ''worker''), (''mission'', PStr ''m''),
      (''dependencies'', PList (map PStr deps)), (''allowedTools'', PList [PStr ''rg'', PStr ''patch'']),
      (''ownedScope'', PStr scope), (''riskLevel'', PStr ''high''), (''approvalGates'', PList [PStr ''user''])]"

definition sample_output :: pdict where
  "sample_output =
     [(''title'', PStr ''plan''),
      (''subtasks'', PList [PDict (sample_task ''a'' [] ''src/x''), PDict (sample_task ''b'' [''a''] ''./src//y/../z/'')])]"

lemma sample_output_accepted: "validate_planner_output sample_output = Inr []"
  by code_simp

lemma planner_output_accepted_witness:
  "validate_planner_output sample_output = Inr [] \<and> planner_tasks sample_output \<noteq> [] \<and>
   apart (map (\<lambda>d. dget d ''name'') (planner_tasks sample_output))"
  using planner_output_accepted [OF sample_output_accepted] sample_output_accepted by simp

lemma planner_scopes_disjoint_witness:
  "planner_scopes sample_output = [''src/x'', ''src/z''] \<and> safe_path ''src/z'' \<and> literal_scope ''src/z''"
proof -
  have e: "planner_scopes sample_output = [''src/x'', ''src/z'']" by code_simp
  have "literal_scope ''src/z''" by code_simp
  then show ?thesis using planner_scopes_disjoint [OF sample_output_accepted] e by simp
qed

section \<open>Execution layers\<close>

text \<open>
  The scheduler works on string names: \<open>sorted\<close> compares names, and names of other types are
  outside its declared domain \<open>list[list[str]]\<close>. A task whose name is missing, empty or not a
  string is skipped.
\<close>

definition task_name :: "pdict \<Rightarrow> string option" where
  "task_name t = (case dget t ''name'' of PStr s \<Rightarrow> if s = '''' then None else Some s | _ \<Rightarrow> None)"

definition task_names :: "pdict list \<Rightarrow> string list" where
  "task_names ts = dedupe [] (List.map_filter task_name ts)"

type_synonym dep_map = "(string \<times> string list) list"

definition deps_in :: "string list \<Rightarrow> pdict \<Rightarrow> string list res" where
  \<comment> \<open>\<open>{d for d in deps if d in task_names}\<close>, without duplicates\<close>
  "deps_in names t =
     (case dget_or t ''dependencies'' (PList []) of
        PList deps \<Rightarrow>
          if \<forall>d \<in> set deps. hashable d
          then Inr (dedupe [] (filter (\<lambda>d. d \<in> set names) (map the_str (filter is_str deps))))
          else Inl TypeErr
      | _ \<Rightarrow> Inr [])"

definition dep_map_step :: "string list \<Rightarrow> pdict \<Rightarrow> dep_map \<Rightarrow> dep_map res" where
  "dep_map_step names t m =
     (case task_name t of
        None \<Rightarrow> Inr m
      | Some n \<Rightarrow> rbind (deps_in names t) (\<lambda>ds. Inr (AList.update n ds m)))"

definition build_dep_map :: "pdict list \<Rightarrow> dep_map res" where
  "build_dep_map ts = rfold (dep_map_step (task_names ts)) ts []"

definition ready_tasks :: "dep_map \<Rightarrow> string list" where
  "ready_tasks m = sort (map fst (filter (\<lambda>(n, ds). ds = []) m))"

definition drop_ready :: "string list \<Rightarrow> dep_map \<Rightarrow> dep_map" where
  "drop_ready ready m =
     map (\<lambda>(n, ds). (n, filter (\<lambda>d. d \<notin> set ready) ds)) (filter (\<lambda>(n, ds). n \<notin> set ready) m)"

lemma drop_ready_shrinks: "ready_tasks m \<noteq> [] \<Longrightarrow> length (drop_ready (ready_tasks m) m) < length m"
proof -
  assume "ready_tasks m \<noteq> []"
  then have "set (ready_tasks m) \<noteq> {}" by simp
  then obtain n where "n \<in> set (ready_tasks m)" by (cases "ready_tasks m") auto
  then have "(n, []) \<in> set m" "n \<in> set (ready_tasks m)" by (auto simp: ready_tasks_def)
  then have "length (filter (\<lambda>(n, ds). n \<notin> set (ready_tasks m)) m) < length m"
    by (intro length_filter_less [of "(n, [])"]) auto
  then show ?thesis by (simp add: drop_ready_def)
qed

function layer_loop :: "dep_map \<Rightarrow> string list list res" where
  "layer_loop m =
     (if m = [] then Inr []
      else if ready_tasks m = [] then Inl ValueErr
      else rbind (layer_loop (drop_ready (ready_tasks m) m)) (\<lambda>ls. Inr (ready_tasks m # ls)))"
  by pat_completeness auto
termination by (relation "measure length") (auto simp: drop_ready_shrinks)

declare layer_loop.simps [simp del]

definition compute_execution_order :: "pdict list \<Rightarrow> string list list res" where
  "compute_execution_order subtasks = rbind (build_dep_map subtasks) layer_loop"

text \<open>The dependency relation that a map stands for.\<close>

definition dep_edges :: "dep_map \<Rightarrow> (string \<times> string) set" where
  "dep_edges m = {(n, d). \<exists>ds. (n, ds) \<in> set m \<and> d \<in> set ds}"

definition closed_map :: "dep_map \<Rightarrow> bool" where
  "closed_map m \<longleftrightarrow> distinct (map fst m) \<and> (\<forall>(n, ds) \<in> set m. set ds \<subseteq> fst ` set m)"

lemma set_ready: "set (ready_tasks m) = {n. (n, []) \<in> set m}"
  by (force simp: ready_tasks_def)

lemma ready_distinct: "closed_map m \<Longrightarrow> distinct (ready_tasks m)"
  by (simp add: ready_tasks_def closed_map_def distinct_map_filter)

lemma drop_ready_mem: "(n, es) \<in> set (drop_ready r m) \<longleftrightarrow>
    n \<notin> set r \<and> (\<exists>ds. (n, ds) \<in> set m \<and> es = filter (\<lambda>d. d \<notin> set r) ds)"
  by (auto simp: drop_ready_def)

lemma drop_ready_names: "fst ` set (drop_ready r m) = fst ` set m - set r"
  by (force simp: drop_ready_def)

lemma drop_ready_closed: "closed_map m \<Longrightarrow> closed_map (drop_ready r m)"
proof -
  assume c: "closed_map m"
  have "map fst (drop_ready r m) = map fst (filter (\<lambda>(n, ds). n \<notin> set r) m)"
    by (simp add: drop_ready_def comp_def case_prod_beta)
  then have "distinct (map fst (drop_ready r m))" using c by (simp add: closed_map_def distinct_map_filter)
  moreover have "set es \<subseteq> fst ` set m - set r" if "(n, es) \<in> set (drop_ready r m)" for n es
    using that c by (force simp: drop_ready_mem closed_map_def)
  ultimately show ?thesis by (auto simp: closed_map_def drop_ready_names)
qed

lemma drop_ready_edges: "dep_edges (drop_ready r m) = {(n, d) \<in> dep_edges m. n \<notin> set r \<and> d \<notin> set r}"
  by (auto simp: dep_edges_def drop_ready_mem)

lemma finite_dep_edges: "finite (dep_edges m)"
proof -
  have "dep_edges m = (\<Union>(n, ds) \<in> set m. {n} \<times> set ds)" by (auto simp: dep_edges_def)
  then show ?thesis by auto
qed

text \<open>A map in which no task is ready, but some task remains, has a cycle.\<close>

lemma stuck_cyclic:
  assumes "closed_map m" "m \<noteq> []" "ready_tasks m = []"
  shows "\<not> acyclic (dep_edges m)"
proof
  assume "acyclic (dep_edges m)"
  then have "wf ((dep_edges m)\<inverse>)" using finite_dep_edges finite_acyclic_wf_converse by blast
  then have "wfP (\<lambda>d n. (n, d) \<in> dep_edges m)" by (simp add: wfp_def converse_unfold)
  moreover have "fst (hd m) \<in> fst ` set m" using assms(2) by simp
  ultimately obtain n where n: "n \<in> fst ` set m" "\<And>d. (n, d) \<in> dep_edges m \<Longrightarrow> d \<notin> fst ` set m"
    by (metis (no_types, lifting) wfp_eq_minimal)
  from n(1) obtain ds where ds: "(n, ds) \<in> set m" by auto
  with assms(3) have "ds \<noteq> []" using set_ready [of m] by auto
  then obtain d where "d \<in> set ds" by (cases ds) auto
  then have "(n, d) \<in> dep_edges m" "d \<in> fst ` set m" using ds assms(1) by (auto simp: dep_edges_def closed_map_def)
  with n(2) show False by blast
qed

text \<open>The layers place every task after all of its dependencies, as early as possible.\<close>

fun layered :: "(string \<times> string) set \<Rightarrow> string set \<Rightarrow> string list list \<Rightarrow> bool" where
  \<comment> \<open>\<open>done\<close> holds the tasks of the earlier layers\<close>
  "layered E earlier [] = True"
| "layered E earlier (l # ls) =
     (l \<noteq> [] \<and> sorted l \<and> distinct l \<and> set l \<inter> earlier = {} \<and>
      (\<forall>n d. n \<in> set l \<longrightarrow> (n, d) \<in> E \<longrightarrow> d \<in> earlier) \<and>
      (\<forall>n. n \<in> set (concat ls) \<longrightarrow> (\<exists>d. (n, d) \<in> E \<and> d \<notin> earlier)) \<and>
      layered E (earlier \<union> set l) ls)"

lemma layer_loop_layered:
  assumes "layer_loop m = Inr ls" "closed_map m" "fst ` set m \<inter> earlier = {}"
    and "\<And>n d. n \<in> fst ` set m \<Longrightarrow> (n, d) \<in> E \<longleftrightarrow> (n, d) \<in> dep_edges m \<or> (n, d) \<in> E \<and> d \<in> earlier"
  shows "layered E earlier ls \<and> set (concat ls) = fst ` set m"
  using assms
proof (induction m arbitrary: ls earlier rule: layer_loop.induct)
  case (1 m)
  show ?case
  proof (cases "m = []")
    case True
    with 1 show ?thesis by (simp add: layer_loop.simps)
  next
    case False
    let ?r = "ready_tasks m"
    let ?m = "drop_ready ?r m"
    from 1(2) False have r: "?r \<noteq> []" by (auto simp: layer_loop.simps [of m] split: if_splits)
    with 1(2) False obtain ls' where ls': "layer_loop ?m = Inr ls'" "ls = ?r # ls'"
      by (subst (asm) layer_loop.simps) (auto simp: rbind_eq_Inr)
    have sub: "set ?r \<subseteq> fst ` set m" by (force simp: set_ready)
    have dj: "fst ` set ?m \<inter> (earlier \<union> set ?r) = {}" using 1(4) by (auto simp: drop_ready_names)
    have edg: "(n, d) \<in> E \<longleftrightarrow> (n, d) \<in> dep_edges ?m \<or> (n, d) \<in> E \<and> d \<in> earlier \<union> set ?r"
      if "n \<in> fst ` set ?m" for n d
      using that 1(5) [of n d] by (auto simp: drop_ready_edges drop_ready_names)
    have ih: "layered E (earlier \<union> set ?r) ls' \<and> set (concat ls') = fst ` set ?m"
      by (rule 1(1) [OF False r ls'(1) drop_ready_closed [OF 1(3)] dj]) (rule edg)
    have dep: "d \<in> earlier" if "n \<in> set ?r" "(n, d) \<in> E" for n d
    proof -
      have "(n, d) \<notin> dep_edges m"
        using that(1) 1(3) by (auto simp: dep_edges_def set_ready closed_map_def dest: eq_key_imp_eq_value)
      then show ?thesis using that sub 1(5) by blast
    qed
    have early: "\<exists>d. (n, d) \<in> E \<and> d \<notin> earlier" if "n \<in> set (concat ls')" for n
    proof -
      from that ih have n: "n \<in> fst ` set m" "n \<notin> set ?r" by (auto simp: drop_ready_names)
      from n(1) obtain ds where "(n, ds) \<in> set m" by auto
      with n(2) have ds: "(n, ds) \<in> set m" "ds \<noteq> []" by (auto simp: set_ready)
      then obtain d where d: "d \<in> set ds" by (cases ds) auto
      then have "(n, d) \<in> dep_edges m" "d \<in> fst ` set m" using ds 1(3) by (auto simp: dep_edges_def closed_map_def)
      then show ?thesis using n 1(4,5) by blast
    qed
    have "sorted ?r" by (simp add: ready_tasks_def)
    then show ?thesis using ls'(2) r ih dep early ready_distinct [OF 1(3)] sub 1(4)
      by (auto simp: drop_ready_names)
  qed
qed

lemma layer_loop_error: "layer_loop m = Inl e \<Longrightarrow> closed_map m \<Longrightarrow> e = ValueErr \<and> \<not> acyclic (dep_edges m)"
proof (induction m rule: layer_loop.induct)
  case (1 m)
  then have ne: "m \<noteq> []" by (auto simp: layer_loop.simps)
  show ?case
  proof (cases "ready_tasks m = []")
    case True
    with ne 1(2) have "e = ValueErr" by (simp add: layer_loop.simps [of m])
    then show ?thesis using stuck_cyclic [OF 1(3) ne True] by simp
  next
    case False
    with 1(2) ne have "layer_loop (drop_ready (ready_tasks m) m) = Inl e"
      by (subst (asm) layer_loop.simps) (auto simp: rbind_eq_Inl)
    from 1(1) [OF ne False this drop_ready_closed [OF 1(3)]] show ?thesis
      by (auto simp: drop_ready_edges intro: acyclic_subset)
  qed
qed

lemma layered_acyclic:
  "layered E earlier ls \<Longrightarrow> (\<And>n d. (n, d) \<in> R \<Longrightarrow> (n, d) \<in> E \<and> n \<in> set (concat ls) \<and> d \<in> set (concat ls)) \<Longrightarrow> acyclic R"
proof (induction ls arbitrary: earlier R)
  case Nil
  then have "R = {}" by auto
  then show ?case by (simp add: acyclic_def)
next
  case (Cons l ls)
  have out: "n \<notin> set l" if "(n, d) \<in> R" "d \<notin> earlier" for n d using that Cons.prems by auto
  have dj: "layered E e ls' \<Longrightarrow> set (concat ls') \<inter> e = {}" for e ls'
    by (induction ls' arbitrary: e) auto
  have e0: "set (concat (l # ls)) \<inter> earlier = {}" using dj [OF Cons.prems(1)] .
  have out: "n \<notin> set l \<and> n \<in> set (concat ls)" if "(n, d) \<in> R" for n d
    using that Cons.prems e0 by (auto; blast)
  let ?S = "{(n, d) \<in> R. d \<in> set (concat ls)}"
  have "acyclic ?S"
    by (rule Cons.IH [of "earlier \<union> set l"]) (use Cons.prems out in auto)
  have "(a, b) \<in> R\<^sup>+ \<Longrightarrow> b \<in> set (concat ls) \<Longrightarrow> (a, b) \<in> ?S\<^sup>+" for a b
  proof (induction rule: trancl_induct)
    case (base b)
    then show ?case by auto
  next
    case (step b c)
    then have "b \<in> set (concat ls)" using out by blast
    with step have "(a, b) \<in> ?S\<^sup>+" by blast
    moreover have "(b, c) \<in> ?S" using step by simp
    ultimately show ?case by (rule trancl_into_trancl)
  qed
  moreover have "(a, a) \<in> R\<^sup>+ \<Longrightarrow> a \<in> set (concat ls)" for a using out by (meson tranclD)
  ultimately show ?case using \<open>acyclic ?S\<close> unfolding acyclic_def by blast
qed

text \<open>The dependency relation of a list of tasks, and the map that the scheduler builds for it.\<close>

definition depends :: "pdict list \<Rightarrow> (string \<times> string) set" where
  "depends ts = {(n, d). d \<in> set (task_names ts) \<and> (\<exists>t \<in> set ts. task_name t = Some n \<and> PStr d \<in> set (task_deps t))}"

definition hashable_deps :: "pdict list \<Rightarrow> bool" where
  "hashable_deps ts \<longleftrightarrow> (\<forall>t \<in> set ts. \<forall>d \<in> set (task_deps t). hashable d)"

definition kept_deps :: "string list \<Rightarrow> pdict \<Rightarrow> string list" where
  "kept_deps names t = dedupe [] (filter (\<lambda>d. d \<in> set names) (map the_str (filter is_str (task_deps t))))"

lemma deps_in_hashable: "\<forall>d \<in> set (task_deps t). hashable d \<Longrightarrow> deps_in names t = Inr (kept_deps names t)"
  by (cases "dget_or t ''dependencies'' (PList [])") (auto simp: deps_in_def kept_deps_def task_deps_def)

lemma str_members: "d \<in> the_str ` {v \<in> S. is_str v} \<longleftrightarrow> PStr d \<in> S"
proof
  assume "d \<in> the_str ` {v \<in> S. is_str v}"
  then obtain v where "v \<in> S" "is_str v" "d = the_str v" by blast
  then show "PStr d \<in> S" by (cases v) auto
qed force

lemma set_kept_deps: "set (kept_deps names t) = {d. d \<in> set names \<and> PStr d \<in> set (task_deps t)}"
  using str_members [of _ "set (task_deps t)"] by (auto simp: kept_deps_def set_dedupe)

lemma update_new: "n \<notin> fst ` set m \<Longrightarrow> AList.update n v m = m @ [(n, v)]"
  by (induction m) auto

lemma dep_map_loop:
  assumes "\<forall>t \<in> set ts. \<forall>d \<in> set (task_deps t). hashable d"
    and "distinct (List.map_filter task_name ts)" "fst ` set m \<inter> set (List.map_filter task_name ts) = {}"
  shows "rfold (dep_map_step names) ts m =
    Inr (m @ List.map_filter (\<lambda>t. map_option (\<lambda>n. (n, kept_deps names t)) (task_name t)) ts)"
  using assms
proof (induction ts arbitrary: m)
  case Nil
  then show ?case by (simp add: map_filter_simps)
next
  case (Cons t ts)
  show ?case
  proof (cases "task_name t")
    case None
    then show ?thesis using Cons by (simp add: dep_map_step_def map_filter_simps)
  next
    case (Some n)
    then have "dep_map_step names t m = Inr (m @ [(n, kept_deps names t)])"
      using Cons.prems by (simp add: dep_map_step_def deps_in_hashable update_new map_filter_simps)
    then show ?thesis using Cons.IH [of "m @ [(n, kept_deps names t)]"] Cons.prems Some
      by (simp add: map_filter_simps)
  qed
qed

lemma set_map_filter: "set (List.map_filter f xs) = {y. \<exists>x \<in> set xs. f x = Some y}"
  by (force simp: List.map_filter_def)

lemma set_task_names: "set (task_names ts) = {n. \<exists>t \<in> set ts. task_name t = Some n}"
  by (auto simp: task_names_def set_dedupe set_map_filter)

lemma build_dep_map_spec:
  assumes "hashable_deps ts" "distinct (List.map_filter task_name ts)"
  obtains m where "build_dep_map ts = Inr m" "closed_map m" "fst ` set m = set (task_names ts)"
    "dep_edges m = depends ts"
proof
  let ?k = "kept_deps (task_names ts)"
  let ?m = "List.map_filter (\<lambda>t. map_option (\<lambda>n. (n, ?k t)) (task_name t)) ts"
  show "build_dep_map ts = Inr ?m"
    using dep_map_loop [of ts "[]" "task_names ts"] assms by (simp add: build_dep_map_def hashable_deps_def)
  have mem: "(n, ds) \<in> set ?m \<longleftrightarrow> (\<exists>t \<in> set ts. task_name t = Some n \<and> ds = ?k t)" for n ds
    by (auto simp: set_map_filter)
  show names: "fst ` set ?m = set (task_names ts)"
  proof -
    have "fst ` set ?m = {n. \<exists>ds. (n, ds) \<in> set ?m}" by force
    then show ?thesis by (auto simp: mem set_task_names)
  qed
  have "map fst (List.map_filter (\<lambda>t. map_option (\<lambda>n. (n, k t)) (task_name t)) us) = List.map_filter task_name us"
    for k :: "pdict \<Rightarrow> string list" and us
    by (induction us) (auto simp: map_filter_simps split: option.split)
  then have "distinct (map fst ?m)" using assms(2) by simp
  moreover have "set ds \<subseteq> fst ` set ?m" if "(n, ds) \<in> set ?m" for n ds
    using that unfolding names by (auto simp: mem set_kept_deps)
  ultimately show "closed_map ?m" by (auto simp: closed_map_def)
  show "dep_edges ?m = depends ts" by (auto simp: dep_edges_def depends_def mem set_kept_deps)
qed

text \<open>
  C2. For tasks with different names the scheduler fails exactly when the dependencies among
  the tasks have a cycle. Otherwise its layers hold every task once, in sorted layers; each
  task comes after everything that it depends on and no task could have come earlier.
\<close>

theorem execution_order_correct:
  assumes "hashable_deps ts" "distinct (List.map_filter task_name ts)"
  shows "(compute_execution_order ts = Inl ValueErr \<longleftrightarrow> \<not> acyclic (depends ts)) \<and>
    (acyclic (depends ts) \<longrightarrow> (\<exists>ls. compute_execution_order ts = Inr ls \<and> layered (depends ts) {} ls \<and>
       set (concat ls) = set (task_names ts)))"
proof -
  from assms obtain m where m: "build_dep_map ts = Inr m" "closed_map m"
    "fst ` set m = set (task_names ts)" "dep_edges m = depends ts" by (rule build_dep_map_spec)
  show ?thesis
  proof (cases "layer_loop m")
    case (Inl e)
    then show ?thesis using layer_loop_error [OF Inl m(2)] m by (simp add: compute_execution_order_def)
  next
    case (Inr ls)
    have "layered (depends ts) {} ls \<and> set (concat ls) = fst ` set m"
      by (rule layer_loop_layered [OF Inr m(2)]) (simp_all add: m(4))
    moreover from this have "acyclic (depends ts)"
      using m(3) by (intro layered_acyclic [of "depends ts" "{}" ls]) (auto simp: depends_def set_task_names)
    ultimately show ?thesis using Inr m by (simp add: compute_execution_order_def)
  qed
qed

definition sample_dag :: "pdict list" where
  "sample_dag =
     [[(''name'', PStr ''c''), (''dependencies'', PList [PStr ''a'', PStr ''b''])],
      [(''name'', PStr ''b''), (''dependencies'', PList [PStr ''a''])],
      [(''name'', PStr ''a'')], [(''name'', PStr ''d''), (''dependencies'', PList [PStr ''zz''])]]"

lemma execution_order_correct_witness:
  "compute_execution_order sample_dag = Inr [[''a'', ''d''], [''b''], [''c'']] \<and> acyclic (depends sample_dag)"
proof -
  have "hashable_deps sample_dag" "distinct (List.map_filter task_name sample_dag)" by code_simp+
  note c = execution_order_correct [OF this]
  have "compute_execution_order sample_dag = Inr [[''a'', ''d''], [''b''], [''c'']]" by code_simp
  with c show ?thesis by auto
qed

section \<open>Blocked tasks\<close>

type_synonym adjacency = "(string \<times> string list) list"

definition neighbours :: "adjacency \<Rightarrow> string \<Rightarrow> string list" where
  \<comment> \<open>\<open>sorted(reverse_deps.get(current, set()))\<close>\<close>
  "neighbours adj n = (case map_of adj n of None \<Rightarrow> [] | Some ns \<Rightarrow> sort ns)"

definition reverse_dep_step :: "string list \<Rightarrow> pdict \<Rightarrow> adjacency \<Rightarrow> adjacency res" where
  "reverse_dep_step names t adj =
     (case task_name t of
        None \<Rightarrow> Inr adj
      | Some n \<Rightarrow> rbind (deps_in names t) (\<lambda>ds. Inr (fold (\<lambda>d. AList.map_entry d (List.insert n)) ds adj)))"

definition reverse_deps :: "pdict list \<Rightarrow> adjacency res" where
  "reverse_deps ts = rfold (reverse_dep_step (task_names ts)) ts (map (\<lambda>n. (n, [])) (task_names ts))"

definition fresh_neighbours :: "adjacency \<Rightarrow> string list \<Rightarrow> string \<Rightarrow> string list" where
  "fresh_neighbours adj visited cur = filter (\<lambda>n. n \<notin> set visited) (neighbours adj cur)"

definition all_neighbours :: "adjacency \<Rightarrow> string set" where
  "all_neighbours adj = (\<Union>(n, ns) \<in> set adj. set ns)"

lemma fresh_bound: "set (fresh_neighbours adj visited cur) \<subseteq> all_neighbours adj - set visited"
proof (cases "map_of adj cur")
  case (Some ns)
  then have "(cur, ns) \<in> set adj" by (rule map_of_SomeD)
  with Some show ?thesis by (auto simp: fresh_neighbours_def neighbours_def all_neighbours_def)
qed (simp add: fresh_neighbours_def neighbours_def)

lemma finite_neighbours: "finite (all_neighbours adj)"
  by (auto simp: all_neighbours_def)

function bfs_blocked :: "adjacency \<Rightarrow> string list \<Rightarrow> string list \<Rightarrow> string list" where
  \<comment> \<open>the list \<open>blocked\<close>, whose elements are the set \<open>visited\<close>, and the queue\<close>
  "bfs_blocked adj visited [] = visited"
| "bfs_blocked adj visited (cur # q) =
     (let new = fresh_neighbours adj visited cur in bfs_blocked adj (visited @ new) (q @ new))"
  by pat_completeness auto
termination
proof (relation "measures [\<lambda>(adj, visited, q). card (all_neighbours adj - set visited), \<lambda>(adj, visited, q). length q]",
    simp, goal_cases)
  case (1 adj visited cur q new)
  show ?case
  proof (cases "new = []")
    case True
    with 1 show ?thesis by simp
  next
    case False
    then obtain y where "y \<in> set new" by (cases new) auto
    then have "all_neighbours adj - (set visited \<union> set new) \<subset> all_neighbours adj - set visited"
      using fresh_bound [of adj visited cur] 1 by blast
    then have "card (all_neighbours adj - (set visited \<union> set new)) < card (all_neighbours adj - set visited)"
      by (intro psubset_card_mono) (auto simp: finite_neighbours)
    with 1 show ?thesis by simp
  qed
qed

definition compute_blocked_downstream :: "pdict list \<Rightarrow> string \<Rightarrow> string list res" where
  "compute_blocked_downstream ts failed = rbind (reverse_deps ts) (\<lambda>adj. Inr (bfs_blocked adj [] [failed]))"

definition adj_rel :: "adjacency \<Rightarrow> (string \<times> string) set" where
  "adj_rel adj = {(a, b). b \<in> set (neighbours adj a)}"

lemma bfs_distinct:
  "distinct visited \<Longrightarrow> (\<And>n. distinct (neighbours adj n)) \<Longrightarrow> distinct (bfs_blocked adj visited q)"
  by (induction adj visited q rule: bfs_blocked.induct) (auto simp: fresh_neighbours_def Let_def)

lemma bfs_reach:
  assumes "set visited \<subseteq> (adj_rel adj)\<^sup>+ `` {f}" "set q \<subseteq> insert f (set visited)"
    and "\<And>x. x \<in> insert f (set visited) - set q \<Longrightarrow> set (neighbours adj x) \<subseteq> set visited"
  shows "set (bfs_blocked adj visited q) = (adj_rel adj)\<^sup>+ `` {f}"
  using assms
proof (induction adj visited q rule: bfs_blocked.induct)
  case (1 adj visited)
  have "(f, y) \<in> (adj_rel adj)\<^sup>+ \<Longrightarrow> y \<in> set visited" for y
    by (induction rule: trancl_induct) (use 1(3) in \<open>auto simp: adj_rel_def\<close>)
  then show ?case using 1(1) by auto
next
  case (2 adj visited cur q)
  let ?new = "fresh_neighbours adj visited cur"
  have cur: "cur = f \<or> (f, cur) \<in> (adj_rel adj)\<^sup>+" using 2(2,3) by auto
  have "(cur, n) \<in> adj_rel adj" if "n \<in> set ?new" for n
    using that by (simp add: fresh_neighbours_def adj_rel_def)
  then have "set ?new \<subseteq> (adj_rel adj)\<^sup>+ `` {f}" using cur by (auto intro: trancl_into_trancl)
  then have a: "set (visited @ ?new) \<subseteq> (adj_rel adj)\<^sup>+ `` {f}" using 2(2) by simp
  have b: "set (q @ ?new) \<subseteq> insert f (set (visited @ ?new))" using 2(3) by auto
  have c: "set (neighbours adj x) \<subseteq> set (visited @ ?new)"
    if "x \<in> insert f (set (visited @ ?new)) - set (q @ ?new)" for x
  proof (cases "x = cur")
    case True
    then show ?thesis by (auto simp: fresh_neighbours_def)
  next
    case False
    with that have "x \<in> insert f (set visited) - set (cur # q)" by auto
    then show ?thesis using 2(4) by auto
  qed
  show ?case unfolding bfs_blocked.simps Let_def by (rule 2(1) [OF refl a b]) (rule c)
qed

lemma map_entry_fold_names: "fst ` set (fold (\<lambda>d. AList.map_entry d (List.insert n)) ds adj) = fst ` set adj"
  by (induction ds arbitrary: adj) (auto simp: AList.dom_map_entry)

text \<open>What the reverse adjacency holds for a name, as a set; \<open>None\<close> for an unknown name.\<close>

definition dependents :: "adjacency \<Rightarrow> string \<Rightarrow> string set" where
  "dependents adj d = (case map_of adj d of None \<Rightarrow> {} | Some ns \<Rightarrow> set ns)"

definition lists_distinct :: "adjacency \<Rightarrow> bool" where
  "lists_distinct adj \<longleftrightarrow> (\<forall>d ns. map_of adj d = Some ns \<longrightarrow> distinct ns)"

lemma lists_distinctD: "lists_distinct adj \<Longrightarrow> map_of adj d = Some ns \<Longrightarrow> distinct ns"
  unfolding lists_distinct_def by blast

lemma neighbours_dependents: "set (neighbours adj d) = dependents adj d"
  by (simp add: neighbours_def dependents_def split: option.split)

lemma reverse_fold:
  "set ds \<subseteq> dom (map_of adj) \<Longrightarrow> lists_distinct adj \<Longrightarrow>
   let adj' = fold (\<lambda>d. AList.map_entry d (List.insert n)) ds adj in
     dom (map_of adj') = dom (map_of adj) \<and> lists_distinct adj' \<and>
     (\<forall>d. dependents adj' d = dependents adj d \<union> (if d \<in> set ds then {n} else {}))"
proof (induction ds arbitrary: adj)
  case Nil
  then show ?case by simp
next
  case (Cons x ds)
  let ?a = "AList.map_entry x (List.insert n) adj"
  have d: "dom (map_of ?a) = dom (map_of adj)" by (auto simp: map_of_map_entry split: option.splits if_splits)
  have l: "lists_distinct ?a"
    unfolding lists_distinct_def
  proof (intro allI impI)
    fix d ns
    assume "map_of ?a d = Some ns"
    then obtain ms where m: "map_of adj d = Some ms" "ns = ms \<or> ns = List.insert n ms"
      by (auto simp: map_of_map_entry split: option.splits if_splits)
    have "distinct ms" by (rule lists_distinctD [OF Cons.prems(2) m(1)])
    with m(2) show "distinct ns" by (elim disjE) simp_all
  qed
  have n: "dependents ?a d = dependents adj d \<union> (if d = x then {n} else {})" for d
    using Cons.prems(1) by (auto simp: dependents_def map_of_map_entry split: option.splits)
  have "set ds \<subseteq> dom (map_of ?a)" using Cons.prems(1) d by simp
  from Cons.IH [OF this l] d n show ?case by (auto simp: Let_def split: if_splits)
qed

lemma reverse_loop:
  assumes "rfold (reverse_dep_step names) ts adj = Inr adj'" "dom (map_of adj) = set names" "lists_distinct adj"
    and "\<forall>t \<in> set ts. \<forall>d \<in> set (task_deps t). hashable d"
  shows "dom (map_of adj') = set names \<and> lists_distinct adj' \<and>
    (\<forall>d. dependents adj' d = dependents adj d \<union>
       {n. d \<in> set names \<and> (\<exists>t \<in> set ts. task_name t = Some n \<and> PStr d \<in> set (task_deps t))})"
  using assms
proof (induction ts arbitrary: adj)
  case Nil
  then show ?case by simp
next
  case (Cons t ts)
  show ?case
  proof (cases "task_name t")
    case None
    then show ?thesis using Cons by (auto simp: reverse_dep_step_def)
  next
    case (Some n)
    let ?a = "fold (\<lambda>d. AList.map_entry d (List.insert n)) (kept_deps names t) adj"
    have s: "reverse_dep_step names t adj = Inr ?a" using Some Cons.prems(4)
      by (simp add: reverse_dep_step_def deps_in_hashable)
    have "set (kept_deps names t) \<subseteq> dom (map_of adj)" using Cons.prems(2) by (auto simp: set_kept_deps)
    from reverse_fold [OF this Cons.prems(3), of n] have
      a: "dom (map_of ?a) = set names" "lists_distinct ?a"
      "\<And>d. dependents ?a d = dependents adj d \<union> (if d \<in> set (kept_deps names t) then {n} else {})"
      using Cons.prems(2) by (auto simp: Let_def)
    from Cons.prems(1) s have "rfold (reverse_dep_step names) ts ?a = Inr adj'" by simp
    from Cons.IH [OF this a(1,2)] Cons.prems(4) a(3) Some show ?thesis
      by (auto simp: set_kept_deps)
  qed
qed

lemma reverse_deps_total:
  "\<forall>t \<in> set ts. \<forall>d \<in> set (task_deps t). hashable d \<Longrightarrow> \<exists>adj'. rfold (reverse_dep_step names) ts adj = Inr adj'"
  by (induction ts arbitrary: adj) (auto simp: reverse_dep_step_def deps_in_hashable split: option.split)

lemma reverse_deps_spec:
  assumes "hashable_deps ts"
  obtains adj where "reverse_deps ts = Inr adj" "adj_rel adj = (depends ts)\<inverse>" "\<And>n. distinct (neighbours adj n)"
proof -
  let ?a = "map (\<lambda>n. (n, [])) (task_names ts) :: adjacency"
  obtain adj where r: "rfold (reverse_dep_step (task_names ts)) ts ?a = Inr adj"
    using reverse_deps_total assms unfolding hashable_deps_def by blast
  have m: "map_of ?a d = (if d \<in> set (task_names ts) then Some [] else None)" for d
    by (induction "task_names ts") (auto simp: map_of_map_restrict map_of_eq_None_iff)
  have "dom (map_of ?a) = set (task_names ts)" by (auto simp: m split: if_splits)
  moreover have "lists_distinct ?a" by (simp add: lists_distinct_def m)
  moreover have "dependents ?a d = {}" for d by (simp add: dependents_def m)
  ultimately have a: "lists_distinct adj"
    "\<And>d. dependents adj d = {n. d \<in> set (task_names ts) \<and> (\<exists>t \<in> set ts. task_name t = Some n \<and> PStr d \<in> set (task_deps t))}"
    using reverse_loop [OF r] assms by (auto simp: hashable_deps_def)
  show thesis
  proof
    show "reverse_deps ts = Inr adj" using r by (simp add: reverse_deps_def)
    show "adj_rel adj = (depends ts)\<inverse>"
      by (auto simp: adj_rel_def neighbours_dependents a(2) depends_def)
    show "distinct (neighbours adj n)" for n
    proof (cases "map_of adj n")
      case (Some ns)
      then have "distinct ns" by (rule lists_distinctD [OF a(1)])
      with Some show ?thesis by (simp add: neighbours_def)
    qed (simp add: neighbours_def)
  qed
qed

text \<open>
  The tasks reported as blocked by a failed task are exactly the tasks that depend on it
  directly or through other tasks, each reported once.
\<close>

theorem blocked_downstream_correct:
  assumes "hashable_deps ts"
  shows "\<exists>bs. compute_blocked_downstream ts failed = Inr bs \<and> distinct bs \<and>
    set bs = {n. (n, failed) \<in> (depends ts)\<^sup>+}"
proof -
  obtain adj where adj: "reverse_deps ts = Inr adj" "adj_rel adj = (depends ts)\<inverse>"
    "\<And>n. distinct (neighbours adj n)" using reverse_deps_spec [OF assms] by blast
  have "set (bfs_blocked adj [] [failed]) = (adj_rel adj)\<^sup>+ `` {failed}" by (rule bfs_reach) auto
  also have "\<dots> = {n. (n, failed) \<in> (depends ts)\<^sup>+}" by (auto simp: adj(2) trancl_converse)
  finally show ?thesis using bfs_distinct [of "[]" adj "[failed]"] adj(1,3)
    by (simp add: compute_blocked_downstream_def del: bfs_blocked.simps)
qed

lemma blocked_downstream_correct_witness:
  "compute_blocked_downstream sample_dag ''a'' = Inr [''b'', ''c''] \<and> (''c'', ''a'') \<in> (depends sample_dag)\<^sup>+"
proof -
  have "hashable_deps sample_dag" by code_simp
  then obtain bs where b: "compute_blocked_downstream sample_dag ''a'' = Inr bs"
    "set bs = {n. (n, ''a'') \<in> (depends sample_dag)\<^sup>+}" using blocked_downstream_correct by metis
  have e: "compute_blocked_downstream sample_dag ''a'' = Inr [''b'', ''c'']" by code_simp
  with b(1) have "bs = [''b'', ''c'']" by simp
  then have "''c'' \<in> set bs" by simp
  then show ?thesis using e b(2) by blast
qed

end
