(* ===== verification/ProposalGraph.thy ===== *)
theory ProposalGraph
  imports Planner
begin

text \<open>
  The checks on the subtasks of a decomposition proposal (\<open>policy/proposal_validator.py\<close>):
  known dependencies, no dependency cycles (a depth-first search with the sets \<open>visiting\<close> and
  \<open>visited\<close>), write scopes that do not overlap, patches inside the allowed scopes and patches
  that do not conflict.
\<close>

section \<open>References\<close>

definition subtask_id :: "pdict \<Rightarrow> pv" where
  "subtask_id st = por (por (dget st ''id'') (dget st ''taskId'')) (dget st ''task_id'')"

definition collect_ids :: "pv list \<Rightarrow> pv list res" where
  \<comment> \<open>the set \<open>task_ids\<close>\<close>
  "collect_ids subtasks =
     rconcat (\<lambda>st. case st of
         PDict d \<Rightarrow> if \<not> truthy (subtask_id d) then Inr []
                    else if hashable (subtask_id d) then Inr [subtask_id d] else Inl TypeErr
       | _ \<Rightarrow> Inr []) subtasks"

definition not_dict_reasons :: "pv list \<Rightarrow> string list" where
  "not_dict_reasons subtasks =
     concat (map (\<lambda>(i, st). reason_if (\<not> is_dict st) (subtask_tag i @ '' must be a dict'')) (enum subtasks))"

definition unknown_dep_reasons :: "pv list \<Rightarrow> nat \<times> pv \<Rightarrow> string list res" where
  "unknown_dep_reasons ids t =
     (let (i, st) = t in
      case st of
        PDict d \<Rightarrow>
          (case dget_or d ''dependencies'' (PList []) of
             PList deps \<Rightarrow>
               rconcat (\<lambda>dep. if \<not> hashable dep then Inl TypeErr
                 else Inr (reason_if (\<not> py_mem dep ids)
                   (subtask_tag i @ '' references unknown dependency: '' @ py_repr dep))) deps
           | _ \<Rightarrow> Inr [])
      | _ \<Rightarrow> Inr [])"

definition self_dep_reasons :: "nat \<times> pv \<Rightarrow> string list res" where
  "self_dep_reasons t =
     (let (i, st) = t in
      case st of
        PDict d \<Rightarrow>
          (let tid = subtask_id d in
           if \<not> truthy tid then Inr []
           else rbind (pin tid (dget_or d ''dependencies'' (PList []))) (\<lambda>b.
             Inr (reason_if b (subtask_tag i @ '' has self-dependency: '' @ py_repr tid))))
      | _ \<Rightarrow> Inr [])"

section \<open>Cycles\<close>

type_synonym graph = "(string \<times> string list) list"

definition graph_step :: "pv list \<Rightarrow> pv \<Rightarrow> graph \<Rightarrow> graph" where
  "graph_step ids st g =
     (case st of
        PDict d \<Rightarrow>
          (case dget_or d ''dependencies'' (PList []) of
             PList deps \<Rightarrow>
               if truthy (subtask_id d)
               then AList.update (py_str (subtask_id d)) (map py_str (filter (\<lambda>dep. py_mem dep ids) deps)) g
               else g
           | _ \<Rightarrow> g)
      | _ \<Rightarrow> g)"

definition build_graph :: "pv list \<Rightarrow> pv list \<Rightarrow> graph" where
  "build_graph ids subtasks = fold (graph_step ids) subtasks []"

definition successors :: "graph \<Rightarrow> string \<Rightarrow> string list" where
  \<comment> \<open>\<open>graph.get(node, [])\<close>\<close>
  "successors g n = (case map_of g n of None \<Rightarrow> [] | Some ds \<Rightarrow> ds)"

record dfs =
  visiting :: "string list"
  visited :: "string list"
  found :: "string list"

fun ofold :: "('a \<Rightarrow> 's \<Rightarrow> 's option) \<Rightarrow> 'a list \<Rightarrow> 's \<Rightarrow> 's option" where
  "ofold f [] s = Some s"
| "ofold f (x # xs) s = (case f x s of None \<Rightarrow> None | Some s' \<Rightarrow> ofold f xs s')"

definition cycle_reason :: "string list \<Rightarrow> string \<Rightarrow> string" where
  \<comment> \<open>\<open>path[path.index(node):] + [node]\<close>, or the whole path when the node is not on it\<close>
  "cycle_reason path node =
     (let cycle = (if node \<in> set path then dropWhile (\<lambda>x. x \<noteq> node) path else path) @ [node]
      in ''Dependency cycle detected: '' @ join '' -> '' cycle)"

text \<open>
  The first argument bounds the depth of the recursion; \<open>visit_total\<close> shows that one more than
  the number of tasks is enough, whatever the graph.
\<close>

fun visit :: "nat \<Rightarrow> graph \<Rightarrow> string \<Rightarrow> string list \<Rightarrow> dfs \<Rightarrow> dfs option" where
  "visit 0 g node path s = None"
| "visit (Suc fuel) g node path s =
     (if node \<in> set (visited s) then Some s
      else if node \<in> set (visiting s) then Some (s\<lparr>found := found s @ [cycle_reason path node]\<rparr>)
      else
        (case ofold (\<lambda>dep. visit fuel g dep (path @ [dep])) (successors g node)
                (s\<lparr>visiting := node # visiting s\<rparr>) of
           None \<Rightarrow> None
         | Some s' \<Rightarrow> Some (s'\<lparr>visiting := remove1 node (visiting s'), visited := node # visited s'\<rparr>)))"

definition find_cycles :: "graph \<Rightarrow> string list option" where
  \<comment> \<open>\<open>for node in sorted(graph): visit(node, [node])\<close>\<close>
  "find_cycles g =
     map_option found
       (ofold (\<lambda>node. visit (length g + 2) g node [node]) (sort (map fst g))
          \<lparr>visiting = [], visited = [], found = []\<rparr>)"

definition validate_dependency_graph :: "pv \<Rightarrow> string list res" where
  "validate_dependency_graph v =
     (case v of
        PList subtasks \<Rightarrow>
          rbind (collect_ids subtasks) (\<lambda>ids.
          rbind (rconcat (unknown_dep_reasons ids) (enum subtasks)) (\<lambda>unknown.
          rbind (rconcat self_dep_reasons (enum subtasks)) (\<lambda>self.
            Inr (not_dict_reasons subtasks @ unknown @ self @
                 (case find_cycles (build_graph ids subtasks) of None \<Rightarrow> [] | Some rs \<Rightarrow> rs)))))
      | _ \<Rightarrow> Inr [''subtasks must be a list''])"

subsection \<open>The search always returns\<close>

definition graph_edges :: "graph \<Rightarrow> (string \<times> string) set" where
  "graph_edges g = {(a, b). b \<in> set (successors g a)}"

lemma ofold_invariant:
  assumes "ofold f xs s = Some t" "I s" "\<And>x s s'. x \<in> set xs \<Longrightarrow> I s \<Longrightarrow> f x s = Some s' \<Longrightarrow> I s'"
  shows "I t"
  using assms
proof (induction xs arbitrary: s)
  case (Cons x xs)
  from Cons.prems(1) obtain s' where s': "f x s = Some s'" "ofold f xs s' = Some t" by (auto split: option.splits)
  have "I s'" using Cons.prems(2,3) s'(1) by (meson list.set_intros(1))
  from Cons.IH [OF s'(2) this] Cons.prems(3) show ?case by (meson list.set_intros(2))
qed simp

lemma ofold_total:
  assumes "I s" "\<And>x s. x \<in> set xs \<Longrightarrow> I s \<Longrightarrow> \<exists>s'. f x s = Some s' \<and> I s'"
  shows "\<exists>t. ofold f xs s = Some t \<and> I t"
  using assms
proof (induction xs arbitrary: s)
  case (Cons x xs)
  then obtain s' where "f x s = Some s'" "I s'" by (metis list.set_intros(1))
  with Cons.IH [of s'] Cons.prems(2) show ?case by auto
qed simp

lemma visit_visiting: "visit fuel g n p s = Some s' \<Longrightarrow> visiting s' = visiting s"
proof (induction fuel arbitrary: n p s s')
  case (Suc fuel)
  show ?case
  proof (cases "n \<in> set (visited s) \<or> n \<in> set (visiting s)")
    case True
    then show ?thesis using Suc.prems by (auto split: if_splits)
  next
    case False
    then obtain t where t: "ofold (\<lambda>d. visit fuel g d (p @ [d])) (successors g n) (s\<lparr>visiting := n # visiting s\<rparr>) = Some t"
      and s': "s' = t\<lparr>visiting := remove1 n (visiting t), visited := n # visited t\<rparr>"
      using Suc.prems by (auto split: option.splits)
    have "visiting t = n # visiting s"
      using ofold_invariant [OF t, where I = "\<lambda>u. visiting u = n # visiting s"] Suc.IH by auto
    then show ?thesis by (simp add: s')
  qed
qed simp

lemma visit_total:
  "card (fst ` set g - set (visiting s)) < fuel \<Longrightarrow> \<exists>s'. visit fuel g n p s = Some s'"
proof (induction fuel arbitrary: n p s)
  case (Suc fuel)
  show ?case
  proof (cases "n \<in> set (visited s) \<or> n \<in> set (visiting s) \<or> successors g n = []")
    case True
    then show ?thesis by auto
  next
    case False
    then have key: "n \<in> fst ` set g" by (metis map_of_eq_None_iff option.case(1) successors_def)
    let ?K = "fst ` set g - set (visiting s)"
    have "card (?K - {n}) < card ?K" using key False by (intro card_Diff1_less) auto
    moreover have "fst ` set g - set (n # visiting s) = ?K - {n}" by auto
    ultimately have c: "card (fst ` set g - set (n # visiting s)) < fuel" using Suc.prems by simp
    have "\<exists>t. ofold (\<lambda>d. visit fuel g d (p @ [d])) (successors g n) (s\<lparr>visiting := n # visiting s\<rparr>) = Some t
        \<and> visiting t = n # visiting s"
    proof (rule ofold_total)
      fix x and u :: dfs
      assume "visiting u = n # visiting s"
      then show "\<exists>u'. visit fuel g x (p @ [x]) u = Some u' \<and> visiting u' = n # visiting s"
        using Suc.IH [of u x "p @ [x]"] c visit_visiting by metis
    qed simp
    then show ?thesis using False by auto
  qed
qed simp

lemma find_cycles_total: "\<exists>rs. find_cycles g = Some rs"
proof -
  have c: "card (fst ` set g) \<le> length g" by (metis card_length length_map list.set_map)
  have "\<exists>t. ofold (\<lambda>n. visit (length g + 2) g n [n]) (sort (map fst g))
      \<lparr>visiting = [], visited = [], found = []\<rparr> = Some t \<and> visiting t = []"
  proof (rule ofold_total)
    fix n and s :: dfs
    assume v: "visiting s = []"
    then have "card (fst ` set g - set (visiting s)) < length g + 2" using c by simp
    from visit_total [OF this, of n "[n]"] visit_visiting v
    show "\<exists>s'. visit (length g + 2) g n [n] s = Some s' \<and> visiting s' = []" by metis
  qed simp
  then show ?thesis by (auto simp: find_cycles_def)
qed
subsection \<open>It reports a cycle exactly when there is one\<close>

definition settled :: "graph \<Rightarrow> string set \<Rightarrow> bool" where
  \<comment> \<open>closed under successors and free of cycles\<close>
  "settled g V \<longleftrightarrow> (\<forall>a \<in> V. set (successors g a) \<subseteq> V \<and> (a, a) \<notin> (graph_edges g)\<^sup>+)"

lemma settled_reach: "(a, b) \<in> (graph_edges g)\<^sup>+ \<Longrightarrow> settled g V \<Longrightarrow> a \<in> V \<Longrightarrow> b \<in> V"
proof (induction rule: trancl_induct)
  case (base b)
  then show ?case by (auto simp: settled_def graph_edges_def)
next
  case (step b c)
  then show ?case by (auto simp: settled_def graph_edges_def)
qed

lemma settled_insert:
  assumes "settled g V" "n \<notin> V" "set (successors g n) \<subseteq> V"
  shows "settled g (insert n V)"
proof -
  have "(n, n) \<notin> (graph_edges g)\<^sup>+"
  proof
    assume "(n, n) \<in> (graph_edges g)\<^sup>+"
    then obtain b where b: "(n, b) \<in> graph_edges g" "b = n \<or> (b, n) \<in> (graph_edges g)\<^sup>+" by (metis tranclD rtranclD)
    then have "b \<in> V" using assms(3) by (auto simp: graph_edges_def)
    with b(2) assms show False using settled_reach by blast
  qed
  then show ?thesis using assms by (auto simp: settled_def)
qed

lemma visit_found: "visit fuel g n p s = Some s' \<Longrightarrow> \<exists>rs. found s' = found s @ rs"
proof (induction fuel arbitrary: n p s s')
  case (Suc fuel)
  show ?case
  proof (cases "n \<in> set (visited s) \<or> n \<in> set (visiting s)")
    case True
    then show ?thesis using Suc.prems by (auto split: if_splits)
  next
    case False
    then obtain t where t: "ofold (\<lambda>d. visit fuel g d (p @ [d])) (successors g n) (s\<lparr>visiting := n # visiting s\<rparr>) = Some t"
      and s': "s' = t\<lparr>visiting := remove1 n (visiting t), visited := n # visited t\<rparr>"
      using Suc.prems by (auto split: option.splits)
    have "\<exists>rs. found t = found s @ rs"
    proof (rule ofold_invariant [OF t, where I = "\<lambda>u. \<exists>rs. found u = found s @ rs"])
      fix x and u u' :: dfs
      assume "\<exists>rs. found u = found s @ rs" "visit fuel g x (p @ [x]) u = Some u'"
      with Suc.IH show "\<exists>rs. found u' = found s @ rs" by (metis append_assoc)
    qed simp
    then show ?thesis by (simp add: s')
  qed
qed simp

definition sound_state :: "graph \<Rightarrow> dfs \<Rightarrow> bool" where
  "sound_state g s \<longleftrightarrow> found s = [] \<longrightarrow> settled g (set (visited s)) \<and> set (visited s) \<inter> set (visiting s) = {}"

lemma visit_sound:
  "visit fuel g n p s = Some s' \<Longrightarrow> sound_state g s \<Longrightarrow>
   sound_state g s' \<and> (found s' = [] \<longrightarrow> n \<in> set (visited s')) \<and> set (visited s) \<subseteq> set (visited s')"
proof (induction fuel arbitrary: n p s s')
  case (Suc fuel)
  show ?case
  proof (cases "n \<in> set (visited s) \<or> n \<in> set (visiting s)")
    case True
    then show ?thesis using Suc.prems by (auto simp: sound_state_def split: if_splits)
  next
    case False
    let ?s0 = "s\<lparr>visiting := n # visiting s\<rparr>"
    from False obtain t where t: "ofold (\<lambda>d. visit fuel g d (p @ [d])) (successors g n) ?s0 = Some t"
      and s': "s' = t\<lparr>visiting := remove1 n (visiting t), visited := n # visited t\<rparr>"
      using Suc.prems by (auto split: option.splits)
    have loop: "sound_state g u' \<and> visiting u' = n # visiting s \<and> set (visited s) \<subseteq> set (visited u') \<and>
        (found u' = [] \<longrightarrow> set ds \<subseteq> set (visited u'))"
      if "ofold (\<lambda>d. visit fuel g d (p @ [d])) ds u = Some u'" "sound_state g u"
        "visiting u = n # visiting s" "set (visited s) \<subseteq> set (visited u)" for ds u u'
      using that
    proof (induction ds arbitrary: u)
      case (Cons d ds)
      then obtain w where w: "visit fuel g d (p @ [d]) u = Some w"
        "ofold (\<lambda>d. visit fuel g d (p @ [d])) ds w = Some u'" by (auto split: option.splits)
      from Suc.IH [OF w(1) Cons.prems(2)] have h: "sound_state g w" "found w = [] \<longrightarrow> d \<in> set (visited w)"
        "set (visited u) \<subseteq> set (visited w)" by auto
      have "visiting w = n # visiting s" using visit_visiting [OF w(1)] Cons.prems(3) by simp
      note r = Cons.IH [OF w(2) h(1) this]
      have mono: "set (visited w) \<subseteq> set (visited u')"
        by (rule ofold_invariant [OF w(2), where I = "\<lambda>v. sound_state g v \<and> set (visited w) \<subseteq> set (visited v)", THEN conjunct2])
          (use h(1) Suc.IH in blast)+
      obtain rs where rs: "found u' = found w @ rs"
        using ofold_invariant [OF w(2), where I = "\<lambda>v. \<exists>rs. found v = found w @ rs"] visit_found
        by (metis append_assoc append_Nil2)
      show ?case using r h Cons.prems(4) mono rs by auto
    qed simp
    have "sound_state g ?s0" using Suc.prems(2) False by (auto simp: sound_state_def)
    from loop [OF t this] have l: "sound_state g t" "visiting t = n # visiting s"
      "set (visited s) \<subseteq> set (visited t)" "found t = [] \<longrightarrow> set (successors g n) \<subseteq> set (visited t)" by auto
    show ?thesis
    proof (cases "found t = []")
      case True
      then have v: "settled g (set (visited t))" "set (visited t) \<inter> set (n # visiting s) = {}"
        "set (successors g n) \<subseteq> set (visited t)" using l by (auto simp: sound_state_def)
      then have "settled g (insert n (set (visited t)))" by (intro settled_insert) auto
      moreover have "insert n (set (visited t)) \<inter> set (visiting s) = {}" using v(2) False by auto
      ultimately show ?thesis using l by (auto simp: s' sound_state_def)
    qed (use l in \<open>auto simp: s' sound_state_def\<close>)
  qed
qed simp

lemma visit_complete:
  assumes "acyclic (graph_edges g)"
  shows "visit fuel g n p s = Some s' \<Longrightarrow> \<forall>v \<in> set (visiting s). (v, n) \<in> (graph_edges g)\<^sup>+ \<Longrightarrow> found s' = found s"
proof (induction fuel arbitrary: n p s s')
  case (Suc fuel)
  have "n \<notin> set (visiting s)" using Suc.prems(2) assms by (auto simp: acyclic_def)
  show ?case
  proof (cases "n \<in> set (visited s)")
    case True
    then show ?thesis using Suc.prems by auto
  next
    case False
    with \<open>n \<notin> set (visiting s)\<close> obtain t where
      t: "ofold (\<lambda>d. visit fuel g d (p @ [d])) (successors g n) (s\<lparr>visiting := n # visiting s\<rparr>) = Some t"
      and s': "s' = t\<lparr>visiting := remove1 n (visiting t), visited := n # visited t\<rparr>"
      using Suc.prems by (auto split: option.splits)
    have "visiting t = n # visiting s \<and> found t = found s"
    proof (rule ofold_invariant [OF t, where I = "\<lambda>u. visiting u = n # visiting s \<and> found u = found s"])
      fix d and u u' :: dfs
      assume d: "d \<in> set (successors g n)" and u: "visiting u = n # visiting s \<and> found u = found s"
        and v: "visit fuel g d (p @ [d]) u = Some u'"
      have e: "(n, d) \<in> graph_edges g" using d by (simp add: graph_edges_def)
      then have "\<forall>v \<in> set (visiting u). (v, d) \<in> (graph_edges g)\<^sup>+"
        using u Suc.prems(2) by (auto intro: trancl_into_trancl)
      from Suc.IH [OF v this] visit_visiting [OF v] u
      show "visiting u' = n # visiting s \<and> found u' = found s" by simp
    qed simp
    then show ?thesis by (simp add: s')
  qed
qed simp

theorem find_cycles_correct: "find_cycles g = Some [] \<longleftrightarrow> acyclic (graph_edges g)"
proof
  assume "find_cycles g = Some []"
  then obtain t where t: "ofold (\<lambda>n. visit (length g + 2) g n [n]) (sort (map fst g))
      \<lparr>visiting = [], visited = [], found = []\<rparr> = Some t" "found t = []" by (auto simp: find_cycles_def)
  have loop: "sound_state g t' \<and> (found t' = [] \<longrightarrow> set ns \<subseteq> set (visited t') \<and> set (visited s) \<subseteq> set (visited t'))"
    if "ofold (\<lambda>n. visit f g n [n]) ns s = Some t'" "sound_state g s" for ns s t' f
    using that
  proof (induction ns arbitrary: s)
    case (Cons n ns)
    then obtain w where w: "visit f g n [n] s = Some w" "ofold (\<lambda>n. visit f g n [n]) ns w = Some t'"
      by (auto split: option.splits)
    from visit_sound [OF w(1) Cons.prems(2)] have h: "sound_state g w"
      "found w = [] \<longrightarrow> n \<in> set (visited w)" "set (visited s) \<subseteq> set (visited w)" by auto
    obtain rs where "found t' = found w @ rs"
      using ofold_invariant [OF w(2), where I = "\<lambda>v. \<exists>rs. found v = found w @ rs"] visit_found
      by (metis append_assoc append_Nil2)
    with Cons.IH [OF w(2) h(1)] h show ?case by auto
  qed simp
  have "sound_state g \<lparr>visiting = [], visited = [], found = []\<rparr>" by (simp add: sound_state_def settled_def)
  from loop [OF t(1) this] t(2) have s: "settled g (set (visited t))" "fst ` set g \<subseteq> set (visited t)"
    by (auto simp: sound_state_def)
  have "(a, a) \<notin> (graph_edges g)\<^sup>+" for a
  proof
    assume c: "(a, a) \<in> (graph_edges g)\<^sup>+"
    then obtain b where "(a, b) \<in> graph_edges g" by (meson tranclD)
    then have "a \<in> fst ` set g"
      by (metis (mono_tags, lifting) case_prodD empty_iff graph_edges_def list.set(1) map_of_eq_None_iff
          mem_Collect_eq option.case(1) successors_def)
    with s c show False by (auto simp: settled_def)
  qed
  then show "acyclic (graph_edges g)" by (simp add: acyclic_def)
next
  assume a: "acyclic (graph_edges g)"
  from find_cycles_total obtain rs where rs: "find_cycles g = Some rs" by blast
  then obtain t where t: "ofold (\<lambda>n. visit (length g + 2) g n [n]) (sort (map fst g))
      \<lparr>visiting = [], visited = [], found = []\<rparr> = Some t" "rs = found t" by (auto simp: find_cycles_def)
  have "visiting t = [] \<and> found t = []"
    by (rule ofold_invariant [OF t(1), where I = "\<lambda>u. visiting u = [] \<and> found u = []"])
      (simp, metis visit_visiting visit_complete [OF a] empty_iff list.set(1))
  with t(2) rs show "find_cycles g = Some []" by simp
qed

subsection \<open>Acceptance of a dependency graph\<close>

definition subtask_key :: "pv \<Rightarrow> string option" where
  "subtask_key st =
     (case st of PDict d \<Rightarrow> if truthy (subtask_id d) then Some (py_str (subtask_id d)) else None | _ \<Rightarrow> None)"

definition subtask_edges :: "pv list \<Rightarrow> (string \<times> string) set" where
  "subtask_edges ts =
     {(a, b). \<exists>d dep. PDict d \<in> set ts \<and> subtask_key (PDict d) = Some a \<and> dep \<in> set (task_deps d) \<and> b = py_str dep}"

lemma graph_step_other: "subtask_key st \<noteq> Some k \<Longrightarrow> map_of (graph_step ids st g) k = map_of g k"
  by (auto simp: graph_step_def subtask_key_def update_conv' split: pv.splits if_splits)

lemma graph_fold_other:
  "k \<notin> set (List.map_filter subtask_key ts) \<Longrightarrow> map_of (fold (graph_step ids) ts g) k = map_of g k"
proof (induction ts arbitrary: g)
  case (Cons st ts)
  then have "subtask_key st \<noteq> Some k" "k \<notin> set (List.map_filter subtask_key ts)"
    unfolding set_map_filter by auto
  then show ?case using Cons.IH [of "graph_step ids st g"] graph_step_other by simp
qed simp

lemma graph_fold_entry:
  assumes "distinct (List.map_filter subtask_key ts)" "PDict d \<in> set ts" "subtask_key (PDict d) = Some k"
    and "dget_or d ''dependencies'' (PList []) = PList deps"
  shows "map_of (fold (graph_step ids) ts g) k = Some (map py_str (filter (\<lambda>dep. py_mem dep ids) deps))"
  using assms(1,2)
proof (induction ts arbitrary: g)
  case (Cons st ts)
  show ?case
  proof (cases "st = PDict d")
    case True
    then have "k \<notin> set (List.map_filter subtask_key ts)"
      using Cons.prems(1) assms(3) by (simp add: map_filter_simps)
    then have "map_of (fold (graph_step ids) (st # ts) g) k = map_of (graph_step ids st g) k"
      by (simp add: graph_fold_other)
    also have "\<dots> = Some (map py_str (filter (\<lambda>dep. py_mem dep ids) deps))"
      using True assms(3,4) by (auto simp: graph_step_def subtask_key_def update_conv' split: if_splits)
    finally show ?thesis .
  next
    case False
    then show ?thesis using Cons by (auto simp: map_filter_simps split: option.splits)
  qed
qed simp

lemma dependency_parts:
  assumes "validate_dependency_graph (PList ts) = Inr []"
  obtains ids where "collect_ids ts = Inr ids" "\<forall>t \<in> set (enum ts). unknown_dep_reasons ids t = Inr []"
    "\<forall>t \<in> set (enum ts). self_dep_reasons t = Inr []" "\<forall>t \<in> set ts. is_dict t"
    "acyclic (graph_edges (build_graph ids ts))"
proof -
  from assms obtain ids where i: "collect_ids ts = Inr ids"
    "rconcat (unknown_dep_reasons ids) (enum ts) = Inr []" "rconcat self_dep_reasons (enum ts) = Inr []"
    "not_dict_reasons ts = []" "(case find_cycles (build_graph ids ts) of None \<Rightarrow> [] | Some rs \<Rightarrow> rs) = []"
    by (auto simp: validate_dependency_graph_def rbind_eq_Inr)
  have d: "is_dict t" if "t \<in> set ts" for t
  proof -
    from in_enum [OF that] obtain i where "(i, t) \<in> set (enum ts)" by blast
    with i(4) show ?thesis by (auto simp: not_dict_reasons_def)
  qed
  have "find_cycles (build_graph ids ts) = Some []"
    using i(5) find_cycles_total [of "build_graph ids ts"] by auto
  then have "acyclic (graph_edges (build_graph ids ts))" using find_cycles_correct by blast
  with that i d show thesis by (auto simp: rconcat_Inr_Nil)
qed

lemma unknown_dep_accepted:
  assumes "unknown_dep_reasons ids (i, PDict d) = Inr []" "dep \<in> set (task_deps d)"
  shows "py_mem dep ids"
proof -
  from assms(2) obtain xs where "dget_or d ''dependencies'' (PList []) = PList xs" "dep \<in> set xs"
    by (cases "dget_or d ''dependencies'' (PList [])") (auto simp: task_deps_def)
  with assms(1) show ?thesis by (auto simp: unknown_dep_reasons_def rconcat_Inr_Nil split: if_splits)
qed

lemma collected_ids: "collect_ids ts = Inr ids \<Longrightarrow>
    set ids = {subtask_id d |d. PDict d \<in> set ts \<and> truthy (subtask_id d)}"
proof (induction ts arbitrary: ids)
  case Nil
  then show ?case by (simp add: collect_ids_def)
next
  case (Cons t ts)
  from Cons.prems obtain xs ys where x: "(case t of
         PDict d \<Rightarrow> if \<not> truthy (subtask_id d) then Inr []
                    else if hashable (subtask_id d) then Inr [subtask_id d] else Inl TypeErr
       | _ \<Rightarrow> Inr []) = Inr xs" "collect_ids ts = Inr ys" "ids = xs @ ys"
    by (auto simp: collect_ids_def rbind_eq_Inr)
  with Cons.IH [OF x(2)] show ?case by (cases t) (auto split: if_splits)
qed


definition sample_subtasks :: "pv list" where
  "sample_subtasks =
     [PDict [(''id'', PStr ''a''), (''dependencies'', PList [PStr ''b'', PStr ''c'']), (''ownedScope'', PStr ''src/a'')],
      PDict [(''taskId'', PStr ''b''), (''dependencies'', PList [PStr ''c'']), (''writeScope'', PList [PStr ''src/b'', PStr ''docs''])],
      PDict [(''id'', PStr ''c'')]]"


text \<open>A dependency cycle of any length is reported, and no acyclic graph is.\<close>

lemma three_cycle_reported:
  "find_cycles [(''a'', [''b'']), (''b'', [''c'']), (''c'', [''a''])] = Some [''Dependency cycle detected: a -> b -> c -> a -> a'']"
  by code_simp

section \<open>Write scopes\<close>

definition subtask_scopes :: "nat \<times> pv \<Rightarrow> (nat \<times> pv \<times> pv) list" where
  \<comment> \<open>index, owner and scope, in the order of the nested loops\<close>
  "subtask_scopes t =
     (let (i, st) = t in
      case st of
        PDict d \<Rightarrow>
          (let tid = por (por (dget d ''id'') (dget d ''taskId'')) (PStr (''subtask_'' @ int_str (int i)));
               scopes = por (dget d ''ownedScope'') (dget d ''writeScope'')
           in if \<not> truthy scopes then []
              else (case owned_scope_items scopes of
                  None \<Rightarrow> []
                | Some ss \<Rightarrow> map (\<lambda>scope. (i, tid, scope)) ss))
      | _ \<Rightarrow> [])"

definition write_scope_step ::
  "nat \<times> pv \<times> pv \<Rightarrow> (string \<times> pv) list \<times> string list \<Rightarrow> (string \<times> pv) list \<times> string list" where
  "write_scope_step =
     scan_scope
       (\<lambda>i tid scope. ''Invalid write scope '' @ py_repr scope @ '' for '' @ py_repr tid)
       (\<lambda>scope_str owner tid. ''Overlapping write scope '' @ repr_str scope_str @ '' between '' @
          py_repr owner @ '' and '' @ py_repr tid)"

definition validate_write_scopes :: "pv \<Rightarrow> string list" where
  "validate_write_scopes v =
     (case v of
        PList subtasks \<Rightarrow> snd (fold write_scope_step (concat (map subtask_scopes (enum subtasks))) ([], []))
      | _ \<Rightarrow> [''subtasks must be a list''])"

definition validate_write_scope_overlap :: "pv \<Rightarrow> string list" where
  "validate_write_scope_overlap subtasks = validate_write_scopes subtasks"

definition owned_paths :: "pv list \<Rightarrow> string list" where
  "owned_paths ts = map (\<lambda>(i, n, s). normalize_relative_path s) (concat (map subtask_scopes (enum ts)))"

text \<open>
  When the scope check of a decomposition passes, every write scope is a safe relative
  path, and no path of the workspace lies in two literal scopes, so no two subtasks may write
  the same file.
\<close>

theorem write_scopes_accepted:
  assumes "validate_write_scopes (PList ts) = []"
  shows "(\<forall>s \<in> set (owned_paths ts). safe_path s) \<and>
    (\<forall>u i j. safe_path u \<and> i < length (owned_paths ts) \<and> j < length (owned_paths ts) \<and>
       literal_scope (owned_paths ts ! i) \<and> literal_scope (owned_paths ts ! j) \<and>
       path_contains (owned_paths ts ! i) u \<and> path_contains (owned_paths ts ! j) u \<longrightarrow> i = j)"
proof -
  let ?es = "concat (map subtask_scopes (enum ts))"
  from assms have "snd (fold write_scope_step ?es ([], [])) = []" by (simp add: validate_write_scopes_def)
  then obtain m where "fold write_scope_step ?es ([], []) = (m, [])" by (metis prod.collapse)
  from scan_scope_clean [OF this [unfolded write_scope_step_def]] have
    sw: "sorted_wrt (\<lambda>a b. \<not> overlaps a b) (owned_paths ts)" and
    safe: "\<forall>s \<in> set (owned_paths ts). safe_path s"
    by (auto simp: owned_paths_def intro!: normalize_safe)
  have "i = j" if "safe_path u" "i < length (owned_paths ts)" "j < length (owned_paths ts)"
    "literal_scope (owned_paths ts ! i)" "literal_scope (owned_paths ts ! j)"
    "path_contains (owned_paths ts ! i) u" "path_contains (owned_paths ts ! j) u" for u i j
    using that safe sw
    by (intro scopes.pairwise_disjoint [of "owned_paths ts" u]) (auto simp: overlaps_def safe_literal_def)
  with safe show ?thesis by blast
qed

lemma write_scopes_accepted_witness:
  "validate_write_scopes (PList sample_subtasks) = [] \<and> owned_paths sample_subtasks = [''src/a'', ''src/b'', ''docs''] \<and>
   safe_path ''src/a'' \<and> safe_path ''src/b'' \<and> safe_path ''docs''"
proof -
  have e: "validate_write_scopes (PList sample_subtasks) = []" by code_simp
  have o: "owned_paths sample_subtasks = [''src/a'', ''src/b'', ''docs'']" by code_simp
  from write_scopes_accepted [OF e] have "\<forall>s \<in> set [''src/a'', ''src/b'', ''docs'']. safe_path s" unfolding o by blast
  with e o show ?thesis by simp
qed

section \<open>Patches\<close>

definition patch_target :: "pdict \<Rightarrow> pv" where
  "patch_target p = por (dget p ''targetPath'') (dget p ''path'')"

definition validate_patch_in_scope :: "pdict \<Rightarrow> pv list \<Rightarrow> string list" where
  \<comment> \<open>the scopes \<open>None\<close> and \<open>[]\<close> are treated alike by the code\<close>
  "validate_patch_in_scope payload allowed_scopes =
     (let target_path = patch_target payload in
      if \<not> truthy target_path then []
      else if allowed_scopes = [] then [''Patch target '' @ py_repr target_path @ '' has no allowed write scope'']
      else
        let target_str = normalize_relative_path target_path in
        if is_invalid_relative_path target_str then
          [''Patch target '' @ py_repr target_path @ '' is not a safe relative path'']
        else
          let normalized_scopes = filter (\<lambda>s. \<not> is_invalid_relative_path s) (map normalize_relative_path allowed_scopes) in
          reason_if (\<not> list_ex (\<lambda>scope. path_contains scope target_str) normalized_scopes)
            (''Patch target '' @ repr_str target_str @ '' is outside allowed write scopes: '' @ py_str (PList allowed_scopes)))"

definition patch_conflict_step ::
  "nat \<times> pv \<Rightarrow> (string \<times> pv) list \<times> string list \<Rightarrow> (string \<times> pv) list \<times> string list" where
  "patch_conflict_step e st =
     (let (i, patch) = e; (target_map, reasons) = st in
      case patch of
        PDict d \<Rightarrow>
          (let target = patch_target d; producer = por (dget d ''producerTaskId'') (PStr (''patch_'' @ int_str (int i)));
               target_str = py_str target
           in if \<not> truthy target then st
              else (case map_of target_map target_str of
                  Some owner \<Rightarrow> (target_map, reasons @ [''Conflicting patch target '' @ repr_str target_str @ '': '' @
                    py_repr owner @ '' vs '' @ py_repr producer])
                | None \<Rightarrow> (target_map @ [(target_str, producer)], reasons)))
      | _ \<Rightarrow> st)"

definition detect_patch_conflicts :: "pv \<Rightarrow> string list" where
  "detect_patch_conflicts v =
     (case v of PList patches \<Rightarrow> snd (fold patch_conflict_step (enum patches) ([], [])) | _ \<Rightarrow> [])"

lemma patch_in_scope:
  assumes "validate_patch_in_scope payload allowed = []" "truthy (patch_target payload)"
  shows "safe_path (normalize_relative_path (patch_target payload))"
    "\<exists>a \<in> set allowed. safe_path (normalize_relative_path a) \<and>
       path_contains (normalize_relative_path a) (normalize_relative_path (patch_target payload))"
proof -
  let ?t = "normalize_relative_path (patch_target payload)"
  from assms have t: "\<not> is_invalid_relative_path ?t"
    and "\<exists>s \<in> set (filter (\<lambda>s. \<not> is_invalid_relative_path s) (map normalize_relative_path allowed)). path_contains s ?t"
    by (auto simp: validate_patch_in_scope_def Let_def list_ex_iff split: if_splits)
  then obtain a where a: "a \<in> set allowed" "\<not> is_invalid_relative_path (normalize_relative_path a)"
    "path_contains (normalize_relative_path a) ?t" by auto
  have s: "safe_path ?t" "safe_path (normalize_relative_path a)" using t a normalize_safe by blast+
  then show "safe_path ?t" by simp
  from s a show "\<exists>a \<in> set allowed. safe_path (normalize_relative_path a) \<and> path_contains (normalize_relative_path a) ?t" by blast
qed

text \<open>
  A patch with a target passes the scope check only if its normalised target is a safe
  relative path inside one of the allowed scopes that are safe themselves; in a literal scope
  this means that the components of the scope are a prefix of those of the target.
\<close>

theorem patch_scope_accepted:
  assumes "validate_patch_in_scope payload allowed = []" "truthy (patch_target payload)"
  shows "safe_path (normalize_relative_path (patch_target payload)) \<and>
    (\<exists>a \<in> set allowed. safe_path (normalize_relative_path a) \<and>
       path_contains (normalize_relative_path a) (normalize_relative_path (patch_target payload)) \<and>
       (literal_scope (normalize_relative_path a) \<longrightarrow>
          prefix (path_comps (normalize_relative_path a)) (path_comps (normalize_relative_path (patch_target payload)))))"
proof -
  from patch_in_scope [OF assms] obtain a where a: "a \<in> set allowed" "safe_path (normalize_relative_path a)"
    "path_contains (normalize_relative_path a) (normalize_relative_path (patch_target payload))" by blast
  then show ?thesis using patch_in_scope(1) [OF assms] path_contains_literal by blast
qed

definition sample_patch :: pdict where
  "sample_patch = [(''path'', PStr ''./src/a/../b.py'')]"

lemma patch_scope_accepted_witness:
  "validate_patch_in_scope sample_patch [PStr ''src/''] = [] \<and>
   validate_patch_in_scope sample_patch [PStr ''src/a''] \<noteq> [] \<and>
   safe_path (normalize_relative_path (patch_target sample_patch))"
proof -
  have e: "validate_patch_in_scope sample_patch [PStr ''src/''] = []" by code_simp
  have t: "truthy (patch_target sample_patch)" by code_simp
  have "validate_patch_in_scope sample_patch [PStr ''src/a''] \<noteq> []" by code_simp
  with patch_scope_accepted [OF e t] e show ?thesis by blast
qed

definition patch_targets :: "pv list \<Rightarrow> string list" where
  "patch_targets ps =
     map (\<lambda>p. py_str (patch_target (the_dict p))) (filter (\<lambda>p. is_dict p \<and> truthy (patch_target (the_dict p))) ps)"

lemma patch_conflict_step_grows: "\<exists>rs. snd (patch_conflict_step e st) = snd st @ rs"
proof (cases "is_dict (snd e) \<and> truthy (patch_target (the_dict (snd e)))")
  case True
  then obtain d where d: "snd e = PDict d" by (cases "snd e") simp_all
  show ?thesis
    using True d by (cases "map_of (fst st) (py_str (patch_target d))")
      (simp_all add: patch_conflict_step_def Let_def case_prod_beta)
next
  case False
  then have "patch_conflict_step e st = st"
    by (cases "snd e") (simp_all add: patch_conflict_step_def Let_def case_prod_beta)
  then show ?thesis by simp
qed

lemma patch_conflict_loop:
  "map fst m @ patch_targets (map snd es) = ts \<Longrightarrow> distinct (map fst m) \<Longrightarrow>
   (snd (fold patch_conflict_step es (m, rs)) = [] \<longleftrightarrow> rs = [] \<and> distinct ts)"
proof (induction es arbitrary: m rs ts)
  case Nil
  then show ?case by (auto simp: patch_targets_def)
next
  case (Cons e es)
  obtain i p where e: "e = (i, p)" by fastforce
  have grow: "snd (fold patch_conflict_step xs st) = [] \<Longrightarrow> snd st = []" for xs st
  proof (induction xs arbitrary: st)
    case (Cons x xs)
    from Cons.prems have "snd (fold patch_conflict_step xs (patch_conflict_step x st)) = []" by simp
    then have "snd (patch_conflict_step x st) = []" by (rule Cons.IH)
    then show ?case using patch_conflict_step_grows [of x st] by (metis append_is_Nil_conv)
  qed simp
  show ?case
  proof (cases "is_dict p \<and> truthy (patch_target (the_dict p))")
    case False
    then have "patch_conflict_step e (m, rs) = (m, rs)"
      by (cases p) (auto simp: patch_conflict_step_def e Let_def)
    moreover have "patch_targets (map snd (e # es)) = patch_targets (map snd es)"
      using False by (auto simp: patch_targets_def e)
    ultimately show ?thesis using Cons by simp
  next
    case True
    then obtain d where d: "p = PDict d" by (cases p) auto
    let ?t = "py_str (patch_target d)"
    have pt: "patch_targets (map snd (e # es)) = ?t # patch_targets (map snd es)"
      using True d by (simp add: patch_targets_def e)
    show ?thesis
    proof (cases "map_of m ?t")
      case None
      then have "?t \<notin> set (map fst m)" by (simp add: map_of_eq_None_iff)
      moreover obtain pr where "patch_conflict_step e (m, rs) = (m @ [(?t, pr)], rs)"
        using True None d by (simp add: patch_conflict_step_def e Let_def)
      ultimately show ?thesis using Cons.IH [of "m @ [(?t, pr)]" ts rs] Cons.prems pt by simp
    next
      case (Some owner)
      then have "(?t, owner) \<in> set m" by (rule map_of_SomeD)
      then have "?t \<in> set (map fst m)" by force
      then have "\<not> distinct (map fst m @ ?t # patch_targets (map snd es))" by simp
      then have "\<not> distinct ts" using Cons.prems(1) unfolding pt by metis
      moreover obtain r where "patch_conflict_step e (m, rs) = (m, rs @ [r])"
        using True Some d by (simp add: patch_conflict_step_def e Let_def)
      ultimately show ?thesis using grow [of es "(m, rs @ [r])"] by auto
    qed
  qed
qed

text \<open>
  Conflict detection reports nothing exactly when the target texts of the patches are
  pairwise different. It compares the texts as written: two spellings of one file pass, while
  the scope check of the same module normalises them to the same path.
\<close>

theorem patch_conflicts_exact:
  "(detect_patch_conflicts (PList ps) = [] \<longleftrightarrow> distinct (patch_targets ps)) \<and>
   detect_patch_conflicts (PList [PDict [(''path'', PStr ''a.py'')], PDict [(''path'', PStr ''./a.py'')]]) = [] \<and>
   normalize_relative_path (PStr ''a.py'') = normalize_relative_path (PStr ''./a.py'')"
proof (intro conjI)
  show "detect_patch_conflicts (PList ps) = [] \<longleftrightarrow> distinct (patch_targets ps)"
    using patch_conflict_loop [of "[]" "enum ps" "patch_targets ps" "[]"]
    by (simp add: detect_patch_conflicts_def map_snd_enum)
  show "detect_patch_conflicts (PList [PDict [(''path'', PStr ''a.py'')], PDict [(''path'', PStr ''./a.py'')]]) = []"
    by code_simp
  show "normalize_relative_path (PStr ''a.py'') = normalize_relative_path (PStr ''./a.py'')"
    by code_simp
qed

section \<open>The reviewer gate\<close>

definition validate_reviewer_gate :: "pdict \<Rightarrow> string list res" where
  "validate_reviewer_gate payload =
     (let review_status = dget payload ''reviewStatus'';
          valid_statuses = [''approved'', ''changes_requested'', ''pending'', ''rejected'']
      in if \<not> truthy review_status then Inr []
         else rbind (pin_set review_status valid_statuses) (\<lambda>ok.
           Inr (reason_if (\<not> ok) (''Invalid reviewStatus: '' @ py_repr review_status @ ''. Must be one of '' @
                  repr_strs valid_statuses) @
                reason_if (truthy (dget_or payload ''mergeRequested'' (PBool False)) \<and>
                    pin_tuple review_status [''rejected'', ''changes_requested''])
                  (''Cannot merge when reviewStatus is '' @ py_repr review_status))))"

lemma reviewer_gate_blocks_merge:
  assumes "truthy (dget p ''mergeRequested'')" "dget p ''reviewStatus'' = PStr ''rejected''"
  shows "\<exists>r rs. validate_reviewer_gate p = Inr (r # rs)"
  using assms by (auto simp: validate_reviewer_gate_def Let_def pin_tuple_def reason_if_def dget_or_def dget_def
      split: option.splits)

end
