(* ===== verification/ProposalPayload.thy ===== *)
theory ProposalPayload
  imports Planner
begin

text \<open>
  The checks on the payload of a proposal, one definition per validator of
  \<open>policy/proposal_validator.py\<close>. A validator yields its reasons in the order of the code, or
  the \<open>TypeError\<close> that a set membership test raises for a list or an object. Where the code
  iterates over a \<open>frozenset\<close>, whose order Python leaves open, the model takes the order in
  which the source lists the elements; this affects only the order of reasons and which of
  several dangerous patterns is named.
\<close>

section \<open>Shared checks\<close>

definition named :: "pv \<Rightarrow> bool" where
  \<comment> \<open>\<open>isinstance(v, str) and v.strip()\<close>\<close>
  "named v \<longleftrightarrow> is_str v \<and> strip (the_str v) \<noteq> ''''"

definition typed_value :: "(pv \<Rightarrow> bool) \<Rightarrow> string \<Rightarrow> pv \<Rightarrow> string list" where
  \<comment> \<open>\<open>if value is not None and not isinstance(value, T): reasons.append(msg)\<close>\<close>
  "typed_value ok msg v = reason_if (\<not> is_none v \<and> \<not> ok v) msg"

lemma typed_value_Nil [simp]: "typed_value ok msg v = [] \<longleftrightarrow> v = PNone \<or> ok v"
  by (auto simp: typed_value_def is_none_def)

definition typed_reasons :: "(pv \<Rightarrow> bool) \<Rightarrow> string \<Rightarrow> pdict \<Rightarrow> string list \<Rightarrow> string list" where
  \<comment> \<open>\<open>for field in fs: ...\<close>\<close>
  "typed_reasons ok msg p fs =
     concat (map (\<lambda>f. typed_value ok (f @ msg) (dget p f)) fs)"

definition must_be_string :: string where "must_be_string = '' must be a string when provided''"
definition must_be_list :: string where "must_be_list = '' must be a list when provided''"
definition must_be_bool :: string where "must_be_bool = '' must be a boolean when provided''"

definition must_be_one_of :: "string \<Rightarrow> pv \<Rightarrow> string list \<Rightarrow> string" where
  \<comment> \<open>the list is sorted already\<close>
  "must_be_one_of what v valid = what @ py_repr v @ ''. Must be one of '' @ repr_strs valid"

definition choice :: "pv \<Rightarrow> string list \<Rightarrow> string \<Rightarrow> string list res" where
  \<comment> \<open>\<open>if v not in valid: reasons.append(msg)\<close>\<close>
  "choice v valid msg = rbind (pin_set v valid) (\<lambda>ok. Inr (reason_if (\<not> ok) msg))"

definition choice_if_set :: "pv \<Rightarrow> string list \<Rightarrow> string \<Rightarrow> string list res" where
  \<comment> \<open>\<open>if v and v not in valid: reasons.append(msg)\<close>\<close>
  "choice_if_set v valid msg = (if truthy v then choice v valid msg else Inr [])"

definition rapp :: "string list res \<Rightarrow> string list res \<Rightarrow> string list res" where
  "rapp a b = rbind a (\<lambda>xs. rbind b (\<lambda>ys. Inr (xs @ ys)))"

lemma rapp_Nil [simp]: "rapp a b = Inr [] \<longleftrightarrow> a = Inr [] \<and> b = Inr []"
  by (cases a; cases b) (auto simp: rapp_def)

lemma choice_Nil [simp]: "choice v valid msg = Inr [] \<longleftrightarrow> (\<exists>s \<in> set valid. v = PStr s)"
  by (auto simp: choice_def rbind_eq_Inr pin_set_True reason_if_def)

lemma choice_if_set_Nil [simp]:
  "choice_if_set v valid msg = Inr [] \<longleftrightarrow> \<not> truthy v \<or> (\<exists>s \<in> set valid. v = PStr s)"
  by (simp add: choice_if_set_def)

lemma typed_reasons_Nil [simp]:
  "typed_reasons ok msg p fs = [] \<longleftrightarrow> (\<forall>f \<in> set fs. dget p f = PNone \<or> ok (dget p f))"
  by (auto simp: typed_reasons_def)

section \<open>Schema, tools, artifacts\<close>

definition required_fields_by_kind :: "(string \<times> string list) list" where
  "required_fields_by_kind =
     [(''intent_mode'', [''mode'']), (''decomposition'', [''subtasks'']),
      (''agent_profile'', [''name'', ''baseType'', ''mission'']), (''model_policy'', [''model'']),
      (''skill_policy'', [''skillId'']), (''tool_policy'', [''allowedTools'']), (''mcp_policy'', [''serverId'']),
      (''context_policy'', [''sections'']), (''memory_policy'', [''action'']),
      (''artifact_contract'', [''kind'', ''status'']), (''risk_policy'', [''riskLevel'']),
      (''approval_policy'', [''gates'']), (''test_strategy'', [''commands'']), (''failure_recovery'', [''strategy'']),
      (''provider_preflight'', [''action'']), (''event_presentation'', [''grouping'']),
      (''synthesis_strategy'', [''structure'']), (''todo_maintenance'', [''updates'']),
      (''completion_decision'', [''is_complete'']), (''product_surface_decision'', [''surface_type'']),
      (''user_takeover'', [''state'']), (''tool_recovery'', [''action'']), (''budget_convergence'', [''action''])]"

definition validate_proposal_schema :: "string \<Rightarrow> pdict \<Rightarrow> string list" where
  "validate_proposal_schema kind payload =
     (case map_of required_fields_by_kind kind of
        None \<Rightarrow> [''Unknown proposal kind: '' @ repr_str kind]
      | Some required \<Rightarrow>
          concat (map (\<lambda>f. reason_if (\<not> dhas payload f) (''Missing required field: '' @ repr_str f)) required))"

definition safe_builtin_tools :: "string list" where
  "safe_builtin_tools =
     [''list_dir'', ''search_files'', ''read_file'', ''git_status'', ''git_diff'', ''code_search'', ''web_fetch'',
      ''browser'', ''run_command'', ''apply_patch'', ''agent'', ''task'']"

definition validate_tool_allowlist :: "pdict \<Rightarrow> string list" where
  "validate_tool_allowlist payload =
     (case dget_or payload ''allowedTools'' (PList []) of
        PList tools \<Rightarrow>
          concat (map (\<lambda>tool. let resolved = resolve_tool_alias (py_str tool) in
            reason_if (resolved \<notin> set safe_builtin_tools)
              (''Unknown or disallowed tool: '' @ py_repr tool @ '' (resolved: '' @ repr_str resolved @ '')'')) tools)
      | _ \<Rightarrow> [''allowedTools must be a list''])"

definition unsafe_tools :: "string list" where
  "unsafe_tools = [''agent'', ''task''] @ unsafe_child_tools"

definition validate_no_unsafe_tools :: "pdict \<Rightarrow> string list" where
  "validate_no_unsafe_tools payload =
     (case dget_or payload ''allowedTools'' (PList []) of
        PList tools \<Rightarrow>
          concat (map (\<lambda>tool. let resolved = resolve_tool_alias (py_str tool) in
            reason_if (resolved \<in> set unsafe_tools)
              (''Unsafe tool proposed: '' @ py_repr tool @ '' (resolved: '' @ repr_str resolved @ '')'')) tools)
      | _ \<Rightarrow> [])"

definition valid_artifact_kinds :: "string list" where
  "valid_artifact_kinds = [''plan'', ''file'', ''patch'', ''review'', ''test_report'', ''asset'']"

definition validate_artifact_contract :: "pdict \<Rightarrow> string list res" where
  "validate_artifact_contract payload =
     (let kind = dget payload ''kind''; status = dget payload ''status'' in
      rapp (choice_if_set kind valid_artifact_kinds (''Invalid artifact kind: '' @ py_repr kind))
           (choice_if_set status [''proposed'', ''applied'', ''verified'', ''rejected'']
             (''Invalid artifact status: '' @ py_repr status)))"

section \<open>Advisory decisions\<close>

definition validate_completion_decision :: "pdict \<Rightarrow> string list" where
  "validate_completion_decision payload =
     reason_if (dhas payload ''is_complete'' \<and> \<not> is_bool (dget payload ''is_complete'')) ''is_complete must be a boolean'' @
     reason_if (dhas payload ''verification_sufficient'' \<and> \<not> is_bool (dget payload ''verification_sufficient''))
       ''verification_sufficient must be a boolean'' @
     typed_reasons is_dict '' must be an object when provided'' payload [''verification_assessment''] @
     typed_reasons is_list must_be_list payload [''remaining_risks'', ''blocking_issues'', ''recommended_verification'']"

definition at_index :: "string \<Rightarrow> nat \<Rightarrow> string" where
  "at_index field i = field @ ''['' @ int_str (int i) @ '']''"

definition or_none :: "pv \<Rightarrow> pv \<Rightarrow> pv" where
  \<comment> \<open>\<open>if a is None: a = b\<close>\<close>
  "or_none a b = (if is_none a then b else a)"

definition tool_object_reasons :: "string \<Rightarrow> string \<Rightarrow> pv \<Rightarrow> string list" where
  \<comment> \<open>a suggested tool: first the message prefix, then what an item that is no object is told\<close>
  "tool_object_reasons tag not_object v =
     (case v of
        PDict d \<Rightarrow>
          reason_if (\<not> named (por (dget d ''name'') (dget d ''toolName''))) (tag @ ''.name must be a non-empty string'') @
          typed_value is_dict (tag @ ''.arguments must be an object when provided'') (dget_or d ''arguments'' (PDict []))
      | _ \<Rightarrow> [tag @ not_object])"

definition suggested_command_reasons :: "string \<Rightarrow> pv \<Rightarrow> string list" where
  "suggested_command_reasons tag v =
     (case v of
        PStr s \<Rightarrow> reason_if (strip s = '''') (tag @ '' must not be empty'')
      | PDict d \<Rightarrow>
          reason_if (\<not> named (por (por (dget d ''suggestedCommand'') (dget d ''suggested_command'')) (dget d ''command'')))
            (tag @ ''.command must be a non-empty string'')
      | _ \<Rightarrow> [tag @ '' must be a string or object''])"

definition optional_list_reasons :: "string \<Rightarrow> (string \<Rightarrow> pv \<Rightarrow> string list) \<Rightarrow> pv \<Rightarrow> string list" where
  \<comment> \<open>nothing for \<open>None\<close>, one check per element of a list\<close>
  "optional_list_reasons tag check v =
     (case v of
        PNone \<Rightarrow> []
      | PList xs \<Rightarrow> concat (map (\<lambda>(j, x). check (at_index tag j) x) (enum xs))
      | _ \<Rightarrow> [tag @ must_be_list])"

definition evidence_request_reasons :: "nat \<times> pv \<Rightarrow> string list" where
  "evidence_request_reasons t =
     (let (index, v) = t; tag = at_index ''evidence_requests'' index in
      case v of
        PDict item \<Rightarrow>
          typed_value is_str (tag @ ''.kind'' @ must_be_string) (dget item ''kind'') @
          typed_value is_bool (tag @ ''.blocking'' @ must_be_bool) (dget item ''blocking'') @
          typed_value is_bool (tag @ ''.satisfied'' @ must_be_bool) (dget item ''satisfied'') @
          typed_value is_str (tag @ ''.status'' @ must_be_string) (dget item ''status'') @
          typed_value is_str (tag @ ''.suggestedCommand'' @ must_be_string)
            (or_none (dget item ''suggestedCommand'') (dget item ''suggested_command'')) @
          optional_list_reasons (tag @ ''.suggestedCommands'') suggested_command_reasons
            (or_none (dget item ''suggestedCommands'') (dget item ''suggested_commands'')) @
          (let tool = or_none (dget item ''suggestedTool'') (dget item ''suggested_tool'') in
           if is_none tool then []
           else tool_object_reasons (tag @ ''.suggestedTool'') '' must be an object when provided'' tool) @
          optional_list_reasons (tag @ ''.suggestedTools'') (\<lambda>t. tool_object_reasons t '' must be an object'')
            (or_none (dget item ''suggestedTools'') (dget item ''suggested_tools''))
      | _ \<Rightarrow> [tag @ '' must be an object''])"

definition validate_product_surface_decision :: "pdict \<Rightarrow> string list" where
  "validate_product_surface_decision payload =
     reason_if (dhas payload ''surface_type'' \<and> \<not> named (dget payload ''surface_type''))
       ''surface_type must be a non-empty string'' @
     typed_reasons is_list must_be_list payload [''recommended_verification'', ''verification_intents'', ''evidence_requests''] @
     concat (map evidence_request_reasons (enum (the_list (dget payload ''evidence_requests''))))"

definition validate_user_takeover :: "pdict \<Rightarrow> string list res" where
  "validate_user_takeover payload =
     (let state = dget payload ''state'' in
      rapp (choice state [''supplement'', ''pause_requested'', ''continue_requested'', ''wrap_up_requested'',
              ''stop_requested'', ''change_requested''] (''Invalid user takeover state: '' @ py_repr state))
           (Inr (typed_reasons is_str must_be_string payload [''intent'', ''reason'', ''target_goal'', ''handoff_focus''])))"

definition tool_recovery_actions :: "string list" where
  "tool_recovery_actions = [''retry_same'', ''retry_narrower'', ''refresh_mcp_tools'', ''request_permission'',
     ''use_partial_evidence'', ''fallback_tool'', ''ask_user'', ''skip_with_risk'', ''abort'']"

definition validate_tool_recovery :: "pdict \<Rightarrow> string list res" where
  "validate_tool_recovery payload =
     (let action = dget payload ''action''; fallback_tool = dget payload ''fallbackTool'' in
      rapp (choice action tool_recovery_actions (''Invalid tool recovery action: '' @ py_repr action))
           (Inr (typed_reasons is_str must_be_string payload [''reason'', ''userMessage'', ''risk''] @
                 typed_reasons is_bool must_be_bool payload
                   [''retryWithNarrowerArgs'', ''usePartialEvidence'', ''requestPermission'', ''refreshMcpTools''] @
                 (if is_none fallback_tool then []
                  else tool_object_reasons ''fallbackTool'' '' must be an object when provided'' fallback_tool))))"

definition validate_budget_convergence :: "pdict \<Rightarrow> string list res" where
  "validate_budget_convergence payload =
     (let action = dget payload ''action''; constraints = dget payload ''constraints'' in
      rapp (choice action [''summarize_partial'', ''pause_for_user'', ''request_more_budget'', ''continue_with_constraints'',
              ''ask_user'', ''fail''] (''Invalid budget convergence action: '' @ py_repr action))
           (Inr (typed_reasons is_str must_be_string payload [''reason'', ''handoff_focus'', ''resume_policy'', ''userMessage''] @
                 typed_reasons is_list must_be_list payload [''next_user_options''] @
                 reason_if (\<not> is_none constraints \<and> \<not> (is_dict constraints \<or> is_list constraints \<or> is_str constraints))
                   ''constraints must be a dict, list, or string when provided'')))"

definition validate_provider_preflight :: "pdict \<Rightarrow> string list res" where
  "validate_provider_preflight payload =
     (let action = dget payload ''action''; risk_level = dget payload ''riskLevel'' in
      rapp (choice action [''proceed'', ''compact_context'', ''ask_user'', ''abort'']
             (''Invalid provider preflight action: '' @ py_repr action))
      (rapp (if is_none risk_level then Inr []
             else choice risk_level valid_risk_levels (must_be_one_of ''Invalid riskLevel: '' risk_level valid_risk_levels))
           (Inr (typed_reasons is_str must_be_string payload [''reason'', ''contextStrategy'', ''userMessage''] @
                 reason_if (dhas payload ''fallbackProviderId'')
                   ''fallbackProviderId is no longer valid provider preflight output'' @
                 concat (map (\<lambda>f. reason_if (dhas payload f)
                   (f @ '' is not valid provider preflight output; delegation must be requested with agent/task tools''))
                   [''splitRecommendation'', ''subtasks''])))))"
section \<open>Risk, approval, tests\<close>

definition risk_approval_requirements :: "(string \<times> string list) list" where
  "risk_approval_requirements =
     [(''low'', []), (''medium'', []), (''high'', [''reviewer'']), (''critical'', [''reviewer'', ''verifier''])]"

definition validate_risk_policy :: "pdict \<Rightarrow> string list res" where
  "validate_risk_policy payload =
     (let risk = dget payload ''riskLevel'' in
      if \<not> truthy risk then Inr []
      else rbind (pin_set risk valid_risk_levels) (\<lambda>ok.
        if \<not> ok then Inr [must_be_one_of ''Invalid riskLevel: '' risk valid_risk_levels]
        else
          let required = (case map_of risk_approval_requirements (the_str risk) of None \<Rightarrow> [] | Some gs \<Rightarrow> gs);
              gates = the_list (dget_or payload ''approvalGates'' (PList []))
          in Inr (concat (map (\<lambda>gate. reason_if (\<not> py_mem (PStr gate) gates)
               (''Risk level '' @ py_repr risk @ '' requires approval gate '' @ repr_str gate @
                '' but it is not specified'')) required))))"

definition valid_gate_types :: "string list" where
  "valid_gate_types = [''automated'', ''reviewer'', ''user'', ''verifier'']"

definition gate_type_reasons :: "nat \<times> pv \<Rightarrow> string list res" where
  "gate_type_reasons t =
     (let (i, gate) = t; tag = at_index ''gates'' i in
      case gate of
        PDict g \<Rightarrow>
          (let gate_type = dget g ''type''; condition = dget g ''condition'' in
           rapp (if \<not> truthy gate_type then Inr [tag @ '' missing required field '' @ repr_str ''type'']
                 else choice gate_type valid_gate_types (must_be_one_of (tag @ '' invalid gate type: '') gate_type valid_gate_types))
                (Inr (reason_if (\<not> is_none condition \<and> \<not> named condition)
                   (tag @ '' condition must be a non-empty string if provided''))))
      | _ \<Rightarrow> Inr [tag @ '' must be a dict''])"

definition validate_approval_gates :: "pdict \<Rightarrow> string list res" where
  "validate_approval_gates payload =
     (case dget payload ''gates'' of
        PList gates \<Rightarrow> if gates = [] then Inr [''gates must be non-empty''] else rconcat gate_type_reasons (enum gates)
      | _ \<Rightarrow> Inr [''gates must be a list''])"

definition dangerous_test_patterns :: "string list" where
  "dangerous_test_patterns =
     [''rm '', ''del '', ''format '', ''shutdown'', ''reboot'', ''drop '', ''delete from'', ''truncate '']"

definition test_command_reasons :: "nat \<times> pv \<Rightarrow> string list" where
  "test_command_reasons t =
     (let (i, cmd) = t; tag = at_index ''commands'' i in
      case cmd of
        PStr s \<Rightarrow>
          (let cmd_lower = strip (lower s) in
           if cmd_lower = '''' then [tag @ '' must be a non-empty string'']
           else (case List.find (\<lambda>pat. has_sub pat cmd_lower) dangerous_test_patterns of
               None \<Rightarrow> []
             | Some pat \<Rightarrow> [tag @ '' contains dangerous pattern: '' @ repr_str (strip pat)]))
      | _ \<Rightarrow> [tag @ '' must be a string''])"

definition validate_test_strategy :: "pdict \<Rightarrow> string list" where
  "validate_test_strategy payload =
     (case dget payload ''commands'' of
        PList commands \<Rightarrow>
          if commands = [] then [''commands must be non-empty''] else concat (map test_command_reasons (enum commands))
      | _ \<Rightarrow> [''commands must be a list''])"

section \<open>Modes, models, servers, context\<close>

definition valid_session_states :: "string list" where
  "valid_session_states = [''active'', ''closed'', ''paused'']"

definition valid_task_states :: "string list" where
  "valid_task_states = [''cancelled'', ''completed'', ''failed'', ''paused'', ''queued'', ''running'']"

definition validate_session_task_state :: "pdict \<Rightarrow> string list res" where
  "validate_session_task_state payload =
     (let session_state = dget payload ''sessionState''; task_state = dget payload ''taskState'' in
      rapp (choice_if_set session_state valid_session_states
             (must_be_one_of ''Invalid sessionState: '' session_state valid_session_states))
           (choice_if_set task_state valid_task_states
             (must_be_one_of ''Invalid taskState: '' task_state valid_task_states)))"

definition valid_modes :: "string list" where
  "valid_modes = [''clarification'', ''collaboration'', ''direct'', ''queued'', ''supplement'', ''task'']"

definition validate_mode :: "pdict \<Rightarrow> string list res" where
  "validate_mode payload =
     (let mode = dget payload ''mode''; task_state = dget payload ''taskState'' in
      if \<not> truthy mode then Inr []
      else rbind (pin_set mode valid_modes) (\<lambda>ok.
        if \<not> ok then Inr [must_be_one_of ''Invalid mode: '' mode valid_modes]
        else Inr (reason_if (truthy task_state \<and> mode = PStr ''supplement'' \<and> \<not> pin_tuple task_state [''running'', ''paused''])
          ''Supplement mode requires an active or paused task'')))"

definition known_models :: "string list" where
  "known_models = [''claude-sonnet-4-6'', ''claude-opus-4-7'', ''claude-haiku-4-5'', ''gpt-4o'', ''gpt-4o-mini'',
     ''gpt-4-turbo'', ''glm-5.1'', ''glm-4-plus'']"

definition known_providers :: "string list" where
  "known_providers = [''anthropic'', ''openai'', ''zhipu'', ''azure'', ''local'']"

definition validate_model_provider :: "pdict \<Rightarrow> string list res" where
  "validate_model_provider payload =
     (let model = dget payload ''model''; provider = dget payload ''provider''; budget = dget payload ''budget'' in
      rapp (choice_if_set model known_models (''Unknown model: '' @ py_repr model))
      (rapp (choice_if_set provider known_providers (''Unknown provider: '' @ py_repr provider))
        (Inr (reason_if (\<not> is_none budget \<and> (case pnum budget of None \<Rightarrow> True | Some b \<Rightarrow> b < 0))
           ''budget must be a non-negative number''))))"

definition named_entry_reasons :: "string \<Rightarrow> string \<Rightarrow> pv \<Rightarrow> string list" where
  \<comment> \<open>an optional list of objects that all have the given key\<close>
  "named_entry_reasons field key v =
     (case v of
        PNone \<Rightarrow> []
      | PList xs \<Rightarrow> concat (map (\<lambda>(i, x).
          (case x of
             PDict d \<Rightarrow> reason_if (\<not> dhas d key) (at_index field i @ '' missing required field '' @ repr_str key)
           | _ \<Rightarrow> [at_index field i @ '' must be a dict''])) (enum xs))
      | _ \<Rightarrow> [field @ '' must be a list''])"

definition validate_mcp_availability :: "pdict \<Rightarrow> string list" where
  "validate_mcp_availability payload =
     (let server_id = dget payload ''serverId'' in
      if is_none server_id then []
      else if \<not> named server_id then [''serverId must be a non-empty string'']
      else named_entry_reasons ''tools'' ''name'' (dget payload ''tools''))"

definition required_context_sections :: "string list" where
  "required_context_sections = [''system'', ''safety'']"

definition section_names :: "pv list \<Rightarrow> pv list res" where
  "section_names secs =
     rconcat (\<lambda>sec. case sec of
         PDict d \<Rightarrow> if hashable (dget d ''name'') then Inr [dget d ''name''] else Inl TypeErr
       | _ \<Rightarrow> Inr []) secs"

definition validate_context_budget :: "pdict \<Rightarrow> string list res" where
  "validate_context_budget payload =
     (let secs = dget payload ''sections''; token_budget = dget payload ''tokenBudget'' in
      rapp (Inr (named_entry_reasons ''sections'' ''name'' secs))
      (rapp (Inr (reason_if (\<not> is_none token_budget \<and> (case pnum token_budget of None \<Rightarrow> True | Some b \<Rightarrow> b \<le> 0))
               ''tokenBudget must be a positive number''))
        (if truthy secs \<and> is_list secs then
           rbind (section_names (the_list secs)) (\<lambda>names.
             Inr (concat (map (\<lambda>req. reason_if (\<not> py_mem (PStr req) names)
               (''Required context section missing: '' @ repr_str req)) required_context_sections)))
         else Inr [])))"

section \<open>Memory, retries, presentation, roadmap, skills\<close>

definition valid_memory_actions :: "string list" where
  "valid_memory_actions = [''extract'', ''invalidate'', ''recall'', ''update'']"

definition validate_memory_source :: "pdict \<Rightarrow> string list res" where
  "validate_memory_source payload =
     (let action = dget payload ''action'' in
      if \<not> truthy action then Inr []
      else rapp (choice action valid_memory_actions (must_be_one_of ''Invalid memory action: '' action valid_memory_actions))
        (Inr (case dget payload ''sourceIds'' of
            PNone \<Rightarrow> []
          | PList sids \<Rightarrow> concat (map (\<lambda>(i, sid). reason_if (\<not> named sid)
              (at_index ''sourceIds'' i @ '' must be a non-empty string'')) (enum sids))
          | _ \<Rightarrow> [''sourceIds must be a list''])))"

definition valid_strategies :: "string list" where
  "valid_strategies = [''abort'', ''ask_user'', ''ask_user_or_change_request'', ''compact_or_split_context'', ''fallback'',
     ''fix_provider_api_format'', ''fix_provider_credentials'', ''fix_provider_request'', ''inspect_provider_response'',
     ''retry'', ''retry_with_backoff'', ''skip'', ''surface_error'']"

definition validate_retry_budget :: "pdict \<Rightarrow> string list res" where
  "validate_retry_budget payload =
     (let max_retries = dget payload ''maxRetries''; retry_delay = dget payload ''retryDelayMs'';
          strategy = dget payload ''strategy''
      in rapp (Inr (if is_none max_retries then []
                else if \<not> is_int max_retries \<or> the (pnum max_retries) < 0
                  then [''maxRetries must be a non-negative integer'']
                else reason_if (the (pnum max_retries) > 10) ''maxRetries must not exceed 10''))
        (rapp (Inr (reason_if (\<not> is_none retry_delay \<and> (case pnum retry_delay of None \<Rightarrow> True | Some d \<Rightarrow> d < 0))
               ''retryDelayMs must be a non-negative number''))
          (if is_none strategy then Inr []
           else choice strategy valid_strategies (must_be_one_of ''Invalid recovery strategy: '' strategy valid_strategies))))"

definition valid_visibilities :: "string list" where
  "valid_visibilities = [''chat'', ''panel'', ''trace'']"

definition validate_frontend_visibility :: "pdict \<Rightarrow> string list res" where
  "validate_frontend_visibility payload =
     (let visibility = dget payload ''visibility'' in
      rapp (choice_if_set visibility valid_visibilities (must_be_one_of ''Invalid visibility: '' visibility valid_visibilities))
        (Inr (named_entry_reasons ''grouping'' ''label'' (dget payload ''grouping''))))"

definition roadmap_actions :: "string list" where
  "roadmap_actions = [''add'', ''check'', ''remove'', ''reorder'', ''update_status'']"

definition validate_roadmap_edit :: "pdict \<Rightarrow> string list res" where
  "validate_roadmap_edit payload =
     (case dget payload ''updates'' of
        PList updates \<Rightarrow>
          if updates = [] then Inr [''updates must be non-empty'']
          else rapp (rconcat (\<lambda>(i, upd). case upd of
                 PDict d \<Rightarrow> choice_if_set (dget d ''action'') roadmap_actions
                   (must_be_one_of (at_index ''updates'' i @ '' invalid action: '') (dget d ''action'') roadmap_actions)
               | _ \<Rightarrow> Inr [at_index ''updates'' i @ '' must be a dict'']) (enum updates))
             (Inr (reason_if (\<not> truthy (dget_or payload ''requiresApproval'' (PBool True)))
               ''Roadmap edits must require approval''))
      | _ \<Rightarrow> Inr [''updates must be a list''])"

definition proposed_skills :: "pdict \<Rightarrow> pv list" where
  "proposed_skills payload =
     (let skill_id = por (dget payload ''skillId'') (dget payload ''skill_id'') in
      the_list (dget payload ''skills'') @ (if named skill_id then [PStr (strip (the_str skill_id))] else []))"

definition skill_reasons :: "(pv \<Rightarrow> string res) \<Rightarrow> pv list \<Rightarrow> pv \<Rightarrow> string list res" where
  \<comment> \<open>\<open>set(allowed)\<close>, then one test per proposed string; printing the message may raise too\<close>
  "skill_reasons msg items allowed =
     (case allowed of
        PList xs \<Rightarrow> if \<forall>x \<in> set xs. hashable x
                   then rconcat (\<lambda>s. if is_str s \<and> \<not> py_mem s xs then rbind (msg s) (\<lambda>m. Inr [m]) else Inr []) items
                   else Inl TypeErr
      | _ \<Rightarrow> Inr [])"

definition validate_skill_availability :: "pdict \<Rightarrow> string list res" where
  "validate_skill_availability payload =
     (if proposed_skills payload = [] then Inr []
      else skill_reasons (\<lambda>s. Inr (''Skill '' @ py_repr s @ '' is not installed''))
        (proposed_skills payload) (dget payload ''installedSkills''))"

fun py_distinct :: "pv list \<Rightarrow> pv list \<Rightarrow> pv list" where
  \<comment> \<open>the elements of \<open>set(xs)\<close>; equal values count once\<close>
  "py_distinct seen [] = []"
| "py_distinct seen (x # xs) = (if py_mem x seen then py_distinct seen xs else x # py_distinct (x # seen) xs)"

definition py_sorted_set :: "pv list \<Rightarrow> pv list res" where
  \<comment> \<open>\<open>sorted(set(xs))\<close>: strings compare with strings, numbers with numbers\<close>
  "py_sorted_set xs =
     (let ys = py_distinct [] xs in
      if length ys \<le> 1 then Inr ys
      else if list_all is_str ys then Inr (map PStr (sort (map the_str ys)))
      else if list_all (\<lambda>y. pnum y \<noteq> None) ys then Inr (sort_key (\<lambda>y. the (pnum y)) ys)
      else Inl TypeErr)"

definition validate_skill_root_allowlist :: "pdict \<Rightarrow> string list res" where
  "validate_skill_root_allowlist payload =
     (if dget_or payload ''role'' (PStr ''root'') \<noteq> PStr ''root'' then Inr []
      else if proposed_skills payload = [] then Inr []
      else skill_reasons (\<lambda>s. rbind (py_sorted_set (the_list (dget payload ''rootAllowedSkills''))) (\<lambda>sorted_set.
             Inr (''Skill '' @ py_repr s @ '' is not allowed for root agent. Allowed: '' @ py_repr (PList sorted_set))))
        (proposed_skills payload) (dget payload ''rootAllowedSkills''))"

section \<open>What acceptance means\<close>

lemma tool_policy_accepted:
  assumes "validate_tool_allowlist p = []" "validate_no_unsafe_tools p = []"
  shows "is_list (dget_or p ''allowedTools'' (PList [])) \<and>
    (\<forall>t \<in> set (the_list (dget_or p ''allowedTools'' (PList []))).
       resolve_tool_alias (py_str t) \<in> set safe_builtin_tools \<and> resolve_tool_alias (py_str t) \<notin> set unsafe_tools)"
  using assms by (cases "dget_or p ''allowedTools'' (PList [])")
    (simp_all add: validate_tool_allowlist_def validate_no_unsafe_tools_def Let_def)

lemma test_command_accepted:
  assumes "test_command_reasons (i, cmd) = []"
  shows "\<exists>s. cmd = PStr s \<and> strip (lower s) \<noteq> '''' \<and>
    (\<forall>pat \<in> set dangerous_test_patterns. \<not> has_sub pat (strip (lower s)))"
  using assms by (cases cmd) (auto simp: test_command_reasons_def Let_def find_None_iff split: if_splits option.splits)

lemma test_strategy_accepted:
  assumes "validate_test_strategy p = []"
  shows "\<exists>cmds. dget p ''commands'' = PList cmds \<and> cmds \<noteq> [] \<and> (\<forall>cmd \<in> set cmds. \<exists>s. cmd = PStr s \<and> strip (lower s) \<noteq> '''' \<and>
    (\<forall>pat \<in> set dangerous_test_patterns. \<not> has_sub pat (strip (lower s))))"
proof (cases "dget p ''commands''")
  case (PList cmds)
  with assms have "cmds \<noteq> []" "\<forall>t \<in> set (enum cmds). test_command_reasons t = []"
    by (simp_all add: validate_test_strategy_def split: if_splits)
  then show ?thesis using PList in_enum test_command_accepted by (metis pv.inject(6))
qed (use assms in \<open>simp_all add: validate_test_strategy_def\<close>)

lemma risk_policy_accepted:
  assumes "validate_risk_policy p = Inr []"
  shows "\<not> truthy (dget p ''riskLevel'') \<or> (\<exists>r \<in> set valid_risk_levels. dget p ''riskLevel'' = PStr r \<and>
    (\<forall>g \<in> set (the (map_of risk_approval_requirements r)). py_mem (PStr g) (the_list (dget_or p ''approvalGates'' (PList [])))))"
proof (cases "truthy (dget p ''riskLevel'')")
  case True
  with assms obtain ok where ok: "pin_set (dget p ''riskLevel'') valid_risk_levels = Inr ok" "ok"
    by (auto simp: validate_risk_policy_def Let_def rbind_eq_Inr split: if_splits)
  then obtain r where r: "r \<in> set valid_risk_levels" "dget p ''riskLevel'' = PStr r" by (auto simp: pin_set_True)
  from r(1) obtain gs where gs: "map_of risk_approval_requirements r = Some gs"
    by (auto simp: valid_risk_levels_def risk_approval_requirements_def)
  have "concat (map (\<lambda>gate. reason_if (\<not> py_mem (PStr gate) (the_list (dget_or p ''approvalGates'' (PList []))))
               (''Risk level '' @ py_repr (PStr r) @ '' requires approval gate '' @ repr_str gate @
                '' but it is not specified'')) gs) = []"
    using assms True r gs by (simp add: validate_risk_policy_def Let_def)
  then show ?thesis using r gs by simp
qed simp

lemma retry_budget_accepted:
  assumes "validate_retry_budget p = Inr []"
  shows "(dget p ''maxRetries'' = PNone \<or> (\<exists>n. pnum (dget p ''maxRetries'') = Some n \<and> 0 \<le> n \<and> n \<le> 10)) \<and>
    (dget p ''retryDelayMs'' = PNone \<or> (\<exists>d. pnum (dget p ''retryDelayMs'') = Some d \<and> 0 \<le> d)) \<and>
    (dget p ''strategy'' = PNone \<or> (\<exists>s \<in> set valid_strategies. dget p ''strategy'' = PStr s))"
proof (intro conjI)
  show "dget p ''maxRetries'' = PNone \<or> (\<exists>n. pnum (dget p ''maxRetries'') = Some n \<and> 0 \<le> n \<and> n \<le> 10)"
    using assms by (cases "dget p ''maxRetries''")
      (simp_all add: validate_retry_budget_def Let_def is_none_def not_less not_le split: if_splits)
  show "dget p ''retryDelayMs'' = PNone \<or> (\<exists>d. pnum (dget p ''retryDelayMs'') = Some d \<and> 0 \<le> d)"
    using assms by (cases "dget p ''retryDelayMs''")
      (simp_all add: validate_retry_budget_def Let_def is_none_def not_less split: if_splits)
  show "dget p ''strategy'' = PNone \<or> (\<exists>s \<in> set valid_strategies. dget p ''strategy'' = PStr s)"
    using assms by (simp add: validate_retry_budget_def Let_def is_none_def split: if_splits)
qed

end
