(* ===== verification/Proposal.thy ===== *)
theory Proposal
  imports ProposalGraph ProposalPayload
begin

text \<open>
  The composite validator \<open>validate_proposal\<close> (\<open>policy/proposal_validator.py\<close>), what an accepted
  proposal of each kind guarantees, and the exceptions that the validator lets through.
\<close>

definition kind_reasons :: "string \<Rightarrow> pdict \<Rightarrow> string list res" where
  \<comment> \<open>the validators that run for a kind, in the order of the code\<close>
  "kind_reasons kind p =
     (if kind = ''tool_policy'' then Inr (validate_tool_allowlist p @ validate_no_unsafe_tools p)
      else if kind = ''decomposition'' then
        (let subtasks = dget_or p ''subtasks'' (PList []) in
         rapp (validate_dependency_graph subtasks) (Inr (validate_write_scopes subtasks)))
      else if kind = ''artifact_contract'' then validate_artifact_contract p
      else if kind = ''risk_policy'' then validate_risk_policy p
      else if kind = ''approval_policy'' then validate_approval_gates p
      else if kind = ''test_strategy'' then Inr (validate_test_strategy p)
      else if kind = ''intent_mode'' then rapp (validate_mode p) (validate_session_task_state p)
      else if kind = ''model_policy'' then validate_model_provider p
      else if kind = ''mcp_policy'' then Inr (validate_mcp_availability p)
      else if kind = ''context_policy'' then validate_context_budget p
      else if kind = ''memory_policy'' then validate_memory_source p
      else if kind = ''failure_recovery'' then validate_retry_budget p
      else if kind = ''provider_preflight'' then validate_provider_preflight p
      else if kind = ''event_presentation'' then validate_frontend_visibility p
      else if kind = ''todo_maintenance'' then validate_roadmap_edit p
      else if kind = ''completion_decision'' then Inr (validate_completion_decision p)
      else if kind = ''product_surface_decision'' then Inr (validate_product_surface_decision p)
      else if kind = ''user_takeover'' then validate_user_takeover p
      else if kind = ''tool_recovery'' then validate_tool_recovery p
      else if kind = ''budget_convergence'' then validate_budget_convergence p
      else if kind = ''skill_policy'' then rapp (validate_skill_availability p) (validate_skill_root_allowlist p)
      else Inr [])"

definition validate_proposal :: "string \<Rightarrow> pdict \<Rightarrow> string list res" where
  "validate_proposal kind payload = rapp (Inr (validate_proposal_schema kind payload)) (kind_reasons kind payload)"

section \<open>Acceptance\<close>

lemma schema_accepted:
  assumes "validate_proposal_schema kind p = []"
  shows "\<exists>fs. map_of required_fields_by_kind kind = Some fs \<and> (\<forall>f \<in> set fs. dhas p f)"
  using assms by (cases "map_of required_fields_by_kind kind") (simp_all add: validate_proposal_schema_def)

lemma schema_field:
  "validate_proposal_schema kind p = [] \<Longrightarrow> map_of required_fields_by_kind kind = Some fs \<Longrightarrow> f \<in> set fs \<Longrightarrow> dhas p f"
  using schema_accepted by fastforce

lemma decomposition_subtasks:
  assumes "validate_dependency_graph v = Inr []"
  obtains ts where "v = PList ts"
  using assms by (cases v) (auto simp: validate_dependency_graph_def)

lemma roadmap_accepted: "validate_roadmap_edit p = Inr [] \<Longrightarrow> truthy (dget_or p ''requiresApproval'' (PBool True))"
  by (auto simp: validate_roadmap_edit_def split: pv.splits if_splits)

text \<open>
  An accepted proposal has a known kind and all its required fields. An accepted
  decomposition passes the dependency and scope checks; an accepted tool policy names only
  safe built-in tools and never the tools that start agents; an accepted risk policy of level
  critical asks for both the reviewer and the verifier; the commands of an accepted test
  strategy are non-empty texts without a dangerous pattern; an accepted recovery proposal asks
  for at most ten retries; and an accepted roadmap edit asks for approval.
\<close>

theorem proposal_accepted:
  assumes "validate_proposal kind p = Inr []"
  shows "(\<exists>fs. map_of required_fields_by_kind kind = Some fs \<and> (\<forall>f \<in> set fs. dhas p f)) \<and>
    (kind = ''decomposition'' \<longrightarrow> (\<exists>ts. dget p ''subtasks'' = PList ts \<and>
       validate_dependency_graph (PList ts) = Inr [] \<and> validate_write_scopes (PList ts) = [])) \<and>
    (kind = ''tool_policy'' \<longrightarrow> (\<forall>t \<in> set (the_list (dget p ''allowedTools'')).
       resolve_tool_alias (py_str t) \<in> set safe_builtin_tools \<and> resolve_tool_alias (py_str t) \<notin> set unsafe_tools)) \<and>
    (kind = ''risk_policy'' \<and> dget p ''riskLevel'' = PStr ''critical'' \<longrightarrow>
       py_mem (PStr ''reviewer'') (the_list (dget p ''approvalGates'')) \<and>
       py_mem (PStr ''verifier'') (the_list (dget p ''approvalGates''))) \<and>
    (kind = ''test_strategy'' \<longrightarrow> (\<exists>cmds. dget p ''commands'' = PList cmds \<and> cmds \<noteq> [] \<and>
       (\<forall>cmd \<in> set cmds. \<exists>s. cmd = PStr s \<and> strip (lower s) \<noteq> '''' \<and>
          (\<forall>pat \<in> set dangerous_test_patterns. \<not> has_sub pat (strip (lower s)))))) \<and>
    (kind = ''failure_recovery'' \<and> dget p ''maxRetries'' \<noteq> PNone \<longrightarrow>
       (\<exists>n. pnum (dget p ''maxRetries'') = Some n \<and> 0 \<le> n \<and> n \<le> 10)) \<and>
    (kind = ''todo_maintenance'' \<longrightarrow> truthy (dget_or p ''requiresApproval'' (PBool True)))"
proof (intro conjI impI)
  have s: "validate_proposal_schema kind p = []" and k: "kind_reasons kind p = Inr []"
    using assms by (auto simp: validate_proposal_def rapp_def rbind_eq_Inr)
  show "\<exists>fs. map_of required_fields_by_kind kind = Some fs \<and> (\<forall>f \<in> set fs. dhas p f)"
    using s by (rule schema_accepted)
  {
    assume "kind = ''decomposition''"
    then have d: "validate_dependency_graph (dget_or p ''subtasks'' (PList [])) = Inr []"
      "validate_write_scopes (dget_or p ''subtasks'' (PList [])) = []" "dhas p ''subtasks''"
      using k schema_field [OF s, of "[''subtasks'']"] by (simp_all add: kind_reasons_def Let_def required_fields_by_kind_def)
    from d(3) have "dget_or p ''subtasks'' (PList []) = dget p ''subtasks''"
      by (auto simp: dhas_def dget_or_def dget_def)
    moreover from d(1) obtain ts where "dget_or p ''subtasks'' (PList []) = PList ts" by (rule decomposition_subtasks)
    ultimately show "\<exists>ts. dget p ''subtasks'' = PList ts \<and> validate_dependency_graph (PList ts) = Inr [] \<and>
        validate_write_scopes (PList ts) = []" using d by metis
  next
    assume "kind = ''tool_policy''"
    then have t: "validate_tool_allowlist p = []" "validate_no_unsafe_tools p = []" "dhas p ''allowedTools''"
      using k schema_field [OF s, of "[''allowedTools'']"] by (simp_all add: kind_reasons_def required_fields_by_kind_def)
    from t(3) have "dget_or p ''allowedTools'' (PList []) = dget p ''allowedTools''"
      by (auto simp: dhas_def dget_or_def dget_def)
    with tool_policy_accepted [OF t(1,2)] show "\<forall>t \<in> set (the_list (dget p ''allowedTools'')).
       resolve_tool_alias (py_str t) \<in> set safe_builtin_tools \<and> resolve_tool_alias (py_str t) \<notin> set unsafe_tools"
      by simp
  next
    assume "kind = ''risk_policy'' \<and> dget p ''riskLevel'' = PStr ''critical''"
    then have r: "validate_risk_policy p = Inr []" "dget p ''riskLevel'' = PStr ''critical''"
      using k by (simp_all add: kind_reasons_def)
    have "the_list (dget_or p ''approvalGates'' (PList [])) = the_list (dget p ''approvalGates'')"
      by (simp add: dget_or_def dget_def split: option.split)
    with risk_policy_accepted [OF r(1)] r(2)
    show "py_mem (PStr ''reviewer'') (the_list (dget p ''approvalGates''))"
      "py_mem (PStr ''verifier'') (the_list (dget p ''approvalGates''))"
      by (simp_all add: risk_approval_requirements_def)
  next
    assume "kind = ''test_strategy''"
    then have "validate_test_strategy p = []" using k by (simp add: kind_reasons_def)
    then show "\<exists>cmds. dget p ''commands'' = PList cmds \<and> cmds \<noteq> [] \<and>
       (\<forall>cmd \<in> set cmds. \<exists>s. cmd = PStr s \<and> strip (lower s) \<noteq> '''' \<and>
          (\<forall>pat \<in> set dangerous_test_patterns. \<not> has_sub pat (strip (lower s))))" by (rule test_strategy_accepted)
  next
    assume f: "kind = ''failure_recovery'' \<and> dget p ''maxRetries'' \<noteq> PNone"
    then have "validate_retry_budget p = Inr []" using k by (simp add: kind_reasons_def)
    with f retry_budget_accepted show "\<exists>n. pnum (dget p ''maxRetries'') = Some n \<and> 0 \<le> n \<and> n \<le> 10" by blast
  next
    assume "kind = ''todo_maintenance''"
    then have "validate_roadmap_edit p = Inr []" using k by (simp add: kind_reasons_def)
    then show "truthy (dget_or p ''requiresApproval'' (PBool True))" by (rule roadmap_accepted)
  }
qed

lemma proposal_accepted_witness:
  "validate_proposal ''risk_policy'' [(''riskLevel'', PStr ''critical''), (''approvalGates'', PList [PStr ''verifier'', PStr ''reviewer''])] = Inr [] \<and>
   py_mem (PStr ''reviewer'') [PStr ''verifier'', PStr ''reviewer'']"
proof -
  have e: "validate_proposal ''risk_policy'' [(''riskLevel'', PStr ''critical''),
      (''approvalGates'', PList [PStr ''verifier'', PStr ''reviewer''])] = Inr []" by code_simp
  show ?thesis using proposal_accepted [OF e] e by (simp add: dget_def)
qed

section \<open>Exceptions\<close>

definition type_errors :: "'a res \<Rightarrow> bool" where
  "type_errors m \<longleftrightarrow> (\<forall>e. m = Inl e \<longrightarrow> e = TypeErr)"

named_theorems type_error_intros \<open>functions that raise nothing but a type error\<close>

lemma type_errors_basic [type_error_intros, simp]:
  "type_errors (Inr x)" "type_errors (Inl TypeErr)" "type_errors (pin_set v ss)" "type_errors (pin v w)"
  by (auto simp: type_errors_def pin_set_def pin_def split: pv.splits if_splits)

lemma type_errors_rbind [type_error_intros]:
  "type_errors m \<Longrightarrow> (\<And>x. m = Inr x \<Longrightarrow> type_errors (f x)) \<Longrightarrow> type_errors (rbind m f)"
  by (auto simp: type_errors_def rbind_eq_Inl)

lemma type_errors_rapp [type_error_intros]: "type_errors a \<Longrightarrow> type_errors b \<Longrightarrow> type_errors (rapp a b)"
  by (auto simp: rapp_def intro!: type_error_intros)

lemma type_errors_rconcat [type_error_intros]: "(\<And>x. x \<in> set xs \<Longrightarrow> type_errors (f x)) \<Longrightarrow> type_errors (rconcat f xs)"
  by (induction xs) (auto intro!: type_error_intros)

lemma type_errors_if [type_error_intros]:
  "(b \<Longrightarrow> type_errors m) \<Longrightarrow> (\<not> b \<Longrightarrow> type_errors n) \<Longrightarrow> type_errors (if b then m else n)"
  by simp

lemma type_errors_case [type_error_intros]:
  assumes "type_errors a" "\<And>b. type_errors (f1 b)" "\<And>i. type_errors (f2 i)" "\<And>r s. type_errors (f3 r s)"
    "\<And>s. type_errors (f4 s)" "\<And>xs. type_errors (f5 xs)" "\<And>d. type_errors (f6 d)"
  shows "type_errors (case v of PNone \<Rightarrow> a | PBool b \<Rightarrow> f1 b | PInt i \<Rightarrow> f2 i | PFloat r s \<Rightarrow> f3 r s
    | PStr s \<Rightarrow> f4 s | PList xs \<Rightarrow> f5 xs | PDict d \<Rightarrow> f6 d)"
  using assms by (cases v) auto

lemma type_errors_pair [type_error_intros]: "(\<And>a b. t = (a, b) \<Longrightarrow> type_errors (f a b)) \<Longrightarrow> type_errors (case t of (a, b) \<Rightarrow> f a b)"
  by (cases t) auto

lemma type_errors_choice [type_error_intros]:
  "type_errors (choice v valid msg)" "type_errors (choice_if_set v valid msg)"
  unfolding choice_def choice_if_set_def by (intro type_error_intros)+

lemma kind_type_errors [type_error_intros]:
  "type_errors (validate_dependency_graph v)"
  "type_errors (validate_artifact_contract p)" "type_errors (validate_risk_policy p)"
  "type_errors (validate_approval_gates p)" "type_errors (validate_mode p)"
  "type_errors (validate_session_task_state p)" "type_errors (validate_model_provider p)"
  "type_errors (validate_context_budget p)" "type_errors (validate_memory_source p)"
  "type_errors (validate_retry_budget p)" "type_errors (validate_provider_preflight p)"
  "type_errors (validate_frontend_visibility p)" "type_errors (validate_roadmap_edit p)"
  "type_errors (validate_user_takeover p)" "type_errors (validate_tool_recovery p)"
  "type_errors (validate_budget_convergence p)" "type_errors (validate_skill_availability p)"
  "type_errors (validate_skill_root_allowlist p)"
  unfolding validate_dependency_graph_def collect_ids_def unknown_dep_reasons_def self_dep_reasons_def
    validate_artifact_contract_def validate_risk_policy_def validate_approval_gates_def gate_type_reasons_def
    validate_mode_def validate_session_task_state_def validate_model_provider_def validate_context_budget_def
    section_names_def validate_memory_source_def validate_retry_budget_def validate_provider_preflight_def
    validate_frontend_visibility_def validate_roadmap_edit_def validate_user_takeover_def validate_tool_recovery_def
    validate_budget_convergence_def validate_skill_availability_def validate_skill_root_allowlist_def
    skill_reasons_def py_sorted_set_def Let_def
  by (intro type_error_intros)+
lemma kind_reasons_type_errors: "type_errors (kind_reasons kind p)"
  unfolding kind_reasons_def Let_def by (intro type_error_intros)

definition scalar_payload :: "pdict \<Rightarrow> bool" where
  \<comment> \<open>no value of the payload is a list or an object\<close>
  "scalar_payload p \<longleftrightarrow> list_all (hashable \<circ> snd) p"

lemma scalar_dget: "scalar_payload p \<Longrightarrow> hashable (dget p k)"
  by (auto simp: scalar_payload_def dget_def list_all_iff dest!: map_of_SomeD split: option.split)

definition total :: "'a res \<Rightarrow> bool" where
  "total m \<longleftrightarrow> (\<exists>x. m = Inr x)"

named_theorems total_intros \<open>functions that return\<close>

lemma total_basic [total_intros, simp]: "total (Inr x)"
  by (simp add: total_def)

lemma total_rbind [total_intros]: "total m \<Longrightarrow> (\<And>x. m = Inr x \<Longrightarrow> total (f x)) \<Longrightarrow> total (rbind m f)"
  by (auto simp: total_def)

lemma total_rapp [total_intros]: "total a \<Longrightarrow> total b \<Longrightarrow> total (rapp a b)"
  by (auto simp: rapp_def intro!: total_intros)

lemma total_if [total_intros]: "(b \<Longrightarrow> total m) \<Longrightarrow> (\<not> b \<Longrightarrow> total n) \<Longrightarrow> total (if b then m else n)"
  by simp

lemma total_choice: "hashable v \<Longrightarrow> total (choice v valid msg)" "hashable v \<Longrightarrow> total (choice_if_set v valid msg)"
  by (auto simp: choice_def choice_if_set_def pin_set_def total_def)

lemma total_pin_set: "hashable v \<Longrightarrow> total (pin_set v ss)"
  by (simp add: pin_set_def total_def)

lemma scalar_case:
  assumes "hashable v"
  shows "(case v of PList xs \<Rightarrow> f xs | _ \<Rightarrow> y) = y"
  using assms by (cases v) auto

lemma scalar_dget_or: "scalar_payload p \<Longrightarrow> hashable v0 \<Longrightarrow> hashable (dget_or p k v0)"
  by (auto simp: scalar_payload_def dget_or_def list_all_iff dest!: map_of_SomeD split: option.split)

lemma hashable_not_list: "hashable v \<Longrightarrow> \<not> is_list v"
  by (cases v) auto

lemma kind_total:
  assumes s: "scalar_payload p"
  shows "total (validate_artifact_contract p)" "total (validate_risk_policy p)" "total (validate_approval_gates p)"
    "total (validate_mode p)" "total (validate_session_task_state p)" "total (validate_model_provider p)"
    "total (validate_context_budget p)" "total (validate_memory_source p)" "total (validate_retry_budget p)"
    "total (validate_provider_preflight p)" "total (validate_frontend_visibility p)" "total (validate_roadmap_edit p)"
    "total (validate_user_takeover p)" "total (validate_tool_recovery p)" "total (validate_budget_convergence p)"
    "total (validate_skill_availability p)" "total (validate_skill_root_allowlist p)"
  unfolding validate_artifact_contract_def validate_risk_policy_def validate_approval_gates_def
    validate_mode_def validate_session_task_state_def validate_model_provider_def validate_context_budget_def
    validate_memory_source_def validate_retry_budget_def validate_provider_preflight_def
    validate_frontend_visibility_def validate_roadmap_edit_def validate_user_takeover_def validate_tool_recovery_def
    validate_budget_convergence_def validate_skill_availability_def validate_skill_root_allowlist_def
    skill_reasons_def Let_def scalar_case [OF scalar_dget [OF s]]
  by (intro total_intros total_choice total_pin_set scalar_dget s;
      simp add: hashable_not_list [OF scalar_dget [OF s]])+

text \<open>
  The only exception that the composite validator raises is \<open>TypeError\<close>, and a payload
  without lists and objects never makes it raise. A list where a string is expected does: the
  module promises a list of rejection reasons, and raises instead on this malformed proposal.
\<close>

theorem proposal_exceptions:
  "(validate_proposal kind p = Inl e \<longrightarrow> e = TypeErr) \<and>
   (scalar_payload p \<longrightarrow> (\<exists>rs. validate_proposal kind p = Inr rs)) \<and>
   validate_proposal ''intent_mode'' [(''mode'', PList [PStr ''task''])] = Inl TypeErr"
proof (intro conjI impI)
  assume "validate_proposal kind p = Inl e"
  then have "kind_reasons kind p = Inl e" by (auto simp: validate_proposal_def rapp_def rbind_eq_Inl)
  then show "e = TypeErr" using kind_reasons_type_errors [of kind p] by (simp add: type_errors_def)
next
  assume s: "scalar_payload p"
  have "total (kind_reasons kind p)"
  proof (cases "dhas p ''subtasks''")
    case True
    then have "hashable (dget_or p ''subtasks'' (PList []))"
      using scalar_dget [OF s, of "''subtasks''"] by (auto simp: dhas_def dget_or_def dget_def)
    then have "total (validate_dependency_graph (dget_or p ''subtasks'' (PList [])))"
      by (simp add: validate_dependency_graph_def scalar_case)
    then show ?thesis unfolding kind_reasons_def Let_def by (intro total_intros kind_total s)
  next
    case False
    then have "dget_or p ''subtasks'' (PList []) = PList []" by (simp add: dhas_def dget_or_def)
    moreover have "total (validate_dependency_graph (PList []))"
      by (simp add: validate_dependency_graph_def collect_ids_def enum_def)
    ultimately show ?thesis unfolding kind_reasons_def Let_def by (intro total_intros kind_total s) simp
  qed
  then show "\<exists>rs. validate_proposal kind p = Inr rs" by (auto simp: validate_proposal_def rapp_def total_def)
next
  show "validate_proposal ''intent_mode'' [(''mode'', PList [PStr ''task''])] = Inl TypeErr" by code_simp
qed

lemma proposal_exceptions_witness:
  "scalar_payload [(''mode'', PStr ''nonsense'')] \<and>
   (\<exists>rs. validate_proposal ''intent_mode'' [(''mode'', PStr ''nonsense'')] = Inr rs)"
proof -
  have s: "scalar_payload [(''mode'', PStr ''nonsense'')]" by (simp add: scalar_payload_def)
  with proposal_exceptions [of "''intent_mode''" "[(''mode'', PStr ''nonsense'')]" TypeErr] show ?thesis by blast
qed

end
