(* ===== verification/Permission.thy ===== *)
theory Permission
  imports TextMatch "HOL-Library.List_Lexorder" "HOL-Library.Char_ord"
begin

text \<open>
  Permissions: the presets (\<open>policy/presets.py\<close>), the normalisation of the configuration
  (\<open>policy/config_normalizer.py\<close>) and the engine that decides every tool call
  (\<open>policy/permission_engine.py\<close>). The store behind the engine is a parameter: what
  \<open>get_config\<close> returned for one call, or \<open>None\<close> when there is no store, the call raised, or it
  returned no configuration.
\<close>

section \<open>Presets\<close>

definition rule_of :: "string \<Rightarrow> pv" where
  "rule_of mode = PDict [(''mode'', PStr mode), (''scope'', PStr ''*'')]"

definition safe_preset :: pdict where
  "safe_preset =
     [(''readFile'', rule_of ''allow''), (''writeFile'', rule_of ''ask''), (''runCommand'', rule_of ''ask''),
      (''webFetch'', rule_of ''blocked''), (''network'', rule_of ''blocked''), (''subagents'', rule_of ''ask''),
      (''memoryWrite'', rule_of ''allow''), (''gitWrite'', rule_of ''ask''), (''browserAutomation'', rule_of ''blocked''),
      (''computerUse'', rule_of ''ask''), (''hooksExecute'', rule_of ''ask'')]"

definition balanced_preset :: pdict where
  "balanced_preset =
     [(''readFile'', rule_of ''allow''), (''writeFile'', rule_of ''ask''), (''runCommand'', rule_of ''ask''),
      (''webFetch'', rule_of ''ask''), (''network'', rule_of ''blocked''), (''subagents'', rule_of ''ask''),
      (''memoryWrite'', rule_of ''allow''), (''gitWrite'', rule_of ''ask''), (''browserAutomation'', rule_of ''blocked''),
      (''computerUse'', rule_of ''ask''), (''hooksExecute'', rule_of ''ask'')]"

definition autonomous_preset :: pdict where
  "autonomous_preset =
     [(''readFile'', rule_of ''allow''), (''writeFile'', rule_of ''allow''), (''runCommand'', rule_of ''ask''),
      (''webFetch'', rule_of ''ask''), (''network'', rule_of ''ask''), (''subagents'', rule_of ''allow''),
      (''memoryWrite'', rule_of ''allow''), (''gitWrite'', rule_of ''ask''), (''browserAutomation'', rule_of ''blocked''),
      (''computerUse'', rule_of ''ask''), (''hooksExecute'', rule_of ''ask'')]"

definition presets :: "(string \<times> pdict) list" where
  "presets = [(''safe'', safe_preset), (''balanced'', balanced_preset), (''autonomous'', autonomous_preset)]"

definition rule_dict :: "pv \<Rightarrow> pdict res" where
  \<comment> \<open>\<open>dict(_RULE(rule))\<close> for a string, \<open>dict(rule)\<close> otherwise; a non-empty list of pairs, which
    \<open>dict\<close> would accept too, is outside the configuration format and treated as malformed\<close>
  "rule_dict rule =
     (case rule of
        PStr mode \<Rightarrow> Inr (the_dict (rule_of mode))
      | PDict d \<Rightarrow> Inr d
      | PList [] \<Rightarrow> Inr []
      | PList _ \<Rightarrow> Inl ValueErr
      | _ \<Rightarrow> Inl TypeErr)"

definition override_step :: "string \<times> pv \<Rightarrow> pdict \<Rightarrow> pdict res" where
  "override_step e capabilities = rbind (rule_dict (snd e)) (\<lambda>d. Inr (dput (fst e) (PDict d) capabilities))"

definition preset_to_config :: "pv \<Rightarrow> pdict \<Rightarrow> (pv \<times> pdict) res" where
  \<comment> \<open>the returned \<open>preset\<close> and \<open>capabilities\<close>; no overrides and \<open>None\<close> are treated alike\<close>
  "preset_to_config preset_name overrides =
     (if \<not> hashable preset_name then Inl TypeErr
      else case map_of presets (the_str preset_name) of
          None \<Rightarrow> Inl ValueErr
        | Some base \<Rightarrow> rbind (rfold override_step overrides base) (\<lambda>capabilities. Inr (preset_name, capabilities)))"

section \<open>Normalisation of the configuration\<close>

definition capability_aliases :: "(string \<times> string) list" where
  "capability_aliases =
     [(''fileWrite'', ''writeFile''), (''file_write'', ''writeFile''), (''write_file'', ''writeFile''),
      (''shell'', ''runCommand''), (''run_command'', ''runCommand''), (''command'', ''runCommand''),
      (''web_fetch'', ''webFetch''), (''browser'', ''browserAutomation''), (''browser_automation'', ''browserAutomation''),
      (''computer_use'', ''computerUse''), (''git_write'', ''gitWrite''), (''hooks_execute'', ''hooksExecute''),
      (''memory_write'', ''memoryWrite'')]"

definition canonical_capability :: "string \<Rightarrow> string" where
  "canonical_capability k = (case map_of capability_aliases k of None \<Rightarrow> k | Some c \<Rightarrow> c)"

definition capability_override_step :: "pdict \<Rightarrow> string \<times> pv \<Rightarrow> pdict \<Rightarrow> pdict" where
  "capability_override_step caps e normalized =
     (let key = strip (fst e); canonical = canonical_capability key in
      if key = '''' then normalized
      else if canonical \<noteq> key \<and> dhas caps canonical then normalized
      else dput canonical (snd e) normalized)"

definition normalize_capability_overrides :: "pv \<Rightarrow> pdict" where
  "normalize_capability_overrides caps =
     (case caps of PDict d \<Rightarrow> fold (capability_override_step d) d [] | _ \<Rightarrow> [])"

fun find_profile :: "pv list \<Rightarrow> pv \<Rightarrow> pdict option res" where
  "find_profile [] profile_id = Inr None"
| "find_profile (p # ps) profile_id =
     (case p of
        PDict d \<Rightarrow> if py_eq (dget d ''id'') profile_id then Inr (Some d) else find_profile ps profile_id
      | _ \<Rightarrow> Inl AttrErr)"

definition map_tri_state :: "pdict \<Rightarrow> string \<Rightarrow> string \<Rightarrow> pdict \<Rightarrow> pdict" where
  "map_tri_state profile profile_key capability overrides =
     (case dget profile profile_key of
        PBool b \<Rightarrow> dput capability (rule_of (if b then ''allow'' else ''blocked'')) overrides
      | PStr s \<Rightarrow> dput capability (rule_of
          (case map_of [(''allowed'', ''allow''), (''approval_required'', ''ask''), (''blocked'', ''blocked'')] s of
             None \<Rightarrow> ''ask'' | Some m \<Rightarrow> m)) overrides
      | _ \<Rightarrow> overrides)"

definition apply_autonomy_overrides :: "pdict \<Rightarrow> pdict \<Rightarrow> pdict" where
  "apply_autonomy_overrides profile overrides =
     (let o2 = map_tri_state profile ''allowShell'' ''runCommand''
                 (map_tri_state profile ''allowFileWrite'' ''writeFile'' overrides)
      in if dhas profile ''allowNetwork''
         then dput ''network'' (rule_of (if truthy (dget profile ''allowNetwork'') then ''ask'' else ''blocked'')) o2
         else o2)"

definition legacy_preset_map :: "(string \<times> string) list" where
  "legacy_preset_map =
     [(''accept_edits'', ''balanced''), (''accept-edits'', ''balanced''), (''none'', ''autonomous''),
      (''never'', ''autonomous''), (''off'', ''autonomous''), (''strict'', ''safe''),
      (''on_write_or_command'', ''balanced''), (''relaxed'', ''autonomous'')]"

definition autonomy_overrides :: "pdict \<Rightarrow> pdict \<Rightarrow> pdict res" where
  \<comment> \<open>the block that merges the active autonomy profile\<close>
  "autonomy_overrides raw_config overrides =
     (case dget raw_config ''autonomy'' of
        PDict autonomy \<Rightarrow>
          rbind (py_iter (dget_or autonomy ''profiles'' (PList []))) (\<lambda>profiles.
          rbind (find_profile profiles (dget_or autonomy ''activeProfileId'' (PStr ''balanced''))) (\<lambda>active.
            Inr (case active of
                   None \<Rightarrow> overrides
                 | Some profile \<Rightarrow> if profile = [] then overrides else apply_autonomy_overrides profile overrides)))
      | _ \<Rightarrow> Inr overrides)"

definition legacy_permissions :: "pdict \<Rightarrow> (pv \<times> pdict) res" where
  "legacy_permissions raw_config =
     (let approval_mode = (case dget raw_config ''policy'' of
              PDict policy \<Rightarrow> dget_or policy ''approvalMode'' (PStr '''') | _ \<Rightarrow> PStr '''')
      in if \<not> hashable approval_mode then Inl TypeErr
         else
           let preset_name = (case approval_mode of
                   PStr s \<Rightarrow> (case map_of legacy_preset_map s of None \<Rightarrow> ''balanced'' | Some n \<Rightarrow> n)
                 | _ \<Rightarrow> ''balanced'');
               overrides = (if pin_tuple approval_mode [''accept_edits'', ''accept-edits'']
                 then [(''writeFile'', rule_of ''allow''), (''runCommand'', rule_of ''ask'')] else [])
           in rbind (autonomy_overrides raw_config overrides) (\<lambda>overrides.
                preset_to_config (PStr preset_name) overrides))"

definition normalize_permissions :: "pdict \<Rightarrow> (pv \<times> pdict) res" where
  "normalize_permissions raw_config =
     (case dget raw_config ''permissions'' of
        PDict permissions \<Rightarrow>
          (let preset = dget_or permissions ''preset'' (PStr ''balanced'');
               caps = dget_or permissions ''capabilities'' (PDict [])
           in if truthy caps \<or> preset \<noteq> PStr ''balanced''
              then preset_to_config preset (if truthy caps then normalize_capability_overrides caps else [])
              else legacy_permissions raw_config)
      | _ \<Rightarrow> legacy_permissions raw_config)"
section \<open>Requests and decisions\<close>

datatype decision = Allow | ApprovalRequired | Deny

text \<open>Decisions are ordered by restrictiveness.\<close>

instantiation decision :: linorder
begin

primrec rank_decision :: "decision \<Rightarrow> nat" where
  "rank_decision Allow = 0" | "rank_decision ApprovalRequired = 1" | "rank_decision Deny = 2"

definition less_eq_decision :: "decision \<Rightarrow> decision \<Rightarrow> bool" where
  "less_eq_decision a b \<longleftrightarrow> rank_decision a \<le> rank_decision b"

definition less_decision :: "decision \<Rightarrow> decision \<Rightarrow> bool" where
  "less_decision a b \<longleftrightarrow> rank_decision a < rank_decision b"

instance
proof
  fix a b c :: decision
  show "a < b \<longleftrightarrow> a \<le> b \<and> \<not> b \<le> a" by (auto simp: less_eq_decision_def less_decision_def)
  show "a \<le> a" by (simp add: less_eq_decision_def)
  show "a \<le> b \<Longrightarrow> b \<le> c \<Longrightarrow> a \<le> c" by (simp add: less_eq_decision_def)
  show "a \<le> b \<Longrightarrow> b \<le> a \<Longrightarrow> a = b" by (cases a; cases b) (auto simp: less_eq_decision_def)
  show "a \<le> b \<or> b \<le> a" by (auto simp: less_eq_decision_def)
qed

end

record permission_request =
  capability :: string
  tool_name :: string
  request_context :: pdict

record permission_decision =
  decision :: decision
  dcapability :: string
  reason :: string
  approval_kind :: string

definition capability_approval_kind :: "(string \<times> string) list" where
  "capability_approval_kind =
     [(''writeFile'', ''apply_patch''), (''runCommand'', ''run_command''), (''webFetch'', ''network_access''),
      (''network'', ''network_access''), (''computerUse'', ''computer_use''), (''subagents'', ''subagent_dispatch''),
      (''gitWrite'', ''apply_patch''), (''hooksExecute'', ''run_command'')]"

definition approval_kind_of :: "string \<Rightarrow> string" where
  "approval_kind_of cap = (case map_of capability_approval_kind cap of None \<Rightarrow> cap | Some k \<Rightarrow> k)"

definition high_risk_capabilities :: "string list" where
  "high_risk_capabilities = [''writeFile'', ''runCommand'', ''subagents'']"

definition or_str :: "pv \<Rightarrow> string \<Rightarrow> string" where
  \<comment> \<open>\<open>str(v or s)\<close>\<close>
  "or_str v s = py_str (por v (PStr s))"

definition text_field :: "string \<Rightarrow> pv \<Rightarrow> pdict" where
  \<comment> \<open>\<open>if isinstance(v, str) and v.strip(): signal[k] = v\<close>\<close>
  "text_field k v = (if is_str v \<and> strip (the_str v) \<noteq> '''' then [(k, v)] else [])"

definition result_signal :: "pv \<Rightarrow> pdict list" where
  \<comment> \<open>what one entry of \<open>tool_results\<close> contributes\<close>
  "result_signal item =
     (case item of
        PDict d \<Rightarrow>
          (let result = the_dict (dget d ''result'');
               trust = lower (strip (or_str (dget result ''contentTrust'') ''''))
           in if trust \<noteq> ''untrusted'' then []
              else [[(''toolName'', PStr (or_str (dget d ''name'') '''')),
                     (''source'', PStr (or_str (dget result ''contentSource'') ''external'')),
                     (''reason'', PStr (or_str (dget result ''contentTrustReason'')
                        ''Untrusted external content was introduced earlier in this task.''))] @
                    text_field ''path'' (dget result ''path'') @ text_field ''url'' (dget result ''url'')])
      | _ \<Rightarrow> [])"

definition collect_untrusted_content_signals :: "pv \<Rightarrow> pdict list" where
  "collect_untrusted_content_signals ctx =
     (case ctx of
        PDict c \<Rightarrow>
          (case dget c ''untrustedContentSignals'' of
             PList raw \<Rightarrow> map the_dict (filter is_dict raw)
           | _ \<Rightarrow> concat (map result_signal (the_list (dget c ''tool_results''))))
      | _ \<Rightarrow> [])"

definition untrusted_content_guard :: "permission_request \<Rightarrow> permission_decision option" where
  "untrusted_content_guard req =
     (if capability req \<notin> set high_risk_capabilities then None
      else
        let signals = collect_untrusted_content_signals (PDict (request_context req)) in
        if signals = [] then None
        else
          let sources = join '', '' (sort (dedupe [] (map (\<lambda>item. or_str (dget item ''source'') ''external'') signals)));
              tool_label = (if tool_name req = '''' then capability req else tool_name req)
          in Some \<lparr>decision = ApprovalRequired, dcapability = capability req,
               reason = ''Tool '' @ repr_str tool_label @ '' requires approval because this turn includes untrusted content from '' @
                 sources @ ''. Review the requested action before allowing it.'',
               approval_kind = approval_kind_of (capability req)\<rparr>)"

section \<open>Commands of low risk\<close>

definition verification_command_markers :: "string list" where
  "verification_command_markers =
     [''pytest'', ''unittest'', ''python -m pytest'', ''python -m unittest'', ''python -m py_compile'',
      ''python -m compileall'', ''ruff check'', ''mypy'', ''npm test'', ''npm run test'', ''npm run typecheck'',
      ''npm run lint'', ''npm run build'', ''pnpm test'', ''pnpm run test'', ''pnpm typecheck'', ''pnpm run typecheck'',
      ''pnpm lint'', ''pnpm run lint'', ''pnpm build'', ''pnpm run build'', ''yarn test'', ''yarn typecheck'',
      ''yarn lint'', ''yarn build'', ''vitest'', ''jest'', ''playwright test'', ''cargo test'', ''cargo check'',
      ''cargo build'', ''go test'', ''dotnet test'', ''mvn test'', ''gradle test'', '' tsc'', ''tsc '']"

definition read_only_command_prefixes :: "string list" where
  "read_only_command_prefixes =
     [''git branch'', ''git status'', ''git diff'', ''git log'', ''git show'', ''git rev-parse'', ''git ls-files'',
      ''git grep'', ''get-content'', ''get-childitem'', ''gci'', ''gc '', ''cat '', ''ls '', ''dir '', ''pwd'',
      ''where '', ''where.exe '', ''which '', ''type '', ''get-location'', ''resolve-path'', ''test-path'',
      ''select-string'', ''rg '', ''grep '', ''fd '']"

definition chain_markers :: "string list" where
  "chain_markers = [''&&'', ''||'', '';'', ''>'', ''<'', ''|'']"

definition read_only_command_exact :: "string list" where
  "read_only_command_exact = [''pwd'', ''ls'', ''dir'', ''gci'', ''get-childitem'']"

definition is_quote :: "char \<Rightarrow> bool" where
  "is_quote c \<longleftrightarrow> c = CHR 0x27 \<or> c = CHR 0x22"

definition powershell_prefix_re :: rx where
  \<comment> \<open>group 1 is \<open>quoted\<close>, group 2 \<open>bare\<close>, group 3 \<open>args\<close>\<close>
  "powershell_prefix_re =
     rseq [RBos, RStar rspace, ropt (rseq [rlit ''&'', RStar rspace]),
           RAlt (rseq [RCls is_quote, RGroup 1 (rplus (RCls (\<lambda>c. \<not> is_quote c))), RCls is_quote])
                (RGroup 2 (rplus rnonspace)),
           RGroup 3 (RStar rany), REos]"

definition group_or_empty :: "string \<Rightarrow> caps \<Rightarrow> nat \<Rightarrow> string" where
  "group_or_empty s c n = (case group s c n of None \<Rightarrow> '''' | Some g \<Rightarrow> g)"

definition runner_named :: "string \<Rightarrow> string \<Rightarrow> bool" where
  \<comment> \<open>\<open>name in {tool, f"{tool}.cmd", f"{tool}.exe"}\<close>\<close>
  "runner_named name tool \<longleftrightarrow> name = tool \<or> name = tool @ ''.cmd'' \<or> name = tool @ ''.exe''"

definition package_runners :: "string list" where
  "package_runners = [''npm'', ''pnpm'', ''yarn'', ''npx'']"

definition verification_tools :: "string list" where
  "verification_tools = [''tsc'', ''pytest'', ''vitest'', ''jest'', ''playwright'', ''ruff'', ''mypy'']"

definition canonical_command :: "string \<Rightarrow> string \<Rightarrow> string \<Rightarrow> string" where
  \<comment> \<open>the part of \<open>_normalize_command_for_policy\<close> after the match: text, executable and arguments\<close>
  "canonical_command text executable args =
     (let name = rsplit_last CHR ''/'' (replace_char CHR 0x5C CHR ''/'' executable)
      in if name \<in> {''python.exe'', ''python'', ''py.exe'', ''py''} \<and> starts ''-m '' args then ''python '' @ args
         else if name \<in> {''node.exe'', ''node''} then strip (''node '' @ args)
         else (case List.find (runner_named name) package_runners of
             Some r \<Rightarrow> strip (r @ '' '' @ args)
           | None \<Rightarrow>
               (case List.find (runner_named name) verification_tools of
                  Some v \<Rightarrow> strip (v @ '' '' @ args)
                | None \<Rightarrow> if name \<noteq> '''' then strip (name @ '' '' @ args) else text)))"

definition normalize_command_for_policy :: "string \<Rightarrow> string" where
  "normalize_command_for_policy command =
     (let text = squash (lower (strip command)) in
      case rx_match powershell_prefix_re text of
        None \<Rightarrow> text
      | Some (_, c) \<Rightarrow>
          (let quoted = group_or_empty text c 1;
               executable = strip (if quoted \<noteq> '''' then quoted else group_or_empty text c 2);
               args = strip (group_or_empty text c 3)
           in canonical_command text executable args))"

definition command_contains_marker :: "string \<Rightarrow> string \<Rightarrow> bool" where
  "command_contains_marker padded_command marker =
     (let marker_text = squash (lower marker) in
      marker_text \<noteq> '''' \<and>
      (has_sub ('' '' @ marker_text @ '' '') padded_command \<or> starts (marker_text @ '' '') (strip padded_command)))"

definition low_risk_text :: "string \<Rightarrow> bool" where
  \<comment> \<open>the tests of \<open>_is_low_risk_command\<close> on the normalised command\<close>
  "low_risk_text command_lower =
     (let padded = '' '' @ command_lower @ '' '' in
      if list_ex (\<lambda>marker. has_sub marker command_lower) chain_markers then False
      else if command_lower \<in> set read_only_command_exact then True
      else if list_ex (\<lambda>p. command_lower = strip p \<or> starts p command_lower) read_only_command_prefixes then True
      else list_ex (command_contains_marker padded) verification_command_markers)"

definition is_low_risk_command :: "permission_request \<Rightarrow> bool" where
  "is_low_risk_command req =
     (if capability req \<noteq> ''runCommand'' then False
      else
        let command = strip (or_str (dget (request_context req) ''command'') '''') in
        if command = '''' then False else low_risk_text (normalize_command_for_policy command))"

section \<open>The engine\<close>

record engine =
  approval_mode :: string
  preset :: pv
  capabilities :: pdict

definition apply_config :: "pv \<Rightarrow> engine \<Rightarrow> engine \<times> exn option" where
  \<comment> \<open>the approval mode is assigned before the normalisation that may raise\<close>
  "apply_config config e =
     (case config of
        PDict d \<Rightarrow>
          (let mode = (case dget d ''policy'' of
                   PDict policy \<Rightarrow> lower (strip (or_str (dget policy ''approvalMode'') '''')) | _ \<Rightarrow> '''')
           in case normalize_permissions d of
                Inl x \<Rightarrow> (e\<lparr>approval_mode := mode\<rparr>, Some x)
              | Inr (name, caps) \<Rightarrow> (\<lparr>approval_mode = mode, preset = name, capabilities = caps\<rparr>, None))
      | _ \<Rightarrow> (e\<lparr>approval_mode := ''''\<rparr>, Some AttrErr))"

definition new_engine :: "pv \<Rightarrow> engine res" where
  \<comment> \<open>the constructor, without a store\<close>
  "new_engine config =
     (case apply_config config \<lparr>approval_mode = '''', preset = PNone, capabilities = []\<rparr> of
        (e, None) \<Rightarrow> Inr e | (_, Some x) \<Rightarrow> Inl x)"

definition refresh_from_store :: "pv option \<Rightarrow> engine \<Rightarrow> engine \<times> exn option" where
  \<comment> \<open>the argument is what \<open>get_config\<close> returned, \<open>None\<close> when there is no store or it raised\<close>
  "refresh_from_store got e =
     (case got of
        Some (PDict result) \<Rightarrow>
          (case dget result ''config'' of PDict config \<Rightarrow> apply_config (PDict config) e | _ \<Rightarrow> (e, None))
      | _ \<Rightarrow> (e, None))"

definition approvals_disabled :: "engine \<Rightarrow> bool" where
  "approvals_disabled e \<longleftrightarrow> approval_mode e \<in> set [''none'', ''never'', ''off'', ''no'', ''false'']"

definition rule_mode :: "pv \<Rightarrow> pv" where
  \<comment> \<open>\<open>rule.get("mode", "ask") if isinstance(rule, dict) else str(rule)\<close>\<close>
  "rule_mode rule = (case rule of PDict d \<Rightarrow> dget_or d ''mode'' (PStr ''ask'') | _ \<Rightarrow> PStr (py_str rule))"

definition plain_allow :: "string \<Rightarrow> permission_decision" where
  "plain_allow cap = \<lparr>decision = Allow, dcapability = cap, reason = '''', approval_kind = ''''\<rparr>"

definition or_guard :: "permission_decision option \<Rightarrow> permission_decision \<Rightarrow> permission_decision" where
  \<comment> \<open>\<open>untrusted_guard or d\<close>\<close>
  "or_guard g d = (case g of None \<Rightarrow> d | Some x \<Rightarrow> x)"

definition decide :: "engine \<Rightarrow> permission_request \<Rightarrow> permission_decision" where
  \<comment> \<open>the body of \<open>evaluate\<close> after the refresh\<close>
  "decide e req =
     (let cap = capability req; untrusted_guard = untrusted_content_guard req;
          low_risk_command = is_low_risk_command req; rule = dget (capabilities e) cap
      in if is_none rule then
           (if approvals_disabled e then plain_allow cap
            else or_guard untrusted_guard
              \<lparr>decision = ApprovalRequired, dcapability = cap,
               reason = ''Capability '' @ repr_str cap @ '' has no rule; defaulting to approval_required.'',
               approval_kind = approval_kind_of cap\<rparr>)
         else if rule_mode rule = PStr ''blocked'' then
           \<lparr>decision = Deny, dcapability = cap,
            reason = ''Capability '' @ repr_str cap @ '' is blocked by policy preset '' @ py_repr (preset e) @ ''.'',
            approval_kind = ''''\<rparr>
         else if rule_mode rule = PStr ''allow'' then
           (if approvals_disabled e \<or> low_risk_command then plain_allow cap
            else or_guard untrusted_guard (plain_allow cap))
         else if approvals_disabled e \<or> low_risk_command then plain_allow cap
         else or_guard untrusted_guard
           \<lparr>decision = ApprovalRequired, dcapability = cap,
            reason = ''Capability '' @ repr_str cap @ '' requires approval (preset: '' @ py_repr (preset e) @ '').'',
            approval_kind = (if cap = ''writeFile'' then ''apply_patch'' else approval_kind_of cap)\<rparr>)"

definition evaluate :: "pv option \<Rightarrow> permission_request \<Rightarrow> engine \<Rightarrow> permission_decision res \<times> engine" where
  "evaluate got req e =
     (case refresh_from_store got e of
        (e', Some x) \<Rightarrow> (Inl x, e')
      | (e', None) \<Rightarrow> (Inr (decide e' req), e'))"

definition is_allowed :: "pv option \<Rightarrow> string \<Rightarrow> engine \<Rightarrow> bool res \<times> engine" where
  "is_allowed got cap e =
     (case refresh_from_store got e of
        (e', Some x) \<Rightarrow> (Inl x, e')
      | (e', None) \<Rightarrow> (Inr (let rule = dget (capabilities e') cap in
          \<not> is_none rule \<and> rule_mode rule = PStr ''allow''), e'))"

definition effective_config :: "pv option \<Rightarrow> engine \<Rightarrow> (pv \<times> pdict) res \<times> engine" where
  "effective_config got e =
     (case refresh_from_store got e of
        (e', Some x) \<Rightarrow> (Inl x, e')
      | (e', None) \<Rightarrow> (Inr (preset e', capabilities e'), e'))"

section \<open>What the engine decides\<close>

definition verdict :: "bool \<Rightarrow> bool \<Rightarrow> bool \<Rightarrow> pv option \<Rightarrow> decision" where
  \<comment> \<open>the decision from: approvals disabled, low risk, untrusted content guarded, and the mode of the rule\<close>
  "verdict disabled low guarded m =
     (if m = Some (PStr ''blocked'') then Deny
      else if disabled \<or> (m \<noteq> None \<and> low) then Allow
      else if m = Some (PStr ''allow'') \<and> \<not> guarded then Allow
      else ApprovalRequired)"

definition rule_mode_of :: "engine \<Rightarrow> string \<Rightarrow> pv option" where
  "rule_mode_of e cap =
     (if is_none (dget (capabilities e) cap) then None else Some (rule_mode (dget (capabilities e) cap)))"

lemma guard_decision: "untrusted_content_guard req = Some d \<Longrightarrow> decision d = ApprovalRequired"
  by (auto simp: untrusted_content_guard_def Let_def split: if_splits)

lemma or_guard_decision:
  "decision (or_guard (untrusted_content_guard req) d) =
     (if untrusted_content_guard req = None then decision d else ApprovalRequired)"
  using guard_decision [of req] by (auto simp: or_guard_def split: option.split)

lemma decide_verdict:
  "decision (decide e req) =
     verdict (approvals_disabled e) (is_low_risk_command req) (untrusted_content_guard req \<noteq> None)
       (rule_mode_of e (capability req))"
proof -
  let ?r = "dget (capabilities e) (capability req)"
  let ?g = "untrusted_content_guard req = None"
  have "decision (decide e req) =
      (if is_none ?r then (if approvals_disabled e then Allow else if ?g then ApprovalRequired else ApprovalRequired)
       else if rule_mode ?r = PStr ''blocked'' then Deny
       else if rule_mode ?r = PStr ''allow'' then
         (if approvals_disabled e \<or> is_low_risk_command req then Allow else if ?g then Allow else ApprovalRequired)
       else if approvals_disabled e \<or> is_low_risk_command req then Allow
       else if ?g then ApprovalRequired else ApprovalRequired)"
    by (simp only: decide_def Let_def if_distrib [of decision] or_guard_decision plain_allow_def
        permission_decision.select_convs)
  then show ?thesis by (simp add: verdict_def rule_mode_of_def)
qed

text \<open>
  C4. The exact condition under which a tool call goes ahead without approval, and under
  which it is denied. Denial depends on the blocked rule alone: no approval mode, no low-risk
  command and no untrusted content changes it. A call is allowed only if it is not blocked and
  approvals are switched off, or a rule exists and the command is of low risk, or the rule
  allows the capability and no untrusted content guards it. In particular a high-risk
  capability is never allowed by its rule alone while untrusted content is around.
\<close>

theorem decide_exact:
  "(decision (decide e req) = Deny \<longleftrightarrow> rule_mode_of e (capability req) = Some (PStr ''blocked'')) \<and>
   (decision (decide e req) = Allow \<longleftrightarrow>
      rule_mode_of e (capability req) \<noteq> Some (PStr ''blocked'') \<and>
      (approvals_disabled e \<or>
       rule_mode_of e (capability req) \<noteq> None \<and> is_low_risk_command req \<or>
       rule_mode_of e (capability req) = Some (PStr ''allow'') \<and>
         \<not> (capability req \<in> set high_risk_capabilities \<and>
            collect_untrusted_content_signals (PDict (request_context req)) \<noteq> [])))"
proof -
  have g: "untrusted_content_guard req = None \<longleftrightarrow>
      \<not> (capability req \<in> set high_risk_capabilities \<and> collect_untrusted_content_signals (PDict (request_context req)) \<noteq> [])"
    by (simp add: untrusted_content_guard_def Let_def)
  show ?thesis unfolding decide_verdict verdict_def g [symmetric] by simp
qed

text \<open>The presets grow in autonomy: a request is never decided more strictly by a later preset.\<close>

definition mode_rank :: "pv option \<Rightarrow> nat" where
  "mode_rank m = (if m = Some (PStr ''allow'') then 0 else if m = Some (PStr ''blocked'') then 2 else 1)"

lemma verdict_mono:
  "mode_rank m \<le> mode_rank n \<Longrightarrow> (m = None \<longleftrightarrow> n = None) \<Longrightarrow> verdict d l g m \<le> verdict d l g n"
  by (auto simp: mode_rank_def verdict_def less_eq_decision_def split: if_splits)

definition preset_engine :: "string \<Rightarrow> string \<Rightarrow> engine" where
  \<comment> \<open>the engine of an unmodified preset\<close>
  "preset_engine am name =
     \<lparr>approval_mode = am, preset = PStr name, capabilities = the (map_of presets name)\<rparr>"

definition preset_keys :: "string list" where
  "preset_keys = map fst safe_preset"

lemma preset_facts:
  "list_all (\<lambda>n. map fst (the (map_of presets n)) = preset_keys) [''safe'', ''balanced'', ''autonomous'']"
  "\<forall>k \<in> set preset_keys. mode_rank (rule_mode_of (preset_engine '''' ''balanced'') k) \<le> mode_rank (rule_mode_of (preset_engine '''' ''safe'') k)"
  "\<forall>k \<in> set preset_keys. mode_rank (rule_mode_of (preset_engine '''' ''autonomous'') k) \<le> mode_rank (rule_mode_of (preset_engine '''' ''balanced'') k)"
  "list_all (\<lambda>n. list_all (\<lambda>k. rule_mode_of (preset_engine '''' n) k \<noteq> None) preset_keys) [''safe'', ''balanced'', ''autonomous'']"
  by code_simp+

lemma preset_unknown:
  assumes "n \<in> set [''safe'', ''balanced'', ''autonomous'']" "k \<notin> set preset_keys"
  shows "rule_mode_of (preset_engine am n) k = None"
proof -
  have "map fst (the (map_of presets n)) = preset_keys"
    using assms(1) preset_facts(1) unfolding list_all_iff by blast
  then have "k \<notin> fst ` set (the (map_of presets n))" using assms(2) by (metis list.set_map)
  then have "map_of (the (map_of presets n)) k = None" by (simp add: map_of_eq_None_iff)
  then show ?thesis by (simp add: rule_mode_of_def preset_engine_def dget_def is_none_def)
qed

lemma preset_engine_mode: "rule_mode_of (preset_engine am n) k = rule_mode_of (preset_engine am' n) k"
  by (simp add: rule_mode_of_def preset_engine_def)

lemma preset_step:
  assumes "n \<in> set [''safe'', ''balanced'', ''autonomous'']" "n' \<in> set [''safe'', ''balanced'', ''autonomous'']"
    and "\<forall>k \<in> set preset_keys. mode_rank (rule_mode_of (preset_engine '''' n) k) \<le> mode_rank (rule_mode_of (preset_engine '''' n') k)"
  shows "decision (decide (preset_engine am n) req) \<le> decision (decide (preset_engine am n') req)"
proof -
  let ?k = "capability req"
  have some: "rule_mode_of (preset_engine am m) k \<noteq> None"
    if "m \<in> set [''safe'', ''balanced'', ''autonomous'']" "k \<in> set preset_keys" for m k
    using that preset_facts(4) preset_engine_mode [of am m k "''''"] unfolding list_all_iff by metis
  have "mode_rank (rule_mode_of (preset_engine am n) ?k) \<le> mode_rank (rule_mode_of (preset_engine am n') ?k) \<and>
      (rule_mode_of (preset_engine am n) ?k = None \<longleftrightarrow> rule_mode_of (preset_engine am n') ?k = None)"
  proof (cases "?k \<in> set preset_keys")
    case True
    then show ?thesis
      using assms(3) some [OF assms(1) True] some [OF assms(2) True]
        preset_engine_mode [of am n ?k "''''"] preset_engine_mode [of am n' ?k "''''"] True by metis
  next
    case False
    then show ?thesis using preset_unknown [OF assms(1)] preset_unknown [OF assms(2)] by simp
  qed
  then show ?thesis unfolding decide_verdict
    by (simp add: verdict_mono approvals_disabled_def preset_engine_def)
qed

text \<open>
  The presets are ordered: whatever the request, its content and the approval mode, the
  decision of the safe preset is at least as restrictive as that of the balanced preset, and
  that one at least as restrictive as the decision of the autonomous preset.
\<close>

theorem presets_monotone:
  "decision (decide (preset_engine am ''autonomous'') req) \<le> decision (decide (preset_engine am ''balanced'') req) \<and>
   decision (decide (preset_engine am ''balanced'') req) \<le> decision (decide (preset_engine am ''safe'') req)"
proof
  show "decision (decide (preset_engine am ''autonomous'') req) \<le> decision (decide (preset_engine am ''balanced'') req)"
    by (rule preset_step [OF _ _ preset_facts(3)]) simp_all
  show "decision (decide (preset_engine am ''balanced'') req) \<le> decision (decide (preset_engine am ''safe'') req)"
    by (rule preset_step [OF _ _ preset_facts(2)]) simp_all
qed

section \<open>Low-risk commands\<close>

definition run_request :: "string \<Rightarrow> permission_request" where
  "run_request command =
     \<lparr>capability = ''runCommand'', tool_name = ''run_command'', request_context = [(''command'', PStr command)]\<rparr>"

text \<open>The prefix expression on a text that starts with a bare word: the word and what follows it.\<close>



lemma powershell_bare:
  assumes "t \<noteq> []" "\<not> is_ws (hd t)" "hd t \<noteq> CHR ''&''" "\<not> is_quote (hd t)" "CHR 0x0A \<notin> set t"
  shows "rx_match powershell_prefix_re t =
    Some (length t, [(3, run_length (\<lambda>c. \<not> is_ws c) t 0, length t), (2, 0, run_length (\<lambda>c. \<not> is_ws c) t 0)])"
proof -
  let ?q = "\<lambda>c. \<not> is_ws c"
  let ?n = "run_length ?q t 0"
  have h: "t ! 0 = hd t" "0 < length t" using assms(1) by (simp_all add: hd_conv_nth)
  have ws: "rx_head (RStar rspace) t (0, []) = Some (0, [])"
    using rx_head_star_class [of is_ws t 0 "[]"] assms(1,2) run_length_step [of is_ws t 0] h by (simp add: rspace_def)
  have amp: "rx_m (rseq [rlit ''&'', RStar rspace]) t (0, []) = []"
    using assms(3) h by (simp add: rseq_def rlit_def)
  have opt: "rx_head (ropt (rseq [rlit ''&'', RStar rspace])) t (0, []) = Some (0, [])"
    unfolding ropt_def using amp rx_head_alt(2) rx_head_anchors(2) by metis
  have quoted: "rx_m (rseq [RCls is_quote, RGroup 1 (rplus (RCls (\<lambda>c. \<not> is_quote c))), RCls is_quote]) t (0, []) = []"
    using assms(4) h by (simp add: rseq_def)
  have n: "?n = Suc (run_length ?q t 1)" using run_length_step [of ?q t 0] assms(2) h by simp
  have "rx_head (rplus rnonspace) t (0, []) = Some (?n, [])"
    unfolding rplus_def rnonspace_def
    by (rule rx_head_seq [OF rx_head_class]) (use h assms(2) n rx_head_star_class [of ?q t 1 "[]"] in simp_all)
  then have bare: "rx_head (RGroup 2 (rplus rnonspace)) t (0, []) = Some (?n, [(2, 0, ?n)])" by (rule rx_head_group)
  have alt: "rx_head (RAlt (rseq [RCls is_quote, RGroup 1 (rplus (RCls (\<lambda>c. \<not> is_quote c))), RCls is_quote])
      (RGroup 2 (rplus rnonspace))) t (0, []) = Some (?n, [(2, 0, ?n)])"
    using rx_head_alt(2) [OF quoted] bare by simp
  have le: "?n \<le> length t" by (rule run_length_bound)
  have "takeWhile (\<lambda>c. c \<noteq> CHR 0x0A) (drop ?n t) = drop ?n t"
    using assms(5) by (auto simp: takeWhile_eq_all_conv dest: in_set_dropD)
  then have "run_length (\<lambda>c. c \<noteq> CHR 0x0A) t ?n = length t - ?n"
    unfolding run_length_def [of "\<lambda>c. c \<noteq> CHR 0x0A"] by (simp only: length_drop)
  then have any: "rx_head (RGroup 3 (RStar rany)) t (?n, [(2, 0, ?n)]) = Some (length t, [(3, ?n, length t), (2, 0, ?n)])"
    unfolding rany_def by (intro rx_head_group) (use le rx_head_star_class in simp)
  show ?thesis unfolding rx_match_head powershell_prefix_re_def
    unfolding rseq_def [of "[RBos, _, _, _, _, _]"] foldr.simps comp_def id_def
    by (rule rx_head_seq [OF rx_head_anchors(1)] rx_head_seq [OF ws] rx_head_seq [OF opt] rx_head_seq [OF alt]
        rx_head_seq [OF any] rx_head_seq [OF rx_head_anchors(3)] rx_head_anchors(2))+
qed

lemma normalize_bare:
  assumes "squash (lower (strip command)) = t"
    and "t \<noteq> []" "\<not> is_ws (hd t)" "hd t \<noteq> CHR ''&''" "\<not> is_quote (hd t)" "CHR 0x0A \<notin> set t"
  shows "normalize_command_for_policy command =
    canonical_command t (strip (takeWhile (\<lambda>c. \<not> is_ws c) t)) (strip (dropWhile (\<lambda>c. \<not> is_ws c) t))"
proof -
  let ?q = "\<lambda>c. \<not> is_ws c"
  let ?n = "run_length ?q t 0"
  have n: "?n = length (takeWhile ?q t)" by (simp add: run_length_def)
  have tw: "slice t 0 ?n = takeWhile ?q t" unfolding slice_def n by (metis drop0 minus_nat.diff_0 takeWhile_eq_take)
  have dw: "slice t ?n (length t) = dropWhile ?q t" unfolding slice_def n
    by (metis dropWhile_eq_drop length_drop order_refl take_all)
  have "group_or_empty t [(3, ?n, length t), (2, 0, ?n)] 1 = ''''"
    "group_or_empty t [(3, ?n, length t), (2, 0, ?n)] 2 = takeWhile ?q t"
    "group_or_empty t [(3, ?n, length t), (2, 0, ?n)] 3 = dropWhile ?q t"
    by (simp_all add: group_or_empty_def group_def tw dw)
  then show ?thesis unfolding normalize_command_for_policy_def assms(1) Let_def
    by (simp only: powershell_bare [OF assms(2-6)] option.case prod.case if_False simp_thms)
qed

text \<open>Commands of one word and its arguments, as the policy reads them.\<close>

lemma low_risk_facts:
  "is_low_risk_command (run_request (''git status'' @ [CHR 0x0A] @ ''rm -rf x''))"
  "is_low_risk_command (run_request ''cat $(rm x)'')"
  "is_low_risk_command (run_request ''rm -rf pytest .'')"
  "\<not> is_low_risk_command (run_request ''pytest; rm x'')"
proof -
  have c: "is_low_risk_command (run_request s) \<longleftrightarrow> low_risk_text (normalize_command_for_policy s)"
    if "s \<noteq> ''''" "strip s = s" for s
    using that by (simp add: is_low_risk_command_def run_request_def or_str_def por_def dget_def)
  have n1: "normalize_command_for_policy (''git status'' @ [CHR 0x0A] @ ''rm -rf x'') = ''git status rm -rf x''"
    by (subst normalize_bare [of _ "''git status rm -rf x''"]; code_simp)
  have n2: "normalize_command_for_policy ''cat $(rm x)'' = ''cat $(rm x)''"
    by (subst normalize_bare [of _ "''cat $(rm x)''"]; code_simp)
  have n3: "normalize_command_for_policy ''rm -rf pytest .'' = ''rm -rf pytest .''"
    by (subst normalize_bare [of _ "''rm -rf pytest .''"]; code_simp)
  have n4: "normalize_command_for_policy ''pytest; rm x'' = ''pytest; rm x''"
    by (subst normalize_bare [of _ "''pytest; rm x''"]; code_simp)
  show "is_low_risk_command (run_request (''git status'' @ [CHR 0x0A] @ ''rm -rf x''))"
    by (subst c) (simp, code_simp, unfold n1, code_simp)
  show "is_low_risk_command (run_request ''cat $(rm x)'')"
    by (subst c) (simp, code_simp, unfold n2, code_simp)
  show "is_low_risk_command (run_request ''rm -rf pytest .'')"
    by (subst c) (simp, code_simp, unfold n3, code_simp)
  show "\<not> is_low_risk_command (run_request ''pytest; rm x'')"
    by (subst c) (simp, code_simp, unfold n4, code_simp)
qed

lemma balanced_run_command:
  "decision (decide (preset_engine '''' ''balanced'') (run_request s)) =
     (if is_low_risk_command (run_request s) then Allow else ApprovalRequired)"
proof -
  have "rule_mode_of (preset_engine '''' ''balanced'') ''runCommand'' = Some (PStr ''ask'')" by code_simp
  moreover have "\<not> approvals_disabled (preset_engine '''' ''balanced'')" by code_simp
  moreover have "capability (run_request s) = ''runCommand''" by (simp add: run_request_def)
  ultimately show ?thesis unfolding decide_verdict by (simp add: verdict_def)
qed

text \<open>
  A command counts as low risk only if its normalised form has no chaining or redirection
  marker. The marker list does not hold the line feed, which normalisation turns into a blank,
  nor command substitution, and a verification tool counts wherever its name stands: the
  balanced preset, which asks before the command \<open>pytest; rm x\<close>, lets the three other commands of
  this theorem run without approval.
\<close>

theorem low_risk_commands:
  "(is_low_risk_command req \<longrightarrow> capability req = ''runCommand'' \<and>
      (\<forall>marker \<in> set chain_markers.
         \<not> has_sub marker (normalize_command_for_policy (strip (or_str (dget (request_context req) ''command'') ''''))))) \<and>
   decision (decide (preset_engine '''' ''balanced'') (run_request ''pytest; rm x'')) = ApprovalRequired \<and>
   decision (decide (preset_engine '''' ''balanced'') (run_request (''git status'' @ [CHR 0x0A] @ ''rm -rf x''))) = Allow \<and>
   decision (decide (preset_engine '''' ''balanced'') (run_request ''cat $(rm x)'')) = Allow \<and>
   decision (decide (preset_engine '''' ''balanced'') (run_request ''rm -rf pytest .'')) = Allow"
proof (intro conjI impI)
  assume l: "is_low_risk_command req"
  then show "capability req = ''runCommand''" by (simp add: is_low_risk_command_def split: if_splits)
  show "\<forall>marker \<in> set chain_markers.
      \<not> has_sub marker (normalize_command_for_policy (strip (or_str (dget (request_context req) ''command'') '''')))"
    using l by (simp add: is_low_risk_command_def low_risk_text_def Let_def list_ex_iff split: if_splits)
qed (simp_all only: balanced_run_command low_risk_facts if_True if_False simp_thms)

lemma low_risk_commands_witness:
  "is_low_risk_command (run_request ''cat $(rm x)'') \<and>
   \<not> has_sub ''&&'' (normalize_command_for_policy (strip (or_str (dget (request_context (run_request ''cat $(rm x)'')) ''command'') '''')))"
  using low_risk_commands [of "run_request ''cat $(rm x)''"] low_risk_facts(2) unfolding chain_markers_def
  by (meson list.set_intros(1))

section \<open>What normalisation of the configuration guarantees\<close>

definition full_capabilities :: "pdict \<Rightarrow> bool" where
  \<comment> \<open>every capability of the presets has a rule object\<close>
  "full_capabilities caps \<longleftrightarrow> (\<forall>k \<in> set preset_keys. is_dict (dget caps k))"

lemma presets_full: "list_all (\<lambda>(n, base). full_capabilities base) presets"
  by code_simp

lemma override_step_full:
  "full_capabilities caps \<Longrightarrow> override_step e caps = Inr caps' \<Longrightarrow> full_capabilities caps'"
  by (auto simp: override_step_def rbind_eq_Inr full_capabilities_def dget_dput)

lemma preset_to_config_normal:
  assumes "preset_to_config name overrides = Inr (name', caps)"
  shows "name' = name \<and> name \<in> PStr ` fst ` set presets \<and> full_capabilities caps"
proof -
  have n0: "map_of presets '''' = None" by (simp add: presets_def)
  from assms obtain base where b: "map_of presets (the_str name) = Some base"
    "rfold override_step overrides base = Inr caps" "name' = name"
    by (auto simp: preset_to_config_def rbind_eq_Inr split: if_splits option.splits)
  from b(1) n0 obtain s where s: "name = PStr s" by (cases name) auto
  from b(1) have m: "(the_str name, base) \<in> set presets" by (rule map_of_SomeD)
  then have "full_capabilities base" using presets_full by (auto simp: list_all_iff)
  then have "full_capabilities caps" by (rule rfold_invariant [OF b(2)]) (rule override_step_full)
  moreover have "name \<in> PStr ` fst ` set presets" using m s by force
  ultimately show ?thesis using b(3) by simp
qed

lemma legacy_permissions_normal:
  "legacy_permissions raw = Inr (name, caps) \<Longrightarrow> name \<in> PStr ` fst ` set presets \<and> full_capabilities caps"
  by (auto simp: legacy_permissions_def Let_def rbind_eq_Inr dest: preset_to_config_normal split: if_splits)

text \<open>
  Whatever the raw configuration, a normalised permission configuration names one of the
  three presets and has a rule object for every capability of the presets, so the engine finds
  no capability of its own without a rule. An unknown preset is a \<open>ValueError\<close>, and without new
  style permissions and autonomy profiles the legacy mode strict is exactly the safe preset.
\<close>

theorem permissions_normal:
  assumes "normalize_permissions raw = Inr (name, caps)"
  shows "name \<in> PStr ` fst ` set presets \<and> full_capabilities caps \<and>
    normalize_permissions [(''permissions'', PDict [(''preset'', PStr ''yolo'')])] = Inl ValueErr \<and>
    normalize_permissions [(''policy'', PDict [(''approvalMode'', PStr ''strict'')])] = Inr (PStr ''safe'', safe_preset)"
proof -
  have "name \<in> PStr ` fst ` set presets \<and> full_capabilities caps"
  proof (cases "\<exists>p. dget raw ''permissions'' = PDict p \<and>
      (truthy (dget_or p ''capabilities'' (PDict [])) \<or> dget_or p ''preset'' (PStr ''balanced'') \<noteq> PStr ''balanced'')")
    case True
    then obtain p where "dget raw ''permissions'' = PDict p"
      "truthy (dget_or p ''capabilities'' (PDict [])) \<or> dget_or p ''preset'' (PStr ''balanced'') \<noteq> PStr ''balanced''" by blast
    with assms have "\<exists>ov. preset_to_config (dget_or p ''preset'' (PStr ''balanced'')) ov = Inr (name, caps)"
      by (auto simp: normalize_permissions_def Let_def)
    then show ?thesis using preset_to_config_normal by metis
  next
    case False
    then have "normalize_permissions raw = legacy_permissions raw"
      by (cases "dget raw ''permissions''") (auto simp: normalize_permissions_def Let_def)
    with assms show ?thesis using legacy_permissions_normal by metis
  qed
  moreover have "normalize_permissions [(''permissions'', PDict [(''preset'', PStr ''yolo'')])] = Inl ValueErr" by code_simp
  moreover have "normalize_permissions [(''policy'', PDict [(''approvalMode'', PStr ''strict'')])] = Inr (PStr ''safe'', safe_preset)"
    by code_simp
  ultimately show ?thesis by blast
qed

definition sample_permissions :: pdict where
  "sample_permissions =
     [(''permissions'', PDict [(''preset'', PStr ''safe''), (''capabilities'', PDict [('' shell '', PStr ''blocked'')])])]"

lemma permissions_normal_witness:
  "\<exists>caps. normalize_permissions sample_permissions = Inr (PStr ''safe'', caps) \<and> full_capabilities caps \<and>
     dget caps ''runCommand'' = rule_of ''blocked''"
proof -
  define caps where "caps = snd (projr (normalize_permissions sample_permissions))"
  have e: "normalize_permissions sample_permissions = Inr (PStr ''safe'', caps)" "dget caps ''runCommand'' = rule_of ''blocked''"
    unfolding caps_def by code_simp+
  show ?thesis using permissions_normal [OF e(1)] e by blast
qed

end
