(* ===== verification/Autonomy.thy ===== *)
theory Autonomy
  imports Prelude "HOL-Library.List_Lexorder" "HOL-Library.Char_ord"
begin

text \<open>
  Autonomy profiles (\<open>policy/autonomy_profile.py\<close>): the five built-in levels, their lookup and
  their reconstruction from a persisted dictionary. The fields of a reconstructed profile are
  whatever the dictionary holds, so each field of the record is a Python value.
\<close>

record autonomy_profile =
  profile_id :: pv
  profile_name :: pv
  level :: pv
  description :: pv
  max_steps :: pv
  context_budget :: pv
  compaction_threshold :: pv
  background_execution :: pv
  subagents :: pv
  shell :: pv
  file_writes :: pv
  network :: pv
  approval_mode :: pv
  memory_recall_policy :: pv
  retry_limits :: pv
  timeout_seconds :: pv

definition to_dict :: "autonomy_profile \<Rightarrow> pdict" where
  \<comment> \<open>\<open>asdict(self)\<close>: the fields in declaration order\<close>
  "to_dict p =
     [(''id'', profile_id p), (''name'', profile_name p), (''level'', level p), (''description'', description p),
      (''max_steps'', max_steps p), (''context_budget'', context_budget p),
      (''compaction_threshold'', compaction_threshold p), (''background_execution'', background_execution p),
      (''subagents'', subagents p), (''shell'', shell p), (''file_writes'', file_writes p), (''network'', network p),
      (''approval_mode'', approval_mode p), (''memory_recall_policy'', memory_recall_policy p),
      (''retry_limits'', retry_limits p), (''timeout_seconds'', timeout_seconds p)]"

definition profile_from_dict :: "pdict \<Rightarrow> autonomy_profile" where
  "profile_from_dict d =
     \<lparr>profile_id = dget_or d ''id'' (PStr ''unknown''),
      profile_name = dget_or d ''name'' (PStr ''Unknown''),
      level = dget_or d ''level'' (PInt 0),
      description = dget_or d ''description'' (PStr ''''),
      max_steps = dget_or d ''max_steps'' (PInt 30),
      context_budget = dget_or d ''context_budget'' (PInt 256000),
      compaction_threshold = dget_or d ''compaction_threshold'' (PInt 120000),
      background_execution = dget_or d ''background_execution'' (PBool False),
      subagents = dget_or d ''subagents'' (PBool True),
      shell = dget_or d ''shell'' (PBool True),
      file_writes = dget_or d ''file_writes'' (PBool True),
      network = dget_or d ''network'' (PBool True),
      approval_mode = dget_or d ''approval_mode'' (PStr ''high_risk''),
      memory_recall_policy = dget_or d ''memory_recall_policy'' (PStr ''auto''),
      retry_limits = dget_or d ''retry_limits'' (PInt 3),
      timeout_seconds = dget_or d ''timeout_seconds'' (PInt 600)\<rparr>"

definition locked_down :: autonomy_profile where
  "locked_down =
     \<lparr>profile_id = PStr ''locked_down'', profile_name = PStr ''Locked Down'', level = PInt 0,
      description = PStr ''No autonomous actions. Every step requires explicit user approval.'',
      max_steps = PInt 5, context_budget = PInt 64000, compaction_threshold = PInt 32000,
      background_execution = PBool False, subagents = PBool False, shell = PBool False, file_writes = PBool False,
      network = PBool False, approval_mode = PStr ''all'', memory_recall_policy = PStr ''explicit'',
      retry_limits = PInt 0, timeout_seconds = PInt 120\<rparr>"

definition conservative :: autonomy_profile where
  "conservative =
     \<lparr>profile_id = PStr ''conservative'', profile_name = PStr ''Conservative'', level = PInt 1,
      description = PStr ''Read-only analysis with minimal tool use. Writes and shell require approval.'',
      max_steps = PInt 15, context_budget = PInt 128000, compaction_threshold = PInt 60000,
      background_execution = PBool False, subagents = PBool False, shell = PBool False, file_writes = PBool False,
      network = PBool True, approval_mode = PStr ''write'', memory_recall_policy = PStr ''auto'',
      retry_limits = PInt 1, timeout_seconds = PInt 300\<rparr>"

definition balanced :: autonomy_profile where
  "balanced =
     \<lparr>profile_id = PStr ''balanced'', profile_name = PStr ''Balanced'', level = PInt 2,
      description = PStr ''Standard execution. Writes allowed, high-risk actions need approval.'',
      max_steps = PInt 30, context_budget = PInt 256000, compaction_threshold = PInt 120000,
      background_execution = PBool True, subagents = PBool True, shell = PBool True, file_writes = PBool True,
      network = PBool True, approval_mode = PStr ''high_risk'', memory_recall_policy = PStr ''auto'',
      retry_limits = PInt 3, timeout_seconds = PInt 600\<rparr>"

definition extended :: autonomy_profile where
  "extended =
     \<lparr>profile_id = PStr ''extended'', profile_name = PStr ''Extended'', level = PInt 3,
      description = PStr ''Extended autonomy. More steps and budget. Only critical risks need approval.'',
      max_steps = PInt 50, context_budget = PInt 512000, compaction_threshold = PInt 200000,
      background_execution = PBool True, subagents = PBool True, shell = PBool True, file_writes = PBool True,
      network = PBool True, approval_mode = PStr ''high_risk'', memory_recall_policy = PStr ''auto'',
      retry_limits = PInt 5, timeout_seconds = PInt 1200\<rparr>"

definition autonomous :: autonomy_profile where
  "autonomous =
     \<lparr>profile_id = PStr ''autonomous'', profile_name = PStr ''Fully Autonomous'', level = PInt 4,
      description = PStr ''Full autonomy. No approval gates. Use only in trusted environments.'',
      max_steps = PInt 100, context_budget = PInt 1000000, compaction_threshold = PInt 400000,
      background_execution = PBool True, subagents = PBool True, shell = PBool True, file_writes = PBool True,
      network = PBool True, approval_mode = PStr ''none'', memory_recall_policy = PStr ''auto'',
      retry_limits = PInt 10, timeout_seconds = PInt 3600\<rparr>"

definition profiles :: "(string \<times> autonomy_profile) list" where
  "profiles = [(''locked_down'', locked_down), (''conservative'', conservative), (''balanced'', balanced),
     (''extended'', extended), (''autonomous'', autonomous)]"

definition get_autonomy_profile :: "string \<Rightarrow> autonomy_profile option" where
  "get_autonomy_profile pid = map_of profiles pid"

definition list_autonomy_profiles :: "autonomy_profile list" where
  "list_autonomy_profiles = sort_key (\<lambda>p. the (pnum (level p))) (map snd profiles)"

definition default_autonomy_profile :: autonomy_profile where
  "default_autonomy_profile = the (map_of profiles ''balanced'')"

section \<open>Round trip and ordering\<close>

lemma profile_roundtrip: "profile_from_dict (to_dict p) = p"
  by (simp add: profile_from_dict_def to_dict_def dget_or_def)

definition implies_flag :: "pv \<Rightarrow> pv \<Rightarrow> bool" where
  "implies_flag a b \<longleftrightarrow> (a = PBool True \<longrightarrow> b = PBool True)"

definition no_more_autonomy :: "autonomy_profile \<Rightarrow> autonomy_profile \<Rightarrow> bool" where
  \<comment> \<open>every bound and every permission of the first is at most that of the second\<close>
  "no_more_autonomy p q \<longleftrightarrow>
     list_all (\<lambda>f. the (pnum (f p)) \<le> the (pnum (f q)))
       [max_steps, context_budget, compaction_threshold, retry_limits, timeout_seconds] \<and>
     list_all (\<lambda>f. implies_flag (f p) (f q)) [background_execution, subagents, shell, file_writes, network]"

text \<open>
  Serialising a profile and reading it back yields the same profile, whatever its fields
  hold. The built-in profiles, listed by level, grow in every numeric bound and in every
  permission, and each one compacts its context before the context budget is used up.
\<close>

theorem autonomy_profiles_ordered:
  "profile_from_dict (to_dict p) = p \<and>
   list_autonomy_profiles = [locked_down, conservative, balanced, extended, autonomous] \<and>
   sorted_wrt no_more_autonomy list_autonomy_profiles \<and>
   list_all (\<lambda>q. the (pnum (compaction_threshold q)) < the (pnum (context_budget q))) list_autonomy_profiles \<and>
   get_autonomy_profile ''balanced'' = Some default_autonomy_profile"
proof (intro conjI profile_roundtrip)
  show l: "list_autonomy_profiles = [locked_down, conservative, balanced, extended, autonomous]"
    by (simp add: list_autonomy_profiles_def profiles_def locked_down_def conservative_def balanced_def extended_def
        autonomous_def)
  show "sorted_wrt no_more_autonomy list_autonomy_profiles"
    unfolding l by (simp add: no_more_autonomy_def implies_flag_def locked_down_def conservative_def balanced_def
        extended_def autonomous_def)
  show "list_all (\<lambda>q. the (pnum (compaction_threshold q)) < the (pnum (context_budget q))) list_autonomy_profiles"
    unfolding l by (simp add: locked_down_def conservative_def balanced_def extended_def autonomous_def)
  show "get_autonomy_profile ''balanced'' = Some default_autonomy_profile"
    by (simp add: get_autonomy_profile_def default_autonomy_profile_def profiles_def)
qed

end
