(* ===== verification/ToolConstraints.thy ===== *)
theory ToolConstraints
  imports TextMatch
begin

text \<open>
  The constraints that a user's words put on the tools of a turn (the regular expressions and
  the constraint functions of \<open>policy/tool_policy_resolver.py\<close>). The expressions are compiled
  with \<open>IGNORECASE\<close> and hold lower-case letters only, so they are searched in the lower-cased
  text. The Chinese words stand as UTF-8 bytes; \<open>\b\<close> next to a non-ASCII character is decided
  as next to an ideograph.
\<close>

section \<open>Regular expressions\<close>

definition rlits :: "string list \<Rightarrow> rx" where
  "rlits ss = ralt (map rlit ss)"

definition rsep :: rx where
  \<comment> \<open>\<open>[-_\s]\<close>\<close>
  "rsep = RCls (\<lambda>c. c = CHR ''-'' \<or> c = CHR ''_'' \<or> is_ws c)"

definition en_dont :: string where "en_dont = ''don'' @ [CHR 0x27] @ ''t''"
definition zh_do_not :: string where "zh_do_not = [CHR 0xE4, CHR 0xB8, CHR 0x8D, CHR 0xE8, CHR 0xA6, CHR 0x81]"
definition zh_not_needed :: string where "zh_not_needed = [CHR 0xE4, CHR 0xB8, CHR 0x8D, CHR 0xE9, CHR 0x9C, CHR 0x80, CHR 0xE8, CHR 0xA6, CHR 0x81]"
definition zh_no_need :: string where "zh_no_need = [CHR 0xE6, CHR 0x97, CHR 0xA0, CHR 0xE9, CHR 0x9C, CHR 0x80]"
definition zh_need_not :: string where "zh_need_not = [CHR 0xE4, CHR 0xB8, CHR 0x8D, CHR 0xE7, CHR 0x94, CHR 0xA8]"
definition zh_not :: string where "zh_not = [CHR 0xE4, CHR 0xB8, CHR 0x8D]"
definition zh_never :: string where "zh_never = [CHR 0xE5, CHR 0x88, CHR 0xAB]"
definition zh_disable :: string where "zh_disable = [CHR 0xE7, CHR 0xA6, CHR 0x81, CHR 0xE7, CHR 0x94, CHR 0xA8]"
definition zh_modify :: string where "zh_modify = [CHR 0xE4, CHR 0xBF, CHR 0xAE, CHR 0xE6, CHR 0x94, CHR 0xB9]"
definition zh_write :: string where "zh_write = [CHR 0xE5, CHR 0x86, CHR 0x99, CHR 0xE5, CHR 0x85, CHR 0xA5]"
definition zh_alter :: string where "zh_alter = [CHR 0xE6, CHR 0x94, CHR 0xB9, CHR 0xE5, CHR 0x8A, CHR 0xA8]"
definition zh_edit :: string where "zh_edit = [CHR 0xE7, CHR 0xBC, CHR 0x96, CHR 0xE8, CHR 0xBE, CHR 0x91]"
definition zh_run :: string where "zh_run = [CHR 0xE8, CHR 0xBF, CHR 0x90, CHR 0xE8, CHR 0xA1, CHR 0x8C]"
definition zh_execute :: string where "zh_execute = [CHR 0xE6, CHR 0x89, CHR 0xA7, CHR 0xE8, CHR 0xA1, CHR 0x8C]"
definition zh_touch_files :: string where "zh_touch_files = [CHR 0xE5, CHR 0x8A, CHR 0xA8, CHR 0xE6, CHR 0x96, CHR 0x87, CHR 0xE4, CHR 0xBB, CHR 0xB6]"
definition zh_change_files :: string where "zh_change_files = [CHR 0xE6, CHR 0x94, CHR 0xB9, CHR 0xE6, CHR 0x96, CHR 0x87, CHR 0xE4, CHR 0xBB, CHR 0xB6]"
definition zh_want :: string where "zh_want = [CHR 0xE8, CHR 0xA6, CHR 0x81]"
definition zh_permit :: string where "zh_permit = [CHR 0xE5, CHR 0x85, CHR 0x81, CHR 0xE8, CHR 0xAE, CHR 0xB8]"
definition zh_read_only :: string where "zh_read_only = [CHR 0xE5, CHR 0x8F, CHR 0xAA, CHR 0xE8, CHR 0xAF, CHR 0xBB]"
definition zh_only_reading :: string where "zh_only_reading = [CHR 0xE4, CHR 0xBB, CHR 0x85, CHR 0xE8, CHR 0xAF, CHR 0xBB, CHR 0xE5, CHR 0x8F, CHR 0x96]"
definition zh_only_read :: string where "zh_only_read = [CHR 0xE4, CHR 0xBB, CHR 0x85, CHR 0xE8, CHR 0xAF, CHR 0xBB]"
definition zh_write_command :: string where "zh_write_command = [CHR 0xE5, CHR 0x86, CHR 0x99, CHR 0xE5, CHR 0x91, CHR 0xBD, CHR 0xE4, CHR 0xBB, CHR 0xA4]"
definition zh_command :: string where "zh_command = [CHR 0xE5, CHR 0x91, CHR 0xBD, CHR 0xE4, CHR 0xBB, CHR 0xA4]"
definition zh_file :: string where "zh_file = [CHR 0xE6, CHR 0x96, CHR 0x87, CHR 0xE4, CHR 0xBB, CHR 0xB6]"
definition zh_repo :: string where "zh_repo = [CHR 0xE4, CHR 0xBB, CHR 0x93, CHR 0xE5, CHR 0xBA, CHR 0x93]"
definition zh_workspace :: string where "zh_workspace = [CHR 0xE5, CHR 0xB7, CHR 0xA5, CHR 0xE4, CHR 0xBD, CHR 0x9C, CHR 0xE5, CHR 0x8C, CHR 0xBA]"
definition zh_analyse :: string where "zh_analyse = [CHR 0xE5, CHR 0x88, CHR 0x86, CHR 0xE6, CHR 0x9E, CHR 0x90]"
definition zh_check :: string where "zh_check = [CHR 0xE6, CHR 0xA3, CHR 0x80, CHR 0xE6, CHR 0x9F, CHR 0xA5]"
definition zh_view :: string where "zh_view = [CHR 0xE6, CHR 0x9F, CHR 0xA5, CHR 0xE7, CHR 0x9C, CHR 0x8B]"
definition zh_review :: string where "zh_review = [CHR 0xE5, CHR 0xAE, CHR 0xA1, CHR 0xE6, CHR 0x9F, CHR 0xA5]"
definition zh_implement :: string where "zh_implement = [CHR 0xE5, CHR 0xAE, CHR 0x9E, CHR 0xE7, CHR 0x8E, CHR 0xB0]"
definition zh_create :: string where "zh_create = [CHR 0xE5, CHR 0x88, CHR 0x9B, CHR 0xE5, CHR 0xBB, CHR 0xBA]"
definition zh_add :: string where "zh_add = [CHR 0xE6, CHR 0x96, CHR 0xB0, CHR 0xE5, CHR 0xA2, CHR 0x9E]"
definition zh_generate :: string where "zh_generate = [CHR 0xE7, CHR 0x94, CHR 0x9F, CHR 0xE6, CHR 0x88, CHR 0x90]"
definition zh_before :: string where "zh_before = [CHR 0xE5, CHR 0x89, CHR 0x8D]"
definition zh_call :: string where "zh_call = [CHR 0xE8, CHR 0xB0, CHR 0x83, CHR 0xE7, CHR 0x94, CHR 0xA8]"
definition zh_use :: string where "zh_use = [CHR 0xE4, CHR 0xBD, CHR 0xBF, CHR 0xE7, CHR 0x94, CHR 0xA8]"
definition zh_apply :: string where "zh_apply = [CHR 0xE7, CHR 0x94, CHR 0xA8]"
definition zh_any :: string where "zh_any = [CHR 0xE4, CHR 0xBB, CHR 0xBB, CHR 0xE4, CHR 0xBD, CHR 0x95]"
definition zh_tool :: string where "zh_tool = [CHR 0xE5, CHR 0xB7, CHR 0xA5, CHR 0xE5, CHR 0x85, CHR 0xB7]"
definition zh_read :: string where "zh_read = [CHR 0xE8, CHR 0xAF, CHR 0xBB, CHR 0xE5, CHR 0x8F, CHR 0x96]"
definition zh_search :: string where "zh_search = [CHR 0xE6, CHR 0x90, CHR 0x9C, CHR 0xE7, CHR 0xB4, CHR 0xA2]"

definition read_only_constraint_re :: rx where
  "read_only_constraint_re =
     ralt
       [rseq [rlit ''read'', ropt (rsep), rlit ''only''],
        rlit ''readonly'',
        rseq [rlit ''no'', rplus rspace, ralt [rlit ''write'', rlit ''edit'', rlit ''modify'', rseq
            [rlit ''change'', ropt (rlit ''s'')], rlit ''mutation'', rseq [rlit ''file'', rplus
            rspace, rlit ''change'', ropt (rlit ''s'')]]],
        rseq [rlit ''do'', rplus rspace, rlit ''not'', rplus rspace, ralt [rlit ''write'', rlit
            ''edit'', rlit ''modify'', rlit ''change'', rseq [rlit ''run'', rplus rspace, rlit
            ''write'']]],
        rseq [rlit en_dont, rplus rspace, ralt [rlit ''write'', rlit ''edit'', rlit ''modify'', rlit
            ''change'', rseq [rlit ''run'', rplus rspace, rlit ''write'']]],
        rseq [rlit ''without'', rplus rspace, rlits [''writing'', ''editing'', ''modifying'', ''changing'']],
        rseq [rlit zh_do_not, ralt [rlit zh_modify, rlit zh_write, rlit zh_alter, rlit zh_edit, rseq
            [rlit zh_run, rlits [zh_write, zh_modify]], rlit zh_touch_files]],
        rseq [rlit zh_not, ropt (rlits [zh_want, zh_permit]), rlits [zh_modify, zh_write, zh_alter,
            zh_edit, zh_touch_files]],
        rlit zh_read_only,
        rlit zh_only_reading,
        rlit (zh_do_not @ zh_run @ zh_write_command),
        rlit (zh_do_not @ zh_execute @ zh_write_command),
        rlit (zh_do_not @ zh_change_files)]"

definition read_only_phrase_re :: rx where
  "read_only_phrase_re =
     ralt
       [rseq [RWordB, rlit ''read'', ropt (rsep), rlit ''only'', RWordB],
        rseq [RWordB, rlit ''readonly'', RWordB]]"

definition global_read_only_constraint_re :: rx where
  "global_read_only_constraint_re =
     ralt
       [rseq [RWordB, rlit ''no'', rplus rspace, ralt [rlit ''write'', rlit ''edit'', rlit ''modify'',
           rseq [rlit ''change'', ropt (rlit ''s'')], rlit ''mutation'', rseq [rlit ''file'', rplus
           rspace, rlit ''change'', ropt (rlit ''s'')], rseq [rlit ''command'', rplus rspace, rlit
           ''execution'']], RWordB],
        rseq [RWordB, rlit ''do'', rplus rspace, rlit ''not'', rplus rspace, rlits [''write'',
            ''edit'', ''modify'', ''change''], rplus rspace, ralt [rseq [rlit ''file'', ropt (rlit
            ''s'')], rseq [rlit ''the'', rplus rspace, rlit ''workspace''], rseq [rlit ''the'', rplus
            rspace, rlit ''repo''], rlit ''anything''], RWordB],
        rseq [RWordB, rlit en_dont, rplus rspace, rlits [''write'', ''edit'', ''modify'', ''change''],
            rplus rspace, ralt [rseq [rlit ''file'', ropt (rlit ''s'')], rseq [rlit ''the'', rplus
            rspace, rlit ''workspace''], rseq [rlit ''the'', rplus rspace, rlit ''repo''], rlit
            ''anything''], RWordB],
        rseq [RWordB, rlit ''do'', rplus rspace, rlit ''not'', rplus rspace, rlit ''make'', rplus
            rspace, ropt (rseq [rlit ''any'', rplus rspace]), rlit ''change'', ropt (rlit ''s''),
            RWordB],
        rseq [RWordB, rlit en_dont, rplus rspace, rlit ''make'', rplus rspace, ropt (rseq [rlit
            ''any'', rplus rspace]), rlit ''change'', ropt (rlit ''s''), RWordB],
        rseq [RWordB, rlit ''without'', rplus rspace, rlits [''writing'', ''editing'', ''modifying'',
            ''changing''], ropt (rseq [rplus rspace, rlit ''file'', ropt (rlit ''s'')]), RWordB],
        rseq [RWordB, rlit ''do'', rplus rspace, rlit ''not'', rplus rspace, rlit ''run'', rplus
            rspace, ralt [rseq [rlit ''command'', ropt (rlit ''s'')], rseq [rlit ''write'', rplus
            rspace, rlit ''command'', ropt (rlit ''s'')]], RWordB],
        rseq [RWordB, rlit en_dont, rplus rspace, rlit ''run'', rplus rspace, ralt [rseq [rlit
            ''command'', ropt (rlit ''s'')], rseq [rlit ''write'', rplus rspace, rlit ''command'',
            ropt (rlit ''s'')]], RWordB],
        rseq [rlit zh_do_not, rlits [zh_modify, zh_edit, zh_alter, zh_write], ropt (rlits [zh_file,
            zh_repo, zh_workspace])],
        rseq [rlit (zh_do_not @ zh_run), ropt (rlits [zh_command, zh_write_command])],
        rseq [rlit (zh_do_not @ zh_execute), ropt (rlits [zh_command, zh_write_command])],
        rseq [rlit zh_not, rlits [zh_modify, zh_edit, zh_alter, zh_write], rlits [zh_file, zh_repo, zh_workspace]],
        rseq [rlit zh_read_only, ropt (rlits [zh_analyse, zh_check, zh_view, zh_review])],
        rseq [rlit zh_only_read, ropt (rlits [zh_analyse, zh_check, zh_view, zh_review])]]"

definition write_intent_re :: rx where
  "write_intent_re =
     ralt
       [rseq [RWordB, rlit ''build'', RWordB],
        rseq [RWordB, rlit ''create'', RWordB],
        rseq [RWordB, rlit ''implement'', RWordB],
        rseq [RWordB, rlit ''edit'', RWordB],
        rseq [RWordB, rlit ''modify'', RWordB],
        rseq [RWordB, rlit ''update'', RWordB],
        rseq [RWordB, rlit ''add'', RWordB],
        rseq [RWordB, rlit ''write'', RWordB],
        rseq [RWordB, rlit ''generate'', RWordB],
        rseq [RWordB, rlit ''file'', rplus rspace, rlit ''edit'', ropt (rlit ''s''), RWordB],
        rseq [RWordB, rlit ''actual'', rplus rspace, rlit ''file'', rplus rspace, rlit ''edit'', ropt
            (rlit ''s''), RWordB],
        rlit zh_implement,
        rlit zh_create,
        rlit zh_add,
        rlit zh_modify,
        rlit zh_edit,
        rlit zh_alter,
        rlit zh_write,
        rlit zh_generate]"

definition plan_before_edit_re :: rx where
  "plan_before_edit_re =
     ralt
       [rseq [RWordB, rlit ''before'', rplus rspace, ropt (rseq [rlit ''any'', rplus rspace]), rlits
           [''edit'', ''editing'', ''change'', ''modification''], RWordB],
        rlit (zh_edit @ zh_before),
        rlit (zh_modify @ zh_before),
        rlit (zh_alter @ zh_before)]"

definition no_tool_constraint_re :: rx where
  "no_tool_constraint_re =
     ralt
       [rseq [rlit ''no'', rplus rspace, rlit ''tool'', ropt (rlit ''s'')],
        rseq [rlit ''without'', rplus rspace, ropt (rseq [rlit ''any'', rplus rspace]), rlit ''tool'',
            ropt (rlit ''s'')],
        rseq [rlit ''do'', rplus rspace, rlit ''not'', rplus rspace, rlits [''use'', ''call'',
            ''invoke''], rplus rspace, ropt (rseq [rlit ''any'', rplus rspace]), rlit ''tool'', ropt
            (rlit ''s'')],
        rseq [rlit en_dont, rplus rspace, rlits [''use'', ''call'', ''invoke''], rplus rspace, ropt
            (rseq [rlit ''any'', rplus rspace]), rlit ''tool'', ropt (rlit ''s'')],
        rseq [rlit ''do'', rplus rspace, rlit ''not'', rplus rspace, rlits [''read'', ''search'',
            ''inspect''], rplus rspace, ralt [rseq [rlit ''file'', ropt (rlit ''s'')], rseq [rlit
            ''the'', rplus rspace, rlit ''workspace''], rseq [rlit ''the'', rplus rspace, rlit
            ''repo'']]],
        rseq [rlit en_dont, rplus rspace, rlits [''read'', ''search'', ''inspect''], rplus rspace,
            ralt [rseq [rlit ''file'', ropt (rlit ''s'')], rseq [rlit ''the'', rplus rspace, rlit
            ''workspace''], rseq [rlit ''the'', rplus rspace, rlit ''repo'']]],
        rseq [rlit zh_do_not, ropt (rlits [zh_call, zh_use, zh_apply]), ropt (rlit zh_any), rlit zh_tool],
        rseq [rlit zh_need_not, ropt (rlit zh_any), rlit zh_tool],
        rseq [rlit zh_not_needed, ropt (rlit zh_any), rlit zh_tool],
        rseq [rlit zh_no_need, ropt (rlit zh_any), rlit zh_tool],
        rseq [rlit zh_never, rlits [zh_call, zh_use, zh_apply], ropt (rlit zh_any), rlit zh_tool],
        rseq [rlit zh_disable, ropt (rlit zh_any), rlit zh_tool],
        rseq [rlit zh_do_not, rlits [zh_read, zh_search, zh_check], rlits [zh_file, zh_repo, zh_workspace]]]"


definition found_ci :: "rx \<Rightarrow> string \<Rightarrow> bool" where
  \<comment> \<open>\<open>re.compile(r, re.IGNORECASE).search(text)\<close>\<close>
  "found_ci r text \<longleftrightarrow> rx_found r (lower text)"

definition first_start :: "rx \<Rightarrow> string \<Rightarrow> nat option" where
  \<comment> \<open>\<open>min(match.start() for match in r.finditer(text))\<close>: the start of the first match\<close>
  "first_start r text = map_option fst (rx_search r (lower text))"

section \<open>Where constraints are looked for\<close>

definition dgets :: "pdict \<Rightarrow> string list \<Rightarrow> pv list" where
  "dgets d ks = map (dget d) ks"

definition sub_dict :: "pdict \<Rightarrow> string \<Rightarrow> pdict option" where
  \<comment> \<open>the value of a key, if it is an object\<close>
  "sub_dict d k = (case dget d k of PDict e \<Rightarrow> Some e | _ \<Rightarrow> None)"

definition from_sub :: "pdict \<Rightarrow> string \<Rightarrow> (pdict \<Rightarrow> pv list) \<Rightarrow> pv list" where
  "from_sub d k f = (case sub_dict d k of None \<Rightarrow> [] | Some e \<Rightarrow> f e)"

definition read_only_constraint_candidates :: "pdict \<Rightarrow> pv list" where
  "read_only_constraint_candidates ctx =
     dgets ctx [''readOnly'', ''read_only'', ''readonly'', ''toolPolicy'', ''tool_policy'', ''mode'', ''executionMode'',
       ''execution_mode''] @
     dgets ctx [''goal'', ''userGoal'', ''user_goal'', ''message'', ''content'', ''latestUserMessage'', ''latest_user_message''] @
     from_sub ctx ''task'' (\<lambda>task. dgets task [''goal'', ''title'', ''description'', ''resultSummary'']) @
     from_sub ctx ''routing'' (\<lambda>routing.
       dgets routing [''readOnly'', ''read_only'', ''readonly'', ''toolPolicy'', ''tool_policy'', ''goal'', ''userGoal'',
         ''user_goal'', ''latestUserMessagePreview''] @
       from_sub routing ''profile'' (\<lambda>profile.
         dgets profile [''readOnly'', ''read_only'', ''readonly'', ''toolPolicy'', ''tool_policy'', ''mode'']) @
       from_sub routing ''mainWorkflow'' (\<lambda>main_workflow.
         from_sub main_workflow ''userTakeover'' (\<lambda>takeover. dgets takeover [''latestUserMessagePreview'', ''mode''])))"

section \<open>Constraints\<close>

definition local_read_only_markers :: "string list" where
  "local_read_only_markers =
     [''read-only design'', ''read-only review'', ''read-only child'', ''read-only subagent'', ''read-only sub-agent'',
      ''read-only agent'', ''read-only analysis if useful'', ''read-only design/review'', ''keep actual file edits'',
      ''actual file edits in the main task'', ''main task'']"

definition has_write_intent_override :: "string \<Rightarrow> bool" where
  "has_write_intent_override text =
     (if \<not> found_ci write_intent_re text then False
      else if list_ex (\<lambda>marker. has_sub marker (squash (lower text))) local_read_only_markers then True
      else (case (first_start write_intent_re text, first_start read_only_phrase_re text) of
          (Some first_write, Some first_read_only) \<Rightarrow> first_write < first_read_only
        | _ \<Rightarrow> False))"

definition is_global_read_only_constraint :: "string \<Rightarrow> bool" where
  "is_global_read_only_constraint text =
     (if \<not> found_ci read_only_constraint_re text then False
      else if found_ci plan_before_edit_re text then True
      else if found_ci global_read_only_constraint_re text then \<not> has_write_intent_override text
      else if found_ci read_only_phrase_re text then \<not> has_write_intent_override text
      else False)"

definition candidate_text :: "pv \<Rightarrow> string" where
  \<comment> \<open>\<open>str(value or "").strip()\<close>\<close>
  "candidate_text v = strip (py_str (por v (PStr '''')))"

definition read_only_modes :: "string list" where
  "read_only_modes = [''read_only'', ''readonly'', ''read-only'', ''inspect_only'', ''analysis_only'']"

definition no_tool_modes :: "string list" where
  "no_tool_modes = [''no_tools'', ''no-tools'', ''tools_off'', ''disable_tools'']"

fun first_read_only :: "pv list \<Rightarrow> string" where
  \<comment> \<open>the loop of \<open>_read_only_constraint\<close>\<close>
  "first_read_only [] = ''''"
| "first_read_only (v # vs) =
     (case v of
        PBool b \<Rightarrow> if b then ''explicit_flag'' else first_read_only vs
      | _ \<Rightarrow>
          (let text = candidate_text v in
           if text = '''' then first_read_only vs
           else if lower text \<in> set read_only_modes then lower text
           else if is_global_read_only_constraint text then ''user_text''
           else first_read_only vs))"

fun first_no_tool :: "pv list \<Rightarrow> string" where
  \<comment> \<open>the loop of \<open>_no_tool_constraint\<close>\<close>
  "first_no_tool [] = ''''"
| "first_no_tool (v # vs) =
     (case v of
        PBool _ \<Rightarrow> first_no_tool vs
      | _ \<Rightarrow>
          (let text = candidate_text v in
           if text = '''' then first_no_tool vs
           else if lower text \<in> set no_tool_modes then lower text
           else if found_ci no_tool_constraint_re text then ''user_text''
           else first_no_tool vs))"

definition read_only_constraint :: "pdict \<Rightarrow> string" where
  "read_only_constraint ctx = first_read_only (read_only_constraint_candidates ctx)"

definition no_tool_constraint :: "pdict \<Rightarrow> string" where
  "no_tool_constraint ctx = first_no_tool (read_only_constraint_candidates ctx)"

lemma read_only_flag:
  assumes "dget ctx ''readOnly'' = PBool True"
  shows "read_only_constraint ctx = ''explicit_flag''"
  using assms by (simp add: read_only_constraint_def read_only_constraint_candidates_def dgets_def)

end
