(* ===== verification/ToolPolicy.thy ===== *)
theory ToolPolicy
  imports ToolConstraints Permission "HOL-Library.Multiset"
begin

text \<open>
  The tools that the model sees in one turn (\<open>policy/tool_policy_resolver.py\<close>): the role
  snapshot, the phase, the names allowed for phase and role, and the chain of gates that every
  registered tool passes (phase, suppressed questions, continuation after subtasks, skill
  policy, MCP policy, permission engine). A turn's tool results are objects whose \<open>name\<close> and
  \<open>status\<close> are hashable, as the runtime writes them.
\<close>

section \<open>Tool names\<close>

definition read_only_tools :: "string list" where
  "read_only_tools =
     [''list_dir'', ''search_files'', ''read_file'', ''git_status'', ''git_diff'', ''code_search'', ''web_fetch'',
      ''browser'', ''memory.recall'', ''scratchpad.read'']"

definition plan_mode_tools :: "string list" where
  "plan_mode_tools = read_only_tools @ [''exit_plan_mode'']"

definition local_read_only_tools :: "string list" where
  "local_read_only_tools = [''list_dir'', ''search_files'', ''read_file'', ''git_status'', ''git_diff'', ''code_search'']"

definition write_tools :: "string list" where
  "write_tools = [''write_file'', ''apply_patch'', ''run_command'']"

definition subagent_tools :: "string list" where
  "subagent_tools = [''agent'', ''task'']"

definition subagent_continuation_tools :: "string list" where
  "subagent_continuation_tools = [''send_message'']"

definition memory_and_scratchpad_tools :: "string list" where
  "memory_and_scratchpad_tools = [''memory.recall'', ''memory.remember'', ''scratchpad.read'', ''scratchpad.write'']"

definition control_flow_tools :: "string list" where
  "control_flow_tools = [''ask_user_question'', ''enter_plan_mode'', ''exit_plan_mode'']"

definition ask_tools :: "string list" where
  "ask_tools = [''ask_user_question'']"

definition minimal_cleanup_tools :: "string list" where
  "minimal_cleanup_tools = [''git_status'', ''list_dir'', ''run_command'', ''ask_user_question'']"

definition policy_verification_markers :: "string list" where
  "policy_verification_markers =
     [''pytest'', ''unittest'', ''npm test'', ''npm run test'', ''pnpm test'', ''yarn test'', ''cargo test'', ''go test'',
      ''mvn test'', ''gradle test'', '' tsc'', ''tsc '', ''npm run build'', ''pnpm build'', ''yarn build'', ''cmake'',
      ''cmake --build'', ''ctest'', ''ninja'', ''ninja test'', ''make test'']"

definition tool_capabilities :: "(string \<times> string) list" where
  "tool_capabilities =
     [(''list_dir'', ''readFile''), (''search_files'', ''readFile''), (''read_file'', ''readFile''),
      (''git_status'', ''readFile''), (''git_diff'', ''readFile''), (''code_search'', ''readFile''),
      (''write_file'', ''writeFile''), (''apply_patch'', ''writeFile''), (''run_command'', ''runCommand''),
      (''web_fetch'', ''webFetch''), (''browser'', ''browserAutomation''), (''computer_use'', ''computerUse''),
      (''agent'', ''subagents''), (''task'', ''subagents''), (''send_message'', ''subagents''),
      (''notebook'', ''runCommand''), (''memory.remember'', ''memoryWrite''), (''memory.recall'', ''readFile''),
      (''scratchpad.write'', ''memoryWrite''), (''scratchpad.read'', ''readFile'')]"

definition tool_capability :: "string \<Rightarrow> string option" where
  "tool_capability name = (if starts ''mcp__'' name then None else map_of tool_capabilities name)"

definition registered_name :: "pdict \<Rightarrow> string option" where
  \<comment> \<open>\<open>_tool_name\<close>\<close>
  "registered_name tool =
     (case dget tool ''name'' of
        PStr n \<Rightarrow> Some n
      | _ \<Rightarrow> (case dget tool ''function'' of
               PDict f \<Rightarrow> (case dget f ''name'' of PStr n \<Rightarrow> Some n | _ \<Rightarrow> None)
             | _ \<Rightarrow> None))"

section \<open>The allowlist of a child\<close>

definition expand_child_allowlist :: "string list \<Rightarrow> string list" where
  "expand_child_allowlist names =
     (let base_names = filter (\<lambda>n. n \<noteq> ''mcp__*'') names in
      if \<not> list_ex (\<lambda>n. n \<in> set write_tools) base_names then names
      else dedupe [] (local_read_only_tools @ base_names) @ (if ''mcp__*'' \<in> set names then [''mcp__*''] else []))"

definition string_list :: "pv \<Rightarrow> string list option" where
  \<comment> \<open>a list that holds strings only, without the empty ones\<close>
  "string_list v =
     (case v of PList xs \<Rightarrow> if list_all is_str xs then Some (filter (\<lambda>s. s \<noteq> '''') (map the_str xs)) else None
              | _ \<Rightarrow> None)"

fun first_string_list :: "pdict \<Rightarrow> string list \<Rightarrow> string list option" where
  "first_string_list d [] = None"
| "first_string_list d (k # ks) =
     (case string_list (dget d k) of Some ss \<Rightarrow> Some ss | None \<Rightarrow> first_string_list d ks)"

definition child_allowlist :: "pdict \<Rightarrow> string list option" where
  "child_allowlist ctx =
     map_option expand_child_allowlist
       (case first_string_list ctx [''_child_tool_allowlist'', ''childToolAllowlist'', ''child_tool_allowlist''] of
          Some ss \<Rightarrow> Some ss
        | None \<Rightarrow>
            (case sub_dict ctx ''_worker_budget'' of
               None \<Rightarrow> None
             | Some budget \<Rightarrow> first_string_list budget
                 [''childToolAllowlist'', ''child_tool_allowlist'', ''toolAllowlist'', ''tool_allowlist'']))"

definition child_can_write :: "pdict \<Rightarrow> bool" where
  \<comment> \<open>\<open>bool(set(child_allowlist) & WRITE_TOOLS)\<close>, false without an allowlist\<close>
  "child_can_write ctx =
     (case child_allowlist ctx of None \<Rightarrow> False | Some ns \<Rightarrow> list_ex (\<lambda>n. n \<in> set write_tools) ns)"

section \<open>Continuation after subtasks\<close>

fun first_bool :: "pdict \<Rightarrow> string list \<Rightarrow> (string \<times> bool) option" where
  "first_bool d [] = None"
| "first_bool d (k # ks) = (case dget d k of PBool b \<Rightarrow> Some (k, b) | _ \<Rightarrow> first_bool d ks)"

definition continuation_dict :: "pdict \<Rightarrow> pdict option" where
  \<comment> \<open>\<open>routing.get("toolContinuation") or routing.get("tool_continuation")\<close>, if an object\<close>
  "continuation_dict routing =
     (case por (dget routing ''toolContinuation'') (dget routing ''tool_continuation'') of PDict c \<Rightarrow> Some c | _ \<Rightarrow> None)"

fun first_positive_int :: "pv list \<Rightarrow> int option" where
  "first_positive_int [] = None"
| "first_positive_int (v # vs) =
     (if is_none v then first_positive_int vs
      else case py_int v of
          Inl _ \<Rightarrow> first_positive_int vs
        | Inr i \<Rightarrow> if i > 0 then Some i else first_positive_int vs)"

definition max_task_tool_calls :: "pdict \<Rightarrow> int option" where
  "max_task_tool_calls ctx =
     first_positive_int
       (dgets ctx [''_max_task_tool_calls'', ''maxTaskToolCalls'', ''max_task_tool_calls''] @
        from_sub ctx ''routing'' (\<lambda>routing.
          dgets routing [''maxTaskToolCalls'', ''max_task_tool_calls''] @
          (case continuation_dict routing of
             None \<Rightarrow> []
           | Some c \<Rightarrow> dgets c [''maxTaskToolCalls'', ''max_task_tool_calls''])))"

definition any_true :: "pdict \<Rightarrow> string list \<Rightarrow> bool" where
  \<comment> \<open>\<open>d.get(k) is True\<close> for one of the keys\<close>
  "any_true d ks \<longleftrightarrow> list_ex (\<lambda>k. is_true (dget d k)) ks"

definition opt_int :: "int option \<Rightarrow> pv" where
  "opt_int m = (case m of None \<Rightarrow> PNone | Some i \<Rightarrow> PInt i)"

definition default_continuation_policy :: pdict where
  "default_continuation_policy =
     [(''allowToolsAfterTaskResults'', PBool True), (''allowMoreSubtasksAfterTaskResults'', PBool False),
      (''source'', PStr ''runtime_post_task_continuation'')]"

definition routing_continuation_policy :: "pdict \<Rightarrow> pdict \<Rightarrow> pdict" where
  "routing_continuation_policy ctx routing =
     (let more_keys = [''allowMoreSubtasksAfterTaskResults'', ''allow_more_subtasks_after_task_results''];
          allow_keys = [''allowToolsAfterTaskResults'', ''allow_tools_after_task_results''];
          from_routing = (case first_bool routing allow_keys of
              Some (k, b) \<Rightarrow> [(''allowToolsAfterTaskResults'', PBool b), (''source'', PStr (''routing.'' @ k))]
            | None \<Rightarrow> default_continuation_policy)
      in case continuation_dict routing of
           None \<Rightarrow> from_routing
         | Some c \<Rightarrow>
             (case first_bool c allow_keys of
                None \<Rightarrow> from_routing
              | Some (k, b) \<Rightarrow>
                  [(''allowToolsAfterTaskResults'', PBool b),
                   (''allowMoreSubtasksAfterTaskResults'', PBool (any_true c more_keys)),
                   (''maxTaskToolCalls'', opt_int (max_task_tool_calls ctx)),
                   (''source'', PStr (py_str (por (dget c ''source'') (PStr (''routing.toolContinuation.'' @ k))))),
                   (''rationale'', dget c ''rationale'')]))"

definition tool_continuation_policy :: "pdict \<Rightarrow> pdict" where
  "tool_continuation_policy ctx =
     (case first_bool ctx [''_allow_tools_after_task_results'', ''allowToolsAfterTaskResults'', ''allow_tools_after_task_results''] of
        Some (k, b) \<Rightarrow> [(''allowToolsAfterTaskResults'', PBool b), (''source'', PStr k)]
      | None \<Rightarrow>
          (case sub_dict ctx ''routing'' of
             None \<Rightarrow> default_continuation_policy
           | Some routing \<Rightarrow> routing_continuation_policy ctx routing))"

definition allow_tools_after_task_results :: "pdict \<Rightarrow> bool" where
  "allow_tools_after_task_results ctx = truthy (dget (tool_continuation_policy ctx) ''allowToolsAfterTaskResults'')"

definition allow_more_subtasks_after_task_results :: "pdict \<Rightarrow> bool" where
  "allow_more_subtasks_after_task_results ctx =
     (let keys = [''allowMoreSubtasksAfterTaskResults'', ''allow_more_subtasks_after_task_results''] in
      any_true ctx (''_allow_more_subtasks_after_task_results'' # keys) \<or>
      (case sub_dict ctx ''routing'' of
         None \<Rightarrow> False
       | Some routing \<Rightarrow>
           any_true routing keys \<or>
           (case continuation_dict routing of None \<Rightarrow> False | Some c \<Rightarrow> any_true c keys)))"

section \<open>What the tool results say\<close>

definition waiting_result :: "pdict \<Rightarrow> bool" where
  \<comment> \<open>\<open>isinstance(result, dict) and result.get("status") == "waiting_approval"\<close>\<close>
  "waiting_result item =
     (case dget item ''result'' of PDict r \<Rightarrow> dget r ''status'' = PStr ''waiting_approval'' | _ \<Rightarrow> False)"

definition from_subagent :: "pdict \<Rightarrow> bool" where
  "from_subagent item \<longleftrightarrow> pin_tuple (dget item ''name'') subagent_tools"

definition last_ready_task_result :: "pdict list \<Rightarrow> bool" where
  "last_ready_task_result results \<longleftrightarrow>
     results \<noteq> [] \<and> from_subagent (last results) \<and> \<not> waiting_result (last results)"

definition last_task_result_ready :: "pdict \<Rightarrow> pdict list \<Rightarrow> bool" where
  "last_task_result_ready ctx results =
     (if allow_tools_after_task_results ctx \<or> results = [] then False else last_ready_task_result results)"

definition ready_task_result_count :: "pdict list \<Rightarrow> nat" where
  "ready_task_result_count results = length (filter (\<lambda>item. from_subagent item \<and> \<not> waiting_result item) results)"

definition last_tool_failed :: "pdict list \<Rightarrow> bool" where
  "last_tool_failed results =
     (if results = [] then False
      else case dget (last results) ''result'' of
          PDict r \<Rightarrow> pin_tuple (dget r ''status'') [''failed'', ''error'']
        | _ \<Rightarrow> False)"

definition run_command_text :: "pdict \<Rightarrow> string" where
  "run_command_text result =
     (case dget result ''command'' of
        PStr s \<Rightarrow> s
      | _ \<Rightarrow> (case dget result ''commandLog'' of
               PDict l \<Rightarrow> (case dget l ''command'' of PStr s \<Rightarrow> s | _ \<Rightarrow> '''')
             | _ \<Rightarrow> ''''))"

definition child_worker_verified_by_command :: "pdict list \<Rightarrow> bool" where
  "child_worker_verified_by_command results =
     (if results = [] then False
      else if dget (last results) ''name'' \<noteq> PStr ''run_command'' then False
      else case dget (last results) ''result'' of
          PDict r \<Rightarrow>
            if dget r ''status'' \<noteq> PStr ''completed'' \<or> \<not> py_eq (dget r ''exitCode'') (PInt 0) then False
            else
              let command = run_command_text r in
              command \<noteq> '''' \<and> list_ex (\<lambda>marker. has_sub marker ('' '' @ lower command @ '' '')) policy_verification_markers
        | _ \<Rightarrow> False)"

definition child_worker_execution_enabled :: "pdict \<Rightarrow> bool" where
  "child_worker_execution_enabled ctx = (if \<not> is_true (dget ctx ''_child_worker'') then False else child_can_write ctx)"

fun low_risk_question_defaulted :: "pdict list \<Rightarrow> bool" where
  \<comment> \<open>the loop of \<open>_low_risk_ask_user_question_defaulted\<close>, on the reversed results\<close>
  "low_risk_question_defaulted [] = False"
| "low_risk_question_defaulted (item # rest) =
     (if dget item ''name'' \<noteq> PStr ''ask_user_question'' then low_risk_question_defaulted rest
      else case dget item ''result'' of
          PDict r \<Rightarrow> is_true (dget r ''defaulted'') \<and> dget r ''reason'' = PStr ''low_risk_preference_defaulted''
        | _ \<Rightarrow> low_risk_question_defaulted rest)"
section \<open>Role, phase, plan mode\<close>

definition runtime_roles :: "string list" where
  "runtime_roles = [''root'', ''worker'', ''planner'', ''reviewer'', ''summarizer'']"

definition normalize_runtime_role :: "pv \<Rightarrow> string" where
  "normalize_runtime_role v =
     (let role = (if is_none v then ''root'' else lower (strip (py_str v))) in
      if role \<in> set runtime_roles then role else ''worker'')"

definition snapshot_routing :: "pdict \<Rightarrow> pdict \<Rightarrow> pdict" where
  "snapshot_routing task ctx =
     (case dget ctx ''routing'' of PDict r \<Rightarrow> r | _ \<Rightarrow> (case dget task ''routing'' of PDict r \<Rightarrow> r | _ \<Rightarrow> []))"

definition role_snapshot :: "pdict \<Rightarrow> pdict \<Rightarrow> pdict" where
  "role_snapshot task ctx =
     (let routing = snapshot_routing task ctx in
      case dget routing ''roleSnapshot'' of
        PDict existing \<Rightarrow> existing
      | _ \<Rightarrow>
          (let raw_role = por (por (por (dget ctx ''runtimeRole'') (dget routing ''runtimeRole'')) (dget task ''role'')) (PStr ''root'');
               runtime_role = normalize_runtime_role raw_role;
               raw_agent_type = por (por (dget ctx ''agentType'') (dget routing ''agentType'')) (PStr runtime_role);
               agent_type = (let a = strip (py_str raw_agent_type) in if a = '''' then runtime_role else a);
               tool_policy = (if child_allowlist ctx \<noteq> None then ''child_allowlist''
                  else if runtime_role \<in> {''reviewer'', ''summarizer''} then ''read_only'' else ''default'');
               can_write = child_can_write ctx;
               profile0 = [(''agentType'', PStr agent_type), (''baseRuntimeRole'', PStr runtime_role),
                  (''toolPolicy'', PStr tool_policy),
                  (''capabilities'', PList (if can_write then [PStr ''workspace_write''] else [])),
                  (''scopes'', PList []),
                  (''riskLevel'', PStr (if can_write then ''medium''
                     else if tool_policy \<in> {''read_only'', ''child_allowlist''} then ''low'' else ''medium'')),
                  (''source'', PStr ''runtime_default''), (''version'', PInt 1)];
               profile = (case dget routing ''agentProfile'' of PDict p \<Rightarrow> dupdate profile0 p | _ \<Rightarrow> profile0)
           in [(''runtimeRole'', PStr runtime_role), (''agentType'', PStr agent_type), (''profileId'', dget profile ''id''),
               (''profileVersion'', dget_or profile ''version'' (PInt 1)), (''agentProfile'', PDict profile),
               (''toolPolicy'', PStr tool_policy), (''scopes'', dget_or profile ''scopes'' (PList [])),
               (''riskLevel'', dget_or profile ''riskLevel'' (PStr ''medium'')),
               (''budget'', por (dget ctx ''_worker_budget'') (PDict []))]))"

definition phase_of :: "pdict \<Rightarrow> pdict \<Rightarrow> pdict list \<Rightarrow> string \<Rightarrow> string" where
  "phase_of task ctx results runtime_role =
     (if dget task ''status'' = PStr ''waiting_approval'' then ''approval_waiting''
      else if is_true (dget ctx ''_plan_mode'') then ''plan_mode''
      else if last_task_result_ready ctx results then ''synthesis''
      else if last_ready_task_result results \<and> allow_tools_after_task_results ctx then
        (if last_tool_failed results then ''recovery'' else ''post_task_continuation'')
      else if runtime_role = ''summarizer'' then ''synthesis''
      else if runtime_role = ''reviewer'' then ''review''
      else if runtime_role = ''planner'' then ''planning''
      else if runtime_role = ''worker'' \<and> child_worker_execution_enabled ctx then
        (if child_worker_verified_by_command results then ''synthesis'' else ''execution'')
      else if last_tool_failed results then ''recovery''
      else ''investigation'')"

definition plan_takeover_modes :: "string list" where
  "plan_takeover_modes = [''plan'', ''plan_mode'', ''approval_plan'']"

definition plan_text :: "pv \<Rightarrow> bool" where
  \<comment> \<open>\<open>str(v or "").strip().lower() in {...}\<close>\<close>
  "plan_text v \<longleftrightarrow> lower (candidate_text v) \<in> set plan_takeover_modes"

definition explicit_plan_mode_tools_enabled :: "pdict \<Rightarrow> bool" where
  "explicit_plan_mode_tools_enabled ctx \<longleftrightarrow>
     any_true ctx [''_plan_mode'', ''_allow_plan_mode_tools''] \<or>
     (case sub_dict ctx ''routing'' of
        None \<Rightarrow> False
      | Some routing \<Rightarrow>
          any_true routing [''planModeToolsEnabled'', ''plan_mode_tools_enabled'', ''explicitPlanMode'', ''explicit_plan_mode''] \<or>
          (case sub_dict routing ''mainWorkflow'' of
             None \<Rightarrow> False
           | Some w \<Rightarrow> (case sub_dict w ''userTakeover'' of None \<Rightarrow> False | Some t \<Rightarrow> plan_text (dget t ''mode'')))) \<or>
     plan_text (por (dget ctx ''mode'') (dget ctx ''executionMode''))"

definition ask_user_question_enabled :: "pdict \<Rightarrow> bool" where
  "ask_user_question_enabled ctx \<longleftrightarrow>
     is_true (dget ctx ''_allow_ask_user_question'') \<or> truthy (dget ctx ''_pending_user_question'') \<or>
     explicit_plan_mode_tools_enabled ctx \<or>
     (case sub_dict ctx ''routing'' of
        None \<Rightarrow> False
      | Some routing \<Rightarrow>
          any_true routing [''allowAskUserQuestion'', ''allow_ask_user_question'', ''requiresUserInput'',
            ''requires_user_input'', ''userInputRequired'', ''user_input_required''] \<or>
          (case sub_dict routing ''mainWorkflow'' of
             None \<Rightarrow> False
           | Some w \<Rightarrow> any_true w [''allowAskUserQuestion'', ''requiresUserInput'', ''userInputRequired'']))"

definition profile_tool_policy :: "pdict \<Rightarrow> string" where
  "profile_tool_policy ctx =
     (case sub_dict ctx ''routing'' of
        None \<Rightarrow> ''''
      | Some routing \<Rightarrow>
          (case filter (\<lambda>t. t \<noteq> '''') (map candidate_text
              (dgets routing [''toolPolicy'', ''tool_policy''] @
               from_sub routing ''profile'' (\<lambda>p. dgets p [''toolPolicy'', ''tool_policy'']))) of
             [] \<Rightarrow> ''''
           | t # _ \<Rightarrow> t))"

section \<open>Names allowed for phase and role\<close>

type_synonym reasons = "(string \<times> string) list"

definition child_names :: "pdict \<Rightarrow> string list" where
  \<comment> \<open>\<open>set(child_allowlist or READ_ONLY_TOOLS) - SUBAGENT_TOOLS - SUBAGENT_CONTINUATION_TOOLS\<close>\<close>
  "child_names ctx =
     filter (\<lambda>n. n \<notin> set subagent_tools \<and> n \<notin> set subagent_continuation_tools)
       (case child_allowlist ctx of None \<Rightarrow> read_only_tools | Some ns \<Rightarrow> if ns = [] then read_only_tools else ns)"

definition role_names :: "string \<Rightarrow> string \<Rightarrow> string list" where
  \<comment> \<open>the names by role and phase, before the limit for children\<close>
  "role_names phase runtime_role =
     (let names = read_only_tools @
            (if runtime_role \<in> {''root'', ''planner''} then subagent_tools @ subagent_continuation_tools else []) @
            (if phase \<in> {''execution'', ''recovery''} \<and> runtime_role \<in> {''root'', ''worker''} then write_tools else [])
      in if runtime_role \<in> {''reviewer'', ''summarizer''}
         then filter (\<lambda>n. n \<in> set read_only_tools) names else names)"

definition limit_to_child :: "pdict \<Rightarrow> string list \<Rightarrow> string list" where
  "limit_to_child ctx names =
     filter (\<lambda>n. n \<in> set (child_names ctx) \<and> n \<noteq> ''mcp__*'') names @
     (if ''mcp__*'' \<in> set (child_names ctx) then [''mcp__*''] else [])"

definition child_context :: "pdict \<Rightarrow> bool" where
  "child_context ctx \<longleftrightarrow> child_allowlist ctx \<noteq> None \<or> is_true (dget ctx ''_child_worker'')"

definition allowed_names :: "string \<Rightarrow> string \<Rightarrow> pdict \<Rightarrow> string list \<times> reasons" where
  "allowed_names phase runtime_role ctx =
     (let with_ask = (\<lambda>ns. ns @ (if ask_user_question_enabled ctx then ask_tools else [])) in
      if phase \<in> {''synthesis'', ''approval_waiting''} then ([], [])
      else if no_tool_constraint ctx \<noteq> '''' then
        ([], [(''*'', ''explicit user constraint disables tools ('' @ no_tool_constraint ctx @ '')'')])
      else if phase = ''plan_mode'' then (with_ask plan_mode_tools, [])
      else if profile_tool_policy ctx = ''cleanup_noise'' \<and> runtime_role \<in> {''root'', ''worker''} then
        (with_ask minimal_cleanup_tools, [(''*'', ''cleanup_noise profile limits tools to minimal inspection and cleanup'')])
      else if read_only_constraint ctx \<noteq> '''' \<and> runtime_role \<in> set runtime_roles then
        (with_ask (read_only_tools @ ask_tools) @
         (if explicit_plan_mode_tools_enabled ctx then [''enter_plan_mode'', ''exit_plan_mode''] else []) @
         (if runtime_role \<in> {''root'', ''planner''} then subagent_tools @ subagent_continuation_tools else []),
         [(''*'', ''read-only user constraint limits tool visibility ('' @ read_only_constraint ctx @ '')'')])
      else if runtime_role \<in> {''root'', ''worker''} \<and> child_allowlist ctx = None \<and> \<not> is_true (dget ctx ''_child_worker'') then
        ([''*''], [])
      else if child_context ctx then
        (limit_to_child ctx (role_names phase runtime_role), [(''*'', ''child worker tools are limited by child allowlist'')])
      else (role_names phase runtime_role, []))"

definition tool_allowed_by_default_all :: "string \<Rightarrow> pdict \<Rightarrow> bool" where
  "tool_allowed_by_default_all name ctx =
     (if read_only_constraint ctx \<noteq> '''' then
        (if name \<in> {''enter_plan_mode'', ''exit_plan_mode''} \<and> explicit_plan_mode_tools_enabled ctx then True
         else name \<in> set read_only_tools \<or> name \<in> set ask_tools)
      else if name \<notin> set control_flow_tools then True
      else if name \<in> set ask_tools then True
      else explicit_plan_mode_tools_enabled ctx)"

definition denied_reason :: "string \<Rightarrow> string \<Rightarrow> string \<Rightarrow> pdict \<Rightarrow> string" where
  "denied_reason name phase runtime_role ctx =
     (if phase \<in> {''synthesis'', ''approval_waiting''} then ''phase='' @ phase @ '' exposes no tools''
      else if name = ''ask_user_question'' \<and> \<not> ask_user_question_enabled ctx then
        ''ask_user_question is hidden unless user input is explicitly required''
      else if name \<in> set write_tools \<and> read_only_constraint ctx \<noteq> '''' then
        ''tool '' @ name @ '' hidden by explicit read-only user constraint''
      else if runtime_role \<in> {''reviewer'', ''summarizer''} \<and> name \<notin> set read_only_tools then
        ''runtimeRole='' @ runtime_role @ '' is read-only''
      else ''tool not allowed for phase='' @ phase @ '' runtimeRole='' @ runtime_role)"

section \<open>The gates after the phase\<close>

definition ask_suppressed_reason :: "string \<Rightarrow> pdict \<Rightarrow> pdict list \<Rightarrow> string option" where
  "ask_suppressed_reason name ctx results =
     (if name \<noteq> ''ask_user_question'' then None
      else if ask_user_question_enabled ctx then None
      else if \<not> low_risk_question_defaulted (rev results) then None
      else Some ''ask_user_question is hidden after a low-risk question was defaulted; continue with sensible defaults'')"

definition continuation_block_reason :: "string \<Rightarrow> pdict \<Rightarrow> pdict list \<Rightarrow> string option" where
  "continuation_block_reason name ctx results =
     (if name \<notin> set subagent_tools \<or> \<not> allow_tools_after_task_results ctx then None
      else
        let completed = ready_task_result_count results in
        if completed = 0 then None
        else case max_task_tool_calls ctx of
            Some m \<Rightarrow>
              if int completed < m then None
              else Some (''task tool budget exhausted after '' @ int_str (int completed) @ ''/'' @ int_str m @
                     '' completed child task result(s)'')
          | None \<Rightarrow>
              if allow_more_subtasks_after_task_results ctx then None
              else Some ''task tool is withheld after a child result; parent may continue with non-task tools'')"

definition skill_policy :: "pdict \<Rightarrow> pdict option res" where
  "skill_policy ctx =
     (case por (dget ctx ''skillPolicy'') (dget ctx ''skill_policy'') of
        PDict p \<Rightarrow> Inr (Some p)
      | _ \<Rightarrow>
          (case por (dget ctx ''_build_result'') (PDict ctx) of
             PDict b \<Rightarrow>
               Inr (case dget b ''snapshot_metadata'' of
                      PDict meta \<Rightarrow> (case por (dget meta ''skillPolicy'') (dget meta ''skill_policy'') of
                         PDict p \<Rightarrow> Some p | _ \<Rightarrow> None)
                    | _ \<Rightarrow> None)
           | _ \<Rightarrow> Inl AttrErr))"

definition skill_allows_tool :: "string \<Rightarrow> pdict option \<Rightarrow> (bool \<times> string) res" where
  "skill_allows_tool name policy =
     (case policy of
        None \<Rightarrow> Inr (True, '''')
      | Some p \<Rightarrow>
          if p = [] then Inr (True, '''')
          else
            rbind (py_iter (por (por (dget p ''toolWhitelist'') (dget p ''tool_whitelist'')) (PList []))) (\<lambda>items.
              let mode = py_str (por (por (dget p ''toolPolicy'') (dget p ''tool_policy'')) (PStr ''strict_whitelist''));
                  whitelist = filter (\<lambda>s. s \<noteq> '''') (map the_str (filter is_str items))
              in Inr (if mode = ''inherit_all'' then (True, '''')
                 else if name \<in> set memory_and_scratchpad_tools \<or> name \<in> set control_flow_tools then (True, '''')
                 else if mode = ''inherit_mcp'' \<and> starts ''mcp__'' name then (True, '''')
                 else if name \<in> set whitelist then (True, '''')
                 else (False, ''skill='' @ py_str (por (por (dget p ''skillId'') (dget p ''skill_id'')) (PStr ''<unknown>'')) @
                   '' policy='' @ mode @ '' does not allow tool '' @ name))))"

definition mcp_policy :: "pdict \<Rightarrow> pdict option" where
  "mcp_policy ctx =
     (case por (dget ctx ''mcpPolicy'') (dget ctx ''mcp_policy'') of
        PDict p \<Rightarrow> Some p
      | _ \<Rightarrow>
          (case sub_dict ctx ''config'' of
             None \<Rightarrow> None
           | Some config \<Rightarrow>
               (case sub_dict config ''mcpPolicy'' of
                  Some p \<Rightarrow> Some p
                | None \<Rightarrow>
                    (case sub_dict config ''mcp_policy'' of
                       Some p \<Rightarrow> Some p
                     | None \<Rightarrow>
                         (case sub_dict config ''mcp'' of
                            None \<Rightarrow> None
                          | Some mcp \<Rightarrow>
                              (case por (por (dget mcp ''policy'') (dget mcp ''serverPolicy'')) (dget mcp ''server_policy'') of
                                 PDict p \<Rightarrow> Some p | _ \<Rightarrow> None))))))"

fun split_dunder :: "string \<Rightarrow> (string \<times> string) option" where
  \<comment> \<open>\<open>s.split("__", 1)\<close> when the separator occurs\<close>
  "split_dunder (a # b # s) =
     (if a = CHR ''_'' \<and> b = CHR ''_'' then Some ('''', s)
      else map_option (\<lambda>(u, v). (a # u, v)) (split_dunder (b # s)))"
| "split_dunder s = None"

definition mcp_parts :: "string \<Rightarrow> string \<times> string" where
  "mcp_parts name =
     (case split_dunder name of
        None \<Rightarrow> ('''', name)
      | Some (_, rest) \<Rightarrow> (case split_dunder rest of None \<Rightarrow> ('''', name) | Some (server, tool) \<Rightarrow> (server, tool)))"

definition string_set :: "pdict \<Rightarrow> string list \<Rightarrow> string list" where
  "string_set policy keys =
     concat (map (\<lambda>k. filter (\<lambda>s. s \<noteq> '''') (map the_str (filter is_str (the_list (dget policy k))))) keys)"

definition mcp_allows_tool :: "string \<Rightarrow> pdict option \<Rightarrow> bool \<times> string" where
  "mcp_allows_tool name policy =
     (case policy of
        None \<Rightarrow> (True, '''')
      | Some p \<Rightarrow>
          if \<not> starts ''mcp__'' name \<or> p = [] then (True, '''')
          else if py_str (por (dget p ''mode'') (PStr ''allow'')) \<in> {''disabled'', ''blocked'', ''deny''} then
            (False, ''MCP tools are disabled by MCP policy'')
          else
            let (server_id, raw_tool) = mcp_parts name;
                blocked_servers = string_set p [''blockedServers'', ''serverDenylist'', ''blocked_servers'', ''server_denylist''];
                allowed_servers = string_set p [''allowedServers'', ''serverAllowlist'', ''allowed_servers'', ''server_allowlist''];
                blocked_tools = string_set p [''blockedTools'', ''toolDenylist'', ''blocked_tools'', ''tool_denylist''];
                allowed_tools = string_set p [''allowedTools'', ''toolAllowlist'', ''allowed_tools'', ''tool_allowlist'']
            in if server_id \<in> set blocked_servers then
                 (False, ''MCP server '' @ repr_str server_id @ '' is blocked by MCP policy'')
               else if allowed_servers \<noteq> [] \<and> server_id \<notin> set allowed_servers then
                 (False, ''MCP server '' @ repr_str server_id @ '' is not in MCP server allowlist'')
               else if name \<in> set blocked_tools \<or> raw_tool \<in> set blocked_tools then
                 (False, ''MCP tool '' @ repr_str name @ '' is blocked by MCP policy'')
               else if allowed_tools \<noteq> [] \<and> name \<notin> set allowed_tools \<and> raw_tool \<notin> set allowed_tools then
                 (False, ''MCP tool '' @ repr_str name @ '' is not in MCP tool allowlist'')
               else (True, ''''))"

definition turn_engine :: "pdict \<Rightarrow> engine option res" where
  \<comment> \<open>\<open>_permission_engine\<close>\<close>
  "turn_engine ctx =
     (case dget ctx ''config'' of
        PDict config \<Rightarrow> rbind (new_engine (PDict config)) (\<lambda>e. Inr (Some e))
      | _ \<Rightarrow> Inr None)"

definition turn_permission :: "engine option \<Rightarrow> string \<Rightarrow> pdict \<Rightarrow> pdict list \<Rightarrow> permission_decision option" where
  \<comment> \<open>\<open>_permission_decision\<close>\<close>
  "turn_permission eng name ctx signals =
     (case eng of
        None \<Rightarrow> None
      | Some e \<Rightarrow>
          (case tool_capability name of
             None \<Rightarrow> None
           | Some cap \<Rightarrow>
               Some (decide e \<lparr>capability = cap, tool_name = name,
                 request_context = (if signals = [] then ctx
                   else dput ''untrustedContentSignals'' (PList (map PDict signals)) ctx)\<rparr>)))"

section \<open>Resolution\<close>

record turn =
  t_phase :: string
  t_role :: string
  t_ctx :: pdict
  t_results :: "pdict list"
  t_allowed :: "string list"
  t_engine :: "engine option"
  t_skill :: "pdict option"
  t_mcp :: "pdict option"
  t_signals :: "pdict list"

text \<open>
  What happens to one tool: its detail entry and, when it is refused, the reason and whether an
  earlier reason for the same name is kept (\<open>setdefault\<close>).
\<close>

datatype outcome = Granted pdict | Refused string bool pdict

definition refused_detail :: "string \<Rightarrow> pdict" where
  "refused_detail why = [(''finalDecision'', PStr ''denied''), (''reason'', PStr why)]"

definition yes_no :: "bool \<Rightarrow> pv" where
  "yes_no b = PStr (if b then ''allowed'' else ''denied'')"

definition phase_allows :: "turn \<Rightarrow> string \<Rightarrow> bool" where
  "phase_allows t name =
     (if name \<in> set subagent_continuation_tools \<and> t_phase t \<noteq> ''post_task_continuation'' then False
      else (''*'' \<in> set (t_allowed t) \<and> tool_allowed_by_default_all name (t_ctx t)) \<or>
           name \<in> set (t_allowed t) \<or>
           (starts ''mcp__'' name \<and> ''mcp__*'' \<in> set (t_allowed t)))"

definition decision_str :: "decision \<Rightarrow> string" where
  "decision_str d = (case d of Allow \<Rightarrow> ''allow'' | ApprovalRequired \<Rightarrow> ''approval_required'' | Deny \<Rightarrow> ''deny'')"

definition permission_detail :: "permission_decision option \<Rightarrow> pdict list \<Rightarrow> pdict" where
  "permission_detail perm signals =
     (case perm of
        None \<Rightarrow> []
      | Some p \<Rightarrow> [(''permissionDecision'', PStr (decision_str (decision p))), (''capability'', PStr (dcapability p))] @
          (if approval_kind p \<noteq> '''' then [(''approvalKind'', PStr (approval_kind p))] else [])) @
     (if signals \<noteq> [] then [(''untrustedContentSignals'', PList (map PDict signals))] else [])"

definition permission_outcome :: "turn \<Rightarrow> string \<Rightarrow> pdict \<Rightarrow> outcome" where
  \<comment> \<open>the last gate; the detail entry so far is the last argument\<close>
  "permission_outcome t name d =
     (let perm = turn_permission (t_engine t) name (t_ctx t) (t_signals t);
          d' = d @ permission_detail perm (t_signals t)
      in case perm of
           None \<Rightarrow> Granted (d' @ [(''finalDecision'', PStr ''allowed'')])
         | Some p \<Rightarrow>
             if decision p = Deny then
               let r = (if reason p \<noteq> '''' then reason p else ''tool '' @ name @ '' denied by PermissionEngine'')
               in Refused r False (d' @ refused_detail r)
             else Granted (d' @ [(''finalDecision'', PStr ''allowed'')] @
               (if decision p = ApprovalRequired then [(''requiresApproval'', PBool True)] else [])))"

definition tool_outcome :: "turn \<Rightarrow> string \<Rightarrow> pdict \<Rightarrow> outcome res" where
  \<comment> \<open>the loop body for a tool with this name\<close>
  "tool_outcome t name tool =
     (let d0 = [(''toolName'', PStr name),
                (''source'', PStr (if starts ''mcp__'' name \<or> truthy (dget tool ''_mcp_server_id'') then ''mcp'' else ''builtin'')),
                (''phaseDecision'', yes_no (phase_allows t name))]
      in if \<not> phase_allows t name then
           (let r = denied_reason name (t_phase t) (t_role t) (t_ctx t) in Inr (Refused r True (d0 @ refused_detail r)))
         else case ask_suppressed_reason name (t_ctx t) (t_results t) of
             Some r \<Rightarrow> Inr (Refused r False (d0 @ refused_detail r))
           | None \<Rightarrow>
               let d1 = d0 @ (if name \<in> set subagent_tools
                     then [(''toolContinuationPolicy'', PDict (tool_continuation_policy (t_ctx t)))] else [])
               in case continuation_block_reason name (t_ctx t) (t_results t) of
                    Some r \<Rightarrow> Inr (Refused r False (d1 @ [(''continuationDecision'', PStr ''denied'')] @ refused_detail r))
                  | None \<Rightarrow>
                      rbind (skill_allows_tool name (t_skill t)) (\<lambda>(skill_ok, skill_reason).
                        let d2 = d1 @ [(''skillDecision'', yes_no skill_ok)] in
                        if \<not> skill_ok then Inr (Refused skill_reason False (d2 @ refused_detail skill_reason))
                        else
                          let (mcp_ok, mcp_reason) = mcp_allows_tool name (t_mcp t); d3 = d2 @ [(''mcpDecision'', yes_no mcp_ok)] in
                          if \<not> mcp_ok then Inr (Refused mcp_reason False (d3 @ refused_detail mcp_reason))
                          else Inr (permission_outcome t name d3)))"

record resolution =
  r_allowed :: "pdict list"
  r_denied :: "string list"
  r_reasons :: reasons
  r_details :: "pdict list"

definition add_reason :: "string \<Rightarrow> string \<Rightarrow> bool \<Rightarrow> reasons \<Rightarrow> reasons" where
  "add_reason name r keep rs = (if keep \<and> map_of rs name \<noteq> None then rs else AList.update name r rs)"

definition resolve_tool :: "turn \<Rightarrow> pdict \<Rightarrow> resolution \<Rightarrow> resolution res" where
  "resolve_tool t tool s =
     (case registered_name tool of
        None \<Rightarrow> Inr s
      | Some name \<Rightarrow>
          if name = '''' then Inr s
          else rbind (tool_outcome t name tool) (\<lambda>outcome. Inr (case outcome of
              Granted d \<Rightarrow> s\<lparr>r_allowed := r_allowed s @ [tool], r_details := r_details s @ [d]\<rparr>
            | Refused r keep d \<Rightarrow> s\<lparr>r_denied := r_denied s @ [name], r_reasons := add_reason name r keep (r_reasons s),
                r_details := r_details s @ [d]\<rparr>)))"

record tool_policy_decision =
  p_phase :: string
  p_role :: string
  p_agent_type :: string
  p_allowed_tools :: "pdict list"
  p_allowed_names :: "string list"
  p_denied_names :: "string list"
  p_reasons :: reasons
  p_details :: "pdict list"
  p_snapshot :: pdict

definition turn_signals :: "pdict \<Rightarrow> pdict list \<Rightarrow> pdict list" where
  \<comment> \<open>\<open>untrusted_content_signals\<close>\<close>
  "turn_signals ctx results = collect_untrusted_content_signals (PDict (dput ''tool_results'' (PList (map PDict results)) ctx))"

definition make_turn :: "pdict \<Rightarrow> pdict \<Rightarrow> pdict list \<Rightarrow> string \<Rightarrow> turn res" where
  "make_turn task ctx results role =
     (let phase = phase_of task ctx results role in
      rbind (turn_engine ctx) (\<lambda>eng.
      rbind (skill_policy ctx) (\<lambda>skill.
        Inr \<lparr>t_phase = phase, t_role = role, t_ctx = ctx, t_results = results,
             t_allowed = fst (allowed_names phase role ctx), t_engine = eng, t_skill = skill,
             t_mcp = mcp_policy ctx, t_signals = turn_signals ctx results\<rparr>)))"

definition resolve :: "pdict \<Rightarrow> pdict \<Rightarrow> pdict list \<Rightarrow> pdict list \<Rightarrow> tool_policy_decision res" where
  "resolve task ctx results tools =
     (let snap = role_snapshot task ctx in
      if \<not> dhas snap ''runtimeRole'' \<or> \<not> dhas snap ''agentType'' then Inl KeyErr
      else
        let role = py_str (dget snap ''runtimeRole'') in
        rbind (make_turn task ctx results role) (\<lambda>t.
        rbind (rfold (resolve_tool t) tools
            \<lparr>r_allowed = [], r_denied = [], r_reasons = snd (allowed_names (t_phase t) role ctx), r_details = []\<rparr>) (\<lambda>s.
          Inr \<lparr>p_phase = t_phase t, p_role = role, p_agent_type = py_str (dget snap ''agentType''),
               p_allowed_tools = r_allowed s,
               p_allowed_names = filter (\<lambda>n. n \<noteq> '''') (List.map_filter registered_name (r_allowed s)),
               p_denied_names = r_denied s, p_reasons = r_reasons s, p_details = r_details s, p_snapshot = snap\<rparr>)))"

end
