(* ===== verification/ToolGates.thy ===== *)
theory ToolGates
  imports ToolPolicy
begin

text \<open>
  What the resolver of \<open>policy/tool_policy_resolver.py\<close> guarantees: every named tool is decided
  once, a granted tool has passed every gate, and the gates restrict what each phase, role and
  user constraint may expose.
\<close>

section \<open>The loop over the registered tools\<close>

definition tool_label :: "pdict \<Rightarrow> string option" where
  \<comment> \<open>the non-empty name of a tool\<close>
  "tool_label tool = (case registered_name tool of Some n \<Rightarrow> if n = '''' then None else Some n | None \<Rightarrow> None)"

primrec labels :: "pdict list \<Rightarrow> string list" where
  "labels [] = []"
| "labels (x # xs) = (case tool_label x of None \<Rightarrow> labels xs | Some n \<Rightarrow> n # labels xs)"

lemma labels_append [simp]: "labels (xs @ ys) = labels xs @ labels ys"
  by (induction xs) (auto split: option.split)

lemma labels_registered: "filter (\<lambda>n. n \<noteq> '''') (List.map_filter registered_name tools) = labels tools"
  by (induction tools) (auto simp: map_filter_simps tool_label_def split: option.split)

lemma resolve_tool_cases:
  assumes "resolve_tool t tool s = Inr s'"
  obtains (skip) "tool_label tool = None" "s' = s"
  | (granted) n d where "tool_label tool = Some n" "tool_outcome t n tool = Inr (Granted d)"
      "s' = s\<lparr>r_allowed := r_allowed s @ [tool], r_details := r_details s @ [d]\<rparr>"
  | (refused) n r k d where "tool_label tool = Some n" "tool_outcome t n tool = Inr (Refused r k d)"
      "s' = s\<lparr>r_denied := r_denied s @ [n], r_reasons := add_reason n r k (r_reasons s), r_details := r_details s @ [d]\<rparr>"
proof (cases "tool_label tool")
  case None
  then have "s' = s" using assms by (auto simp: resolve_tool_def tool_label_def split: option.splits if_splits)
  with None show thesis by (rule skip)
next
  case (Some n)
  then have "registered_name tool = Some n" "n \<noteq> ''''" by (auto simp: tool_label_def split: option.splits if_splits)
  with assms obtain out where o: "tool_outcome t n tool = Inr out"
    and s': "s' = (case out of
              Granted d \<Rightarrow> s\<lparr>r_allowed := r_allowed s @ [tool], r_details := r_details s @ [d]\<rparr>
            | Refused r keep d \<Rightarrow> s\<lparr>r_denied := r_denied s @ [n], r_reasons := add_reason n r keep (r_reasons s),
                r_details := r_details s @ [d]\<rparr>)"
    by (auto simp: resolve_tool_def rbind_eq_Inr)
  show thesis
  proof (cases out)
    case (Granted d)
    then show thesis using granted [OF Some] o s' by simp
  next
    case (Refused r k d)
    then show thesis using refused [OF Some] o s' by simp
  qed
qed

definition detail_names :: "pdict list \<Rightarrow> pv list" where
  "detail_names ds = map (\<lambda>d. dget d ''toolName'') ds"

definition outcome_entry :: "outcome \<Rightarrow> pdict" where
  "outcome_entry out = (case out of Granted d \<Rightarrow> d | Refused r k d \<Rightarrow> d)"

lemma permission_outcome_entry: "\<exists>e. outcome_entry (permission_outcome t n d) = d @ e"
  by (simp add: permission_outcome_def outcome_entry_def Let_def split: option.split)

text \<open>The gates of one tool, each followed by what it adds to the detail entry.\<close>

lemma tool_outcome_cases:
  assumes "tool_outcome t n tool = Inr out"
  obtains (phase) d where "\<not> phase_allows t n" "out = Refused (denied_reason n (t_phase t) (t_role t) (t_ctx t)) True d"
      "dget d ''toolName'' = PStr n"
  | (ask) r d where "phase_allows t n" "ask_suppressed_reason n (t_ctx t) (t_results t) = Some r" "out = Refused r False d"
      "dget d ''toolName'' = PStr n"
  | (continuation) r d where "phase_allows t n" "continuation_block_reason n (t_ctx t) (t_results t) = Some r"
      "out = Refused r False d" "dget d ''toolName'' = PStr n"
  | (skill) r d where "phase_allows t n" "skill_allows_tool n (t_skill t) = Inr (False, r)" "out = Refused r False d"
      "dget d ''toolName'' = PStr n"
  | (mcp) r d where "phase_allows t n" "mcp_allows_tool n (t_mcp t) = (False, r)" "out = Refused r False d"
      "dget d ''toolName'' = PStr n"
  | (permission) d where "phase_allows t n" "ask_suppressed_reason n (t_ctx t) (t_results t) = None"
      "continuation_block_reason n (t_ctx t) (t_results t) = None" "fst (mcp_allows_tool n (t_mcp t))"
      "\<exists>r. skill_allows_tool n (t_skill t) = Inr (True, r)" "out = permission_outcome t n d"
      "dget d ''toolName'' = PStr n"
proof (cases "phase_allows t n")
  case False
  then show thesis using assms phase by (auto simp: tool_outcome_def Let_def dget_Cons)
next
  case ph: True
  show thesis
  proof (cases "ask_suppressed_reason n (t_ctx t) (t_results t)")
    case (Some r)
    then show thesis using assms ph ask by (auto simp: tool_outcome_def Let_def dget_Cons)
  next
    case noask: None
    show thesis
    proof (cases "continuation_block_reason n (t_ctx t) (t_results t)")
      case (Some r)
      then show thesis using assms ph noask continuation by (auto simp: tool_outcome_def Let_def dget_Cons)
    next
      case nocont: None
      obtain ok r where sk: "skill_allows_tool n (t_skill t) = Inr (ok, r)"
        using assms ph noask nocont by (auto simp: tool_outcome_def Let_def rbind_eq_Inr)
      obtain mok mr where mc: "mcp_allows_tool n (t_mcp t) = (mok, mr)" by (cases "mcp_allows_tool n (t_mcp t)")
      show thesis
      proof (cases ok)
        case False
        then show thesis using assms ph noask nocont sk skill by (auto simp: tool_outcome_def Let_def dget_Cons)
      next
        case okt: True
        show thesis
        proof (cases mok)
          case False
          then show thesis using assms ph noask nocont sk okt mc mcp by (auto simp: tool_outcome_def Let_def dget_Cons)
        next
          case True
          then show thesis using assms ph noask nocont sk okt mc permission by (auto simp: tool_outcome_def Let_def dget_Cons)
        qed
      qed
    qed
  qed
qed

lemma dget_append_key: "dget d k = PStr n \<Longrightarrow> dget (d @ e) k = PStr n"
  by (auto simp: dget_def map_add_def split: option.splits)

lemma outcome_detail: "tool_outcome t n tool = Inr out \<Longrightarrow> dget (outcome_entry out) ''toolName'' = PStr n"
proof (erule tool_outcome_cases)
  fix d assume "out = permission_outcome t n d" "dget d ''toolName'' = PStr n"
  then show ?thesis using permission_outcome_entry [of t n d] dget_append_key by metis
qed (simp_all add: outcome_entry_def)

lemma resolve_loop:
  "rfold (resolve_tool t) tools s = Inr s' \<Longrightarrow>
     mset (labels (r_allowed s')) + mset (r_denied s') = mset (labels (r_allowed s)) + mset (r_denied s) + mset (labels tools) \<and>
     detail_names (r_details s') = detail_names (r_details s) @ map PStr (labels tools) \<and>
     (\<exists>us. r_allowed s' = r_allowed s @ us \<and> subseq us tools \<and>
        (\<forall>tool \<in> set us. \<exists>n d. tool_label tool = Some n \<and> tool_outcome t n tool = Inr (Granted d)))"
proof (induction tools arbitrary: s)
  case Nil
  then show ?case by simp
next
  case (Cons tool tools)
  from Cons.prems obtain s1 where s1: "resolve_tool t tool s = Inr s1" "rfold (resolve_tool t) tools s1 = Inr s'"
    by (auto simp: rbind_eq_Inr)
  note ih = Cons.IH [OF s1(2)]
  from ih obtain us where us: "r_allowed s' = r_allowed s1 @ us" "subseq us tools"
    "\<forall>tool \<in> set us. \<exists>n d. tool_label tool = Some n \<and> tool_outcome t n tool = Inr (Granted d)" by blast
  from s1(1) show ?case
  proof (cases rule: resolve_tool_cases)
    case skip
    then show ?thesis using ih us by auto
  next
    case (granted n d)
    have "dget d ''toolName'' = PStr n" using outcome_detail [OF granted(2)] by (simp add: outcome_entry_def)
    moreover have "\<exists>vs. r_allowed s' = r_allowed s @ vs \<and> subseq vs (tool # tools) \<and>
        (\<forall>tool \<in> set vs. \<exists>n d. tool_label tool = Some n \<and> tool_outcome t n tool = Inr (Granted d))"
      using granted us by (intro exI [of _ "tool # us"]) auto
    ultimately show ?thesis using ih granted by (simp add: detail_names_def)
  next
    case (refused n r k d)
    have "dget d ''toolName'' = PStr n" using outcome_detail [OF refused(2)] by (simp add: outcome_entry_def)
    moreover have "\<exists>vs. r_allowed s' = r_allowed s @ vs \<and> subseq vs (tool # tools) \<and>
        (\<forall>tool \<in> set vs. \<exists>n d. tool_label tool = Some n \<and> tool_outcome t n tool = Inr (Granted d))"
      using refused us by (intro exI [of _ us]) auto
    ultimately show ?thesis using ih refused by (simp add: detail_names_def)
  qed
qed

lemma resolve_parts:
  assumes "resolve task ctx results tools = Inr d"
  obtains t s where "make_turn task ctx results (p_role d) = Inr t"
    "rfold (resolve_tool t) tools \<lparr>r_allowed = [], r_denied = [], r_reasons = snd (allowed_names (t_phase t) (p_role d) ctx),
       r_details = []\<rparr> = Inr s"
    "p_phase d = t_phase t" "p_allowed_tools d = r_allowed s" "p_allowed_names d = labels (r_allowed s)"
    "p_denied_names d = r_denied s" "p_details d = r_details s"
  using assms unfolding resolve_def Let_def
  by (auto simp: rbind_eq_Inr labels_registered split: if_splits)

text \<open>
  Resolution decides every named registered tool exactly once: the allowed and the denied
  names together are the registered names with their multiplicities, the detail entries name
  the tools in registration order, and the allowed tools keep that order.
\<close>

theorem resolve_partition:
  assumes "resolve task ctx results tools = Inr d"
  shows "mset (p_allowed_names d) + mset (p_denied_names d) = mset (labels tools) \<and>
    detail_names (p_details d) = map PStr (labels tools) \<and> subseq (p_allowed_tools d) tools \<and>
    p_allowed_names d = labels (p_allowed_tools d)"
proof -
  from assms obtain t s where p: "rfold (resolve_tool t) tools \<lparr>r_allowed = [], r_denied = [],
       r_reasons = snd (allowed_names (t_phase t) (p_role d) ctx), r_details = []\<rparr> = Inr s"
    "p_allowed_tools d = r_allowed s" "p_allowed_names d = labels (r_allowed s)"
    "p_denied_names d = r_denied s" "p_details d = r_details s" by (rule resolve_parts)
  from resolve_loop [OF p(1)] show ?thesis using p(2-) by (auto simp: detail_names_def)
qed

section \<open>What the gates guarantee\<close>

definition permission_passes :: "turn \<Rightarrow> string \<Rightarrow> bool" where
  "permission_passes t n \<longleftrightarrow>
     (case turn_permission (t_engine t) n (t_ctx t) (t_signals t) of None \<Rightarrow> True | Some p \<Rightarrow> decision p \<noteq> Deny)"

definition passes_gates :: "turn \<Rightarrow> string \<Rightarrow> bool" where
  \<comment> \<open>the specification of a granted tool: no gate objects\<close>
  "passes_gates t n \<longleftrightarrow>
     phase_allows t n \<and> ask_suppressed_reason n (t_ctx t) (t_results t) = None \<and>
     continuation_block_reason n (t_ctx t) (t_results t) = None \<and>
     (\<exists>r. skill_allows_tool n (t_skill t) = Inr (True, r)) \<and> fst (mcp_allows_tool n (t_mcp t)) \<and> permission_passes t n"

lemma permission_outcome_granted:
  "(\<exists>d'. permission_outcome t n d = Granted d') \<longleftrightarrow> permission_passes t n"
  by (simp add: permission_outcome_def permission_passes_def Let_def split: option.split)

lemma outcome_granted: "tool_outcome t n tool = Inr (Granted d) \<Longrightarrow> passes_gates t n"
proof (erule tool_outcome_cases)
  fix e assume "Granted d = permission_outcome t n e"
  then have "permission_passes t n" using permission_outcome_granted [of t n e] by metis
  moreover assume "phase_allows t n" "ask_suppressed_reason n (t_ctx t) (t_results t) = None"
      "continuation_block_reason n (t_ctx t) (t_results t) = None" "fst (mcp_allows_tool n (t_mcp t))"
      "\<exists>r. skill_allows_tool n (t_skill t) = Inr (True, r)"
  ultimately show ?thesis by (simp add: passes_gates_def)
qed simp_all

lemma outcome_refused: "tool_outcome t n tool = Inr (Refused r k d) \<Longrightarrow> \<not> passes_gates t n"
proof (erule tool_outcome_cases)
  fix e assume "Refused r k d = permission_outcome t n e"
  then have "\<not> permission_passes t n" using permission_outcome_granted [of t n e] by (metis outcome.distinct(1))
  then show ?thesis by (simp add: passes_gates_def)
qed (simp_all add: passes_gates_def)

lemma labels_set: "set (labels tools) = {n. \<exists>tool \<in> set tools. tool_label tool = Some n}"
  by (induction tools) (auto split: option.split)

lemma loop_gates:
  "rfold (resolve_tool t) tools s = Inr s' \<Longrightarrow>
     (\<forall>n \<in> set (labels (r_allowed s)). passes_gates t n) \<Longrightarrow> (\<forall>n \<in> set (r_denied s). \<not> passes_gates t n) \<Longrightarrow>
     (\<forall>n \<in> set (labels (r_allowed s')). passes_gates t n) \<and> (\<forall>n \<in> set (r_denied s'). \<not> passes_gates t n)"
proof (induction tools arbitrary: s)
  case Nil
  then show ?case by simp
next
  case (Cons tool tools)
  from Cons.prems(1) obtain s1 where s1: "resolve_tool t tool s = Inr s1" "rfold (resolve_tool t) tools s1 = Inr s'"
    by (auto simp: rbind_eq_Inr)
  from s1(1) have "(\<forall>n \<in> set (labels (r_allowed s1)). passes_gates t n) \<and> (\<forall>n \<in> set (r_denied s1). \<not> passes_gates t n)"
  proof (cases rule: resolve_tool_cases)
    case skip
    then show ?thesis using Cons.prems(2,3) by simp
  next
    case (granted n d)
    then show ?thesis using Cons.prems(2,3) outcome_granted [OF granted(2)] by simp
  next
    case (refused n r k d)
    then show ?thesis using Cons.prems(2,3) outcome_refused [OF refused(2)] by simp
  qed
  then show ?case by (intro Cons.IH [OF s1(2)]) (rule conjunct1, assumption, rule conjunct2, assumption)
qed

lemma resolve_passes:
  assumes "resolve task ctx results tools = Inr d"
  obtains t where "make_turn task ctx results (p_role d) = Inr t" "p_phase d = t_phase t"
    "\<And>n. n \<in> set (p_allowed_names d) \<Longrightarrow> passes_gates t n"
    "\<And>n. n \<in> set (p_denied_names d) \<Longrightarrow> \<not> passes_gates t n"
proof -
  from assms obtain t s where p: "make_turn task ctx results (p_role d) = Inr t"
    "rfold (resolve_tool t) tools \<lparr>r_allowed = [], r_denied = [],
       r_reasons = snd (allowed_names (t_phase t) (p_role d) ctx), r_details = []\<rparr> = Inr s" "p_phase d = t_phase t"
    "p_allowed_names d = labels (r_allowed s)" "p_denied_names d = r_denied s" by (rule resolve_parts)
  from loop_gates [OF p(2)] show thesis using that p by simp
qed

text \<open>
  C5. Resolution decides each tool by its gates alone: a registered name is allowed exactly when
  it passes the phase, the suppression of questions, the continuation limit, the skill policy,
  the MCP policy and the permission engine, so no name is both allowed and denied.
\<close>

theorem resolve_gates:
  assumes "resolve task ctx results tools = Inr d"
  shows "\<exists>t. make_turn task ctx results (p_role d) = Inr t \<and>
    set (p_allowed_names d) = {n \<in> set (labels tools). passes_gates t n} \<and>
    set (p_denied_names d) = {n \<in> set (labels tools). \<not> passes_gates t n}"
proof -
  from assms obtain t where t: "make_turn task ctx results (p_role d) = Inr t"
    "\<And>n. n \<in> set (p_allowed_names d) \<Longrightarrow> passes_gates t n" "\<And>n. n \<in> set (p_denied_names d) \<Longrightarrow> \<not> passes_gates t n"
    by (rule resolve_passes) blast
  from assms obtain t' s where p: "rfold (resolve_tool t') tools \<lparr>r_allowed = [], r_denied = [],
       r_reasons = snd (allowed_names (t_phase t') (p_role d) ctx), r_details = []\<rparr> = Inr s"
    "p_allowed_names d = labels (r_allowed s)" "p_denied_names d = r_denied s" by (rule resolve_parts)
  from resolve_loop [OF p(1)] have "mset (p_allowed_names d) + mset (p_denied_names d) = mset (labels tools)"
    using p(2,3) by simp
  then have "set (p_allowed_names d) \<union> set (p_denied_names d) = set (labels tools)" by (metis set_mset_mset set_mset_union)
  with t show ?thesis by blast
qed

lemma make_turn_fields:
  assumes "make_turn task ctx results role = Inr t"
  shows "t_ctx t = ctx" "t_role t = role" "t_results t = results" "t_allowed t = fst (allowed_names (t_phase t) role ctx)"
    "t_mcp t = mcp_policy ctx" "t_phase t = phase_of task ctx results role"
    "skill_policy ctx = Inr (t_skill t)" "turn_engine ctx = Inr (t_engine t)" "t_signals t = turn_signals ctx results"
  using assms by (auto simp: make_turn_def Let_def rbind_eq_Inr)

section \<open>What a phase exposes\<close>

lemma phase_allows_names:
  assumes "phase_allows t n"
  shows "''*'' \<in> set (t_allowed t) \<and> tool_allowed_by_default_all n (t_ctx t) \<or> n \<in> set (t_allowed t) \<or>
    starts ''mcp__'' n \<and> ''mcp__*'' \<in> set (t_allowed t)"
    and "n \<in> set subagent_continuation_tools \<Longrightarrow> t_phase t = ''post_task_continuation''"
  using assms by (auto simp: phase_allows_def split: if_splits)

lemma silent_phase_names: "phase \<in> {''synthesis'', ''approval_waiting''} \<Longrightarrow> fst (allowed_names phase role ctx) = []"
  by (simp add: allowed_names_def)

lemma no_tool_names: "no_tool_constraint ctx \<noteq> '''' \<Longrightarrow> fst (allowed_names phase role ctx) = []"
  by (simp add: allowed_names_def)

lemma plan_mode_names: "set (fst (allowed_names ''plan_mode'' role ctx)) \<subseteq> set (plan_mode_tools @ ask_tools)"
  by (auto simp: allowed_names_def)

lemma no_star_in_plan: "''*'' \<notin> set (plan_mode_tools @ ask_tools)" "''mcp__*'' \<notin> set (plan_mode_tools @ ask_tools)"
  by (simp_all add: plan_mode_tools_def read_only_tools_def ask_tools_def)

text \<open>
  The phase bounds what the model sees: synthesis, waiting for approval and an explicit
  no-tools constraint expose nothing; plan mode exposes the reading tools, leaving plan mode and
  the user question only; \<open>send_message\<close> is exposed only when continuing after subtasks.
\<close>

theorem phase_exposure:
  assumes "resolve task ctx results tools = Inr d"
  shows "(p_phase d \<in> {''synthesis'', ''approval_waiting''} \<longrightarrow> p_allowed_names d = []) \<and>
    (no_tool_constraint ctx \<noteq> '''' \<longrightarrow> p_allowed_names d = []) \<and>
    (p_phase d = ''plan_mode'' \<longrightarrow> set (p_allowed_names d) \<subseteq> set (plan_mode_tools @ ask_tools)) \<and>
    (''send_message'' \<in> set (p_allowed_names d) \<longrightarrow> p_phase d = ''post_task_continuation'')"
proof -
  from assms obtain t where t: "make_turn task ctx results (p_role d) = Inr t" "p_phase d = t_phase t"
    "\<And>n. n \<in> set (p_allowed_names d) \<Longrightarrow> passes_gates t n" by (rule resolve_passes) blast
  note f = make_turn_fields [OF t(1)]
  have ph: "n \<in> set (p_allowed_names d) \<Longrightarrow> phase_allows t n" for n using t(3) by (simp add: passes_gates_def)
  have empty: "fst (allowed_names (t_phase t) (p_role d) ctx) = [] \<Longrightarrow> p_allowed_names d = []"
  proof (rule ccontr)
    assume e: "fst (allowed_names (t_phase t) (p_role d) ctx) = []" and "p_allowed_names d \<noteq> []"
    then obtain n where "n \<in> set (p_allowed_names d)" by (meson list.set_sel(1))
    then show False using phase_allows_names(1) [OF ph, of n] f(4) e by simp
  qed
  have "set (p_allowed_names d) \<subseteq> set (plan_mode_tools @ ask_tools)" if p: "p_phase d = ''plan_mode''"
  proof
    fix n assume "n \<in> set (p_allowed_names d)"
    note n = phase_allows_names(1) [OF ph [OF this]]
    have sub: "set (t_allowed t) \<subseteq> set (plan_mode_tools @ ask_tools)"
      unfolding f(4) t(2) [symmetric] p by (rule plan_mode_names)
    show "n \<in> set (plan_mode_tools @ ask_tools)" using n sub no_star_in_plan by blast
  qed
  moreover have "''send_message'' \<in> set (p_allowed_names d) \<Longrightarrow> p_phase d = ''post_task_continuation''"
    using phase_allows_names(2) [OF ph] t(2) by (simp add: subagent_continuation_tools_def)
  moreover have "p_phase d \<in> {''synthesis'', ''approval_waiting''} \<Longrightarrow> p_allowed_names d = []"
    by (rule empty, rule silent_phase_names) (simp only: t(2))
  moreover have "no_tool_constraint ctx \<noteq> '''' \<Longrightarrow> p_allowed_names d = []"
    by (rule empty, rule no_tool_names)
  ultimately show ?thesis by blast
qed

section \<open>Read-only turns\<close>

definition read_only_exposure :: "string list" where
  "read_only_exposure = plan_mode_tools @ ask_tools @ [''enter_plan_mode''] @ subagent_tools @ subagent_continuation_tools"

lemma no_write_exposed: "list_all (\<lambda>n. n \<notin> set read_only_exposure \<and> \<not> starts ''mcp__'' n) write_tools"
  by code_simp

lemma write_tool_not_exposed: "n \<in> set write_tools \<Longrightarrow> n \<notin> set read_only_exposure" "n \<in> set write_tools \<Longrightarrow> \<not> starts ''mcp__'' n"
  using no_write_exposed unfolding list_all_iff by blast+

lemma read_only_names:
  assumes "read_only_constraint ctx \<noteq> ''''" "role \<in> set runtime_roles"
    "profile_tool_policy ctx \<noteq> ''cleanup_noise'' \<or> role \<notin> {''root'', ''worker''}"
  shows "set (fst (allowed_names phase role ctx)) \<subseteq> set read_only_exposure"
  using assms by (auto simp: allowed_names_def read_only_exposure_def plan_mode_tools_def)

lemma no_star_exposed: "''*'' \<notin> set read_only_exposure \<and> ''mcp__*'' \<notin> set read_only_exposure"
  by code_simp


section \<open>Children\<close>

lemma child_limit:
  "n \<in> set (limit_to_child ctx names) \<Longrightarrow> n \<in> set (child_names ctx)"
  by (auto simp: limit_to_child_def split: if_splits)

lemma set_if_filter: "set (if b then filter P xs else xs) \<subseteq> set xs"
  by auto

lemma set_if_list: "set (if b then xs else []) \<subseteq> set xs"
  by auto

lemma role_names_subset:
  "set (role_names phase role) \<subseteq> set read_only_tools \<union> set (subagent_tools @ subagent_continuation_tools) \<union> set write_tools"
  unfolding role_names_def Let_def
  by (rule subset_trans [OF set_if_filter]) (unfold set_append [of read_only_tools] set_append [of "if _ then _ else _"],
    intro Un_least; (rule subset_trans [OF set_if_list])?; blast)

lemma no_star_in_role_names: "''*'' \<notin> set (role_names phase role)"
proof -
  have "list_all (\<lambda>n. n \<noteq> ''*'') (read_only_tools @ (subagent_tools @ subagent_continuation_tools) @ write_tools)" by code_simp
  then have "''*'' \<notin> set read_only_tools \<union> set (subagent_tools @ subagent_continuation_tools) \<union> set write_tools"
    unfolding list_all_iff set_append by blast
  then show ?thesis using role_names_subset by blast
qed

lemma limit_to_child_cases:
  "n \<in> set (limit_to_child ctx names) \<Longrightarrow> n \<in> set names \<and> n \<in> set (child_names ctx) \<or> n = ''mcp__*''"
  by (auto simp: limit_to_child_def split: if_splits)

lemma child_turn_names:
  assumes "read_only_constraint ctx = ''''" "profile_tool_policy ctx \<noteq> ''cleanup_noise'' \<or> role \<notin> {''root'', ''worker''}"
    "phase \<noteq> ''plan_mode''" "child_context ctx"
  shows "set (fst (allowed_names phase role ctx)) \<subseteq> set (limit_to_child ctx (role_names phase role))"
proof -
  have a: "(role \<in> {''root'', ''worker''} \<and> child_allowlist ctx = None \<and> \<not> is_true (dget ctx ''_child_worker'')) = False"
    using assms(4) unfolding child_context_def by blast
  have b: "(profile_tool_policy ctx = ''cleanup_noise'' \<and> role \<in> {''root'', ''worker''}) = False" using assms(2) by blast
  show ?thesis using assms(1,3,4) unfolding allowed_names_def Let_def a b by (simp del: insert_iff)
qed

lemma child_names_no_delegation:
  "n \<in> set (child_names ctx) \<Longrightarrow> n \<notin> set subagent_tools \<and> n \<notin> set subagent_continuation_tools"
  by (simp add: child_names_def)

lemma delegation_not_mcp: "list_all (\<lambda>n. \<not> starts ''mcp__'' n) (subagent_tools @ subagent_continuation_tools)"
  by code_simp


section \<open>Concrete turns\<close>

definition ok :: "'e + 'a \<Rightarrow> ('a \<Rightarrow> bool) \<Rightarrow> bool" where
  "ok r P = (case r of Inl _ \<Rightarrow> False | Inr x \<Rightarrow> P x)"

lemma okE: "ok r P \<Longrightarrow> (\<And>x. r = Inr x \<Longrightarrow> P x \<Longrightarrow> thesis) \<Longrightarrow> thesis"
  by (auto simp: ok_def split: sum.splits)

definition tool_of :: "string \<Rightarrow> pdict" where
  "tool_of n = [(''name'', PStr n)]"

definition read_only_example :: pdict where
  "read_only_example = [(''readOnly'', PBool True)]"

lemma read_only_example_turn:
  "ok (resolve [] read_only_example [] [tool_of ''read_file'', tool_of ''write_file''])
      (\<lambda>d. p_role d = ''root'' \<and> p_phase d = ''investigation'' \<and> p_allowed_names d = [''read_file'']) \<and>
   profile_tool_policy read_only_example = ''''"
  by code_simp

definition child_example :: pdict where
  "child_example =
     [(''_child_worker'', PBool True), (''_child_tool_allowlist'', PList [PStr ''read_file'', PStr ''write_file'', PStr ''agent''])]"

lemma child_example_turn:
  "ok (resolve [(''role'', PStr ''worker'')] child_example [] [tool_of ''write_file'', tool_of ''agent''])
      (\<lambda>d. p_role d = ''worker'' \<and> p_phase d = ''execution'' \<and> p_allowed_names d = [''write_file'']) \<and>
   child_context child_example \<and> read_only_constraint child_example = '''' \<and> profile_tool_policy child_example = ''''"
  by code_simp

theorem resolve_partition_witness:
  "\<exists>d. resolve [] read_only_example [] [tool_of ''read_file'', tool_of ''write_file''] = Inr d \<and>
     mset (p_allowed_names d) + mset (p_denied_names d) = mset (labels [tool_of ''read_file'', tool_of ''write_file''])"
proof -
  from read_only_example_turn obtain d where d: "resolve [] read_only_example [] [tool_of ''read_file'', tool_of ''write_file''] = Inr d"
    by (auto elim: okE)
  from resolve_partition [OF d] show ?thesis using d by blast
qed

theorem resolve_gates_witness:
  "\<exists>d t. resolve [] read_only_example [] [tool_of ''read_file'', tool_of ''write_file''] = Inr d \<and>
     make_turn [] read_only_example [] (p_role d) = Inr t \<and>
     set (p_allowed_names d) = {n \<in> set (labels [tool_of ''read_file'', tool_of ''write_file'']). passes_gates t n}"
proof -
  from read_only_example_turn obtain d where "resolve [] read_only_example [] [tool_of ''read_file'', tool_of ''write_file''] = Inr d"
    by (auto elim: okE)
  with resolve_gates [OF this] show ?thesis by blast
qed

theorem phase_exposure_witness:
  "\<exists>d. resolve [(''status'', PStr ''waiting_approval'')] [] [] [tool_of ''read_file''] = Inr d \<and>
     p_phase d = ''approval_waiting'' \<and> p_allowed_names d = []"
proof -
  have "ok (resolve [(''status'', PStr ''waiting_approval'')] [] [] [tool_of ''read_file'']) (\<lambda>d. p_phase d = ''approval_waiting'')"
    by code_simp
  then obtain d where d: "resolve [(''status'', PStr ''waiting_approval'')] [] [] [tool_of ''read_file''] = Inr d"
    "p_phase d = ''approval_waiting''" by (rule okE)
  from phase_exposure [OF d(1)] have "p_allowed_names d = []" unfolding d(2) by blast
  with d show ?thesis by blast
qed



text \<open>
  Two configurations escape these limits. A planner child under a read-only constraint gets
  the delegation tools although its allowlist holds \<open>read_file\<close> only, because the read-only
  branch is taken before the child's; and the cleanup profile exposes \<open>run_command\<close> although its
  routing sets \<open>readOnly\<close>.
\<close>

theorem limits_escaped:
  "ok (resolve [] [(''runtimeRole'', PStr ''planner''), (''readOnly'', PBool True), (''_child_worker'', PBool True),
        (''_child_tool_allowlist'', PList [PStr ''read_file''])] [] [tool_of ''agent'', tool_of ''task'', tool_of ''read_file''])
      (\<lambda>d. p_allowed_names d = [''agent'', ''task'', ''read_file'']) \<and>
   ok (resolve [] [(''routing'', PDict [(''readOnly'', PBool True), (''toolPolicy'', PStr ''cleanup_noise'')])] []
        [tool_of ''run_command'', tool_of ''write_file''])
      (\<lambda>d. p_allowed_names d = [''run_command''])"
  by (intro conjI) code_simp+

end
