(* ===== verification/Collaboration.thy ===== *)
theory Collaboration
  imports Prelude "HOL-Library.Char_ord" "HOL-Library.List_Lexorder" "HOL-Library.Product_Lexorder"
begin

text \<open>
  The store of collaboration tasks, agent workers and messages (\<open>store/task_store.py\<close>,
  \<open>store/agent_store.py\<close>, with the argument checks of \<open>store/sqlite_store.py\<close>). A table is a
  list of rows in insertion order under their primary keys. The identifiers that \<open>new_id\<close> draws
  and the clock readings are arguments of the operations. A JSON column is the value it parses
  to; \<open>None\<close> is SQL's \<open>NULL\<close>. Every exception is raised before the first write or rolled
  back, so an operation returns either an exception or the answer with the new state.
\<close>

section \<open>Tables\<close>

type_synonym 'a table = "(string \<times> 'a) list"

definition upd_row :: "string \<Rightarrow> ('a \<Rightarrow> 'a) \<Rightarrow> 'a table \<Rightarrow> 'a table" where
  \<comment> \<open>\<open>UPDATE ... WHERE id = ?\<close>\<close>
  "upd_row k f t = map (\<lambda>(k', r). (k', if k' = k then f r else r)) t"

definition ins_row :: "string \<Rightarrow> 'a \<Rightarrow> 'a table \<Rightarrow> 'a table res" where
  "ins_row k r t = (if k \<in> fst ` set t then Inl IntegrityErr else Inr (t @ [(k, r)]))"

definition require_row :: "string \<Rightarrow> 'a table \<Rightarrow> 'a res" where
  "require_row k t = (case map_of t k of None \<Rightarrow> Inl ValueErr | Some r \<Rightarrow> Inr r)"

lemma map_of_upd_row [simp]: "map_of (upd_row k f t) k' = (if k' = k then map_option f (map_of t k') else map_of t k')"
  by (induction t) (auto simp: upd_row_def)

lemma map_fst_upd_row [simp]: "map fst (upd_row k f t) = map fst t"
  by (induction t) (auto simp: upd_row_def)

lemma ins_row_Inr: "ins_row k r t = Inr t' \<longleftrightarrow> k \<notin> fst ` set t \<and> t' = t @ [(k, r)]"
  by (auto simp: ins_row_def)

lemma map_of_ins_row: "ins_row k r t = Inr t' \<Longrightarrow> map_of t' = (map_of t)(k \<mapsto> r)"
  by (auto simp: ins_row_Inr map_of_append fun_eq_iff map_add_def split: option.split)
    (metis domI dom_map_of_conv_image_fst)

lemma require_row_Inr: "require_row k t = Inr r \<longleftrightarrow> map_of t k = Some r"
  by (simp add: require_row_def split: option.split)

section \<open>Arguments\<close>

definition require_non_empty :: "pdict \<Rightarrow> string \<Rightarrow> string res" where
  "require_non_empty params key =
     (case dget params key of
        PStr s \<Rightarrow> if strip s = '''' then Inl ValueErr else Inr (strip s)
      | _ \<Rightarrow> Inl ValueErr)"

definition optional_string :: "pdict \<Rightarrow> string \<Rightarrow> string option res" where
  "optional_string params key =
     (case dget params key of
        PNone \<Rightarrow> Inr None
      | PStr s \<Rightarrow> Inr (if strip s = '''' then None else Some (strip s))
      | _ \<Rightarrow> Inl ValueErr)"

definition dict_value :: "pv \<Rightarrow> pdict res" where
  "dict_value v = (case v of PNone \<Rightarrow> Inr [] | PDict d \<Rightarrow> Inr d | _ \<Rightarrow> Inl ValueErr)"

definition store_string_list :: "pv \<Rightarrow> string list" where
  \<comment> \<open>\<open>_string_list\<close> of \<open>store/config_store.py\<close>, which every mixin shares\<close>
  "store_string_list v =
     (case v of PList xs \<Rightarrow> filter (\<lambda>s. s \<noteq> '''') (map (\<lambda>x. strip (py_str x)) xs) | _ \<Rightarrow> [])"

definition normalize_priority :: "pv \<Rightarrow> int res" where
  "normalize_priority v = (case py_int v of Inl _ \<Rightarrow> Inl ValueErr | Inr p \<Rightarrow> Inr (max 0 (min p 9)))"

definition task_statuses :: "string list" where
  "task_statuses = [''queued'', ''claimed'', ''running'', ''blocked'', ''completed'', ''failed'', ''cancelled'']"

definition worker_statuses :: "string list" where
  "worker_statuses = [''idle'', ''busy'', ''offline'', ''stopped'', ''failed'']"

definition message_kinds :: "string list" where
  "message_kinds = [''note'', ''handoff'', ''broadcast'', ''result'', ''system'']"

definition normalize_choice :: "string list \<Rightarrow> pv \<Rightarrow> string res" where
  \<comment> \<open>\<open>if value not in allowed: raise ValueError; return str(value)\<close>\<close>
  "normalize_choice allowed v = rbind (pin_set v allowed) (\<lambda>b. if b then Inr (py_str v) else Inl ValueErr)"

definition normalize_task_status :: "pv \<Rightarrow> string res" where
  "normalize_task_status = normalize_choice task_statuses"

definition normalize_worker_status :: "pv \<Rightarrow> string res" where
  "normalize_worker_status = normalize_choice worker_statuses"

definition normalize_message_kind :: "pv \<Rightarrow> string res" where
  "normalize_message_kind = normalize_choice message_kinds"

lemma normalize_choice_Inr: "normalize_choice allowed v = Inr s \<Longrightarrow> s \<in> set allowed"
  by (auto simp: normalize_choice_def rbind_eq_Inr pin_set_True split: if_splits)

lemma normalize_priority_Inr: "normalize_priority v = Inr p \<Longrightarrow> 0 \<le> p \<and> p \<le> 9"
  by (auto simp: normalize_priority_def split: sum.splits)

lemma require_non_empty_Inr: "require_non_empty params key = Inr s \<Longrightarrow> s \<noteq> ''''"
  by (auto simp: require_non_empty_def split: pv.splits if_splits)

text \<open>Keys are sorted when a column is written (\<open>sort_keys=True\<close>).\<close>

fun sort_keys :: "pv \<Rightarrow> pv" where
  "sort_keys (PDict d) = PDict (sort_key fst (map (\<lambda>(k, v). (k, sort_keys v)) d))"
| "sort_keys (PList xs) = PList (map sort_keys xs)"
| "sort_keys v = v"

section \<open>State\<close>

record collaboration_task =
  ct_session :: "string option"
  ct_parent :: "string option"
  ct_title :: string
  ct_description :: "string option"
  ct_status :: string
  ct_priority :: int
  ct_worker :: "string option"
  ct_dependencies :: "string list"
  ct_result :: "pv option"
  ct_error :: "pv option"
  ct_metadata :: pv
  ct_claimed :: "int option"
  ct_completed :: "int option"
  ct_created :: int
  ct_updated :: int

record agent_worker =
  aw_name :: string
  aw_role :: string
  aw_status :: string
  aw_task :: "string option"
  aw_capabilities :: "string list"
  aw_metadata :: pv
  aw_created :: int
  aw_updated :: int
  aw_heartbeat :: int

record agent_message =
  am_sender :: string
  am_recipient :: "string option"
  am_task :: "string option"
  am_kind :: string
  am_body :: string
  am_payload :: pv
  am_created :: int
  am_read :: "int option"

record collab =
  c_tasks :: "collaboration_task table"
  c_workers :: "agent_worker table"
  c_messages :: "agent_message table"

definition opt_str :: "string option \<Rightarrow> pv" where
  "opt_str s = (case s of None \<Rightarrow> PNone | Some t \<Rightarrow> PStr t)"

definition opt_time :: "int option \<Rightarrow> pv" where
  "opt_time t = (case t of None \<Rightarrow> PNone | Some i \<Rightarrow> PInt i)"

definition task_dict :: "string \<Rightarrow> collaboration_task \<Rightarrow> pdict" where
  \<comment> \<open>\<open>_serialize_collaboration_task\<close>\<close>
  "task_dict i r =
     [(''id'', PStr i), (''sessionId'', opt_str (ct_session r)), (''parentTaskId'', opt_str (ct_parent r)),
      (''title'', PStr (ct_title r)), (''description'', opt_str (ct_description r)), (''status'', PStr (ct_status r)),
      (''priority'', PInt (ct_priority r)), (''assignedWorkerId'', opt_str (ct_worker r)),
      (''dependencies'', PList (map PStr (ct_dependencies r))),
      (''result'', case ct_result r of None \<Rightarrow> PDict [] | Some v \<Rightarrow> v),
      (''error'', case ct_error r of None \<Rightarrow> PNone | Some v \<Rightarrow> v),
      (''metadata'', ct_metadata r), (''claimedAt'', opt_time (ct_claimed r)), (''completedAt'', opt_time (ct_completed r)),
      (''createdAt'', PInt (ct_created r)), (''updatedAt'', PInt (ct_updated r))]"

definition worker_dict :: "string \<Rightarrow> agent_worker \<Rightarrow> pdict" where
  \<comment> \<open>\<open>_serialize_agent_worker\<close>\<close>
  "worker_dict i r =
     [(''id'', PStr i), (''name'', PStr (aw_name r)), (''role'', PStr (aw_role r)), (''status'', PStr (aw_status r)),
      (''currentTaskId'', opt_str (aw_task r)), (''capabilities'', PList (map PStr (aw_capabilities r))),
      (''metadata'', aw_metadata r), (''createdAt'', PInt (aw_created r)), (''updatedAt'', PInt (aw_updated r)),
      (''lastHeartbeatAt'', PInt (aw_heartbeat r))]"

definition message_dict :: "string \<Rightarrow> agent_message \<Rightarrow> pdict" where
  \<comment> \<open>\<open>_serialize_agent_message\<close>\<close>
  "message_dict i r =
     [(''id'', PStr i), (''senderWorkerId'', PStr (am_sender r)), (''recipientWorkerId'', opt_str (am_recipient r)),
      (''taskId'', opt_str (am_task r)), (''kind'', PStr (am_kind r)), (''body'', PStr (am_body r)),
      (''payload'', am_payload r), (''createdAt'', PInt (am_created r)), (''readAt'', opt_time (am_read r))]"

section \<open>Task operations\<close>

definition answer :: "(string \<times> pdict) list \<Rightarrow> pdict" where
  "answer parts = map (\<lambda>(k, d). (k, PDict d)) parts"

definition require_task :: "string \<Rightarrow> collab \<Rightarrow> pdict res" where
  "require_task i s = rbind (require_row i (c_tasks s)) (\<lambda>r. Inr (task_dict i r))"

definition require_worker :: "string \<Rightarrow> collab \<Rightarrow> pdict res" where
  "require_worker i s = rbind (require_row i (c_workers s)) (\<lambda>r. Inr (worker_dict i r))"

definition description_of :: "pdict \<Rightarrow> string option res" where
  "description_of params =
     (case dget params ''description'' of PNone \<Rightarrow> Inr None | PStr s \<Rightarrow> Inr (Some (strip s)) | _ \<Rightarrow> Inl ValueErr)"

definition create_task :: "string \<Rightarrow> int \<Rightarrow> pdict \<Rightarrow> collab \<Rightarrow> (pdict \<times> collab) res" where
  "create_task i now params s =
     rbind (require_non_empty params ''title'') (\<lambda>title.
     rbind (description_of params) (\<lambda>description.
     rbind (optional_string params ''sessionId'') (\<lambda>session_id.
     rbind (optional_string params ''parentTaskId'') (\<lambda>parent_task_id.
     rbind (optional_string params ''assignedWorkerId'') (\<lambda>assigned_worker_id.
     rbind (normalize_priority (dget_or params ''priority'' (PInt 3))) (\<lambda>priority.
     rbind (dict_value (dget_or params ''metadata'' (PDict []))) (\<lambda>metadata.
     rbind (ins_row i \<lparr>ct_session = session_id, ct_parent = parent_task_id, ct_title = title, ct_description = description,
         ct_status = ''queued'', ct_priority = priority, ct_worker = assigned_worker_id,
         ct_dependencies = store_string_list (dget_or params ''dependencies'' (PList [])),
         ct_result = None, ct_error = None, ct_metadata = sort_keys (PDict metadata), ct_claimed = None,
         ct_completed = None, ct_created = now, ct_updated = now\<rparr> (c_tasks s)) (\<lambda>ts.
     rbind (require_task i (s\<lparr>c_tasks := ts\<rparr>)) (\<lambda>d.
       Inr (answer [(''task'', d)], s\<lparr>c_tasks := ts\<rparr>))))))))))"

text \<open>An update assigns the columns whose keys are present, one after the other.\<close>

definition on_key :: "pdict \<Rightarrow> string \<Rightarrow> ('r \<Rightarrow> 'r res) \<Rightarrow> 'r \<Rightarrow> 'r res" where
  "on_key params key f r = (if dhas params key then f r else Inr r)"

definition write_status :: "int \<Rightarrow> pdict \<Rightarrow> collaboration_task \<Rightarrow> collaboration_task res" where
  \<comment> \<open>\<open>completed_at\<close> is set once, when a final status is first written\<close>
  "write_status now params r =
     rbind (normalize_task_status (dget params ''status'')) (\<lambda>status.
       Inr (r\<lparr>ct_status := status,
              ct_completed := (if status \<in> {''completed'', ''failed'', ''cancelled''} \<and> ct_completed r = None
                 then Some now else ct_completed r)\<rparr>))"

definition update_steps :: "int \<Rightarrow> pdict \<Rightarrow> (collaboration_task \<Rightarrow> collaboration_task res) list" where
  "update_steps now params =
     [on_key params ''title'' (\<lambda>r. rbind (require_non_empty params ''title'') (\<lambda>t. Inr (r\<lparr>ct_title := t\<rparr>))),
      on_key params ''description'' (\<lambda>r. rbind (description_of params) (\<lambda>d. Inr (r\<lparr>ct_description := d\<rparr>))),
      on_key params ''status'' (write_status now params),
      on_key params ''priority'' (\<lambda>r. rbind (normalize_priority (dget params ''priority'')) (\<lambda>p. Inr (r\<lparr>ct_priority := p\<rparr>))),
      on_key params ''assignedWorkerId'' (\<lambda>r. rbind (optional_string params ''assignedWorkerId'') (\<lambda>w. Inr (r\<lparr>ct_worker := w\<rparr>))),
      on_key params ''dependencies'' (\<lambda>r. Inr (r\<lparr>ct_dependencies := store_string_list (dget params ''dependencies'')\<rparr>)),
      on_key params ''result'' (\<lambda>r. rbind (dict_value (dget params ''result'')) (\<lambda>d.
         Inr (r\<lparr>ct_result := Some (sort_keys (PDict d))\<rparr>))),
      on_key params ''metadata'' (\<lambda>r. rbind (dict_value (dget params ''metadata'')) (\<lambda>d.
         Inr (r\<lparr>ct_metadata := sort_keys (PDict d)\<rparr>)))]"

definition update_task :: "int \<Rightarrow> int \<Rightarrow> pdict \<Rightarrow> collab \<Rightarrow> (pdict \<times> collab) res" where
  \<comment> \<open>the clock is read for \<open>updated_at\<close> and again for \<open>completed_at\<close>\<close>
  "update_task now now' params s =
     rbind (require_non_empty params ''taskId'') (\<lambda>i.
     rbind (require_row i (c_tasks s)) (\<lambda>current.
     rbind (rfold (\<lambda>f r. f r) (update_steps now' params) (current\<lparr>ct_updated := now\<rparr>)) (\<lambda>r.
       let s' = s\<lparr>c_tasks := upd_row i (\<lambda>_. r) (c_tasks s)\<rparr> in
       rbind (require_task i s') (\<lambda>d. Inr (answer [(''task'', d)], s')))))"

text \<open>
  A claim reads the task and the worker first and writes both rows afterwards, in separate
  statements: the connection is locked for one statement at a time.
\<close>

definition claim_guard :: "string \<Rightarrow> string \<Rightarrow> collab \<Rightarrow> unit res" where
  "claim_guard i w s =
     rbind (require_row i (c_tasks s)) (\<lambda>task.
       if ct_status task \<notin> {''queued'', ''blocked''} then Inl ValueErr
       else if ct_worker task \<noteq> None \<and> ct_worker task \<noteq> Some '''' \<and> ct_worker task \<noteq> Some w then Inl ValueErr
       else rbind (require_row w (c_workers s)) (\<lambda>_. Inr ()))"

definition claim_write :: "int \<Rightarrow> string \<Rightarrow> string \<Rightarrow> collab \<Rightarrow> collab" where
  "claim_write now i w s =
     s\<lparr>c_tasks := upd_row i (\<lambda>r. r\<lparr>ct_status := ''claimed'', ct_worker := Some w, ct_claimed := Some now, ct_updated := now\<rparr>) (c_tasks s),
       c_workers := upd_row w (\<lambda>r. r\<lparr>aw_status := ''busy'', aw_task := Some i, aw_heartbeat := now, aw_updated := now\<rparr>) (c_workers s)\<rparr>"

definition both_rows :: "string \<Rightarrow> string \<Rightarrow> collab \<Rightarrow> (pdict \<times> collab) res" where
  \<comment> \<open>\<open>{"task": self.require_collaboration_task(...), "worker": self.require_agent_worker(...)}\<close>\<close>
  "both_rows i w s = rbind (require_task i s) (\<lambda>d. rbind (require_worker w s) (\<lambda>e. Inr (answer [(''task'', d), (''worker'', e)], s)))"

definition claim_task :: "int \<Rightarrow> pdict \<Rightarrow> collab \<Rightarrow> (pdict \<times> collab) res" where
  "claim_task now params s =
     rbind (require_non_empty params ''taskId'') (\<lambda>i.
     rbind (require_non_empty params ''workerId'') (\<lambda>w.
     rbind (claim_guard i w s) (\<lambda>_. both_rows i w (claim_write now i w s))))"

definition release_write :: "int \<Rightarrow> string \<Rightarrow> string option \<Rightarrow> collab \<Rightarrow> collab" where
  "release_write now i previous s =
     s\<lparr>c_tasks := upd_row i (\<lambda>r. r\<lparr>ct_status := ''queued'', ct_worker := None, ct_claimed := None, ct_updated := now\<rparr>) (c_tasks s),
       c_workers := (case previous of None \<Rightarrow> c_workers s
         | Some w \<Rightarrow> upd_row w (\<lambda>r. r\<lparr>aw_status := ''idle'', aw_task := None, aw_heartbeat := now, aw_updated := now\<rparr>) (c_workers s))\<rparr>"

definition release_task :: "int \<Rightarrow> pdict \<Rightarrow> collab \<Rightarrow> (pdict \<times> collab) res" where
  "release_task now params s =
     rbind (require_non_empty params ''taskId'') (\<lambda>i.
     rbind (optional_string params ''workerId'') (\<lambda>worker_id.
     rbind (require_row i (c_tasks s)) (\<lambda>task.
       if worker_id \<noteq> None \<and> ct_worker task \<noteq> worker_id then Inl ValueErr
       else let s' = release_write now i (ct_worker task) s in
         rbind (require_task i s') (\<lambda>d. Inr (answer [(''task'', d)], s')))))"

definition finalize_guard :: "string \<Rightarrow> string \<Rightarrow> string \<Rightarrow> string \<Rightarrow> collab \<Rightarrow> unit res" where
  "finalize_guard i w task_status worker_status s =
     (if task_status \<notin> {''completed'', ''failed''} then Inl ValueErr
      else if worker_status \<notin> {''idle'', ''failed''} then Inl ValueErr
      else rbind (require_row i (c_tasks s)) (\<lambda>task.
           rbind (require_row w (c_workers s)) (\<lambda>worker.
             if ct_worker task \<noteq> Some w then Inl ValueErr
             else if aw_task worker \<noteq> Some i then Inl ValueErr
             else if ct_status task \<notin> {''claimed'', ''running'', ''blocked''} then Inl ValueErr
             else Inr ())))"

definition finalize_write :: "int \<Rightarrow> string \<Rightarrow> string \<Rightarrow> string \<Rightarrow> string \<Rightarrow> pv option \<Rightarrow> pv option \<Rightarrow> collab \<Rightarrow> collab" where
  "finalize_write now i w task_status worker_status result err s =
     s\<lparr>c_tasks := upd_row i (\<lambda>r. r\<lparr>ct_status := task_status, ct_result := result, ct_error := err,
         ct_completed := Some now, ct_updated := now\<rparr>) (c_tasks s),
       c_workers := upd_row w (\<lambda>r. r\<lparr>aw_status := worker_status, aw_task := None, aw_heartbeat := now,
         aw_updated := now\<rparr>) (c_workers s)\<rparr>"

definition finalize_task :: "int \<Rightarrow> string \<Rightarrow> string \<Rightarrow> string \<Rightarrow> string \<Rightarrow> pdict option \<Rightarrow> pv \<Rightarrow> collab \<Rightarrow> (pdict \<times> collab) res" where
  \<comment> \<open>one transaction (\<open>BEGIN IMMEDIATE\<close>)\<close>
  "finalize_task now i w task_status worker_status result err s =
     rbind (finalize_guard i w task_status worker_status s) (\<lambda>_.
       both_rows i w (finalize_write now i w task_status worker_status (map_option (\<lambda>d. sort_keys (PDict d)) result)
         (if is_none err then None else Some (sort_keys err)) s))"

definition complete_task :: "int \<Rightarrow> pdict \<Rightarrow> collab \<Rightarrow> (pdict \<times> collab) res" where
  "complete_task now params s =
     rbind (require_non_empty params ''taskId'') (\<lambda>i.
     rbind (require_non_empty params ''workerId'') (\<lambda>w.
     rbind (dict_value (dget params ''result'')) (\<lambda>result.
       finalize_task now i w ''completed'' ''idle'' (Some result) PNone s)))"

definition fail_task :: "int \<Rightarrow> pdict \<Rightarrow> collab \<Rightarrow> (pdict \<times> collab) res" where
  "fail_task now params s =
     rbind (require_non_empty params ''taskId'') (\<lambda>i.
     rbind (require_non_empty params ''workerId'') (\<lambda>w.
       if \<not> dhas params ''error'' then Inl ValueErr
       else finalize_task now i w ''failed'' ''failed'' None (dget params ''error'') s))"

section \<open>Worker and message operations\<close>

definition add_metadata :: "pdict \<Rightarrow> string \<Rightarrow> pdict \<Rightarrow> pdict res" where
  \<comment> \<open>one key of the loop over \<open>sessionId\<close>, \<open>session_id\<close>, \<open>teamName\<close>, \<open>team\<close>\<close>
  "add_metadata params key metadata =
     rbind (optional_string params key) (\<lambda>v.
       Inr (case v of Some s \<Rightarrow> if dhas metadata key then metadata else dput key (PStr s) metadata | None \<Rightarrow> metadata))"

definition worker_id_of :: "string \<Rightarrow> pdict \<Rightarrow> string res" where
  "worker_id_of fresh params =
     rbind (optional_string params ''workerId'') (\<lambda>a. case a of Some i \<Rightarrow> Inr i | None \<Rightarrow>
       rbind (optional_string params ''id'') (\<lambda>b. case b of Some i \<Rightarrow> Inr i | None \<Rightarrow> Inr fresh))"

definition upsert_row :: "string \<Rightarrow> agent_worker \<Rightarrow> agent_worker table \<Rightarrow> agent_worker table" where
  \<comment> \<open>\<open>ON CONFLICT(id) DO UPDATE\<close>: every column but \<open>created_at\<close>\<close>
  "upsert_row i w t =
     (if i \<in> fst ` set t then upd_row i (\<lambda>r. w\<lparr>aw_created := aw_created r\<rparr>) t else t @ [(i, w)])"

definition upsert_worker :: "string \<Rightarrow> int \<Rightarrow> pdict \<Rightarrow> collab \<Rightarrow> (pdict \<times> collab) res" where
  "upsert_worker fresh now params s =
     rbind (worker_id_of fresh params) (\<lambda>i.
     rbind (require_non_empty params ''name'') (\<lambda>name.
     rbind (require_non_empty params ''role'') (\<lambda>role.
     rbind (normalize_worker_status (dget_or params ''status'' (PStr ''idle''))) (\<lambda>status.
     rbind (optional_string params ''currentTaskId'') (\<lambda>current.
     rbind (dict_value (dget_or params ''metadata'' (PDict []))) (\<lambda>metadata0.
     rbind (rfold (add_metadata params) [''sessionId'', ''session_id'', ''teamName'', ''team''] metadata0) (\<lambda>metadata.
       let s' = s\<lparr>c_workers := upsert_row i \<lparr>aw_name = name, aw_role = role, aw_status = status, aw_task = current,
             aw_capabilities = store_string_list (dget_or params ''capabilities'' (PList [])),
             aw_metadata = sort_keys (PDict metadata), aw_created = now, aw_updated = now, aw_heartbeat = now\<rparr> (c_workers s)\<rparr>
       in rbind (require_worker i s') (\<lambda>d. Inr (answer [(''worker'', d)], s')))))))))"

definition heartbeat_worker :: "int \<Rightarrow> pdict \<Rightarrow> collab \<Rightarrow> (pdict \<times> collab) res" where
  "heartbeat_worker now params s =
     rbind (require_non_empty params ''workerId'') (\<lambda>i.
     rbind (optional_string params ''currentTaskId'') (\<lambda>current.
     rbind (normalize_worker_status (dget_or params ''status'' (PStr (if current = None then ''idle'' else ''busy'')))) (\<lambda>status.
       let s' = s\<lparr>c_workers := upd_row i (\<lambda>r. r\<lparr>aw_status := status, aw_task := current, aw_heartbeat := now, aw_updated := now\<rparr>) (c_workers s)\<rparr>
       in if map_of (c_workers s) i = None then Inl ValueErr
          else rbind (require_worker i s') (\<lambda>d. Inr (answer [(''worker'', d)], s')))))"

definition require_known :: "string option \<Rightarrow> 'a table \<Rightarrow> unit res" where
  \<comment> \<open>\<open>if x is not None: require(x)\<close>\<close>
  "require_known k t = (case k of None \<Rightarrow> Inr () | Some i \<Rightarrow> rbind (require_row i t) (\<lambda>_. Inr ()))"

definition send_message :: "string \<Rightarrow> int \<Rightarrow> pdict \<Rightarrow> collab \<Rightarrow> (pdict \<times> collab) res" where
  "send_message fresh now params s =
     rbind (require_non_empty params ''senderWorkerId'') (\<lambda>sender.
     rbind (require_row sender (c_workers s)) (\<lambda>_.
     rbind (optional_string params ''recipientWorkerId'') (\<lambda>recipient.
     rbind (require_known recipient (c_workers s)) (\<lambda>_.
     rbind (optional_string params ''taskId'') (\<lambda>task.
     rbind (require_known task (c_tasks s)) (\<lambda>_.
     rbind (normalize_message_kind (dget_or params ''kind'' (PStr ''note''))) (\<lambda>kind.
     rbind (require_non_empty params ''body'') (\<lambda>body.
     rbind (dict_value (dget_or params ''payload'' (PDict []))) (\<lambda>payload.
     rbind (ins_row fresh \<lparr>am_sender = sender, am_recipient = recipient, am_task = task, am_kind = kind, am_body = body,
         am_payload = sort_keys (PDict payload), am_created = now, am_read = None\<rparr> (c_messages s)) (\<lambda>ms.
     rbind (require_row fresh ms) (\<lambda>m.
       Inr (answer [(''message'', message_dict fresh m)], s\<lparr>c_messages := ms\<rparr>))))))))))))"

section \<open>Queries\<close>

definition get_collab_task :: "pdict \<Rightarrow> collab \<Rightarrow> pdict res" where
  "get_collab_task params s =
     rbind (require_non_empty params ''taskId'') (\<lambda>i. rbind (require_task i s) (\<lambda>d. Inr (answer [(''task'', d)])))"

definition get_worker :: "pdict \<Rightarrow> collab \<Rightarrow> pdict res" where
  "get_worker params s =
     rbind (require_non_empty params ''workerId'') (\<lambda>i. rbind (require_worker i s) (\<lambda>d. Inr (answer [(''worker'', d)])))"

text \<open>
  A listing filters the rows and sorts them; \<open>ORDER BY\<close> leaves the order of equal keys open,
  which the model resolves in favour of the older row.
\<close>

definition matches :: "string option \<Rightarrow> string option \<Rightarrow> bool" where
  "matches wanted column \<longleftrightarrow> wanted = None \<or> column = wanted"

definition list_tasks :: "pdict \<Rightarrow> collab \<Rightarrow> pdict list res" where
  "list_tasks params s =
     rbind (optional_string params ''sessionId'') (\<lambda>session_id.
     rbind (optional_string params ''parentTaskId'') (\<lambda>parent_task_id.
     rbind (optional_string params ''assignedWorkerId'') (\<lambda>worker_id.
     rbind (optional_string params ''status'') (\<lambda>status.
       Inr (map (\<lambda>(i, r). task_dict i r)
         (sort_key (\<lambda>(i, r). (ct_priority r, - ct_updated r, - ct_created r))
           (filter (\<lambda>(i, r). matches session_id (ct_session r) \<and> matches parent_task_id (ct_parent r) \<and>
              matches worker_id (ct_worker r) \<and> matches status (Some (ct_status r))) (c_tasks s))))))))"

definition list_workers :: "pdict \<Rightarrow> collab \<Rightarrow> pdict list res" where
  "list_workers params s =
     rbind (optional_string params ''status'') (\<lambda>status.
       Inr (map (\<lambda>(i, r). worker_dict i r)
         (sort_key (\<lambda>(i, r). - aw_updated r) (filter (\<lambda>(i, r). matches status (Some (aw_status r))) (c_workers s)))))"

definition list_messages :: "pdict \<Rightarrow> collab \<Rightarrow> pdict list res" where
  "list_messages params s =
     rbind (optional_string params ''taskId'') (\<lambda>task_id.
     rbind (optional_string params ''senderWorkerId'') (\<lambda>sender.
     rbind (optional_string params ''recipientWorkerId'') (\<lambda>recipient.
     rbind (optional_string params ''kind'') (\<lambda>kind.
     rbind (py_int (dget_or params ''limit'' (PInt 100))) (\<lambda>limit.
       Inr (map (\<lambda>(i, r). message_dict i r)
         (take (nat (max 1 (min limit 500)))
           (sort_key (\<lambda>(i, r). - am_created r)
             (filter (\<lambda>(i, r). matches task_id (am_task r) \<and> matches sender (Some (am_sender r)) \<and>
                matches recipient (am_recipient r) \<and> matches kind (Some (am_kind r))) (c_messages s))))))))))"

section \<open>Steps\<close>

text \<open>One request to the store, whoever sends it.\<close>

inductive collab_step :: "collab \<Rightarrow> collab \<Rightarrow> bool" where
  create: "create_task i now params s = Inr (d, s') \<Longrightarrow> collab_step s s'"
| update: "update_task now now' params s = Inr (d, s') \<Longrightarrow> collab_step s s'"
| claim: "claim_task now params s = Inr (d, s') \<Longrightarrow> collab_step s s'"
| release: "release_task now params s = Inr (d, s') \<Longrightarrow> collab_step s s'"
| complete: "complete_task now params s = Inr (d, s') \<Longrightarrow> collab_step s s'"
| fail: "fail_task now params s = Inr (d, s') \<Longrightarrow> collab_step s s'"
| upsert: "upsert_worker i now params s = Inr (d, s') \<Longrightarrow> collab_step s s'"
| heartbeat: "heartbeat_worker now params s = Inr (d, s') \<Longrightarrow> collab_step s s'"
| send: "send_message i now params s = Inr (d, s') \<Longrightarrow> collab_step s s'"

definition empty_store :: collab where
  "empty_store = \<lparr>c_tasks = [], c_workers = [], c_messages = []\<rparr>"

end
