(* ===== verification/CollabInvariant.thy ===== *)
theory CollabInvariant
  imports Collaboration
begin

text \<open>
  The integrity of the collaboration store: every request keeps the primary keys unique, the
  columns in their ranges and the messages pointing to known workers and tasks, although the
  tables declare no foreign keys and no checks.
\<close>

section \<open>What a successful request did\<close>

lemma both_rows_Inr: "both_rows i w s = Inr (d, s') \<Longrightarrow> s' = s"
  by (auto simp: both_rows_def rbind_eq_Inr)

lemma create_taskE:
  assumes "create_task i now params s = Inr (d, s')"
  obtains r where "i \<notin> fst ` set (c_tasks s)" "s' = s\<lparr>c_tasks := c_tasks s @ [(i, r)]\<rparr>"
    "ct_status r = ''queued''" "0 \<le> ct_priority r" "ct_priority r \<le> 9" "ct_title r \<noteq> ''''" "ct_claimed r = None" "ct_completed r = None"
  using assms
  by (auto simp: create_task_def rbind_eq_Inr ins_row_Inr dest!: normalize_priority_Inr require_non_empty_Inr)

lemma update_taskE:
  assumes "update_task now now' params s = Inr (d, s')"
  obtains i r0 r where "map_of (c_tasks s) i = Some r0"
    "rfold (\<lambda>f r. f r) (update_steps now' params) (r0\<lparr>ct_updated := now\<rparr>) = Inr r"
    "s' = s\<lparr>c_tasks := upd_row i (\<lambda>_. r) (c_tasks s)\<rparr>"
  using assms by (auto simp: update_task_def rbind_eq_Inr require_row_Inr Let_def)

lemma claim_taskE:
  assumes "claim_task now params s = Inr (d, s')"
  obtains i w where "claim_guard i w s = Inr ()" "s' = claim_write now i w s"
    "require_non_empty params ''taskId'' = Inr i" "require_non_empty params ''workerId'' = Inr w"
  using assms by (auto simp: claim_task_def rbind_eq_Inr dest: both_rows_Inr)

lemma claim_guard_Inr:
  "claim_guard i w s = Inr () \<longleftrightarrow>
     (\<exists>r v. map_of (c_tasks s) i = Some r \<and> map_of (c_workers s) w = Some v \<and> ct_status r \<in> {''queued'', ''blocked''} \<and>
        (ct_worker r = None \<or> ct_worker r = Some '''' \<or> ct_worker r = Some w))"
  by (cases "map_of (c_tasks s) i"; cases "map_of (c_workers s) w")
    (auto simp: claim_guard_def require_row_def simp del: insert_iff)

lemma release_taskE:
  assumes "release_task now params s = Inr (d, s')"
  obtains i r where "map_of (c_tasks s) i = Some r" "s' = release_write now i (ct_worker r) s"
    "require_non_empty params ''taskId'' = Inr i"
  using assms by (auto simp: release_task_def rbind_eq_Inr require_row_Inr Let_def split: if_splits)

lemma finalize_taskE:
  assumes "finalize_task now i w ts ws result err s = Inr (d, s')"
  obtains r v where "map_of (c_tasks s) i = Some r" "map_of (c_workers s) w = Some v" "ct_worker r = Some w" "aw_task v = Some i"
    "ct_status r \<in> {''claimed'', ''running'', ''blocked''}" "ts \<in> {''completed'', ''failed''}" "ws \<in> {''idle'', ''failed''}"
    "s' = finalize_write now i w ts ws (map_option (\<lambda>d. sort_keys (PDict d)) result) (if is_none err then None else Some (sort_keys err)) s"
  using assms
  by (auto simp: finalize_task_def finalize_guard_def rbind_eq_Inr require_row_Inr simp del: insert_iff
      split: if_splits dest!: both_rows_Inr)

lemma complete_taskE:
  assumes "complete_task now params s = Inr (d, s')"
  obtains i w result where "finalize_task now i w ''completed'' ''idle'' (Some result) PNone s = Inr (d, s')"
    "require_non_empty params ''taskId'' = Inr i"
  using assms by (auto simp: complete_task_def rbind_eq_Inr)

lemma fail_taskE:
  assumes "fail_task now params s = Inr (d, s')"
  obtains i w err where "finalize_task now i w ''failed'' ''failed'' None err s = Inr (d, s')"
    "require_non_empty params ''taskId'' = Inr i"
  using assms by (auto simp: fail_task_def rbind_eq_Inr split: if_splits)

lemma upsert_workerE:
  assumes "upsert_worker fresh now params s = Inr (d, s')"
  obtains i w where "s' = s\<lparr>c_workers := upsert_row i w (c_workers s)\<rparr>" "aw_status w \<in> set worker_statuses"
    "aw_name w \<noteq> ''''" "aw_role w \<noteq> ''''"
  using assms
  by (auto simp: upsert_worker_def rbind_eq_Inr Let_def normalize_worker_status_def simp del: rfold.simps
      dest!: normalize_choice_Inr require_non_empty_Inr)

lemma heartbeat_workerE:
  assumes "heartbeat_worker now params s = Inr (d, s')"
  obtains i status current v where "status \<in> set worker_statuses" "map_of (c_workers s) i = Some v"
    "s' = s\<lparr>c_workers := upd_row i (\<lambda>r. r\<lparr>aw_status := status, aw_task := current, aw_heartbeat := now, aw_updated := now\<rparr>) (c_workers s)\<rparr>"
  using assms
  by (auto simp: heartbeat_worker_def rbind_eq_Inr Let_def normalize_worker_status_def split: if_splits
      dest!: normalize_choice_Inr)

lemma require_known_Inr: "require_known k t = Inr u \<longleftrightarrow> (\<forall>i. k = Some i \<longrightarrow> map_of t i \<noteq> None)"
  by (auto simp: require_known_def rbind_eq_Inr require_row_Inr split: option.splits)

lemma send_messageE:
  assumes "send_message fresh now params s = Inr (d, s')"
  obtains m where "fresh \<notin> fst ` set (c_messages s)" "s' = s\<lparr>c_messages := c_messages s @ [(fresh, m)]\<rparr>"
    "am_kind m \<in> set message_kinds" "map_of (c_workers s) (am_sender m) \<noteq> None"
    "\<forall>w. am_recipient m = Some w \<longrightarrow> map_of (c_workers s) w \<noteq> None" "\<forall>t. am_task m = Some t \<longrightarrow> map_of (c_tasks s) t \<noteq> None"
  using assms
  by (auto simp: send_message_def rbind_eq_Inr require_row_Inr require_known_Inr ins_row_Inr normalize_message_kind_def
      dest!: normalize_choice_Inr)

lemmas requestE = create_taskE update_taskE claim_taskE release_taskE complete_taskE fail_taskE upsert_workerE heartbeat_workerE send_messageE

section \<open>Integrity\<close>

definition final_statuses :: "string list" where
  "final_statuses = [''completed'', ''failed'', ''cancelled'']"

definition task_ok :: "collaboration_task \<Rightarrow> bool" where
  "task_ok r \<longleftrightarrow> ct_status r \<in> set task_statuses \<and> 0 \<le> ct_priority r \<and> ct_priority r \<le> 9 \<and> ct_title r \<noteq> '''' \<and>
     (ct_status r \<in> set final_statuses \<longrightarrow> ct_completed r \<noteq> None)"

definition worker_ok :: "agent_worker \<Rightarrow> bool" where
  "worker_ok r \<longleftrightarrow> aw_status r \<in> set worker_statuses \<and> aw_name r \<noteq> '''' \<and> aw_role r \<noteq> ''''"

definition message_ok :: "collab \<Rightarrow> agent_message \<Rightarrow> bool" where
  "message_ok s m \<longleftrightarrow> am_kind m \<in> set message_kinds \<and> am_sender m \<in> fst ` set (c_workers s) \<and>
     set_option (am_recipient m) \<subseteq> fst ` set (c_workers s) \<and> set_option (am_task m) \<subseteq> fst ` set (c_tasks s)"

definition rows_ok :: "('a \<Rightarrow> bool) \<Rightarrow> 'a table \<Rightarrow> bool" where
  "rows_ok P t \<longleftrightarrow> distinct (map fst t) \<and> (\<forall>r \<in> snd ` set t. P r)"

definition collab_ok :: "collab \<Rightarrow> bool" where
  "collab_ok s \<longleftrightarrow> rows_ok task_ok (c_tasks s) \<and> rows_ok worker_ok (c_workers s) \<and> rows_ok (message_ok s) (c_messages s)"

lemma status_lists:
  "set final_statuses = {''completed'', ''failed'', ''cancelled''}"
  "''queued'' \<in> set task_statuses" "''claimed'' \<in> set task_statuses"
  "''queued'' \<notin> set final_statuses" "''claimed'' \<notin> set final_statuses" "''idle'' \<in> set worker_statuses" "''busy'' \<in> set worker_statuses"
  "''failed'' \<in> set worker_statuses" "''completed'' \<in> set task_statuses" "''failed'' \<in> set task_statuses"
  by (simp_all add: final_statuses_def task_statuses_def worker_statuses_def)

lemma rows_ok_insert: "rows_ok P t \<Longrightarrow> i \<notin> fst ` set t \<Longrightarrow> P r \<Longrightarrow> rows_ok P (t @ [(i, r)])"
  by (auto simp: rows_ok_def)

lemma set_upd_row: "set (upd_row i f t) = (\<lambda>(k, r). (k, if k = i then f r else r)) ` set t"
  by (simp add: upd_row_def)

lemma fst_set_upd_row [simp]: "fst ` set (upd_row i f t) = fst ` set t"
  by (force simp: set_upd_row)

lemma rows_ok_update: "rows_ok P t \<Longrightarrow> (\<And>r. (i, r) \<in> set t \<Longrightarrow> P r \<Longrightarrow> P (f r)) \<Longrightarrow> rows_ok P (upd_row i f t)"
  by (force simp: rows_ok_def set_upd_row)

lemma rows_ok_lookup: "rows_ok P t \<Longrightarrow> map_of t i = Some r \<Longrightarrow> P r"
  by (force simp: rows_ok_def dest: map_of_SomeD)

lemma rows_ok_mono: "rows_ok P t \<Longrightarrow> (\<And>r. P r \<Longrightarrow> Q r) \<Longrightarrow> rows_ok Q t"
  by (auto simp: rows_ok_def)

lemma rows_ok_upsert: "rows_ok worker_ok t \<Longrightarrow> worker_ok w \<Longrightarrow> rows_ok worker_ok (upsert_row i w t)"
  unfolding upsert_row_def by (auto intro!: rows_ok_insert rows_ok_update simp: worker_ok_def)

lemma fst_set_upsert: "fst ` set t \<subseteq> fst ` set (upsert_row i w t)"
  by (auto simp: upsert_row_def)

lemma write_status_ok: "write_status now params r = Inr r' \<Longrightarrow> task_ok r \<Longrightarrow> task_ok r'"
  by (auto simp: write_status_def rbind_eq_Inr task_ok_def normalize_task_status_def status_lists(1) simp del: insert_iff
      dest!: normalize_choice_Inr)

lemma update_step_ok:
  assumes "f \<in> set (update_steps now params)" "f r = Inr r'" "task_ok r"
  shows "task_ok r'"
  using assms(1,2) assms(3) unfolding update_steps_def
  by (auto simp: on_key_def rbind_eq_Inr split: if_splits dest: write_status_ok dest!: normalize_priority_Inr require_non_empty_Inr)
    (simp_all add: task_ok_def)

lemma update_row_ok: "rfold (\<lambda>f r. f r) fs r = Inr r' \<Longrightarrow> (\<forall>f \<in> set fs. \<forall>r r'. f r = Inr r' \<longrightarrow> task_ok r \<longrightarrow> task_ok r') \<Longrightarrow>
    task_ok r \<Longrightarrow> task_ok r'"
  by (induction fs arbitrary: r) (auto simp: rbind_eq_Inr)

lemma messages_grow:
  assumes "rows_ok (message_ok s) ms" "fst ` set (c_workers s) \<subseteq> fst ` set (c_workers s')" "fst ` set (c_tasks s) \<subseteq> fst ` set (c_tasks s')"
  shows "rows_ok (message_ok s') ms"
  by (rule rows_ok_mono [OF assms(1)]) (use assms(2,3) in \<open>auto simp: message_ok_def\<close>)

lemma update_task_ok:
  assumes "rfold (\<lambda>f r. f r) (update_steps now' params) (r0\<lparr>ct_updated := now\<rparr>) = Inr r" "task_ok r0"
  shows "task_ok r"
  by (rule update_row_ok [OF assms(1)]) (use update_step_ok assms(2) in \<open>blast, simp add: task_ok_def\<close>)

lemma tasks_workers_ok:
  assumes "collab_ok s" "rows_ok task_ok (upd_row i f (c_tasks s))" "rows_ok worker_ok (upd_row w g (c_workers s))"
  shows "collab_ok (s\<lparr>c_tasks := upd_row i f (c_tasks s), c_workers := upd_row w g (c_workers s)\<rparr>)"
  using assms messages_grow [of s "c_messages s" "s\<lparr>c_tasks := upd_row i f (c_tasks s), c_workers := upd_row w g (c_workers s)\<rparr>"]
  by (simp add: collab_ok_def)

lemma tasks_ok:
  assumes "collab_ok s" "rows_ok task_ok ts" "fst ` set (c_tasks s) \<subseteq> fst ` set ts"
  shows "collab_ok (s\<lparr>c_tasks := ts\<rparr>)"
  using assms messages_grow [of s "c_messages s" "s\<lparr>c_tasks := ts\<rparr>"] by (simp add: collab_ok_def)

lemma workers_ok:
  assumes "collab_ok s" "rows_ok worker_ok ws" "fst ` set (c_workers s) \<subseteq> fst ` set ws"
  shows "collab_ok (s\<lparr>c_workers := ws\<rparr>)"
  using assms messages_grow [of s "c_messages s" "s\<lparr>c_workers := ws\<rparr>"] by (simp add: collab_ok_def)

lemma claim_write_ok: "collab_ok s \<Longrightarrow> collab_ok (claim_write now i w s)"
  unfolding claim_write_def
  by (rule tasks_workers_ok) (auto simp: collab_ok_def task_ok_def worker_ok_def status_lists(3,5,7) intro!: rows_ok_update)

lemma same_workers: "s\<lparr>c_tasks := ts, c_workers := c_workers s\<rparr> = s\<lparr>c_tasks := ts\<rparr>"
  by (cases s) simp

lemma release_write_ok: "collab_ok s \<Longrightarrow> collab_ok (release_write now i p s)"
proof (cases p)
  case None
  assume "collab_ok s"
  then have "rows_ok task_ok (upd_row i (\<lambda>r. r\<lparr>ct_status := ''queued'', ct_worker := None, ct_claimed := None, ct_updated := now\<rparr>) (c_tasks s))"
    by (auto simp: collab_ok_def task_ok_def status_lists(2,4) intro!: rows_ok_update)
  from tasks_ok [OF \<open>collab_ok s\<close> this] show ?thesis by (simp add: release_write_def None same_workers)
next
  case (Some w)
  assume "collab_ok s"
  then show ?thesis unfolding release_write_def Some option.case
    by (rule tasks_workers_ok) (auto simp: \<open>collab_ok s\<close> [unfolded collab_ok_def] task_ok_def worker_ok_def status_lists(2,4,6) intro!: rows_ok_update)
qed

lemma finalize_write_ok:
  "collab_ok s \<Longrightarrow> ts \<in> {''completed'', ''failed''} \<Longrightarrow> ws \<in> {''idle'', ''failed''} \<Longrightarrow> collab_ok (finalize_write now i w ts ws result err s)"
  unfolding finalize_write_def
  by (rule tasks_workers_ok) (auto simp: collab_ok_def task_ok_def worker_ok_def status_lists(6,8-10) intro!: rows_ok_update)

lemma finalize_task_ok: "finalize_task now i w ts ws result err s = Inr (d, s') \<Longrightarrow> collab_ok s \<Longrightarrow> collab_ok s'"
  by (erule finalize_taskE) (metis finalize_write_ok)

lemma collab_step_ok: "collab_step s s' \<Longrightarrow> collab_ok s \<Longrightarrow> collab_ok s'"
proof (induction rule: collab_step.induct)
  case (create i now params s d s')
  from create(1) show ?case
  proof (rule create_taskE)
    fix r assume r: "i \<notin> fst ` set (c_tasks s)" "s' = s\<lparr>c_tasks := c_tasks s @ [(i, r)]\<rparr>"
      "ct_status r = ''queued''" "0 \<le> ct_priority r" "ct_priority r \<le> 9" "ct_title r \<noteq> ''''"
    then have "rows_ok task_ok (c_tasks s @ [(i, r)])"
      using create(2) by (intro rows_ok_insert) (auto simp: collab_ok_def task_ok_def status_lists(2,4))
    from tasks_ok [OF create(2) this] show ?thesis unfolding r(2) by auto
  qed
next
  case (update now now' params s d s')
  from update(1) show ?case
  proof (rule update_taskE)
    fix i r0 r assume r: "map_of (c_tasks s) i = Some r0"
      "rfold (\<lambda>f r. f r) (update_steps now' params) (r0\<lparr>ct_updated := now\<rparr>) = Inr r" "s' = s\<lparr>c_tasks := upd_row i (\<lambda>_. r) (c_tasks s)\<rparr>"
    have "task_ok r0" using r(1) update(2) rows_ok_lookup unfolding collab_ok_def by metis
    then have "rows_ok task_ok (upd_row i (\<lambda>_. r) (c_tasks s))"
      using update(2) update_task_ok [OF r(2)] by (intro rows_ok_update) (auto simp: collab_ok_def)
    from tasks_ok [OF update(2) this] show ?thesis unfolding r(3) by simp
  qed
next
  case (claim now params s d s')
  then show ?case by (metis claim_taskE claim_write_ok)
next
  case (release now params s d s')
  then show ?case by (metis release_taskE release_write_ok)
next
  case (complete now params s d s')
  then show ?case by (metis complete_taskE finalize_task_ok)
next
  case (fail now params s d s')
  then show ?case by (metis fail_taskE finalize_task_ok)
next
  case (upsert i now params s d s')
  from upsert(1) show ?case
  proof (rule upsert_workerE)
    fix i w assume w: "s' = s\<lparr>c_workers := upsert_row i w (c_workers s)\<rparr>" "aw_status w \<in> set worker_statuses"
      "aw_name w \<noteq> ''''" "aw_role w \<noteq> ''''"
    then have "rows_ok worker_ok (upsert_row i w (c_workers s))"
      using upsert(2) by (intro rows_ok_upsert) (auto simp: collab_ok_def worker_ok_def)
    from workers_ok [OF upsert(2) this fst_set_upsert] show ?thesis unfolding w(1) .
  qed
next
  case (heartbeat now params s d s')
  from heartbeat(1) show ?case
  proof (rule heartbeat_workerE)
    fix i status current v
    assume w: "status \<in> set worker_statuses" "s' = s\<lparr>c_workers := upd_row i (\<lambda>r. r\<lparr>aw_status := status, aw_task := current,
      aw_heartbeat := now, aw_updated := now\<rparr>) (c_workers s)\<rparr>"
    show ?thesis unfolding w(2)
      by (rule workers_ok [OF heartbeat(2)]) (use heartbeat(2) w(1) in \<open>auto simp: collab_ok_def worker_ok_def intro!: rows_ok_update\<close>)
  qed
next
  case (send i now params s d s')
  from send(1) show ?case
  proof (rule send_messageE)
    fix m assume m: "i \<notin> fst ` set (c_messages s)" "s' = s\<lparr>c_messages := c_messages s @ [(i, m)]\<rparr>"
      "am_kind m \<in> set message_kinds" "map_of (c_workers s) (am_sender m) \<noteq> None"
      "\<forall>w. am_recipient m = Some w \<longrightarrow> map_of (c_workers s) w \<noteq> None" "\<forall>t. am_task m = Some t \<longrightarrow> map_of (c_tasks s) t \<noteq> None"
    then have "message_ok s m" by (auto simp: message_ok_def map_of_eq_None_iff elim: option.set_cases)
    then have "rows_ok (message_ok s) (c_messages s @ [(i, m)])"
      using send(2) m(1) by (intro rows_ok_insert) (auto simp: collab_ok_def)
    then have "rows_ok (message_ok s') (c_messages s')" unfolding m(2) by (simp add: message_ok_def [abs_def])
    then show ?thesis using send(2) unfolding m(2) by (simp add: collab_ok_def)
  qed
qed


end
