(* ===== verification/Leases.thy ===== *)
theory Leases
  imports CollabInvariant
begin

text \<open>
  What the collaboration store promises its workers: a claimed task is leased to one worker
  until it is completed, failed or released. The abstract machine is a table of locks; the
  requests of the store refine it, and the laws of locks carry over through a locale.
\<close>

section \<open>The abstract lock table\<close>

datatype ('k, 'o) lock_event = Acquired 'k 'o | Freed 'k | Other

fun lock_apply :: "('k, 'o) lock_event \<Rightarrow> ('k \<rightharpoonup> 'o) \<Rightarrow> ('k \<rightharpoonup> 'o) option" where
  "lock_apply (Acquired k w) h = (if h k = None then Some (h(k \<mapsto> w)) else None)"
| "lock_apply (Freed k) h = Some (h(k := None))"
| "lock_apply Other h = Some h"

fun lock_run :: "('k, 'o) lock_event list \<Rightarrow> ('k \<rightharpoonup> 'o) \<Rightarrow> ('k \<rightharpoonup> 'o) option" where
  "lock_run [] h = Some h"
| "lock_run (e # es) h = Option.bind (lock_apply e h) (lock_run es)"

lemma lock_run_append: "lock_run (es @ fs) h = Option.bind (lock_run es h) (lock_run fs)"
  by (induction es arbitrary: h) (auto split: Option.bind_splits)

lemma held_until_freed:
  "lock_run es h = Some h' \<Longrightarrow> h k = Some w \<Longrightarrow> Freed k \<notin> set es \<Longrightarrow> h' k = Some w"
proof (induction es arbitrary: h)
  case (Cons e es)
  from Cons.prems obtain h1 where h1: "lock_apply e h = Some h1" "lock_run es h1 = Some h'"
    by (auto split: Option.bind_splits simp: bind_eq_Some_conv)
  have "h1 k = Some w" using h1(1) Cons.prems by (cases e) (auto split: if_splits)
  then show ?case using Cons.IH [OF h1(2)] Cons.prems(3) by simp
qed simp

lemma acquired_once:
  assumes "lock_run (xs @ Acquired k w # ys @ Acquired k v # zs) h = Some h'"
  shows "Freed k \<in> set ys"
proof (rule ccontr)
  assume n: "Freed k \<notin> set ys"
  from assms obtain h1 where h1: "lock_run (Acquired k w # ys @ Acquired k v # zs) h1 = Some h'"
    by (auto simp: lock_run_append bind_eq_Some_conv)
  then obtain h2 where h2: "lock_run ys (h1(k \<mapsto> w)) = Some h2" "lock_run (Acquired k v # zs) h2 = Some h'"
    by (auto simp: lock_run_append bind_eq_Some_conv split: if_splits)
  have "h2 k = Some w" using held_until_freed [OF h2(1) _ n] by simp
  then show False using h2(2) by simp
qed

text \<open>
  The interface: a server whose state has a holder for every key, whose requests may fail without
  effect, and whose successful requests announce what they did to the locks.
\<close>

locale lock_server =
  fixes holder :: "'s \<Rightarrow> 'k \<Rightarrow> 'o option"
    and perform :: "'r \<Rightarrow> 's \<Rightarrow> 's option"
    and event :: "'r \<Rightarrow> ('k, 'o) lock_event"
    and admissible :: "'r \<Rightarrow> bool"
  assumes perform_event: "admissible r \<Longrightarrow> perform r s = Some s' \<Longrightarrow> lock_apply (event r) (holder s) = Some (holder s')"
begin

fun serve_requests :: "'r list \<Rightarrow> 's \<Rightarrow> ('k, 'o) lock_event list \<times> 's" where
  "serve_requests [] s = ([], s)"
| "serve_requests (r # rs) s =
     (case perform r s of
        None \<Rightarrow> serve_requests rs s
      | Some s' \<Rightarrow> (case serve_requests rs s' of (es, t) \<Rightarrow> (event r # es, t)))"

lemma refines:
  "(\<forall>r \<in> set rs. admissible r) \<Longrightarrow> serve_requests rs s = (es, t) \<Longrightarrow> lock_run es (holder s) = Some (holder t)"
proof (induction rs arbitrary: s es)
  case (Cons r rs)
  show ?case
  proof (cases "perform r s")
    case None
    then show ?thesis using Cons by simp
  next
    case (Some s')
    with Cons.prems obtain es' where es': "serve_requests rs s' = (es', t)" "es = event r # es'"
      by (auto split: prod.splits)
    have "lock_apply (event r) (holder s) = Some (holder s')" using perform_event Some Cons.prems(1) by simp
    then show ?thesis using Cons.IH [OF _ es'(1)] Cons.prems(1) es'(2) by simp
  qed
qed simp

lemma exclusive:
  assumes "\<forall>r \<in> set rs. admissible r" "serve_requests rs s = (xs @ Acquired k w # ys @ Acquired k v # zs, t)"
  shows "Freed k \<in> set ys"
  using acquired_once refines [OF assms] by metis

end

section \<open>Requests to the store\<close>

datatype request =
    Create string int pdict
  | Update int int pdict
  | Claim int pdict
  | Release int pdict
  | Complete int pdict
  | Fail int pdict
  | Upsert string int pdict
  | Heartbeat int pdict
  | Send string int pdict

fun exec :: "request \<Rightarrow> collab \<Rightarrow> (pdict \<times> collab) res" where
  "exec (Create i now p) s = create_task i now p s"
| "exec (Update now now' p) s = update_task now now' p s"
| "exec (Claim now p) s = claim_task now p s"
| "exec (Release now p) s = release_task now p s"
| "exec (Complete now p) s = complete_task now p s"
| "exec (Fail now p) s = fail_task now p s"
| "exec (Upsert i now p) s = upsert_worker i now p s"
| "exec (Heartbeat now p) s = heartbeat_worker now p s"
| "exec (Send i now p) s = send_message i now p s"

definition perform_request :: "request \<Rightarrow> collab \<Rightarrow> collab option" where
  "perform_request r s = (case exec r s of Inl _ \<Rightarrow> None | Inr (d, s') \<Rightarrow> Some s')"

definition param :: "string \<Rightarrow> pdict \<Rightarrow> string" where
  "param k p = strip (the_str (dget p k))"

fun lease_event :: "request \<Rightarrow> (string, string) lock_event" where
  "lease_event (Claim now p) = Acquired (param ''taskId'' p) (param ''workerId'' p)"
| "lease_event (Release now p) = Freed (param ''taskId'' p)"
| "lease_event (Complete now p) = Freed (param ''taskId'' p)"
| "lease_event (Fail now p) = Freed (param ''taskId'' p)"
| "lease_event _ = Other"

fun keeps_lease :: "request \<Rightarrow> bool" where
  \<comment> \<open>an update that overwrites the status or the worker steps outside the protocol\<close>
  "keeps_lease (Update now now' p) = (\<not> dhas p ''status'' \<and> \<not> dhas p ''assignedWorkerId'')"
| "keeps_lease _ = True"

definition leases :: "collab \<Rightarrow> string \<Rightarrow> string option" where
  "leases s i = (case map_of (c_tasks s) i of
      None \<Rightarrow> None
    | Some r \<Rightarrow> if ct_status r = ''claimed'' then ct_worker r else None)"

lemma exec_step: "exec r s = Inr (d, s') \<Longrightarrow> collab_step s s'"
  by (cases r) (auto intro: collab_step.intros)

lemma require_non_empty_param: "require_non_empty p k = Inr s \<Longrightarrow> s = param k p"
  by (auto simp: require_non_empty_def param_def split: pv.splits if_splits)

lemma update_step_lease:
  assumes "f \<in> set (update_steps now p)" "f r = Inr r'" "\<not> dhas p ''status''" "\<not> dhas p ''assignedWorkerId''"
  shows "ct_status r' = ct_status r \<and> ct_worker r' = ct_worker r"
  using assms unfolding update_steps_def by (auto simp: on_key_def rbind_eq_Inr split: if_splits)

lemma update_row_lease:
  "rfold (\<lambda>f r. f r) fs r = Inr r' \<Longrightarrow> (\<forall>f \<in> set fs. \<forall>r r'. f r = Inr r' \<longrightarrow> ct_status r' = ct_status r \<and> ct_worker r' = ct_worker r) \<Longrightarrow>
    ct_status r' = ct_status r \<and> ct_worker r' = ct_worker r"
  by (induction fs arbitrary: r) (auto simp: rbind_eq_Inr)

lemma leases_claim: "claim_guard i w s = Inr () \<Longrightarrow> leases s i = None \<and> leases (claim_write now i w s) = (leases s)(i \<mapsto> w)"
  by (auto simp: claim_guard_Inr leases_def claim_write_def fun_eq_iff)

lemma leases_release: "leases (release_write now i p s) = (leases s)(i := None)"
  by (auto simp: leases_def release_write_def fun_eq_iff split: option.split)

lemma leases_finalize:
  "ts \<in> {''completed'', ''failed''} \<Longrightarrow> leases (finalize_write now i w ts ws result err s) = (leases s)(i := None)"
  by (auto simp: leases_def finalize_write_def fun_eq_iff split: option.split)

lemma leases_create:
  assumes "i \<notin> fst ` set (c_tasks s)" "ct_status r = ''queued''"
  shows "leases (s\<lparr>c_tasks := c_tasks s @ [(i, r)]\<rparr>) = leases s"
proof
  fix k
  have "map_of (c_tasks s) i = None" using assms(1) by (simp add: map_of_eq_None_iff)
  then show "leases (s\<lparr>c_tasks := c_tasks s @ [(i, r)]\<rparr>) k = leases s k"
    using assms(2) by (auto simp: leases_def map_add_def split: option.split)
qed

lemma leases_update:
  assumes "map_of (c_tasks s) i = Some r0" "ct_status r = ct_status r0" "ct_worker r = ct_worker r0"
  shows "leases (s\<lparr>c_tasks := upd_row i (\<lambda>_. r) (c_tasks s)\<rparr>) = leases s"
  using assms by (auto simp: leases_def fun_eq_iff)

lemma leases_workers [simp]: "leases (s\<lparr>c_workers := ws\<rparr>) = leases s" "leases (s\<lparr>c_messages := ms\<rparr>) = leases s"
  by (simp_all add: leases_def [abs_def])

lemma finalize_leases:
  "finalize_task now i w ts ws result err s = Inr (d, s') \<Longrightarrow> leases s' = (leases s)(i := None)"
  by (erule finalize_taskE) (metis leases_finalize)

lemma exec_lease:
  assumes "keeps_lease r" "exec r s = Inr (d, s')"
  shows "lock_apply (lease_event r) (leases s) = Some (leases s')"
proof (cases r)
  case (Create i now p)
  with assms(2) have "create_task i now p s = Inr (d, s')" by simp
  then show ?thesis by (rule create_taskE) (use Create leases_create in simp)
next
  case (Update now now' p)
  with assms have u0: "update_task now now' p s = Inr (d, s')" and nk: "\<not> dhas p ''status''" "\<not> dhas p ''assignedWorkerId''" by simp_all
  obtain i r0 r' where u: "map_of (c_tasks s) i = Some r0"
    "rfold (\<lambda>f r. f r) (update_steps now' p) (r0\<lparr>ct_updated := now\<rparr>) = Inr r'" "s' = s\<lparr>c_tasks := upd_row i (\<lambda>_. r') (c_tasks s)\<rparr>"
    by (rule update_taskE [OF u0])
  have "ct_status r' = ct_status (r0\<lparr>ct_updated := now\<rparr>) \<and> ct_worker r' = ct_worker (r0\<lparr>ct_updated := now\<rparr>)"
    by (rule update_row_lease [OF u(2)]) (use update_step_lease nk in blast)
  then show ?thesis using Update u(1,3) leases_update by simp
next
  case (Claim now p)
  with assms(2) have "claim_task now p s = Inr (d, s')" by simp
  then show ?thesis
    by (rule claim_taskE) (use Claim leases_claim in \<open>auto dest!: require_non_empty_param\<close>)
next
  case (Release now p)
  with assms(2) have "release_task now p s = Inr (d, s')" by simp
  then show ?thesis by (rule release_taskE) (use Release leases_release in \<open>auto dest!: require_non_empty_param\<close>)
next
  case (Complete now p)
  with assms(2) have "complete_task now p s = Inr (d, s')" by simp
  then show ?thesis
    by (rule complete_taskE) (use Complete in \<open>auto dest!: require_non_empty_param finalize_leases\<close>)
next
  case (Fail now p)
  with assms(2) have "fail_task now p s = Inr (d, s')" by simp
  then show ?thesis by (rule fail_taskE) (use Fail in \<open>auto dest!: require_non_empty_param finalize_leases\<close>)
next
  case (Upsert i now p)
  with assms(2) have "upsert_worker i now p s = Inr (d, s')" by simp
  then show ?thesis by (rule upsert_workerE) (use Upsert in simp)
next
  case (Heartbeat now p)
  with assms(2) have "heartbeat_worker now p s = Inr (d, s')" by simp
  then show ?thesis by (rule heartbeat_workerE) (use Heartbeat in simp)
next
  case (Send i now p)
  with assms(2) have "send_message i now p s = Inr (d, s')" by simp
  then show ?thesis by (rule send_messageE) (use Send in simp)
qed

interpretation lease: lock_server leases perform_request lease_event keeps_lease
  by unfold_locales (auto simp: perform_request_def exec_lease split: sum.splits)

section \<open>The store as a lock server\<close>

fun serve :: "request list \<Rightarrow> collab \<Rightarrow> (string, string) lock_event list \<times> collab" where
  \<comment> \<open>requests in order; a refused request changes nothing\<close>
  "serve [] s = ([], s)"
| "serve (r # rs) s =
     (case exec r s of
        Inl _ \<Rightarrow> serve rs s
      | Inr (d, s') \<Rightarrow> (case serve rs s' of (es, t) \<Rightarrow> (lease_event r # es, t)))"

lemma serve_requests: "lease.serve_requests rs s = serve rs s"
  by (induction rs arbitrary: s) (auto simp: perform_request_def split: sum.split)



section \<open>Claim, finish, release\<close>

definition after :: "(pdict \<times> collab) res \<Rightarrow> collab \<Rightarrow> collab" where
  "after r s = (case r of Inl _ \<Rightarrow> s | Inr (d, s') \<Rightarrow> s')"

definition ids :: "string \<Rightarrow> string \<Rightarrow> pdict" where
  "ids i w = [(''taskId'', PStr i), (''workerId'', PStr w)]"

definition plain_id :: "string \<Rightarrow> bool" where
  \<comment> \<open>an identifier the argument checks leave alone\<close>
  "plain_id i \<longleftrightarrow> i \<noteq> '''' \<and> strip i = i"

lemma ids_required: "plain_id i \<Longrightarrow> require_non_empty (ids i w) ''taskId'' = Inr i"
  "plain_id w \<Longrightarrow> require_non_empty (ids i w) ''workerId'' = Inr w"
  by (simp_all add: ids_def require_non_empty_def dget_Cons plain_id_def)

lemma both_rows_ok:
  "map_of (c_tasks s) i = Some r \<Longrightarrow> map_of (c_workers s) w = Some v \<Longrightarrow> \<exists>d. both_rows i w s = Inr (d, s)"
  by (simp add: both_rows_def require_task_def require_worker_def require_row_def)

lemma claim_ids:
  assumes "plain_id i" "plain_id w" "claim_guard i w s = Inr ()"
  shows "\<exists>d. claim_task now (ids i w) s = Inr (d, claim_write now i w s)"
proof -
  from assms(3) obtain r v where "map_of (c_tasks s) i = Some r" "map_of (c_workers s) w = Some v" by (auto simp: claim_guard_Inr)
  then have "\<exists>d. both_rows i w (claim_write now i w s) = Inr (d, claim_write now i w s)"
    by (intro both_rows_ok) (simp_all add: claim_write_def)
  then show ?thesis using assms by (simp add: claim_task_def ids_required)
qed

lemma finalize_ids:
  assumes "plain_id i" "plain_id w" "finalize_guard i w ''completed'' ''idle'' s = Inr ()"
  shows "\<exists>d. complete_task now (ids i w) s = Inr (d, finalize_write now i w ''completed'' ''idle'' (Some (PDict [])) None s)"
proof -
  from assms(3) obtain r v where "map_of (c_tasks s) i = Some r" "map_of (c_workers s) w = Some v"
    by (auto simp: finalize_guard_def rbind_eq_Inr require_row_Inr)
  then have "\<exists>d. both_rows i w (finalize_write now i w ''completed'' ''idle'' (Some (PDict [])) None s) =
      Inr (d, finalize_write now i w ''completed'' ''idle'' (Some (PDict [])) None s)"
    by (intro both_rows_ok) (simp_all add: finalize_write_def)
  moreover have "dget (ids i w) ''result'' = PNone" by (simp add: ids_def dget_Cons)
  ultimately show ?thesis using assms
    by (simp add: complete_task_def finalize_task_def ids_required dict_value_def is_none_def)
qed

text \<open>
  C11. A worker that claims a free task can finish it: both requests succeed, the task ends
  completed with the time of completion and the worker is idle again.
\<close>

theorem claim_then_complete:
  assumes "plain_id i" "plain_id w" "map_of (c_tasks s) i = Some r" "map_of (c_workers s) w = Some v"
    "ct_status r \<in> {''queued'', ''blocked''}" "ct_worker r = None"
  shows "\<exists>d1 s1 d2 s2 r' v'. claim_task t1 (ids i w) s = Inr (d1, s1) \<and> leases s1 i = Some w \<and>
    complete_task t2 (ids i w) s1 = Inr (d2, s2) \<and> leases s2 i = None \<and>
    map_of (c_tasks s2) i = Some r' \<and> ct_status r' = ''completed'' \<and> ct_completed r' = Some t2 \<and>
    map_of (c_workers s2) w = Some v' \<and> aw_status v' = ''idle'' \<and> aw_task v' = None"
proof -
  let ?s1 = "claim_write t1 i w s"
  let ?s2 = "finalize_write t2 i w ''completed'' ''idle'' (Some (PDict [])) None ?s1"
  have g: "claim_guard i w s = Inr ()" using assms(3-6) by (auto simp: claim_guard_Inr simp del: insert_iff)
  have f: "finalize_guard i w ''completed'' ''idle'' ?s1 = Inr ()"
    using assms(3,4) by (simp add: finalize_guard_def claim_write_def require_row_def)
  obtain d1 where d1: "claim_task t1 (ids i w) s = Inr (d1, ?s1)" using claim_ids [OF assms(1,2) g] by blast
  obtain d2 where d2: "complete_task t2 (ids i w) ?s1 = Inr (d2, ?s2)" using finalize_ids [OF assms(1,2) f] by blast
  have "leases ?s1 i = Some w" using leases_claim [OF g] by simp
  moreover have "leases ?s2 i = None" using leases_finalize [of "''completed''"] by simp
  moreover have "\<exists>r'. map_of (c_tasks ?s2) i = Some r' \<and> ct_status r' = ''completed'' \<and> ct_completed r' = Some t2"
    using assms(3) by (simp add: finalize_write_def claim_write_def)
  moreover have "\<exists>v'. map_of (c_workers ?s2) w = Some v' \<and> aw_status v' = ''idle'' \<and> aw_task v' = None"
    using assms(4) by (simp add: finalize_write_def claim_write_def)
  ultimately show ?thesis using d1 d2 by blast
qed

section \<open>What the protocol does not prevent\<close>

lemma complete_refused:
  assumes "plain_id i" "plain_id w" "finalize_guard i w ''completed'' ''idle'' s = Inl e"
  shows "complete_task now (ids i w) s = Inl e"
proof -
  have "dget (ids i w) ''result'' = PNone" by (simp add: ids_def dget_Cons)
  then show ?thesis using assms by (simp add: complete_task_def finalize_task_def ids_required dict_value_def)
qed

text \<open>
  A claim does not look at the worker's current task: a worker that holds one task may claim
  another, and from then on the first stays leased to it while its completion is refused, until
  somebody releases it.
\<close>

theorem second_claim_strands_first:
  assumes "plain_id i" "plain_id j" "plain_id w" "i \<noteq> j" "leases s i = Some w" "claim_guard j w s = Inr ()"
  shows "\<exists>d s'. claim_task t (ids j w) s = Inr (d, s') \<and> leases s' i = Some w \<and> leases s' j = Some w \<and>
    complete_task t' (ids i w) s' = Inl ValueErr"
proof -
  let ?s = "claim_write t j w s"
  obtain d where d: "claim_task t (ids j w) s = Inr (d, ?s)" using claim_ids [OF assms(2,3,6)] by blast
  have l: "leases ?s = (leases s)(j \<mapsto> w)" using leases_claim [OF assms(6)] by simp
  from assms(5) obtain r where r: "map_of (c_tasks s) i = Some r" "ct_worker r = Some w" "ct_status r = ''claimed''"
    by (auto simp: leases_def split: option.splits if_splits)
  from assms(6) obtain v where v: "map_of (c_workers s) w = Some v" by (auto simp: claim_guard_Inr)
  have "finalize_guard i w ''completed'' ''idle'' ?s = Inl ValueErr"
    using r v assms(4) by (simp add: finalize_guard_def claim_write_def require_row_def)
  from complete_refused [OF assms(1,3) this] show ?thesis using d l assms(4,5) by (intro exI [of _ d] exI [of _ ?s]) simp
qed

text \<open>
  The reads and the writes of a claim are not one transaction. When two workers both pass the
  checks before either writes, both become busy with the task although it is assigned to the
  second only, and the first can no longer complete it.
\<close>

theorem claim_race:
  assumes "plain_id i" "plain_id w1" "w1 \<noteq> w2" "claim_guard i w1 s = Inr ()" "claim_guard i w2 s = Inr ()"
  shows "\<exists>v1 v2. map_of (c_workers (claim_write t2 i w2 (claim_write t1 i w1 s))) w1 = Some v1 \<and> aw_task v1 = Some i \<and>
    map_of (c_workers (claim_write t2 i w2 (claim_write t1 i w1 s))) w2 = Some v2 \<and> aw_task v2 = Some i \<and>
    leases (claim_write t2 i w2 (claim_write t1 i w1 s)) i = Some w2 \<and>
    complete_task t3 (ids i w1) (claim_write t2 i w2 (claim_write t1 i w1 s)) = Inl ValueErr"
proof -
  let ?s = "claim_write t2 i w2 (claim_write t1 i w1 s)"
  from assms(4) obtain r v1 where r: "map_of (c_tasks s) i = Some r" "map_of (c_workers s) w1 = Some v1" by (auto simp: claim_guard_Inr)
  from assms(5) obtain v2 where v2: "map_of (c_workers s) w2 = Some v2" by (auto simp: claim_guard_Inr)
  have "finalize_guard i w1 ''completed'' ''idle'' ?s = Inl ValueErr"
    using r v2 assms(3) by (simp add: finalize_guard_def claim_write_def require_row_def)
  note c = complete_refused [OF assms(1,2) this]
  have "leases ?s i = Some w2" using r by (simp add: leases_def claim_write_def)
  then show ?thesis using c r(2) v2 assms(3) by (simp add: claim_write_def)
qed

text \<open>
  Releasing looks at the worker only, not at the status: a finished task goes back to the
  queue, keeps its completion time and result, and can be claimed again.
\<close>

theorem release_reopens_finished:
  assumes "plain_id i" "map_of (c_tasks s) i = Some r" "ct_status r = ''completed''"
  shows "\<exists>d s' r'. release_task now [(''taskId'', PStr i)] s = Inr (d, s') \<and> map_of (c_tasks s') i = Some r' \<and>
    ct_status r' = ''queued'' \<and> ct_worker r' = None \<and> ct_completed r' = ct_completed r \<and> ct_result r' = ct_result r"
proof -
  let ?s = "release_write now i (ct_worker r) s"
  have "\<exists>d. require_task i ?s = Inr d"
    using assms(2) by (simp add: require_task_def require_row_def release_write_def)
  then obtain d where d: "require_task i ?s = Inr d" by blast
  have p: "require_non_empty [(''taskId'', PStr i)] ''taskId'' = Inr i" "optional_string [(''taskId'', PStr i)] ''workerId'' = Inr None"
    using assms(1) by (simp_all add: require_non_empty_def optional_string_def dget_Cons plain_id_def)
  have "release_task now [(''taskId'', PStr i)] s = Inr (answer [(''task'', d)], ?s)"
    using assms(2) d by (simp add: release_task_def p require_row_def Let_def)
  then show ?thesis using assms(2) by (simp add: release_write_def)
qed

section \<open>A sample run\<close>

definition sample_requests :: "request list" where
  "sample_requests =
     [Upsert ''w1'' 1 [(''name'', PStr ''Ann''), (''role'', PStr ''worker'')],
      Upsert ''w2'' 2 [(''name'', PStr ''Bob''), (''role'', PStr ''worker'')],
      Create ''t1'' 3 [(''title'', PStr ''build'')], Create ''t2'' 4 [(''title'', PStr ''test'')],
      Claim 5 (ids ''t1'' ''w1''), Claim 6 (ids ''t1'' ''w2''), Complete 7 (ids ''t1'' ''w1''), Release 8 (ids ''t1'' ''w1''),
      Claim 9 (ids ''t1'' ''w2'')]"

lemma sample_events:
  "fst (serve sample_requests empty_store) =
     [Other, Other, Other, Other] @ Acquired ''t1'' ''w1'' # [Freed ''t1'', Freed ''t1''] @ Acquired ''t1'' ''w2'' # []"
  by code_simp

definition sample_store :: collab where
  "sample_store = snd (serve (take 4 sample_requests) empty_store)"

lemma serve_steps: "collab_step\<^sup>*\<^sup>* s (snd (serve rs s))"
proof (induction rs arbitrary: s)
  case (Cons r rs)
  show ?case
  proof (cases "exec r s")
    case (Inr p)
    then obtain d s' where p: "exec r s = Inr (d, s')" by (cases p) auto
    have "collab_step\<^sup>*\<^sup>* s (snd (serve rs s'))"
      using exec_step [OF p] Cons.IH [of s'] by (rule converse_rtranclp_into_rtranclp)
    then show ?thesis using p by (auto split: prod.splits)
  qed (use Cons.IH in simp)
qed simp

lemma sample_facts:
  "claim_guard ''t1'' ''w1'' sample_store = Inr () \<and> claim_guard ''t1'' ''w2'' sample_store = Inr () \<and>
   claim_guard ''t2'' ''w1'' (claim_write 5 ''t1'' ''w1'' sample_store) = Inr () \<and>
   leases (claim_write 5 ''t1'' ''w1'' sample_store) ''t1'' = Some ''w1'' \<and>
   map_option ct_status (map_of (c_tasks sample_store) ''t1'') = Some ''queued'' \<and>
   map_option ct_worker (map_of (c_tasks sample_store) ''t1'') = Some None \<and>
   map_option aw_task (map_of (c_workers sample_store) ''w1'') = Some None \<and>
   map_option ct_status (map_of (c_tasks (finalize_write 7 ''t1'' ''w1'' ''completed'' ''idle'' None None sample_store)) ''t1'') = Some ''completed'' \<and>
   plain_id ''t1'' \<and> plain_id ''t2'' \<and> plain_id ''w1''"
  by code_simp




theorem claim_then_complete_witness:
  "\<exists>d1 s1 d2 s2. claim_task 5 (ids ''t1'' ''w1'') sample_store = Inr (d1, s1) \<and> leases s1 ''t1'' = Some ''w1'' \<and>
     complete_task 7 (ids ''t1'' ''w1'') s1 = Inr (d2, s2) \<and> leases s2 ''t1'' = None"
proof -
  from sample_facts obtain r v where "map_of (c_tasks sample_store) ''t1'' = Some r" "map_of (c_workers sample_store) ''w1'' = Some v"
    "ct_status r = ''queued''" "ct_worker r = None" "plain_id ''t1''" "plain_id ''w1''" by (auto simp: map_option_eq_Some)
  with claim_then_complete [of "''t1''" "''w1''" sample_store r v 5 7] show ?thesis by (simp del: insert_iff) (simp, blast)
qed

theorem second_claim_strands_first_witness:
  "\<exists>d s'. claim_task 6 (ids ''t2'' ''w1'') (claim_write 5 ''t1'' ''w1'' sample_store) = Inr (d, s') \<and>
     leases s' ''t1'' = Some ''w1'' \<and> complete_task 7 (ids ''t1'' ''w1'') s' = Inl ValueErr"
  using second_claim_strands_first [of "''t1''" "''t2''" "''w1''" "claim_write 5 ''t1'' ''w1'' sample_store" 6 7] sample_facts by auto

theorem claim_race_witness:
  "leases (claim_write 6 ''t1'' ''w2'' (claim_write 5 ''t1'' ''w1'' sample_store)) ''t1'' = Some ''w2'' \<and>
   complete_task 7 (ids ''t1'' ''w1'') (claim_write 6 ''t1'' ''w2'' (claim_write 5 ''t1'' ''w1'' sample_store)) = Inl ValueErr"
  using claim_race [of "''t1''" "''w1''" "''w2''" sample_store 6 5 7] sample_facts by auto

theorem release_reopens_finished_witness:
  "\<exists>d s' r'. release_task 8 [(''taskId'', PStr ''t1'')] (finalize_write 7 ''t1'' ''w1'' ''completed'' ''idle'' None None sample_store) = Inr (d, s') \<and>
     map_of (c_tasks s') ''t1'' = Some r' \<and> ct_status r' = ''queued'' \<and> ct_completed r' = Some 7"
proof -
  let ?s = "finalize_write 7 ''t1'' ''w1'' ''completed'' ''idle'' None None sample_store"
  from sample_facts obtain r where r: "map_of (c_tasks sample_store) ''t1'' = Some r" "plain_id ''t1''" by (auto simp: map_option_eq_Some)
  from r(1) obtain r' where "map_of (c_tasks ?s) ''t1'' = Some r'" "ct_status r' = ''completed''" "ct_completed r' = Some 7"
    by (simp add: finalize_write_def)
  with release_reopens_finished [OF r(2), of ?s r' 8] show ?thesis by auto
qed

end
