(* ===== verification/ReactTools.thy ===== *)
theory ReactTools
  imports ToolGates TaskState
begin

text \<open>
  The helpers of the ReAct loop: reading a provider response (\<open>orchestrator/provider_turn.py\<close>),
  turning a tool call into a tool specification, the pre-execution blocks, the read cache and the
  tests on tool results (\<open>orchestrator/react_tool_helpers.py\<close>, \<open>orchestrator/react_runner.py\<close>).
  Tool results carry hashable statuses and an object under \<open>result\<close>, as the tool pipeline writes
  them. \<open>json.loads\<close> is a parameter of the functions that parse arguments.
\<close>

section \<open>Provider responses\<close>

fun first_text :: "pdict \<Rightarrow> string list \<Rightarrow> string option" where
  \<comment> \<open>the first of the keys that holds a string that is not blank\<close>
  "first_text d [] = None"
| "first_text d (k # ks) =
     (case dget d k of PStr s \<Rightarrow> if strip s \<noteq> '''' then Some s else first_text d ks | _ \<Rightarrow> first_text d ks)"

definition assistant_text :: "pdict \<Rightarrow> string" where
  "assistant_text response = (case first_text response [''message'', ''content'', ''text''] of None \<Rightarrow> '''' | Some s \<Rightarrow> s)"

definition final_answer :: "pdict \<Rightarrow> bool \<Rightarrow> string option res" where
  "final_answer response allow_plain_message =
     (case first_text response [''final'', ''final_answer'', ''answer''] of
        Some s \<Rightarrow> Inr (Some s)
      | None \<Rightarrow>
          rbind (pin_set (dget response ''type'') [''final'', ''final_answer'']) (\<lambda>is_final.
            let text = assistant_text response in
            Inr (if (is_final \<or> allow_plain_message) \<and> text \<noteq> '''' then Some text else None)))"

datatype parsed_response =
    ParsedAskUser string
  | ParsedToolCalls string "pv list"
  | ParsedCompleted string

definition explicit_decision :: "pdict \<Rightarrow> pv" where
  "explicit_decision response = por (dget response ''decision'') (dget response ''turn_decision'')"

definition parse_provider_response :: "pv \<Rightarrow> bool \<Rightarrow> parsed_response res" where
  \<comment> \<open>with \<open>allow_fallback=False\<close>, as the loop calls it\<close>
  "parse_provider_response response allow_plain_message_final =
     (case response of
        PDict r \<Rightarrow>
          if explicit_decision r = PStr ''ask_user'' then Inr (ParsedAskUser (assistant_text r))
          else
            let final = rbind (final_answer r allow_plain_message_final) (\<lambda>a.
                  case a of Some s \<Rightarrow> Inr (ParsedCompleted s) | None \<Rightarrow> Inl RuntimeErr)
            in (case dget r ''tool_calls'' of
                  PNone \<Rightarrow> final
                | PList (c # cs) \<Rightarrow> Inr (ParsedToolCalls (assistant_text r) (c # cs))
                | PList [] \<Rightarrow> final
                | _ \<Rightarrow> Inl RuntimeErr)
      | _ \<Rightarrow> Inl RuntimeErr)"

definition turn_decisions :: "string list" where
  "turn_decisions =
     [''continue_with_tools'', ''final_answer'', ''ask_user'', ''needs_approval'', ''blocked_by_policy'', ''failed'']"

definition turn_decision :: "pdict \<Rightarrow> bool \<Rightarrow> string res" where
  \<comment> \<open>the \<open>decision\<close> field of \<open>_parse_turn_result\<close>\<close>
  "turn_decision response allow_plain_message_final =
     (let inferred =
        (case dget response ''tool_calls'' of
           PList (c # cs) \<Rightarrow> Inr ''continue_with_tools''
         | _ \<Rightarrow> rbind (final_answer response allow_plain_message_final) (\<lambda>a.
                Inr (if a \<noteq> None then ''final_answer'' else ''failed'')))
      in case explicit_decision response of
           PStr d \<Rightarrow> if d \<in> set turn_decisions then Inr d else inferred
         | _ \<Rightarrow> inferred)"

section \<open>From a tool call to a specification\<close>

definition first_nonblank :: "pdict \<Rightarrow> string list \<Rightarrow> string option" where
  "first_nonblank d ks = map_option strip (first_text d ks)"

definition tool_call_parent_id :: "pdict \<Rightarrow> string option" where
  "tool_call_parent_id call =
     (let keys = [''parentToolUseId'', ''parent_tool_use_id'', ''parentToolCallId'', ''parent_tool_call_id'', ''parentId'', ''parent_id''] in
      case first_nonblank call keys of
        Some s \<Rightarrow> Some s
      | None \<Rightarrow> (case dget call ''metadata'' of PDict m \<Rightarrow> first_nonblank m keys | _ \<Rightarrow> None))"

definition set_default :: "string \<Rightarrow> pv \<Rightarrow> pdict \<Rightarrow> pdict" where
  \<comment> \<open>\<open>d.setdefault(k, v)\<close>\<close>
  "set_default k v d = (if dhas d k then d else dput k v d)"

definition workspace_tools :: "string list" where
  "workspace_tools =
     [''list_dir'', ''search_files'', ''read_file'', ''run_command'', ''apply_patch'', ''git_status'', ''git_diff'',
      ''write_file'', ''code_search'', ''notebook'']"

definition active_config_profile :: "pdict \<Rightarrow> string \<Rightarrow> pdict option" where
  "active_config_profile config key =
     (case dget config key of
        PDict section \<Rightarrow>
          (case dget section ''profiles'' of
             PList ps \<Rightarrow>
               (case List.find (\<lambda>p. py_eq (dget (the_dict p) ''id'') (dget section ''activeProfileId'')) (filter is_dict ps) of
                  Some p \<Rightarrow> Some (the_dict p)
                | None \<Rightarrow> (case filter is_dict ps of p # _ \<Rightarrow> Some (the_dict p) | [] \<Rightarrow> None))
           | _ \<Rightarrow> None)
      | _ \<Rightarrow> None)"

definition config_of :: "pdict \<Rightarrow> pdict option" where
  \<comment> \<open>\<open>context.get("config")\<close>, if an object\<close>
  "config_of ctx = (case dget_or ctx ''config'' (PDict []) of PDict c \<Rightarrow> Some c | _ \<Rightarrow> None)"

definition int_at_least :: "int \<Rightarrow> pv \<Rightarrow> int option" where
  \<comment> \<open>\<open>max(m, int(v))\<close>, nothing on \<open>TypeError\<close> and \<open>ValueError\<close>\<close>
  "int_at_least m v = (case py_int v of Inl _ \<Rightarrow> None | Inr i \<Rightarrow> Some (max m i))"

definition autonomy_profile_int :: "pdict \<Rightarrow> string \<Rightarrow> int option" where
  "autonomy_profile_int ctx key =
     (let snapshot = (case sub_dict ctx ''routing'' of
            None \<Rightarrow> None
          | Some routing \<Rightarrow> (case sub_dict routing ''profile_snapshot'' of
              None \<Rightarrow> None | Some s \<Rightarrow> sub_dict s ''autonomyProfile''));
          profile = (case snapshot of
            Some p \<Rightarrow> Some p
          | None \<Rightarrow> (case config_of ctx of None \<Rightarrow> None | Some c \<Rightarrow> active_config_profile c ''autonomy''))
      in case profile of None \<Rightarrow> None | Some p \<Rightarrow> int_at_least 1 (dget p key))"

fun first_int_at_least :: "int \<Rightarrow> pv list \<Rightarrow> int option" where
  \<comment> \<open>the first value that is present and converts\<close>
  "first_int_at_least m [] = None"
| "first_int_at_least m (v # vs) =
     (if is_none v then first_int_at_least m vs
      else case int_at_least m v of Some i \<Rightarrow> Some i | None \<Rightarrow> first_int_at_least m vs)"

definition routing_budget :: "pdict \<Rightarrow> pdict option" where
  "routing_budget ctx =
     (case sub_dict ctx ''routing'' of
        None \<Rightarrow> None
      | Some routing \<Rightarrow> (case sub_dict routing ''mainWorkflow'' of None \<Rightarrow> None | Some w \<Rightarrow> sub_dict w ''budget''))"

definition policy_of :: "pdict \<Rightarrow> pdict option" where
  \<comment> \<open>\<open>(context.get("config") or {}).get("policy")\<close>, if both are objects; a missing policy is empty\<close>
  "policy_of ctx = (case config_of ctx of None \<Rightarrow> None | Some c \<Rightarrow> sub_dict c ''policy'')"

definition policy_timeout_ms :: "pdict \<Rightarrow> string list \<Rightarrow> int option" where
  "policy_timeout_ms ctx keys =
     (case policy_of ctx of
        None \<Rightarrow> None
      | Some p \<Rightarrow> (case filter (\<lambda>v. \<not> is_none v) (dgets p keys) of [] \<Rightarrow> None | v # _ \<Rightarrow> int_at_least 1000 v))"

fun first_profile_int :: "pdict \<Rightarrow> string list \<Rightarrow> int option" where
  \<comment> \<open>\<open>f(k1) or f(k2) or f(k3)\<close>: the values are positive\<close>
  "first_profile_int ctx [] = None"
| "first_profile_int ctx (k # ks) = (case autonomy_profile_int ctx k of Some i \<Rightarrow> Some i | None \<Rightarrow> first_profile_int ctx ks)"

definition child_subtask_timeout_ms :: "pdict \<Rightarrow> int option" where
  "child_subtask_timeout_ms ctx =
     (let from_budget = (case routing_budget ctx of
            None \<Rightarrow> None
          | Some b \<Rightarrow> first_int_at_least 1000 (dgets b [''childTaskTimeoutMs'', ''childTimeoutMs'']));
          keys = [''childTaskTimeoutMs'', ''childTimeoutMs'', ''subtaskTimeoutMs'']
      in case from_budget of
           Some t \<Rightarrow> Some t
         | None \<Rightarrow>
             (case first_profile_int ctx keys of
                Some t \<Rightarrow> Some t
              | None \<Rightarrow>
                  (case policy_timeout_ms ctx keys of
                     Some t \<Rightarrow> Some t
                   | None \<Rightarrow>
                       (case autonomy_profile_int ctx ''timeoutMs'' of
                          Some t \<Rightarrow> Some t
                        | None \<Rightarrow> policy_timeout_ms ctx [''commandTimeoutMs'']))))"

definition max_task_steps :: "pdict \<Rightarrow> int" where
  "max_task_steps ctx =
     (let candidates = dgets ctx [''_max_task_steps_override''] @
            (case routing_budget ctx of None \<Rightarrow> [] | Some b \<Rightarrow> dgets b [''resumeMaxSteps'', ''maxSteps'', ''max_steps'']) @
            from_sub ctx ''routing'' (\<lambda>routing. dgets routing [''max_steps'', ''maxSteps''])
      in case first_int_at_least 1 candidates of
           Some i \<Rightarrow> i
         | None \<Rightarrow>
             (case autonomy_profile_int ctx ''maxSteps'' of
                Some i \<Rightarrow> i
              | None \<Rightarrow>
                  (case policy_of ctx of
                     None \<Rightarrow> 20
                   | Some p \<Rightarrow> (case int_at_least 1 (dget_or p ''maxTaskSteps'' (PInt 20)) of None \<Rightarrow> 20 | Some i \<Rightarrow> i))))"

definition max_patch_repair_attempts :: "pdict \<Rightarrow> int" where
  "max_patch_repair_attempts ctx =
     (case policy_of ctx of
        None \<Rightarrow> 2
      | Some p \<Rightarrow> (case py_int (dget_or p ''maxPatchRepairAttempts'' (PInt 2)) of Inl _ \<Rightarrow> 2 | Inr i \<Rightarrow> max 0 (min i 10)))"

definition setdefault_all :: "(string \<times> pv) list \<Rightarrow> pdict \<Rightarrow> pdict" where
  "setdefault_all kvs d = fold (\<lambda>(k, v) d. set_default k v d) kvs d"

definition search_config_get :: "pdict \<Rightarrow> string \<Rightarrow> pv \<Rightarrow> pv res" where
  \<comment> \<open>\<open>context.get("search_config", {}).get(k, v)\<close>\<close>
  "search_config_get ctx k v =
     (case dget_or ctx ''search_config'' (PDict []) of PDict c \<Rightarrow> Inr (dget_or c k v) | _ \<Rightarrow> Inl AttrErr)"

definition fill_workspace :: "string \<Rightarrow> pdict \<Rightarrow> pdict \<Rightarrow> pdict res" where
  "fill_workspace name ctx args =
     (if name \<notin> set workspace_tools then Inr args
      else if \<not> dhas ctx ''workspace_root'' then Inl KeyErr
      else
        let a1 = dput ''workspaceRoot'' (dget ctx ''workspace_root'') (dpop ''workspace_root'' args);
            a2 = (if truthy (dget ctx ''original_workspace_root'')
                  then set_default ''originalWorkspaceRoot'' (dget ctx ''original_workspace_root'') a1 else a1);
            worktree_id = (case sub_dict ctx ''active_worktree'' of None \<Rightarrow> PNone | Some t \<Rightarrow> dget t ''id'')
        in Inr (if truthy worktree_id then set_default ''activeWorktreeId'' worktree_id a2 else a2))"

definition fill_named :: "string \<Rightarrow> pdict \<Rightarrow> pdict \<Rightarrow> pdict res" where
  "fill_named name ctx args =
     (if name = ''list_dir'' then
        rbind (search_config_get ctx ''ignore'' (PList [])) (\<lambda>ig. Inr (setdefault_all
          [(''path'', PStr ''.''), (''recursive'', PBool False), (''max_depth'', PInt 2), (''ignore'', ig)] args))
      else if name = ''search_files'' then
        rbind (search_config_get ctx ''glob'' (PList [])) (\<lambda>gl.
        rbind (search_config_get ctx ''ignore'' (PList [])) (\<lambda>ig. Inr (setdefault_all
          [(''mode'', dget_or ctx ''search_mode'' (PStr ''content'')), (''glob'', gl), (''ignore'', ig), (''max_results'', PInt 8)] args)))
      else if name = ''read_file'' then
        rbind (search_config_get ctx ''ignore'' (PList [])) (\<lambda>ig. Inr (setdefault_all [(''max_bytes'', PInt 4000), (''ignore'', ig)] args))
      else if name = ''run_command'' then Inr (set_default ''cwd'' (PStr ''.'') args)
      else if name = ''apply_patch'' then Inr (set_default ''dry_run'' (PBool False) args)
      else if name = ''task'' then
        let a = set_default ''priority'' (PInt 3) args in
        Inr (if dhas a ''timeoutMs'' then a
             else case child_subtask_timeout_ms ctx of None \<Rightarrow> a | Some t \<Rightarrow> dput ''timeoutMs'' (PInt t) a)
      else Inr args)"

definition fill_tool_defaults :: "string \<Rightarrow> pdict \<Rightarrow> pv \<Rightarrow> pv res" where
  \<comment> \<open>parsed arguments that are no object have no \<open>pop\<close> with a default and no \<open>setdefault\<close>\<close>
  "fill_tool_defaults name ctx args =
     (case args of
        PDict d \<Rightarrow> rbind (fill_workspace name ctx d) (\<lambda>d'. rbind (fill_named name ctx d') (\<lambda>d''. Inr (PDict d'')))
      | _ \<Rightarrow>
          if name \<in> set workspace_tools then Inl (if is_list args then TypeErr else AttrErr)
          else if name = ''task'' then Inl AttrErr
          else Inr args)"

definition plan_step_for_tool :: "string \<Rightarrow> string" where
  "plan_step_for_tool name =
     (case map_of [(''list_dir'', ''inspect-workspace''), (''search_files'', ''search-relevant-files''),
        (''read_file'', ''search-relevant-files''), (''task'', ''task''), (''run_command'', ''run-command''),
        (''apply_patch'', ''apply-patch''), (''git_status'', ''git-status''), (''git_diff'', ''git-diff'')] name of
        Some s \<Rightarrow> s | None \<Rightarrow> replace_char CHR ''_'' CHR ''-'' name)"

definition parse_arguments :: "(string \<Rightarrow> pv option) \<Rightarrow> pv \<Rightarrow> pv res" where
  \<comment> \<open>\<open>json_loads\<close> gives \<open>None\<close> for a \<open>JSONDecodeError\<close>\<close>
  "parse_arguments json_loads raw =
     (case raw of
        PStr s \<Rightarrow> (case json_loads (if s = '''' then ''{}'' else s) of None \<Rightarrow> Inl RuntimeErr | Some v \<Rightarrow> Inr v)
      | PDict d \<Rightarrow> Inr (PDict d)
      | _ \<Rightarrow> Inl RuntimeErr)"

definition call_function :: "pdict \<Rightarrow> pdict" where
  "call_function call = (case dget call ''function'' of PDict f \<Rightarrow> f | _ \<Rightarrow> [])"

definition tool_call_to_spec :: "(string \<Rightarrow> pv option) \<Rightarrow> pv \<Rightarrow> pdict \<Rightarrow> pdict res" where
  \<comment> \<open>\<open>_provider_tool_call_to_spec\<close>\<close>
  "tool_call_to_spec json_loads call ctx =
     (case call of
        PDict c \<Rightarrow>
          (case por (dget c ''name'') (dget (call_function c) ''name'') of
             PStr name \<Rightarrow>
               if strip name = '''' then Inl RuntimeErr
               else
                 rbind (parse_arguments json_loads
                    (if dhas c ''arguments'' then dget c ''arguments'' else dget_or (call_function c) ''arguments'' (PDict []))) (\<lambda>args0.
                 rbind (fill_tool_defaults name ctx args0) (\<lambda>args.
                   Inr ([(''id'', dget c ''id''), (''name'', PStr name), (''arguments'', args),
                         (''plan_step_id'', PStr (plan_step_for_tool name)), (''start_token'', PStr (''Running tool: '' @ name))] @
                        (case tool_call_parent_id c of None \<Rightarrow> [] | Some p \<Rightarrow> [(''parentToolUseId'', PStr p)]) @
                        filter (\<lambda>(k, v). \<not> is_none v)
                          (map (\<lambda>k. (k, dget c k)) [''toolGroupId'', ''toolIndex'', ''toolTotal'', ''toolOperationId'', ''toolOperationLabel'']))))
           | _ \<Rightarrow> Inl RuntimeErr)
      | _ \<Rightarrow> Inl RuntimeErr)"

definition spec_name :: "pdict \<Rightarrow> string" where
  \<comment> \<open>\<open>str(tool_spec.get("name") or "")\<close>\<close>
  "spec_name spec = py_str (por (dget spec ''name'') (PStr ''''))"

section \<open>Tests before execution\<close>

definition parallel_read_only_tools :: "string list" where
  "parallel_read_only_tools =
     [''read_file'', ''list_dir'', ''list_directory'', ''search_files'', ''code_search'', ''git_status'', ''git_diff'',
      ''web_fetch'', ''memory.recall'', ''scratchpad.read'']"

definition plan_mode_allowed_tools :: "string list" where
  "plan_mode_allowed_tools =
     [''read_file'', ''list_dir'', ''list_directory'', ''search_files'', ''code_search'', ''git_status'', ''git_diff'',
      ''web_fetch'', ''browser'', ''memory.recall'', ''scratchpad.read'', ''exit_plan_mode'']"

definition plan_mode :: "pdict \<Rightarrow> bool" where
  "plan_mode ctx = is_true (dget ctx ''_plan_mode'')"

definition plan_mode_allows_tool :: "pdict \<Rightarrow> pdict \<Rightarrow> bool" where
  "plan_mode_allows_tool ctx spec = (if \<not> plan_mode ctx then True else spec_name spec \<in> set plan_mode_allowed_tools)"

definition exit_plan_mode_requires_active_plan :: "pdict \<Rightarrow> pdict \<Rightarrow> bool" where
  "exit_plan_mode_requires_active_plan ctx spec \<longleftrightarrow> spec_name spec = ''exit_plan_mode'' \<and> \<not> plan_mode ctx"

definition provider_turn_allows_tool :: "pdict \<Rightarrow> string list \<Rightarrow> bool" where
  \<comment> \<open>the second argument is \<open>allowed_tool_names\<close> of the turn's decision\<close>
  "provider_turn_allows_tool spec allowed =
     (let name = strip (spec_name spec) in
      if name = '''' then False
      else name \<in> set allowed \<or> (starts ''mcp__'' name \<and> ''mcp__*'' \<in> set allowed))"

definition concurrency_safe :: "pdict \<Rightarrow> bool" where
  \<comment> \<open>\<open>_is_concurrency_safe_tool_spec\<close>\<close>
  "concurrency_safe spec =
     (let name = strip (spec_name spec) in
      if name = '''' then False
      else if truthy (dget spec ''parentToolUseId'') then False
      else name \<in> set parallel_read_only_tools)"

section \<open>Blocked results\<close>

definition blocked_result :: "pv \<Rightarrow> pdict \<Rightarrow> pv \<Rightarrow> string \<Rightarrow> string \<Rightarrow> string \<Rightarrow> string \<Rightarrow> pdict \<Rightarrow> pdict" where
  \<comment> \<open>the object that the three functions \<open>_blocked_*_tool_result\<close> build\<close>
  "blocked_result new_id spec name target input operation label result =
     [(''id'', por (dget spec ''id'') new_id), (''name'', name), (''arguments'', dget_or spec ''arguments'' (PDict [])),
      (''target'', PStr target), (''inputSummary'', PStr input), (''toolCategory'', PStr ''tool''),
      (''toolOperationId'', PStr operation), (''toolOperationLabel'', PStr label), (''resultSummary'', dget result ''summary''),
      (''result'', PDict result), (''modelVisibleResult'', PDict result)]"

definition blocked_plan_mode_tool_result :: "pv \<Rightarrow> pdict \<Rightarrow> pdict" where
  "blocked_plan_mode_tool_result new_id spec =
     blocked_result new_id spec (dget spec ''name'') (spec_name spec) ''blocked by plan mode''
       (''tool:'' @ py_str (por (dget spec ''name'') (PStr ''tool''))) ''Plan mode''
       [(''status'', PStr ''blocked''), (''error'', PStr ''Plan mode allows only read-only tools and exit_plan_mode.''),
        (''summary'', PStr ''Tool blocked by plan mode.'')]"

definition blocked_exit_plan_mode_tool_result :: "pv \<Rightarrow> pdict \<Rightarrow> pdict" where
  "blocked_exit_plan_mode_tool_result new_id spec =
     blocked_result new_id spec (dget spec ''name'') ''plan'' ''exit_plan_mode outside plan mode'' ''tool:exit_plan_mode'' ''Plan mode''
       [(''status'', PStr ''blocked''),
        (''error'', PStr ''exit_plan_mode can only be used after enter_plan_mode has put the task in plan mode.''),
        (''summary'', PStr ''Plan approval was not requested because plan mode is not active.'')]"

definition blocked_unavailable_tool_result :: "pv \<Rightarrow> pdict \<Rightarrow> tool_policy_decision \<Rightarrow> pdict" where
  "blocked_unavailable_tool_result new_id spec dec =
     (let name = py_str (por (dget spec ''name'') (PStr ''tool''));
          phase = (if p_phase dec = '''' then ''tool_policy'' else p_phase dec);
          why = (case map_of (p_reasons dec) name of
              Some r \<Rightarrow> if r = '''' then name @ '' was not available to the model in this turn.'' else r
            | None \<Rightarrow> name @ '' was not available to the model in this turn.'')
      in blocked_result new_id spec (PStr name) name ''blocked by tool policy'' (''tool:'' @ name) ''Tool policy''
           [(''status'', PStr ''blocked''), (''failureKind'', PStr ''tool_not_available''), (''toolName'', PStr name),
            (''phase'', PStr phase), (''error'', PStr why),
            (''summary'', PStr (''Tool '' @ name @ '' was not available in this turn.''))])"

section \<open>Tests on tool results\<close>

definition payload :: "pdict \<Rightarrow> pdict" where
  \<comment> \<open>\<open>tool_result["result"]\<close>\<close>
  "payload result = the_dict (dget result ''result'')"

definition tool_failed :: "pdict \<Rightarrow> bool" where
  "tool_failed p \<longleftrightarrow>
     pin_tuple (dget p ''status'') [''failed'', ''error'', ''timeout'', ''killed'', ''partial''] \<or> dget p ''ok'' = PBool False"

definition is_patch_validation_failure :: "string \<Rightarrow> pdict \<Rightarrow> bool" where
  "is_patch_validation_failure name p \<longleftrightarrow> name = ''apply_patch'' \<and> dget p ''status'' = PStr ''validation_failed''"

definition waits_with :: "string \<Rightarrow> string \<Rightarrow> pdict \<Rightarrow> pdict \<Rightarrow> bool" where
  "waits_with name status spec result \<longleftrightarrow>
     dget spec ''name'' = PStr name \<and> (case dget result ''result'' of PDict p \<Rightarrow> dget p ''status'' = PStr status | _ \<Rightarrow> False)"

definition tool_result_waits_for_user :: "pdict \<Rightarrow> pdict \<Rightarrow> bool" where
  "tool_result_waits_for_user = waits_with ''ask_user_question'' ''waiting_user''"

definition tool_result_enters_plan_mode :: "pdict \<Rightarrow> pdict \<Rightarrow> bool" where
  "tool_result_enters_plan_mode = waits_with ''enter_plan_mode'' ''plan_mode_entered''"

definition tool_result_waits_for_plan_approval :: "pdict \<Rightarrow> pdict \<Rightarrow> bool" where
  "tool_result_waits_for_plan_approval = waits_with ''exit_plan_mode'' ''approval_required''"

definition context_with_plan_mode :: "pdict \<Rightarrow> pdict \<Rightarrow> pdict" where
  "context_with_plan_mode ctx result =
     dput ''_plan_mode_reason'' (por (por (dget (payload result) ''reason'') (dget (payload result) ''summary'')) (PStr ''plan mode''))
       (dput ''_plan_mode'' (PBool True) ctx)"

definition read_file_cache_key :: "pdict \<Rightarrow> pdict option" where
  \<comment> \<open>the object whose JSON text is the key\<close>
  "read_file_cache_key spec =
     (if dget spec ''name'' \<noteq> PStr ''read_file'' then None
      else case dget spec ''arguments'' of
          PDict args \<Rightarrow> Some (filter (\<lambda>(k, v). dhas args k)
            (map (\<lambda>k. (k, dget args k)) [''encoding'', ''max_bytes'', ''path'', ''workspaceRoot'', ''workspace_root'']))
        | _ \<Rightarrow> None)"

definition invalidates_read_file_cache :: "string \<Rightarrow> bool" where
  "invalidates_read_file_cache name \<longleftrightarrow> name \<in> {''apply_patch'', ''write_file'', ''run_command'', ''task''}"

definition tool_semantic_metadata :: "pdict \<Rightarrow> pdict" where
  "tool_semantic_metadata d =
     (let text = (\<lambda>k dflt. let s = strip (py_str (por (dget d k) (PStr dflt))) in if s = '''' then dflt else s);
          group = strip (py_str (por (dget d ''toolGroupId'') (PStr '''')))
      in [(''toolSemanticParentId'', PStr (if group \<noteq> '''' then ''group:'' @ group @ '':phase:'' @ text ''toolPhaseId'' ''tool''
            else ''phase:'' @ text ''toolPhaseId'' ''tool'')),
          (''toolSemanticParentLabel'', PStr (text ''toolPhaseLabel'' ''tool''))])"

definition cloned_keys :: "string list" where
  "cloned_keys =
     [''parentToolUseId'', ''toolGroupId'', ''toolIndex'', ''toolTotal'', ''toolOperationId'', ''toolOperationLabel'',
      ''toolCategory'', ''toolPhaseId'', ''toolPhaseLabel'', ''toolSemanticParentId'', ''toolSemanticParentLabel'',
      ''target'', ''inputSummary'', ''displayTitle'', ''displaySummary'', ''displayTarget'', ''displayKind'']"

definition clone_cached_tool_result :: "pv \<Rightarrow> pdict \<Rightarrow> pdict \<Rightarrow> pdict" where
  "clone_cached_tool_result new_id spec cached =
     (let r1 = dput ''arguments'' (dget_or spec ''arguments'' (PDict [])) (dput ''id'' (por (dget spec ''id'') new_id) cached);
          r2 = fold (\<lambda>k r. if is_none (dget spec k) then dpop k r else dput k (dget spec k) r) cloned_keys r1;
          r3 = dupdate r2 (tool_semantic_metadata r2)
      in case dget r3 ''result'' of PDict p \<Rightarrow> dput ''result'' (PDict (dput ''cached'' (PBool True) p)) r3 | _ \<Rightarrow> r3)"

definition tool_result_message :: "(pdict \<Rightarrow> pv) \<Rightarrow> pv \<Rightarrow> pdict \<Rightarrow> pdict" where
  \<comment> \<open>\<open>visible\<close> stands for \<open>_model_visible_tool_result\<close>; the content is the value whose JSON text is sent\<close>
  "tool_result_message visible call result =
     [(''role'', PStr ''tool''), (''tool_call_id'', por (dget (the_dict call) ''id'') (dget result ''id'')),
      (''name'', dget result ''name''),
      (''content'', if is_none (dget result ''modelVisibleResult'') then visible result else dget result ''modelVisibleResult'')]"

definition results_summary :: "pdict list \<Rightarrow> nat \<times> nat" where
  \<comment> \<open>\<open>total\<close> and \<open>completed\<close> of \<open>_tool_results_summary_for_budget\<close>\<close>
  "results_summary results =
     (length results,
      length (filter (\<lambda>item. let p = payload item in
        \<not> pin_tuple (dget p ''status'') [''waiting_approval'', ''waiting_user'', ''pending'', ''failed'', ''error'', ''timeout''] \<and>
        dget p ''ok'' \<noteq> PBool False) results))"

definition context_with_additional_step_budget :: "pdict \<Rightarrow> int \<Rightarrow> int \<Rightarrow> pdict" where
  "context_with_additional_step_budget ctx consumed_steps current_limit =
     (let additional = max 3 (min 10 current_limit);
          override = max current_limit consumed_steps + additional;
          routing = the_dict (dget ctx ''routing'');
          workflow = the_dict (dget routing ''mainWorkflow'');
          budget = the_dict (dget workflow ''budget'');
          budget' = dput ''resumeAdditionalSteps'' (PInt additional) (dput ''resumeMaxSteps'' (PInt override) budget)
      in dput ''routing'' (PDict (dput ''mainWorkflow'' (PDict (dput ''budget'' (PDict budget') workflow)) routing))
           (dput ''_max_task_steps_override'' (PInt override) ctx))"

end
