(* ===== verification/AskUser.thy ===== *)
theory AskUser
  imports ReactTools
begin

text \<open>
  When the agent may ask the user a question (\<open>orchestrator/react_runner.py\<close>): the test whether a
  question must be put to the user, the answer the runtime gives in the user's place when it need
  not, and the normal form of questions and their options. The markers are the source's, Chinese
  ones as their UTF-8 bytes.
\<close>

definition any_marker :: "string list \<Rightarrow> string \<Rightarrow> bool" where
  "any_marker ms s \<longleftrightarrow> list_ex (\<lambda>m. has_sub m s) ms"

section \<open>Markers\<close>

definition required_reason_markers :: "string list" where
  "required_reason_markers =
     [''missing_required'', ''required_information'', ''missing information'', ''missing_info'', ''scope_unclear'',
      ''blocked'', ''auth'', ''credential'', ''permission'', ''approval'', ''secret'', ''access'']"

definition no_followup_markers :: "string list" where
  "no_followup_markers =
     [''do not ask'', ''don'' @ [CHR 0x27] @ ''t ask'', ''dont ask'', ''no need to ask'', ''without asking'',
      ''do not ask me'', ''don'' @ [CHR 0x27] @ ''t ask me'', ''no questions'', ''no follow-up'', ''no follow up'',
      [CHR 0xE4, CHR 0xB8, CHR 0x8D, CHR 0xE8, CHR 0xA6, CHR 0x81, CHR 0xE8, CHR 0xAF, CHR 0xA2, CHR 0xE9, CHR 0x97,
      CHR 0xAE], [CHR 0xE6, CHR 0x97, CHR 0xA0, CHR 0xE9, CHR 0x9C, CHR 0x80, CHR 0xE8, CHR 0xAF, CHR 0xA2, CHR 0xE9,
      CHR 0x97, CHR 0xAE], [CHR 0xE4, CHR 0xB8, CHR 0x8D, CHR 0xE7, CHR 0x94, CHR 0xA8, CHR 0xE8, CHR 0xAF, CHR 0xA2,
      CHR 0xE9, CHR 0x97, CHR 0xAE],
      [CHR 0xE4, CHR 0xB8, CHR 0x8D, CHR 0xE9, CHR 0x9C, CHR 0x80, CHR 0xE8, CHR 0xA6, CHR 0x81, CHR 0xE8, CHR 0xAF,
      CHR 0xA2, CHR 0xE9, CHR 0x97, CHR 0xAE], [CHR 0xE4, CHR 0xB8, CHR 0x8D, CHR 0xE8, CHR 0xA6, CHR 0x81, CHR 0xE9,
      CHR 0x97, CHR 0xAE, CHR 0xE6, CHR 0x88, CHR 0x91],
      [CHR 0xE4, CHR 0xB8, CHR 0x8D, CHR 0xE7, CHR 0x94, CHR 0xA8, CHR 0xE9, CHR 0x97, CHR 0xAE, CHR 0xE6, CHR 0x88,
      CHR 0x91], [CHR 0xE4, CHR 0xB8, CHR 0x8D, CHR 0xE9, CHR 0x9C, CHR 0x80, CHR 0xE8, CHR 0xA6, CHR 0x81, CHR 0xE9,
      CHR 0x97, CHR 0xAE, CHR 0xE6, CHR 0x88, CHR 0x91], [CHR 0xE4, CHR 0xB8, CHR 0x8D, CHR 0xE7, CHR 0x94, CHR 0xA8,
      CHR 0xE9, CHR 0x97, CHR 0xAE],
      [CHR 0xE6, CHR 0x97, CHR 0xA0, CHR 0xE9, CHR 0x9C, CHR 0x80, CHR 0xE7, CHR 0xA1, CHR 0xAE, CHR 0xE8, CHR 0xAE,
      CHR 0xA4], [CHR 0xE4, CHR 0xB8, CHR 0x8D, CHR 0xE8, CHR 0xA6, CHR 0x81, CHR 0xE7, CHR 0xA1, CHR 0xAE, CHR 0xE8,
      CHR 0xAE, CHR 0xA4], [CHR 0xE4, CHR 0xB8, CHR 0x8D, CHR 0xE7, CHR 0x94, CHR 0xA8, CHR 0xE7, CHR 0xA1, CHR 0xAE,
      CHR 0xE8, CHR 0xAE, CHR 0xA4]]"

definition blocking_input_markers :: "string list" where
  "blocking_input_markers =
     [''auth'', ''credential'', ''api key'', ''token'', ''secret'', ''password'', ''login'', ''permission'',
      ''approval'', ''access'', ''destructive'', ''danger'', ''irreversible'', ''data loss'', ''delete production'',
      ''external account'', ''billing'', ''payment'', ''which path'', ''what path'', ''target path'',
      ''repository path'', ''repo path'', [CHR 0xE5, CHR 0x87, CHR 0xAD, CHR 0xE8, CHR 0xAF, CHR 0x81], [CHR 0xE5,
      CHR 0xAF, CHR 0x86, CHR 0xE9, CHR 0x92, CHR 0xA5], [CHR 0xE5, CHR 0xAF, CHR 0x86, CHR 0xE7, CHR 0xA0, CHR 0x81],
      [CHR 0xE7, CHR 0x99, CHR 0xBB, CHR 0xE5, CHR 0xBD, CHR 0x95], [CHR 0xE6, CHR 0x9D, CHR 0x83, CHR 0xE9,
      CHR 0x99, CHR 0x90], [CHR 0xE6, CHR 0x8E, CHR 0x88, CHR 0xE6, CHR 0x9D, CHR 0x83], [CHR 0xE5, CHR 0xAE,
      CHR 0xA1, CHR 0xE6, CHR 0x89, CHR 0xB9], [CHR 0xE8, CHR 0xAE, CHR 0xBF, CHR 0xE9, CHR 0x97, CHR 0xAE],
      [CHR 0xE5, CHR 0x93, CHR 0xAA, CHR 0xE4, CHR 0xB8, CHR 0xAA, CHR 0xE8, CHR 0xB7, CHR 0xAF, CHR 0xE5, CHR 0xBE,
      CHR 0x84], [CHR 0xE4, CHR 0xBB, CHR 0x80, CHR 0xE4, CHR 0xB9, CHR 0x88, CHR 0xE8, CHR 0xB7, CHR 0xAF, CHR 0xE5,
      CHR 0xBE, CHR 0x84], [CHR 0xE7, CHR 0x9B, CHR 0xAE, CHR 0xE6, CHR 0xA0, CHR 0x87, CHR 0xE8, CHR 0xB7, CHR 0xAF,
      CHR 0xE5, CHR 0xBE, CHR 0x84],
      [CHR 0xE5, CHR 0x8D, CHR 0xB1, CHR 0xE9, CHR 0x99, CHR 0xA9], [CHR 0xE4, CHR 0xB8, CHR 0x8D, CHR 0xE5,
      CHR 0x8F, CHR 0xAF, CHR 0xE9, CHR 0x80, CHR 0x86], [CHR 0xE6, CHR 0x95, CHR 0xB0, CHR 0xE6, CHR 0x8D, CHR 0xAE,
      CHR 0xE4, CHR 0xB8, CHR 0xA2, CHR 0xE5, CHR 0xA4, CHR 0xB1], [CHR 0xE4, CHR 0xBB, CHR 0x98, CHR 0xE8, CHR 0xB4,
      CHR 0xB9]]"

definition low_risk_preference_markers :: "string list" where
  "low_risk_preference_markers =
     [''style'', ''format'', ''sort'', ''sorting'', ''order'', ''priority'', ''status list'', ''list style'',
      ''presentation'', ''output format'', [CHR 0xE8, CHR 0xBE, CHR 0x93, CHR 0xE5, CHR 0x87, CHR 0xBA, CHR 0xE6,
      CHR 0xA0, CHR 0xBC, CHR 0xE5, CHR 0xBC, CHR 0x8F], [CHR 0xE6, CHR 0x8E, CHR 0x92, CHR 0xE5, CHR 0xBA, CHR 0x8F],
      [CHR 0xE9, CHR 0xA3, CHR 0x8E, CHR 0xE6, CHR 0xA0, CHR 0xBC], [CHR 0xE6, CHR 0xA0, CHR 0xB7, CHR 0xE5,
      CHR 0xBC, CHR 0x8F], [CHR 0xE4, CHR 0xBC, CHR 0x98, CHR 0xE5, CHR 0x85, CHR 0x88, CHR 0xE7, CHR 0xBA,
      CHR 0xA7], [CHR 0xE7, CHR 0x8E, CHR 0xB0, CHR 0xE7, CHR 0x8A, CHR 0xB6, CHR 0xE6, CHR 0xB8, CHR 0x85, CHR 0xE5,
      CHR 0x8D, CHR 0x95],
      [CHR 0xE7, CHR 0x8A, CHR 0xB6, CHR 0xE6, CHR 0x80, CHR 0x81, CHR 0xE6, CHR 0xB8, CHR 0x85, CHR 0xE5, CHR 0x8D,
      CHR 0x95]]"

definition cleanup_goal_markers :: "string list" where
  "cleanup_goal_markers =
     [''delete'', ''remove'', ''cleanup'', ''clean up'', [CHR 0xE5, CHR 0x88, CHR 0xA0, CHR 0xE9, CHR 0x99,
     CHR 0xA4], [CHR 0xE5, CHR 0x88, CHR 0xA0, CHR 0xE6, CHR 0x8E, CHR 0x89],
      [CHR 0xE7, CHR 0xA7, CHR 0xBB, CHR 0xE9, CHR 0x99, CHR 0xA4], [CHR 0xE6, CHR 0xB8, CHR 0x85, CHR 0xE7,
      CHR 0x90, CHR 0x86], [CHR 0xE4, CHR 0xB8, CHR 0x8D, CHR 0xE9, CHR 0x9C, CHR 0x80, CHR 0xE8, CHR 0xA6,
      CHR 0x81], [CHR 0xE4, CHR 0xB8, CHR 0x8D, CHR 0xE8, CHR 0xA6, CHR 0x81]]"

definition generated_path_markers :: "string list" where
  "generated_path_markers =
     [''%systemdrive%'', ''systemdrive'', ''__pycache__'', ''.pyc'', ''.pytest_cache'', ''.idea/workspace.xml'',
      ''.idea'' @ [CHR 0x5C] @ ''workspace.xml'', ''memory.md'', ''memory.local.md'', ''yuanbao.md'', ''tmp_'',
      ''generated'', ''cache'', ''local-only'', [CHR 0xE6, CHR 0x9C, CHR 0xAA, CHR 0xE8, CHR 0xB7, CHR 0x9F,
      CHR 0xE8, CHR 0xB8, CHR 0xAA], [CHR 0xE5, CHR 0x8D, CHR 0xA0, CHR 0xE4, CHR 0xBD, CHR 0x8D],
      [CHR 0xE7, CHR 0xBC, CHR 0x93, CHR 0xE5, CHR 0xAD, CHR 0x98], [CHR 0xE7, CHR 0x94, CHR 0x9F, CHR 0xE6,
      CHR 0x88, CHR 0x90], [CHR 0xE6, CHR 0x9C, CHR 0xAC, CHR 0xE5, CHR 0x9C, CHR 0xB0]]"

definition cleanup_question_markers :: "string list" where
  "cleanup_question_markers =
     [''delete'', ''remove'', ''cleanup'', ''clean up'', ''untracked'', [CHR 0xE5, CHR 0x88, CHR 0xA0, CHR 0xE9,
     CHR 0x99, CHR 0xA4], [CHR 0xE5, CHR 0x88, CHR 0xA0, CHR 0xE6, CHR 0x8E, CHR 0x89],
      [CHR 0xE7, CHR 0xA7, CHR 0xBB, CHR 0xE9, CHR 0x99, CHR 0xA4], [CHR 0xE6, CHR 0xB8, CHR 0x85, CHR 0xE7,
      CHR 0x90, CHR 0x86], [CHR 0xE5, CHR 0xBC, CHR 0x82, CHR 0xE5, CHR 0xB8, CHR 0xB8], [CHR 0xE6, CHR 0x9C,
      CHR 0xAA, CHR 0xE8, CHR 0xB7, CHR 0x9F, CHR 0xE8, CHR 0xB8, CHR 0xAA]]"

definition continuation_markers :: "string list" where
  "continuation_markers =
     [''continue'', ''proceed'', ''go ahead'', ''launch'', ''synthesis agent'', ''third agent'', ''next agent'',
      ''existing findings'', ''light file inspection'', [CHR 0xE7, CHR 0xBB, CHR 0xA7, CHR 0xE7, CHR 0xBB, CHR 0xAD],
      [CHR 0xE7, CHR 0xBB, CHR 0xA7, CHR 0xE7, CHR 0xBB, CHR 0xAD, CHR 0xE5, CHR 0x88, CHR 0x86, CHR 0xE6, CHR 0x9E,
      CHR 0x90],
      [CHR 0xE7, CHR 0xBB, CHR 0xA7, CHR 0xE7, CHR 0xBB, CHR 0xAD, CHR 0xE6, CHR 0x89, CHR 0xA7, CHR 0xE8, CHR 0xA1,
      CHR 0x8C], [CHR 0xE5, CHR 0xBC, CHR 0x80, CHR 0xE5, CHR 0xA7, CHR 0x8B], [CHR 0xE6, CHR 0x8E, CHR 0xA8,
      CHR 0xE8, CHR 0xBF, CHR 0x9B]]"

definition continuation_blocking_markers :: "string list" where
  "continuation_blocking_markers =
     [''delete'', ''remove'', ''write'', ''edit'', ''run command'', ''execute'', ''permission'', ''credential'',
      ''api key'', ''token'', ''secret'', [CHR 0xE5, CHR 0x88, CHR 0xA0, CHR 0xE9, CHR 0x99, CHR 0xA4], [CHR 0xE5,
      CHR 0x86, CHR 0x99, CHR 0xE5, CHR 0x85, CHR 0xA5], [CHR 0xE4, CHR 0xBF, CHR 0xAE, CHR 0xE6, CHR 0x94, CHR 0xB9],
      [CHR 0xE6, CHR 0x89, CHR 0xA7, CHR 0xE8, CHR 0xA1, CHR 0x8C, CHR 0xE5, CHR 0x91, CHR 0xBD, CHR 0xE4, CHR 0xBB,
      CHR 0xA4], [CHR 0xE6, CHR 0x9D, CHR 0x83, CHR 0xE9, CHR 0x99, CHR 0x90], [CHR 0xE5, CHR 0xAF, CHR 0x86,
      CHR 0xE9, CHR 0x92, CHR 0xA5]]"

section \<open>The test\<close>

definition question_options :: "pv \<Rightarrow> pv list" where
  \<comment> \<open>the options that \<open>_ask_user_question_text\<close> reads\<close>
  "question_options needs =
     (case needs of
        PDict d \<Rightarrow>
          (case dget d ''options'' of
             PList os \<Rightarrow> os
           | _ \<Rightarrow> (case dget d ''questions'' of
                PList qs \<Rightarrow> concat (map (\<lambda>q. case q of PDict i \<Rightarrow> the_list (dget i ''options'') | _ \<Rightarrow> []) qs)
              | _ \<Rightarrow> []))
      | _ \<Rightarrow> [])"

definition option_texts :: "pv \<Rightarrow> string list" where
  "option_texts opt =
     (case opt of
        PDict d \<Rightarrow> map (\<lambda>k. py_str (por (dget d k) (PStr ''''))) [''label'', ''value'', ''description'']
      | _ \<Rightarrow> [py_str opt])"

definition ask_user_question_text :: "pv \<Rightarrow> pv \<Rightarrow> pv \<Rightarrow> string" where
  "ask_user_question_text question why needs =
     lower (join '' ''
       ([py_str (por question (PStr ''''))] @ (if truthy why then [py_str why] else []) @
        (case needs of
           PDict d \<Rightarrow> map py_str (filter truthy (map (dget d) [''question'', ''summary'', ''reason'']))
         | _ \<Rightarrow> []) @
        concat (map option_texts (question_options needs))))"

definition low_risk_cleanup_question :: "string \<Rightarrow> pv \<Rightarrow> pdict \<Rightarrow> bool" where
  "low_risk_cleanup_question text goal ctx =
     (let combined_goal = lower (join '' '' (map (\<lambda>part. py_str (por part (PStr '''')))
            [goal, dget ctx ''goal'', dget ctx ''userGoal'', dget ctx ''content'']));
          combined_all = lower (combined_goal @ '' '' @ text)
      in any_marker cleanup_goal_markers combined_all \<and> any_marker generated_path_markers combined_all \<and>
         any_marker cleanup_question_markers combined_all)"

definition last_n :: "nat \<Rightarrow> 'a list \<Rightarrow> 'a list" where
  \<comment> \<open>\<open>xs[-n:]\<close> for a positive \<open>n\<close>\<close>
  "last_n n xs = drop (length xs - n) xs"

definition user_texts :: "pdict \<Rightarrow> string list" where
  "user_texts ctx =
     concat (map (\<lambda>m. case m of
         PDict d \<Rightarrow> if dget d ''role'' = PStr ''user'' then (case dget d ''content'' of PStr s \<Rightarrow> [s] | _ \<Rightarrow> []) else []
       | _ \<Rightarrow> []) (last_n 4 (the_list (dget ctx ''messages''))))"

definition user_requested_no_followup_questions :: "pv \<Rightarrow> pdict \<Rightarrow> bool" where
  "user_requested_no_followup_questions goal ctx \<longleftrightarrow>
     any_marker no_followup_markers (lower (join '' ''
       ([py_str (por goal (PStr ''''))] @
        map py_str (filter truthy (map (dget ctx) [''goal'', ''userGoal'', ''content'', ''originalUserMessage''])) @
        user_texts ctx)))"

definition question_requires_user_blocking_input :: "string \<Rightarrow> string \<Rightarrow> bool" where
  "question_requires_user_blocking_input text reason_text \<longleftrightarrow>
     any_marker blocking_input_markers (lower (reason_text @ '' '' @ text))"

definition low_risk_continuation_question :: "string \<Rightarrow> bool" where
  "low_risk_continuation_question text \<longleftrightarrow>
     any_marker continuation_markers (lower text) \<and> \<not> any_marker continuation_blocking_markers (lower text)"

definition ask_user_question_is_required :: "pv \<Rightarrow> pv \<Rightarrow> pv \<Rightarrow> pv \<Rightarrow> pdict \<Rightarrow> bool" where
  "ask_user_question_is_required question why needs goal ctx =
     (let reason_text = lower (strip (py_str (por why (PStr ''''))));
          text = ask_user_question_text question why needs in
      if low_risk_cleanup_question text goal ctx then False
      else if user_requested_no_followup_questions goal ctx \<and> \<not> question_requires_user_blocking_input text reason_text then False
      else if any_marker required_reason_markers reason_text then True
      else if low_risk_continuation_question text then False
      else if question_requires_user_blocking_input text reason_text then True
      else if any_marker low_risk_preference_markers text then False
      else False)"

section \<open>Answering in the user's place\<close>

definition first_options :: "pv \<Rightarrow> pv list" where
  "first_options needs =
     (let own = the_list (dget (the_dict needs) ''options'') in
      if own \<noteq> [] then own
      else case List.find (\<lambda>q. is_dict q \<and> is_list (dget (the_dict q) ''options'')) (the_list (dget (the_dict needs) ''questions'')) of
          Some q \<Rightarrow> the_list (dget (the_dict q) ''options'')
        | None \<Rightarrow> [])"

definition recommended_option :: "pv list \<Rightarrow> pv" where
  "recommended_option opts =
     (case List.find (\<lambda>p. is_true (dget (the_dict p) ''recommended'')) opts of
        Some p \<Rightarrow> p
      | None \<Rightarrow> (case opts of [] \<Rightarrow> PNone | p # _ \<Rightarrow> p))"

definition default_answer :: "pv \<Rightarrow> pv \<Rightarrow> pv \<Rightarrow> string" where
  \<comment> \<open>\<open>_default_answer_for_low_risk_question\<close>\<close>
  "default_answer question needs goal =
     (let text = ask_user_question_text question PNone needs;
          otherwise = ''Using the sensible default and continuing without asking for a low-risk preference.'' in
      if low_risk_cleanup_question text goal [] then
        ''Defaulting to the user'' @ [CHR 0x27] @ ''s cleanup intent: remove only generated/local noise paths; keep source, memory, and IDE state files unchanged.''
      else if low_risk_continuation_question text then ''Defaulting to continue with the low-risk read-only analysis.''
      else case recommended_option (first_options needs) of
          PDict p \<Rightarrow>
            (let label = strip (py_str (por (por (dget p ''label'') (dget p ''value'')) (PStr '''')));
                 description = strip (py_str (por (dget p ''description'') (PStr ''''))) in
             if label \<noteq> '''' \<and> description \<noteq> '''' then ''Defaulting to '' @ label @ '': '' @ description
             else if label \<noteq> '''' then ''Defaulting to '' @ label @ ''.''
             else otherwise)
        | _ \<Rightarrow> otherwise)"

definition default_answers_for_questions :: "pdict list \<Rightarrow> string \<Rightarrow> pdict" where
  "default_answers_for_questions questions answer =
     fold (\<lambda>(i, q) acc.
        let qid = strip (py_str (por (dget q ''id'') (PStr (''question_'' @ nat_digits (Suc i)))))
        in if qid = '''' then acc else dput qid (PStr answer) acc) (enum questions) []"

section \<open>Normal forms\<close>

definition normalize_option :: "nat \<Rightarrow> pv \<Rightarrow> pdict" where
  "normalize_option i opt =
     (let numbered = ''option_'' @ nat_digits (Suc i);
          fields = (case opt of
              PDict d \<Rightarrow>
                (let label = strip (py_str (por (por (por (dget d ''label'') (dget d ''title'')) (dget d ''value'')) (PStr '''')))
                 in (label, strip (py_str (por (por (dget d ''value'') (PStr label)) (PStr numbered))),
                     strip (py_str (por (por (dget d ''description'') (dget d ''detail'')) (PStr '''')))))
            | _ \<Rightarrow>
                (let label = strip (py_str (por opt (PStr ''''))) in (label, if label = '''' then numbered else label, '''')))
      in case fields of (label, value, description) \<Rightarrow>
           [(''label'', PStr (utake 80 (if label = '''' then [CHR 0xE9, CHR 0x80, CHR 0x89, CHR 0xE9, CHR 0xA1,
           CHR 0xB9] @ '' '' @ nat_digits (Suc i) else label))),
            (''value'', PStr (utake 120 value)), (''description'', PStr (utake 240 description))] @
           (if truthy (dget (the_dict opt) ''recommended'') \<or> truthy (dget (the_dict opt) ''isRecommended'')
            then [(''recommended'', PBool True)] else []))"

definition normalize_user_question_options :: "pv \<Rightarrow> pdict list" where
  "normalize_user_question_options options = map (\<lambda>(i, x). normalize_option i x) (enum (take 4 (the_list options)))"

definition default_user_question_options :: "pdict list" where
  "default_user_question_options =
     map (\<lambda>(label, v, description). [(''label'', PStr label), (''value'', PStr v), (''description'', PStr description)])
       [([CHR 0xE7, CHR 0xBB, CHR 0xA7, CHR 0xE7, CHR 0xBB, CHR 0xAD, CHR 0xE5, CHR 0xBD, CHR 0x93, CHR 0xE5,
       CHR 0x89, CHR 0x8D, CHR 0xE6, CHR 0x96, CHR 0xB9, CHR 0xE5, CHR 0x90, CHR 0x91], ''continue'',
         [CHR 0xE6, CHR 0x8A, CHR 0x8A, CHR 0xE8, CHR 0xBF, CHR 0x99, CHR 0xE6, CHR 0x9D, CHR 0xA1, CHR 0xE5,
         CHR 0x9B, CHR 0x9E, CHR 0xE5, CHR 0xA4, CHR 0x8D, CHR 0xE4, CHR 0xBD, CHR 0x9C, CHR 0xE4, CHR 0xB8,
         CHR 0xBA, CHR 0xE8, CHR 0xA1, CHR 0xA5, CHR 0xE5, CHR 0x85, CHR 0x85, CHR 0xE8, CHR 0xAF, CHR 0xB4,
         CHR 0xE6, CHR 0x98, CHR 0x8E, CHR 0xEF, CHR 0xBC, CHR 0x8C, CHR 0xE6, CHR 0x81, CHR 0xA2, CHR 0xE5,
         CHR 0xA4, CHR 0x8D, CHR 0xE5, CHR 0xBD, CHR 0x93, CHR 0xE5, CHR 0x89, CHR 0x8D, CHR 0xE4, CHR 0xBB,
         CHR 0xBB, CHR 0xE5, CHR 0x8A, CHR 0xA1, CHR 0xE3, CHR 0x80, CHR 0x82]),
        ([CHR 0xE8, CHR 0xB0, CHR 0x83, CHR 0xE6, CHR 0x95, CHR 0xB4, CHR 0xE7, CHR 0x9B, CHR 0xAE, CHR 0xE6,
        CHR 0xA0, CHR 0x87], ''change_goal'',
         [CHR 0xE8, CHR 0xA1, CHR 0xA5, CHR 0xE5, CHR 0x85, CHR 0x85, CHR 0xE6, CHR 0x96, CHR 0xB0, CHR 0xE7,
         CHR 0x9A, CHR 0x84, CHR 0xE7, CHR 0xBA, CHR 0xA6, CHR 0xE6, CHR 0x9D, CHR 0x9F, CHR 0xE6, CHR 0x88,
         CHR 0x96, CHR 0xE8, CHR 0x8C, CHR 0x83, CHR 0xE5, CHR 0x9B, CHR 0xB4, CHR 0xEF, CHR 0xBC, CHR 0x8C,
         CHR 0xE8, CHR 0xAE, CHR 0xA9, CHR 0xE4, CHR 0xBB, CHR 0xBB, CHR 0xE5, CHR 0x8A, CHR 0xA1, CHR 0xE6,
         CHR 0x8C, CHR 0x89, CHR 0xE6, CHR 0x96, CHR 0xB0, CHR 0xE7, CHR 0x9B, CHR 0xAE, CHR 0xE6, CHR 0xA0,
         CHR 0x87, CHR 0xE7, CHR 0xBB, CHR 0xA7, CHR 0xE7, CHR 0xBB, CHR 0xAD, CHR 0xE3, CHR 0x80, CHR 0x82]),
        ([CHR 0xE6, CHR 0x94, CHR 0xB6, CHR 0xE5, CHR 0xB0, CHR 0xBE, CHR 0xE6, CHR 0x80, CHR 0xBB, CHR 0xE7,
        CHR 0xBB, CHR 0x93], ''wrap_up'',
         [CHR 0xE5, CHR 0x81, CHR 0x9C, CHR 0xE6, CHR 0xAD, CHR 0xA2, CHR 0xE6, CHR 0xB7, CHR 0xB1, CHR 0xE5,
         CHR 0x85, CHR 0xA5, CHR 0xE6, CHR 0x89, CHR 0xA7, CHR 0xE8, CHR 0xA1, CHR 0x8C, CHR 0xEF, CHR 0xBC,
         CHR 0x8C, CHR 0xE4, CHR 0xBC, CHR 0x98, CHR 0xE5, CHR 0x85, CHR 0x88, CHR 0xE6, CHR 0x95, CHR 0xB4,
         CHR 0xE7, CHR 0x90, CHR 0x86, CHR 0xE5, CHR 0xBD, CHR 0x93, CHR 0xE5, CHR 0x89, CHR 0x8D, CHR 0xE8,
         CHR 0xBF, CHR 0x9B, CHR 0xE5, CHR 0xB1, CHR 0x95, CHR 0xE3, CHR 0x80, CHR 0x82])]"

definition missing_information :: string where
  "missing_information = ''Please provide the missing information.''"

definition normalize_question :: "(string \<Rightarrow> string) \<Rightarrow> nat \<Rightarrow> pv \<Rightarrow> pdict" where
  \<comment> \<open>\<open>title\<close> stands for \<open>str.title\<close>\<close>
  "normalize_question title i item =
     (let d = (case item of PDict d \<Rightarrow> d | _ \<Rightarrow> [(''question'', PStr (py_str (por item (PStr ''''))))]);
          numbered = ''question_'' @ nat_digits (Suc i);
          given = utake 64 (strip (py_str (por (dget d ''id'') (PStr numbered))));
          qid = (if given = '''' then numbered else given)
      in [(''id'', PStr qid),
          (''header'', PStr (utake 80 (strip (py_str (por (por (dget d ''header'') (dget d ''title''))
              (PStr (title (replace_char CHR ''_'' CHR '' '' qid)))))))),
          (''question'', PStr (utake 1000 (strip (py_str (por (por (por (dget d ''question'') (dget d ''prompt'')) (dget d ''text''))
              (PStr missing_information)))))),
          (''options'', PList (map PDict (normalize_user_question_options (dget d ''options''))))])"

definition normalize_user_questions_payload :: "(string \<Rightarrow> string) \<Rightarrow> pdict \<Rightarrow> pdict list" where
  "normalize_user_questions_payload title result =
     (let questions = (case dget result ''questions'' of
            PList (q # qs) \<Rightarrow> q # qs
          | _ \<Rightarrow> [PDict [(''id'', PStr ''question_1''), (''header'', PStr ''Question''),
               (''question'', por (por (dget result ''question'') (dget result ''summary'')) (PStr missing_information)),
               (''options'', case dget result ''options'' of PList os \<Rightarrow> PList os | _ \<Rightarrow> PList [])]])
      in map (\<lambda>(i, x). normalize_question title i x) (enum (take 3 questions)))"

section \<open>When a question reaches the user\<close>

text \<open>
  The marker lists make the test a decision by four tests only: a question that looks like a
  cleanup of generated files is never asked; one whose stated reason is on the list of required
  reasons is asked unless the user wants no questions and nothing in it blocks; any other one is
  asked exactly when it needs blocking input and is no low-risk continuation. The list of
  low-risk preferences decides nothing, and a question without any marker is never asked.
\<close>

theorem question_required_iff:
  "ask_user_question_is_required question why needs goal ctx =
     (let reason_text = lower (strip (py_str (por why (PStr ''''))));
          text = ask_user_question_text question why needs;
          blocking = question_requires_user_blocking_input text reason_text in
      \<not> low_risk_cleanup_question text goal ctx \<and>
      (if any_marker required_reason_markers reason_text
       then blocking \<or> user_requested_no_followup_questions goal ctx = False
       else blocking \<and> low_risk_continuation_question text = False))"
  by (auto simp: ask_user_question_is_required_def Let_def)

text \<open>
  The cleanup test comes first and looks for its markers anywhere in the question and the
  goal, so it silences questions that ask for an approval to destroy data: deleting production
  data whose name contains \<open>cache\<close> is not asked although the stated reason is an approval and the
  text names a destructive action on production data, and the runtime answers in the user's place
  with its cleanup answer. The same question about another name is asked.
\<close>

theorem cleanup_silences_approval:
  "ask_user_question_is_required (PStr ''Approve the destructive step: delete production session-cache database?'')
     (PStr ''approval'') PNone (PStr ''Ship the release'') [] = False \<and>
   default_answer (PStr ''Approve the destructive step: delete production session-cache database?'') PNone (PStr ''Ship the release'')
     = default_answer (PStr ''delete generated files?'') PNone PNone \<and>
   ask_user_question_is_required (PStr ''Approve the destructive step: delete production session database?'')
     (PStr ''approval'') PNone (PStr ''Ship the release'') [] = True"
  by (intro conjI) code_simp+

section \<open>Bounds of normal forms\<close>

definition text_within :: "nat \<Rightarrow> nat \<Rightarrow> pv \<Rightarrow> bool" where
  "text_within lo hi v = (case v of PStr s \<Rightarrow> lo \<le> ulen s \<and> ulen s \<le> hi | _ \<Rightarrow> False)"

definition option_bounded :: "pdict \<Rightarrow> bool" where
  "option_bounded p \<longleftrightarrow>
     text_within 1 80 (dget p ''label'') \<and> text_within 0 120 (dget p ''value'') \<and> text_within 0 240 (dget p ''description'')"

definition question_bounded :: "pdict \<Rightarrow> bool" where
  "question_bounded q \<longleftrightarrow>
     text_within 1 64 (dget q ''id'') \<and> text_within 0 80 (dget q ''header'') \<and> text_within 0 1000 (dget q ''question'') \<and>
     (case dget q ''options'' of PList os \<Rightarrow> length os \<le> 4 \<and> list_all (\<lambda>p. option_bounded (the_dict p)) os | _ \<Rightarrow> False)"

lemma length_enum [simp]: "length (enum xs) = length xs"
  by (simp add: enum_def)

lemma text_within_utake: "lo \<le> 1 \<Longrightarrow> 0 < hi \<Longrightarrow> lo = 0 \<or> s \<noteq> [] \<Longrightarrow> text_within lo hi (PStr (utake hi s))"
  using ulen_ge_1 [of s] by (auto simp: text_within_def ulen_utake le_Suc_eq)

text \<open>Where the number of an entry is small, its generated name is short.\<close>

lemma short_digits: "n < 10 \<Longrightarrow> nat_digits n = [char_of (48 + n)]"
  by (simp add: nat_digits.simps)

lemma option_bounded_normalize: "option_bounded (normalize_option i opt)"
  by (cases opt) (auto simp: option_bounded_def normalize_option_def Let_def dget_Cons intro!: text_within_utake)

lemma question_bounded_normalize:
  assumes "i < 9"
  shows "question_bounded (normalize_question title i item)"
proof -
  have n: "ulen (''question_'' @ nat_digits (Suc i)) \<le> 64 \<and> Suc 0 \<le> ulen (''question_'' @ nat_digits (Suc i))"
    using assms digits_ascii [of "Suc i"]
    by (subst (1 2) ulen_ascii) (auto simp: short_digits cont_byte_def Let_def)
  show ?thesis
    unfolding question_bounded_def normalize_question_def Let_def
    using n
    by (auto simp: dget_Cons normalize_user_question_options_def list_all_iff option_bounded_normalize
        intro!: text_within_utake)
       (auto simp: text_within_def ulen_utake ulen_ge_1 utake_eq_Nil)
qed

text \<open>
  However a tool call spells its questions, the user is shown one to three of them, each with
  an identifier of 1 to 64 characters, a text of at most 1000 and at most four options, every one
  with a label of 1 to 80 characters.
\<close>

theorem questions_bounded:
  "1 \<le> length (normalize_user_questions_payload title result) \<and> length (normalize_user_questions_payload title result) \<le> 3 \<and>
   list_all question_bounded (normalize_user_questions_payload title result)"
proof -
  have all: "list_all question_bounded (map (\<lambda>(i, x). normalize_question title i x) (enum (take 3 qs)))" for qs
    by (auto simp: list_all_iff set_enum intro!: question_bounded_normalize)
  show ?thesis
    using all by (auto simp: normalize_user_questions_payload_def Let_def split: pv.split list.split)
qed

end
