(* ===== verification/ReactLoop.thy ===== *)
theory ReactLoop
  imports AskUser
begin

text \<open>
  The ReAct loop (\<open>_run_react_loop_inner\<close> of \<open>orchestrator/react_runner.py\<close>): provider turns under
  a step limit, the execution of the tool calls of a turn one by one or as a parallel batch, and
  the pauses. What the loop asks of other components, the provider, the executor of tools, the
  task store that other threads write, compaction, is a \<open>world\<close> that answers by a clock the loop
  advances at every question; \<open>x_trace\<close> records which specifications were handed to the
  executor. Publishing, hooks, tracing and the turn records of the store leave the loop's state
  alone and are left out.
\<close>

section \<open>State\<close>

record pending =
  q_context :: pdict
  q_messages :: "pv list"
  q_results :: "pdict list"
  q_steps :: nat
  q_started :: bool
  q_repairs :: nat
  q_call :: pv
  q_spec :: pv
  q_remaining :: "pv list"

text \<open>A specification was executed, in plan mode or not, as the follower in a batch or not.\<close>

datatype run = Run (run_planning: bool) (run_follower: bool) (run_spec: pdict)

record react =
  x_context :: pdict
  x_shared :: "string list"
  x_messages :: "pv list"
  x_results :: "pdict list"
  x_steps :: nat
  x_started :: bool
  x_repairs :: nat
  x_cache :: "(pdict \<times> pdict) list"
  x_tools :: "pdict list option"
  x_pending :: "pending option"
  x_clock :: nat
  x_trace :: "run list"

record world =
  w_goal :: pv
  w_session :: string
  w_task :: "nat \<Rightarrow> pdict"
  w_cancelled :: "nat \<Rightarrow> bool"
  w_inbox :: "nat \<Rightarrow> nat \<Rightarrow> pv list"
  w_schemas :: "pv list"
  w_preflight :: "nat \<Rightarrow> pdict \<Rightarrow> pdict"
  w_provider :: "nat \<Rightarrow> pdict \<Rightarrow> pv res"
  w_annotate_batch :: "pv list \<Rightarrow> pdict list \<Rightarrow> pv list"
  w_annotate_call :: "pv \<Rightarrow> pdict list \<Rightarrow> pv"
  w_operation :: "pdict \<Rightarrow> pdict \<Rightarrow> pdict"
  w_execute :: "nat \<Rightarrow> pdict \<Rightarrow> pdict \<Rightarrow> pdict res"
  w_compact :: "(nat \<Rightarrow> pdict \<Rightarrow> pv list \<Rightarrow> pv list) option"
  w_refresh :: "string \<Rightarrow> (pdict \<Rightarrow> pv \<Rightarrow> pdict) option"
  w_visible :: "pdict \<Rightarrow> pv"
  w_loads :: "string \<Rightarrow> pv option"
  w_title :: "string \<Rightarrow> string"
  w_new_id :: "nat \<Rightarrow> pv"
  w_convergence :: "nat \<Rightarrow> pdict \<Rightarrow> pdict"
  w_handoff :: "nat \<Rightarrow> pdict \<Rightarrow> string"

text \<open>How the loop ends; an exception is propagated to the caller.\<close>

datatype loop_end =
    LoopCancelled
  | LoopPaused
  | LoopWaiting
  | LoopCompleted string
  | LoopFailed string
  | LoopRaised exn

type_synonym step = "loop_end option \<times> react"

definition andthen :: "step \<Rightarrow> (react \<Rightarrow> step) \<Rightarrow> step" where
  \<comment> \<open>\<open>if maybe_terminal is not None: return maybe_terminal\<close>\<close>
  "andthen s f = (case s of (Some e, x) \<Rightarrow> (Some e, x) | (None, x) \<Rightarrow> f x)"

definition tick :: "react \<Rightarrow> react" where
  "tick x = x\<lparr>x_clock := Suc (x_clock x)\<rparr>"

definition read_task :: "world \<Rightarrow> react \<Rightarrow> pdict \<times> react" where
  "read_task w x = (w_task w (x_clock x), tick x)"

definition task_is :: "string \<Rightarrow> pdict \<Rightarrow> bool" where
  "task_is s task \<longleftrightarrow> dget task ''status'' = PStr s"

text \<open>
  The context holds the very lists of messages and tool results that the loop appends to, until a
  copy is made: \<open>x_shared\<close> names the entries that still are those lists, and \<open>live\<close> is the context
  with them as they now are.
\<close>

definition live :: "react \<Rightarrow> pdict" where
  "live x =
     (let c = (if ''messages'' \<in> set (x_shared x) then dput ''messages'' (PList (x_messages x)) (x_context x) else x_context x)
      in if ''tool_results'' \<in> set (x_shared x) then dput ''tool_results'' (PList (map PDict (x_results x))) c else c)"

definition share :: "string \<Rightarrow> react \<Rightarrow> react" where
  "share k x = x\<lparr>x_shared := k # x_shared x\<rparr>"

definition say :: "pv list \<Rightarrow> react \<Rightarrow> react" where
  "say ms x = x\<lparr>x_messages := x_messages x @ ms\<rparr>"

definition record_result :: "world \<Rightarrow> pv \<Rightarrow> pdict \<Rightarrow> react \<Rightarrow> react" where
  "record_result w call result x =
     say [PDict (tool_result_message (w_visible w) call result)] (x\<lparr>x_results := x_results x @ [result]\<rparr>)"

section \<open>Pauses\<close>

definition save_pending :: "pdict \<Rightarrow> pv list \<Rightarrow> pv \<Rightarrow> pv \<Rightarrow> pv list \<Rightarrow> bool \<Rightarrow> react \<Rightarrow> react" where
  "save_pending ctx messages call spec remaining started x =
     x\<lparr>x_pending := Some \<lparr>q_context = ctx, q_messages = messages, q_results = x_results x, q_steps = x_steps x,
         q_started = started, q_repairs = x_repairs x, q_call = call, q_spec = spec, q_remaining = remaining\<rparr>\<rparr>"

definition pause_cooperatively :: "react \<Rightarrow> step" where
  "pause_cooperatively x = (Some LoopPaused, save_pending (live x) (x_messages x) PNone PNone [] (x_started x) x)"

definition with_request_id :: "pv \<Rightarrow> pdict \<Rightarrow> pdict" where
  "with_request_id rid ctx =
     dput ''_pending_user_question'' (PDict (dput ''requestId'' rid (the_dict (dget ctx ''_pending_user_question'')))) ctx"

definition pause_react_for_user_question :: "world \<Rightarrow> pdict \<Rightarrow> string \<Rightarrow> react \<Rightarrow> step" where
  "pause_react_for_user_question w ctx question x =
     (Some LoopPaused,
      save_pending (with_request_id (w_new_id w (x_clock x)) ctx)
        (x_messages x @ [PDict [(''role'', PStr ''assistant''), (''content'', PStr question)]]) PNone PNone [] (x_started x) (tick x))"

definition primary_question :: "pdict list \<Rightarrow> pdict \<Rightarrow> pv" where
  "primary_question questions result =
     (case questions of
        q # _ \<Rightarrow> dget q ''question''
      | [] \<Rightarrow> PStr (py_str (por (dget result ''question'') (PStr missing_information))))"

definition pause_react_for_user_question_tool :: "world \<Rightarrow> pv list \<Rightarrow> pv \<Rightarrow> pdict \<Rightarrow> pdict \<Rightarrow> react \<Rightarrow> (pdict + react)" where
  \<comment> \<open>\<open>Inl\<close>: answered by default, with the new result; \<open>Inr\<close>: paused\<close>
  "pause_react_for_user_question_tool w remaining call spec result x =
     (let p = payload result;
          questions = normalize_user_questions_payload (w_title w) p;
          question = primary_question questions p;
          options = (case questions of q # _ \<Rightarrow> dget q ''options'' | [] \<Rightarrow> dget p ''options'');
          needs = PDict [(''questions'', PList (map PDict questions)), (''options'', options)]
      in if \<not> ask_user_question_is_required question (dget p ''reason'') needs (w_goal w) (live x) then
           (let answer = default_answer question needs (w_goal w);
                answered = PDict [(''status'', PStr ''answered''), (''summary'', PStr answer), (''answer'', PStr answer),
                  (''answers'', PDict (default_answers_for_questions questions answer)), (''questions'', PList (map PDict questions)),
                  (''defaulted'', PBool True), (''reason'', PStr ''low_risk_preference_defaulted''),
                  (''_chatCompatSuppressToolResult'', PBool True)]
            in Inl (dput ''modelVisibleResult'' answered (dput ''result'' answered (dput ''resultSummary'' (PStr answer) result))))
         else
           (let asked = [(''toolCallId'', por (dget (the_dict call) ''id'') (dget result ''id'')), (''toolName'', dget spec ''name''),
                  (''questions'', PList (map PDict questions)), (''summary'', por (dget p ''summary'') question),
                  (''reason'', por (dget p ''reason'') (PStr ''needs_user_input'')),
                  (''resumePolicy'', por (dget p ''resumePolicy'') (PStr ''requires_user_follow_up''))];
                rid = (if truthy (dget p ''requestId'') then PStr (py_str (dget p ''requestId'')) else w_new_id w (x_clock x))
            in Inr (save_pending (with_request_id rid (dput ''_pending_user_question'' (PDict asked) (live x)))
                 (x_messages x) call (PDict spec) remaining True (tick x))))"

definition pause_react_for_plan_approval_tool :: "pdict \<Rightarrow> pv list \<Rightarrow> pv \<Rightarrow> pdict \<Rightarrow> pdict \<Rightarrow> react \<Rightarrow> step" where
  "pause_react_for_plan_approval_tool task remaining call spec result x =
     (let p = payload result;
          plan = the_dict (dget p ''plan'');
          asked = [(''toolCallId'', por (dget (the_dict call) ''id'') (dget result ''id'')),
            (''approvalId'', PStr (strip (py_str (por (dget (the_dict (dget p ''approval'')) ''id'') (PStr ''''))))),
            (''plan'', PDict plan),
            (''summary'', por (por (dget p ''summary'') (dget plan ''summary'')) (PStr ''Plan approval required before execution.''))];
          x' = save_pending (dput ''_pending_plan_approval'' (PDict asked) (dput ''_plan_mode'' (PBool True) (live x)))
            (x_messages x) call (PDict spec) remaining True x
      in if task_is ''waiting_approval'' task then (Some LoopWaiting, x')
         else (case assert_transition (the_str (dget task ''status'')) ''waiting_approval'' (the_str (dget task ''id'')) False of
             Inl _ \<Rightarrow> (Some (LoopRaised ValueErr), x')
           | Inr _ \<Rightarrow> (Some LoopWaiting, x')))"

section \<open>After a tool\<close>

definition after_compaction :: "world \<Rightarrow> react \<Rightarrow> react" where
  "after_compaction w x =
     (case w_compact w of
        None \<Rightarrow> x
      | Some shrink \<Rightarrow> share ''messages'' (tick (x\<lparr>x_messages := shrink (x_clock x) (live x) (x_messages x)\<rparr>)))"

definition after_refresh :: "world \<Rightarrow> pdict \<Rightarrow> pdict \<Rightarrow> react \<Rightarrow> react" where
  "after_refresh w spec result x =
     (case w_refresh w (spec_name spec) of
        None \<Rightarrow> x
      | Some refresh \<Rightarrow> share ''messages'' (x\<lparr>x_context := refresh (live x) (dget result ''result'')\<rparr>))"

definition cache_result :: "pdict \<Rightarrow> pdict \<Rightarrow> pdict option \<Rightarrow> react \<Rightarrow> react" where
  "cache_result spec result key x =
     (case key of
        Some k \<Rightarrow>
          if \<not> tool_failed (payload result) then x\<lparr>x_cache := AList.update k result (x_cache x)\<rparr>
          else if invalidates_read_file_cache (spec_name spec) then x\<lparr>x_cache := []\<rparr> else x
      | None \<Rightarrow> if invalidates_read_file_cache (spec_name spec) then x\<lparr>x_cache := []\<rparr> else x)"

definition keep_result :: "world \<Rightarrow> pv \<Rightarrow> pdict \<Rightarrow> pdict \<Rightarrow> react \<Rightarrow> step" where
  \<comment> \<open>from \<open>tool_results.append\<close> on: compaction, refresh, patch repair, a failed worktree binding\<close>
  "keep_result w call spec result x0 =
     (let x = after_refresh w spec result (after_compaction w (record_result w call result x0)) in
      if is_patch_validation_failure (spec_name spec) (payload result) then
        (let x' = x\<lparr>x_repairs := Suc (x_repairs x)\<rparr> in
         if max_patch_repair_attempts (live x) < int (x_repairs x') then (Some (LoopRaised RuntimeErr), x') else (None, x'))
      else if dget (payload result) ''failureKind'' = PStr ''worktree_binding_failed'' then
        (Some (LoopFailed ''WORKTREE_BINDING_FAILED''), x)
      else (None, x))"

definition settle_result :: "world \<Rightarrow> pdict \<Rightarrow> pv list \<Rightarrow> pv \<Rightarrow> pdict \<Rightarrow> pdict \<Rightarrow> react \<Rightarrow> step" where
  \<comment> \<open>plan mode, plan approval and other approvals, before the result is kept\<close>
  "settle_result w task remaining call spec result x =
     (if tool_result_enters_plan_mode spec result then
        (None, record_result w call result (x\<lparr>x_context := context_with_plan_mode (live x) result, x_shared := []\<rparr>))
      else if tool_result_waits_for_plan_approval spec result then
        pause_react_for_plan_approval_tool task remaining call spec result x
      else if task_is ''waiting_approval'' task then
        (Some LoopWaiting, save_pending (live x) (x_messages x) call (PDict spec) remaining True x)
      else keep_result w call spec result x)"

definition finalize_executed_tool ::
  "world \<Rightarrow> pv list \<Rightarrow> pv \<Rightarrow> pdict \<Rightarrow> pdict \<Rightarrow> pdict option \<Rightarrow> react \<Rightarrow> step" where
  "finalize_executed_tool w remaining call spec result0 key x0 =
     (case read_task w x0 of (task, x1) \<Rightarrow>
        if task_is ''cancelled'' task then (Some LoopCancelled, x1)
        else
          let x = cache_result spec result0 key x1; result = w_operation w spec result0 in
          if tool_result_waits_for_user spec result then
            (case pause_react_for_user_question_tool w remaining call spec result x of
               Inl answered \<Rightarrow> settle_result w task remaining call spec answered x
             | Inr paused \<Rightarrow> (Some LoopPaused, paused))
          else settle_result w task remaining call spec result x)"

section \<open>Before a tool\<close>

definition prepared_tool_call :: "world \<Rightarrow> react \<Rightarrow> pv \<Rightarrow> (pv \<times> pdict \<times> pdict option) res" where
  "prepared_tool_call w x call0 =
     (let call = (if x_results x = [] then call0 else w_annotate_call w call0 (x_results x)) in
      rbind (tool_call_to_spec (w_loads w) call (live x)) (\<lambda>spec. Inr (call, spec, read_file_cache_key spec)))"

definition cached_result :: "react \<Rightarrow> pdict option \<Rightarrow> pdict option" where
  "cached_result x key = (case key of None \<Rightarrow> None | Some k \<Rightarrow> map_of (x_cache x) k)"

definition defaulted_ask_user_question_tool_result :: "world \<Rightarrow> pdict \<Rightarrow> pdict \<Rightarrow> react \<Rightarrow> pdict option" where
  "defaulted_ask_user_question_tool_result w task spec x =
     (if dget spec ''name'' \<noteq> PStr ''ask_user_question'' then None
      else case dget spec ''arguments'' of
          PDict args \<Rightarrow>
            (let question = por (por (dget args ''question'') (dget args ''prompt'')) (dget args ''text'');
                 needs = [(''question'', question), (''summary'', dget args ''summary''), (''reason'', dget args ''reason'')] @
                   filter (\<lambda>(k, v). is_list v) [(''options'', dget args ''options''), (''questions'', dget args ''questions'')]
             in if ask_user_question_is_required question (dget args ''reason'') (PDict needs) (w_goal w) (live x) then None
                else
                  let questions = normalize_user_questions_payload (w_title w)
                        [(''question'', question), (''questions'', dget args ''questions''), (''options'', dget args ''options''),
                         (''summary'', dget args ''summary'')];
                      answer = default_answer question
                        (PDict [(''questions'', PList (map PDict questions)), (''options'', dget args ''options'')]) (w_goal w);
                      result = [(''status'', PStr ''answered''), (''summary'', PStr answer), (''answer'', PStr answer),
                        (''answers'', PDict (default_answers_for_questions questions answer)),
                        (''questions'', PList (map PDict questions)), (''defaulted'', PBool True),
                        (''reason'', PStr ''low_risk_preference_defaulted''), (''_chatCompatSuppressToolResult'', PBool True)]
                  in Some [(''id'', por (dget spec ''id'') (w_new_id w (x_clock x))), (''name'', PStr ''ask_user_question''),
                       (''arguments'', PDict (dput ''sessionId'' (PStr (w_session w)) (dput ''taskId'' (dget task ''id'') args))),
                       (''target'', PStr ''user''),
                       (''inputSummary'', PStr (utake 500 (py_str (por (por (dget args ''summary'') question) (PStr ''ask_user_question''))))),
                       (''toolOperationId'', PStr ''tool:ask_user_question''), (''toolOperationLabel'', PStr ''User input''),
                       (''resultSummary'', PStr answer), (''result'', PDict result), (''modelVisibleResult'', PDict result)])
        | _ \<Rightarrow> None)"

definition withheld_result :: "world \<Rightarrow> tool_policy_decision \<Rightarrow> pdict \<Rightarrow> pdict \<Rightarrow> react \<Rightarrow> pdict option" where
  \<comment> \<open>the four tests before execution: a result in place of the run, or \<open>None\<close>\<close>
  "withheld_result w dec task spec x =
     (if \<not> plan_mode_allows_tool (live x) spec then Some (blocked_plan_mode_tool_result (w_new_id w (x_clock x)) spec)
      else if exit_plan_mode_requires_active_plan (live x) spec then
        Some (blocked_exit_plan_mode_tool_result (w_new_id w (x_clock x)) spec)
      else if \<not> provider_turn_allows_tool spec (p_allowed_names dec) then
        Some (blocked_unavailable_tool_result (w_new_id w (x_clock x)) spec dec)
      else defaulted_ask_user_question_tool_result w task spec x)"

section \<open>Execution\<close>

definition execute_tool :: "world \<Rightarrow> bool \<Rightarrow> pdict \<Rightarrow> react \<Rightarrow> pdict res \<times> react" where
  "execute_tool w follower spec x =
     (w_execute w (x_clock x) spec (live x),
      tick (x\<lparr>x_trace := x_trace x @ [Run (plan_mode (live x)) follower spec]\<rparr>))"

definition execute_one :: "world \<Rightarrow> pv list \<Rightarrow> pv \<Rightarrow> pdict \<Rightarrow> pdict option \<Rightarrow> react \<Rightarrow> step" where
  "execute_one w remaining call spec key x =
     (case execute_tool w False spec x of
        (Inl e, x') \<Rightarrow> (Some (LoopRaised e), x')
      | (Inr result, x') \<Rightarrow> finalize_executed_tool w remaining call spec result key x')"

fun take_batch :: "world \<Rightarrow> react \<Rightarrow> pv list \<Rightarrow> (pv \<times> pdict \<times> pdict option) list res" where
  \<comment> \<open>the calls after the first one that join its batch\<close>
  "take_batch w x [] = Inr []"
| "take_batch w x (c # cs) =
     rbind (prepared_tool_call w x c) (\<lambda>(call, spec, key).
       if cached_result x key \<noteq> None \<or> \<not> concurrency_safe spec then Inr []
       else rbind (take_batch w x cs) (\<lambda>batch. Inr ((call, spec, key) # batch)))"

definition batch_annotated :: "nat \<Rightarrow> nat \<Rightarrow> pdict \<Rightarrow> pdict" where
  "batch_annotated members i spec =
     dput ''isConcurrencySafe'' (PBool True) (dput ''batchSize'' (PInt (int members)) (dput ''batchIndex'' (PInt (int i)) spec))"

fun execute_all :: "world \<Rightarrow> nat \<Rightarrow> nat \<Rightarrow> pdict list \<Rightarrow> react \<Rightarrow> pdict list res \<times> react" where
  \<comment> \<open>every member runs, also after one of them raised; the first exception in order is raised\<close>
  "execute_all w members i [] x = (Inr [], x)"
| "execute_all w members i (s # ss) x =
     (case execute_tool w (0 < i) (batch_annotated members i s) x of (r, x1) \<Rightarrow>
        (case execute_all w members (Suc i) ss x1 of (rs, x2) \<Rightarrow>
           (rbind r (\<lambda>v. rbind rs (\<lambda>vs. Inr (v # vs))), x2)))"

fun finalize_batch :: "world \<Rightarrow> pv list \<Rightarrow> ((pv \<times> pdict \<times> pdict option) \<times> pdict) list \<Rightarrow> react \<Rightarrow> step" where
  \<comment> \<open>the second argument are the calls after the first one of the list\<close>
  "finalize_batch w cs [] x = (None, x)"
| "finalize_batch w cs (((call, spec, key), result) # rest) x =
     andthen (finalize_executed_tool w cs call spec result key x) (finalize_batch w (tl cs) rest)"

definition execute_batch :: "world \<Rightarrow> pv list \<Rightarrow> (pv \<times> pdict \<times> pdict option) list \<Rightarrow> react \<Rightarrow> step" where
  "execute_batch w cs batch x =
     (case execute_all w (length batch) 0 (map (fst \<circ> snd) batch) x of
        (Inl e, x') \<Rightarrow> (Some (LoopRaised e), x')
      | (Inr results, x') \<Rightarrow> finalize_batch w cs (zip batch results) x')"

function run_calls :: "world \<Rightarrow> tool_policy_decision \<Rightarrow> bool \<Rightarrow> pv list \<Rightarrow> react \<Rightarrow> step" where
  \<comment> \<open>the calls of a turn; \<open>unlimited\<close> is \<open>budget is None\<close>\<close>
  "run_calls w dec unlimited [] x = (None, x)"
| "run_calls w dec unlimited (c # cs) x0 =
     (case read_task w x0 of (task, x) \<Rightarrow>
        if task_is ''cancelled'' task then (Some LoopCancelled, x)
        else case prepared_tool_call w x c of
            Inl e \<Rightarrow> (Some (LoopRaised e), x)
          | Inr (call, spec, key) \<Rightarrow>
              (case withheld_result w dec task spec x of
                 Some result \<Rightarrow>
                   andthen (finalize_executed_tool w cs call spec result None x) (run_calls w dec unlimited cs)
               | None \<Rightarrow>
                   (case cached_result x key of
                      Some cached \<Rightarrow>
                        andthen (finalize_executed_tool w cs call spec
                            (clone_cached_tool_result (w_new_id w (x_clock x)) spec cached) key x) (run_calls w dec unlimited cs)
                    | None \<Rightarrow>
                        (case (if concurrency_safe spec \<and> unlimited then take_batch w x cs else Inr []) of
                           Inl e \<Rightarrow> (Some (LoopRaised e), x)
                         | Inr [] \<Rightarrow> andthen (execute_one w cs call spec key x) (run_calls w dec unlimited cs)
                         | Inr (b # bs) \<Rightarrow>
                             andthen (execute_batch w cs ((call, spec, key) # b # bs) x)
                               (run_calls w dec unlimited (drop (Suc (length bs)) cs))))))"
  by pat_completeness auto
termination
  by (relation "measure (\<lambda>(w, d, u, cs, x). length cs)") auto



section \<open>A provider turn\<close>

definition schema_named :: "pv \<Rightarrow> (string \<times> pdict) list" where
  "schema_named v = (case v of PDict s \<Rightarrow> (case dget s ''name'' of PStr n \<Rightarrow> [(n, s)] | _ \<Rightarrow> []) | _ \<Rightarrow> [])"

definition provider_tools :: "pv list \<Rightarrow> pdict \<Rightarrow> pdict list" where
  \<comment> \<open>later schemas of \<open>openai_tools\<close> replace earlier ones; \<open>tools\<close> and the registry only add\<close>
  "provider_tools schemas ctx =
     (if is_true (dget ctx ''minimal'') \<or> is_true (dget ctx ''disableTools'') then []
      else
        let by_name = rev (concat (map schema_named (the_list (dget ctx ''openai_tools'')))) @
              concat (map schema_named (the_list (dget ctx ''tools''))) @ concat (map schema_named schemas)
        in map (\<lambda>n. the (map_of by_name n)) (sort (remdups (map fst by_name))))"

definition decision_dict :: "tool_policy_decision \<Rightarrow> pdict" where
  "decision_dict d =
     [(''phase'', PStr (p_phase d)), (''runtimeRole'', PStr (p_role d)), (''agentType'', PStr (p_agent_type d)),
      (''allowedToolNames'', PList (map PStr (p_allowed_names d))), (''deniedToolNames'', PList (map PStr (p_denied_names d))),
      (''reasons'', PDict (map (\<lambda>(k, v). (k, PStr v)) (p_reasons d))), (''decisionDetails'', PList (map PDict (p_details d))),
      (''policyVersion'', PStr ''tool-policy-v2'')]"

definition provider_request :: "tool_policy_decision \<Rightarrow> int \<Rightarrow> react \<Rightarrow> pdict" where
  \<comment> \<open>\<open>provider_context\<close>\<close>
  "provider_request dec max_steps x =
     dupdate (live x)
       [(''messages'', PList (x_messages x)), (''tools'', PList (map PDict (p_allowed_tools dec))),
        (''openai_tools'', PList (map PDict (p_allowed_tools dec))), (''tool_results'', PList (map PDict (x_results x))),
        (''tool_policy_decision'', PDict (decision_dict dec)),
        (''untrustedContentSignals'', PList (map PDict (turn_signals (live x) (x_results x)))),
        (''role_snapshot'', PDict (p_snapshot dec)), (''step'', PInt (int (x_steps x) + 1)), (''max_steps'', PInt max_steps)]"

definition step_pressure :: "int \<Rightarrow> int \<Rightarrow> string" where
  "step_pressure consumed limit =
     (let remaining = (if 0 < limit then max 0 (limit - consumed) else 0) in
      if remaining \<le> 0 then ''exhausted''
      else if 85 * limit \<le> 100 * consumed \<or> remaining \<le> 1 then ''critical''
      else if 65 * limit \<le> 100 * consumed \<or> remaining \<le> 2 then ''watch''
      else ''normal'')"

definition main_workflow_step_dimension :: "int \<Rightarrow> int \<Rightarrow> pdict" where
  "main_workflow_step_dimension consumed limit =
     [(''limit'', PInt limit), (''consumed'', PInt consumed),
      (''remaining'', PInt (if 0 < limit then max 0 (limit - consumed) else 0)), (''pressure'', PStr (step_pressure consumed limit))]"

definition exhausted_routing :: "world \<Rightarrow> pdict \<Rightarrow> int \<Rightarrow> react \<Rightarrow> pdict" where
  \<comment> \<open>the routing that \<open>_converge_after_step_budget_exhausted\<close> stores\<close>
  "exhausted_routing w task max_steps x =
     (let routing = the_dict (por (dget task ''routing'') (dget (live x) ''routing''));
          workflow = the_dict (dget routing ''mainWorkflow'');
          budget = dupdate (the_dict (dget workflow ''budget''))
            [(''exhausted'', PBool True), (''exhaustedReason'', PStr ''max_steps''), (''consumedSteps'', PInt (int (x_steps x))),
             (''maxSteps'', PInt max_steps), (''pressure'', PStr ''exhausted''), (''convergenceRequired'', PBool True)];
          budget' = dput ''dimensions'' (PDict (dput ''steps'' (PDict (main_workflow_step_dimension (int (x_steps x)) max_steps))
            (the_dict (dget budget ''dimensions'')))) budget
      in dput ''mainWorkflow'' (PDict (dput ''convergence'' (PDict (w_convergence w (x_clock x) budget'))
            (dput ''budget'' (PDict budget') workflow))) routing)"

definition converge_after_step_budget_exhausted :: "world \<Rightarrow> pdict \<Rightarrow> int \<Rightarrow> react \<Rightarrow> step" where
  "converge_after_step_budget_exhausted w task max_steps x =
     (let routing = exhausted_routing w task max_steps x in
      case results_summary (x_results x) of (members, completed) \<Rightarrow>
        if 0 < members \<and> completed = 0 then (Some (LoopFailed ''MAX_STEPS_NO_SUCCESSFUL_TOOLS''), x)
        else
          let ctx = context_with_additional_step_budget
                (dput ''messages'' (PList (x_messages x)) (dput ''routing'' (PDict routing) (live x))) (int (x_steps x)) max_steps
          in pause_react_for_user_question w ctx (w_handoff w (x_clock x) routing) x)"

definition fallback_question :: string where
  \<comment> \<open>asks for the information to follow in the next step\<close>
  "fallback_question =
     [CHR 0xE8, CHR 0xAF, CHR 0xB7, CHR 0xE8, CHR 0xA1, CHR 0xA5, CHR 0xE5, CHR 0x85, CHR 0x85, CHR 0xE4, CHR 0xB8,
      CHR 0x8B, CHR 0xE4, CHR 0xB8, CHR 0x80, CHR 0xE6, CHR 0xAD, CHR 0xA5, CHR 0xE9, CHR 0x9C, CHR 0x80, CHR 0xE8,
      CHR 0xA6, CHR 0x81, CHR 0xE6, CHR 0x88, CHR 0x91, CHR 0xE9, CHR 0x81, CHR 0xB5, CHR 0xE5, CHR 0xBE, CHR 0xAA,
      CHR 0xE7, CHR 0x9A, CHR 0x84, CHR 0xE4, CHR 0xBF, CHR 0xA1, CHR 0xE6, CHR 0x81, CHR 0xAF, CHR 0xE5, CHR 0x90,
      CHR 0x8E, CHR 0xE7, CHR 0xBB, CHR 0xA7, CHR 0xE7, CHR 0xBB, CHR 0xAD, CHR 0xE3, CHR 0x80, CHR 0x82]"

definition ask_in_turn :: "world \<Rightarrow> pdict \<Rightarrow> string \<Rightarrow> react \<Rightarrow> step" where
  \<comment> \<open>the turn's decision is \<open>ask_user\<close>\<close>
  "ask_in_turn w response text x =
     (let needs = por (dget response ''policy_needs'') (dget response ''policyNeeds'');
          why_complete = por (dget response ''why_complete'') (dget response ''whyComplete'') in
      if ask_user_question_is_required (PStr text) why_complete needs (w_goal w) (live x) then
        pause_react_for_user_question w (live x) (if text = '''' then fallback_question else text) x
      else
        (None, say [PDict [(''role'', PStr ''assistant''), (''content'', PStr text)],
                    PDict [(''role'', PStr ''user''),
                           (''content'', PStr (''[Default preference]'' @ [CHR 0x0A] @ default_answer (PStr text) needs (w_goal w)))]] x))"

definition parsed_text :: "parsed_response \<Rightarrow> string" where
  "parsed_text p = (case p of ParsedAskUser s \<Rightarrow> s | ParsedToolCalls s _ \<Rightarrow> s | ParsedCompleted s \<Rightarrow> s)"

definition parsed_calls :: "parsed_response \<Rightarrow> pv list" where
  "parsed_calls p = (case p of ParsedToolCalls _ cs \<Rightarrow> cs | _ \<Rightarrow> [])"

definition take_turn :: "world \<Rightarrow> tool_policy_decision \<Rightarrow> bool \<Rightarrow> pdict \<Rightarrow> parsed_response \<Rightarrow> string \<Rightarrow> react \<Rightarrow> step" where
  \<comment> \<open>what follows an answer that parsed, until the next turn\<close>
  "take_turn w dec unlimited response parsed chosen x0 =
     (let x = x0\<lparr>x_started := True, x_steps := Suc (x_steps x0)\<rparr>; text = parsed_text parsed in
      if chosen = ''ask_user'' then ask_in_turn w response text x
      else case parsed of
          ParsedCompleted s \<Rightarrow> (Some (LoopCompleted s), x)
        | _ \<Rightarrow>
            let calls = w_annotate_batch w (parsed_calls parsed) (x_results x);
                asked = PDict [(''role'', PStr ''assistant''), (''content'', PStr text), (''tool_calls'', PList calls)]
            in andthen (run_calls w dec unlimited calls (say [asked] x)) (\<lambda>x1.
                 case read_task w x1 of (task, x2) \<Rightarrow> if task_is ''paused'' task then pause_cooperatively x2 else (None, x2)))"

definition request_turn :: "world \<Rightarrow> tool_policy_decision \<Rightarrow> bool \<Rightarrow> int \<Rightarrow> react \<Rightarrow> step" where
  \<comment> \<open>preflight, the request, and the reading of the answer\<close>
  "request_turn w dec unlimited max_steps x0 =
     (let sent = w_preflight w (x_clock x0) (provider_request dec max_steps x0);
          x = tick (tick (x0\<lparr>x_context := sent, x_messages := the_list (dget sent ''messages''),
                x_shared := [''messages'', ''tool_results'']\<rparr>)) in
      case w_provider w (Suc (x_clock x0)) sent of
        Inl e \<Rightarrow> (Some (if w_cancelled w (x_clock x) then LoopCancelled else LoopRaised e), tick x)
      | Inr answer \<Rightarrow>
          (case read_task w x of (task, x1) \<Rightarrow>
             if task_is ''cancelled'' task then (Some LoopCancelled, x1)
             else case rbind (parse_provider_response answer (x_started x1)) (\<lambda>parsed.
                    rbind (turn_decision (the_dict answer) (x_started x1)) (\<lambda>chosen. Inr (parsed, chosen))) of
                 Inl e \<Rightarrow> (Some (LoopRaised e), x1)
               | Inr (parsed, chosen) \<Rightarrow> take_turn w dec unlimited (the_dict answer) parsed chosen x1))"

definition receive :: "world \<Rightarrow> react \<Rightarrow> react" where
  \<comment> \<open>the supplements of the user and, on the first step, the recalled memories\<close>
  "receive w x = tick (say (w_inbox w (x_clock x) (x_steps x)) x)"

definition turn_tools :: "world \<Rightarrow> react \<Rightarrow> pdict list" where
  \<comment> \<open>\<open>cached_provider_tools\<close>\<close>
  "turn_tools w x = (case x_tools x of None \<Rightarrow> provider_tools (w_schemas w) (live x) | Some ts \<Rightarrow> ts)"

definition react_turn :: "world \<Rightarrow> bool \<Rightarrow> int \<Rightarrow> react \<Rightarrow> step" where
  \<comment> \<open>one pass of \<open>while True\<close>\<close>
  "react_turn w unlimited max_steps x0 =
     (case read_task w x0 of (task, x1) \<Rightarrow>
        if task_is ''cancelled'' task then (Some LoopCancelled, x1)
        else if task_is ''paused'' task then pause_cooperatively x1
        else if max_steps \<le> int (x_steps x1) then converge_after_step_budget_exhausted w task max_steps x1
        else
          let x2 = receive w x1; x3 = x2\<lparr>x_tools := Some (turn_tools w x2)\<rparr>
          in case resolve task (live x3) (x_results x3) (turn_tools w x2) of
               Inl e \<Rightarrow> (Some (LoopRaised e), x3)
             | Inr dec \<Rightarrow> request_turn w dec unlimited max_steps x3)"

section \<open>The loop ends\<close>

text \<open>
  Only the end of a turn counts a step, and only execution extends the trace: the other
  operations keep both.
\<close>

named_theorems react_simps \<open>fields that operations of the loop keep\<close>

lemma tick_fields [react_simps]:
  "x_steps (tick x) = x_steps x" "x_trace (tick x) = x_trace x" "x_context (tick x) = x_context x"
  "x_results (tick x) = x_results x" "x_messages (tick x) = x_messages x" "x_shared (tick x) = x_shared x"
  "x_pending (tick x) = x_pending x" "x_started (tick x) = x_started x" "x_repairs (tick x) = x_repairs x"
  "x_tools (tick x) = x_tools x" "x_cache (tick x) = x_cache x"
  by (simp_all add: tick_def)

lemma say_fields [react_simps]:
  "x_steps (say ms x) = x_steps x" "x_trace (say ms x) = x_trace x" "x_results (say ms x) = x_results x"
  "x_tools (say ms x) = x_tools x" "x_clock (say ms x) = x_clock x" "x_context (say ms x) = x_context x"
  "x_shared (say ms x) = x_shared x" "x_pending (say ms x) = x_pending x"
  by (simp_all add: say_def)

lemma receive_fields [react_simps]:
  "x_steps (receive w x) = x_steps x" "x_trace (receive w x) = x_trace x" "x_results (receive w x) = x_results x"
  "x_pending (receive w x) = x_pending x"
  by (simp_all add: receive_def tick_def say_def)

lemma record_result_fields [react_simps]:
  "x_steps (record_result w call r x) = x_steps x" "x_trace (record_result w call r x) = x_trace x"
  "x_results (record_result w call r x) = x_results x @ [r]" "x_pending (record_result w call r x) = x_pending x"
  by (simp_all add: record_result_def say_def)

lemma share_fields [react_simps]:
  "x_steps (share k x) = x_steps x" "x_trace (share k x) = x_trace x" "x_results (share k x) = x_results x"
  "x_pending (share k x) = x_pending x"
  by (simp_all add: share_def)

lemma save_pending_fields [react_simps]:
  "x_steps (save_pending c ms call spec rs st x) = x_steps x" "x_trace (save_pending c ms call spec rs st x) = x_trace x"
  "x_results (save_pending c ms call spec rs st x) = x_results x"
  by (simp_all add: save_pending_def)

lemma read_task_fields [react_simps]: "read_task w x = (w_task w (x_clock x), tick x)"
  by (simp add: read_task_def)

lemma after_fields [react_simps]:
  "x_steps (after_compaction w x) = x_steps x" "x_trace (after_compaction w x) = x_trace x"
  "x_results (after_compaction w x) = x_results x" "x_pending (after_compaction w x) = x_pending x"
  "x_steps (after_refresh w spec r x) = x_steps x" "x_trace (after_refresh w spec r x) = x_trace x"
  "x_results (after_refresh w spec r x) = x_results x" "x_pending (after_refresh w spec r x) = x_pending x"
  by (simp_all add: after_compaction_def after_refresh_def react_simps split: option.split)

lemma cache_result_fields [react_simps]:
  "x_steps (cache_result spec r key x) = x_steps x" "x_trace (cache_result spec r key x) = x_trace x"
  "x_results (cache_result spec r key x) = x_results x" "x_pending (cache_result spec r key x) = x_pending x"
  by (simp_all add: cache_result_def split: option.split)

definition kept :: "react \<Rightarrow> step \<Rightarrow> bool" where
  "kept x s \<longleftrightarrow> x_steps (snd s) = x_steps x \<and> x_trace (snd s) = x_trace x"

lemma kept_keep_result: "kept x (keep_result w call spec r x)"
  by (simp add: kept_def keep_result_def Let_def react_simps)

lemma kept_plan_approval: "kept x (pause_react_for_plan_approval_tool task rs call spec r x)"
  by (simp add: kept_def pause_react_for_plan_approval_tool_def Let_def react_simps split: sum.split)

lemma kept_settle: "kept x (settle_result w task rs call spec r x)"
  using kept_plan_approval kept_keep_result by (simp add: settle_result_def) (simp add: kept_def react_simps)

lemma kept_trans: "x_steps y = x_steps x \<Longrightarrow> x_trace y = x_trace x \<Longrightarrow> kept y s \<Longrightarrow> kept x s"
  by (simp add: kept_def)

lemma question_tool_fields:
  "pause_react_for_user_question_tool w rs call spec r x = Inr x' \<Longrightarrow> x_steps x' = x_steps x \<and> x_trace x' = x_trace x"
  by (auto simp: pause_react_for_user_question_tool_def Let_def react_simps split: if_splits)

lemma kept_finalize: "kept x (finalize_executed_tool w rs call spec r key x)"
proof -
  have settle: "kept x (settle_result w (w_task w (x_clock x)) rs call spec r' (cache_result spec r key (tick x)))" for r'
    by (rule kept_trans [OF _ _ kept_settle]) (simp_all add: react_simps)
  show ?thesis
    unfolding finalize_executed_tool_def using settle
    by (auto simp: react_simps Let_def kept_def dest!: question_tool_fields split: sum.split)
qed

lemma finalize_fields [react_simps]:
  "x_steps (snd (finalize_executed_tool w rs call spec r key x)) = x_steps x"
  "x_trace (snd (finalize_executed_tool w rs call spec r key x)) = x_trace x"
  using kept_finalize by (simp_all add: kept_def)

lemma execute_tool_fields [react_simps]:
  "x_steps (snd (execute_tool w f spec x)) = x_steps x"
  "x_trace (snd (execute_tool w f spec x)) = x_trace x @ [Run (plan_mode (live x)) f spec]"
  by (simp_all add: execute_tool_def react_simps)

lemma andthen_steps:
  "x_steps (snd s) = n \<Longrightarrow> (\<And>x. s = (None, x) \<Longrightarrow> x_steps (snd (f x)) = n) \<Longrightarrow> x_steps (snd (andthen s f)) = n"
  by (cases s) (auto simp: andthen_def split: option.split)

lemma execute_one_steps [react_simps]: "x_steps (snd (execute_one w rs call spec key x)) = x_steps x"
  by (simp add: execute_one_def execute_tool_def react_simps split: sum.split)

lemma execute_all_steps: "x_steps (snd (execute_all w n i ss x)) = x_steps x"
proof (induction ss arbitrary: i x)
  case (Cons s ss)
  show ?case
    by (simp add: case_prod_unfold Cons.IH react_simps)
qed simp

lemma finalize_batch_steps: "x_steps (snd (finalize_batch w cs bs x)) = x_steps x"
proof (induction w cs bs x rule: finalize_batch.induct)
  case (2 w cs call spec key result rest x)
  show ?case
    by (simp, rule andthen_steps) (use 2 in \<open>auto simp: react_simps dest: arg_cong [where f = "\<lambda>s. x_steps (snd s)"]\<close>)
qed simp

lemma execute_batch_steps [react_simps]: "x_steps (snd (execute_batch w cs batch x)) = x_steps x"
  by (simp add: execute_batch_def case_prod_unfold finalize_batch_steps execute_all_steps split: sum.split)

text \<open>The cases of a call: it is withheld, answered from the cache, run alone, or leads a batch.\<close>

lemma run_calls_cases [case_names Nil Stop Withheld Cached One Batch]:
  assumes nil: "cs0 = [] \<Longrightarrow> P (None, x0)"
    and stop: "\<And>e. e \<noteq> LoopPaused \<Longrightarrow> e \<noteq> LoopWaiting \<Longrightarrow> P (Some e, tick x0)"
    and withheld: "\<And>c cs call spec result. \<lbrakk>cs0 = c # cs;
        withheld_result w dec (w_task w (x_clock x0)) spec (tick x0) = Some result\<rbrakk> \<Longrightarrow>
        P (andthen (finalize_executed_tool w cs call spec result None (tick x0)) (run_calls w dec u cs))"
    and cached: "\<And>c cs call spec key r. \<lbrakk>cs0 = c # cs; withheld_result w dec (w_task w (x_clock x0)) spec (tick x0) = None\<rbrakk> \<Longrightarrow>
        P (andthen (finalize_executed_tool w cs call spec r key (tick x0)) (run_calls w dec u cs))"
    and one: "\<And>c cs call spec key. \<lbrakk>cs0 = c # cs; withheld_result w dec (w_task w (x_clock x0)) spec (tick x0) = None\<rbrakk> \<Longrightarrow>
        P (andthen (execute_one w cs call spec key (tick x0)) (run_calls w dec u cs))"
    and batch: "\<And>c cs call spec key b bs. \<lbrakk>cs0 = c # cs; withheld_result w dec (w_task w (x_clock x0)) spec (tick x0) = None; u;
        concurrency_safe spec; take_batch w (tick x0) cs = Inr (b # bs)\<rbrakk> \<Longrightarrow>
        P (andthen (execute_batch w cs ((call, spec, key) # b # bs) (tick x0)) (run_calls w dec u (drop (Suc (length bs)) cs)))"
  shows "P (run_calls w dec u cs0 x0)"
proof (cases cs0)
  case Nil
  then show ?thesis using nil by simp
next
  case (Cons c cs)
  note eq = Cons
  show ?thesis
  proof (cases "task_is ''cancelled'' (w_task w (x_clock x0))")
    case True
    then show ?thesis using stop eq by (simp add: read_task_def)
  next
    case live: False
    show ?thesis
    proof (cases "prepared_tool_call w (tick x0) c")
      case (Inl e)
      then show ?thesis using stop eq live by (simp add: read_task_def)
    next
      case (Inr p)
      obtain call spec key where p: "p = (call, spec, key)" by (metis prod_cases3)
      note prep = Inr [unfolded p]
      show ?thesis
      proof (cases "withheld_result w dec (w_task w (x_clock x0)) spec (tick x0)")
        case (Some r)
        then show ?thesis using withheld [OF eq Some] eq live prep by (simp add: read_task_def)
      next
        case none: None
        show ?thesis
        proof (cases "cached_result (tick x0) key")
          case (Some r)
          then show ?thesis using cached [OF eq none] none eq live prep by (simp add: read_task_def)
        next
          case fresh: None
          show ?thesis
          proof (cases "if concurrency_safe spec \<and> u then take_batch w (tick x0) cs else Inr []")
            case (Inl e)
            then show ?thesis using stop eq live prep none fresh by (simp add: read_task_def)
          next
            case (Inr bs')
            note bs = Inr
            show ?thesis
            proof (cases bs')
              case Nil
              then show ?thesis using one [OF eq none] eq live prep none fresh bs by (simp add: read_task_def)
            next
              case (Cons b bs'')
              then have "u" "concurrency_safe spec" "take_batch w (tick x0) cs = Inr (b # bs'')"
                using bs by (auto split: if_splits)
              then show ?thesis using batch [OF eq none] Cons eq live prep none fresh by (simp add: read_task_def)
            qed
          qed
        qed
      qed
    qed
  qed
qed

lemma run_calls_steps [react_simps]: "x_steps (snd (run_calls w dec u cs x)) = x_steps x"
proof (induction "length cs" arbitrary: u cs x rule: less_induct)
  case less
  have rec: "x_steps (snd (run_calls w dec v ds y)) = x_steps y" if "length ds < length cs" for v ds y
    using less that by blast
  have then_rec: "x_steps (snd (andthen s (run_calls w dec v ds))) = x_steps x"
    if "x_steps (snd s) = x_steps x" "length ds < length cs" for s v ds
    using that by (intro andthen_steps) (auto simp: rec)
  show ?case
    by (rule run_calls_cases [where P = "\<lambda>s. x_steps (snd s) = x_steps x"])
       (auto intro!: then_rec simp: react_simps)
qed

lemma take_turn_steps:
  "take_turn w dec u response parsed chosen x = (None, x') \<Longrightarrow> x_steps x' = Suc (x_steps x)"
  using run_calls_steps [of w dec u "w_annotate_batch w (parsed_calls parsed) (x_results x)"]
  by (auto simp: take_turn_def ask_in_turn_def Let_def pause_react_for_user_question_def pause_cooperatively_def andthen_def
      react_simps split: if_splits parsed_response.splits prod.splits option.splits dest: arg_cong [where f = "\<lambda>s. x_steps (snd s)"])

lemma request_turn_steps: "request_turn w dec u m x = (None, x') \<Longrightarrow> x_steps x' = Suc (x_steps x)"
  by (auto simp: request_turn_def Let_def react_simps dest!: take_turn_steps split: if_splits sum.splits)

lemma react_turn_steps:
  assumes "react_turn w u m x = (None, x')"
  shows "x_steps x' = Suc (x_steps x)" "int (x_steps x) < m"
proof -
  have "x_steps x' = Suc (x_steps x) \<and> int (x_steps x) < m"
    using assms
    by (auto simp: react_turn_def Let_def pause_cooperatively_def converge_after_step_budget_exhausted_def
        pause_react_for_user_question_def react_simps dest!: request_turn_steps split: if_splits sum.splits prod.splits)
  then show "x_steps x' = Suc (x_steps x)" "int (x_steps x) < m" by blast+
qed

function react_loop :: "world \<Rightarrow> bool \<Rightarrow> int \<Rightarrow> react \<Rightarrow> loop_end \<times> react" where
  \<comment> \<open>\<open>_run_react_loop_inner\<close>\<close>
  "react_loop w unlimited max_steps x =
     (case react_turn w unlimited max_steps x of
        (Some e, x') \<Rightarrow> (e, x')
      | (None, x') \<Rightarrow> react_loop w unlimited max_steps x')"
  by pat_completeness auto
termination
proof (relation "measure (\<lambda>(w, u, m, x). nat (m - int (x_steps x)))", simp)
  fix w u m x e x'
  assume p: "(e, x') = react_turn w u m x" and "e = None"
  then have "react_turn w u m x = (None, x')" by simp
  then show "((w, u, m, x'), w, u, m, x) \<in> measure (\<lambda>(w, u, m, x). nat (m - int (x_steps x)))"
    using react_turn_steps [of w u m x x'] by simp
qed

declare react_loop.simps [simp del]

definition start_state :: "pdict \<Rightarrow> pv list \<Rightarrow> pending option \<Rightarrow> react" where
  \<comment> \<open>the arguments of \<open>_run_react_loop\<close>: fresh, with the initial messages, or from a saved state\<close>
  "start_state ctx initial state =
     \<lparr>x_context = ctx, x_shared = [],
      x_messages = (case state of None \<Rightarrow> initial | Some s \<Rightarrow> q_messages s),
      x_results = (case state of None \<Rightarrow> [] | Some s \<Rightarrow> q_results s),
      x_steps = (case state of None \<Rightarrow> 0 | Some s \<Rightarrow> q_steps s),
      x_started = (case state of None \<Rightarrow> False | Some s \<Rightarrow> q_started s),
      x_repairs = (case state of None \<Rightarrow> 0 | Some s \<Rightarrow> q_repairs s),
      x_cache = [], x_tools = None, x_pending = state, x_clock = 0, x_trace = []\<rparr>"

definition run_react_loop :: "world \<Rightarrow> bool \<Rightarrow> bool \<Rightarrow> pdict \<Rightarrow> pv list \<Rightarrow> pending option \<Rightarrow> loop_end \<times> react" where
  \<comment> \<open>\<open>exhausted\<close> is \<open>budget.tool_calls.exhausted\<close>, false without a budget\<close>
  "run_react_loop w unlimited exhausted ctx initial state =
     (let x = start_state ctx initial state in
      if exhausted then (LoopRaised RuntimeErr, x) else react_loop w unlimited (max_task_steps ctx) x)"

end
