(* ===== verification/ReactProps.thy ===== *)
theory ReactProps
  imports ReactLoop
begin

text \<open>
  Properties of the ReAct loop: it ends within its step limit, the tools it hands to the executor
  were exposed by the policy decision of their turn or follow one in a batch of reading tools, no
  call of a turn is lost at a pause, and a spent budget is extended by a bounded amount.
\<close>

section \<open>Enough passes\<close>

fun react_passes :: "world \<Rightarrow> bool \<Rightarrow> int \<Rightarrow> nat \<Rightarrow> react \<Rightarrow> (loop_end \<times> react) option" where
  \<comment> \<open>at most so many passes of \<open>while True\<close>; \<open>None\<close> when they do not suffice\<close>
  "react_passes w u m 0 x = None"
| "react_passes w u m (Suc n) x =
     (case react_turn w u m x of (Some e, x') \<Rightarrow> Some (e, x') | (None, x') \<Rightarrow> react_passes w u m n x')"

lemma react_passes_enough:
  "nat (m - int (x_steps x)) < n \<Longrightarrow> react_passes w u m n x = Some (react_loop w u m x)"
proof (induction n arbitrary: x)
  case (Suc n)
  show ?case
  proof (cases "react_turn w u m x")
    case (Pair r x')
    show ?thesis
    proof (cases r)
      case None
      note st = react_turn_steps [of w u m x x'] Pair None
      have "nat (m - int (x_steps x')) < n" using st Suc.prems by auto
      then show ?thesis using Suc.IH [of x'] Pair None by (subst react_loop.simps) simp
    next
      case (Some e)
      then show ?thesis using Pair by (subst react_loop.simps) simp
    qed
  qed
qed simp

text \<open>The steps a turn may end with; ends that answered no tool call keep or add one.\<close>

lemma run_callsD: "run_calls w dec u cs x = (r, y) \<Longrightarrow> x_steps y = x_steps x"
  using run_calls_steps [of w dec u cs x] by simp

lemma take_turn_step_range: "x_steps (snd (take_turn w dec u response parsed chosen x)) = Suc (x_steps x)"
  by (auto simp: take_turn_def ask_in_turn_def Let_def pause_react_for_user_question_def pause_cooperatively_def
      react_simps split: parsed_response.split intro!: andthen_steps dest!: run_callsD)

lemma request_turn_step_range: "x_steps (snd (request_turn w dec u m x)) \<le> Suc (x_steps x)"
  by (simp add: request_turn_def Let_def react_simps take_turn_step_range case_prod_unfold split: sum.split)

lemma react_turn_step_range:
  "x_steps (snd (react_turn w u m x)) \<le> (if int (x_steps x) < m then Suc (x_steps x) else x_steps x)"
proof (cases "int (x_steps x) < m")
  case True
  have "x_steps (snd (request_turn w dec u m (receive w (tick x)\<lparr>x_tools := t\<rparr>))) \<le> Suc (x_steps x)" for dec t
    using request_turn_step_range [of w dec u m "receive w (tick x)\<lparr>x_tools := t\<rparr>"] by (simp add: react_simps)
  then show ?thesis using True
    by (auto simp: react_turn_def Let_def pause_cooperatively_def react_simps split: sum.split)
next
  case False
  then show ?thesis
    by (auto simp: react_turn_def Let_def pause_cooperatively_def converge_after_step_budget_exhausted_def
        pause_react_for_user_question_def react_simps split: prod.split)
qed

lemma react_loop_step_range: "int (x_steps (snd (react_loop w u m x))) \<le> max (int (x_steps x)) m"
proof (induction "nat (m - int (x_steps x))" arbitrary: x rule: less_induct)
  case less
  show ?case
  proof (cases "react_turn w u m x")
    case (Pair r x')
    show ?thesis
    proof (cases r)
      case None
      note st = react_turn_steps [of w u m x x'] Pair None
      then have "int (x_steps (snd (react_loop w u m x'))) \<le> max (int (x_steps x')) m" by (intro less) auto
      then show ?thesis using Pair None st by (subst react_loop.simps) auto
    next
      case (Some e)
      then show ?thesis
        using Pair react_turn_step_range [of w u m x] by (subst react_loop.simps) (auto split: if_splits)
    qed
  qed
qed

text \<open>
  C12. The loop ends: whatever the provider, the tools and the other threads answer, one pass more
  than the steps that are left suffices for \<open>while True\<close> to return, and it returns with at most
  \<open>max_steps\<close> steps counted (or with those it was resumed with).
\<close>

theorem loop_ends:
  "react_passes w u m (Suc (nat (m - int (x_steps x)))) x = Some (react_loop w u m x) \<and>
   int (x_steps (snd (react_loop w u m x))) \<le> max (int (x_steps x)) m"
  using react_passes_enough [of m x "Suc (nat (m - int (x_steps x)))"] react_loop_step_range by simp

section \<open>Which tools are executed\<close>

definition run_ok :: "string list \<Rightarrow> run \<Rightarrow> bool" where
  "run_ok allowed r \<longleftrightarrow>
     (if run_follower r then strip (spec_name (run_spec r)) \<in> set parallel_read_only_tools
      else provider_turn_allows_tool (run_spec r) allowed) \<and>
     (run_planning r \<longrightarrow> strip (spec_name (run_spec r)) \<in> set plan_mode_allowed_tools)"

definition grows :: "string list \<Rightarrow> react \<Rightarrow> react \<Rightarrow> bool" where
  "grows allowed x y \<longleftrightarrow> (\<exists>rs. x_trace y = x_trace x @ rs \<and> list_all (run_ok allowed) rs)"

lemma grows_refl: "x_trace y = x_trace x \<Longrightarrow> grows a x y"
  by (simp add: grows_def)

lemma grows_trans: "grows a x y \<Longrightarrow> grows a y z \<Longrightarrow> grows a x z"
  by (auto simp: grows_def)

lemma grows_andthen:
  "grows a x (snd s) \<Longrightarrow> (\<And>y. s = (None, y) \<Longrightarrow> grows a y (snd (f y))) \<Longrightarrow> grows a x (snd (andthen s f))"
  by (cases s) (auto simp: andthen_def intro: grows_trans split: option.split)

lemma plan_names_stripped:
  "list_all (\<lambda>n. strip n = n) plan_mode_allowed_tools" "list_all (\<lambda>n. n \<in> set plan_mode_allowed_tools) parallel_read_only_tools"
  by code_simp+

lemma parallel_in_plan: "n \<in> set parallel_read_only_tools \<Longrightarrow> n \<in> set plan_mode_allowed_tools"
  using plan_names_stripped(2) unfolding list_all_iff by blast

lemma concurrency_safe_name: "concurrency_safe spec \<Longrightarrow> strip (spec_name spec) \<in> set parallel_read_only_tools"
  unfolding concurrency_safe_def Let_def by (simp split: if_splits)

lemma not_withheld:
  assumes "withheld_result w dec task spec x = None"
  shows "provider_turn_allows_tool spec (p_allowed_names dec)"
    "plan_mode (live x) \<Longrightarrow> strip (spec_name spec) \<in> set plan_mode_allowed_tools"
proof -
  show "provider_turn_allows_tool spec (p_allowed_names dec)"
    using assms unfolding withheld_result_def by (simp split: if_splits)
  assume "plan_mode (live x)"
  then have "spec_name spec \<in> set plan_mode_allowed_tools"
    using assms unfolding withheld_result_def plan_mode_allows_tool_def by (simp split: if_splits)
  then show "strip (spec_name spec) \<in> set plan_mode_allowed_tools"
    using plan_names_stripped(1) unfolding list_all_iff by metis
qed

lemma batch_annotated_name [simp]: "spec_name (batch_annotated n i spec) = spec_name spec"
  by (simp add: spec_name_def batch_annotated_def dget_dput)

lemma batch_annotated_allows [simp]:
  "provider_turn_allows_tool (batch_annotated n i spec) a = provider_turn_allows_tool spec a"
  by (simp add: provider_turn_allows_tool_def)

lemma live_tick [simp]: "live (tick x) = live x"
  by (simp add: live_def tick_def Let_def)

lemma grows_execute_tool:
  assumes "run_ok a (Run (plan_mode (live x)) f spec)"
  shows "grows a x (snd (execute_tool w f spec x))"
  using assms by (simp add: grows_def react_simps)

lemma grows_execute_one:
  assumes "withheld_result w dec task spec x = None"
  shows "grows (p_allowed_names dec) x (snd (execute_one w cs call spec key x))"
proof -
  have "grows (p_allowed_names dec) x (snd (execute_tool w False spec x))"
    using not_withheld [OF assms] by (intro grows_execute_tool) (simp add: run_ok_def)
  then show ?thesis
    by (auto simp: execute_one_def execute_tool_def react_simps grows_def split: sum.split)
qed

lemma grows_execute_all:
  assumes "\<And>s. s \<in> set ss \<Longrightarrow> concurrency_safe s"
    and "i = 0 \<Longrightarrow> ss \<noteq> [] \<Longrightarrow> provider_turn_allows_tool (hd ss) a"
  shows "grows a x (snd (execute_all w n i ss x))"
  using assms
proof (induction ss arbitrary: i x)
  case Nil
  show ?case by (simp add: grows_refl)
next
  case (Cons s ss)
  let ?e = "execute_tool w (0 < i) (batch_annotated n i s) x"
  have safe: "strip (spec_name s) \<in> set parallel_read_only_tools"
    using Cons.prems(1) by (intro concurrency_safe_name) simp
  have "run_ok a (Run (plan_mode (live x)) (0 < i) (batch_annotated n i s))"
    unfolding run_ok_def using safe parallel_in_plan [OF safe] Cons.prems(2) by simp
  then have "grows a x (snd ?e)" by (rule grows_execute_tool)
  moreover have "grows a (snd ?e) (snd (execute_all w n (Suc i) ss (snd ?e)))"
    using Cons.prems(1) by (intro Cons.IH) auto
  ultimately show ?case by (simp add: case_prod_unfold) (rule grows_trans)
qed

lemma grows_finalize_batch: "grows a x (snd (finalize_batch w cs bs x))"
proof (induction w cs bs x rule: finalize_batch.induct)
  case (2 w cs call spec key result rest x)
  show ?case
    by (simp, rule grows_andthen) (use 2 in \<open>auto intro!: grows_refl simp: react_simps\<close>)
qed (simp add: grows_refl)

lemma take_batch_safe:
  "take_batch w x cs = Inr bs \<Longrightarrow> (call, spec, key) \<in> set bs \<Longrightarrow> concurrency_safe spec"
  by (induction cs arbitrary: bs) (auto simp: rbind_eq_Inr split: if_splits)

lemma grows_execute_batch:
  assumes "withheld_result w dec task spec x = None" "concurrency_safe spec" "take_batch w x cs = Inr bs"
  shows "grows (p_allowed_names dec) x (snd (execute_batch w cs ((call, spec, key) # bs) x))"
proof -
  let ?ss = "map (fst \<circ> snd) ((call, spec, key) # bs)"
  have "grows (p_allowed_names dec) x (snd (execute_all w (Suc (length bs)) 0 ?ss x))"
    using assms(2) take_batch_safe [OF assms(3)] not_withheld(1) [OF assms(1)]
    by (intro grows_execute_all) auto
  then show ?thesis
    by (auto simp: execute_batch_def case_prod_unfold split: sum.split
        intro: grows_trans [OF _ grows_finalize_batch])
qed

lemma grows_run_calls: "grows (p_allowed_names dec) x (snd (run_calls w dec u cs x))"
proof (induction "length cs" arbitrary: u cs x rule: less_induct)
  case less
  let ?a = "p_allowed_names dec"
  have t: "grows ?a x s" if "grows ?a (tick x) s" for s using that by (simp add: grows_def react_simps)
  have then_rec: "grows ?a x (snd (andthen s (run_calls w dec v ds)))"
    if "grows ?a (tick x) (snd s)" "length ds < length cs" for s v ds
    using that less by (intro t grows_andthen) auto
  show ?case
  proof (rule run_calls_cases [where P = "\<lambda>s. grows ?a x (snd s)"])
    show "grows ?a x (snd (None, x))" by (simp add: grows_refl)
    show "grows ?a x (snd (Some e, tick x))" for e by (simp add: grows_refl react_simps)
  next
    fix c ds call spec result assume "cs = c # ds"
    then show "grows ?a x (snd (andthen (finalize_executed_tool w ds call spec result None (tick x)) (run_calls w dec u ds)))"
      by (intro then_rec grows_refl) (simp_all add: react_simps)
  next
    fix c ds call spec key r assume "cs = c # ds"
    then show "grows ?a x (snd (andthen (finalize_executed_tool w ds call spec r key (tick x)) (run_calls w dec u ds)))"
      by (intro then_rec grows_refl) (simp_all add: react_simps)
  next
    fix c ds call spec key
    assume "cs = c # ds" "withheld_result w dec (w_task w (x_clock x)) spec (tick x) = None"
    then show "grows ?a x (snd (andthen (execute_one w ds call spec key (tick x)) (run_calls w dec u ds)))"
      by (intro then_rec grows_execute_one) simp_all
  next
    fix c ds call spec key b bs
    assume "cs = c # ds" "withheld_result w dec (w_task w (x_clock x)) spec (tick x) = None"
      "concurrency_safe spec" "take_batch w (tick x) ds = Inr (b # bs)"
    then show "grows ?a x (snd (andthen (execute_batch w ds ((call, spec, key) # b # bs) (tick x))
        (run_calls w dec u (drop (Suc (length bs)) ds))))"
      by (intro then_rec grows_execute_batch) simp_all
  qed
qed

lemma grows_take_turn: "grows (p_allowed_names dec) x (snd (take_turn w dec u response parsed chosen x))"
proof -
  let ?x = "x\<lparr>x_started := True, x_steps := Suc (x_steps x)\<rparr>" and ?calls = "w_annotate_batch w (parsed_calls parsed) (x_results x)"
  have calls: "grows (p_allowed_names dec) x (snd (andthen (run_calls w dec u cs (say ms ?x)) (\<lambda>x1.
       case read_task w x1 of (task, x2) \<Rightarrow> if task_is ''paused'' task then pause_cooperatively x2 else (None, x2))))" for cs ms
    using grows_run_calls [of dec "say ms ?x" w u cs]
    by (intro grows_andthen) (auto simp: grows_def pause_cooperatively_def react_simps)
  show ?thesis
    using calls
    by (auto simp: take_turn_def ask_in_turn_def Let_def pause_react_for_user_question_def react_simps
        intro!: grows_refl split: parsed_response.split)
qed

lemma grows_request_turn: "grows (p_allowed_names dec) x (snd (request_turn w dec u m x))"
proof -
  have t: "grows a x y" if "grows a x' y" "x_trace x' = x_trace x" for a x' y using that by (simp add: grows_def)
  show ?thesis
    by (auto simp: request_turn_def Let_def react_simps intro!: grows_refl t [OF grows_take_turn] split: sum.split)
qed

text \<open>
  C13. What a turn executes was exposed to the model: every specification that a turn hands to the
  executor either passes the policy decision that was resolved for this very turn, from the
  state at its start, or follows such a call in a batch and is one of the reading tools; and
  while plan mode is on, every one of them, followers included, is a tool that plan mode allows.
\<close>

theorem turn_executes_exposed:
  assumes "x_trace (snd (react_turn w u m x)) = x_trace x @ rs" "rs \<noteq> []"
  shows "\<exists>dec. resolve (w_task w (x_clock x)) (live (receive w (tick x))) (x_results x) (turn_tools w (receive w (tick x))) = Inr dec \<and>
    list_all (run_ok (p_allowed_names dec)) rs"
proof -
  let ?y = "receive w (tick x)\<lparr>x_tools := Some (turn_tools w (receive w (tick x)))\<rparr>"
  have l: "live ?y = live (receive w (tick x))" by (simp add: live_def Let_def)
  let ?r = "resolve (w_task w (x_clock x)) (live (receive w (tick x))) (x_results x) (turn_tools w (receive w (tick x)))"
  have no: "x_trace (snd (react_turn w u m x)) \<noteq> x_trace x" using assms by simp
  obtain dec where d: "?r = Inr dec" "react_turn w u m x = request_turn w dec u m ?y"
    using no
    by (auto simp: react_turn_def Let_def pause_cooperatively_def converge_after_step_budget_exhausted_def
        pause_react_for_user_question_def l react_simps split: if_splits sum.splits prod.splits)
  have "grows (p_allowed_names dec) ?y (snd (react_turn w u m x))" unfolding d(2) by (rule grows_request_turn)
  then have "list_all (run_ok (p_allowed_names dec)) rs" using assms(1) by (auto simp: grows_def react_simps)
  then show ?thesis using d(1) by blast
qed

section \<open>No call is lost\<close>

definition call_settled :: "pv list \<Rightarrow> pdict list \<Rightarrow> step \<Rightarrow> bool" where
  \<comment> \<open>one call: a result was added, or the pause saved the call with what remains\<close>
  "call_settled remaining rs s \<longleftrightarrow>
     (case s of
        (None, y) \<Rightarrow> \<exists>r. x_results y = rs @ [r]
      | (Some e, y) \<Rightarrow> e = LoopPaused \<or> e = LoopWaiting \<longrightarrow>
          (\<exists>q. x_pending y = Some q \<and> q_results q = rs \<and> q_remaining q = remaining))"

definition accounted :: "pv list \<Rightarrow> pdict list \<Rightarrow> step \<Rightarrow> bool" where
  \<comment> \<open>the calls of a turn: one result each, or the results of some, a pending call, and the rest\<close>
  "accounted cs rs s \<longleftrightarrow>
     (case s of
        (None, y) \<Rightarrow> \<exists>ds. x_results y = rs @ ds \<and> length ds = length cs
      | (Some e, y) \<Rightarrow> e = LoopPaused \<or> e = LoopWaiting \<longrightarrow>
          (\<exists>q ds. x_pending y = Some q \<and> q_results q = rs @ ds \<and> length ds < length cs \<and>
             q_remaining q = drop (Suc (length ds)) cs))"

lemma settled_keep: "call_settled remaining (x_results x) (keep_result w call spec r x)"
  by (simp add: call_settled_def keep_result_def Let_def react_simps)

lemma settled_settle: "call_settled remaining (x_results x) (settle_result w task remaining call spec r x)"
  using settled_keep
  by (simp add: settle_result_def)
     (simp add: call_settled_def react_simps pause_react_for_plan_approval_tool_def save_pending_def Let_def split: sum.split)

lemma settled_finalize: "call_settled remaining (x_results x) (finalize_executed_tool w remaining call spec r key x)"
proof -
  have settle: "call_settled remaining (x_results x) (settle_result w task remaining call spec r' (cache_result spec r key (tick x)))" for task r'
    using settled_settle [of remaining "cache_result spec r key (tick x)"] by (simp add: react_simps)
  show ?thesis
    unfolding finalize_executed_tool_def using settle
    by (auto simp: react_simps Let_def call_settled_def pause_react_for_user_question_tool_def save_pending_def split: sum.splits if_splits)
qed

lemma andthen_assoc: "andthen (andthen s f) g = andthen s (\<lambda>x. andthen (f x) g)"
  by (cases s) (auto simp: andthen_def split: option.split)

lemma accounted_stop: "e \<noteq> LoopPaused \<Longrightarrow> e \<noteq> LoopWaiting \<Longrightarrow> accounted cs rs (Some e, y)"
  by (simp add: accounted_def)

lemma accounted_Cons:
  assumes "call_settled cs rs s" and "\<And>y r. x_results y = rs @ [r] \<Longrightarrow> s = (None, y) \<Longrightarrow> accounted cs (rs @ [r]) (f y)"
  shows "accounted (c # cs) rs (andthen s f)"
proof -
  obtain o' y where s: "s = (o', y)" by (cases s)
  show ?thesis
  proof (cases o')
    case None
    then obtain r where r: "x_results y = rs @ [r]" using assms(1) s by (auto simp: call_settled_def)
    have a: "accounted cs (rs @ [r]) (f y)" using assms(2) [OF r] s None by simp
    obtain o2 z where fz: "f y = (o2, z)" by (cases "f y")
    show ?thesis
    proof (cases o2)
      case None2: None
      then obtain ds where "x_results z = rs @ (r # ds)" "length ds = length cs" using a fz by (auto simp: accounted_def)
      then show ?thesis using s None None2 fz by (auto simp: accounted_def andthen_def intro!: exI [of _ "r # ds"])
    next
      case (Some e)
      show ?thesis
        unfolding accounted_def andthen_def s None fz Some prod.case option.case
      proof
        assume "e = LoopPaused \<or> e = LoopWaiting"
        then obtain q ds where "x_pending z = Some q" "q_results q = rs @ r # ds" "length ds < length cs"
          "q_remaining q = drop (Suc (length ds)) cs"
          using a fz Some by (auto simp: accounted_def)
        then show "\<exists>q ds. x_pending z = Some q \<and> q_results q = rs @ ds \<and> length ds < length (c # cs) \<and>
            q_remaining q = drop (Suc (length ds)) (c # cs)"
          by (intro exI [of _ q] exI [of _ "r # ds"]) simp
      qed
    qed
  next
    case (Some e)
    then show ?thesis using assms(1) s by (auto simp: call_settled_def accounted_def andthen_def)
  qed
qed

lemma accounted_batch:
  assumes "bs \<noteq> []" "length bs \<le> length cs" "x_results x = rs"
    and "\<And>y ds. x_results y = rs @ ds \<Longrightarrow> length ds = length bs \<Longrightarrow> accounted (drop (length bs) cs) (rs @ ds) (f y)"
  shows "accounted cs rs (andthen (finalize_batch w (tl cs) bs x) f)"
  using assms
proof (induction bs arbitrary: cs x rs)
  case (Cons b bs)
  obtain call spec key result where b: "b = ((call, spec, key), result)" by (metis prod.exhaust)
  obtain c ds where cs: "cs = c # ds" using Cons.prems(2) by (cases cs) auto
  have one: "call_settled ds rs (finalize_executed_tool w ds call spec result key x)"
    using settled_finalize Cons.prems(3) by metis
  show ?case
    unfolding b cs list.sel finalize_batch.simps andthen_assoc
  proof (rule accounted_Cons [OF one])
    fix y :: react and r assume y: "x_results y = rs @ [r]"
    show "accounted ds (rs @ [r]) (andthen (finalize_batch w (tl ds) bs y) f)"
    proof (cases "bs = []")
      case True
      then show ?thesis using Cons.prems(4) [OF y] cs by (simp add: andthen_def)
    next
      case False
      show ?thesis
      proof (rule Cons.IH [OF False _ y])
        show "length bs \<le> length ds" using Cons.prems(2) cs by simp
        show "accounted (drop (length bs) ds) ((rs @ [r]) @ es) (f z)"
          if "x_results z = (rs @ [r]) @ es" "length es = length bs" for z :: react and es
          using Cons.prems(4) [of z "r # es"] that cs by simp
      qed
    qed
  qed
qed simp

lemma execute_all_results:
  "x_results (snd (execute_all w n i ss x)) = x_results x \<and>
   (\<forall>rs. fst (execute_all w n i ss x) = Inr rs \<longrightarrow> length rs = length ss)"
proof (induction ss arbitrary: i x)
  case (Cons s ss)
  let ?x = "snd (execute_tool w (0 < i) (batch_annotated n i s) x)"
  have "x_results ?x = x_results x" by (simp add: execute_tool_def react_simps)
  then show ?case using Cons.IH [of "Suc i" ?x] by (auto simp: case_prod_unfold rbind_eq_Inr)
qed simp

lemma take_batch_length: "take_batch w x cs = Inr bs \<Longrightarrow> length bs \<le> length cs"
  by (induction cs arbitrary: bs) (auto simp: rbind_eq_Inr split: if_splits)

lemma settled_execute_one: "call_settled cs (x_results x) (execute_one w cs call spec key x)"
  using settled_finalize [of cs "snd (execute_tool w False spec x)"]
  by (simp add: execute_one_def execute_tool_def react_simps call_settled_def split: sum.split)

lemma accounted_calls: "accounted cs (x_results x) (run_calls w dec u cs x)"
proof (induction "length cs" arbitrary: u cs x rule: less_induct)
  case less
  have IH: "accounted ds rs (run_calls w dec v ds y)" if "length ds < length cs" "x_results y = rs" for v ds y rs
    using less that by blast
  show ?case
  proof (rule run_calls_cases [where P = "accounted cs (x_results x)"])
    show "accounted cs (x_results x) (None, x)" if "cs = []" using that by (simp add: accounted_def)
    show "accounted cs (x_results x) (Some e, tick x)" if "e \<noteq> LoopPaused" "e \<noteq> LoopWaiting" for e
      using that by (rule accounted_stop)
  next
    fix c ds call spec result assume "cs = c # ds"
    then show "accounted cs (x_results x)
        (andthen (finalize_executed_tool w ds call spec result None (tick x)) (run_calls w dec u ds))"
      using settled_finalize [of ds "tick x"] IH by (auto simp: react_simps intro!: accounted_Cons)
  next
    fix c ds call spec key r assume "cs = c # ds"
    then show "accounted cs (x_results x) (andthen (finalize_executed_tool w ds call spec r key (tick x)) (run_calls w dec u ds))"
      using settled_finalize [of ds "tick x"] IH by (auto simp: react_simps intro!: accounted_Cons)
  next
    fix c ds call spec key assume "cs = c # ds"
    then show "accounted cs (x_results x) (andthen (execute_one w ds call spec key (tick x)) (run_calls w dec u ds))"
      using settled_execute_one [of ds "tick x"] IH by (auto simp: react_simps intro!: accounted_Cons)
  next
    fix c ds call spec key b bs
    assume eq: "cs = c # ds" and b: "take_batch w (tick x) ds = Inr (b # bs)"
    show "accounted cs (x_results x) (andthen (execute_batch w ds ((call, spec, key) # b # bs) (tick x))
        (run_calls w dec u (drop (Suc (length bs)) ds)))"
    proof (cases "execute_all w (length ((call, spec, key) # b # bs)) 0 (map (fst \<circ> snd) ((call, spec, key) # b # bs)) (tick x)")
      case (Pair r x')
      have x': "x_results x' = x_results x" "\<And>rs. r = Inr rs \<Longrightarrow> length rs = Suc (Suc (length bs))"
        using execute_all_results [of w "length ((call, spec, key) # b # bs)" 0
            "map (fst \<circ> snd) ((call, spec, key) # b # bs)" "tick x"] Pair
        by (auto simp: react_simps)
      show ?thesis
      proof (cases r)
        case (Inl e)
        then show ?thesis using Pair by (simp add: execute_batch_def andthen_def accounted_stop)
      next
        case (Inr rs)
        let ?z = "zip ((call, spec, key) # b # bs) rs"
        have len: "length ?z = Suc (Suc (length bs))" using x'(2) [OF Inr] by simp
        have "accounted cs (x_results x) (andthen (finalize_batch w (tl cs) ?z x')
            (run_calls w dec u (drop (Suc (length bs)) ds)))"
        proof (rule accounted_batch [OF _ _ x'(1)])
          show "?z \<noteq> []" using len by (metis list.size(3) nat.distinct(1))
          show "length ?z \<le> length cs" using take_batch_length [OF b] len eq by simp
          fix y :: react and es assume "x_results y = x_results x @ es" "length es = length ?z"
          then show "accounted (drop (length ?z) cs) (x_results x @ es) (run_calls w dec u (drop (Suc (length bs)) ds) y)"
            using len eq by (auto intro!: IH)
        qed
        then show ?thesis using Pair Inr eq by (simp add: execute_batch_def)
      qed
    qed
  qed
qed


section \<open>A sample world\<close>

definition sample_call :: "string \<Rightarrow> string \<Rightarrow> pv" where
  "sample_call i name = PDict [(''id'', PStr i), (''name'', PStr name), (''arguments'', PDict [(''path'', PStr ''a'')])]"

definition sample_result :: "pdict \<Rightarrow> pdict" where
  "sample_result spec =
     [(''id'', dget spec ''id''), (''name'', dget spec ''name''), (''result'', PDict [(''status'', PStr ''completed'')])]"

definition sample_world :: "string list \<Rightarrow> pdict \<Rightarrow> world" where
  \<comment> \<open>the statuses the task has at the first reads, running afterwards; one answer of the provider\<close>
  "sample_world statuses answer =
     \<lparr>w_goal = PStr ''goal'', w_session = ''s'',
      w_task = (\<lambda>n. [(''id'', PStr ''t''), (''status'', PStr (if n < length statuses then statuses ! n else ''running''))]),
      w_cancelled = (\<lambda>_. False), w_inbox = (\<lambda>_ _. []), w_schemas = [], w_preflight = (\<lambda>_ c. c),
      w_provider = (\<lambda>_ _. Inr (PDict answer)), w_annotate_batch = (\<lambda>cs _. cs), w_annotate_call = (\<lambda>c _. c),
      w_operation = (\<lambda>_ r. r), w_execute = (\<lambda>_ spec _. Inr (sample_result spec)), w_compact = None, w_refresh = (\<lambda>_. None),
      w_visible = (\<lambda>r. dget r ''result''), w_loads = (\<lambda>_. None), w_title = (\<lambda>s. s), w_new_id = (\<lambda>_. PStr ''new''),
      w_convergence = (\<lambda>_ _. []), w_handoff = (\<lambda>_ _. ''more?'')\<rparr>"

definition sample_decision :: "string list \<Rightarrow> tool_policy_decision" where
  "sample_decision names =
     \<lparr>p_phase = ''normal'', p_role = ''root'', p_agent_type = ''root'', p_allowed_tools = map tool_of names, p_allowed_names = names,
      p_denied_names = [], p_reasons = [], p_details = [], p_snapshot = []\<rparr>"

definition sample_context :: pdict where
  "sample_context = [(''workspace_root'', PStr ''/w''), (''runtimeRole'', PStr ''root'')]"

definition run_names :: "step \<Rightarrow> string list" where
  "run_names s = map (spec_name \<circ> run_spec) (x_trace (snd s))"

text \<open>
  Two things escape in a batch. A call the policy withholds is executed when it follows an
  allowed reading tool, although alone it is answered with a blocked result; and when the first
  member of a batch makes the task wait for an approval, the second one, already executed, is
  saved among the remaining calls and so executed again on resumption.
\<close>

theorem batch_escapes:
  "run_names (run_calls (sample_world [] []) (sample_decision [''read_file'']) True
      [sample_call ''1'' ''read_file'', sample_call ''2'' ''web_fetch''] (start_state sample_context [] None)) = [''read_file'', ''web_fetch''] \<and>
   run_names (run_calls (sample_world [] []) (sample_decision [''read_file'']) True
      [sample_call ''2'' ''web_fetch''] (start_state sample_context [] None)) = [] \<and>
   (let s = run_calls (sample_world [''running'', ''running'', ''running'', ''waiting_approval''] [])
       (sample_decision [''read_file'', ''list_dir'']) True
       [sample_call ''1'' ''read_file'', sample_call ''2'' ''list_dir''] (start_state sample_context [] None)
    in fst s = Some LoopWaiting \<and> run_names s = [''read_file'', ''list_dir''] \<and>
       map_option q_remaining (x_pending (snd s)) = Some [sample_call ''2'' ''list_dir''])"
proof (intro conjI)
  show "run_names (run_calls (sample_world [] []) (sample_decision [''read_file'']) True
      [sample_call ''1'' ''read_file'', sample_call ''2'' ''web_fetch''] (start_state sample_context [] None)) = [''read_file'', ''web_fetch'']"
    by code_simp
  show "run_names (run_calls (sample_world [] []) (sample_decision [''read_file'']) True
      [sample_call ''2'' ''web_fetch''] (start_state sample_context [] None)) = []"
    by code_simp
  show "let s = run_calls (sample_world [''running'', ''running'', ''running'', ''waiting_approval''] [])
       (sample_decision [''read_file'', ''list_dir'']) True
       [sample_call ''1'' ''read_file'', sample_call ''2'' ''list_dir''] (start_state sample_context [] None)
    in fst s = Some LoopWaiting \<and> run_names s = [''read_file'', ''list_dir''] \<and>
       map_option q_remaining (x_pending (snd s)) = Some [sample_call ''2'' ''list_dir'']"
    by code_simp
qed


definition exposed_world :: world where
  "exposed_world = sample_world [] [(''tool_calls'', PList [sample_call ''1'' ''read_file''])]"

definition exposed_state :: react where
  "exposed_state = start_state (sample_context @ [(''tools'', PList [PDict (tool_of ''read_file'')])]) [] None"

definition exposed_run :: run where
  "exposed_run = Run False False
     [(''id'', PStr ''1''), (''name'', PStr ''read_file''),
      (''arguments'', PDict [(''path'', PStr ''a''), (''workspaceRoot'', PStr ''/w''), (''max_bytes'', PInt 4000), (''ignore'', PList [])]),
      (''plan_step_id'', PStr ''search-relevant-files''), (''start_token'', PStr ''Running tool: read_file'')]"

lemma exposed_trace: "x_trace (snd (react_turn exposed_world True 5 exposed_state)) = x_trace exposed_state @ [exposed_run]"
  by code_simp

theorem turn_executes_exposed_witness:
  "\<exists>dec. resolve (w_task exposed_world (x_clock exposed_state)) (live (receive exposed_world (tick exposed_state)))
       (x_results exposed_state) (turn_tools exposed_world (receive exposed_world (tick exposed_state))) = Inr dec \<and>
     list_all (run_ok (p_allowed_names dec)) [exposed_run]"
  by (rule turn_executes_exposed [OF exposed_trace]) simp

section \<open>A spent budget\<close>

lemma overridden_max_task_steps:
  "dget ctx ''_max_task_steps_override'' = PInt i \<Longrightarrow> max_task_steps ctx = max 1 i"
  by (simp add: max_task_steps_def dgets_def int_at_least_def py_int_def is_none_def)

lemma paused_max_task_steps:
  "max_task_steps (with_request_id rid (context_with_additional_step_budget ctx consumed limit)) =
     max 1 (max limit consumed + max 3 (min 10 limit))"
  by (rule overridden_max_task_steps)
     (simp add: with_request_id_def context_with_additional_step_budget_def Let_def dget_dput)

text \<open>
  At the end of the step budget the loop either fails, exactly when it has tool results and
  none of them completed, or pauses with all results kept and a context from which the resumed
  loop gets at least three and at most ten further steps.
\<close>

theorem budget_extended:
  "(let failing = (case results_summary (x_results x) of (n, completed) \<Rightarrow> 0 < n \<and> completed = 0);
        s = converge_after_step_budget_exhausted w task m x in
    if failing then s = (Some (LoopFailed ''MAX_STEPS_NO_SUCCESSFUL_TOOLS''), x)
    else \<exists>q y more. s = (Some LoopPaused, y) \<and> x_pending y = Some q \<and> q_steps q = x_steps x \<and> q_results q = x_results x \<and>
      max_task_steps (q_context q) = max m (int (x_steps x)) + more \<and> 3 \<le> more \<and> more \<le> 10)"
  by (auto simp: converge_after_step_budget_exhausted_def pause_react_for_user_question_def save_pending_def Let_def
      paused_max_task_steps react_simps split: prod.split)

end
