(* ===== verification/ReactResume.thy ===== *)
theory ReactResume
  imports ReactProps
begin

text \<open>
  Resumption of a paused loop: the row that keeps the saved state (\<open>store/task_store.py\<close>,
  \<open>store/sqlite_store.py\<close>), its loading (\<open>orchestrator/resume_flow.py\<close>), the execution of the calls
  that were left of the paused turn and the two ways back into the loop
  (\<open>orchestrator/react_resume.py\<close>). JSON texts are kept as the values they encode, which these
  state values survive. A turn with calls left has started, so pauses here save a started state.
\<close>

section \<open>The saved row\<close>

record pending_row =
  row_context_json :: pdict
  row_messages_json :: "pv list"
  row_tool_results_json :: "pdict list"
  row_pending_tool_call_json :: pv
  row_pending_tool_spec_json :: pv
  row_remaining_tool_calls_json :: "pv list"
  row_steps :: int
  row_react_started :: int

definition upsert_pending_react_state :: "string \<Rightarrow> pending \<Rightarrow> (string \<times> pending_row) list \<Rightarrow> (string \<times> pending_row) list" where
  "upsert_pending_react_state i q rows =
     AList.update i \<lparr>row_context_json = q_context q, row_messages_json = q_messages q, row_tool_results_json = q_results q,
       row_pending_tool_call_json = q_call q, row_pending_tool_spec_json = q_spec q, row_remaining_tool_calls_json = q_remaining q,
       row_steps = int (q_steps q), row_react_started = (if q_started q then 1 else 0)\<rparr> rows"

definition serialize_pending_react_state :: "pending_row \<Rightarrow> pending" where
  \<comment> \<open>with the normalization of \<open>_load_pending_react_state\<close>: an absent counter is 0\<close>
  "serialize_pending_react_state r =
     \<lparr>q_context = row_context_json r, q_messages = row_messages_json r, q_results = row_tool_results_json r,
      q_steps = nat (row_steps r), q_started = (row_react_started r \<noteq> 0), q_repairs = 0,
      q_call = row_pending_tool_call_json r, q_spec = row_pending_tool_spec_json r,
      q_remaining = row_remaining_tool_calls_json r\<rparr>"

definition get_pending_react_state :: "string \<Rightarrow> (string \<times> pending_row) list \<Rightarrow> pending option" where
  "get_pending_react_state i rows = map_option serialize_pending_react_state (map_of rows i)"

definition delete_pending_react_state :: "string \<Rightarrow> (string \<times> pending_row) list \<Rightarrow> (string \<times> pending_row) list" where
  "delete_pending_react_state i rows = AList.delete i rows"


section \<open>The calls left of the paused turn\<close>

definition execute_without_context :: "world \<Rightarrow> pdict \<Rightarrow> react \<Rightarrow> pdict res \<times> react" where
  \<comment> \<open>\<open>_execute_tool\<close> without a budget and without a context; the trace still records plan mode\<close>
  "execute_without_context w spec x =
     (w_execute w (x_clock x) spec [], tick (x\<lparr>x_trace := x_trace x @ [Run (plan_mode (live x)) False spec]\<rparr>))"

definition drained :: "world \<Rightarrow> pdict \<Rightarrow> pv list \<Rightarrow> pv \<Rightarrow> pdict \<Rightarrow> pdict \<Rightarrow> react \<Rightarrow> step" where
  \<comment> \<open>after the result: plan mode, plan approval, another approval, or the result is kept\<close>
  "drained w task remaining call spec result x =
     (if tool_result_enters_plan_mode spec result then
        (None, record_result w call result (x\<lparr>x_context := context_with_plan_mode (live x) result\<rparr>))
      else if tool_result_waits_for_plan_approval spec result then
        pause_react_for_plan_approval_tool task remaining call spec result x
      else if task_is ''waiting_approval'' task then
        (Some LoopWaiting, save_pending (live x) (x_messages x) call (PDict spec) remaining (x_started x) x)
      else (None, record_result w call result x))"

fun drain_remaining_react_tool_calls :: "world \<Rightarrow> pv list \<Rightarrow> react \<Rightarrow> step" where
  "drain_remaining_react_tool_calls w [] x = (None, x)"
| "drain_remaining_react_tool_calls w (c # cs) x0 =
     (case prepared_tool_call w x0 c of
        Inl e \<Rightarrow> (Some (LoopRaised e), x0)
      | Inr (call, spec, key) \<Rightarrow>
          (case execute_without_context w spec x0 of
             (Inl e, x1) \<Rightarrow> (Some (LoopRaised e), x1)
           | (Inr result0, x1) \<Rightarrow>
               (case read_task w x1 of (task, x) \<Rightarrow>
                  let result = w_operation w spec result0 in
                  if tool_result_waits_for_user spec result then
                    (case pause_react_for_user_question_tool w cs call spec result x of
                       Inl answered \<Rightarrow> andthen (drained w task cs call spec answered x) (drain_remaining_react_tool_calls w cs)
                     | Inr paused \<Rightarrow> (Some LoopPaused, paused))
                  else andthen (drained w task cs call spec result x) (drain_remaining_react_tool_calls w cs))))"

definition drain_state :: "world \<Rightarrow> pv list \<Rightarrow> react \<Rightarrow> step" where
  \<comment> \<open>\<open>_drain_remaining_react_tool_calls\<close>: a drained state is saved with nothing remaining\<close>
  "drain_state w cs x =
     (if cs = [] then (None, x)
      else andthen (drain_remaining_react_tool_calls w cs x) (\<lambda>x'.
        (None, save_pending (live x') (x_messages x')
           (case x_pending x' of None \<Rightarrow> PNone | Some q \<Rightarrow> q_call q) (case x_pending x' of None \<Rightarrow> PNone | Some q \<Rightarrow> q_spec q)
           [] (x_started x') x')))"

section \<open>Back into the loop\<close>

text \<open>
  What a resumption does with the task in the end: it hands it to \<open>_complete_task\<close> or to
  \<open>_fail_task\<close>, or leaves it as the loop left it.
\<close>

datatype resumed = Completing | Failing string | Leaving "loop_end option"

definition pending_of :: "react \<Rightarrow> pending" where
  \<comment> \<open>the state object that is handed on to the loop\<close>
  "pending_of x =
     \<lparr>q_context = live x, q_messages = x_messages x, q_results = x_results x, q_steps = x_steps x, q_started = x_started x,
      q_repairs = x_repairs x, q_call = PNone, q_spec = PNone, q_remaining = []\<rparr>"

definition reenter :: "world \<Rightarrow> react \<Rightarrow> loop_end \<times> react" where
  "reenter w x =
     react_loop w True (max_task_steps (live x)) ((start_state (live x) [] (Some (pending_of x)))
        \<lparr>x_clock := x_clock x, x_trace := x_trace x, x_pending := x_pending x\<rparr>)"

definition resume_cooperative_react :: "world \<Rightarrow> pending \<Rightarrow> resumed \<times> react" where
  "resume_cooperative_react w q =
     (case drain_state w (q_remaining q) (start_state (q_context q) [] (Some q)) of
        (Some (LoopRaised e), x) \<Rightarrow> (Failing ''RESUME_FAILED'', x)
      | (Some e, x) \<Rightarrow> (Leaving (Some e), x)
      | (None, x0) \<Rightarrow>
          (case read_task w x0 of (task, x) \<Rightarrow>
             if pin_tuple (dget task ''status'') [''paused'', ''waiting_approval'', ''cancelled''] then (Leaving None, x)
             else (case reenter w x of
                 (LoopPaused, y) \<Rightarrow> (Leaving (Some LoopPaused), y)
               | (LoopWaiting, y) \<Rightarrow> (Leaving (Some LoopWaiting), y)
               | (LoopRaised e, y) \<Rightarrow> (Failing ''RESUME_FAILED'', y)
               | (_, y) \<Rightarrow> (Completing, y))))"

definition approved_spec :: "pv \<Rightarrow> pv \<Rightarrow> pdict" where
  "approved_spec approval_id spec =
     dput ''arguments'' (PDict (dput ''approvalId'' approval_id (the_dict (dget_or (the_dict spec) ''arguments'' (PDict []))))) (the_dict spec)"

definition resume_react_after_approval :: "world \<Rightarrow> pv \<Rightarrow> pending \<Rightarrow> resumed \<times> react" where
  "resume_react_after_approval w approval_id q =
     (let spec = approved_spec approval_id (q_spec q);
          x0 = start_state (q_context q) [] (Some q) in
      case execute_without_context w spec x0 of
        (Inl e, x1) \<Rightarrow> (Failing ''LOOP_EXECUTION_FAILED'', x1)
      | (Inr result0, x1) \<Rightarrow>
          (case read_task w x1 of (task, x2) \<Rightarrow>
             let result = w_operation w spec result0 in
             if task_is ''waiting_approval'' task then
               (Leaving (Some LoopWaiting),
                save_pending (live x2) (x_messages x2) (q_call q) (PDict spec) (q_remaining q) (x_started x2) x2)
             else
               (case drain_state w (q_remaining q) (record_result w (q_call q) result x2) of
                  (Some (LoopRaised e), x) \<Rightarrow> (Failing ''LOOP_EXECUTION_FAILED'', x)
                | (Some e, x) \<Rightarrow> (Leaving (Some e), x)
                | (None, x3) \<Rightarrow>
                    (case read_task w x3 of (task', x) \<Rightarrow>
                       if pin_tuple (dget task' ''status'') [''paused'', ''waiting_approval''] then (Leaving None, x)
                       else (case reenter w x of
                           (LoopCompleted s, y) \<Rightarrow> (Completing, y)
                         | (LoopRaised e, y) \<Rightarrow> (Failing ''LOOP_EXECUTION_FAILED'', y)
                         | (e, y) \<Rightarrow> (Leaving (Some e), y))))))"

section \<open>What resumption guarantees\<close>

lemma settled_drained: "call_settled cs (x_results x) (drained w task cs call spec r x)"
  by (simp add: drained_def call_settled_def pause_react_for_plan_approval_tool_def save_pending_def Let_def react_simps split: sum.split)

text \<open>
  Draining answers every call that was left of the paused turn: each gets exactly one result,
  in order, after the results that were saved; and if one of them pauses the task again, the state
  saved then holds the results so far and exactly the calls after the pending one.
\<close>

theorem drain_accounted:
  "accounted cs (x_results x) (drain_remaining_react_tool_calls w cs x)"
proof (induction cs arbitrary: x)
  case Nil
  show ?case by (simp add: accounted_def)
next
  case (Cons c cs)
  show ?case
  proof (cases "prepared_tool_call w x c")
    case (Inl e)
    then show ?thesis by (simp add: accounted_stop)
  next
    case (Inr p)
    obtain call spec key where p: "p = (call, spec, key)" by (metis prod_cases3)
    obtain o' x1 where ex: "execute_without_context w spec x = (o', x1)" by (metis prod.exhaust)
    then have x1: "x_results x1 = x_results x" by (auto simp: execute_without_context_def react_simps)
    have Some_step: "accounted (c # cs) (x_results x) (Some e, y)" if "call_settled cs (x_results x) (Some e, y)" for e y
      using accounted_Cons [OF that, of "\<lambda>_. (None, y)"] by (simp add: andthen_def)
    have go: "accounted (c # cs) (x_results x)
        (andthen (drained w task cs call spec r (tick x1)) (drain_remaining_react_tool_calls w cs))" for task r
      using settled_drained [of cs "tick x1" w task call spec r] x1 Cons.IH
      by (intro accounted_Cons) (metis react_simps(4), metis)
    show ?thesis
    proof (cases o')
      case (Inl e)
      then show ?thesis using Inr p ex by (simp add: accounted_stop)
    next
      case r: (Inr r0)
      have paused: "call_settled cs (x_results x) (Some LoopPaused, y)"
        if "pause_react_for_user_question_tool w cs call spec r (tick x1) = Inr y" for r y
        using that x1
        by (auto simp: pause_react_for_user_question_tool_def save_pending_def call_settled_def Let_def react_simps split: if_splits)
      show ?thesis
        using Inr p ex r go paused
        by (auto simp: react_simps Let_def intro!: Some_step split: sum.split)
    qed
  qed
qed

definition failing_world :: world where
  "failing_world = (sample_world [] [])\<lparr>w_execute := (\<lambda>_ spec _. Inr
     (dput ''result'' (PDict [(''status'', PStr ''failed'')]) (sample_result spec)))\<rparr>"

definition spent_state :: "pv \<Rightarrow> pending" where
  "spent_state call =
     \<lparr>q_context = dput ''_max_task_steps_override'' (PInt 2) sample_context, q_messages = [],
      q_results = [[(''id'', PStr ''0''), (''name'', PStr ''read_file''), (''result'', PDict [(''status'', PStr ''failed'')])]],
      q_steps = 2, q_started = True, q_repairs = 0, q_call = call, q_spec = call, q_remaining = []\<rparr>"

text \<open>
  Resumption leaves three guards of the loop behind. A call left of a turn that was paused in
  plan mode is executed although plan mode forbids its tool and no policy decision exposed it; a
  loop that fails after a cooperative pause is handed to the completion of the task; and one that
  fails after an approval leaves the task running, neither completed nor failed.
\<close>

theorem resumption_escapes:
  "(let s = drain_state (sample_world [] []) [sample_call ''1'' ''apply_patch'']
       (start_state (dput ''_plan_mode'' (PBool True) sample_context) [] None)
    in run_names s = [''apply_patch''] \<and> list_ex (run_ok []) (x_trace (snd s)) = False) \<and>
   fst (resume_cooperative_react failing_world (spent_state PNone)) = Completing \<and>
   fst (resume_react_after_approval failing_world (PStr ''ap'') (spent_state (sample_call ''1'' ''run_command'')))
     = Leaving (Some (LoopFailed ''MAX_STEPS_NO_SUCCESSFUL_TOOLS''))"
proof (intro conjI)
  show "let s = drain_state (sample_world [] []) [sample_call ''1'' ''apply_patch'']
       (start_state (dput ''_plan_mode'' (PBool True) sample_context) [] None)
    in run_names s = [''apply_patch''] \<and> list_ex (run_ok []) (x_trace (snd s)) = False"
    by code_simp
  show "fst (resume_cooperative_react failing_world (spent_state PNone)) = Completing"
    by code_simp
  show "fst (resume_react_after_approval failing_world (PStr ''ap'') (spent_state (sample_call ''1'' ''run_command'')))
      = Leaving (Some (LoopFailed ''MAX_STEPS_NO_SUCCESSFUL_TOOLS''))"
    by code_simp
qed


end
