(* ===== verification/Workers.thy ===== *)
theory Workers
  imports Prelude
begin

text \<open>
  What a child worker may consume and whether it is alive: budgets of tokens and tool calls
  (\<open>services/worker_budget.py\<close>) and the health a worker's heartbeat gives it
  (\<open>services/worker_health.py\<close>).
\<close>

section \<open>Quotas\<close>

text \<open>The error of a quota that is exceeded carries its dimension, limit, attempt and consumption.\<close>

datatype budget_error = BadBudget | BudgetExceeded string int int int

record budget_quota =
  b_limit :: "int option"
  b_consumed :: int

definition make_quota :: "int option \<Rightarrow> int \<Rightarrow> budget_error + budget_quota" where
  \<comment> \<open>the constructor with \<open>__post_init__\<close>\<close>
  "make_quota l c =
     (if (case l of None \<Rightarrow> False | Some m \<Rightarrow> m < 0) then Inl BadBudget
      else if c < 0 then Inl BadBudget else Inr \<lparr>b_limit = l, b_consumed = c\<rparr>)"

definition quota_remaining :: "budget_quota \<Rightarrow> int option" where
  "quota_remaining q = map_option (\<lambda>m. max 0 (m - b_consumed q)) (b_limit q)"

definition quota_exhausted :: "budget_quota \<Rightarrow> bool" where
  "quota_exhausted q = (case b_limit q of None \<Rightarrow> False | Some m \<Rightarrow> m \<le> b_consumed q)"

definition consume_quota :: "string \<Rightarrow> int \<Rightarrow> budget_quota \<Rightarrow> budget_error + budget_quota" where
  "consume_quota dimension amount q =
     (if amount < 0 then Inl BadBudget
      else
        let attempted = b_consumed q + amount in
        case b_limit q of
          None \<Rightarrow> make_quota None attempted
        | Some m \<Rightarrow>
            if m < attempted then Inl (BudgetExceeded dimension m attempted (b_consumed q)) else make_quota (Some m) attempted)"

section \<open>Reading metadata\<close>

definition coerce_non_negative_int :: "pv \<Rightarrow> budget_error + int" where
  "coerce_non_negative_int v =
     (if is_bool v then Inl BadBudget
      else case py_int v of Inl _ \<Rightarrow> Inl BadBudget | Inr i \<Rightarrow> if i < 0 then Inl BadBudget else Inr i)"

definition present_ints :: "pdict \<Rightarrow> string \<Rightarrow> budget_error + int list" where
  "present_ints source k =
     (if \<not> dhas source k \<or> is_none (dget source k) then Inr []
      else rbind (coerce_non_negative_int (dget source k)) (\<lambda>i. Inr [i]))"

definition all_present_ints :: "pdict list \<Rightarrow> string list \<Rightarrow> budget_error + int list" where
  "all_present_ints sources keys = rconcat (\<lambda>source. rconcat (present_ints source) keys) sources"

definition last_present_int :: "pdict list \<Rightarrow> string list \<Rightarrow> budget_error + int option" where
  "last_present_int sources keys =
     rbind (all_present_ints sources keys) (\<lambda>values. Inr (if values = [] then None else Some (last values)))"

definition iter_budget_sources :: "pv list \<Rightarrow> pdict list" where
  "iter_budget_sources items =
     concat (map (\<lambda>item. case item of
         PDict d \<Rightarrow> d # (case dget d ''budget'' of PDict b \<Rightarrow> [b] | _ \<Rightarrow> [])
       | _ \<Rightarrow> []) items)"

definition quota_from_metadata :: "pdict list \<Rightarrow> string list \<Rightarrow> string list \<Rightarrow> string list \<Rightarrow> budget_error + budget_quota" where
  "quota_from_metadata sources max_keys consumed_keys remaining_keys =
     rbind (last_present_int sources max_keys) (\<lambda>l.
     rbind (all_present_ints sources consumed_keys) (\<lambda>candidates.
     rbind (last_present_int sources remaining_keys) (\<lambda>remaining.
       make_quota l (fold max (candidates @
         (case (l, remaining) of (Some m, Some r) \<Rightarrow> [max 0 (m - r)] | _ \<Rightarrow> [])) 0))))"

definition usage_total_tokens :: "pv \<Rightarrow> budget_error + int" where
  \<comment> \<open>values other than objects have no attribute \<open>total_tokens\<close>\<close>
  "usage_total_tokens usage =
     (case usage of
        PDict d \<Rightarrow> if is_none (dget d ''total_tokens'') then Inr 0 else coerce_non_negative_int (dget d ''total_tokens'')
      | _ \<Rightarrow> Inr 0)"

section \<open>Worker budgets\<close>

record worker_budget =
  wb_tokens :: budget_quota
  wb_calls :: budget_quota

definition budget_from_metadata :: "pv list \<Rightarrow> budget_error + worker_budget" where
  "budget_from_metadata items =
     (let sources = iter_budget_sources items in
      rbind (quota_from_metadata sources [''maxTokens'', ''max_tokens'', ''tokenLimit'', ''token_limit'']
          [''consumedTokens'', ''consumed_tokens'', ''tokenUsage'', ''token_usage''] [''remainingTokens'', ''remaining_tokens'']) (\<lambda>t.
      rbind (quota_from_metadata sources [''maxToolCalls'', ''max_tool_calls'', ''toolCallLimit'', ''tool_call_limit'']
          [''consumedToolCalls'', ''consumed_tool_calls'', ''toolCallCount'', ''tool_call_count'']
          [''remainingToolCalls'', ''remaining_tool_calls'']) (\<lambda>c.
        Inr \<lparr>wb_tokens = t, wb_calls = c\<rparr>)))"

definition consume_provider_usage :: "pv \<Rightarrow> worker_budget \<Rightarrow> budget_error + worker_budget" where
  "consume_provider_usage usage b =
     rbind (usage_total_tokens usage) (\<lambda>n.
     rbind (consume_quota ''tokens'' n (wb_tokens b)) (\<lambda>q. Inr (b\<lparr>wb_tokens := q\<rparr>)))"

definition consume_tool_call :: "pv \<Rightarrow> worker_budget \<Rightarrow> budget_error + worker_budget" where
  "consume_tool_call count b =
     rbind (coerce_non_negative_int count) (\<lambda>n.
     rbind (consume_quota ''tool_calls'' n (wb_calls b)) (\<lambda>q. Inr (b\<lparr>wb_calls := q\<rparr>)))"

definition quota_metadata :: "string \<Rightarrow> string \<Rightarrow> budget_quota \<Rightarrow> pdict" where
  "quota_metadata max_key remaining_key q =
     (case b_limit q of
        None \<Rightarrow> []
      | Some m \<Rightarrow> [(max_key, PInt m), (remaining_key, PInt (case quota_remaining q of None \<Rightarrow> 0 | Some r \<Rightarrow> r))])"

definition budget_to_metadata :: "worker_budget \<Rightarrow> pdict" where
  "budget_to_metadata b =
     [(''consumedTokens'', PInt (b_consumed (wb_tokens b))), (''tokensExhausted'', PBool (quota_exhausted (wb_tokens b))),
      (''consumedToolCalls'', PInt (b_consumed (wb_calls b))), (''toolCallsExhausted'', PBool (quota_exhausted (wb_calls b)))] @
     quota_metadata ''maxTokens'' ''remainingTokens'' (wb_tokens b) @
     quota_metadata ''maxToolCalls'' ''remainingToolCalls'' (wb_calls b)"

section \<open>Budgets are kept\<close>

definition quota_ok :: "budget_quota \<Rightarrow> bool" where
  \<comment> \<open>what the constructor admits\<close>
  "quota_ok q \<longleftrightarrow> 0 \<le> b_consumed q \<and> (case b_limit q of None \<Rightarrow> True | Some m \<Rightarrow> 0 \<le> m)"

definition budget_ok :: "worker_budget \<Rightarrow> bool" where
  "budget_ok b \<longleftrightarrow> quota_ok (wb_tokens b) \<and> quota_ok (wb_calls b)"

lemma make_quota_Inr: "make_quota l c = Inr q \<longleftrightarrow> q = \<lparr>b_limit = l, b_consumed = c\<rparr> \<and> quota_ok q"
  by (auto simp: make_quota_def quota_ok_def split: option.split if_splits)

lemma coerce_non_negative: "coerce_non_negative_int v = Inr i \<Longrightarrow> 0 \<le> i"
  by (auto simp: coerce_non_negative_int_def split: if_splits sum.splits)

lemma consume_quota_Inr:
  "consume_quota d n q = Inr q' \<Longrightarrow> quota_ok q \<Longrightarrow>
     0 \<le> n \<and> b_limit q' = b_limit q \<and> b_consumed q' = b_consumed q + n \<and> quota_ok q' \<and>
     (case b_limit q of None \<Rightarrow> True | Some m \<Rightarrow> b_consumed q' \<le> m)"
  by (auto simp: consume_quota_def Let_def make_quota_Inr split: if_splits option.splits)

text \<open>
  A worker's requests against its tool call budget, in order: one that raises leaves the budget
  as it is, because the field is assigned only afterwards.
\<close>

fun spend :: "pv list \<Rightarrow> worker_budget \<Rightarrow> worker_budget \<times> int" where
  \<comment> \<open>the budget in the end and the number of calls that were granted\<close>
  "spend [] b = (b, 0)"
| "spend (n # ns) b =
     (case consume_tool_call n b of
        Inl _ \<Rightarrow> spend ns b
      | Inr b' \<Rightarrow> (case spend ns b' of (b'', k) \<Rightarrow> (b'', k + (b_consumed (wb_calls b') - b_consumed (wb_calls b)))))"

lemma spend_inv:
  assumes "budget_ok b" "spend ns b = (b', k)"
  shows "budget_ok b' \<and> b_limit (wb_calls b') = b_limit (wb_calls b) \<and> wb_tokens b' = wb_tokens b \<and>
    b_consumed (wb_calls b') = b_consumed (wb_calls b) + k \<and> 0 \<le> k \<and>
    (case b_limit (wb_calls b) of None \<Rightarrow> True | Some m \<Rightarrow> k = 0 \<or> b_consumed (wb_calls b') \<le> m)"
  using assms
proof (induction ns arbitrary: b b' k)
  case (Cons n ns)
  show ?case
  proof (cases "consume_tool_call n b")
    case (Inl e)
    then have "spend ns b = (b', k)" using Cons.prems(2) by simp
    from Cons.IH [OF Cons.prems(1) this] show ?thesis .
  next
    case (Inr c)
    obtain d j where d: "spend ns c = (d, j)" by (metis prod.exhaust)
    from Inr obtain i q where q: "c = b\<lparr>wb_calls := q\<rparr>" "consume_quota ''tool_calls'' i (wb_calls b) = Inr q"
      by (auto simp: consume_tool_call_def rbind_eq_Inr)
    have "quota_ok (wb_calls b)" using Cons.prems(1) by (simp add: budget_ok_def)
    note step = consume_quota_Inr [OF q(2) this]
    have okc: "budget_ok c" using step Cons.prems(1) q(1) by (simp add: budget_ok_def)
    have res: "b' = d" "k = j + (b_consumed q - b_consumed (wb_calls b))"
      using Cons.prems(2) Inr d q(1) by simp_all
    have c: "wb_calls c = q" "wb_tokens c = wb_tokens b" using q(1) by simp_all
    show ?thesis
      using Cons.IH [OF okc d] step unfolding res c by (cases "b_limit (wb_calls b)") auto
  qed
qed (auto split: option.split)


definition small_budget :: worker_budget where
  "small_budget = \<lparr>wb_tokens = \<lparr>b_limit = None, b_consumed = 0\<rparr>, wb_calls = \<lparr>b_limit = Some 3, b_consumed = 1\<rparr>\<rparr>"


section \<open>Budgets survive their metadata\<close>

lemma present_ints_PInt:
  "0 \<le> i \<Longrightarrow> dget d k = PInt i \<Longrightarrow> present_ints d k = Inr [i]"
  by (auto simp: present_ints_def coerce_non_negative_int_def py_int_def is_none_def dhas_def dget_def split: option.splits)

lemma present_ints_absent: "dget d k = PNone \<Longrightarrow> present_ints d k = Inr []"
  by (simp add: present_ints_def is_none_def)

lemma quota_roundtrip:
  assumes "quota_ok q" "dget d c1 = PInt (b_consumed q)"
    "dget d m1 = (case b_limit q of None \<Rightarrow> PNone | Some m \<Rightarrow> PInt m)"
    "dget d r1 = (case b_limit q of None \<Rightarrow> PNone | Some m \<Rightarrow> PInt (max 0 (m - b_consumed q)))"
    "list_all (\<lambda>k. dget d k = PNone) (ms @ cs @ rs)"
  shows "quota_from_metadata [d] (m1 # ms) (c1 # cs) (r1 # rs) = Inr q"
proof -
  have none: "rconcat (present_ints d) ks = Inr []" if "list_all (\<lambda>k. dget d k = PNone) ks" for ks
    using that present_ints_absent by (auto simp: rconcat_Inr_Nil list_all_iff)
  have tails: "rconcat (present_ints d) ms = Inr []" "rconcat (present_ints d) cs = Inr []" "rconcat (present_ints d) rs = Inr []"
    using assms(5) by (auto intro!: none)
  have c: "present_ints d c1 = Inr [b_consumed q]"
    using assms(1,2) by (intro present_ints_PInt) (auto simp: quota_ok_def)
  show ?thesis
  proof (cases "b_limit q")
    case None
    then have "present_ints d m1 = Inr []" "present_ints d r1 = Inr []"
      using assms(3,4) by (auto intro: present_ints_absent)
    then show ?thesis using c tails None assms(1)
      by (cases q) (auto simp: quota_from_metadata_def last_present_int_def all_present_ints_def make_quota_def quota_ok_def)
  next
    case (Some m)
    then have "present_ints d m1 = Inr [m]" "present_ints d r1 = Inr [max 0 (m - b_consumed q)]"
      using assms(1,3,4) by (auto intro!: present_ints_PInt simp: quota_ok_def)
    then show ?thesis using c tails Some assms(1)
      by (cases q) (auto simp: quota_from_metadata_def last_present_int_def all_present_ints_def make_quota_def quota_ok_def)
  qed
qed

lemmas budget_metadata_simps = budget_to_metadata_def quota_metadata_def quota_remaining_def dget_Cons

text \<open>
  A budget survives the metadata of a worker: reading what was written gives the same limits
  and the same consumption, also for a budget that is already overdrawn.
\<close>

theorem budget_roundtrip:
  assumes "budget_ok b"
  shows "budget_from_metadata [PDict (budget_to_metadata b)] = Inr b"
proof -
  let ?d = "budget_to_metadata b"
  have src: "iter_budget_sources [PDict ?d] = [?d]"
    by (simp add: iter_budget_sources_def budget_to_metadata_def quota_metadata_def dget_Cons split: option.split)
  have q: "quota_ok (wb_tokens b)" "quota_ok (wb_calls b)" using assms by (simp_all add: budget_ok_def)
  have t: "quota_from_metadata [?d] [''maxTokens'', ''max_tokens'', ''tokenLimit'', ''token_limit'']
      [''consumedTokens'', ''consumed_tokens'', ''tokenUsage'', ''token_usage''] [''remainingTokens'', ''remaining_tokens''] = Inr (wb_tokens b)"
    by (rule quota_roundtrip [OF q(1)]) (simp_all add: budget_metadata_simps split: option.split)
  have c: "quota_from_metadata [?d] [''maxToolCalls'', ''max_tool_calls'', ''toolCallLimit'', ''tool_call_limit'']
      [''consumedToolCalls'', ''consumed_tool_calls'', ''toolCallCount'', ''tool_call_count'']
      [''remainingToolCalls'', ''remaining_tool_calls''] = Inr (wb_calls b)"
    by (rule quota_roundtrip [OF q(2)]) (simp_all add: budget_metadata_simps split: option.split)
  show ?thesis by (simp add: budget_from_metadata_def Let_def src t c)
qed

theorem budget_roundtrip_witness:
  "budget_from_metadata [PDict (budget_to_metadata small_budget)] = Inr small_budget"
proof -
  have "budget_ok small_budget" by code_simp
  then show ?thesis by (rule budget_roundtrip)
qed

section \<open>Health\<close>

record health_policy =
  stale_after_ms :: int
  offline_after_ms :: int

definition make_health_policy :: "int \<Rightarrow> int \<Rightarrow> health_policy res" where
  "make_health_policy stale offline =
     (if stale < 0 then Inl ValueErr else if offline < stale then Inl ValueErr
      else Inr \<lparr>stale_after_ms = stale, offline_after_ms = offline\<rparr>)"

definition default_health_policy :: health_policy where
  "default_health_policy = \<lparr>stale_after_ms = 30000, offline_after_ms = 120000\<rparr>"

definition offline_statuses :: "string list" where
  "offline_statuses = [''offline'', ''stopped'', ''failed'']"

definition heartbeat_of :: "pdict \<Rightarrow> int option" where
  \<comment> \<open>a boolean is an integer too\<close>
  "heartbeat_of worker =
     (case dget worker ''lastHeartbeatAt'' of PInt i \<Rightarrow> Some i | PBool b \<Rightarrow> Some (if b then 1 else 0) | _ \<Rightarrow> None)"

definition health_state :: "health_policy \<Rightarrow> int \<Rightarrow> pdict \<Rightarrow> string \<times> string" where
  \<comment> \<open>the state and its reason\<close>
  "health_state policy now worker =
     (let status = the_str (dget worker ''status'') in
      if status \<in> set offline_statuses then (''offline'', ''worker_status_'' @ status)
      else case heartbeat_of worker of
          None \<Rightarrow> (''offline'', ''heartbeat_missing'')
        | Some t \<Rightarrow>
            (let age = max 0 (now - t) in
             if offline_after_ms policy \<le> age then (''offline'', ''heartbeat_timeout'')
             else if stale_after_ms policy \<le> age then (''stale'', ''heartbeat_stale'')
             else (''healthy'', ''heartbeat_recent'')))"

definition assess_worker_health :: "health_policy \<Rightarrow> int \<Rightarrow> pdict \<Rightarrow> pdict" where
  "assess_worker_health policy now worker =
     [(''state'', PStr (fst (health_state policy now worker))), (''reason'', PStr (snd (health_state policy now worker))),
      (''assessedAt'', PInt now),
      (''lastHeartbeatAt'', if is_int (dget worker ''lastHeartbeatAt'') then dget worker ''lastHeartbeatAt'' else PNone),
      (''heartbeatAgeMs'', case heartbeat_of worker of None \<Rightarrow> PNone | Some t \<Rightarrow> PInt (max 0 (now - t))),
      (''staleAfterMs'', PInt (stale_after_ms policy)), (''offlineAfterMs'', PInt (offline_after_ms policy))]"

definition enrich_worker :: "health_policy \<Rightarrow> int \<Rightarrow> pdict \<Rightarrow> pdict" where
  "enrich_worker policy now worker =
     (let health = assess_worker_health policy now worker
      in dput ''health'' (PDict health) (dput ''healthState'' (dget health ''state'') worker))"

definition summarize_worker_health :: "pdict list \<Rightarrow> pdict" where
  "summarize_worker_health workers =
     (let count = (\<lambda>s. PInt (int (length (filter (\<lambda>w. dget w ''healthState'' = PStr s) workers))))
      in [(''healthy'', count ''healthy''), (''stale'', count ''stale''), (''offline'', count ''offline''),
          (''total'', PInt (int (length workers)))])"

definition health_rank :: "string \<Rightarrow> nat" where
  "health_rank s = (if s = ''healthy'' then 0 else if s = ''stale'' then 1 else 2)"

lemma health_worsens:
  assumes "make_health_policy s f = Inr policy" "now \<le> later"
  shows "health_rank (fst (health_state policy now worker)) \<le> health_rank (fst (health_state policy later worker))"
  using assms
  by (auto simp: health_state_def Let_def health_rank_def make_health_policy_def split: if_splits option.split)

lemma enriched_summary:
  "dget (summarize_worker_health (map (enrich_worker policy now) ws)) s =
     PInt (int (length (filter (\<lambda>w. fst (health_state policy now w) = s) ws)))"
  if "s \<in> {''healthy'', ''stale'', ''offline''}"
proof -
  have f: "length (filter (\<lambda>w. dget w ''healthState'' = PStr s) (map (enrich_worker policy now) ws)) =
      length (filter (\<lambda>w. fst (health_state policy now w) = s) ws)"
    by (simp add: filter_map comp_def enrich_worker_def Let_def dget_dput assess_worker_health_def dget_Cons)
  from that consider "s = ''healthy''" | "s = ''stale''" | "s = ''offline''" by blast
  then show ?thesis
    using f by cases (simp_all add: summarize_worker_health_def Let_def dget_Cons)
qed

end
