(* ===== verification/Guard.thy ===== *)
theory Guard
  imports TextMatch
begin

text \<open>
  The policy guard (\<open>policy/guard.py\<close>): paths inside the workspace, paths that no tool may write,
  and the commands that \<open>run_command\<close> refuses. Paths are resolved by the file system (links
  included), so \<open>resolve\<close>, the absolute path that \<open>(root / path).resolve()\<close> yields as a list of
  components, is a parameter. Regular expressions are matched on case-folded text.
\<close>

section \<open>Paths\<close>

definition ensure_within_workspace :: "(string \<Rightarrow> string list) \<Rightarrow> string list \<Rightarrow> string \<Rightarrow> unit res" where
  "ensure_within_workspace resolve base candidate = (if prefix base (resolve candidate) then Inr () else Inl ValueErr)"

definition ensure_within_roots :: "string list \<Rightarrow> string list list \<Rightarrow> unit res" where
  \<comment> \<open>on resolved paths\<close>
  "ensure_within_roots candidate roots = (if \<exists>r \<in> set roots. prefix r candidate then Inr () else Inl ValueErr)"

definition strip_token_quotes :: "string \<Rightarrow> string" where
  "strip_token_quotes token = strip_chars [CHR 0x22, CHR 0x27, CHR 0x60] (strip token)"

definition normalized_path_token :: "string \<Rightarrow> string" where
  "normalized_path_token token =
     (let normalized = strip (replace_char (CHR 0x5C) (CHR ''/'') (strip_token_quotes token)) in
      if starts ''./'' normalized \<and> 2 < length normalized then drop 2 normalized else normalized)"

definition tmp_image_re :: rx where
  \<comment> \<open>\<open>tmp_.*\\.(?:png|jpe?g|webp)$\<close>\<close>
  "tmp_image_re =
     rseq [rlit ''tmp_'', RStar rany, rlit ''.'',
           ralt [rlit ''png'', rseq [rlit ''jp'', ropt (rlit ''e''), rlit ''g''], rlit ''webp''], REos]"

definition generated_or_local_path_reason :: "string \<Rightarrow> string option" where
  "generated_or_local_path_reason candidate =
     (let normalized = lower (normalized_path_token candidate); padded = ''/'' @ normalized @ ''/'' in
      if normalized = '''' then None
      else if has_sub ''%systemdrive%'' normalized then Some ''environment placeholder path''
      else if has_sub ''/__pycache__/'' padded \<or> ends ''.pyc'' normalized then Some ''generated Python cache''
      else if has_sub ''/.pytest_cache/'' padded then Some ''generated pytest cache''
      else if normalized \<in> set [''memory.md'', ''memory.local.md'', ''yuanbao.md''] then Some ''local memory/config file''
      else if ends ''/memory.md'' normalized \<or> ends ''/memory.local.md'' normalized \<or> ends ''/yuanbao.md'' normalized
      then Some ''local memory/config file''
      else if normalized = ''.idea/workspace.xml'' \<or> ends ''/.idea/workspace.xml'' normalized
      then Some ''local IDE workspace state''
      else if rx_match tmp_image_re (rsplit_last CHR ''/'' normalized) \<noteq> None then Some ''temporary screenshot/artifact''
      else None)"

definition ensure_write_path_allowed :: "string \<Rightarrow> unit res" where
  "ensure_write_path_allowed candidate =
     (case generated_or_local_path_reason candidate of None \<Rightarrow> Inr () | Some _ \<Rightarrow> Inl ValueErr)"

section \<open>Splitting commands\<close>

text \<open>
  The loop of \<open>_safe_command_segments\<close>, one clause per state: after an escape, inside quotes,
  outside of them. The characters of the current segment are kept in order.
\<close>

definition close_segment :: "string \<Rightarrow> string list \<Rightarrow> string list" where
  "close_segment current segments = (if strip current = '''' then segments else segments @ [strip current])"

fun segment_loop :: "char option \<Rightarrow> bool \<Rightarrow> string \<Rightarrow> string list \<Rightarrow> string \<Rightarrow> string list" where
  "segment_loop quote escaped current segments [] = close_segment current segments"
| "segment_loop quote escaped current segments (c # cs) =
     (if escaped then segment_loop quote False (current @ [c]) segments cs
      else case quote of
        Some q \<Rightarrow>
          if (c = CHR 0x5C \<or> c = CHR 0x60) \<and> q = CHR 0x22 then segment_loop quote True (current @ [c]) segments cs
          else if c = q then segment_loop None False (current @ [c]) segments cs
          else segment_loop quote False (current @ [c]) segments cs
      | None \<Rightarrow>
          if c = CHR 0x27 \<or> c = CHR 0x22 then segment_loop (Some c) False (current @ [c]) segments cs
          else if c = CHR '';'' then segment_loop None False '''' (close_segment current segments) cs
          else (case cs of
            d # ds \<Rightarrow>
              if c = d \<and> (c = CHR ''&'' \<or> c = CHR ''|'') then segment_loop None False '''' (close_segment current segments) ds
              else segment_loop None False (current @ [c]) segments cs
          | [] \<Rightarrow> segment_loop None False (current @ [c]) segments cs))"

definition safe_command_segments :: "string \<Rightarrow> string list" where
  "safe_command_segments command =
     (let segments = segment_loop None False '''' [] command in if segments = [] then [command] else segments)"

text \<open>\<open>shlex.split(s, posix=False)\<close>: \<open>None\<close> is its \<open>ValueError\<close> for a quote that is not closed.\<close>

definition shlex_ws :: "char \<Rightarrow> bool" where
  "shlex_ws c \<longleftrightarrow> c \<in> set [CHR '' '', CHR 0x09, CHR 0x0D, CHR 0x0A]"

function shlex_split :: "string \<Rightarrow> string list option" where
  "shlex_split [] = Some []"
| "shlex_split (c # cs) =
     (if shlex_ws c then shlex_split cs
      else if c = CHR 0x27 \<or> c = CHR 0x22
      then (if c \<in> set cs
            then map_option (\<lambda>ts. (c # takeWhile (\<lambda>x. x \<noteq> c) cs @ [c]) # ts) (shlex_split (tl (dropWhile (\<lambda>x. x \<noteq> c) cs)))
            else None)
      else map_option (\<lambda>ts. (c # takeWhile (\<lambda>x. \<not> shlex_ws x) cs) # ts) (shlex_split (dropWhile (\<lambda>x. \<not> shlex_ws x) cs)))"
  by pat_completeness auto

lemma length_after_quote: "length (tl (dropWhile P cs)) < Suc (length cs)"
  using length_dropWhile_le [of P cs] by (simp del: length_dropWhile_le)

termination shlex_split
  by (relation "measure length")
    (auto simp: le_imp_less_Suc length_dropWhile_le simp del: length_tl intro!: length_after_quote)

text \<open>\<open>re.findall\<close> of a closed quotation (possibly empty) or a run without white space.\<close>

function quote_or_run :: "string \<Rightarrow> string list" where
  "quote_or_run [] = []"
| "quote_or_run (c # cs) =
     (if (c = CHR 0x27 \<or> c = CHR 0x22) \<and> c \<in> set cs
      then (c # takeWhile (\<lambda>x. x \<noteq> c) cs @ [c]) # quote_or_run (tl (dropWhile (\<lambda>x. x \<noteq> c) cs))
      else if is_ws c then quote_or_run cs
      else (c # takeWhile (\<lambda>x. \<not> is_ws x) cs) # quote_or_run (dropWhile (\<lambda>x. \<not> is_ws x) cs))"
  by pat_completeness auto

termination quote_or_run
  by (relation "measure length")
    (auto simp: le_imp_less_Suc length_dropWhile_le simp del: length_tl intro!: length_after_quote)

definition split_command_tokens :: "string \<Rightarrow> string list" where
  "split_command_tokens command = (case shlex_split command of Some ts \<Rightarrow> ts | None \<Rightarrow> quote_or_run command)"

section \<open>Staging generated files\<close>

definition is_git_executable :: "string \<Rightarrow> bool" where
  "is_git_executable token =
     (let executable = lower (replace_char (CHR 0x5C) (CHR ''/'') (strip_token_quotes token)) in
      executable = ''git'' \<or> ends ''/git'' executable \<or> ends ''/git.exe'' executable)"

fun after_git_add :: "string list \<Rightarrow> string list" where
  \<comment> \<open>the loop over the options of \<open>git\<close>\<close>
  "after_git_add [] = []"
| "after_git_add (t # ts) =
     (let lowered = lower (strip_token_quotes t) in
      if lowered = ''add'' then ts
      else case ts of
        [] \<Rightarrow> []
      | _ # us \<Rightarrow>
          if lowered \<in> set [''-c'', ''--git-dir'', ''--work-tree''] then after_git_add us
          else if starts ''-'' lowered then after_git_add ts
          else [])"

definition git_add_path_tokens :: "string \<Rightarrow> string list" where
  "git_add_path_tokens segment =
     (case split_command_tokens segment of
        [] \<Rightarrow> []
      | t # ts \<Rightarrow>
          (case (if t = ''&'' then ts else t # ts) of
             [] \<Rightarrow> []
           | g # us \<Rightarrow> if is_git_executable g then after_git_add us else []))"

definition is_broad_git_add_path :: "string \<Rightarrow> bool" where
  "is_broad_git_add_path path =
     (let lowered = lower path in
      lowered \<in> set [''.'', ''./'', ''*'', '':/'', ''-a'', ''-u'', ''--all'', ''--update''] \<or> starts ''-a'' lowered)"

definition git_add_generated_or_local_paths :: "string \<Rightarrow> string list" where
  "git_add_generated_or_local_paths command =
     concat (map (\<lambda>segment.
       filter (\<lambda>n. n \<noteq> '''' \<and> n \<noteq> ''--'' \<and> (is_broad_git_add_path n \<or> generated_or_local_path_reason n \<noteq> None))
         (map normalized_path_token (git_add_path_tokens segment))) (safe_command_segments command))"

section \<open>Dangerous commands\<close>

text \<open>
  The five patterns of \<open>_dangerous_command_match\<close>. \<open>not_space\<close> is \<open>[^\\s]\<close>.
\<close>

definition lower_letter :: "char \<Rightarrow> bool" where
  "lower_letter c \<longleftrightarrow> (let n = of_char c :: nat in 97 \<le> n \<and> n \<le> 122)"

definition root_or_parent :: rx where
  "root_or_parent = RAlt (rlit ''/'') (RSeq (rlit ''.'') (ropt (rlit ''.'')))"

definition rm_re :: rx where
  "rm_re =
     rseq [RWordB, rlit ''rm'', rplus rspace,
           RAlt (rseq [rlit ''-'', RStar rnonspace, rlit ''r'', RStar rnonspace, rlit ''f''])
                (rseq [rlit ''-'', RStar rnonspace, rlit ''f'', RStar rnonspace, rlit ''r'']),
           rplus rspace, root_or_parent, RAlt rspace REos]"

definition remove_item_re :: rx where
  "remove_item_re =
     rseq [RWordB, rlit ''remove-item'', RWordB,
           RLook (rseq [RStar rany, rlit ''-recurse'', RWordB]), RLook (rseq [RStar rany, rlit ''-force'', RWordB]),
           RStar rany, RAlt RBos rspace,
           ralt [rlit ''/'', rlit [CHR 0x5C], rseq [RCls lower_letter, rlit '':'', ropt (rlit [CHR 0x5C])],
                 RSeq (rlit ''.'') (ropt (rlit ''.''))],
           RAlt rspace REos]"

definition del_re :: rx where
  "del_re = rseq [RWordB, rlit ''del'', rplus rspace, rlit ''/s'', RWordB]"

definition format_re :: rx where
  "format_re = rseq [RWordB, rlit ''format'', ropt (RAlt (rlit ''.com'') (rlit ''.exe'')), RWordB]"

definition shutdown_re :: rx where
  "shutdown_re = rseq [RWordB, rlit ''shutdown'', ropt (rlit ''.exe''), RWordB]"

definition dangerous_patterns :: "(rx \<times> string) list" where
  "dangerous_patterns =
     [(rm_re, ''rm -rf root or parent''), (remove_item_re, ''Remove-Item -Recurse -Force root or parent''),
      (del_re, ''del /s''), (format_re, ''format''), (shutdown_re, ''shutdown'')]"

definition dangerous_command_match :: "string \<Rightarrow> string option" where
  "dangerous_command_match command =
     map_option snd (find (\<lambda>(r, _). rx_found r (squash (lower command))) dangerous_patterns)"

section \<open>Command policies\<close>

definition pattern_candidates :: "pv \<Rightarrow> pv list" where
  "pattern_candidates v = (case v of PNone \<Rightarrow> [] | PStr s \<Rightarrow> [PStr s] | _ \<Rightarrow> (case py_iter v of Inr xs \<Rightarrow> xs | Inl _ \<Rightarrow> [PStr (py_str v)]))"

definition command_patterns :: "pdict \<Rightarrow> string list \<Rightarrow> string list" where
  "command_patterns config keys =
     concat (map (\<lambda>k. filter (\<lambda>s. s \<noteq> '''') (map (strip \<circ> py_str) (pattern_candidates (dget config k)))) keys)"

fun first_word :: "string \<Rightarrow> string" where
  \<comment> \<open>\<open>re.split(r"\\s+|&&|\\|\\||;|\\|", s, maxsplit=1)[0]\<close>\<close>
  "first_word [] = []"
| "first_word (c # cs) =
     (if is_ws c \<or> c = CHR '';'' \<or> c = CHR ''|'' \<or> (c = CHR ''&'' \<and> starts ''&'' cs) then [] else c # first_word cs)"

definition command_executable :: "string \<Rightarrow> string" where
  "command_executable normalized = strip_chars [CHR 0x22, CHR 0x27] (first_word (strip normalized))"

definition python_exe :: rx where
  "python_exe = RSeq (rlit ''python'') (ropt (rlit ''.exe''))"

definition module_re :: rx where
  "module_re =
     rseq [RBos,
       ralt [rseq [rlit [CHR 0x22], RStar (RCls (\<lambda>c. c \<noteq> CHR 0x22)), python_exe, rlit [CHR 0x22]],
             rseq [rlit [CHR 0x27], RStar (RCls (\<lambda>c. c \<noteq> CHR 0x27)), python_exe, rlit [CHR 0x27]],
             rseq [ropt (RSeq (RCls lower_letter) (rlit '':'')), RStar rnonspace, python_exe]],
       rplus rspace, rlit ''-m'', rplus rspace,
       RGroup 1 (rplus (RCls (\<lambda>c. lower_letter c \<or> is_digit c \<or> c \<in> set ''_.-''))),
       RGroup 2 (ropt (RSeq (rplus rspace) (RStar rany))), REos]"

definition drop_call_operator :: "string \<Rightarrow> string" where
  \<comment> \<open>\<open>re.sub(r"^\\s*&\\s*", "", s)\<close>\<close>
  "drop_call_operator s =
     (case dropWhile is_ws s of c # cs \<Rightarrow> if c = CHR ''&'' then dropWhile is_ws cs else s | [] \<Rightarrow> s)"

definition normalized_module_command :: "string \<Rightarrow> string" where
  "normalized_module_command normalized =
     (let stripped = drop_call_operator (strip normalized) in
      if strip normalized = '''' then ''''
      else case rx_match module_re stripped of
        None \<Rightarrow> ''''
      | Some (_, c) \<Rightarrow>
          ''python -m '' @ (case group stripped c 1 of Some m \<Rightarrow> m | None \<Rightarrow> '''') @
          (case group stripped c 2 of Some u \<Rightarrow> u | None \<Rightarrow> ''''))"

definition pattern_matches :: "string \<Rightarrow> string \<Rightarrow> bool" where
  "pattern_matches command pat =
     (let normalized = squash (lower command); p = squash (lower pat);
          executable = command_executable normalized; module = normalized_module_command normalized in
      fnmatch normalized p \<or> (executable \<noteq> '''' \<and> fnmatch executable p) \<or> (module \<noteq> '''' \<and> fnmatch module p))"

definition first_match :: "string \<Rightarrow> string list \<Rightarrow> string option" where
  "first_match command patterns = find (pattern_matches command) patterns"

definition all_command_segments_match :: "string \<Rightarrow> string list \<Rightarrow> bool" where
  "all_command_segments_match command patterns =
     (let segments = safe_command_segments command in
      if length segments \<le> 1 then first_match command patterns \<noteq> None
      else list_all (\<lambda>s. first_match s patterns \<noteq> None) segments)"

definition first_blocked_pattern :: "string \<Rightarrow> pdict \<Rightarrow> string option" where
  "first_blocked_pattern command config =
     find (\<lambda>p. fnmatch (lower command) (lower p) \<or> has_sub (lower p) (lower command))
       (command_patterns config [''blockedPatterns''])"

text \<open>
  \<open>validate_command\<close>: the outcome, with the reason of a refusal. Every refusal is a \<open>ValueError\<close>
  whose message names it.
\<close>

datatype refusal = Denied string | Blocked string | Dangerous string | StagesNoise "string list" | NotAllowlisted

definition validate_command :: "string \<Rightarrow> pdict \<Rightarrow> refusal + unit" where
  "validate_command command config =
     (case first_match command (command_patterns config [''deniedCommands'', ''denylist'']) of
        Some p \<Rightarrow> Inl (Denied p)
      | None \<Rightarrow>
     (case first_blocked_pattern command config of
        Some p \<Rightarrow> Inl (Blocked p)
      | None \<Rightarrow>
     (case dangerous_command_match command of
        Some l \<Rightarrow> Inl (Dangerous l)
      | None \<Rightarrow>
          if git_add_generated_or_local_paths command \<noteq> []
          then Inl (StagesNoise (git_add_generated_or_local_paths command))
          else let allow = command_patterns config [''allowedCommands'', ''allowlist''] in
            if allow \<noteq> [] \<and> \<not> all_command_segments_match command allow then Inl NotAllowlisted else Inr ())))"

text \<open>\<open>requires_approval\<close>, with the approval that a builtin tool's schema declares.\<close>

definition declared_approval :: "string \<Rightarrow> bool option" where
  "declared_approval tool =
     map_of [(''list_dir'', False), (''search_files'', False), (''read_file'', False), (''ask_user_question'', False),
       (''enter_plan_mode'', False), (''exit_plan_mode'', False), (''agent'', False), (''send_message'', False),
       (''task'', False), (''run_command'', True), (''apply_patch'', True), (''git_status'', False), (''git_diff'', False),
       (''write_file'', True), (''web_fetch'', False), (''code_search'', False), (''notebook'', True), (''browser'', False),
       (''computer_use'', True), (''memory.remember'', False), (''memory.recall'', False),
       (''scratchpad.write'', False), (''scratchpad.read'', False)] tool"

definition requires_approval :: "string \<Rightarrow> string \<Rightarrow> string \<Rightarrow> bool" where
  \<comment> \<open>the guard's own mode, the mode asked for (empty when none), the tool\<close>
  "requires_approval own asked tool =
     (let mode = lower (strip (if asked \<noteq> '''' then asked else own)) in
      if mode \<in> set [''off'', ''never'', ''none'', ''no'', ''false''] then False
      else case declared_approval tool of
        Some d \<Rightarrow> if mode = ''relaxed'' then d \<and> tool \<in> set [''apply_patch'', ''write_file''] else d
      | None \<Rightarrow> if mode = ''relaxed'' then tool \<in> set [''apply_patch'', ''write_file'']
                else tool \<in> set [''apply_patch'', ''write_file'', ''run_command''])"

section \<open>What the guard lets through\<close>

lemma pattern_matches_plain:
  \<comment> \<open>a pattern without wildcards names the whole command, its executable, or its module call\<close>
  assumes "plain_pattern (squash (lower p))"
  shows "pattern_matches command p \<longleftrightarrow>
    squash (lower p) \<in> {squash (lower command), command_executable (squash (lower command)),
      normalized_module_command (squash (lower command))} - {''''} \<or> squash (lower command) = squash (lower p)"
  using assms by (auto simp: pattern_matches_def Let_def fnmatch_plain)

text \<open>
  The lists of commands do not stop what they name. A denied command passes behind another
  one, because denied patterns are compared with the whole text; an allowlist is passed by a pipe
  and by a line break, which do not separate commands for it; recursive deletion of the root
  passes when its options are written apart; while a harmless formatter is refused as the command
  \<open>format\<close>.
\<close>

theorem command_guard_escapes:
  "validate_command ''git push'' [(''deniedCommands'', PList [PStr ''git push*''])] = Inl (Denied ''git push*'') \<and>
   validate_command ''cd x && git push'' [(''deniedCommands'', PList [PStr ''git push*''])] = Inr () \<and>
   validate_command ''ls && rm x'' [(''allowedCommands'', PList [PStr ''ls*''])] = Inl NotAllowlisted \<and>
   validate_command ''ls | rm x'' [(''allowedCommands'', PList [PStr ''ls*''])] = Inr () \<and>
   validate_command (''ls'' @ [CHR 0x0A] @ ''rm x'') [(''allowedCommands'', PList [PStr ''ls*''])] = Inr () \<and>
   validate_command ''rm -rf /'' [] = Inl (Dangerous ''rm -rf root or parent'') \<and>
   validate_command ''rm -r -f /'' [] = Inr () \<and>
   validate_command ''ruff format .'' [] = Inl (Dangerous ''format'') \<and>
   validate_command ''git add -A'' [] = Inl (StagesNoise [''-A''])"
proof (intro conjI)
  show "validate_command ''git push'' [(''deniedCommands'', PList [PStr ''git push*''])] = Inl (Denied ''git push*'')" by code_simp
  show "validate_command ''cd x && git push'' [(''deniedCommands'', PList [PStr ''git push*''])] = Inr ()" by code_simp
  show "validate_command ''ls && rm x'' [(''allowedCommands'', PList [PStr ''ls*''])] = Inl NotAllowlisted" by code_simp
  show "validate_command ''ls | rm x'' [(''allowedCommands'', PList [PStr ''ls*''])] = Inr ()" by code_simp
  show "validate_command (''ls'' @ [CHR 0x0A] @ ''rm x'') [(''allowedCommands'', PList [PStr ''ls*''])] = Inr ()" by code_simp
  show "validate_command ''rm -rf /'' [] = Inl (Dangerous ''rm -rf root or parent'')" by code_simp
  show "validate_command ''rm -r -f /'' [] = Inr ()" by code_simp
  show "validate_command ''ruff format .'' [] = Inl (Dangerous ''format'')" by code_simp
  show "validate_command ''git add -A'' [] = Inl (StagesNoise [''-A''])" by code_simp
qed

end
