(* ===== verification/Patch.thy ===== *)
theory Patch
  imports Guard
begin

text \<open>
  Unified diffs (\<open>tools/_patch.py\<close>): parsing, and applying a patch to the files of the workspace.
  A file is its decoded text; the file system resolves paths (\<open>ws_resolve\<close>, as in \<open>Guard\<close>) and
  \<open>write_text\<close> writes a line feed as it is (POSIX). Lines are split where \<open>str.splitlines\<close> splits
  them, also at form feeds and at the Unicode line and paragraph separators.
\<close>

section \<open>Lines\<close>

definition break_len :: "string \<Rightarrow> nat" where
  \<comment> \<open>the length of the line break at the start, 0 for none\<close>
  "break_len s =
     (if starts [CHR 0x0D, CHR 0x0A] s then 2
      else if s \<noteq> [] \<and> hd s \<in> set [CHR 0x0A, CHR 0x0D, CHR 0x0B, CHR 0x0C, CHR 0x1C, CHR 0x1D, CHR 0x1E] then 1
      else if starts [CHR 0xC2, CHR 0x85] s then 2
      else if starts [CHR 0xE2, CHR 0x80, CHR 0xA8] s \<or> starts [CHR 0xE2, CHR 0x80, CHR 0xA9] s then 3
      else 0)"

fun next_break :: "string \<Rightarrow> (string \<times> string \<times> string) option" where
  \<comment> \<open>the text before the first line break, the break, the text after it\<close>
  "next_break [] = None"
| "next_break (c # cs) =
     (if break_len (c # cs) \<noteq> 0
      then Some ([], take (break_len (c # cs)) (c # cs), drop (break_len (c # cs)) (c # cs))
      else map_option (\<lambda>(b, k, r). (c # b, k, r)) (next_break cs))"

lemma next_break_parts: "next_break s = Some (b, k, r) \<Longrightarrow> s = b @ k @ r \<and> k \<noteq> []"
proof (induction s arbitrary: b)
  case (Cons c cs)
  show ?case
  proof (cases "break_len (c # cs) = 0")
    case True
    then show ?thesis using Cons by auto
  next
    case False
    then show ?thesis using Cons.prems append_take_drop_id [of "break_len (c # cs)" "c # cs"]
      by (auto simp del: append_take_drop_id)
  qed
qed simp

function split_lines :: "bool \<Rightarrow> string \<Rightarrow> string list" where
  \<comment> \<open>\<open>s.splitlines(keepends)\<close>\<close>
  "split_lines keep s =
     (case next_break s of
        None \<Rightarrow> if s = [] then [] else [s]
      | Some (b, k, r) \<Rightarrow> (if keep then b @ k else b) # split_lines keep r)"
  by pat_completeness auto
termination
  by (relation "measure (length \<circ> snd)") (auto dest!: next_break_parts)

declare split_lines.simps [simp del]

lemma concat_split_lines: "concat (split_lines True s) = s"
proof (induction "True" s rule: split_lines.induct)
  case (1 s)
  then show ?case
    by (subst split_lines.simps) (auto split: option.splits dest!: next_break_parts)
qed

fun read_newlines :: "string \<Rightarrow> string" where
  \<comment> \<open>universal newlines of \<open>read_text\<close>\<close>
  "read_newlines [] = []"
| "read_newlines (c # cs) =
     (if c = CHR 0x0D
      then CHR 0x0A # (case cs of d # ds \<Rightarrow> if d = CHR 0x0A then read_newlines ds else read_newlines cs | [] \<Rightarrow> [])
      else c # read_newlines cs)"

definition strip_eol :: "string \<Rightarrow> string" where
  \<comment> \<open>\<open>line.rstrip("\\r\\n")\<close>\<close>
  "strip_eol l = rstrip_by (\<lambda>c. c = CHR 0x0D \<or> c = CHR 0x0A) l"

section \<open>Parsing\<close>

record hunk =
  h_old_start :: nat
  h_old_count :: nat
  h_new_start :: nat
  h_new_count :: nat
  h_lines :: "string list"

record file_patch =
  fp_old :: string
  fp_new :: string
  fp_hunks :: "hunk list"

definition strip_git_prefix :: "string \<Rightarrow> string" where
  "strip_git_prefix path =
     (let text = strip path in
      if text = ''/dev/null'' \<or> text = ''dev/null'' then ''/dev/null''
      else if starts ''a/'' text \<or> starts ''b/'' text then drop 2 text else text)"

definition parse_range :: "string \<Rightarrow> (nat \<times> nat \<times> string) option" where
  \<comment> \<open>\<open>(\\d+)(?:,(\\d+))?\<close>, and what follows\<close>
  "parse_range s =
     (let a = takeWhile is_digit s; r = dropWhile is_digit s in
      if a = [] then None
      else case r of
        c # r' \<Rightarrow>
          if c = CHR '','' \<and> takeWhile is_digit r' \<noteq> []
          then Some (digits_value a, digits_value (takeWhile is_digit r'), dropWhile is_digit r')
          else Some (digits_value a, 1, r)
      | [] \<Rightarrow> Some (digits_value a, 1, r))"

definition parse_hunk_header :: "string \<Rightarrow> (nat \<times> nat \<times> nat \<times> nat) res" where
  "parse_hunk_header header =
     (case (if starts ''@@ -'' header then parse_range (drop 4 header) else None) of
        None \<Rightarrow> Inl ValueErr
      | Some (os, oc, r) \<Rightarrow>
          (case (if starts '' +'' r then parse_range (drop 2 r) else None) of
             None \<Rightarrow> Inl ValueErr
           | Some (ns, nc, r') \<Rightarrow> if starts '' @@'' r' then Inr (os, oc, ns, nc) else Inl ValueErr))"

definition empty_file_patch :: file_patch where
  "empty_file_patch = \<lparr>fp_old = '''', fp_new = '''', fp_hunks = []\<rparr>"

definition git_header :: "string \<Rightarrow> file_patch" where
  "git_header line =
     (let parts = split_ws line in
      \<lparr>fp_old = (if 2 < length parts then strip_git_prefix (parts ! 2) else ''''),
       fp_new = (if 3 < length parts then strip_git_prefix (parts ! 3) else ''''), fp_hunks = []\<rparr>)"

definition header_path :: "string \<Rightarrow> string" where
  \<comment> \<open>\<open>strip_git_prefix(line[4:].strip().split("\\t", 1)[0])\<close>\<close>
  "header_path line = strip_git_prefix (takeWhile (\<lambda>c. c \<noteq> CHR 0x09) (strip (drop 4 line)))"

definition ends_hunk :: "string \<Rightarrow> bool" where
  "ends_hunk line \<longleftrightarrow> starts ''@@ '' line \<or> starts ''--- '' line \<or> starts ''diff --git '' line"

definition no_newline_mark :: "string \<Rightarrow> bool" where
  "no_newline_mark line \<longleftrightarrow> starts (CHR 0x5C # '' No newline at end of file'') line"

definition hunk_body :: "string list \<Rightarrow> string list" where
  "hunk_body ls = filter (\<lambda>l. \<not> no_newline_mark l) (takeWhile (\<lambda>l. \<not> ends_hunk l) ls)"

definition the_patch :: "file_patch option \<Rightarrow> file_patch" where
  "the_patch cur = (case cur of None \<Rightarrow> empty_file_patch | Some p \<Rightarrow> p)"

definition closed :: "file_patch option \<Rightarrow> file_patch list" where
  "closed cur = (case cur of None \<Rightarrow> [] | Some p \<Rightarrow> [p])"

definition finished :: "file_patch \<Rightarrow> bool" where
  "finished p \<longleftrightarrow> fp_old p \<noteq> '''' \<and> fp_new p \<noteq> '''' \<and> fp_hunks p \<noteq> []"

function parse_lines :: "string list \<Rightarrow> file_patch option \<Rightarrow> file_patch list \<Rightarrow> file_patch list res" where
  \<comment> \<open>the loop over the lines, with \<open>current\<close> and the patches before it\<close>
  "parse_lines [] cur patches = Inr (patches @ closed cur)"
| "parse_lines (l # ls) cur patches =
     (if starts ''diff --git '' l then parse_lines ls (Some (git_header l)) (patches @ closed cur)
      else if cur = None \<and> \<not> starts ''--- '' l then parse_lines ls None patches
      else let p = the_patch cur in
      if starts ''--- '' l
      then (case ls of
          m # ms \<Rightarrow>
            if starts ''+++ '' m
            then parse_lines ms
              (Some ((if finished p then empty_file_patch else p)\<lparr>fp_old := header_path l, fp_new := header_path m\<rparr>))
              (if finished p then patches @ [p] else patches)
            else Inl ValueErr
        | [] \<Rightarrow> Inl ValueErr)
      else if starts ''@@ '' l
      then (case parse_hunk_header l of
          Inl e \<Rightarrow> Inl e
        | Inr (os, oc, ns, nc) \<Rightarrow>
            parse_lines (dropWhile (\<lambda>k. \<not> ends_hunk k) ls)
              (Some (p\<lparr>fp_hunks := fp_hunks p @
                [\<lparr>h_old_start = os, h_old_count = oc, h_new_start = ns, h_new_count = nc, h_lines = hunk_body ls\<rparr>]\<rparr>))
              patches)
      else parse_lines ls (Some p) patches)"
  by pat_completeness auto
termination
  by (relation "measure (length \<circ> fst)") (auto simp: le_imp_less_Suc length_dropWhile_le)

definition parse_unified_diff :: "string \<Rightarrow> file_patch list res" where
  "parse_unified_diff text =
     rbind (parse_lines (split_lines False text) None []) (\<lambda>patches.
       let items = map (\<lambda>p. p\<lparr>fp_old := strip (fp_old p), fp_new := strip (fp_new p)\<rparr>) patches in
       if \<exists>p \<in> set items. fp_old p = '''' \<and> fp_new p = '''' then Inl ValueErr else Inr items)"

section \<open>Applying a patch\<close>

record workspace =
  ws_root :: "string list"
  ws_resolve :: "string \<Rightarrow> string list"
  ws_files :: "string list \<Rightarrow> string option"

definition posix_path :: "string \<Rightarrow> string" where
  \<comment> \<open>\<open>Path(p).as_posix()\<close> of a relative path\<close>
  "posix_path p =
     (let cs = filter (\<lambda>c. c \<noteq> '''' \<and> c \<noteq> ''.'') (split_on CHR ''/'' p) in if cs = [] then ''.'' else join ''/'' cs)"

definition drive_path :: "string \<Rightarrow> bool" where
  \<comment> \<open>\<open>^[a-zA-Z]:/\<close>\<close>
  "drive_path p \<longleftrightarrow> (case p of a # b # c # _ \<Rightarrow> lower_letter (lower_char a) \<and> b = CHR '':'' \<and> c = CHR ''/'' | _ \<Rightarrow> False)"

definition normalize_patch_path :: "workspace \<Rightarrow> string \<Rightarrow> (string \<times> string list) res" where
  "normalize_patch_path ws candidate =
     (let raw = strip candidate; normalized = replace_char (CHR 0x5C) (CHR ''/'') raw; relative = posix_path normalized in
      if raw = '''' \<or> starts ''/'' normalized \<or> drive_path normalized then Inl ValueErr
      else rbind (ensure_within_workspace (ws_resolve ws) (ws_root ws) relative) (\<lambda>_.
           rbind (ensure_write_path_allowed relative) (\<lambda>_. Inr (relative, ws_resolve ws relative))))"

definition hunk_line :: "string list \<Rightarrow> string \<Rightarrow> string list \<times> nat \<Rightarrow> (string list \<times> nat) res" where
  "hunk_line original raw st =
     (case raw of
        [] \<Rightarrow> Inl ValueErr
      | marker # payload \<Rightarrow>
          (let (out, i) = st; matching = i < length original \<and> strip_eol (original ! i) = payload in
           if marker = CHR '' '' then if matching then Inr (out @ [original ! i], Suc i) else Inl ValueErr
           else if marker = CHR ''-'' then if matching then Inr (out, Suc i) else Inl ValueErr
           else if marker = CHR ''+'' then Inr (out @ [payload @ [CHR 0x0A]], i)
           else Inl ValueErr))"

definition apply_hunk :: "string list \<Rightarrow> hunk \<Rightarrow> string list \<times> nat \<Rightarrow> (string list \<times> nat) res" where
  "apply_hunk original h st =
     (let (out, i) = st; target = h_old_start h - 1 in
      if target > length original then Inl ValueErr
      else rfold (hunk_line original) (h_lines h) (out @ take (target - i) (drop i original), target))"

definition apply_hunks :: "string list \<Rightarrow> hunk list \<Rightarrow> string list res" where
  "apply_hunks original hunks =
     rbind (rfold (apply_hunk original) hunks ([], 0)) (\<lambda>(out, i). Inr (out @ drop i original))"

definition original_text :: "workspace \<Rightarrow> string list \<Rightarrow> string option" where
  "original_text ws path = map_option read_newlines (ws_files ws path)"

definition write_file_at :: "string list \<Rightarrow> string option \<Rightarrow> workspace \<Rightarrow> workspace" where
  "write_file_at path content ws = ws\<lparr>ws_files := (ws_files ws)(path := content)\<rparr>"

definition patch_source :: "workspace \<Rightarrow> file_patch \<Rightarrow> (string \<times> string list \<times> string list) res" where
  \<comment> \<open>the path patched and the lines it holds\<close>
  "patch_source ws p =
     (if fp_old p = ''/dev/null''
      then rbind (normalize_patch_path ws (fp_new p)) (\<lambda>(relative, path). Inr (relative, path, []))
      else rbind (normalize_patch_path ws (if fp_new p = ''/dev/null'' \<or> fp_new p = '''' then fp_old p else fp_new p))
        (\<lambda>(relative, path).
          case original_text ws path of
            None \<Rightarrow> Inl ValueErr
          | Some text \<Rightarrow> Inr (relative, path, split_lines True text)))"

definition apply_unified_diff_to_file :: "bool \<Rightarrow> file_patch \<Rightarrow> workspace \<Rightarrow> (string \<times> bool \<times> workspace) res" where
  "apply_unified_diff_to_file dry_run p ws =
     rbind (patch_source ws p) (\<lambda>(relative, path, original).
     rbind (apply_hunks original (fp_hunks p)) (\<lambda>output.
       if fp_new p = ''/dev/null'' then Inr (relative, True, if dry_run then ws else write_file_at path None ws)
       else if fp_old p \<noteq> ''/dev/null'' \<and> concat output = concat original then Inr (relative, False, ws)
       else Inr (relative, True, if dry_run then ws else write_file_at path (Some (concat output)) ws)))"

section \<open>Patch requests\<close>

definition validated_path :: "workspace \<Rightarrow> file_patch \<Rightarrow> string list \<Rightarrow> string list res" where
  "validated_path ws p paths =
     (if fp_hunks p = [] then Inl ValueErr
      else rbind (apply_unified_diff_to_file True p ws) (\<lambda>(relative, changed, _).
        Inr (if changed \<and> relative \<noteq> '''' \<and> relative \<notin> set paths then paths @ [relative] else paths)))"

definition validate_patch_request :: "workspace \<Rightarrow> string \<Rightarrow> string list res" where
  "validate_patch_request ws text =
     rbind (parse_unified_diff text) (\<lambda>patches.
     rbind (rfold (validated_path ws) patches []) (\<lambda>paths. if paths = [] then Inl ValueErr else Inr paths))"

definition build_patch_summary :: "string list \<Rightarrow> string" where
  "build_patch_summary paths =
     (case paths of
        [] \<Rightarrow> ''No file changes detected.''
      | [a] \<Rightarrow> ''Update '' @ a
      | [a, b] \<Rightarrow> ''Update '' @ a @ '' and '' @ b
      | a # b # rest \<Rightarrow> ''Update '' @ a @ '', '' @ b @ '' and '' @ nat_digits (length rest) @ '' more file(s)'')"

text \<open>
  \<open>difflib.unified_diff\<close> with three lines of context is the parameter \<open>diff\<close>: old lines, new lines
  and both file names. A directory in the place of a file is not modelled.
\<close>

type_synonym differ = "string list \<Rightarrow> string list \<Rightarrow> string \<Rightarrow> string \<Rightarrow> string list"

definition patch_item :: "differ \<Rightarrow> workspace \<Rightarrow> pv \<Rightarrow> string list \<times> string list \<Rightarrow> (string list \<times> string list) res" where
  "patch_item diff ws item st =
     (let (chunks, paths) = st in
      case item of
        PDict d \<Rightarrow>
          rbind (normalize_patch_path ws (py_str (por (dget d ''path'') (PStr '''')))) (\<lambda>(relative, path).
            let del = truthy (dget_or d ''delete'' (PBool False));
                old = (case original_text ws path of Some t \<Rightarrow> t | None \<Rightarrow> '''');
                new = (if del then '''' else py_str (por (dget d ''content'') (PStr '''')));
                is_new = ws_files ws path = None in
            if \<not> del \<and> \<not> dhas d ''content'' then Inl ValueErr
            else if old = new \<and> \<not> del then Inr (chunks, paths)
            else Inr (chunks @ diff (split_lines False old) (split_lines False new)
                (if is_new \<and> \<not> del then ''/dev/null'' else ''a/'' @ relative) (if del then ''/dev/null'' else ''b/'' @ relative),
              paths @ [relative]))
      | _ \<Rightarrow> Inl ValueErr)"

definition build_patch_from_files :: "differ \<Rightarrow> workspace \<Rightarrow> pv \<Rightarrow> (string \<times> string list) res" where
  "build_patch_from_files diff ws files =
     (case files of
        PList items \<Rightarrow>
          if items = [] then Inl ValueErr
          else rbind (rfold (patch_item diff ws) items ([], [])) (\<lambda>(chunks, paths).
            if chunks = [] then Inl ValueErr else Inr (join [CHR 0x0A] chunks, paths))
      | _ \<Rightarrow> Inl ValueErr)"

record patch_request =
  pr_diff :: string
  pr_files_changed :: nat
  pr_paths :: "string list"
  pr_mode :: string

definition candidate_paths :: "file_patch list \<Rightarrow> string list" where
  "candidate_paths patches =
     dedupe [] (filter (\<lambda>c. c \<noteq> '''') (map (\<lambda>p. if fp_new p \<noteq> ''/dev/null'' then fp_new p else fp_old p) patches))"

definition build_patch_request :: "differ \<Rightarrow> workspace \<Rightarrow> pdict \<Rightarrow> patch_request res" where
  "build_patch_request diff ws params =
     (let patch_text = por (dget params ''patchText'') (dget params ''patch_text''); files = dget params ''files'' in
      if truthy patch_text = truthy files then Inl ValueErr
      else if truthy patch_text
      then rbind (parse_unified_diff (py_str patch_text)) (\<lambda>patches.
        let paths = candidate_paths patches in
        if paths = [] then Inl ValueErr
        else Inr \<lparr>pr_diff = py_str patch_text, pr_files_changed = length paths, pr_paths = paths, pr_mode = ''patchText''\<rparr>)
      else rbind (build_patch_from_files diff ws files) (\<lambda>(text, paths).
        Inr \<lparr>pr_diff = text, pr_files_changed = length paths, pr_paths = paths, pr_mode = ''files''\<rparr>))"

definition build_patch_request_payload ::
  "string \<Rightarrow> string \<Rightarrow> patch_request \<Rightarrow> bool \<Rightarrow> string option \<Rightarrow> pv option \<Rightarrow> pdict" where
  "build_patch_request_payload task_id root_text r dry_run patch_text files =
     [(''taskId'', PStr task_id), (''workspaceRoot'', PStr root_text), (''dryRun'', PBool dry_run),
      (''patchMode'', PStr (pr_mode r)), (''filesChanged'', PInt (int (pr_files_changed r))),
      (''changedPaths'', PList (map PStr (pr_paths r)))] @
     (case patch_text of Some t \<Rightarrow> [(''patchText'', PStr t)] | None \<Rightarrow> []) @
     (case files of Some f \<Rightarrow> [(''files'', f)] | None \<Rightarrow> []) @ [(''diffText'', PStr (pr_diff r))]"

section \<open>What a patch does\<close>

text \<open>
  An edit script says of every line whether it is kept, dropped or inserted; \<open>changes\<close> prints the
  lines that are not kept the way a hunk does.
\<close>

datatype edit = Keep string | Drop string | Insert string

fun before :: "edit list \<Rightarrow> string list" where
  "before [] = []"
| "before (Keep l # es) = l # before es"
| "before (Drop l # es) = l # before es"
| "before (Insert l # es) = before es"

fun after_edits :: "edit list \<Rightarrow> string list" where
  "after_edits [] = []"
| "after_edits (Keep l # es) = l # after_edits es"
| "after_edits (Drop l # es) = after_edits es"
| "after_edits (Insert l # es) = l # after_edits es"

fun changes :: "edit list \<Rightarrow> string list" where
  "changes [] = []"
| "changes (Keep l # es) = changes es"
| "changes (Drop l # es) = (CHR ''-'' # strip_eol l) # changes es"
| "changes (Insert l # es) = (CHR ''+'' # butlast l) # changes es"

lemma edits_append:
  "before (a @ b) = before a @ before b" "after_edits (a @ b) = after_edits a @ after_edits b"
  "changes (a @ b) = changes a @ changes b"
  by (induction a rule: before.induct) auto

lemma edits_keep:
  "before (map Keep ls) = ls" "after_edits (map Keep ls) = ls" "changes (map Keep ls) = []"
  by (induction ls) auto

definition hunk_changes :: "hunk \<Rightarrow> string list" where
  "hunk_changes h = filter (\<lambda>r. take 1 r \<noteq> '' '') (h_lines h)"

definition hunk_consumes :: "string list \<Rightarrow> nat" where
  "hunk_consumes ls = length (filter (\<lambda>r. take 1 r \<noteq> ''+'') ls)"

fun in_order :: "nat \<Rightarrow> hunk list \<Rightarrow> bool" where
  \<comment> \<open>every hunk starts where the one before it ended, or later\<close>
  "in_order i [] \<longleftrightarrow> True"
| "in_order i (h # hs) \<longleftrightarrow>
     i \<le> h_old_start h - 1 \<and> in_order (h_old_start h - 1 + hunk_consumes (h_lines h)) hs"

definition edited :: "string list \<Rightarrow> string list \<times> nat \<Rightarrow> string list \<Rightarrow> bool" where
  \<comment> \<open>a script leads from the lines before the index to the output\<close>
  "edited original st cs \<longleftrightarrow>
     snd st \<le> length original \<and> (\<exists>es. before es = take (snd st) original \<and> after_edits es = fst st \<and> changes es = cs)"

lemma edited_extend:
  assumes "edited original (out, i) cs" "i + length (before es) \<le> length original"
    "before es = take (length (before es)) (drop i original)"
  shows "edited original (out @ after_edits es, i + length (before es)) (cs @ changes es)"
proof -
  from assms(1) obtain es0 where es0: "before es0 = take i original" "after_edits es0 = out" "changes es0 = cs"
    by (auto simp: edited_def)
  have "before (es0 @ es) = take (i + length (before es)) original"
    using assms(3) by (simp add: edits_append es0 take_add)
  then show ?thesis using assms(2) es0 by (auto simp: edited_def edits_append intro!: exI [of _ "es0 @ es"])
qed

lemma hunk_line_edited:
  assumes "hunk_line original raw (out, i) = Inr (out', i')" "edited original (out, i) cs"
  shows "edited original (out', i') (cs @ (if take 1 raw \<noteq> '' '' then [raw] else [])) \<and>
    i' = i + (if take 1 raw \<noteq> ''+'' then 1 else 0)"
proof -
  obtain marker payload where raw: "raw = marker # payload"
    using assms(1) by (cases raw) (auto simp: hunk_line_def)
  have line: "take 1 (drop i original) = [original ! i]" if "i < length original"
    using that by (simp add: take_Suc_conv_app_nth drop_Suc hd_drop_conv_nth take_Suc)
  consider (common) "marker = CHR '' ''" | (removal) "marker = CHR ''-''" | (addition) "marker = CHR ''+''"
    using assms(1) raw by (auto simp: hunk_line_def Let_def split: if_splits)
  then show ?thesis
  proof cases
    case common
    then show ?thesis using assms(1) raw line edited_extend [OF assms(2), of "[Keep (original ! i)]"]
      by (auto simp: hunk_line_def Let_def split: if_splits)
  next
    case removal
    then show ?thesis using assms(1) raw line edited_extend [OF assms(2), of "[Drop (original ! i)]"]
      by (auto simp: hunk_line_def Let_def split: if_splits)
  next
    case addition
    then show ?thesis using assms edited_extend [OF assms(2), of "[Insert (payload @ [CHR 0x0A])]"] raw
      by (auto simp: hunk_line_def edited_def Let_def split: if_splits)
  qed
qed

lemma hunk_lines_edited:
  assumes "rfold (hunk_line original) ls (out, i) = Inr (out', i')" "edited original (out, i) cs"
  shows "edited original (out', i') (cs @ filter (\<lambda>r. take 1 r \<noteq> '' '') ls) \<and> i' = i + hunk_consumes ls"
  using assms
proof (induction ls arbitrary: out i cs)
  case Nil
  then show ?case by (simp add: hunk_consumes_def)
next
  case (Cons r ls)
  from Cons.prems(1) obtain out1 i1 where 1: "hunk_line original r (out, i) = Inr (out1, i1)"
      "rfold (hunk_line original) ls (out1, i1) = Inr (out', i')"
    by (auto simp: rbind_eq_Inr)
  show ?case
    using hunk_line_edited [OF 1(1) Cons.prems(2)] Cons.IH [OF 1(2), of "cs @ (if take 1 r \<noteq> '' '' then [r] else [])"]
    by (auto simp: hunk_consumes_def split: if_splits)
qed

lemma apply_hunk_edited:
  assumes "apply_hunk original h (out, i) = Inr (out', i')" "edited original (out, i) cs" "i \<le> h_old_start h - 1"
  shows "edited original (out', i') (cs @ hunk_changes h) \<and> i' = h_old_start h - 1 + hunk_consumes (h_lines h)"
proof -
  let ?t = "h_old_start h - 1" and ?kept = "take (h_old_start h - 1 - i) (drop i original)"
  have t: "?t \<le> length original"
    and r: "rfold (hunk_line original) (h_lines h) (out @ ?kept, ?t) = Inr (out', i')"
    using assms(1) by (auto simp: apply_hunk_def Let_def split: if_splits)
  have "length ?kept = ?t - i" "i + (?t - i) = ?t" using t assms(3) by simp_all
  then have "edited original (out @ ?kept, ?t) cs"
    using edited_extend [OF assms(2), of "map Keep ?kept"] t by (simp only: edits_keep) simp
  from hunk_lines_edited [OF r this] show ?thesis by (auto simp: hunk_changes_def)
qed

lemma hunks_edited:
  assumes "rfold (apply_hunk original) hs (out, i) = Inr (out', i')" "edited original (out, i) cs" "in_order i hs"
  shows "edited original (out', i') (cs @ concat (map hunk_changes hs))"
  using assms
proof (induction hs arbitrary: out i cs)
  case (Cons h hs)
  from Cons.prems(1) obtain out1 i1 where 1: "apply_hunk original h (out, i) = Inr (out1, i1)"
      "rfold (apply_hunk original) hs (out1, i1) = Inr (out', i')"
    by (auto simp: rbind_eq_Inr)
  have "i \<le> h_old_start h - 1" using Cons.prems(3) by simp
  from apply_hunk_edited [OF 1(1) Cons.prems(2) this]
  have 2: "edited original (out1, i1) (cs @ hunk_changes h)" "in_order i1 hs" using Cons.prems(3) by auto
  show ?case using Cons.IH [OF 1(2) 2] by simp
qed simp

text \<open>
  C18. A patch whose hunks are in order does what it says and nothing else: when it applies, some
  edit script turns the file into the result, and its removals and insertions are exactly the
  marked lines of the hunks, in their order.
\<close>

theorem patch_does_what_it_says:
  assumes "apply_hunks original hunks = Inr final" "in_order 0 hunks"
  shows "\<exists>es. before es = original \<and> after_edits es = final \<and> changes es = concat (map hunk_changes hunks)"
proof -
  from assms(1) obtain out i where r: "rfold (apply_hunk original) hunks ([], 0) = Inr (out, i)"
      and final: "final = out @ drop i original"
    by (auto simp: apply_hunks_def rbind_eq_Inr)
  have "edited original ([], 0) []" by (auto simp: edited_def intro!: exI [of _ "[]"])
  from hunks_edited [OF r this assms(2)] obtain es where
    "before es = take i original" "after_edits es = out" "changes es = concat (map hunk_changes hunks)"
    by (auto simp: edited_def)
  then have "before (es @ map Keep (drop i original)) = original \<and> after_edits (es @ map Keep (drop i original)) = final \<and>
      changes (es @ map Keep (drop i original)) = concat (map hunk_changes hunks)"
    by (simp add: edits_append edits_keep final)
  then show ?thesis by blast
qed

definition swap_hunk :: hunk where
  "swap_hunk = \<lparr>h_old_start = 2, h_old_count = 2, h_new_start = 2, h_new_count = 2, h_lines = ['' b'', ''-c'', ''+d'']\<rparr>"

definition abc :: "string list" where
  "abc = [''a'' @ [CHR 0x0A], ''b'' @ [CHR 0x0A], ''c'' @ [CHR 0x0A]]"

lemma swap_applies: "apply_hunks abc [swap_hunk] = Inr [''a'' @ [CHR 0x0A], ''b'' @ [CHR 0x0A], ''d'' @ [CHR 0x0A]]"
  by code_simp

theorem patch_does_what_it_says_witness:
  "\<exists>es. before es = abc \<and> after_edits es = [''a'' @ [CHR 0x0A], ''b'' @ [CHR 0x0A], ''d'' @ [CHR 0x0A]] \<and>
    changes es = [''-c'', ''+d'']"
proof -
  have "in_order 0 [swap_hunk]" by simp
  from patch_does_what_it_says [OF swap_applies this] show ?thesis
    by (simp add: hunk_changes_def swap_hunk_def)
qed

text \<open>Printing a script as a diff with one hunk; every line ends in a line feed.\<close>

definition diff_line :: "edit \<Rightarrow> string" where
  "diff_line e = (case e of Keep l \<Rightarrow> CHR '' '' # l | Drop l \<Rightarrow> CHR ''-'' # l | Insert l \<Rightarrow> CHR ''+'' # l)"

definition print_diff :: "string \<Rightarrow> edit list \<Rightarrow> string" where
  "print_diff path es =
     ''--- a/'' @ path @ [CHR 0x0A] @ ''+++ b/'' @ path @ [CHR 0x0A] @
     ''@@ -1,'' @ nat_digits (length (before es)) @ '' +1,'' @ nat_digits (length (after_edits es)) @ '' @@'' @ [CHR 0x0A] @
     concat (map diff_line es)"

definition plain_line :: "string \<Rightarrow> bool" where
  \<comment> \<open>a line whose only line break is the line feed at its end\<close>
  "plain_line l \<longleftrightarrow> next_break l = Some (butlast l, [CHR 0x0A], [])"

lemma plain_line_Nil [simp]: "\<not> plain_line []"
  by (simp add: plain_line_def)

lemma break_len_ahead:
  "break_len (c # p @ [CHR 0x0A]) = 0 \<Longrightarrow> break_len (c # p @ CHR 0x0A # r) = 0"
  by (cases p; cases "tl p") (auto simp: break_len_def split: if_splits)

lemma next_break_ahead:
  "next_break (p @ [CHR 0x0A]) = Some (p, [CHR 0x0A], []) \<Longrightarrow>
   next_break (p @ CHR 0x0A # r) = Some (p, [CHR 0x0A], r)"
proof (induction p)
  case Nil
  then show ?case by (simp add: break_len_def)
next
  case (Cons c p)
  then have "break_len (c # p @ [CHR 0x0A]) = 0" "next_break (p @ [CHR 0x0A]) = Some (p, [CHR 0x0A], [])"
    by (auto split: if_splits)
  then show ?case using Cons.IH break_len_ahead by auto
qed

lemma plain_lineE:
  assumes "plain_line l"
  obtains p where "l = p @ [CHR 0x0A]" "next_break (p @ [CHR 0x0A]) = Some (p, [CHR 0x0A], [])"
  using next_break_parts [of l "butlast l" "[CHR 0x0A]" "[]"] assms that [of "butlast l"]
  by (auto simp: plain_line_def)

lemma split_plain_line:
  assumes "plain_line l"
  shows "split_lines keep (l @ r) = (if keep then l else butlast l) # split_lines keep r"
proof -
  from assms obtain p where p: "l = p @ [CHR 0x0A]" "next_break (p @ [CHR 0x0A]) = Some (p, [CHR 0x0A], [])"
    by (rule plain_lineE)
  from next_break_ahead [OF p(2)] show ?thesis by (subst split_lines.simps) (simp add: p(1))
qed

lemma split_plain_lines:
  "\<forall>l \<in> set ls. plain_line l \<Longrightarrow> split_lines keep (concat ls @ r) = (if keep then ls else map butlast ls) @ split_lines keep r"
  by (induction ls) (auto simp: split_plain_line)

lemma no_eol_in_plain:
  "next_break (p @ [CHR 0x0A]) = Some (p, [CHR 0x0A], []) \<Longrightarrow> CHR 0x0D \<notin> set p \<and> CHR 0x0A \<notin> set p"
proof (induction p)
  case (Cons c p)
  then have "break_len (c # p @ [CHR 0x0A]) = 0" "next_break (p @ [CHR 0x0A]) = Some (p, [CHR 0x0A], [])"
    by (auto split: if_splits)
  then show ?case using Cons.IH by (auto simp: break_len_def split: if_splits)
qed simp

lemma strip_eol_plain: "plain_line l \<Longrightarrow> strip_eol l = butlast l"
proof (elim plain_lineE)
  fix p assume l: "l = p @ [CHR 0x0A]" and p: "next_break (p @ [CHR 0x0A]) = Some (p, [CHR 0x0A], [])"
  have "last p \<in> set p" if "p \<noteq> []" using that by simp
  then have "rstrip_by (\<lambda>c. c = CHR 0x0D \<or> c = CHR 0x0A) p = p"
    using no_eol_in_plain [OF p] by (cases p rule: rev_cases) (auto simp: rstrip_by_def)
  then show ?thesis by (simp add: l strip_eol_def rstrip_by_def)
qed

lemma read_newlines_id: "CHR 0x0D \<notin> set s \<Longrightarrow> read_newlines s = s"
  by (induction s) auto

lemma plain_no_cr: "plain_line l \<Longrightarrow> CHR 0x0D \<notin> set l"
  by (elim plain_lineE) (auto dest: no_eol_in_plain)

lemma plain_butlast: "plain_line l \<Longrightarrow> butlast l @ [CHR 0x0A] = l"
  by (elim plain_lineE) simp

lemma digit_char:
  fixes n :: nat
  assumes "n < 10"
  shows "of_char (char_of (48 + n) :: char) = 48 + n" "is_digit (char_of (48 + n))"
  using assms by (auto simp: is_digit_def)

lemma nat_digits_digits: "list_all is_digit (nat_digits n) \<and> nat_digits n \<noteq> []"
proof (induction n rule: nat_digits.induct)
  case (1 n)
  then show ?case by (cases "n < 10"; subst (1 2) nat_digits.simps) (auto simp: digit_char simp del: of_char_of)
qed

lemma digits_value_snoc: "digits_value (s @ [c]) = 10 * digits_value s + (of_char c - 48)"
  by (simp add: digits_value_def)

lemma digits_value_digits: "digits_value (nat_digits n) = n"
proof (induction n rule: nat_digits.induct)
  case (1 n)
  then show ?case
    by (cases "n < 10"; subst nat_digits.simps) (auto simp: digits_value_snoc digit_char(1) digits_value_def simp del: of_char_of)
qed

lemma parse_range_print:
  assumes "r = [] \<or> \<not> is_digit (hd r)"
  shows "parse_range (''1,'' @ nat_digits n @ r) = Some (1, n, r)"
proof -
  have d: "takeWhile is_digit (nat_digits n @ r) = nat_digits n" "dropWhile is_digit (nat_digits n @ r) = r"
    using assms nat_digits_digits [of n] by (cases r; auto simp: list_all_iff takeWhile_append2 dropWhile_append2)+
  have "is_digit (CHR ''1'')" "\<not> is_digit (CHR '','')" "digits_value ''1'' = 1" by code_simp+
  then show ?thesis using nat_digits_digits [of n] by (simp add: parse_range_def d digits_value_digits)
qed

definition hunk_header :: "nat \<Rightarrow> nat \<Rightarrow> string" where
  "hunk_header m n = ''@@ -1,'' @ nat_digits m @ '' +1,'' @ nat_digits n @ '' @@''"

lemma parse_hunk_header_print: "parse_hunk_header (hunk_header m n) = Inr (1, m, 1, n)"
proof -
  have "\<not> is_digit (CHR '' '')" by code_simp
  then have r: "parse_range (''1,'' @ nat_digits m @ '' +1,'' @ nat_digits n @ '' @@'') = Some (1, m, '' +1,'' @ nat_digits n @ '' @@'')"
    "parse_range (''1,'' @ nat_digits n @ '' @@'') = Some (1, n, '' @@'')"
    by (intro parse_range_print; simp)+
  show ?thesis unfolding parse_hunk_header_def hunk_header_def using r by simp
qed

text \<open>A path that a header holds as it is.\<close>

definition plain_path :: "string \<Rightarrow> bool" where
  "plain_path path \<longleftrightarrow> path \<noteq> [] \<and> strip path = path \<and> CHR 0x09 \<notin> set path \<and> plain_line (path @ [CHR 0x0A])"

lemma header_path_print:
  assumes "plain_path path" "x = CHR ''a'' \<or> x = CHR ''b''"
  shows "header_path ([a, b, c, d] @ [x, CHR ''/''] @ path) = path"
proof -
  have ws: "\<not> is_ws x" "\<not> is_ws (CHR ''/'')" using assms(2) by (auto simp: is_ws_def)
  have "rstrip_by is_ws path = path"
    using assms(1) by (metis dropWhile_idem plain_path_def rstrip_by_idem strip_by_def strip_def)
  then have s: "strip ([x, CHR ''/''] @ path) = [x, CHR ''/''] @ path"
    using ws assms(1) by (simp add: strip_def strip_by_def rstrip_by_Cons plain_path_def)
  have t: "takeWhile (\<lambda>c. c \<noteq> CHR 0x09) ([x, CHR ''/''] @ path) = [x, CHR ''/''] @ path"
    using assms by (auto simp: plain_path_def takeWhile_eq_all_conv)
  have "strip_git_prefix ([x, CHR ''/''] @ path) = path"
    using assms(2) s by (auto simp: strip_git_prefix_def)
  then show ?thesis using s t by (simp add: header_path_def)
qed

definition harmless :: "char \<Rightarrow> bool" where
  \<comment> \<open>a character with which no line break begins\<close>
  "harmless c \<longleftrightarrow> c \<notin> set [CHR 0x0A, CHR 0x0D, CHR 0x0B, CHR 0x0C, CHR 0x1C, CHR 0x1D, CHR 0x1E, CHR 0xC2, CHR 0xE2]"

lemma harmless_digit: "is_digit c \<Longrightarrow> harmless c"
  by (auto simp: harmless_def is_digit_def)

lemma break_len_harmless: "harmless c \<Longrightarrow> break_len (c # l) = 0"
  by (auto simp: harmless_def break_len_def)

lemma plain_line_append: "plain_line l \<Longrightarrow> list_all harmless p \<Longrightarrow> plain_line (p @ l)"
  by (induction p) (auto simp: plain_line_def break_len_harmless)

lemma harmless_hunk_header: "list_all harmless (hunk_header m n)"
proof -
  have "list_all harmless (nat_digits k)" for k
    using nat_digits_digits [of k] by (auto simp: list_all_iff harmless_digit)
  moreover have "list_all harmless ''@@ -1,''" "list_all harmless '' +1,''" "list_all harmless '' @@''" by code_simp+
  ultimately show ?thesis by (simp add: hunk_header_def)
qed

fun line_of :: "edit \<Rightarrow> string" where
  "line_of (Keep l) = l" | "line_of (Drop l) = l" | "line_of (Insert l) = l"

fun clean_edit :: "edit \<Rightarrow> bool" where
  \<comment> \<open>a plain line, and no removal that prints as a file header\<close>
  "clean_edit (Drop l) \<longleftrightarrow> plain_line l \<and> \<not> starts ''-- '' l"
| "clean_edit (Keep l) \<longleftrightarrow> plain_line l"
| "clean_edit (Insert l) \<longleftrightarrow> plain_line l"

lemma clean_edit_plain: "clean_edit e \<Longrightarrow> plain_line (line_of e) \<and> plain_line (diff_line e)"
proof (cases e)
qed (use plain_line_append [of "line_of e" "[_]"] in \<open>auto simp: diff_line_def harmless_def\<close>)

definition printed :: "edit \<Rightarrow> string" where
  "printed e = butlast (diff_line e)"

lemma printed_simps:
  "l \<noteq> [] \<Longrightarrow> printed (Keep l) = CHR '' '' # butlast l"
  "l \<noteq> [] \<Longrightarrow> printed (Drop l) = CHR ''-'' # butlast l"
  "l \<noteq> [] \<Longrightarrow> printed (Insert l) = CHR ''+'' # butlast l"
  by (simp_all add: printed_def diff_line_def)

lemma starts_butlast: "starts p (butlast l) \<Longrightarrow> starts p l"
  unfolding starts_def by (metis append_butlast_last_id butlast.simps(1) prefix_prefix)

lemma printed_not_special: "clean_edit e \<Longrightarrow> \<not> ends_hunk (printed e) \<and> \<not> no_newline_mark (printed e)"
  by (cases e; cases "line_of e")
    (auto simp: printed_simps ends_hunk_def no_newline_mark_def dest!: starts_butlast)

lemma hunk_body_printed:
  assumes "\<forall>e \<in> set es. clean_edit e"
  shows "hunk_body (map printed es) = map printed es" "dropWhile (\<lambda>k. \<not> ends_hunk k) (map printed es) = []"
proof -
  have all: "takeWhile (\<lambda>k. \<not> ends_hunk k) (map printed es) = map printed es"
    using assms printed_not_special by (auto simp: takeWhile_eq_all_conv)
  show "hunk_body (map printed es) = map printed es"
    unfolding hunk_body_def all using assms printed_not_special by (auto simp: filter_id_conv)
  show "dropWhile (\<lambda>k. \<not> ends_hunk k) (map printed es) = []"
    using assms printed_not_special by auto
qed

lemma apply_printed:
  "\<forall>e \<in> set es. clean_edit e \<Longrightarrow>
   rfold (hunk_line (pre @ before es)) (map printed es) (out, length pre) =
     Inr (out @ after_edits es, length pre + length (before es))"
proof (induction es arbitrary: pre out)
  case (Cons e es)
  then have clean: "clean_edit e" "\<forall>e \<in> set es. clean_edit e" by auto
  have l: "line_of e \<noteq> []" "strip_eol (line_of e) = butlast (line_of e)" "butlast (line_of e) @ [CHR 0x0A] = line_of e"
    using clean_edit_plain [OF clean(1)] strip_eol_plain plain_butlast by auto
  show ?case
  proof (cases e)
    case (Keep k)
    then show ?thesis using l Cons.IH [OF clean(2), of "pre @ [k]" "out @ [k]"]
      by (simp add: printed_simps hunk_line_def Let_def)
  next
    case (Drop k)
    then show ?thesis using l Cons.IH [OF clean(2), of "pre @ [k]" out]
      by (simp add: printed_simps hunk_line_def Let_def)
  next
    case (Insert k)
    then show ?thesis using l Cons.IH [OF clean(2), of pre "out @ [k]"]
      by (simp add: printed_simps hunk_line_def Let_def)
  qed
qed simp

definition printed_patch :: "string \<Rightarrow> edit list \<Rightarrow> file_patch" where
  "printed_patch path es =
     \<lparr>fp_old = path, fp_new = path,
      fp_hunks = [\<lparr>h_old_start = 1, h_old_count = length (before es), h_new_start = 1,
        h_new_count = length (after_edits es), h_lines = map printed es\<rparr>]\<rparr>"

lemma split_print_diff:
  assumes "plain_path path" "\<forall>e \<in> set es. clean_edit e"
  shows "split_lines False (print_diff path es) =
    [''--- a/'' @ path, ''+++ b/'' @ path, hunk_header (length (before es)) (length (after_edits es))] @ map printed es"
proof -
  let ?h = "hunk_header (length (before es)) (length (after_edits es))"
  have p: "plain_line (path @ [CHR 0x0A])" using assms(1) by (simp add: plain_path_def)
  have "plain_line [CHR 0x0A]" by code_simp
  then have h: "plain_line (?h @ [CHR 0x0A])" by (rule plain_line_append) (rule harmless_hunk_header)
  have ab: "list_all harmless ''--- a/''" "list_all harmless ''+++ b/''" by code_simp+
  let ?ls = "[''--- a/'' @ path @ [CHR 0x0A], ''+++ b/'' @ path @ [CHR 0x0A], ?h @ [CHR 0x0A]] @ map diff_line es"
  have "\<forall>l \<in> set ?ls. plain_line l"
    using plain_line_append [OF p ab(1)] plain_line_append [OF p ab(2)] h assms(2) clean_edit_plain by auto
  from split_plain_lines [OF this, of False "[]"]
  have "split_lines False (concat ?ls) = map butlast ?ls @ split_lines False []" by simp
  moreover have "concat ?ls = print_diff path es" by (simp add: print_diff_def hunk_header_def)
  moreover have "split_lines False [] = []" by (subst split_lines.simps) simp
  moreover have "map butlast ?ls =
      [''--- a/'' @ path, ''+++ b/'' @ path, ?h] @ map printed es"
    by (simp add: butlast_append printed_def)
  ultimately show ?thesis by simp
qed

lemma parse_print_diff:
  assumes "plain_path path" "\<forall>e \<in> set es. clean_edit e"
  shows "parse_unified_diff (print_diff path es) = Inr [printed_patch path es]"
proof -
  let ?h = "hunk_header (length (before es)) (length (after_edits es))"
  have paths: "header_path (''--- a/'' @ path) = path" "header_path (''+++ b/'' @ path) = path"
    using header_path_print [OF assms(1), of "CHR ''a''"] header_path_print [OF assms(1), of "CHR ''b''"] by auto
  have h: "starts ''@@ '' ?h" "\<not> starts ''diff --git '' ?h" "\<not> starts ''--- '' ?h"
    by (simp_all add: hunk_header_def)
  have "parse_lines (?h # map printed es) (Some \<lparr>fp_old = path, fp_new = path, fp_hunks = []\<rparr>) [] =
      Inr [printed_patch path es]"
    by (subst parse_lines.simps)
      (simp add: Let_def h parse_hunk_header_print the_patch_def hunk_body_printed [OF assms(2)] closed_def printed_patch_def)
  then have "parse_lines ((''--- a/'' @ path) # (''+++ b/'' @ path) # ?h # map printed es) None [] = Inr [printed_patch path es]"
    using paths by (subst parse_lines.simps) (simp add: Let_def the_patch_def empty_file_patch_def finished_def del: parse_lines.simps(2))
  moreover have "strip path = path" "path \<noteq> []" using assms(1) by (simp_all add: plain_path_def)
  ultimately show ?thesis
    by (simp add: parse_unified_diff_def split_print_diff [OF assms] printed_patch_def)
qed

text \<open>
  C19. Printing an edit script as a unified diff, parsing the text and applying the patch turns the
  file from the script's old side into its new side, in the resolved file and nowhere else. The
  script needs plain lines (one line feed, at the end) and no removal of a line that starts
  with two hyphens and a space.
\<close>

theorem patch_roundtrip:
  assumes "plain_path path" "list_all clean_edit es"
    "normalize_patch_path ws path = Inr (relative, file)" "ws_files ws file = Some (concat (before es))"
    "concat (after_edits es) \<noteq> concat (before es)"
  shows "rbind (parse_unified_diff (print_diff path es)) (\<lambda>ps. apply_unified_diff_to_file False (hd ps) ws) =
    Inr (relative, True, ws\<lparr>ws_files := (ws_files ws)(file \<mapsto> concat (after_edits es))\<rparr>)"
proof -
  have clean: "\<forall>e \<in> set es. clean_edit e" using assms(2) by (simp add: list_all_iff)
  have lines: "\<forall>l \<in> set (before es). plain_line l"
    using clean by (induction es rule: before.induct) auto
  then have "CHR 0x0D \<notin> set (concat (before es))" using plain_no_cr by auto
  then have content: "original_text ws file = Some (concat (before es))"
    by (simp add: original_text_def assms(4) read_newlines_id)
  have "split_lines True (concat (before es) @ []) = before es @ split_lines True []"
    using split_plain_lines [OF lines, of True "[]"] by simp
  moreover have "split_lines True [] = []" by (subst split_lines.simps) simp
  ultimately have orig: "split_lines True (concat (before es)) = before es" by simp
  have "path \<noteq> ''/dev/null''"
  proof
    assume "path = ''/dev/null''"
    then have "normalize_patch_path ws path = Inl ValueErr" by (simp add: normalize_patch_path_def) code_simp
    then show False using assms(3) by simp
  qed
  moreover have "path \<noteq> []" using assms(1) by (simp add: plain_path_def)
  ultimately have "patch_source ws (printed_patch path es) = Inr (relative, file, before es)"
    by (simp add: patch_source_def printed_patch_def assms(3) content orig)
  moreover have "apply_hunks (before es) (fp_hunks (printed_patch path es)) = Inr (after_edits es)"
    using apply_printed [OF clean, of "[]" "[]"]
    by (simp add: apply_hunks_def apply_hunk_def printed_patch_def)
  ultimately show ?thesis
    using \<open>path \<noteq> ''/dev/null''\<close> assms(5)
    by (simp add: parse_print_diff [OF assms(1) clean] apply_unified_diff_to_file_def write_file_at_def)
      (simp add: printed_patch_def)
qed

definition one_file :: "string \<Rightarrow> workspace" where
  "one_file content =
     \<lparr>ws_root = [''w''], ws_resolve = (\<lambda>p. ''w'' # split_on CHR ''/'' p), ws_files = [[''w'', ''a''] \<mapsto> content]\<rparr>"

definition swap_edits :: "edit list" where
  "swap_edits = [Keep (''x'' @ [CHR 0x0A]), Drop (''y'' @ [CHR 0x0A]), Insert (''z'' @ [CHR 0x0A])]"

theorem patch_roundtrip_witness:
  "rbind (parse_unified_diff (print_diff ''a'' swap_edits))
     (\<lambda>ps. apply_unified_diff_to_file False (hd ps) (one_file (concat (before swap_edits)))) =
   Inr (''a'', True, one_file (concat (after_edits swap_edits)))"
proof -
  have "plain_path ''a''" "list_all clean_edit swap_edits" "concat (after_edits swap_edits) \<noteq> concat (before swap_edits)"
    by code_simp+
  moreover have "normalize_patch_path (one_file (concat (before swap_edits))) ''a'' = Inr (''a'', [''w'', ''a''])"
    by code_simp
  moreover have "ws_files (one_file (concat (before swap_edits))) [''w'', ''a''] = Some (concat (before swap_edits))"
    by (simp add: one_file_def)
  ultimately show ?thesis by (subst patch_roundtrip) (auto simp: one_file_def)
qed

text \<open>Patching a file \<open>a\<close> of the workspace with the given text: the new content.\<close>

definition patched :: "string list \<Rightarrow> string \<Rightarrow> string option res" where
  "patched diff content =
     rbind (parse_unified_diff (concat (map (\<lambda>l. l @ [CHR 0x0A]) diff))) (\<lambda>ps.
     rbind (rfold (\<lambda>p ws. rbind (apply_unified_diff_to_file False p ws) (\<lambda>(_, _, ws'). Inr ws')) ps (one_file content)) (\<lambda>ws.
       Inr (ws_files ws [''w'', ''a''])))"

text \<open>
  Where the application departs from the meaning of a diff: hunks out of order repeat lines
  instead of failing; the removal of a line \<open>-- x\<close> (a comment in SQL) is read as a file header;
  a line inserted after a last line without line feed is glued to it; every line of a file with
  CRLF endings is rewritten; a patch that creates a file replaces one that exists; and a patch
  that deletes a file deletes it whatever its hunks leave of it.
\<close>

theorem patch_escapes:
  "patched [''--- a/a'', ''+++ b/a'', ''@@ -2,1 +2,1 @@'', ''-y'', ''+Y'', ''@@ -1,1 +1,1 @@'', ''-x'', ''+X''] (''x'' @ [CHR 0x0A] @ ''y'') =
     Inr (Some (''x'' @ [CHR 0x0A] @ ''Y'' @ [CHR 0x0A] @ ''X'' @ [CHR 0x0A] @ ''y'')) \<and>
   patched [''--- a/a'', ''+++ b/a'', ''@@ -1,2 +1,1 @@'', ''--- x'', '' y''] (''-- x'' @ [CHR 0x0A] @ ''y'') = Inl ValueErr \<and>
   patched [''--- a/a'', ''+++ b/a'', ''@@ -1,1 +1,2 @@'', '' x'', ''+y''] ''x'' = Inr (Some (''xy'' @ [CHR 0x0A])) \<and>
   patched [''--- a/a'', ''+++ b/a'', ''@@ -1,1 +1,2 @@'', '' x'', ''+y''] (''x'' @ [CHR 0x0D, CHR 0x0A] @ ''z'' @ [CHR 0x0D, CHR 0x0A]) =
     Inr (Some (''x'' @ [CHR 0x0A] @ ''y'' @ [CHR 0x0A] @ ''z'' @ [CHR 0x0A])) \<and>
   patched [''--- /dev/null'', ''+++ b/a'', ''@@ -0,0 +1,1 @@'', ''+new''] ''old'' = Inr (Some (''new'' @ [CHR 0x0A])) \<and>
   patched [''--- a/a'', ''+++ /dev/null'', ''@@ -1,1 +0,0 @@'', ''-x''] (''x'' @ [CHR 0x0A] @ ''keep'') = Inr None"
  by (intro conjI) code_simp+

end
