(* ===== verification/WriteScopes.thy ===== *)
theory WriteScopes
  imports ProposalGraph TextMatch
begin

text \<open>
  The check of write operations against the write scope of a child task
  (\<open>services/write_scope_enforcement.py\<close>): where the scope comes from, patches, and the commands of
  \<open>run_command\<close>, whose family and path arguments are read off the command text. Regular
  expressions that ignore case are matched on the lower case text, which has the same positions.
\<close>

section \<open>Scopes\<close>

text \<open>The store: \<open>require_collaboration_task\<close> and \<open>get_task\<close>, with \<open>None\<close> for an exception.\<close>

record scope_store =
  ss_collaboration :: "string \<Rightarrow> pdict option"
  ss_runtime :: "string \<Rightarrow> pdict option"

definition file_extensions :: "string list" where
  "file_extensions =
     [''.py'', ''.js'', ''.ts'', ''.tsx'', ''.jsx'', ''.css'', ''.html'', ''.json'', ''.md'', ''.txt'', ''.toml'', ''.yaml'', ''.yml'',
      ''.ini'', ''.cfg'']"

definition to_slashes :: "string \<Rightarrow> string" where
  "to_slashes s = replace_char CHR 0x5C CHR ''/'' s"

definition names_tests_or_file :: "string \<Rightarrow> bool \<Rightarrow> bool" where
  \<comment> \<open>the tests that both functions \<open>_looks_like_...\<close> end with; the text is stripped, so \<open>$\<close> is its end\<close>
  "names_tests_or_file s inner_slash \<longleftrightarrow>
     s = ''tests'' \<or> starts ''tests/'' s \<or> ends ''/'' s \<or> (inner_slash \<and> has_sub ''/'' s) \<or> list_ex (\<lambda>e. ends e (lower s)) file_extensions"

definition looks_like_path_target :: "string \<Rightarrow> bool" where
  "looks_like_path_target candidate =
     (let s = to_slashes (strip candidate) in
      if s = '''' \<or> s = ''.'' \<or> s = ''..'' then False
      else if starts ''-'' s \<or> has_sub ''://'' s then False
      else names_tests_or_file s False)"

definition looks_like_filesystem_scope :: "pv \<Rightarrow> bool" where
  "looks_like_filesystem_scope candidate =
     (let s = to_slashes (strip (py_str (por candidate (PStr '''')))) in
      if s = '''' then False
      else if s = ''.'' then True
      else if starts ''-'' s \<or> has_sub ''://'' s then False
      else names_tests_or_file s True)"

definition scope_list :: "pv \<Rightarrow> string list option" where
  "scope_list v =
     (case v of
        PList xs \<Rightarrow> Some (map py_str (filter looks_like_filesystem_scope xs))
      | PStr s \<Rightarrow> Some (if looks_like_filesystem_scope (PStr s) then [s] else [])
      | _ \<Rightarrow> None)"

definition scope_from_task :: "pdict \<Rightarrow> string list" where
  "scope_from_task task =
     (let metadata = the_dict (dget task ''metadata'') in
      case scope_list (dget metadata ''writeScope'') of
        Some ss \<Rightarrow> ss
      | None \<Rightarrow> (case scope_list (dget (the_dict (dget metadata ''profile'')) ''ownedScope'') of Some ss \<Rightarrow> ss | None \<Rightarrow> []))"

definition resolve_collaboration_task :: "scope_store \<Rightarrow> string \<Rightarrow> pdict option" where
  "resolve_collaboration_task st i =
     (case ss_collaboration st i of
        Some task \<Rightarrow> Some task
      | None \<Rightarrow>
          (case ss_runtime st i of
             None \<Rightarrow> None
           | Some runtime_task \<Rightarrow>
               (let r = the_dict (dget runtime_task ''routing'');
                    j = por (por (por (dget r ''childCollaborationTaskId'') (dget r ''collaborationTaskId'')) (dget r ''child_task_id''))
                      (dget r ''collaboration_task_id'')
                in case j of PStr s \<Rightarrow> if strip s = '''' then None else ss_collaboration st s | _ \<Rightarrow> None)))"

definition get_task_write_scope :: "scope_store \<Rightarrow> string \<Rightarrow> string list" where
  "get_task_write_scope st i = (case resolve_collaboration_task st i of None \<Rightarrow> [] | Some task \<Rightarrow> scope_from_task task)"

definition target_in_scope :: "string list \<Rightarrow> string \<Rightarrow> string list" where
  "target_in_scope scope target =
     validate_patch_in_scope [(''targetPath'', PStr target), (''path'', PStr target)] (map PStr scope)"

definition check_patch_in_scope :: "scope_store \<Rightarrow> string \<Rightarrow> string \<Rightarrow> string list" where
  "check_patch_in_scope st i target =
     (let scope = get_task_write_scope st i in if scope = [] then [] else target_in_scope scope target)"

section \<open>Reading a command\<close>

definition plain_char :: "char \<Rightarrow> bool" where
  "plain_char c \<longleftrightarrow> \<not> is_ws c \<and> c \<noteq> CHR '',''"

definition quoted_at :: "string \<Rightarrow> (string \<times> string) option" where
  \<comment> \<open>a quoted token at the start, and what follows it\<close>
  "quoted_at s =
     (case s of
        [] \<Rightarrow> None
      | q # cs \<Rightarrow>
          if (q = CHR 0x22 \<or> q = CHR 0x27) \<and> takeWhile (\<lambda>c. c \<noteq> q) cs \<noteq> [] \<and> dropWhile (\<lambda>c. c \<noteq> q) cs \<noteq> []
          then Some (q # takeWhile (\<lambda>c. c \<noteq> q) cs @ [q], tl (dropWhile (\<lambda>c. c \<noteq> q) cs)) else None)"

lemma quoted_at_shorter: "quoted_at s = Some (t, r) \<Longrightarrow> length r < length s"
proof -
  have "length (tl (dropWhile P cs)) < Suc (length cs)" for P :: "char \<Rightarrow> bool" and cs
    using length_dropWhile_le[of P cs] by (simp del: length_dropWhile_le)
  then show "quoted_at s = Some (t, r) \<Longrightarrow> length r < length s"
    by (auto simp: quoted_at_def simp del: length_tl split: list.splits if_splits)
qed

function command_tokens :: "string \<Rightarrow> string list" where
  \<comment> \<open>\<open>_TOKEN_RE.findall\<close>: a quoted text, or a run without white space and commas\<close>
  "command_tokens [] = []"
| "command_tokens (c # cs) =
     (case quoted_at (c # cs) of
        Some (t, r) \<Rightarrow> t # command_tokens r
      | None \<Rightarrow>
          if plain_char c then (c # takeWhile plain_char cs) # command_tokens (dropWhile plain_char cs)
          else command_tokens cs)"
  by pat_completeness auto
termination
  by (relation "measure length") (auto dest: quoted_at_shorter simp: le_imp_less_Suc length_dropWhile_le)

definition meaningful_command_tokens :: "string list \<Rightarrow> string list" where
  "meaningful_command_tokens ts = filter (\<lambda>t. t \<noteq> ''&'' \<and> t \<noteq> '';'') ts"

definition unquoted :: "string \<Rightarrow> string" where
  \<comment> \<open>\<open>token.strip().strip("\"'")\<close>\<close>
  "unquoted t = strip_chars [CHR 0x22, CHR 0x27] (strip t)"

definition command_executable_name :: "string \<Rightarrow> string" where
  "command_executable_name token =
     (let candidate = rstrip_by (\<lambda>c. c = CHR ''/'') (to_slashes (unquoted token)) in
      if candidate = '''' then ''''
      else let leaf = rsplit_last CHR ''/'' candidate in
        lower (if ends ''.exe'' (lower leaf) then take (length leaf - 4) leaf else leaf))"

definition module_command :: "string \<Rightarrow> string list \<Rightarrow> string option" where
  \<comment> \<open>the module of \<open>python -m <module>\<close>, from the lower case tokens\<close>
  "module_command executable lowered =
     (case lowered of
        _ # m # name # _ \<Rightarrow> if executable \<in> {''python'', ''py''} \<and> m = ''-m'' then Some name else None
      | _ \<Rightarrow> None)"

definition command_words :: "string \<Rightarrow> (string \<times> string list) option" where
  \<comment> \<open>the executable and the lower case tokens of a command that has any\<close>
  "command_words s =
     (case meaningful_command_tokens (command_tokens s) of
        [] \<Rightarrow> None | t # ts \<Rightarrow> Some (command_executable_name t, map lower (t # ts)))"

definition command_family :: "string \<Rightarrow> string option" where
  "command_family command =
     (let text = strip command in
      if text = '''' then None
      else case command_words (to_slashes text) of
          None \<Rightarrow> None
        | Some (exe, lowered) \<Rightarrow>
            if exe = ''pytest'' then Some ''pytest''
            else if exe = ''node'' \<and> ''--check'' \<in> set (tl lowered) then Some ''node_check''
            else if exe \<in> {''get-childitem'', ''ls'', ''dir''} then Some ''file_listing''
            else if exe \<in> {''get-content'', ''cat'', ''type''} then Some ''file_read''
            else if exe \<in> {''rg'', ''ripgrep'', ''findstr''} then Some ''code_search''
            else case module_command exe lowered of
                Some m \<Rightarrow> if m \<in> {''pytest'', ''py_compile'', ''compileall''} then Some m else None
              | None \<Rightarrow> None)"

definition read_only_command_families :: "string list" where
  "read_only_command_families = [''pytest'', ''py_compile'', ''compileall'', ''node_check'', ''file_listing'', ''code_search'']"

definition is_read_only_command :: "string \<Rightarrow> bool" where
  "is_read_only_command command =
     (case command_family command of None \<Rightarrow> False | Some f \<Rightarrow> f \<in> set read_only_command_families)"

definition path_targets :: "string list \<Rightarrow> string list" where
  "path_targets tokens =
     dedupe [] (filter looks_like_path_target (map (\<lambda>t. rstrip_by (\<lambda>c. c = CHR '','') (unquoted t)) tokens))"

definition literal_head_re :: rx where
  "literal_head_re = rseq [ralt [RBos, rspace], rlit ''-literalpath'', rplus rspace]"

definition literal_tail_re :: rx where
  "literal_tail_re =
     rseq [ropt (rseq [RStar rspace, ralt (map rlit [''|'', '';'', ''&&'', ''||'']), RStar rspace, RStar rany]), REos]"

definition literal_spans :: "string \<Rightarrow> nat \<Rightarrow> (nat \<times> nat) list" where
  \<comment> \<open>the spans the group \<open>targets\<close> may take in a match at \<open>i\<close>, the shortest first\<close>
  "literal_spans s i =
     concat (map (\<lambda>(j, c). map (Pair j)
         (filter (\<lambda>k. list_all (\<lambda>x. x \<noteq> CHR 0x0A) (slice s j k) \<and> rx_m literal_tail_re s (k, []) \<noteq> []) [Suc j..<Suc (length s)]))
       (rx_m literal_head_re s (i, [])))"

definition literal_path_targets :: "string \<Rightarrow> string list" where
  "literal_path_targets s =
     (if \<not> has_sub ''-literalpath'' (lower s) then []
      else case concat (map (literal_spans (lower s)) [0..<Suc (length s)]) of
        [] \<Rightarrow> []
      | (j, k) # _ \<Rightarrow> path_targets (command_tokens (slice s j k)))"

definition command_looks_target_scoped :: "string \<Rightarrow> bool" where
  "command_looks_target_scoped s =
     (case command_words s of
        None \<Rightarrow> False
      | Some (exe, lowered) \<Rightarrow>
          if exe \<in> {''get-childitem'', ''ls'', ''dir'', ''get-content'', ''cat'', ''type'', ''rg'', ''ripgrep'', ''findstr'', ''pytest''} then True
          else if exe = ''node'' then ''--check'' \<in> set (tl lowered)
          else (case module_command exe lowered of Some m \<Rightarrow> m \<in> {''pytest'', ''py_compile'', ''compileall''} | None \<Rightarrow> False))"

definition command_scope_targets :: "string \<Rightarrow> string list" where
  "command_scope_targets command =
     (let s = to_slashes (strip command); literal = literal_path_targets s in
      if strip command = '''' then []
      else if literal \<noteq> [] then literal
      else if \<not> command_looks_target_scoped s then []
      else path_targets (command_tokens s))"

section \<open>Commands\<close>

definition check_command_allowed :: "scope_store \<Rightarrow> string \<Rightarrow> string option \<Rightarrow> string \<Rightarrow> string list" where
  \<comment> \<open>an absent command counts as the empty one\<close>
  "check_command_allowed st i command_scope command =
     (let scope = get_task_write_scope st i; targets = command_scope_targets command in
      if scope = [] \<and> command_scope = None then []
      else if is_read_only_command command then []
      else if scope \<noteq> [] \<and> targets \<noteq> [] then concat (map (target_in_scope scope) targets)
      else case command_scope of
          Some cs \<Rightarrow> if cs \<noteq> '''' \<and> scope \<noteq> [] then target_in_scope scope cs else []
        | None \<Rightarrow> if scope \<noteq> [] then [''command scope is required for tasks with declared write scopes''] else [])"

section \<open>What an accepted command writes\<close>

definition in_write_scope :: "string list \<Rightarrow> string \<Rightarrow> bool" where
  "in_write_scope scope target \<longleftrightarrow>
     safe_path (normalize_relative_path (PStr target)) \<and>
     list_ex (\<lambda>s. safe_path (normalize_relative_path (PStr s)) \<and>
       path_contains (normalize_relative_path (PStr s)) (normalize_relative_path (PStr target))) scope"

lemma target_in_write_scope: "target_in_scope scope target = [] \<Longrightarrow> target \<noteq> '''' \<Longrightarrow> in_write_scope scope target"
  using patch_in_scope [of "[(''targetPath'', PStr target), (''path'', PStr target)]" "map PStr scope"]
  by (auto simp: target_in_scope_def in_write_scope_def patch_target_def por_def dget_Cons list_ex_iff)

lemma path_target_nonempty: "t \<in> set (path_targets ts) \<Longrightarrow> t \<noteq> ''''"
  by (auto simp: path_targets_def set_dedupe looks_like_path_target_def to_slashes_def replace_char_def strip_def strip_by_def Let_def)

lemma command_target_nonempty: "t \<in> set (command_scope_targets command) \<Longrightarrow> t \<noteq> ''''"
  by (auto simp: command_scope_targets_def literal_path_targets_def Let_def split: if_splits list.splits prod.splits
      dest: path_target_nonempty)


definition sample_scopes :: scope_store where
  "sample_scopes =
     \<lparr>ss_collaboration = (\<lambda>i. if i = ''c'' then Some [(''metadata'', PDict [(''writeScope'', PList [PStr ''src/mine''])])] else None),
      ss_runtime = (\<lambda>i. Some [(''routing'', PDict [(''childCollaborationTaskId'', PStr ''c'')])])\<rparr>"

lemma sample_commands:
  "get_task_write_scope sample_scopes ''t'' = [''src/mine'']"
  "command_scope_targets ''cat src/mine/a.py'' = [''src/mine/a.py'']"
  "is_read_only_command ''cat src/mine/a.py'' = False"
  "check_command_allowed sample_scopes ''t'' (Some ''.'') ''cat src/mine/a.py'' = []"
  by code_simp+


text \<open>
  The check reads only the first word and the paths it knows: a deletion behind a test run
  counts as reading; a deletion outside the scope, started in a directory inside it, names no
  recognized target and is let through; yet reading a file outside the scope is refused.
\<close>

theorem command_scope_escapes:
  "check_command_allowed sample_scopes ''t'' (Some ''src/mine'') ''pytest; rm -rf src/other'' = [] \<and>
   check_command_allowed sample_scopes ''t'' (Some ''src/mine'') ''rm -rf ../other/a.py'' = [] \<and>
   check_command_allowed sample_scopes ''t'' (Some ''src/mine'') ''cat src/other/a.py'' \<noteq> []"
  by (intro conjI) code_simp+

end
