(* ===== verification/FileTools.thy ===== *)
theory FileTools
  imports Patch WriteScopes Permission
begin

text \<open>
  The two tools that change files, \<open>tools/apply_patch.py\<close> and \<open>tools/write_file.py\<close>, with the rows
  of \<open>store/proposal_store.py\<close> they read and write. Every call that changes the files, the approvals
  or the patches is modelled; the step list, the summaries of a result and trace events, which are
  for display, are not. The store's identifiers are numbered by a clock.
\<close>

section \<open>The store\<close>

record approval =
  ap_id :: string
  ap_task :: string
  ap_kind :: string
  ap_request :: pdict
  ap_decision :: "string option"

record stored_patch =
  sp_id :: string
  sp_task :: string
  sp_workspace :: string
  sp_diff :: string
  sp_status :: string
  sp_files :: nat

text \<open>
  The permission engine comes with the configuration that its store returns; without an engine
  the guard decides, with its own mode and the mode of the current policy.
\<close>

record tool_state =
  t_ws :: workspace
  t_scopes :: scope_store
  t_approvals :: "approval list"
  t_patches :: "stored_patch list"
  t_clock :: nat
  t_engine :: "(pv option \<times> engine) option"
  t_guard_mode :: string
  t_policy_mode :: string

definition find_row :: "('a \<Rightarrow> string) \<Rightarrow> string \<Rightarrow> 'a list \<Rightarrow> 'a option" where
  "find_row key i rows = find (\<lambda>r. key r = i) rows"

definition approval_by_id_or_none :: "tool_state \<Rightarrow> string \<Rightarrow> approval option" where
  "approval_by_id_or_none st i = (if i = '''' then None else find_row ap_id i (t_approvals st))"

definition create_approval :: "string \<Rightarrow> string \<Rightarrow> pdict \<Rightarrow> tool_state \<Rightarrow> approval \<times> tool_state" where
  "create_approval task kind req st =
     (let a = \<lparr>ap_id = ''appr_'' @ nat_digits (t_clock st), ap_task = task, ap_kind = kind, ap_request = req,
        ap_decision = None\<rparr>
      in (a, st\<lparr>t_approvals := t_approvals st @ [a], t_clock := Suc (t_clock st)\<rparr>))"

definition resolve_approval :: "string \<Rightarrow> string \<Rightarrow> tool_state \<Rightarrow> (approval \<times> tool_state) res" where
  "resolve_approval i dec st =
     (let st' = st\<lparr>t_approvals := map (\<lambda>a. if ap_id a = i then a\<lparr>ap_decision := Some dec\<rparr> else a) (t_approvals st)\<rparr> in
      case find_row ap_id i (t_approvals st') of None \<Rightarrow> Inl ValueErr | Some a \<Rightarrow> Inr (a, st'))"

definition create_patch :: "string \<Rightarrow> string \<Rightarrow> string \<Rightarrow> nat \<Rightarrow> string \<Rightarrow> tool_state \<Rightarrow> stored_patch \<times> tool_state" where
  "create_patch task workspace diff files status st =
     (let p = \<lparr>sp_id = ''patch_'' @ nat_digits (t_clock st), sp_task = task, sp_workspace = workspace, sp_diff = diff,
        sp_status = status, sp_files = files\<rparr>
      in (p, st\<lparr>t_patches := t_patches st @ [p], t_clock := Suc (t_clock st)\<rparr>))"

definition find_patch :: "string \<Rightarrow> string \<Rightarrow> string \<Rightarrow> tool_state \<Rightarrow> stored_patch option" where
  \<comment> \<open>the newest one\<close>
  "find_patch task workspace diff st =
     find (\<lambda>p. sp_task p = task \<and> sp_workspace p = workspace \<and> sp_diff p = diff) (rev (t_patches st))"

definition update_patch :: "(stored_patch \<Rightarrow> stored_patch) \<Rightarrow> string \<Rightarrow> tool_state \<Rightarrow> (stored_patch \<times> tool_state) res" where
  "update_patch change i st =
     (let st' = st\<lparr>t_patches := map (\<lambda>p. if sp_id p = i then change p else p) (t_patches st)\<rparr> in
      case find_row sp_id i (t_patches st') of None \<Rightarrow> Inl ValueErr | Some p \<Rightarrow> Inr (p, st'))"

section \<open>Permission\<close>

definition ask_permission :: "string \<Rightarrow> pdict \<Rightarrow> tool_state \<Rightarrow> decision res \<times> tool_state" where
  "ask_permission tool context st =
     (case t_engine st of
        Some (got, e) \<Rightarrow>
          (let (d, e') = evaluate got \<lparr>capability = ''writeFile'', tool_name = tool, request_context = context\<rparr> e
           in (rbind d (\<lambda>d. Inr (decision d)), st\<lparr>t_engine := Some (got, e')\<rparr>))
      | None \<Rightarrow> (Inr (if requires_approval (t_guard_mode st) (t_policy_mode st) tool then ApprovalRequired else Allow), st))"

definition display_keys :: "string list" where
  "display_keys =
     [''toolUseId'', ''parentToolUseId'', ''toolGroupId'', ''toolIndex'', ''toolTotal'', ''toolOperationId'', ''toolOperationLabel'',
      ''toolCategory'', ''toolPhaseId'', ''toolPhaseLabel'', ''toolSemanticParentId'', ''toolSemanticParentLabel'', ''target'',
      ''inputSummary'', ''displayTitle'', ''displaySummary'', ''displayTarget'', ''displayKind'']"

definition with_display_keys :: "pdict \<Rightarrow> pdict \<Rightarrow> pdict" where
  "with_display_keys params payload =
     foldl (\<lambda>d k. if py_mem (dget params k) [PNone, PStr '''', PList [], PDict []] then d else dput k (dget params k) d)
       payload display_keys"

definition text_param :: "pdict \<Rightarrow> string \<Rightarrow> string \<Rightarrow> string" where
  \<comment> \<open>\<open>str(params.get(a) or params.get(b) or "").strip()\<close>\<close>
  "text_param params a b = strip (py_str (por (por (dget params a) (dget params b)) (PStr '''')))"

definition has_workspace_root :: "pdict \<Rightarrow> bool" where
  "has_workspace_root params \<longleftrightarrow>
     truthy (por (por (dget params ''workspaceRoot'') (dget params ''workspace_root'')) (dget params ''rootPath''))"

definition root_text :: "workspace \<Rightarrow> string" where
  "root_text ws = ''/'' @ join ''/'' (ws_root ws)"

record tool_result =
  r_status :: string
  r_files :: nat
  r_paths :: "string list"
  r_diff :: string
  r_dry_run :: bool
  r_approval :: "string option"
  r_patch :: "string option"

definition result_of :: "string \<Rightarrow> nat \<Rightarrow> string list \<Rightarrow> string \<Rightarrow> bool \<Rightarrow> tool_result" where
  "result_of status files paths diff dry_run =
     \<lparr>r_status = status, r_files = files, r_paths = paths, r_diff = diff, r_dry_run = dry_run, r_approval = None, r_patch = None\<rparr>"

definition diff_path :: "string \<Rightarrow> string" where
  \<comment> \<open>\<open>_normalize_diff_path\<close>\<close>
  "diff_path p = (let s = strip p in if starts ''a/'' s \<or> starts ''b/'' s then drop 2 s else s)"

definition append_changed_path :: "string \<Rightarrow> string list \<Rightarrow> string list" where
  "append_changed_path p paths =
     (let n = diff_path p in if n \<noteq> '''' \<and> n \<noteq> ''/dev/null'' \<and> n \<notin> set paths then paths @ [n] else paths)"

definition diff_path_step :: "string list \<times> string \<Rightarrow> string \<Rightarrow> string list \<times> string" where
  "diff_path_step st line =
     (let (paths, old) = st in
      if starts ''diff --git '' line
      then (if 4 \<le> length (split_ws line) then (append_changed_path (split_ws line ! 3) paths, old) else (paths, old))
      else if starts ''--- '' line then (paths, strip (drop 4 line))
      else if starts ''+++ '' line
      then (append_changed_path (if strip (drop 4 line) \<noteq> ''/dev/null'' then strip (drop 4 line) else old) paths, old)
      else (paths, old))"

definition changed_paths_from_diff_text :: "string \<Rightarrow> string list" where
  "changed_paths_from_diff_text text = fst (foldl diff_path_step ([], '''') (split_lines False text))"

section \<open>Patches\<close>

definition patch_result :: "string \<Rightarrow> stored_patch \<Rightarrow> approval option \<Rightarrow> string list \<Rightarrow> bool \<Rightarrow> tool_result" where
  "patch_result status p a fallback dry_run =
     (let paths = changed_paths_from_diff_text (sp_diff p) in
      (result_of status (sp_files p) (if paths = [] then fallback else paths) (sp_diff p) dry_run)
        \<lparr>r_approval := map_option ap_id a, r_patch := Some (sp_id p)\<rparr>)"

fun apply_all :: "file_patch list \<Rightarrow> workspace \<Rightarrow> string list \<Rightarrow> string list res \<times> workspace" where
  \<comment> \<open>an exception leaves the files that were already written\<close>
  "apply_all [] ws paths = (Inr paths, ws)"
| "apply_all (p # ps) ws paths =
     (case apply_unified_diff_to_file False p ws of
        Inl e \<Rightarrow> (Inl e, ws)
      | Inr (relative, changed, ws') \<Rightarrow>
          apply_all ps ws' (if changed \<and> relative \<notin> set paths then paths @ [relative] else paths))"

definition apply_approved :: "bool \<Rightarrow> string list \<Rightarrow> stored_patch \<Rightarrow> tool_state \<Rightarrow> tool_result res \<times> tool_state" where
  \<comment> \<open>what follows the step \<open>patch approved\<close>\<close>
  "apply_approved dry_run validated p st =
     (if dry_run then (Inr (patch_result ''dry_run'' p None validated True), st)
      else case parse_unified_diff (sp_diff p) of
        Inl e \<Rightarrow> (Inl e, st)
      | Inr patches \<Rightarrow>
          (let (applied, ws') = apply_all patches (t_ws st) []; st' = st\<lparr>t_ws := ws'\<rparr> in
           case applied of
             Inl e \<Rightarrow> (Inl e, st')
           | Inr paths \<Rightarrow>
               (case update_patch (\<lambda>q. q\<lparr>sp_status := ''applied'', sp_diff := sp_diff p,
                    sp_files := (if paths = [] then sp_files p else length paths)\<rparr>) (sp_id p) st' of
                  Inl e \<Rightarrow> (Inl e, st')
                | Inr (q, st'') \<Rightarrow>
                    (Inr (patch_result ''applied'' q None (if paths = [] then validated else paths) False), st''))))"

definition decided_patch :: "string \<Rightarrow> patch_request \<Rightarrow> approval \<Rightarrow> tool_state \<Rightarrow> (stored_patch \<times> tool_state) res" where
  \<comment> \<open>the stored patch of a request that has an approval\<close>
  "decided_patch task req a st =
     (let approved = ap_decision a = Some ''approved'' in
      case find_patch task (root_text (t_ws st)) (pr_diff req) st of
        None \<Rightarrow> Inr (create_patch task (root_text (t_ws st)) (pr_diff req) (pr_files_changed req)
                  (if approved then ''approved'' else ''proposed'') st)
      | Some p \<Rightarrow>
          if approved \<and> sp_status p = ''proposed'' then update_patch (\<lambda>q. q\<lparr>sp_status := ''approved''\<rparr>) (sp_id p) st
          else Inr (p, st))"

definition with_approval ::
  "string \<Rightarrow> pdict \<Rightarrow> patch_request \<Rightarrow> bool \<Rightarrow> string list \<Rightarrow> approval \<Rightarrow> tool_state \<Rightarrow> tool_result res \<times> tool_state" where
  "with_approval task payload req dry_run validated a st =
     (if ap_task a \<noteq> task \<or> ap_kind a \<noteq> ''apply_patch'' \<or> \<not> py_eq (PDict (ap_request a)) (PDict payload)
      then (Inl ValueErr, st)
      else case decided_patch task req a st of
        Inl e \<Rightarrow> (Inl e, st)
      | Inr (p, st') \<Rightarrow>
          if ap_decision a \<noteq> Some ''approved''
          then (Inr (patch_result ''approval_required'' p (Some a) validated dry_run), st')
          else apply_approved dry_run validated p st')"

definition without_approval ::
  "pv \<Rightarrow> string \<Rightarrow> pdict \<Rightarrow> patch_request \<Rightarrow> bool \<Rightarrow> string list \<Rightarrow> tool_state \<Rightarrow> tool_result res \<times> tool_state" where
  "without_approval signals task payload req dry_run validated st =
     (let (d, st1) = ask_permission ''apply_patch''
            [(''changedPaths'', PList (map PStr validated)), (''untrustedContentSignals'', signals)] st;
          create = create_patch task (root_text (t_ws st)) (pr_diff req) (pr_files_changed req)
      in case d of
        Inl e \<Rightarrow> (Inl e, st1)
      | Inr Deny \<Rightarrow> (Inr (result_of ''blocked'' (pr_files_changed req) validated (pr_diff req) dry_run), st1)
      | Inr Allow \<Rightarrow> (let (p, st2) = create ''approved'' st1 in apply_approved dry_run validated p st2)
      | Inr ApprovalRequired \<Rightarrow>
          (let (p, st2) = create ''proposed'' st1; (a, st3) = create_approval task ''apply_patch'' payload st2
           in (Inr (patch_result ''approval_required'' p (Some a) validated dry_run), st3)))"

definition patch_payload :: "pdict \<Rightarrow> string \<Rightarrow> patch_request \<Rightarrow> bool \<Rightarrow> workspace \<Rightarrow> pdict" where
  "patch_payload params task req dry_run ws =
     with_display_keys params (build_patch_request_payload task (root_text ws) req dry_run
       (if pr_mode req = ''patchText''
        then Some (py_str (por (por (dget params ''patchText'') (dget params ''patch_text'')) (PStr (pr_diff req)))) else None)
       (if pr_mode req = ''files'' \<and> dget params ''files'' \<noteq> PNone then Some (dget params ''files'') else None))"

definition apply_patch :: "differ \<Rightarrow> pdict \<Rightarrow> tool_state \<Rightarrow> tool_result res \<times> tool_state" where
  "apply_patch differ params st =
     (let task = text_param params ''taskId'' ''task_id''; approval_id = text_param params ''approvalId'' ''approval_id'';
          dry_run = truthy (dget_or params ''dry_run'' (dget_or params ''dryRun'' (PBool False)));
          given = py_str (por (por (dget params ''patchText'') (dget params ''patch_text'')) (PStr '''')) in
      if \<not> has_workspace_root params \<or> task = '''' then (Inl ValueErr, st)
      else case build_patch_request differ (t_ws st) params of
        Inl _ \<Rightarrow> (Inr (result_of ''validation_failed'' 0 [] given True), st)
      | Inr req \<Rightarrow>
          (let payload = patch_payload params task req dry_run (t_ws st) in
           case validate_patch_request (t_ws st) (pr_diff req) of
             Inl _ \<Rightarrow> (Inr (result_of ''validation_failed'' (pr_files_changed req) (pr_paths req) (pr_diff req) True), st)
           | Inr validated \<Rightarrow>
               if concat (map (check_patch_in_scope (t_scopes st) task) validated) \<noteq> [] then (Inl ValueErr, st)
               else (case approval_by_id_or_none st approval_id of
                 Some a \<Rightarrow> with_approval task payload req dry_run validated a st
               | None \<Rightarrow> without_approval (dget params ''untrustedContentSignals'') task payload req dry_run validated st)))"

section \<open>Whole files\<close>

text \<open>The target of \<open>write_file\<close> is a resolved path; \<open>relative_path\<close> is what remains below the root.\<close>

definition relative_path :: "workspace \<Rightarrow> string list \<Rightarrow> string" where
  "relative_path ws file = (let cs = drop (length (ws_root ws)) file in if cs = [] then ''.'' else join ''/'' cs)"

definition resolve_workspace_path :: "workspace \<Rightarrow> string \<Rightarrow> string list res" where
  "resolve_workspace_path ws candidate =
     (let path = (if candidate = '''' then ''.'' else candidate) in
      rbind (ensure_within_workspace (ws_resolve ws) (ws_root ws) path) (\<lambda>_. Inr (ws_resolve ws path)))"

definition build_write_file_diff :: "differ \<Rightarrow> string \<Rightarrow> string \<Rightarrow> string \<Rightarrow> bool \<Rightarrow> string" where
  "build_write_file_diff differ path old new is_new =
     join [CHR 0x0A] (differ (split_lines False old) (split_lines False new)
       (if is_new then ''/dev/null'' else ''a/'' @ path) (''b/'' @ path))"

definition write_payload :: "pdict \<Rightarrow> string \<Rightarrow> string \<Rightarrow> string \<Rightarrow> workspace \<Rightarrow> pdict" where
  "write_payload params task path diff ws =
     with_display_keys params
       [(''taskId'', PStr task), (''workspaceRoot'', PStr (root_text ws)), (''path'', PStr path),
        (''content'', dget_or params ''content'' (PStr '''')), (''encoding'', dget_or params ''encoding'' (PStr ''utf-8'')),
        (''create_dirs'', PBool (truthy (dget_or params ''create_dirs'' (PBool True)))),
        (''overwrite'', PBool (truthy (dget_or params ''overwrite'' (PBool True)))), (''filesChanged'', PInt 1),
        (''changedPaths'', PList [PStr path]), (''diffText'', PStr diff)]"

definition write_now :: "string list \<Rightarrow> string \<Rightarrow> string \<Rightarrow> string \<Rightarrow> tool_state \<Rightarrow> tool_result res \<times> tool_state" where
  "write_now file path content diff st =
     (Inr (result_of ''written'' 1 [path] diff False), st\<lparr>t_ws := write_file_at file (Some content) (t_ws st)\<rparr>)"

definition write_decided ::
  "pdict \<Rightarrow> string \<Rightarrow> string list \<Rightarrow> string \<Rightarrow> string \<Rightarrow> string \<Rightarrow> tool_state \<Rightarrow> tool_result res \<times> tool_state" where
  \<comment> \<open>from the request on: the approval, or the permission, then the write\<close>
  "write_decided params task file path content diff st =
     (let req = write_payload params task path diff (t_ws st); wait = result_of ''approval_required'' 1 [path] diff False in
      case approval_by_id_or_none st (text_param params ''approvalId'' ''approval_id'') of
        Some a \<Rightarrow>
          if ap_task a \<noteq> task \<or> ap_kind a \<noteq> ''write_file'' \<or> \<not> py_eq (PDict (ap_request a)) (PDict req)
          then (Inl ValueErr, st)
          else if ap_decision a \<noteq> Some ''approved'' then (Inr (wait\<lparr>r_approval := Some (ap_id a)\<rparr>), st)
          else write_now file path content diff st
      | None \<Rightarrow>
          (case ask_permission ''write_file''
             [(''path'', PStr path), (''untrustedContentSignals'', dget params ''untrustedContentSignals'')] st of
             (Inl e, st1) \<Rightarrow> (Inl e, st1)
           | (Inr Deny, st1) \<Rightarrow> (Inr (result_of ''blocked'' 1 [path] diff False), st1)
           | (Inr Allow, st1) \<Rightarrow> write_now file path content diff st1
           | (Inr ApprovalRequired, st1) \<Rightarrow>
               (let (a, st2) = create_approval task ''write_file'' req st1
                in (Inr (wait\<lparr>r_approval := Some (ap_id a)\<rparr>), st2))))"

definition write_checked :: "pdict \<Rightarrow> string \<Rightarrow> string list \<Rightarrow> string \<Rightarrow> differ \<Rightarrow> tool_state \<Rightarrow> tool_result res \<times> tool_state" where
  \<comment> \<open>from the diff on\<close>
  "write_checked params task file path differ st =
     (let content = py_str (dget_or params ''content'' (PStr '''')); is_new = ws_files (t_ws st) file = None;
          old = (case original_text (t_ws st) file of Some t \<Rightarrow> t | None \<Rightarrow> '''');
          diff = build_write_file_diff differ path old content is_new in
      if \<not> is_new \<and> \<not> truthy (dget_or params ''overwrite'' (PBool True)) then (Inl ValueErr, st)
      else if \<not> is_new \<and> diff = '''' then (Inr (result_of ''unchanged'' 0 [] '''' False), st)
      else write_decided params task file path content diff st)"

definition path_param :: "pdict \<Rightarrow> string res" where
  \<comment> \<open>\<open>params["path"]\<close>, with the default of a false value\<close>
  "path_param params =
     (if \<not> dhas params ''path'' then Inl KeyErr
      else case dget params ''path'' of PStr s \<Rightarrow> Inr s | v \<Rightarrow> if truthy v then Inl TypeErr else Inr '''')"

definition write_file :: "differ \<Rightarrow> pdict \<Rightarrow> tool_state \<Rightarrow> tool_result res \<times> tool_state" where
  "write_file differ params st =
     (let task = text_param params ''taskId'' ''task_id'' in
      if \<not> has_workspace_root params then (Inl ValueErr, st)
      else case rbind (path_param params) (resolve_workspace_path (t_ws st)) of
        Inl e \<Rightarrow> (Inl e, st)
      | Inr file \<Rightarrow>
          (let path = relative_path (t_ws st) file in
           if task = '''' \<or> ensure_write_path_allowed path \<noteq> Inr () \<or> check_patch_in_scope (t_scopes st) task path \<noteq> []
           then (Inl ValueErr, st)
           else write_checked params task file path differ st))"

section \<open>Where a patch writes\<close>

lemma join_nonempty: "cs \<noteq> [] \<Longrightarrow> '''' \<notin> set cs \<Longrightarrow> join sep cs \<noteq> []"
  by (induction sep cs rule: join.induct) auto

lemma posix_path_nonempty: "posix_path p \<noteq> ''''"
  using join_nonempty [of "filter (\<lambda>c. c \<noteq> '''' \<and> c \<noteq> ''.'') (split_on CHR ''/'' p)" "''/''"]
  by (auto simp: posix_path_def Let_def)

definition writable :: "workspace \<Rightarrow> string \<Rightarrow> string list \<Rightarrow> bool" where
  \<comment> \<open>the path names the file, which is inside the workspace and neither generated nor local\<close>
  "writable ws relative file \<longleftrightarrow>
     file = ws_resolve ws relative \<and> prefix (ws_root ws) file \<and> generated_or_local_path_reason relative = None"

lemma normalize_patch_path_writable:
  "normalize_patch_path ws p = Inr (relative, file) \<Longrightarrow> writable ws relative file \<and> relative \<noteq> ''''"
  by (auto simp: normalize_patch_path_def writable_def ensure_within_workspace_def ensure_write_path_allowed_def
      posix_path_nonempty rbind_eq_Inr Let_def split: if_splits option.splits)

lemma patch_source_writable:
  "patch_source ws p = Inr (relative, file, ls) \<Longrightarrow> writable ws relative file \<and> relative \<noteq> ''''"
  by (auto simp: patch_source_def rbind_eq_Inr dest!: normalize_patch_path_writable split: if_splits option.splits)

definition same_place :: "workspace \<Rightarrow> workspace \<Rightarrow> bool" where
  "same_place ws ws' \<longleftrightarrow> ws_root ws' = ws_root ws \<and> ws_resolve ws' = ws_resolve ws"

lemma normalize_same_place: "same_place ws ws' \<Longrightarrow> normalize_patch_path ws' p = normalize_patch_path ws p"
  unfolding same_place_def normalize_patch_path_def by (elim conjE) (simp only:)

lemma patch_source_local:
  assumes "patch_source ws p = Inr (relative, file, ls)" "same_place ws ws'" "ws_files ws' file = ws_files ws file"
  shows "patch_source ws' p = Inr (relative, file, ls)"
proof (cases "fp_old p = ''/dev/null''")
  case True
  then show ?thesis using assms by (simp add: patch_source_def normalize_same_place)
next
  case False
  let ?q = "if fp_new p = ''/dev/null'' \<or> fp_new p = '''' then fp_old p else fp_new p"
  have "normalize_patch_path ws ?q = Inr (relative, file) \<and>
      (\<exists>t. original_text ws file = Some t \<and> ls = split_lines True t)"
    using assms(1) False by (auto simp: patch_source_def rbind_eq_Inr split: option.splits if_splits)
  moreover have "original_text ws' file = original_text ws file" using assms(3) by (simp add: original_text_def)
  ultimately show ?thesis using False assms(2) by (auto simp: patch_source_def normalize_same_place)
qed

lemma apply_changes:
  assumes "apply_unified_diff_to_file False p ws = Inr (relative, changed, ws')"
  shows "same_place ws ws'"
    "ws_files ws' f \<noteq> ws_files ws f \<Longrightarrow> writable ws relative f \<and> relative \<noteq> '''' \<and> changed"
    "ws_files ws' f \<noteq> ws_files ws f \<Longrightarrow> same_place ws ws0 \<Longrightarrow> ws_files ws0 f = ws_files ws f \<Longrightarrow>
       apply_unified_diff_to_file True p ws0 = Inr (relative, True, ws0)"
proof -
  from assms obtain relative' target ls out where s': "patch_source ws p = Inr (relative', target, ls)"
      "apply_hunks ls (fp_hunks p) = Inr out"
    by (auto simp: apply_unified_diff_to_file_def rbind_eq_Inr)
  then have "relative' = relative" using assms by (auto simp: apply_unified_diff_to_file_def split: if_splits)
  with s' have s: "patch_source ws p = Inr (relative, target, ls)" "apply_hunks ls (fp_hunks p) = Inr out" by simp_all
  show "same_place ws ws'"
    using assms by (auto simp: apply_unified_diff_to_file_def s same_place_def write_file_at_def split: if_splits)
  assume d: "ws_files ws' f \<noteq> ws_files ws f"
  then have f: "f = target" and c: "changed"
    and e: "fp_new p = ''/dev/null'' \<or> \<not> (fp_old p \<noteq> ''/dev/null'' \<and> concat out = concat ls)"
    using assms by (auto simp: apply_unified_diff_to_file_def s write_file_at_def split: if_splits)
  show "writable ws relative f \<and> relative \<noteq> '''' \<and> changed" using patch_source_writable [OF s(1)] f c by simp
  assume "same_place ws ws0" "ws_files ws0 f = ws_files ws f"
  then have "patch_source ws0 p = Inr (relative, target, ls)" using patch_source_local [OF s(1)] f by simp
  then show "apply_unified_diff_to_file True p ws0 = Inr (relative, True, ws0)"
    using e by (auto simp: apply_unified_diff_to_file_def s)
qed

lemma same_place_trans: "same_place a b \<Longrightarrow> same_place b c \<Longrightarrow> same_place a c"
  by (simp add: same_place_def)

text \<open>
  A file that the patches change, one after the other, is changed by one of them in a dry run on
  the original files: the first of them finds it as it was.
\<close>

lemma apply_all_dry_run:
  assumes "apply_all ps ws paths = (r, ws')" "ws_files ws' f \<noteq> ws_files ws0 f" "same_place ws0 ws"
    "ws_files ws f = ws_files ws0 f"
  shows "\<exists>p \<in> set ps. \<exists>relative. apply_unified_diff_to_file True p ws0 = Inr (relative, True, ws0) \<and>
    writable ws0 relative f \<and> relative \<noteq> ''''"
  using assms
proof (induction ps ws paths rule: apply_all.induct)
  case (1 ws paths)
  then show ?case by simp
next
  case (2 p ps ws paths)
  show ?case
  proof (cases "apply_unified_diff_to_file False p ws")
    case (Inl e)
    then show ?thesis using "2.prems" by simp
  next
    case (Inr x)
    obtain relative changed ws1 where x: "x = (relative, changed, ws1)" by (cases x)
    note a = Inr [unfolded x]
    have rest: "apply_all ps ws1 (if changed \<and> relative \<notin> set paths then paths @ [relative] else paths) = (r, ws')"
      using "2.prems"(1) a by simp
    show ?thesis
    proof (cases "ws_files ws1 f = ws_files ws f")
      case True
      from "2.IH" [OF a refl refl rest] "2.prems" True apply_changes(1) [OF a] show ?thesis
        by (auto dest: same_place_trans)
    next
      case False
      have "same_place ws ws0" using "2.prems"(3) by (simp add: same_place_def)
      from apply_changes(2,3) [OF a False] this "2.prems"(4)
      have "apply_unified_diff_to_file True p ws0 = Inr (relative, True, ws0)" "writable ws relative f" "relative \<noteq> ''''"
        by auto
      moreover have "writable ws0 relative f" using calculation(2) "2.prems"(3) unfolding writable_def same_place_def by (elim conjE) (simp only: simp_thms)
      ultimately show ?thesis by auto
    qed
  qed
qed

lemma validated_path_grows: "validated_path ws p paths = Inr paths' \<Longrightarrow> set paths \<subseteq> set paths'"
  by (auto simp: validated_path_def rbind_eq_Inr split: if_splits)

lemma validated_grow: "rfold (validated_path ws) ps paths = Inr paths' \<Longrightarrow> set paths \<subseteq> set paths'"
  by (induction ps arbitrary: paths) (auto simp: rbind_eq_Inr dest!: validated_path_grows)

lemma validated_member:
  assumes "rfold (validated_path ws) ps paths = Inr paths'" "p \<in> set ps"
    "apply_unified_diff_to_file True p ws = Inr (relative, True, ws)" "relative \<noteq> ''''"
  shows "relative \<in> set paths'"
  using assms(1,2)
proof (induction ps arbitrary: paths)
  case (Cons q ps)
  then obtain paths1 where 1: "validated_path ws q paths = Inr paths1" "rfold (validated_path ws) ps paths1 = Inr paths'"
    by (auto simp: rbind_eq_Inr)
  show ?case
  proof (cases "q = p")
    case True
    then have "relative \<in> set paths1" using 1(1) assms(3,4) by (auto simp: validated_path_def split: if_splits)
    then show ?thesis using validated_grow [OF 1(2)] by blast
  next
    case False
    then show ?thesis using Cons.IH [OF 1(2)] Cons.prems(2) by simp
  qed
qed simp

lemma find_row_updated:
  assumes "p \<in> set rows" "distinct (map key rows)" "\<And>q. key (change q) = key q"
  shows "find_row key (key p) (map (\<lambda>q. if key q = key p then change q else q) rows) = Some (change p)"
  using assms(1,2)
proof (induction rows)
  case (Cons r rows)
  then show ?case by (cases "key r = key p") (auto simp: find_row_def assms(3) dest: image_eqI)
qed simp

lemma find_patch_Some:
  "find_patch task workspace diff st = Some p \<Longrightarrow> p \<in> set (t_patches st) \<and> sp_diff p = diff"
  by (auto simp: find_patch_def find_Some_iff) (metis length_rev nth_mem set_rev)

lemma decided_patch_facts:
  assumes "decided_patch task req a st = Inr (p, st')" "distinct (map sp_id (t_patches st))"
  shows "sp_diff p = pr_diff req \<and> t_ws st' = t_ws st"
proof (cases "find_patch task (root_text (t_ws st)) (pr_diff req) st")
  case None
  then show ?thesis using assms by (auto simp: decided_patch_def create_patch_def Let_def)
next
  case (Some q)
  note q = find_patch_Some [OF this]
  have "find_row sp_id (sp_id q) (map (\<lambda>r. if sp_id r = sp_id q then r\<lparr>sp_status := ''approved''\<rparr> else r) (t_patches st)) =
      Some (q\<lparr>sp_status := ''approved''\<rparr>)"
    by (rule find_row_updated) (use q assms(2) in auto)
  then show ?thesis
    using assms(1) Some q by (auto simp: decided_patch_def update_patch_def Let_def split: if_splits)
qed

lemma apply_approved_files:
  assumes "apply_approved dry_run validated p st = (r, st')" "ws_files (t_ws st') f \<noteq> ws_files (t_ws st) f"
  shows "\<not> dry_run \<and> (\<exists>ps paths. parse_unified_diff (sp_diff p) = Inr ps \<and> apply_all ps (t_ws st) [] = (paths, t_ws st'))"
  using assms
  by (auto simp: apply_approved_def update_patch_def Let_def split: if_splits sum.splits prod.splits option.splits)

lemma ask_permission_ws: "ask_permission tool context st = (d, st') \<Longrightarrow> t_ws st' = t_ws st"
  by (auto simp: ask_permission_def split: option.splits prod.splits)

definition patch_authorized :: "differ \<Rightarrow> pdict \<Rightarrow> tool_state \<Rightarrow> bool" where
  \<comment> \<open>an approved approval of this task for this very request, or else the permission without one\<close>
  "patch_authorized differ params st \<longleftrightarrow>
     (let task = text_param params ''taskId'' ''task_id'' in
      case approval_by_id_or_none st (text_param params ''approvalId'' ''approval_id'') of
        Some a \<Rightarrow>
          ap_task a = task \<and> ap_kind a = ''apply_patch'' \<and> ap_decision a = Some ''approved'' \<and>
          (\<exists>req. build_patch_request differ (t_ws st) params = Inr req \<and>
            py_eq (PDict (ap_request a)) (PDict (patch_payload params task req False (t_ws st))))
      | None \<Rightarrow> \<exists>context. fst (ask_permission ''apply_patch'' context st) = Inr Allow)"

lemma patch_in_place:
  assumes "apply_approved dry_run validated p st1 = (r, st')" "ws_files (t_ws st') f \<noteq> ws_files (t_ws st1) f"
    "validate_patch_request (t_ws st1) (sp_diff p) = Inr validated"
    "concat (map (check_patch_in_scope scopes task) validated) = []"
  shows "\<not> dry_run \<and> (\<exists>relative. writable (t_ws st1) relative f \<and>
    (get_task_write_scope scopes task = [] \<or> in_write_scope (get_task_write_scope scopes task) relative))"
proof -
  from apply_approved_files [OF assms(1,2)] obtain ps paths where ps: "\<not> dry_run"
      "parse_unified_diff (sp_diff p) = Inr ps" "apply_all ps (t_ws st1) [] = (paths, t_ws st')"
    by blast
  have "same_place (t_ws st1) (t_ws st1)" by (simp add: same_place_def)
  from apply_all_dry_run [OF ps(3) assms(2) this refl] obtain q relative where
    q: "q \<in> set ps" "apply_unified_diff_to_file True q (t_ws st1) = Inr (relative, True, t_ws st1)"
      "writable (t_ws st1) relative f" "relative \<noteq> ''''"
    by blast
  have "rfold (validated_path (t_ws st1)) ps [] = Inr validated"
    using assms(3) ps(2) by (auto simp: validate_patch_request_def rbind_eq_Inr split: if_splits)
  from validated_member [OF this q(1,2,4)] have "check_patch_in_scope scopes task relative = []"
    using assms(4) by simp
  then have "get_task_write_scope scopes task = [] \<or> in_write_scope (get_task_write_scope scopes task) relative"
    using target_in_write_scope [OF _ q(4)] by (auto simp: check_patch_in_scope_def Let_def split: if_splits)
  then show ?thesis using ps(1) q(3) by blast
qed

lemma with_approval_governed:
  assumes "with_approval task payload req dry_run validated a st = (r, st')"
    "ws_files (t_ws st') f \<noteq> ws_files (t_ws st) f" "distinct (map sp_id (t_patches st))"
  shows "ap_task a = task \<and> ap_kind a = ''apply_patch'' \<and> ap_decision a = Some ''approved'' \<and>
    py_eq (PDict (ap_request a)) (PDict payload) \<and>
    (\<exists>p st1. sp_diff p = pr_diff req \<and> t_ws st1 = t_ws st \<and> apply_approved dry_run validated p st1 = (r, st'))"
proof -
  have checks: "ap_task a = task" "ap_kind a = ''apply_patch''" "py_eq (PDict (ap_request a)) (PDict payload)"
    using assms(1,2) by (auto simp: with_approval_def split: if_splits)
  obtain p st1 where d: "decided_patch task req a st = Inr (p, st1)"
    using assms(1,2) checks by (cases "decided_patch task req a st") (auto simp: with_approval_def)
  note facts = decided_patch_facts [OF d assms(3)]
  have "ap_decision a = Some ''approved''"
    using assms(1,2) checks d facts by (cases "ap_decision a = Some ''approved''") (auto simp: with_approval_def)
  then have "apply_approved dry_run validated p st1 = (r, st')" using assms(1) checks d by (simp add: with_approval_def)
  then show ?thesis using checks \<open>ap_decision a = Some ''approved''\<close> facts by blast
qed

lemma without_approval_governed:
  assumes "without_approval signals task payload req dry_run validated st = (r, st')"
    "ws_files (t_ws st') f \<noteq> ws_files (t_ws st) f"
  shows "(\<exists>context. fst (ask_permission ''apply_patch'' context st) = Inr Allow) \<and>
    (\<exists>p st1. sp_diff p = pr_diff req \<and> t_ws st1 = t_ws st \<and> apply_approved dry_run validated p st1 = (r, st'))"
proof -
  let ?c = "[(''changedPaths'', PList (map PStr validated)), (''untrustedContentSignals'', signals)]"
  obtain d st1 where a: "ask_permission ''apply_patch'' ?c st = (d, st1)" by (cases "ask_permission ''apply_patch'' ?c st")
  note ws = ask_permission_ws [OF a]
  have d: "d = Inr Allow"
    using assms a ws
    by (auto simp: without_approval_def create_patch_def create_approval_def Let_def split: sum.splits decision.splits)
  obtain p st2 where c: "create_patch task (root_text (t_ws st)) (pr_diff req) (pr_files_changed req) ''approved'' st1 = (p, st2)"
    by (cases "create_patch task (root_text (t_ws st)) (pr_diff req) (pr_files_changed req) ''approved'' st1")
  then have "sp_diff p = pr_diff req" "t_ws st2 = t_ws st" using ws by (auto simp: create_patch_def Let_def)
  moreover have "apply_approved dry_run validated p st2 = (r, st')" using assms(1) a d c by (simp add: without_approval_def)
  moreover have "fst (ask_permission ''apply_patch'' ?c st) = Inr Allow" using a d by simp
  ultimately show ?thesis by blast
qed


definition write_authorized :: "differ \<Rightarrow> pdict \<Rightarrow> string \<Rightarrow> tool_state \<Rightarrow> bool" where
  \<comment> \<open>likewise for \<open>write_file\<close>, whose request names the resolved path\<close>
  "write_authorized differ params path st \<longleftrightarrow>
     (let task = text_param params ''taskId'' ''task_id'' in
      case approval_by_id_or_none st (text_param params ''approvalId'' ''approval_id'') of
        Some a \<Rightarrow>
          ap_task a = task \<and> ap_kind a = ''write_file'' \<and> ap_decision a = Some ''approved'' \<and>
          (\<exists>diff. py_eq (PDict (ap_request a)) (PDict (write_payload params task path diff (t_ws st))))
      | None \<Rightarrow> \<exists>context. fst (ask_permission ''write_file'' context st) = Inr Allow)"

lemma write_decided_governed:
  assumes "write_decided params task file path content diff st = (r, st')" "t_ws st' \<noteq> t_ws st"
  shows "t_ws st' = write_file_at file (Some content) (t_ws st)"
    "task = text_param params ''taskId'' ''task_id'' \<Longrightarrow> write_authorized differ params path st"
proof -
  let ?c = "[(''path'', PStr path), (''untrustedContentSignals'', dget params ''untrustedContentSignals'')]"
  obtain d st1 where a: "ask_permission ''write_file'' ?c st = (d, st1)" by (cases "ask_permission ''write_file'' ?c st")
  note ws = ask_permission_ws [OF a]
  have "t_ws st' = write_file_at file (Some content) (t_ws st) \<and>
    (task = text_param params ''taskId'' ''task_id'' \<longrightarrow> write_authorized differ params path st)"
  proof (cases "approval_by_id_or_none st (text_param params ''approvalId'' ''approval_id'')")
    case None
    then have "d = Inr Allow" "t_ws st' = write_file_at file (Some content) (t_ws st)"
      using assms a ws
      by (auto simp: write_decided_def write_now_def create_approval_def Let_def split: sum.splits decision.splits)
    moreover have "fst (ask_permission ''write_file'' ?c st) = d" by (simp add: a)
    ultimately show ?thesis using None by (auto simp: write_authorized_def Let_def intro!: exI [of _ ?c])
  next
    case (Some b)
    then show ?thesis
      using assms by (auto simp: write_decided_def write_now_def write_authorized_def Let_def split: if_splits)
  qed
  then show "t_ws st' = write_file_at file (Some content) (t_ws st)"
    "task = text_param params ''taskId'' ''task_id'' \<Longrightarrow> write_authorized differ params path st" by simp_all
qed

text \<open>
  C21. A call of \<open>write_file\<close> changes at most one file, which then holds the content given. It lies
  inside the workspace; its resolved path below the root is no generated or local file and is
  inside the write scope of the task when it has one; and the write was authorized for it.
  (A resolved path has no empty component, so its relative path is not empty.)
\<close>

theorem writes_governed:
  assumes "write_file differ params st = (r, st')" "t_ws st' \<noteq> t_ws st"
  shows "\<exists>file. let path = relative_path (t_ws st) file;
        scope = get_task_write_scope (t_scopes st) (text_param params ''taskId'' ''task_id'') in
      t_ws st' = write_file_at file (Some (py_str (dget_or params ''content'' (PStr '''')))) (t_ws st) \<and>
      prefix (ws_root (t_ws st)) file \<and> generated_or_local_path_reason path = None \<and>
      (scope = [] \<or> path = '''' \<or> in_write_scope scope path) \<and> write_authorized differ params path st"
proof -
  let ?task = "text_param params ''taskId'' ''task_id''" and ?content = "py_str (dget_or params ''content'' (PStr ''''))"
  obtain target where f: "rbind (path_param params) (resolve_workspace_path (t_ws st)) = Inr target"
    using assms
    by (cases "rbind (path_param params) (resolve_workspace_path (t_ws st))") (auto simp: write_file_def Let_def split: if_splits)
  let ?path = "relative_path (t_ws st) target"
  have c: "ensure_write_path_allowed ?path = Inr ()" "check_patch_in_scope (t_scopes st) ?task ?path = []"
    and w: "write_checked params ?task target ?path differ st = (r, st')"
    using assms f by (auto simp: write_file_def Let_def split: if_splits)
  have inside: "prefix (ws_root (t_ws st)) target"
    using f by (auto simp: rbind_eq_Inr resolve_workspace_path_def ensure_within_workspace_def Let_def split: if_splits)
  have scope: "get_task_write_scope (t_scopes st) ?task = [] \<or> ?path = '''' \<or>
      in_write_scope (get_task_write_scope (t_scopes st) ?task) ?path"
    using c(2) target_in_write_scope by (auto simp: check_patch_in_scope_def Let_def split: if_splits)
  obtain diff where "write_decided params ?task target ?path ?content diff st = (r, st')"
    using w assms(2) by (auto simp: write_checked_def Let_def split: if_splits)
  note d = write_decided_governed [OF this assms(2)]
  have "generated_or_local_path_reason ?path = None"
    using c(1) by (auto simp: ensure_write_path_allowed_def split: option.splits)
  then show ?thesis using d(1) d(2) [OF refl, of differ] inside scope by (auto simp: Let_def)
qed

section \<open>Examples\<close>

text \<open>A workspace whose directory \<open>src/mine/link\<close> is a link to \<open>src/other\<close>.\<close>

definition follow_link :: "string list \<Rightarrow> string list" where
  "follow_link cs = (if take 3 cs = [''src'', ''mine'', ''link''] then [''src'', ''other''] @ drop 3 cs else cs)"

definition linked :: workspace where
  "linked =
     \<lparr>ws_root = [''w''], ws_resolve = (\<lambda>p. ''w'' # follow_link (split_on CHR ''/'' p)),
      ws_files = [[''w'', ''src'', ''mine'', ''a''] \<mapsto> ''x'' @ [CHR 0x0A], [''w'', ''src'', ''other'', ''b''] \<mapsto> ''y'' @ [CHR 0x0A]]\<rparr>"

definition tools_off :: tool_state where
  \<comment> \<open>no engine, approvals switched off, the task \<open>t\<close> limited to \<open>src/mine\<close>\<close>
  "tools_off =
     \<lparr>t_ws = linked, t_scopes = sample_scopes, t_approvals = [], t_patches = [], t_clock = 0, t_engine = None,
      t_guard_mode = ''on_write_or_command'', t_policy_mode = ''off''\<rparr>"

definition text_lines :: "string list \<Rightarrow> string" where
  "text_lines ls = concat (map (\<lambda>l. l @ [CHR 0x0A]) ls)"

definition no_diff :: differ where
  "no_diff old new old_name new_name = []"

definition some_diff :: differ where
  \<comment> \<open>tells equal lines from others, as every differ does\<close>
  "some_diff old new old_name new_name = (if old = new then [] else [''--- '' @ old_name, ''+++ '' @ new_name])"

definition patch_call :: "string list \<Rightarrow> pdict" where
  "patch_call ls = [(''workspaceRoot'', PStr ''/w''), (''taskId'', PStr ''t''), (''patchText'', PStr (text_lines ls))]"

definition write_call :: "string \<Rightarrow> string \<Rightarrow> pdict" where
  "write_call path content =
     [(''workspaceRoot'', PStr ''/w''), (''taskId'', PStr ''t''), (''path'', PStr path), (''content'', PStr content)]"

definition edit_a :: "string list" where
  "edit_a = [''--- a/src/mine/a'', ''+++ b/src/mine/a'', ''@@ -1,1 +1,1 @@'', ''-x'', ''+z'']"

definition edit_link :: "string list" where
  "edit_link = [''--- a/src/mine/link/b'', ''+++ b/src/mine/link/b'', ''@@ -1,1 +1,1 @@'', ''-y'', ''+z'']"

definition content_after :: "tool_result res \<times> tool_state \<Rightarrow> string list \<Rightarrow> string option" where
  "content_after x f = ws_files (t_ws (snd x)) f"

definition status_of :: "tool_result res \<times> tool_state \<Rightarrow> string res" where
  "status_of x = rbind (fst x) (\<lambda>r. Inr (r_status r))"

text \<open>
  Departures from what the two tools promise: a patch of two parts can fail at the second with
  the first already written, though both passed the dry run; a patch reaches outside the write
  scope through a link inside it, where \<open>write_file\<close> refuses; and \<open>write_file\<close> reports that nothing
  changed, and writes nothing, when only the line break at the end differs.
\<close>

theorem file_tools_escape:
  "status_of (apply_patch no_diff (patch_call (edit_a @ edit_a)) tools_off) = Inl ValueErr \<and>
   content_after (apply_patch no_diff (patch_call (edit_a @ edit_a)) tools_off) [''w'', ''src'', ''mine'', ''a''] =
     Some (''z'' @ [CHR 0x0A]) \<and>
   status_of (apply_patch no_diff (patch_call edit_link) tools_off) = Inr ''applied'' \<and>
   content_after (apply_patch no_diff (patch_call edit_link) tools_off) [''w'', ''src'', ''other'', ''b''] =
     Some (''z'' @ [CHR 0x0A]) \<and>
   status_of (write_file no_diff (write_call ''src/mine/link/b'' ''z'') tools_off) = Inl ValueErr \<and>
   status_of (write_file some_diff (write_call ''src/mine/a'' ''x'') tools_off) = Inr ''unchanged'' \<and>
   status_of (write_file some_diff (write_call ''src/mine/a'' ''z'') tools_off) = Inr ''written''"
  by (intro conjI) code_simp+

lemma patch_call_applies:
  "content_after (apply_patch no_diff (patch_call edit_a) tools_off) [''w'', ''src'', ''mine'', ''a''] \<noteq>
     ws_files (t_ws tools_off) [''w'', ''src'', ''mine'', ''a'']"
  by code_simp


theorem writes_governed_witness:
  "\<exists>file. t_ws (snd (write_file no_diff (write_call ''src/mine/n'' ''new'') tools_off)) = write_file_at file (Some ''new'') linked \<and>
     prefix [''w''] file"
proof -
  let ?x = "write_file no_diff (write_call ''src/mine/n'' ''new'') tools_off"
  have "ws_files (t_ws (snd ?x)) [''w'', ''src'', ''mine'', ''n''] \<noteq> ws_files (t_ws tools_off) [''w'', ''src'', ''mine'', ''n'']"
    by code_simp
  then have "t_ws (snd ?x) \<noteq> t_ws tools_off" by auto
  moreover have "?x = (fst ?x, snd ?x)" by simp
  moreover have "py_str (dget_or (write_call ''src/mine/n'' ''new'') ''content'' (PStr '''')) = ''new''" by code_simp
  moreover have "t_ws tools_off = linked" "ws_root linked = [''w'']" by (simp_all add: tools_off_def linked_def)
  ultimately show ?thesis
    using writes_governed [of no_diff "write_call ''src/mine/n'' ''new''" tools_off "fst ?x" "snd ?x"]
    by (auto simp: Let_def)
qed

end
