(* ===== verification/Evidence.thy ===== *)
theory Evidence
  imports Patch "HOL-Library.List_Lexorder" "HOL-Library.Char_ord" "HOL-Library.Multiset"
begin

text \<open>
  The evidence on which a task is completed (\<open>orchestrator/task_lifecycle.py\<close>): what a command or a
  verification record verifies, which failures a later success resolves, what the results of tools
  contribute, and the status that follows. Records are dictionaries; a set of labels is a list
  without repetition, of which only membership is used. Running the node executable again to
  recover a failed syntax check is left out.
\<close>

section \<open>Fields\<close>

definition str_field :: "pdict \<Rightarrow> string \<Rightarrow> string" where
  \<comment> \<open>\<open>str(d.get(k) or "")\<close>\<close>
  "str_field d k = py_str (por (dget d k) (PStr ''''))"

definition clean_field :: "pdict \<Rightarrow> string \<Rightarrow> string" where
  "clean_field d k = strip (str_field d k)"

definition status_field :: "pdict \<Rightarrow> string" where
  "status_field d = lower (clean_field d ''status'')"

definition passed_statuses :: "string list" where
  "passed_statuses = [''passed'', ''success'', ''completed'']"

definition failed_statuses :: "string list" where
  "failed_statuses = [''failed'', ''timeout'', ''killed'', ''validation_failed'']"

definition dict_items :: "pv \<Rightarrow> pdict list" where
  \<comment> \<open>\<open>[dict(item) for item in (v or []) if isinstance(item, dict)]\<close> for a list\<close>
  "dict_items v = map the_dict (filter is_dict (the_list v))"

definition drop_blank :: "pdict \<Rightarrow> pdict" where
  \<comment> \<open>\<open>{k: v for k, v in d.items() if v not in (None, [], "")}\<close>\<close>
  "drop_blank d = filter (\<lambda>(k, v). \<not> py_mem v [PNone, PList [], PStr '''']) d"

definition drop_void :: "pdict \<Rightarrow> pdict" where
  \<comment> \<open>\<open>{k: v for k, v in d.items() if v not in (None, "", [], {})}\<close>\<close>
  "drop_void d = filter (\<lambda>(k, v). \<not> py_mem v [PNone, PStr '''', PList [], PDict []]) d"

definition item_text :: "string list \<Rightarrow> pdict \<Rightarrow> string" where
  "item_text keys d = lower (join '' '' (map (str_field d) keys))"

section \<open>What a text verifies\<close>

definition ident_char :: "char \<Rightarrow> bool" where
  \<comment> \<open>\<open>[a-z0-9_]\<close>\<close>
  "ident_char c \<longleftrightarrow> (let n = of_char c :: nat in (48 \<le> n \<and> n \<le> 57) \<or> n = 95 \<or> (97 \<le> n \<and> n \<le> 122))"

definition no_ident_next :: "string \<Rightarrow> bool" where
  "no_ident_next s \<longleftrightarrow> (case s of [] \<Rightarrow> True | c # _ \<Rightarrow> \<not> ident_char c)"

fun node_word :: "bool \<Rightarrow> string \<Rightarrow> bool" where
  \<comment> \<open>search for \<open>(?<![a-z0-9_])node(?:\\.exe)?(?![a-z0-9_])\<close>; the flag: an identifier character precedes\<close>
  "node_word after_ident [] = False"
| "node_word after_ident (c # cs) =
     ((\<not> after_ident \<and> starts ''node'' (c # cs) \<and>
        ((starts ''.exe'' (drop 4 (c # cs)) \<and> no_ident_next (drop 8 (c # cs))) \<or> no_ident_next (drop 4 (c # cs)))) \<or>
      node_word (ident_char c) cs)"

definition node_check :: "string \<Rightarrow> bool" where
  "node_check text \<longleftrightarrow> has_sub ''--check'' text \<and> node_word False text"

definition any_sub :: "string list \<Rightarrow> string \<Rightarrow> bool" where
  "any_sub tokens text \<longleftrightarrow> list_ex (\<lambda>t. has_sub t text) tokens"

definition targeted_tokens :: "string list" where
  "targeted_tokens =
     [''pytest'', ''unittest'', ''tox'', ''jest'', ''vitest'', ''playwright'', ''cypress'', ''npm test'', ''pnpm test'', ''yarn test'',
      ''bun test'', ''bun run test'', ''npm run test'', ''npm run test:'', ''pnpm run test'', ''pnpm run test:'', ''yarn run test'',
      ''yarn run test:'', ''cargo test'', ''go test'', ''mvn test'', ''gradle test'', ''dotnet test'', ''test:'', ''typecheck'',
      ''type check'', ''tsc'', ''mypy'', ''pyright'', ''py_compile'', ''compileall'', ''ruff'', ''eslint'', ''npm run lint'',
      ''pnpm run lint'', ''yarn run lint'', ''node --check'', ''cargo check'', ''npm run build'', ''pnpm build'', ''pnpm run build'',
      ''yarn build'', ''yarn run build'', ''bun run build'', ''cargo build'', ''go build'', ''dotnet build'', ''cmake'',
      ''cmake --build'', ''ctest'', ''ninja'', ''ninja test'', ''make test'']"

definition text_mentions_targeted_verification :: "string \<Rightarrow> bool" where
  "text_mentions_targeted_verification text =
     (let normalized = lower text in
      if strip normalized = '''' then False
      else if strip normalized \<in> set [''git status'', ''git_status'', ''git diff'', ''git_diff''] then False
      else node_check normalized \<or> any_sub targeted_tokens normalized)"

definition resolution_tokens :: "(string \<times> string list) list" where
  "resolution_tokens =
     [(''python:test'', [''pytest'', ''unittest'', ''tox'']),
      (''python:typecheck'', [''mypy'', ''pyright'']),
      (''python:syntax'', [''py_compile'', ''compileall'']),
      (''python:lint'', [''ruff'']),
      (''javascript:test'',
        [''jest'', ''vitest'', ''playwright'', ''cypress'', ''npm test'', ''npm run test'', ''npm run test:'', ''pnpm test'',
         ''pnpm run test'', ''pnpm run test:'', ''yarn test'', ''yarn run test'', ''yarn run test:'', ''bun test'', ''bun run test'']),
      (''javascript:typecheck'',
        [''tsc'', ''typecheck'', ''type check'', ''node --check'', ''npm run tsc'', ''pnpm run tsc'', ''yarn run tsc'']),
      (''javascript:lint'', [''eslint'', ''npm run lint'', ''pnpm run lint'', ''yarn run lint'']),
      (''javascript:build'',
        [''npm run build'', ''pnpm build'', ''pnpm run build'', ''yarn build'', ''yarn run build'', ''bun run build'', ''vite'',
         ''next build'']),
      (''rust:test'', [''cargo test'']),
      (''rust:check'', [''cargo check'', ''cargo clippy'']),
      (''rust:build'', [''cargo build'']),
      (''go:test'', [''go test'']),
      (''go:build'', [''go build'']),
      (''go:lint'', [''go vet'']),
      (''jvm:test'', [''mvn test'', ''maven test'', ''gradle test'', ''./gradlew test'', ''gradlew test'']),
      (''dotnet:test'', [''dotnet test'']),
      (''dotnet:build'', [''dotnet build'']),
      (''ruby:test'', [''rspec'', ''ruby test'']),
      (''php:test'', [''phpunit'', ''composer test'']),
      (''swift:test'', [''swift test'', ''xcodebuild test'']),
      (''native:test'', [''make test'', ''ctest'', ''ninja test'']),
      (''native:build'', [''cmake''])]"

definition labels_in :: "(string \<times> string list) list \<Rightarrow> string \<Rightarrow> string list" where
  "labels_in table text = map fst (filter (\<lambda>(k, tokens). any_sub tokens text) table)"

definition verification_resolution_keys :: "pdict \<Rightarrow> string list" where
  "verification_resolution_keys item =
     (let text = item_text [''command'', ''name'', ''summary'', ''suite''] item in
      dedupe [] (labels_in resolution_tokens text @ (if has_sub ''python -m pytest'' text then [''python:test''] else [])))"

definition broad_family :: "string \<Rightarrow> string" where
  \<comment> \<open>\<open>key.split(":", 1)[0]\<close>\<close>
  "broad_family key = takeWhile (\<lambda>c. c \<noteq> CHR '':'') key"

definition family_tokens :: "(string \<times> string list) list" where
  "family_tokens =
     [(''python'', [''pytest'', ''unittest'', ''tox'', ''mypy'', ''pyright'', ''ruff'', ''py_compile'', ''compileall'', ''python -m'']),
      (''javascript'',
        [''jest'', ''vitest'', ''playwright'', ''cypress'', ''npm test'', ''npm run test'', ''pnpm test'', ''pnpm run test'',
         ''yarn test'', ''yarn run test'', ''bun test'', ''tsc'', ''typecheck'', ''type check'', ''node --check'', ''eslint'',
         ''npm run build'', ''pnpm build'', ''yarn build'', ''vite'', ''next build'']),
      (''rust'', [''cargo test'', ''cargo check'', ''cargo build'', ''cargo clippy'']),
      (''go'', [''go test'', ''go build'', ''go vet'']),
      (''jvm'', [''mvn test'', ''maven test'', ''gradle test'', ''./gradlew test'', ''gradlew test'']),
      (''dotnet'', [''dotnet test'', ''dotnet build'']),
      (''ruby'', [''rspec'', ''bundle exec'', ''ruby test'']),
      (''php'', [''phpunit'', ''composer test'']),
      (''swift'', [''swift test'', ''xcodebuild test'']),
      (''native'', [''cmake'', ''make test'', ''ctest'', ''ninja test''])]"

definition verification_item_families :: "pdict \<Rightarrow> string list" where
  "verification_item_families item =
     (let text = item_text [''command'', ''name'', ''summary'', ''suite''] item; keys = verification_resolution_keys item;
          fams = keys @ filter (\<lambda>f. f \<noteq> '''') (map broad_family keys) @ labels_in family_tokens text @
            (if node_check text then [''javascript'', ''javascript:typecheck''] else [])
      in dedupe [] (if text_mentions_targeted_verification text \<and> fams = [] then [''generic''] else fams))"

section \<open>What a path requires\<close>

definition ends_with_any :: "string list \<Rightarrow> string \<Rightarrow> bool" where
  "ends_with_any es s \<longleftrightarrow> list_ex (\<lambda>e. ends e s) es"

definition javascript_files :: "string list" where
  "javascript_files = [''.js'', ''.jsx'', ''.ts'', ''.tsx'', ''.mjs'', ''.cjs'', ''.vue'', ''.svelte'']"

definition javascript_lock_files :: "string list" where
  "javascript_lock_files = [''package.json'', ''package-lock.json'', ''pnpm-lock.yaml'', ''yarn.lock'', ''bun.lockb'']"

definition javascript_config_files :: "string list" where
  "javascript_config_files = [''vite.config.ts'', ''vite.config.js'', ''next.config.js'', ''next.config.ts'', ''tsconfig.json'']"

definition python_config_files :: "string list" where
  "python_config_files = [''pyproject.toml'', ''requirements.txt'', ''setup.py'', ''setup.cfg'', ''tox.ini'', ''pytest.ini'']"

definition jvm_config_files :: "string list" where
  "jvm_config_files = [''pom.xml'', ''build.gradle'', ''build.gradle.kts'', ''settings.gradle'', ''settings.gradle.kts'']"

definition language_of :: "string \<Rightarrow> string option" where
  \<comment> \<open>the tests on endings that both functions on paths end with\<close>
  "language_of p =
     (if ends_with_any [''.py'', ''.pyw''] p then Some ''python''
      else if ends_with_any javascript_files p then Some ''javascript''
      else if ends ''.rs'' p then Some ''rust''
      else if ends ''.go'' p then Some ''go''
      else if ends_with_any [''.java'', ''.kt'', ''.kts''] p then Some ''jvm''
      else if ends ''.cs'' p then Some ''dotnet''
      else if ends ''.rb'' p then Some ''ruby''
      else if ends ''.php'' p then Some ''php''
      else if ends ''.swift'' p then Some ''swift''
      else if ends_with_any [''.c'', ''.cc'', ''.cpp'', ''.h'', ''.hpp''] p then Some ''native''
      else None)"

definition starts_with_any :: "string list \<Rightarrow> string \<Rightarrow> bool" where
  "starts_with_any ps s \<longleftrightarrow> list_ex (\<lambda>p. starts p s) ps"

definition test_artifact_verification_family :: "string \<Rightarrow> string" where
  "test_artifact_verification_family p =
     (let filename = rsplit_last CHR ''/'' p;
          is_test = starts_with_any [''test/'', ''tests/''] p \<or> has_sub ''/test/'' p \<or> has_sub ''/tests/'' p \<or>
            starts ''test_'' filename \<or> ends_with_any [''_test.py'', ''_tests.py''] p \<or>
            ends_with_any [''_test.go'', ''.test.js'', ''.test.jsx'', ''.test.ts'', ''.test.tsx'', ''.spec.js'', ''.spec.jsx'',
              ''.spec.ts'', ''.spec.tsx''] filename
      in if \<not> is_test then ''''
         else (case language_of p of Some l \<Rightarrow> l @ '':test'' | None \<Rightarrow> ''generic:test''))"

definition path_requires_targeted_verification :: "string \<Rightarrow> bool" where
  "path_requires_targeted_verification path =
     (let p = lower path; filename = rsplit_last CHR ''/'' p in
      if path = '''' then False
      else if ends_with_any [''.md'', ''.mdx'', ''.txt'', ''.rst'', ''.adoc''] p then False
      else if starts_with_any [''docs/'', ''doc/'', ''documentation/''] p then False
      else if filename \<in> set (javascript_lock_files @ javascript_config_files @ python_config_files @
          [''cargo.toml'', ''cargo.lock'', ''go.mod'', ''go.sum''] @ jvm_config_files) \<or> ends_with_any [''.csproj'', ''.sln''] filename
      then True
      else language_of p \<noteq> None \<or> has_sub ''/test'' p \<or> starts_with_any [''test/'', ''tests/''] p)"

definition path_verification_families :: "string \<Rightarrow> string list" where
  "path_verification_families path =
     (let p = lower path; filename = rsplit_last CHR ''/'' p in
      if path = '''' then []
      else if filename \<in> set (javascript_lock_files @ javascript_config_files) then [''javascript'']
      else if filename \<in> set python_config_files then [''python'']
      else if filename \<in> set [''cargo.toml'', ''cargo.lock''] then [''rust'']
      else if filename \<in> set [''go.mod'', ''go.sum''] then [''go'']
      else if filename \<in> set jvm_config_files then [''jvm'']
      else if ends_with_any [''.csproj'', ''.sln''] filename then [''dotnet'']
      else if \<not> path_requires_targeted_verification path then []
      else if test_artifact_verification_family p \<noteq> '''' then [test_artifact_verification_family p]
      else (case language_of p of Some l \<Rightarrow> [l] | None \<Rightarrow> [''generic'']))"

section \<open>Matching a failure with a success\<close>

function rx_sub_from :: "(char \<Rightarrow> bool) \<Rightarrow> rx \<Rightarrow> string \<Rightarrow> string \<Rightarrow> nat \<Rightarrow> string" where
  \<comment> \<open>\<open>re.sub(r, rep, s)\<close> from a position on; \<open>bad\<close> must not hold of the character before a match\<close>
  "rx_sub_from bad r rep s i =
     (if length s \<le> i then ''''
      else case (if 0 < i \<and> bad (s ! (i - 1)) then None else rx_match_at r s i) of
        Some (j, _) \<Rightarrow> if i < j then rep @ rx_sub_from bad r rep s j else s ! i # rx_sub_from bad r rep s (Suc i)
      | None \<Rightarrow> s ! i # rx_sub_from bad r rep s (Suc i))"
  by pat_completeness auto
termination
  by (relation "measure (\<lambda>(bad, r, rep, s, i). length s - i)") auto

declare rx_sub_from.simps [simp del]

definition any_quote :: rx where
  "any_quote = RCls (\<lambda>c. c = CHR 0x22 \<or> c = CHR 0x27)"

definition drive_letter :: rx where
  "drive_letter = RSeq (RCls (\<lambda>c. let n = of_char c :: nat in 97 \<le> n \<and> n \<le> 122)) (rlit '':'')"

definition cd_re :: rx where
  "cd_re =
     rseq [rlit ''cd'', rplus rspace, ropt any_quote, rplus (RCls (\<lambda>c. c \<notin> set '';&|'')), ropt any_quote, RStar rspace,
           ropt (RAlt (rlit ''&&'') (rlit '';''))]"

definition quoted_drive_re :: rx where
  "quoted_drive_re =
     rseq [any_quote, drive_letter, rplus (RCls (\<lambda>c. c \<noteq> CHR 0x22 \<and> c \<noteq> CHR 0x27)), any_quote]"

definition drive_program_re :: "string \<Rightarrow> rx" where
  "drive_program_re p =
     rseq [drive_letter, RCls (\<lambda>c. c = CHR ''/'' \<or> c = CHR 0x5C), RStar (RCls (\<lambda>c. c \<noteq> CHR '' '')), rlit p, ropt (rlit ''.exe'')]"

definition called_program_re :: "string \<Rightarrow> rx" where
  "called_program_re p =
     rseq [rlit ''&'', RStar rspace, rlit [CHR 0x22], RStar (RCls (\<lambda>c. c \<noteq> CHR 0x22)), rlit p, ropt (rlit ''.exe''),
           rlit [CHR 0x22]]"

definition verification_identity :: "pdict \<Rightarrow> string" where
  "verification_identity item =
     (let free = (\<lambda>_. False);
          t1 = rx_sub_from free cd_re '' '' (item_text [''command'', ''name'', ''suite''] item) 0;
          t2 = rx_sub_from free quoted_drive_re '' '' t1 0;
          t3 = rx_sub_from ident_char (drive_program_re ''python'') '' python'' t2 0;
          t4 = rx_sub_from ident_char (drive_program_re ''node'') '' node'' t3 0;
          t5 = rx_sub_from free (called_program_re ''python'') '' python'' t4 0;
          t6 = rx_sub_from free (called_program_re ''node'') '' node'' t5 0
      in squash t6)"

definition overlap :: "string list \<Rightarrow> string list \<Rightarrow> bool" where
  \<comment> \<open>\<open>not a.isdisjoint(b)\<close>\<close>
  "overlap a b \<longleftrightarrow> list_ex (\<lambda>x. x \<in> set b) a"

definition verification_families_overlap :: "string list \<Rightarrow> string list \<Rightarrow> bool" where
  "verification_families_overlap failed_keys passed_keys =
     (let fams = (\<lambda>keys. map broad_family (filter (\<lambda>k. CHR '':'' \<in> set k) keys)) in
      overlap (fams failed_keys) (fams passed_keys))"

definition verification_items_match :: "pdict \<Rightarrow> pdict \<Rightarrow> bool" where
  "verification_items_match failed_item passed_item =
     (let fk = verification_resolution_keys failed_item; pk = verification_resolution_keys passed_item;
          ff = verification_item_families failed_item; pf = verification_item_families passed_item;
          fi = verification_identity failed_item; pi = verification_identity passed_item in
      if status_field passed_item \<notin> set passed_statuses then False
      else if fk \<noteq> [] \<and> pk \<noteq> [] then overlap fk pk \<or> verification_families_overlap fk pk
      else if ff \<noteq> [] \<and> pf \<noteq> [] then overlap ff pf
      else if fi \<noteq> '''' \<and> pi \<noteq> '''' then fi = pi
      else fk \<noteq> [] \<or> pk \<noteq> [] \<or> ff \<noteq> [] \<or> pf \<noteq> [])"

text \<open>A time stamp is a number or a text that is a decimal number (exponents are not read).\<close>

definition digits_only :: "string \<Rightarrow> bool" where
  "digits_only s \<longleftrightarrow> s \<noteq> '''' \<and> list_all is_digit s"

definition unsigned_decimal :: "string \<Rightarrow> rat option" where
  "unsigned_decimal s =
     (case split_on CHR ''.'' s of
        [a] \<Rightarrow> if digits_only a then Some (of_nat (digits_value a)) else None
      | [a, b] \<Rightarrow>
          if (a = '''' \<or> digits_only a) \<and> (b = '''' \<or> digits_only b) \<and> a @ b \<noteq> ''''
          then Some (of_nat (digits_value a) + of_nat (digits_value b) / 10 ^ length b) else None
      | _ \<Rightarrow> None)"

definition decimal :: "string \<Rightarrow> rat option" where
  "decimal s =
     (case strip s of
        [] \<Rightarrow> None
      | c # cs \<Rightarrow> if c = CHR ''-'' then map_option uminus (unsigned_decimal cs)
                  else if c = CHR ''+'' then unsigned_decimal cs else unsigned_decimal (c # cs))"

definition timestamp_of :: "pv \<Rightarrow> rat option" where
  "timestamp_of v = (case v of PStr s \<Rightarrow> decimal s | _ \<Rightarrow> pnum v)"

definition item_timestamp :: "pdict \<Rightarrow> rat option" where
  "item_timestamp item =
     (case filter (\<lambda>t. t \<noteq> None) (map (\<lambda>k. timestamp_of (dget item k))
             [''startedAt'', ''createdAt'', ''finishedAt'', ''completedAt'', ''updatedAt'']) of
        [] \<Rightarrow> None | t # _ \<Rightarrow> t)"

definition chronological_items :: "pdict list \<Rightarrow> pdict list" where
  "chronological_items items =
     (let stamped = filter (\<lambda>x. item_timestamp x \<noteq> None) items in
      if stamped = [] then items
      else sort_key (\<lambda>x. the (item_timestamp x)) stamped @ filter (\<lambda>x. item_timestamp x = None) items)"

fun unresolved_from :: "pdict list \<Rightarrow> pdict list \<Rightarrow> pdict list" where
  \<comment> \<open>the loop over the items in order; the first argument holds all items with a passing status\<close>
  "unresolved_from passed [] = []"
| "unresolved_from passed (item # later) =
     (if status_field item \<in> set failed_statuses \<and>
         \<not> (list_ex (verification_items_match item) later \<or>
            (item_timestamp item = None \<and> list_ex (verification_items_match item) passed))
      then item # unresolved_from passed later else unresolved_from passed later)"

definition unresolved_failed_verification_items :: "pdict list \<Rightarrow> pdict list" where
  "unresolved_failed_verification_items items =
     (let normalized = chronological_items items in
      unresolved_from (filter (\<lambda>x. status_field x \<in> set passed_statuses) normalized) normalized)"

section \<open>Contracts and changed files\<close>

definition contract_normalize_path :: "pv \<Rightarrow> string" where
  "contract_normalize_path v =
     strip (dropWhile (\<lambda>c. c = CHR ''.'' \<or> c = CHR ''/'')
       (replace_char (CHR 0x5C) (CHR ''/'') (strip (py_str (por v (PStr ''''))))))"

definition changed_file_path :: "pdict \<Rightarrow> string" where
  "changed_file_path item =
     strip (replace_char (CHR 0x5C) (CHR ''/'')
       (py_str (por (por (por (dget item ''path'') (dget item ''file'')) (dget item ''name'')) (PStr ''''))))"

definition has_glob :: "string \<Rightarrow> bool" where
  "has_glob p \<longleftrightarrow> list_ex (\<lambda>c. c \<in> set ''*?[]'') p"

definition path_name :: "string \<Rightarrow> string" where
  \<comment> \<open>\<open>Path(p).name\<close>\<close>
  "path_name p = (let cs = filter (\<lambda>c. c \<noteq> '''' \<and> c \<noteq> ''.'') (split_on CHR ''/'' p) in if cs = [] then '''' else last cs)"

fun unique_folded :: "string list \<Rightarrow> string list \<Rightarrow> string list" where
  \<comment> \<open>the first of the texts that agree up to case\<close>
  "unique_folded seen [] = []"
| "unique_folded seen (p # ps) = (if lower p \<in> set seen then unique_folded seen ps else p # unique_folded (lower p # seen) ps)"

definition artifact_paths :: "pdict \<Rightarrow> string list" where
  "artifact_paths contract =
     unique_folded [] (filter (\<lambda>p. p \<noteq> '''' \<and> \<not> has_glob p)
       (map (\<lambda>d. contract_normalize_path (por (por (dget d ''path'') (dget d ''file'')) (dget d ''name'')))
         (dict_items (dget contract ''expectedArtifacts''))))"

definition owned_scope_files :: "pdict \<Rightarrow> string list" where
  "owned_scope_files contract =
     (let scope = (case dget contract ''ownedScope'' of PStr s \<Rightarrow> [PStr s] | PList xs \<Rightarrow> xs | _ \<Rightarrow> []) in
      unique_folded [] (filter (\<lambda>p. p \<noteq> '''' \<and> \<not> ends ''/'' p \<and> \<not> has_glob p \<and> CHR ''.'' \<in> set (path_name p))
        (map contract_normalize_path scope)))"

definition contract_expected_artifact_paths :: "pdict \<Rightarrow> string list" where
  "contract_expected_artifact_paths contract =
     (if artifact_paths contract \<noteq> [] then artifact_paths contract else owned_scope_files contract)"

definition requirement_families :: "pdict \<Rightarrow> string list" where
  "requirement_families item =
     (let family = lower (strip (py_str (por (por (dget item ''family'') (dget item ''framework'')) (PStr ''''))));
          path = contract_normalize_path (por (por (dget item ''path'') (dget item ''file'')) (dget item ''target''));
          command = strip (py_str (por (por (dget item ''command'') (dget item ''name'')) (PStr '''')))
      in [family] @ (if path \<noteq> '''' then path_verification_families path else []) @
         (if command \<noteq> '''' then verification_item_families [(''command'', PStr command), (''status'', PStr ''passed'')] else []))"

definition contract_verification_families :: "pdict \<Rightarrow> string list" where
  "contract_verification_families contract =
     dedupe [] (filter (\<lambda>f. f \<noteq> '''') (concat (map requirement_families (dict_items (dget contract ''verificationRequirements'')))))"

definition contract_profile :: "pdict \<Rightarrow> pdict \<Rightarrow> pdict option" where
  "contract_profile task context =
     (let of_routing = (\<lambda>d. case dget d ''routing'' of
            PDict r \<Rightarrow> (case dget r ''profile'' of PDict p \<Rightarrow> Some p | _ \<Rightarrow> None) | _ \<Rightarrow> None) in
      case dget context ''_child_profile'' of
        PDict p \<Rightarrow> Some p
      | _ \<Rightarrow> (case of_routing context of Some p \<Rightarrow> Some p | None \<Rightarrow> of_routing task))"

definition passing_item :: "pdict \<Rightarrow> bool" where
  "passing_item item \<longleftrightarrow> status_field item \<in> set passed_statuses"

section \<open>Required verification\<close>

definition requirement_result :: "string list \<Rightarrow> string list \<Rightarrow> pdict \<Rightarrow> pdict" where
  "requirement_result required matched source =
     (let missing = filter (\<lambda>f. f \<notin> set matched) required; names = (\<lambda>fs. PList (map PStr fs)) in
      [(''required'', names required), (''matched'', names (sort matched)),
       (''missing'', names (if required = [] then [] else missing)),
       (''status'', PStr (if required = [] then ''not_required'' else if missing = [] then ''satisfied'' else ''missing''))] @ source)"

definition verification_requirements ::
  "pdict \<Rightarrow> pdict \<Rightarrow> pdict list \<Rightarrow> pdict list \<Rightarrow> pdict list \<Rightarrow> pdict" where
  "verification_requirements task context changed_files verification tests_run =
     (let matched = dedupe [] (concat (map verification_item_families
            (filter (\<lambda>x. dget x ''status'' = PStr ''passed'') verification @
             filter (\<lambda>x. dget x ''status'' \<in> PStr ` set passed_statuses) tests_run)));
          by_files = sort (dedupe [] (concat (map (path_verification_families \<circ> changed_file_path) changed_files))) in
      case contract_profile task context of
        Some c \<Rightarrow>
          if is_list (dget c ''verificationRequirements'')
          then requirement_result (sort (contract_verification_families c)) matched [(''source'', PStr ''planner_profile'')]
          else requirement_result by_files matched []
      | None \<Rightarrow> requirement_result by_files matched [])"

section \<open>Merging records\<close>

fun keep_first :: "('k list) \<Rightarrow> (pdict \<Rightarrow> 'k) \<Rightarrow> pdict list \<Rightarrow> pdict list" where
  \<comment> \<open>the first record of every key\<close>
  "keep_first seen key [] = []"
| "keep_first seen key (x # xs) = (if key x \<in> set seen then keep_first seen key xs else x # keep_first (key x # seen) key xs)"

definition merge_completion_commands :: "pdict list \<Rightarrow> pdict list \<Rightarrow> pdict list" where
  "merge_completion_commands current additions =
     keep_first [] (\<lambda>x. (clean_field x ''command'', clean_field x ''status''))
       (filter (\<lambda>x. clean_field x ''command'' \<noteq> '''') (current @ additions))"

definition merge_completion_verification_records :: "pdict list \<Rightarrow> pdict list \<Rightarrow> pdict list" where
  "merge_completion_verification_records current additions =
     keep_first [] (\<lambda>x. (clean_field x ''id'',
         strip (py_str (por (por (por (dget x ''command'') (dget x ''name'')) (dget x ''suite'')) (PStr ''''))),
         clean_field x ''status''))
       (current @ additions)"

definition merge_completion_changed_files :: "pdict list \<Rightarrow> pdict list \<Rightarrow> pdict list" where
  "merge_completion_changed_files current additions =
     keep_first [] changed_file_path (filter (\<lambda>x. changed_file_path x \<noteq> '''') (current @ additions))"

definition merge_completion_tests_run :: "pdict list \<Rightarrow> pdict list \<Rightarrow> pdict list" where
  "merge_completion_tests_run current additions =
     keep_first [] (\<lambda>x. (clean_field x ''id'', strip (py_str (por (por (dget x ''command'') (dget x ''name'')) (PStr '''')))))
       (current @ additions)"

section \<open>Tool results\<close>

definition tool_result_failed :: "pdict \<Rightarrow> bool" where
  "tool_result_failed d \<longleftrightarrow>
     status_field d \<in> set failed_statuses \<or> dget d ''ok'' = PBool False \<or>
     (is_int (dget d ''exitCode'') \<and> pnum (dget d ''exitCode'') \<noteq> Some 0)"

definition diff_text_step :: "string list \<Rightarrow> string \<Rightarrow> string list" where
  "diff_text_step paths line =
     (let path = strip (drop 4 line) in
      if starts ''+++ '' line
      then (if path = ''/dev/null'' then paths else paths @ [if starts ''b/'' path then drop 2 path else path])
      else if starts ''--- '' line
      then (if path = ''/dev/null'' then paths
            else let n = (if starts ''a/'' path then drop 2 path else path) in if n \<in> set paths then paths else paths @ [n])
      else paths)"

definition diff_text_paths :: "string \<Rightarrow> string list" where
  \<comment> \<open>\<open>_changed_paths_from_diff_text\<close>\<close>
  "diff_text_paths text = dedupe [] (filter (\<lambda>p. p \<noteq> '''') (foldl diff_text_step [] (split_lines False text)))"

definition path_texts :: "pv list \<Rightarrow> string list" where
  "path_texts xs = filter (\<lambda>s. strip s \<noteq> '''') (map py_str xs)"

definition changed_paths_from_patch_result :: "pdict \<Rightarrow> string list" where
  "changed_paths_from_patch_result d =
     (case dget d ''changedPaths'' of
        PList xs \<Rightarrow> path_texts xs
      | _ \<Rightarrow>
          (case dget (the_dict (dget d ''patch'')) ''changedPaths'' of
             PList xs \<Rightarrow> path_texts xs
           | _ \<Rightarrow> (case dget d ''diffText'' of PStr t \<Rightarrow> diff_text_paths t | _ \<Rightarrow> [])))"

definition copied_lists :: "string list \<Rightarrow> pdict \<Rightarrow> pdict" where
  \<comment> \<open>\<open>if isinstance(d.get(k), list): item[k] = d.get(k)\<close>\<close>
  "copied_lists keys d = map (\<lambda>k. (k, dget d k)) (filter (\<lambda>k. is_list (dget d k)) keys)"

definition evidence_details :: "string \<Rightarrow> pdict \<Rightarrow> pdict" where
  \<comment> \<open>what the kind of tool adds\<close>
  "evidence_details name d =
     (if name = ''run_command'' then [(''exitCode'', dget d ''exitCode''), (''command'', dget d ''command'')]
      else if name = ''apply_patch'' then [(''changedPaths'', PList (map PStr (changed_paths_from_patch_result d)))]
      else if name = ''write_file'' then [(''changedPaths'', PList (if is_str (dget d ''path'') then [dget d ''path''] else []))]
      else if name = ''task'' \<or> name = ''child_task''
      then [(''childStatus'', dget d ''status''),
            (''agentType'', por (dget d ''agentType'') (dget (the_dict (dget d ''subagent'')) ''agentType''))] @
           copied_lists [''ownedScope'', ''expectedArtifacts'', ''verificationRequirements'', ''changedFiles'', ''verification'', ''testsRun''] d
      else [])"

definition evidence_item :: "pdict \<Rightarrow> string \<Rightarrow> pdict" where
  "evidence_item tool_result name =
     (let d = (case dget tool_result ''result'' of PDict r \<Rightarrow> r
                 | _ \<Rightarrow> filter (\<lambda>(k, v). k \<noteq> ''name'' \<and> k \<noteq> ''source'') tool_result);
          ids = filter (\<lambda>(k, v). \<not> py_mem v [PNone, PStr '''', PList [], PDict []])
                  (map (\<lambda>k. (k, dget tool_result k)) [''id'', ''approvalId''])
      in drop_blank
        ([(''name'', PStr name), (''status'', por (dget d ''status'') (PStr (if d \<noteq> [] then ''completed'' else ''unknown''))),
          (''ok'', dget d ''ok''), (''summary'', por (dget d ''summary'') (dget d ''error'')),
          (''failed'', PBool (tool_result_failed d))] @ ids @ evidence_details name d))"

definition tool_evidence :: "pv list \<Rightarrow> pdict list" where
  \<comment> \<open>entries without a name are passed over\<close>
  "tool_evidence results =
     concat (map (\<lambda>r. case r of
         PDict d \<Rightarrow> (case dget d ''name'' of PStr name \<Rightarrow> if name = '''' then [] else [evidence_item d name] | _ \<Rightarrow> [])
       | _ \<Rightarrow> []) results)"

definition is_failed :: "pdict \<Rightarrow> bool" where
  "is_failed item \<longleftrightarrow> dget item ''failed'' = PBool True"

definition named_item :: "string list \<Rightarrow> pdict \<Rightarrow> bool" where
  "named_item names item \<longleftrightarrow> dget item ''name'' \<in> PStr ` set names"

definition word_list :: "string \<Rightarrow> string list" where
  \<comment> \<open>\<open>re.findall(r"[a-z0-9_]+", s)\<close> of words of more than two characters\<close>
  "word_list s = filter (\<lambda>w. 2 < length w) (split_ws (map (\<lambda>c. if ident_char c then c else CHR '' '') s))"

definition identity_stop_words :: "string list" where
  "identity_stop_words =
     [''the'', ''and'', ''for'', ''with'', ''from'', ''into'', ''after'', ''before'', ''task'', ''child'', ''status'', ''runtime'',
      ''continue'', ''previous'', ''partial'', ''handoff'', ''instead'', ''restarting'', ''repair'', ''fix'', ''failed'', ''failure'',
      ''blocked'', ''completion'', ''because'', ''verification'', ''review'', ''worker'', ''planner'']"

definition child_task_identity_tokens :: "pdict \<Rightarrow> string list" where
  "child_task_identity_tokens item =
     filter (\<lambda>w. w \<notin> set identity_stop_words) (word_list (item_text [''summary'', ''title''] item))"

definition child_task_kind :: "pdict \<Rightarrow> string" where
  "child_task_kind item =
     (let text = item_text [''summary'', ''title'', ''agentType'', ''childTaskId''] item;
          paths = lower (join '' '' (contract_expected_artifact_paths item @
            map (\<lambda>c. contract_normalize_path (dget c ''path'')) (dict_items (dget item ''changedFiles''))));
          combined = text @ '' '' @ paths
      in if any_sub [''frontend'', ''ui'', ''client''] combined \<or>
            list_ex (ends_with_any [''.html'', ''.css'', ''.tsx'', ''.jsx'', ''.vue'', ''.svelte'']) (split_ws paths)
         then ''frontend''
         else if any_sub [''pytest'', ''tests/'', ''test_'', ''test coverage'', ''automated test''] combined then ''tests''
         else if any_sub [''backend'', ''server'', ''api'', ''service'', ''storage'', ''repository'', ''model''] combined then ''backend''
         else if list_ex (ends_with_any [''.py'', ''.go'', ''.rs'', ''.java'', ''.cs'', ''.php'', ''.rb'']) (split_ws paths) then ''source''
         else '''')"

section \<open>Failures that a success makes good\<close>

definition others :: "nat \<Rightarrow> 'a list \<Rightarrow> 'a list" where
  \<comment> \<open>all but the item at an index\<close>
  "others i xs = take i xs @ drop (Suc i) xs"

definition contract_paths_of :: "pdict \<Rightarrow> string list" where
  "contract_paths_of item =
     filter (\<lambda>p. p \<noteq> '''') (map contract_normalize_path (the_list (dget item ''changedPaths'')))"

definition changed_paths_of :: "pdict list \<Rightarrow> string list" where
  "changed_paths_of changed_files = filter (\<lambda>p. p \<noteq> '''') (map changed_file_path changed_files)"

definition workspace_write_made_good ::
  "pdict \<Rightarrow> pdict list \<Rightarrow> pdict list \<Rightarrow> pdict list \<Rightarrow> pdict list \<Rightarrow> bool" where
  \<comment> \<open>the failed item, the other items, changed files, verification and tests\<close>
  "workspace_write_made_good failed_item rest changed_files verification tests_run =
     (let failed_paths = contract_paths_of failed_item; passing = list_ex passing_item (verification @ tests_run);
          changed = changed_paths_of changed_files;
          writes = filter (\<lambda>x. \<not> is_failed x \<and> named_item [''apply_patch'', ''write_file''] x) rest in
      if failed_paths = []
      then named_item [''apply_patch''] failed_item \<and> passing \<and> changed \<noteq> [] \<and>
        list_ex (\<lambda>x. overlap (contract_paths_of x) changed) writes
      else list_ex (\<lambda>x. overlap failed_paths (contract_paths_of x)) writes \<or> (overlap failed_paths changed \<and> passing))"

definition child_contract_satisfied :: "pdict \<Rightarrow> pdict list \<Rightarrow> pdict list \<Rightarrow> pdict list \<Rightarrow> bool" where
  "child_contract_satisfied failed_item changed_files verification tests_run =
     (let e1 = contract_expected_artifact_paths [(''expectedArtifacts'', dget failed_item ''expectedArtifacts'')];
          e2 = (if e1 \<noteq> [] then e1
                else filter (\<lambda>p. p \<noteq> '''') (map (\<lambda>c. contract_normalize_path (dget c ''path'')) (dict_items (dget failed_item ''changedFiles''))));
          expected = (if e2 \<noteq> [] then e2
                      else contract_expected_artifact_paths [(''ownedScope'', dget failed_item ''ownedScope'')]);
          changed = changed_paths_of changed_files;
          fams = contract_verification_families [(''verificationRequirements'', dget failed_item ''verificationRequirements'')];
          observed = concat (map verification_item_families (filter passing_item (verification @ tests_run))) in
      list_all (\<lambda>p. if ends ''/'' p then list_ex (starts p) changed else p \<in> set changed) expected \<and>
      (fams \<noteq> [] \<longrightarrow> overlap fams observed) \<and> (expected \<noteq> [] \<or> fams \<noteq> []))"

definition child_titles_agree :: "string \<Rightarrow> string \<Rightarrow> bool" where
  "child_titles_agree failed_title success_title \<longleftrightarrow>
     failed_title \<noteq> '''' \<and> success_title \<noteq> '''' \<and>
     (failed_title = success_title \<or>
      (let common = filter (\<lambda>w. w \<in> set (word_list success_title)) (dedupe [] (word_list failed_title)) in
       2 \<le> length common \<and> overlap common [''frontend'', ''backend'', ''pytest'', ''tests'']))"

definition child_task_made_good ::
  "pdict \<Rightarrow> pdict list \<Rightarrow> pdict list \<Rightarrow> pdict list \<Rightarrow> pdict list \<Rightarrow> bool" where
  "child_task_made_good failed_item rest changed_files verification tests_run =
     (let title = (\<lambda>x. lower (clean_field x ''summary'')); kind = child_task_kind failed_item;
          tokens = dedupe [] (child_task_identity_tokens failed_item) in
      child_contract_satisfied failed_item changed_files verification tests_run \<or>
      ((title failed_item \<noteq> '''' \<or> kind \<noteq> '''') \<and>
       list_ex (\<lambda>x. (kind \<noteq> '''' \<and> kind = child_task_kind x) \<or> child_titles_agree (title failed_item) (title x) \<or>
           3 \<le> length (filter (\<lambda>w. w \<in> set (child_task_identity_tokens x)) tokens))
         (filter (\<lambda>x. named_item [''child_task''] x \<and> \<not> is_failed x) rest)))"

definition path_char :: "char \<Rightarrow> bool" where
  \<comment> \<open>\<open>[\\w.-]\<close>\<close>
  "path_char c \<longleftrightarrow> is_word c \<or> c = CHR ''.'' \<or> c = CHR ''-''"

definition listed_file_re :: rx where
  \<comment> \<open>without its look-behind, which the search adds\<close>
  "listed_file_re =
     rseq [rplus (RCls (\<lambda>c. path_char c \<or> c = CHR ''/'' \<or> c = CHR 0x5C)), rlit ''.'',
           ralt (map rlit [''html'', ''css'', ''md'', ''txt'', ''json'', ''js'', ''ts'', ''py'']),
           RLook (RAlt (RCls (\<lambda>c. \<not> path_char c)) REos)]"

function listed_files_from :: "string \<Rightarrow> nat \<Rightarrow> string list" where
  \<comment> \<open>\<open>re.findall\<close> from a position on\<close>
  "listed_files_from s i =
     (if length s \<le> i then []
      else case (if 0 < i \<and> path_char (s ! (i - 1)) then None else rx_match_at listed_file_re s i) of
        Some (j, _) \<Rightarrow> if i < j then slice s i j # listed_files_from s j else listed_files_from s (Suc i)
      | None \<Rightarrow> listed_files_from s (Suc i))"
  by pat_completeness auto
termination
  by (relation "measure (\<lambda>(s, i). length s - i)") auto

declare listed_files_from.simps [simp del]

definition listing_re :: rx where
  "listing_re = rseq [RWordB, ralt [rlit ''get-childitem'', rlit ''ls'', rlit ''dir''], RWordB]"

definition structural_command_resolution_key :: "pv \<Rightarrow> string list option" where
  \<comment> \<open>the listed files of a directory listing\<close>
  "structural_command_resolution_key command =
     (let text = lower (strip (py_str (por command (PStr '''')))) in
      if text = '''' \<or> text_mentions_targeted_verification text \<or> \<not> rx_found listing_re text then None
      else let paths = sort (dedupe [] (listed_files_from text 0)) in if paths = [] then None else Some paths)"

definition command_made_good :: "pdict \<Rightarrow> pdict list \<Rightarrow> bool" where
  "command_made_good failed_item rest =
     (case structural_command_resolution_key (dget failed_item ''command'') of
        None \<Rightarrow> False
      | Some key \<Rightarrow>
          list_ex (\<lambda>x. named_item [''run_command''] x \<and> \<not> is_failed x \<and>
            structural_command_resolution_key (dget x ''command'') = Some key) rest)"

definition failed_tool_result_has_equivalent_success ::
  "pdict \<Rightarrow> pdict list \<Rightarrow> pdict list \<Rightarrow> pdict list \<Rightarrow> pdict list \<Rightarrow> bool" where
  "failed_tool_result_has_equivalent_success item rest changed_files verification tests_run =
     (if named_item [''child_task''] item then child_task_made_good item rest changed_files verification tests_run
      else if named_item [''apply_patch'', ''write_file''] item
      then workspace_write_made_good item rest changed_files verification tests_run
      else if named_item [''run_command''] item then command_made_good item rest
      else False)"

definition unresolved_failed_tool_results ::
  "pdict list \<Rightarrow> pdict list \<Rightarrow> pdict list \<Rightarrow> pdict list \<Rightarrow> pdict list" where
  "unresolved_failed_tool_results items changed_files verification tests_run =
     map snd (filter (\<lambda>(i, item).
       is_failed item \<and>
       \<not> failed_tool_result_has_equivalent_success item (others i items) changed_files verification tests_run \<and>
       \<not> list_ex (\<lambda>x. dget x ''name'' = dget item ''name'' \<and> \<not> is_failed x) (drop (Suc i) items)) (enum items))"

section \<open>Commands\<close>

text \<open>
  The commands logged for a task come from the store (\<open>command_logs\<close>, by task); the text of the
  error output, read when a record has no summary, is part of the record.
\<close>

definition tests_run_from_commands :: "pdict list \<Rightarrow> pdict list" where
  "tests_run_from_commands commands =
     map (\<lambda>r.
       let command = clean_field r ''command''; status = status_field r; code = dget r ''exitCode'';
           passed = status \<in> set passed_statuses \<and> (pnum code = Some 0 \<or> code = PStr ''0'' \<or> code = PNone);
           failed = status \<in> set failed_statuses \<or> (is_int code \<and> pnum code \<noteq> Some 0);
           normal = (if passed then ''passed'' else if failed then ''failed'' else if status \<noteq> '''' then status else ''unknown'')
       in drop_blank
         [(''id'', dget r ''id''), (''name'', PStr command), (''command'', PStr command), (''cwd'', dget r ''cwd''),
          (''status'', PStr normal), (''exitCode'', code), (''durationMs'', dget r ''durationMs''),
          (''summary'', por (dget r ''summary'') (PStr (''Command '' @ normal))), (''source'', PStr ''run_command''),
          (''startedAt'', dget r ''startedAt''), (''finishedAt'', dget r ''finishedAt'')])
       (filter (\<lambda>r. clean_field r ''command'' \<noteq> '''' \<and> text_mentions_targeted_verification (clean_field r ''command'')) commands)"

definition commands_from_tool_evidence :: "pdict list \<Rightarrow> pdict list" where
  "commands_from_tool_evidence items =
     map (\<lambda>x. [(''command'', PStr (clean_field x ''command'')), (''status'', dget x ''status''), (''exitCode'', dget x ''exitCode''),
            (''summary'', dget x ''summary'')])
       (filter (\<lambda>x. named_item [''run_command''] x \<and> \<not> is_failed x \<and> clean_field x ''command'' \<noteq> '''') items)"

definition commands_from_store :: "(string \<Rightarrow> pdict list) \<Rightarrow> string \<Rightarrow> pdict list" where
  "commands_from_store command_logs task_id =
     (if strip task_id = '''' then []
      else map (\<lambda>r. (''command'', PStr (clean_field r ''command'')) #
               map (\<lambda>k. (k, dget r k)) [''id'', ''cwd'', ''status'', ''exitCode'', ''summary'', ''startedAt'', ''finishedAt''])
        (filter (\<lambda>r. clean_field r ''command'' \<noteq> '''') (command_logs (strip task_id))))"

definition changed_files_from_tool_evidence :: "pdict list \<Rightarrow> pdict list" where
  "changed_files_from_tool_evidence items =
     concat (map (\<lambda>x. map (\<lambda>p. [(''path'', PStr (strip (the_str p))), (''source'', dget x ''name'')])
         (filter (\<lambda>p. is_str p \<and> strip (the_str p) \<noteq> '''') (the_list (dget x ''changedPaths''))))
       (filter (named_item [''apply_patch'', ''write_file'']) items))"

definition completed_patch_results :: "pdict list \<Rightarrow> pdict list" where
  "completed_patch_results results =
     concat (map (\<lambda>t. case dget_or t ''result'' (PDict []) of
         PDict d \<Rightarrow>
           if dget t ''name'' = PStr ''apply_patch'' \<and> dget d ''status'' \<in> {PStr ''applied'', PStr ''completed''}
           then let p = the_dict (dget d ''patch'') in
             [[(''summary'', por (por (dget d ''summary'') (dget p ''summary'')) (PStr ''Updated files'')),
               (''filesChanged'', por (por (dget d ''filesChanged'') (dget p ''filesChanged'')) (PInt 0)),
               (''changedPaths'', PList (map PStr (changed_paths_from_patch_result d))), (''patchId'', dget p ''id'')]]
           else []
       | _ \<Rightarrow> []) results)"

section \<open>Children\<close>

text \<open>
  The tasks of the session, the collaboration tasks of the parent (falling back to those of the
  session) and the command logs are what the store returns.
\<close>

record evidence_store =
  es_tasks :: "string \<Rightarrow> pdict list"
  es_children :: "string \<Rightarrow> pdict list"
  es_collaboration :: "string \<Rightarrow> pdict list"
  es_command_logs :: "string \<Rightarrow> pdict list"

definition child_runtime_tasks :: "evidence_store \<Rightarrow> string \<Rightarrow> string \<Rightarrow> string \<Rightarrow> pdict list" where
  "child_runtime_tasks es task_id root_task_id session_id =
     filter (\<lambda>c.
       let i = clean_field c ''id'';
           root = strip (py_str (por (dget c ''rootTaskId'') (PStr i)));
           parent = clean_field (the_dict (dget c ''routing'')) ''parentRuntimeTaskId''
       in i \<noteq> '''' \<and> i \<noteq> task_id \<and> (root = root_task_id \<or> parent = task_id)) (es_tasks es session_id)"

definition collaboration_tasks :: "evidence_store \<Rightarrow> string \<Rightarrow> string \<Rightarrow> pdict list" where
  "collaboration_tasks es parent session_id =
     (if es_children es parent \<noteq> [] then es_children es parent
      else filter (\<lambda>c. clean_field c ''parentTaskId'' = parent) (es_collaboration es session_id))"

definition child_items :: "pdict \<Rightarrow> string \<Rightarrow> string \<Rightarrow> pdict list" where
  "child_items source k child_id =
     map (\<lambda>d. let d1 = (if dhas d ''childTaskId'' then d else d @ [(''childTaskId'', PStr child_id)])
              in if dhas d1 ''source'' then d1 else d1 @ [(''source'', PStr ''child_task'')])
       (dict_items (dget source k))"

record child_evidence =
  ce_changed :: "pdict list"
  ce_commands :: "pdict list"
  ce_verification :: "pdict list"
  ce_tests :: "pdict list"
  ce_results :: "pdict list"
  ce_tasks :: "pdict list"

definition no_child_evidence :: child_evidence where
  "no_child_evidence =
     \<lparr>ce_changed = [], ce_commands = [], ce_verification = [], ce_tests = [], ce_results = [], ce_tasks = []\<rparr>"

definition add_child_items :: "pdict \<Rightarrow> string \<Rightarrow> child_evidence \<Rightarrow> child_evidence" where
  "add_child_items source child_id e =
     e\<lparr>ce_changed := ce_changed e @ child_items source ''changedFiles'' child_id,
       ce_commands := ce_commands e @ child_items source ''commands'' child_id,
       ce_verification := ce_verification e @ child_items source ''verification'' child_id,
       ce_tests := ce_tests e @ child_items source ''testsRun'' child_id\<rparr>"

definition settled_collaboration_status :: "pdict option \<Rightarrow> string option" where
  \<comment> \<open>the final status of the linked collaboration task, which overrides that of the child\<close>
  "settled_collaboration_status linked =
     (case linked of
        None \<Rightarrow> None
      | Some c \<Rightarrow>
          (let s = status_field c in
           if s = ''canceled'' then Some ''cancelled''
           else if s \<in> set [''completed'', ''success'', ''failed'', ''cancelled''] then Some s else None))"

definition linked_collaboration :: "pdict list \<Rightarrow> string \<Rightarrow> pdict option" where
  \<comment> \<open>the last one of an identifier, as in the dictionary\<close>
  "linked_collaboration collaborations i =
     find (\<lambda>c. clean_field c ''id'' \<noteq> '''' \<and> clean_field c ''id'' = i) (rev collaborations)"

definition text_or :: "string \<Rightarrow> string \<Rightarrow> string" where
  "text_or a b = (if a \<noteq> '''' then a else b)"

definition runtime_child_step :: "evidence_store \<Rightarrow> pdict list \<Rightarrow> pdict \<Rightarrow> child_evidence \<Rightarrow> child_evidence" where
  "runtime_child_step es collaborations child e =
     (let i = clean_field child ''id''; routing = the_dict (dget child ''routing'');
          ci = clean_field routing ''childCollaborationTaskId''; linked = linked_collaboration collaborations ci;
          settled = settled_collaboration_status linked;
          own = strip (py_str (por (por (dget child ''resultSummary'') (dget child ''summary'')) (PStr '''')));
          status = (case settled of None \<Rightarrow> status_field child | Some s \<Rightarrow> s);
          summary = (case (settled, linked) of
              (Some _, Some c) \<Rightarrow> text_or (clean_field (the_dict (dget c ''result'')) ''summary'') (text_or (clean_field c ''title'') own)
            | _ \<Rightarrow> own);
          role = por (dget child ''role'') (PStr ''root''); profile = the_dict (dget routing ''profile'');
          scope = (case dget profile ''ownedScope'' of
              PList xs \<Rightarrow> [(''ownedScope'', PList (map PStr (filter (\<lambda>s. s \<noteq> '''') (map (strip \<circ> py_str) xs))))] | _ \<Rightarrow> []);
          e1 = add_child_items child i (e\<lparr>ce_tasks := ce_tasks e @ [drop_blank
              [(''id'', PStr i), (''status'', PStr status), (''role'', role), (''summary'', PStr (utake 500 summary)),
               (''source'', PStr ''child_runtime_task''), (''collaborationTaskId'', PStr ci)]]\<rparr>);
          logs = map (\<lambda>r. dput ''childTaskId'' (PStr i) (dput ''source'' (PStr ''child_command_log'') r))
            (commands_from_store (es_command_logs es) i)
      in e1\<lparr>ce_commands := merge_completion_commands (ce_commands e1) logs,
            ce_results := ce_results e1 @ [drop_blank
              ([(''name'', PStr ''child_task''), (''status'', PStr status), (''failed'', PBool (status \<in> {''failed'', ''cancelled''})),
                (''summary'', PStr (text_or summary (''Child task '' @ status))), (''childTaskId'', PStr i),
                (''source'', PStr ''child_runtime_task''), (''role'', role), (''collaborationTaskId'', PStr ci)] @ scope @
               copied_lists [''expectedArtifacts'', ''verificationRequirements''] profile)]\<rparr>)"

definition collaboration_step :: "pdict \<Rightarrow> child_evidence \<Rightarrow> child_evidence" where
  "collaboration_step collab e =
     (let i = clean_field collab ''id''; status = status_field collab; out = the_dict (dget collab ''result'');
          summary = strip (py_str (por (por (dget out ''summary'') (dget collab ''title'')) (PStr '''')));
          agent = dget (the_dict (dget collab ''metadata'')) ''agentType'';
          e1 = add_child_items out i (e\<lparr>ce_tasks := ce_tasks e @ [
              [(''id'', PStr i), (''status'', PStr status), (''title'', dget collab ''title''), (''agentType'', agent),
               (''summary'', PStr (utake 500 summary)), (''source'', PStr ''collaboration_task'')]]\<rparr>)
      in if i = '''' then e
         else e1\<lparr>ce_results := ce_results e1 @ [drop_blank
              ([(''name'', PStr ''child_task''), (''status'', PStr status), (''failed'', PBool (status \<in> {''failed'', ''cancelled''})),
                (''summary'', PStr (text_or summary (''Collaboration task '' @ status))), (''childTaskId'', PStr i),
                (''source'', PStr ''collaboration_task''), (''title'', dget collab ''title''), (''agentType'', agent)] @
               copied_lists [''changedFiles'', ''verification'', ''testsRun''] out)]\<rparr>)"

definition dedupe_completion_child_tasks :: "pdict list \<Rightarrow> pdict list" where
  "dedupe_completion_child_tasks items =
     (let linked = filter (\<lambda>s. s \<noteq> '''') (map (\<lambda>x. clean_field x ''collaborationTaskId'')
            (filter (\<lambda>x. clean_field x ''source'' = ''child_runtime_task'') items)) in
      map drop_blank (keep_first [] (\<lambda>x. (clean_field x ''id'', clean_field x ''source''))
        (filter (\<lambda>x. clean_field x ''id'' \<noteq> '''' \<and>
            \<not> (clean_field x ''source'' = ''collaboration_task'' \<and> clean_field x ''id'' \<in> set linked)) items)))"

definition completion_child_task_evidence :: "evidence_store \<Rightarrow> pdict \<Rightarrow> child_evidence" where
  "completion_child_task_evidence es task =
     (let i = clean_field task ''id''; session = clean_field task ''sessionId'';
          root_id = strip (py_str (por (dget task ''rootTaskId'') (PStr i)));
          collaborations = collaboration_tasks es i session;
          e = fold (runtime_child_step es collaborations) (child_runtime_tasks es i root_id session) no_child_evidence;
          e' = fold collaboration_step collaborations e
      in if i = '''' \<or> session = '''' then no_child_evidence
         else e'\<lparr>ce_tasks := dedupe_completion_child_tasks (ce_tasks e')\<rparr>)"

section \<open>The evidence of a task\<close>

text \<open>
  The part of \<open>_build_completion_evidence\<close> that decides the status: acceptance criteria, workspace
  evidence, counts and the preview, which it also records, are left out.
\<close>

record completion_evidence =
  ev_status :: string
  ev_level :: string
  ev_changed_files :: "pdict list"
  ev_commands :: "pdict list"
  ev_verification :: "pdict list"
  ev_tests_run :: "pdict list"
  ev_patches :: "pdict list"
  ev_tools :: "pdict list"
  ev_child_tasks :: "pdict list"
  ev_unresolved_tools :: "pdict list"
  ev_unresolved_verification :: "pdict list"
  ev_unresolved_tests :: "pdict list"
  ev_failed_checks :: "pdict list"
  ev_requirements :: pdict

definition evidence_verdict :: "bool \<Rightarrow> bool \<Rightarrow> bool \<Rightarrow> string \<times> string" where
  \<comment> \<open>status and level from: failed evidence, passed verification, any other evidence\<close>
  "evidence_verdict failed verified any_evidence =
     (if failed then (''needs_attention'', ''failed_verification'')
      else if verified then (''success'', ''verified'')
      else if any_evidence then (''success'', ''runtime_evidence'')
      else (''unverified'', ''summary_only''))"

definition build_completion_evidence ::
  "evidence_store \<Rightarrow> pdict \<Rightarrow> pdict \<Rightarrow> pdict \<Rightarrow> pv list \<Rightarrow> completion_evidence" where
  "build_completion_evidence es task context validation tool_results =
     (let child = completion_child_task_evidence es task;
          tools = tool_evidence tool_results @ ce_results child;
          patches = completed_patch_results (map the_dict (filter is_dict tool_results));
          changed = merge_completion_changed_files
            (merge_completion_changed_files (dict_items (dget task ''changedFiles'')) (ce_changed child))
            (changed_files_from_tool_evidence tools);
          commands = merge_completion_commands (merge_completion_commands
            (merge_completion_commands (dict_items (dget task ''commands'')) (ce_commands child))
            (commands_from_store (es_command_logs es) (str_field task ''id''))) (commands_from_tool_evidence tools);
          verification = merge_completion_verification_records (dict_items (dget task ''verification'')) (ce_verification child);
          from_commands = tests_run_from_commands commands;
          tests = merge_completion_tests_run
            (merge_completion_tests_run (dict_items (dget task ''testsRun'')) (ce_tests child)) from_commands;
          failed_checks = filter (\<lambda>c. dget c ''status'' \<in> PStr ` set failed_statuses) (dict_items (dget validation ''checks''));
          unresolved = unresolved_failed_verification_items verification;
          verified = list_ex (\<lambda>x. dget x ''status'' = PStr ''passed'') verification \<or>
            list_ex (\<lambda>x. dget x ''status'' \<in> PStr ` set passed_statuses) tests;
          (status, level) = evidence_verdict (unresolved \<noteq> [] \<or> failed_checks \<noteq> []) verified
            (changed \<noteq> [] \<or> patches \<noteq> [] \<or> commands \<noteq> [] \<or> tools \<noteq> [])
      in \<lparr>ev_status = status, ev_level = level, ev_changed_files = changed, ev_commands = commands,
          ev_verification = verification, ev_tests_run = tests, ev_patches = patches, ev_tools = tools,
          ev_child_tasks = ce_tasks child,
          ev_unresolved_tools = unresolved_failed_tool_results tools changed verification tests,
          ev_unresolved_verification = unresolved,
          ev_unresolved_tests = unresolved_failed_verification_items tests, ev_failed_checks = failed_checks,
          ev_requirements = verification_requirements task context changed (verification @ from_commands) tests\<rparr>)"

section \<open>Lemmas on merging\<close>

lemma keep_first_keys:
  "distinct (map key (keep_first seen key xs)) \<and>
   key ` set (keep_first seen key xs) = key ` set xs - set seen"
  by (induction seen key xs rule: keep_first.induct) auto

lemma keep_first_fixed:
  "distinct (map key xs) \<Longrightarrow> set (map key xs) \<inter> set seen = {} \<Longrightarrow> keep_first seen key xs = xs"
  by (induction seen key xs rule: keep_first.induct) auto

lemma keep_first_subseq: "set (keep_first seen key xs) \<subseteq> set xs"
  by (induction seen key xs rule: keep_first.induct) auto

lemma keep_first_idem: "keep_first [] key (keep_first [] key xs) = keep_first [] key xs"
  using keep_first_keys [of key "[]" xs] by (simp add: keep_first_fixed)

section \<open>Unresolved failures\<close>

definition failing_item :: "pdict \<Rightarrow> bool" where
  "failing_item item \<longleftrightarrow> status_field item \<in> set failed_statuses"

definition stays_failed :: "pdict list \<Rightarrow> nat \<Rightarrow> bool" where
  \<comment> \<open>no success after the item matches it; of an item without a time stamp, no success at all\<close>
  "stays_failed items i \<longleftrightarrow>
     failing_item (items ! i) \<and>
     \<not> list_ex (verification_items_match (items ! i))
         (if item_timestamp (items ! i) = None then items else drop (Suc i) items)"

lemma match_passes: "verification_items_match x y \<Longrightarrow> passing_item y"
  by (auto simp: verification_items_match_def passing_item_def Let_def split: if_splits)

lemma match_among_passed:
  "list_ex (verification_items_match x) (filter (\<lambda>y. status_field y \<in> set passed_statuses) ys) =
   list_ex (verification_items_match x) ys"
  using match_passes by (auto simp: list_ex_iff passing_item_def)

lemma unresolved_from_indexes:
  assumes "all = prior @ items"
  shows "unresolved_from (filter (\<lambda>y. status_field y \<in> set passed_statuses) all) items =
     map ((!) all) (filter (stays_failed all) [length prior ..< length all])"
  using assms
proof (induction items arbitrary: prior)
  case Nil
  then show ?case by simp
next
  case (Cons x later)
  have x: "all ! length prior = x" "drop (Suc (length prior)) all = later" "length prior < length all"
    using Cons.prems by simp_all
  have upt: "[length prior ..< length all] = length prior # [length (prior @ [x]) ..< length all]"
    using x(3) by (simp add: upt_conv_Cons)
  have cond: "stays_failed all (length prior) \<longleftrightarrow>
      status_field x \<in> set failed_statuses \<and>
      \<not> (list_ex (verification_items_match x) later \<or>
         (item_timestamp x = None \<and>
          list_ex (verification_items_match x) (filter (\<lambda>y. status_field y \<in> set passed_statuses) all)))"
    using Cons.prems unfolding match_among_passed stays_failed_def failing_item_def x(1,2) by auto
  have ih: "unresolved_from (filter (\<lambda>y. status_field y \<in> set passed_statuses) all) later =
      map ((!) all) (filter (stays_failed all) [length (prior @ [x]) ..< length all])"
    by (rule Cons.IH) (simp add: Cons.prems)
  show ?case unfolding upt unresolved_from.simps cond [symmetric] ih by (simp add: x(1))
qed

lemma unresolved_indexes:
  "unresolved_failed_verification_items items =
     map ((!) (chronological_items items))
       (filter (stays_failed (chronological_items items)) [0..<length (chronological_items items)])"
  unfolding unresolved_failed_verification_items_def Let_def
  using unresolved_from_indexes [of "chronological_items items" "[]"] by simp

lemma chronological_mset: "mset (chronological_items items) = mset items"
proof -
  have "mset items = mset (filter (\<lambda>x. item_timestamp x \<noteq> None) items) + mset (filter (\<lambda>x. item_timestamp x = None) items)"
    by (induction items) auto
  then show ?thesis unfolding chronological_items_def Let_def by (simp add: mset_sort)
qed

lemma chronological_untimed:
  "list_all (\<lambda>x. item_timestamp x = None) items \<Longrightarrow> chronological_items items = items"
  by (auto simp: chronological_items_def Let_def list_all_iff filter_empty_conv)

lemma filter_indexes: "map ((!) xs) (filter (\<lambda>i. P (xs ! i)) [0..<length xs]) = filter P xs"
  by (metis (no_types, lifting) filter_map map_nth comp_apply filter_cong)

lemma unresolved_untimed:
  assumes "list_all (\<lambda>x. item_timestamp x = None) items"
  shows "unresolved_failed_verification_items items =
     filter (\<lambda>x. failing_item x \<and> \<not> list_ex (verification_items_match x) items) items"
proof -
  have "filter (stays_failed items) [0..<length items] =
      filter (\<lambda>i. failing_item (items ! i) \<and> \<not> list_ex (verification_items_match (items ! i)) items) [0..<length items]"
    using assms by (intro filter_cong refl) (auto simp: stays_failed_def list_all_length)
  then show ?thesis
    unfolding unresolved_indexes chronological_untimed [OF assms]
    by (simp add: filter_indexes [of _ "\<lambda>x. failing_item x \<and> \<not> list_ex (verification_items_match x) items"])
qed


text \<open>
  C22. The failed records that stay unresolved are exactly those at a position of the records in
  the order of their time stamps, records without one last, that no later success matches; a record
  without a time stamp is resolved by a matching success anywhere.
\<close>

theorem unresolved_exact:
  "mset (chronological_items items) = mset items \<and>
   (let stamped = takeWhile (\<lambda>x. item_timestamp x \<noteq> None) (chronological_items items) in
      (\<exists>x\<in>set items. item_timestamp x \<noteq> None) = (stamped \<noteq> []) \<and>
      sorted (map (\<lambda>x. the (item_timestamp x)) stamped) \<and>
      list_all (\<lambda>x. item_timestamp x = None) (drop (length stamped) (chronological_items items))) \<and>
   unresolved_failed_verification_items items =
     map ((!) (chronological_items items))
       (filter (stays_failed (chronological_items items)) [0..<length (chronological_items items)])"
proof -
  define st where "st = filter (\<lambda>x. item_timestamp x \<noteq> None) items"
  define un where "un = filter (\<lambda>x. item_timestamp x = None) items"
  define ss where "ss = sort_key (\<lambda>x. the (item_timestamp x)) st"
  have c: "chronological_items items = ss @ un"
    unfolding chronological_items_def Let_def ss_def st_def un_def
    by (auto simp: filter_empty_conv intro!: filter_True [symmetric])
  have ss: "\<forall>x\<in>set ss. item_timestamp x \<noteq> None" and un: "\<forall>x\<in>set un. item_timestamp x = None"
    by (auto simp: ss_def st_def un_def)
  have tw: "takeWhile (\<lambda>x. item_timestamp x \<noteq> None) (ss @ un) = ss"
    using ss un by (cases un) (auto simp: takeWhile_append2 takeWhile_eq_all_conv)
  have ne: "(\<exists>x\<in>set items. item_timestamp x \<noteq> None) = (ss \<noteq> [])"
    proof -
    have "ss = [] \<longleftrightarrow> st = []" unfolding ss_def by (metis set_empty set_sort)
    then show ?thesis by (auto simp: st_def filter_empty_conv)
  qed
  have sd: "sorted (map (\<lambda>x. the (item_timestamp x)) ss)" by (simp add: ss_def)
  have un': "list_all (\<lambda>x. item_timestamp x = None) (drop (length ss) (ss @ un))"
    using un by (simp add: list_all_iff)
  show ?thesis
    unfolding Let_def unresolved_indexes c tw ne [symmetric]
    using chronological_mset [of items, unfolded c] ne sd un' by blast
qed


lemma unresolved_nonempty:
  "unresolved_failed_verification_items items \<noteq> [] \<longleftrightarrow>
   (\<exists>i<length (chronological_items items). stays_failed (chronological_items items) i)"
  unfolding unresolved_indexes by (auto simp: filter_empty_conv)

lemma evidence_verdict_cases:
  "fst (evidence_verdict f v a) = ''needs_attention'' \<longleftrightarrow> f"
  "fst (evidence_verdict f v a) = ''unverified'' \<longleftrightarrow> \<not> f \<and> \<not> v \<and> \<not> a"
  "snd (evidence_verdict f v a) = ''verified'' \<longleftrightarrow> \<not> f \<and> v"
  by (simp_all add: evidence_verdict_def)

text \<open>
  Evidence needs attention exactly when a failed verification record stays unresolved or a
  check of the validation failed; it is verified exactly when it does not and some verification record
  or test passed; it is unverified exactly when nothing at all was recorded.
\<close>

theorem evidence_status_exact:
  "let e = build_completion_evidence es task ctx validation tool_results; order = chronological_items (ev_verification e) in
   (ev_status e = ''needs_attention'' \<longleftrightarrow>
       (\<exists>i<length order. stays_failed order i) \<or> 0 < length (ev_failed_checks e)) \<and>
    (ev_level e = ''verified'' \<longleftrightarrow>
       ev_status e \<noteq> ''needs_attention'' \<and>
       ((\<exists>x\<in>set (ev_verification e). dget x ''status'' = PStr ''passed'') \<or>
        (\<exists>x\<in>set (ev_tests_run e). dget x ''status'' \<in> PStr ` set passed_statuses))) \<and>
    (ev_status e = ''unverified'' \<longleftrightarrow>
       ev_status e \<noteq> ''needs_attention'' \<and> ev_level e \<noteq> ''verified'' \<and> ev_changed_files e = [] \<and> ev_patches e = [] \<and>
       ev_commands e = [] \<and> ev_tools e = []) \<and>
    ev_status e \<in> {''needs_attention'', ''success'', ''unverified''}"
proof -
  define e where "e = build_completion_evidence es task ctx validation tool_results"
  define order where "order = chronological_items (ev_verification e)"
  define f where "f \<longleftrightarrow> unresolved_failed_verification_items (ev_verification e) \<noteq> [] \<or> ev_failed_checks e \<noteq> []"
  define v where "v \<longleftrightarrow> list_ex (\<lambda>x. dget x ''status'' = PStr ''passed'') (ev_verification e) \<or>
     list_ex (\<lambda>x. dget x ''status'' \<in> PStr ` set passed_statuses) (ev_tests_run e)"
  define a where "a \<longleftrightarrow> ev_changed_files e \<noteq> [] \<or> ev_patches e \<noteq> [] \<or> ev_commands e \<noteq> [] \<or> ev_tools e \<noteq> []"
  have se: "(ev_status e, ev_level e) = evidence_verdict f v a"
    unfolding e_def build_completion_evidence_def f_def v_def a_def Let_def
    by (simp only: completion_evidence.simps case_prod_beta prod.collapse)
  have s: "ev_status e = fst (evidence_verdict f v a)" and l: "ev_level e = snd (evidence_verdict f v a)"
    using se by (metis fst_conv, metis snd_conv)
  have f: "f \<longleftrightarrow> (\<exists>i<length order. stays_failed order i) \<or> 0 < length (ev_failed_checks e)"
    unfolding f_def order_def unresolved_nonempty length_greater_0_conv ..
  have v: "v \<longleftrightarrow> (\<exists>x\<in>set (ev_verification e). dget x ''status'' = PStr ''passed'') \<or>
        (\<exists>x\<in>set (ev_tests_run e). dget x ''status'' \<in> PStr ` set passed_statuses)"
    unfolding v_def by (simp add: list_ex_iff)
  have range: "fst (evidence_verdict f v a) \<in> {''needs_attention'', ''success'', ''unverified''}"
    by (simp add: evidence_verdict_def)
  show ?thesis
    unfolding Let_def e_def [symmetric] order_def [symmetric] f [symmetric] v [symmetric] using range
    unfolding s l evidence_verdict_cases a_def by blast
qed

definition no_store :: evidence_store where
  "no_store = \<lparr>es_tasks = (\<lambda>_. []), es_children = (\<lambda>_. []), es_collaboration = (\<lambda>_. []), es_command_logs = (\<lambda>_. [])\<rparr>"

definition check_record :: "string \<Rightarrow> string \<Rightarrow> pdict" where
  "check_record command status = [(''command'', PStr command), (''status'', PStr status)]"

text \<open>
  A failed test command leaves the evidence a success; a passed lint resolves a failed
  test; the failure of a command that passed in between is dropped; the dot of a hidden directory is
  lost; any later success of a tool resolves its failures.
\<close>

theorem evidence_escapes:
  "(ev_status (build_completion_evidence no_store
      [(''id'', PStr ''t''), (''sessionId'', PStr ''s''), (''commands'', PList [PDict (check_record ''pytest'' ''failed'')])]
      [] [] []) = ''success'') \<and>
   (verification_items_match (check_record ''pytest'' ''failed'') (check_record ''ruff'' ''passed'')) \<and>
   (merge_completion_commands
     [check_record ''pytest'' ''failed'', check_record ''pytest'' ''passed'', check_record ''pytest'' ''failed''] [] =
     [check_record ''pytest'' ''failed'', check_record ''pytest'' ''passed'']) \<and>
   (contract_normalize_path (PStr ''.github/ci.py'') = ''github/ci.py'') \<and>
   (unresolved_failed_tool_results
     [[(''name'', PStr ''run_command''), (''failed'', PBool True)], [(''name'', PStr ''run_command''), (''failed'', PBool False)]]
     [] [] [] = [])"
proof (intro conjI)
  show "ev_status (build_completion_evidence no_store
      [(''id'', PStr ''t''), (''sessionId'', PStr ''s''), (''commands'', PList [PDict (check_record ''pytest'' ''failed'')])]
      [] [] []) = ''success''" by code_simp
  show "verification_items_match (check_record ''pytest'' ''failed'') (check_record ''ruff'' ''passed'')" by code_simp
  show "merge_completion_commands
     [check_record ''pytest'' ''failed'', check_record ''pytest'' ''passed'', check_record ''pytest'' ''failed''] [] =
     [check_record ''pytest'' ''failed'', check_record ''pytest'' ''passed'']" by code_simp
  show "contract_normalize_path (PStr ''.github/ci.py'') = ''github/ci.py''" by code_simp
  show "unresolved_failed_tool_results
     [[(''name'', PStr ''run_command''), (''failed'', PBool True)], [(''name'', PStr ''run_command''), (''failed'', PBool False)]]
     [] [] [] = []" by code_simp
qed

end
