(* ===== verification/TaskRecords.thy ===== *)
theory TaskRecords
  imports Evidence
begin

text \<open>
  The records a task collects while it runs and what its summary is made of
  (\<open>orchestrator/task_lifecycle.py\<close>, \<open>orchestrator/memory_flow.py\<close>, \<open>planner/service.py\<close>): files
  changed and commands run by tools, verification after the task, the plan, and the completion
  summary. All are functions of dictionaries; the state of a task is in \<open>TaskEnd\<close>.
\<close>

section \<open>Plans\<close>

definition step_of :: "nat \<Rightarrow> pv \<Rightarrow> pdict option" where
  "step_of i item =
     (let first = (if i = 0 then ''active'' else ''pending''); own_id = ''step-'' @ nat_digits i;
          text = (\<lambda>v. strip (py_str v));
          (title, detail, status, step_id) = (case item of
              PDict d \<Rightarrow>
                (text (por (por (por (dget d ''title'') (dget d ''label'')) (dget d ''summary'')) (PStr '''')),
                 text (por (por (por (dget d ''detail'') (dget d ''description'')) (dget d ''summary'')) (PStr '''')),
                 text (por (dget d ''status'') (PStr first)), text (por (dget d ''id'') (PStr own_id)))
            | _ \<Rightarrow> (text (por item (PStr '''')), '''', first, own_id))
      in if title = '''' then None
         else Some ([(''id'', PStr step_id), (''title'', PStr (utake 240 title)),
                     (''status'', PStr (if status \<noteq> '''' then status else ''pending''))] @
                    (if detail \<noteq> '''' then [(''detail'', PStr (utake 800 detail))] else [])))"

definition plan_of_context :: "pdict \<Rightarrow> pdict list" where
  \<comment> \<open>\<open>Planner.plan\<close>\<close>
  "plan_of_context ctx =
     (let explicit = por (dget ctx ''explicitPlan'') (dget ctx ''explicit_plan'');
          raw = (case explicit of PDict d \<Rightarrow> dget d ''steps'' | v \<Rightarrow> v)
      in case raw of PList xs \<Rightarrow> List.map_filter (\<lambda>(i, x). step_of i x) (enum (take 20 xs)) | _ \<Rightarrow> [])"

text \<open>Every step of a plan has an identifier and a status.\<close>

definition advance :: "pdict list \<Rightarrow> string \<Rightarrow> string option \<Rightarrow> string option \<Rightarrow> pdict list" where
  "advance plan completed_id next_id final_status =
     map (\<lambda>step.
       if dget step ''id'' = PStr completed_id then dput ''status'' (PStr ''completed'') step
       else if (case next_id of Some n \<Rightarrow> dget step ''id'' = PStr n | None \<Rightarrow> dget step ''id'' = PNone)
       then dput ''status'' (PStr ''active'') step
       else case final_status of
         Some f \<Rightarrow> if dget step ''status'' \<noteq> PStr ''completed'' then dput ''status'' (PStr f) step else step
       | None \<Rightarrow> step) plan"

definition current_step_from_plan :: "pdict list \<Rightarrow> string option" where
  "current_step_from_plan plan =
     (let titled = (\<lambda>s. find (\<lambda>step. dget step ''status'' = PStr s \<and> is_str (dget step ''title'')) plan) in
      case titled ''active'' of
        Some step \<Rightarrow> Some (the_str (dget step ''title''))
      | None \<Rightarrow>
          (case titled ''pending'' of
             Some step \<Rightarrow> Some (the_str (dget step ''title''))
           | None \<Rightarrow>
               (case plan of
                  [] \<Rightarrow> None
                | step # _ \<Rightarrow> if is_str (dget step ''title'') then Some (the_str (dget step ''title'')) else None)))"

section \<open>Files and commands\<close>

function split_text :: "string \<Rightarrow> string \<Rightarrow> string list" where
  \<comment> \<open>\<open>s.split(sep)\<close> for a separator that is not empty\<close>
  "split_text sep s =
     (case List.find (\<lambda>i. starts sep (drop i s)) [0..<length s] of
        None \<Rightarrow> [s]
      | Some i \<Rightarrow> if sep = '''' then [s] else take i s # split_text sep (drop (i + length sep) s))"
  by pat_completeness auto
termination
  by (relation "measure (\<lambda>(sep, s). length s)")
    (auto simp: find_Some_iff length_greater_0_conv [symmetric] simp del: length_greater_0_conv)

declare split_text.simps [simp del]

definition patch_file_status :: "pv \<Rightarrow> string \<Rightarrow> string" where
  "patch_file_status diff_text path =
     (let slashes = replace_char (CHR 0x5C) (CHR ''/'');
          kind = (\<lambda>part.
            if strip part = '''' \<or> \<not> has_sub (slashes path) (slashes part) then None
            else if has_sub (CHR 0x0A # ''--- /dev/null'') part then Some ''added''
            else if has_sub (CHR 0x0A # ''+++ /dev/null'') part then Some ''deleted''
            else if has_sub (CHR 0x0A # ''rename from '') part \<and> has_sub (CHR 0x0A # ''rename to '') part then Some ''renamed''
            else None)
      in case diff_text of
        PStr t \<Rightarrow> (case List.map_filter kind (split_text ''diff --git '' t) of k # _ \<Rightarrow> k | [] \<Rightarrow> ''modified'')
      | _ \<Rightarrow> ''modified'')"

definition changed_files_from_patch_result :: "pdict \<Rightarrow> pdict list" where
  "changed_files_from_patch_result r =
     (if dget r ''status'' \<notin> {PStr ''applied'', PStr ''completed''} then []
      else map (\<lambda>p.
        [(''path'', PStr p), (''status'', PStr (patch_file_status (dget r ''diffText'') p)),
         (''reason'', if is_str (dget r ''summary'') then dget r ''summary'' else PNone),
         (''patchId'', por (dget r ''patchId'') (dget (the_dict (dget r ''patch'')) ''id''))])
        (changed_paths_from_patch_result r))"

definition changed_files_from_write_file_result :: "pdict \<Rightarrow> pdict list" where
  "changed_files_from_write_file_result r =
     (case (dget r ''status'' = PStr ''written'', dget r ''path'') of
        (True, PStr p) \<Rightarrow>
          if strip p = '''' then []
          else [[(''path'', PStr p), (''status'', PStr (if is_true (dget r ''created'') then ''added'' else ''modified'')),
                 (''reason'', PStr (''write_file wrote '' @ py_str (dget_or r ''bytesWritten'' (PInt 0)) @ '' byte(s)''))]]
      | _ \<Rightarrow> [])"

definition path_key :: "pdict \<Rightarrow> string option" where
  "path_key item = (case dget item ''path'' of PStr p \<Rightarrow> Some p | _ \<Rightarrow> None)"

definition merge_changed_files :: "pv list \<Rightarrow> pdict list \<Rightarrow> pdict list" where
  \<comment> \<open>the records by path, in a dictionary\<close>
  "merge_changed_files current additions =
     (let put = (\<lambda>m item. case path_key item of Some p \<Rightarrow> dput p (PDict item) m | None \<Rightarrow> m);
          add = (\<lambda>m item. case path_key item of
              Some p \<Rightarrow> if strip p = '''' then m else dput p (PDict (dupdate (the_dict (dget m p)) item)) m
            | None \<Rightarrow> m)
      in map (\<lambda>(_, v). the_dict v) (foldl add (foldl put [] (map the_dict (filter is_dict current))) additions))"

definition first_line :: "pv \<Rightarrow> string option" where
  \<comment> \<open>the first line of a text that is not blank\<close>
  "first_line v =
     (case v of PStr s \<Rightarrow> if strip s = '''' then None else Some (hd (split_lines False (strip s))) | _ \<Rightarrow> None)"

definition command_result_summary :: "pdict \<Rightarrow> string" where
  "command_result_summary r =
     (case (first_line (dget r ''stderr''), first_line (dget r ''stdout'')) of
        (Some l, _) \<Rightarrow> l
      | (None, Some l) \<Rightarrow> l
      | _ \<Rightarrow> ''Command '' @ py_str (por (dget r ''status'') (PStr ''completed'')) @
          (if dget r ''exitCode'' \<noteq> PNone then '' with exit '' @ py_str (dget r ''exitCode'') else ''''))"

definition unless_none :: "pv \<Rightarrow> pv \<Rightarrow> pv" where
  "unless_none v w = (if v \<noteq> PNone then v else w)"

definition command_record_from_result :: "pdict \<Rightarrow> pdict \<Rightarrow> pdict option" where
  "command_record_from_result r arguments =
     (let log = the_dict (dget r ''commandLog'');
          command = por (por (dget log ''command'') (dget r ''command'')) (dget arguments ''command'')
      in if dget r ''status'' = PStr ''approval_required'' \<or> \<not> is_str command \<or> strip (the_str command) = '''' then None
         else Some
           [(''id'', dget log ''id''), (''command'', PStr (strip (the_str command))),
            (''cwd'', por (por (dget log ''cwd'') (dget r ''cwd'')) (dget arguments ''cwd'')),
            (''shell'', por (dget r ''shell'') (dget arguments ''shell'')),
            (''status'', por (dget log ''status'') (dget r ''status'')),
            (''exitCode'', unless_none (dget log ''exitCode'') (dget r ''exitCode'')),
            (''durationMs'', unless_none (dget log ''durationMs'') (dget r ''durationMs'')),
            (''summary'', PStr (command_result_summary r)), (''startedAt'', dget log ''startedAt''),
            (''finishedAt'', dget log ''finishedAt''), (''stdoutPath'', dget log ''stdoutPath''),
            (''stderrPath'', dget log ''stderrPath''), (''background'', PBool (is_true (dget r ''background'')))])"

definition merge_command_records :: "pv list \<Rightarrow> pdict option \<Rightarrow> pv list" where
  "merge_command_records current addition =
     (case addition of
        None \<Rightarrow> current
      | Some a \<Rightarrow>
          let same = (\<lambda>v. is_dict v \<and> truthy (dget a ''id'') \<and> py_eq (dget (the_dict v) ''id'') (dget a ''id'')) in
          map (\<lambda>v. if same v then PDict (dupdate (the_dict v) a) else v) current @
          (if list_ex same current then [] else [PDict a]))"

definition task_run_update :: "pdict \<Rightarrow> pdict \<Rightarrow> pdict" where
  \<comment> \<open>the columns that \<open>_record_task_run_tool_result\<close> writes\<close>
  "task_run_update task tool_result =
     (let name = dget tool_result ''name'';
          files = (\<lambda>added. let old = por (dget task ''changedFiles'') (PList []);
                                new = PList (map PDict (merge_changed_files (the_list old) added))
                            in if py_eq new old then [] else [(''changedFiles'', new)])
      in case dget tool_result ''result'' of
           PDict r \<Rightarrow>
             if name = PStr ''apply_patch'' then files (changed_files_from_patch_result r)
             else if name = PStr ''write_file'' then files (changed_files_from_write_file_result r)
             else if name = PStr ''run_command''
             then let old = por (dget task ''commands'') (PList []);
                      new = PList (merge_command_records (the_list old)
                        (command_record_from_result r (the_dict (dget tool_result ''arguments''))))
                  in if py_eq new old then [] else [(''commands'', new)]
             else []
         | _ \<Rightarrow> [])"

section \<open>Verification after the task\<close>

definition verification_status :: "pv \<Rightarrow> string" where
  "verification_status s =
     (if s = PStr ''completed'' then ''passed''
      else if s \<in> PStr ` set failed_statuses then ''failed''
      else if s = PStr ''skipped'' then ''skipped''
      else if s = PStr ''running'' then ''running''
      else py_str (por s (PStr ''not_run'')))"

definition validation_check_summary :: "pdict \<Rightarrow> string" where
  "validation_check_summary check =
     (let r = the_dict (dget check ''result'') in
      case (dget check ''reason'', dget check ''error'', dget r ''summary'') of
        (PStr s, _, _) \<Rightarrow> s
      | (_, PStr s, _) \<Rightarrow> s
      | (_, _, PStr s) \<Rightarrow> s
      | _ \<Rightarrow>
          (case (first_line (dget r ''stderr''), first_line (dget r ''stdout'')) of
             (Some l, _) \<Rightarrow> l
           | (None, Some l) \<Rightarrow> l
           | _ \<Rightarrow> py_str (dget_or check ''name'' (PStr ''validation'')) @ '' '' @
               py_str (dget_or check ''status'' (PStr ''not_run''))))"

definition verification_record :: "pdict \<Rightarrow> pdict" where
  "verification_record check =
     (let r = the_dict (dget check ''result''); log = the_dict (dget r ''commandLog'');
          command = (if is_str (dget check ''command'') then dget check ''command''
                     else if is_str (dget r ''command'') then dget r ''command'' else PNone)
      in [(''id'', dget log ''id''), (''command'', command),
          (''status'', PStr (verification_status (dget check ''status''))), (''exitCode'', dget r ''exitCode''),
          (''durationMs'', dget r ''durationMs''), (''summary'', PStr (validation_check_summary check)),
          (''startedAt'', dget log ''startedAt''), (''finishedAt'', dget log ''finishedAt'')])"

definition verification_records_from_validation :: "pdict \<Rightarrow> pdict list" where
  "verification_records_from_validation validation =
     map verification_record (dict_items (dget_or validation ''checks'' (PList [])))"

definition latest_passed_python_test_command ::
  "(string \<Rightarrow> pdict list) \<Rightarrow> pdict \<Rightarrow> pdict \<Rightarrow> string option" where
  "latest_passed_python_test_command command_logs ctx task =
     (let task_id = strip (py_str (por (por (por (dget ctx ''task_id'') (dget ctx ''taskId'')) (dget task ''id'')) (PStr '''')));
          code = (\<lambda>r. dget r ''exitCode'');
          usable = (\<lambda>r. clean_field r ''command'' \<noteq> '''' \<and> status_field r \<in> set passed_statuses \<and>
            (pnum (code r) = Some 0 \<or> code r = PStr ''0'' \<or> code r = PNone) \<and>
            has_sub ''pytest'' (lower (clean_field r ''command'')))
      in if task_id = '''' then None
         else map_option (\<lambda>r. clean_field r ''command'') (find usable (rev (command_logs task_id))))"

definition resolve_validation_command ::
  "(string \<Rightarrow> pdict list) \<Rightarrow> pdict \<Rightarrow> pdict list \<Rightarrow> pdict \<Rightarrow> string option" where
  "resolve_validation_command command_logs ctx patches task =
     (let configured = the_str (dget (the_dict (dget ctx ''post_task_validation'')) ''command'');
          paths = map (\<lambda>p. replace_char (CHR 0x5C) (CHR ''/'') (py_str p))
            (concat (map (\<lambda>patch. the_list (dget patch ''changedPaths'')) patches));
          tests = filter (\<lambda>p. ends ''.py'' p \<and> (has_sub ''/tests/'' p \<or> starts ''tests/'' p)) paths
      in if strip configured \<noteq> '''' then Some (strip configured)
         else case latest_passed_python_test_command command_logs ctx task of
           Some c \<Rightarrow> Some c
         | None \<Rightarrow> if tests \<noteq> [] then Some (''python -m pytest '' @ join '' '' (dedupe [] tests)) else None)"

definition enumeration :: "string list \<Rightarrow> string" where
  "enumeration xs = (case xs of [] \<Rightarrow> '''' | [x] \<Rightarrow> x | _ \<Rightarrow> join '', '' (butlast xs) @ '', and '' @ last xs)"

definition format_validation_summary :: "pdict list \<Rightarrow> pdict list \<Rightarrow> string option \<Rightarrow> string" where
  "format_validation_summary patches checks validation_command =
     (let summaries = dedupe [] (filter (\<lambda>s. s \<noteq> '''') (map (\<lambda>p. strip (py_str (dget p ''summary''))) patches));
          changed_text = (if summaries \<noteq> [] then ''Changed: '' @ join ''; '' summaries @ ''.'' else '''');
          done_name = (\<lambda>c. let n = dget c ''name'' in
            if n = PStr ''git_status'' then Some ''git status''
            else if n = PStr ''git_diff'' then Some ''git diff''
            else if n = PStr ''run_command'' then (case validation_command of Some v \<Rightarrow> if v \<noteq> '''' then Some v else None | None \<Rightarrow> None)
            else None);
          names = List.map_filter done_name (filter (\<lambda>c. dget c ''status'' = PStr ''completed'') checks);
          validated = (if names \<noteq> [] then ''Validated with '' @ enumeration names @ ''.'' else '''');
          failed = filter (\<lambda>c. dget c ''status'' = PStr ''failed'') checks;
          failure_text = (if failed \<noteq> []
            then '' Validation issues: '' @ join '' '' (map (\<lambda>c. py_str (dget c ''name'') @ '' failed: '' @
                   py_str (dget_or c ''error'' (PStr ''unknown error'')) @ ''.'') failed) else '''')
      in strip (join '' '' (filter (\<lambda>s. s \<noteq> '''') [changed_text, validated])) @ failure_text)"

section \<open>The completion summary\<close>

text \<open>
  Tags are recognised up to case, on the folded text: folding keeps the length. An element that is
  never closed is left to the removal of single tags.
\<close>

fun after_text :: "string \<Rightarrow> string \<Rightarrow> string option" where
  \<comment> \<open>what follows the first occurrence of a lower-case text\<close>
  "after_text t [] = (if t = [] then Some [] else None)"
| "after_text t (c # cs) = (if starts t (lower (c # cs)) then Some (drop (length t) (c # cs)) else after_text t cs)"

definition after_word :: "string \<Rightarrow> string \<Rightarrow> string option" where
  \<comment> \<open>what follows a lower-case text at the start, where a word ends\<close>
  "after_word t s =
     (if starts t (lower s) \<and> (case drop (length t) s of [] \<Rightarrow> True | c # _ \<Rightarrow> \<not> is_word c)
      then Some (drop (length t) s) else None)"

definition tag_end :: "string \<Rightarrow> string option" where
  "tag_end s = (case dropWhile (\<lambda>c. c \<noteq> CHR ''>'') s of [] \<Rightarrow> None | _ # r \<Rightarrow> Some r)"

definition opening_tag :: "string \<Rightarrow> string \<Rightarrow> string option" where
  "opening_tag name s =
     (if name = ''tool_call'' then Option.bind (after_word ''<tool_call'' s) tag_end
      else let t = ''<'' @ name @ ''>'' in if starts t (lower s) then Some (drop (length t) s) else None)"

definition single_tag :: "string \<Rightarrow> string option" where
  "single_tag s =
     (let attempt = (\<lambda>t. Option.bind (after_word t s) tag_end) in
      case List.map_filter attempt
        [''</tool_call'', ''</arg_key'', ''</arg_value'', ''<tool_call'', ''<arg_key'', ''<arg_value''] of
        [] \<Rightarrow> None | r # _ \<Rightarrow> Some r)"

definition element :: "string \<Rightarrow> string \<Rightarrow> string option" where
  "element name s = Option.bind (opening_tag name s) (after_text (''</'' @ name @ ''>''))"

function erase :: "(string \<Rightarrow> string option) \<Rightarrow> string \<Rightarrow> string" where
  \<comment> \<open>\<open>re.sub(pattern, " ", s)\<close>; a match that is not shorter than the text cannot occur\<close>
  "erase match [] = []"
| "erase match (c # cs) =
     (case match (c # cs) of
        Some r \<Rightarrow> if length r \<le> length cs then CHR '' '' # erase match r else c # erase match cs
      | None \<Rightarrow> c # erase match cs)"
  by pat_completeness auto
termination
  by (relation "measure (\<lambda>(match, s). length s)") auto

definition sanitize_completion_summary :: "pv \<Rightarrow> string" where
  "sanitize_completion_summary summary =
     squash (erase single_tag (erase (element ''arg_value'') (erase (element ''arg_key'')
       (erase (element ''tool_call'') (py_str (por summary (PStr '''')))))))"

definition merge_completion_summary :: "string \<Rightarrow> pdict \<Rightarrow> string" where
  "merge_completion_summary summary validation =
     (let base = sanitize_completion_summary (PStr summary); extra = clean_field validation ''summary'' in
      if validation = [] \<or> extra = '''' then base else if base = '''' then extra else base @ '' '' @ extra)"

definition anchor_word :: "string \<Rightarrow> bool" where
  \<comment> \<open>a word that matches \<open>[A-Z][A-Z0-9_]{7,}\<close> as a whole\<close>
  "anchor_word w \<longleftrightarrow>
     (let upper = (\<lambda>c. let n = of_char c :: nat in 65 \<le> n \<and> n \<le> 90) in
      8 \<le> length w \<and> upper (hd w) \<and> list_all (\<lambda>c. upper c \<or> is_digit c \<or> c = CHR ''_'') w)"

definition anchor_words :: "string \<Rightarrow> string list" where
  "anchor_words s = filter anchor_word (split_ws (map (\<lambda>c. if is_word c then c else CHR '' '') s))"

definition completion_required_anchor_tokens :: "pdict \<Rightarrow> pdict \<Rightarrow> string list" where
  "completion_required_anchor_tokens task ctx =
     (let routing = the_dict (dget ctx ''routing'');
          values = [dget task ''goal'', dget task ''resultSummary'', dget ctx ''latestUserMessage'', dget ctx ''latestUserMessagePreview''] @
            the_list (dget task ''acceptanceCriteria'') @ [dget routing ''focusAnchor'', dget routing ''memoryAnchor''];
          candidates = map py_str (filter (\<lambda>v. v \<noteq> PNone \<and> v \<noteq> PStr '''') values)
      in take 8 (unique_folded [] (concat (map anchor_words candidates))))"

definition sentence_ends :: "string list" where
  \<comment> \<open>the last three in UTF-8\<close>
  "sentence_ends =
     [''.'', ''!'', ''?'', [CHR 0xE3, CHR 0x80, CHR 0x82], [CHR 0xEF, CHR 0xBC, CHR 0x81], [CHR 0xEF, CHR 0xBC, CHR 0x9F]]"

definition completion_summary_with_required_anchors :: "string \<Rightarrow> pdict \<Rightarrow> pdict \<Rightarrow> string" where
  "completion_summary_with_required_anchors summary task ctx =
     (let text = sanitize_completion_summary (PStr summary);
          missing = filter (\<lambda>a. a \<noteq> '''' \<and> \<not> has_sub (lower a) (lower text)) (completion_required_anchor_tokens task ctx);
          suffix_text = join '' '' missing
      in if missing = [] then text else if text = '''' then suffix_text
         else if ends_with_any sentence_ends text then text @ '' '' @ suffix_text
         else text @ ''. '' @ suffix_text)"

text \<open>The similarity of two texts (\<open>SequenceMatcher.ratio\<close>) is a parameter.\<close>

definition merge_active_assistant_completion_content ::
  "(string \<Rightarrow> string \<Rightarrow> rat) \<Rightarrow> string \<Rightarrow> string \<Rightarrow> string" where
  "merge_active_assistant_completion_content ratio previous_content final_summary =
     (let previous = strip previous_content; final = strip final_summary; p = squash previous; f = squash final in
      if previous = '''' then final
      else if final = '''' then previous
      else if p = f then previous
      else if has_sub f p then previous
      else if has_sub p f then final
      else if 86 / 100 \<le> ratio p f then (if ulen final \<le> ulen previous then previous else final)
      else previous @ [CHR 0x0A, CHR 0x0A] @ final)"

section \<open>Plans and anchors\<close>

lemma join_member: "x \<in> set xs \<Longrightarrow> sublist x (join sep xs)"
  by (induction sep xs rule: join.induct) (auto simp: sublist_append_rightI intro: sublist_append_leftI sublist_order.order_trans [OF _ sublist_append_leftI])

lemma lower_sub: "sublist x y \<Longrightarrow> has_sub (lower x) (lower y)"
  by (simp add: has_sub_def lower_def map_mono_sublist)

text \<open>
  The final summary of a task contains every anchor that it has to keep, up to case.
\<close>

theorem anchors_in_summary:
  "list_all (\<lambda>a. has_sub (lower a) (lower (completion_summary_with_required_anchors summary task ctx)))
     (completion_required_anchor_tokens task ctx)"
proof -
  define body where "body = sanitize_completion_summary (PStr summary)"
  define missing where "missing = filter (\<lambda>a. a \<noteq> '''' \<and> \<not> has_sub (lower a) (lower body)) (completion_required_anchor_tokens task ctx)"
  define out where "out = completion_summary_with_required_anchors summary task ctx"
  have out: "out = (if missing = [] then body else if body = '''' then join '' '' missing
         else if ends_with_any sentence_ends body then body @ '' '' @ join '' '' missing
         else body @ ''. '' @ join '' '' missing)"
    unfolding out_def completion_summary_with_required_anchors_def Let_def body_def [symmetric] missing_def [symmetric] ..
  have body_in: "sublist body out" and join: "missing \<noteq> [] \<Longrightarrow> sublist (join '' '' missing) out"
    unfolding out using sublist_append_leftI [of "join '' '' missing" "body @ '' ''"]
      sublist_append_leftI [of "join '' '' missing" "body @ ''. ''"] by auto
  have "has_sub (lower a) (lower out)" if "a \<in> set (completion_required_anchor_tokens task ctx)" for a
  proof (cases "a \<in> set missing")
    case True
    then show ?thesis using join join_member [OF True, of "'' ''"] by (metis empty_iff lower_sub list.set(1) sublist_order.order_trans)
  next
    case False
    then have "a = '''' \<or> has_sub (lower a) (lower body)" using that by (auto simp: missing_def)
    then show ?thesis using lower_sub [OF body_in] by (auto simp: has_sub_def lower_def intro: sublist_order.order_trans)
  qed
  then show ?thesis by (simp add: list_all_iff out_def)
qed

text \<open>Completing a plan leaves no step open.\<close>

lemma completed_plan:
  assumes "list_all (\<lambda>s. dget s ''id'' \<noteq> PNone) plan"
  shows "list_all (\<lambda>s. dget s ''status'' = PStr ''completed'') (advance plan i None (Some ''completed''))"
  using assms by (auto simp: advance_def list_all_iff dget_dput)

end
