(* ===== verification/TaskEnd.thy ===== *)
theory TaskEnd
  imports TaskState TaskRecords
begin

text \<open>
  How a task ends (\<open>orchestrator/task_lifecycle.py\<close>): cancel tokens, the audit of approvals, the gate
  that keeps a task open while approvals or children are pending, validation after the task, and
  completing or failing it. The world holds the task table of \<open>TaskState\<close> with the other columns of
  every task, the messages in the order of their creation, the cancel tokens, the approvals of every
  task in the order of their creation with their parsed request, and what the store returns for the
  evidence. The caller holds a copy of the task, which may be stale. Running a tool, looking for a
  git root, new identifiers and the similarity of texts are parameters.
\<close>

section \<open>The world\<close>

record chat_message =
  m_id :: string
  m_session :: string
  m_task :: string
  m_role :: string
  m_content :: string
  m_status :: string
  m_kind :: string

record task_world =
  tw_rt :: runtime
  tw_details :: "string \<Rightarrow> pdict"
  tw_messages :: "chat_message list"
  tw_tokens :: "(string \<times> bool) list"
  tw_approvals :: "string \<Rightarrow> pdict list"
  tw_evidence :: evidence_store

text \<open>The error of a missing message carries the world as it was left.\<close>

datatype end_error = StoreError task_error | MissingMessage task_world

record end_env =
  en_run_tool :: "task_world \<Rightarrow> pdict \<Rightarrow> string \<Rightarrow> pdict \<Rightarrow> task_world \<times> (string + pdict)"
  en_git_root :: "pv \<Rightarrow> bool"
  en_ratio :: "string \<Rightarrow> string \<Rightarrow> rat"
  en_message_id :: "nat \<Rightarrow> string"

definition task_key :: "pdict \<Rightarrow> string" where
  "task_key task = the_str (dget task ''id'')"

definition held_status :: "pdict \<Rightarrow> string" where
  "held_status task = the_str (dget task ''status'')"

definition store_result :: "task_error + 'a \<Rightarrow> end_error + 'a" where
  "store_result r = (case r of Inl e \<Rightarrow> Inl (StoreError e) | Inr x \<Rightarrow> Inr x)"

definition effects_on :: "effect list \<Rightarrow> task_world \<Rightarrow> task_world" where
  "effects_on es w = w\<lparr>tw_rt := emit es (tw_rt w)\<rparr>"

definition task_snapshot :: "task_world \<Rightarrow> task_row \<Rightarrow> pdict" where
  "task_snapshot w r = dpop ''status'' (tw_details w (t_id r)) @ [(''status'', PStr (t_status r))]"

definition touch_task :: "string \<Rightarrow> runtime \<Rightarrow> task_error + (runtime \<times> task_row)" where
  "touch_task i st =
     (let st' = st\<lparr>tasks := map (\<lambda>r. if t_id r = i then r\<lparr>t_updated := clock st\<rparr> else r) (tasks st)\<rparr>
      in rbind (get_task st' i) (\<lambda>r. Inr (st', r)))"

definition store_update_task :: "task_world \<Rightarrow> string \<Rightarrow> string option \<Rightarrow> pdict \<Rightarrow> end_error + (task_world \<times> pdict)" where
  \<comment> \<open>the status, if it is given, and the given columns; a plan also sets the current step\<close>
  "store_update_task w i status columns =
     (let step = (case dget columns ''plan'' of
            PList xs \<Rightarrow> (case current_step_from_plan (map the_dict xs) of Some s \<Rightarrow> [(''currentStep'', PStr s)] | None \<Rightarrow> [])
          | _ \<Rightarrow> []);
          w1 = w\<lparr>tw_details := (tw_details w)(i := dupdate (tw_details w i) (columns @ step))\<rparr>
      in rbind (store_result (case status of
              Some s \<Rightarrow> update_task_with_status (tw_rt w1) i s
            | None \<Rightarrow> touch_task i (tw_rt w1)))
           (\<lambda>(rt, r). let w2 = w1\<lparr>tw_rt := rt\<rparr> in Inr (w2, task_snapshot w2 r)))"

section \<open>Cancel tokens\<close>

definition cancelled_status :: "pdict \<Rightarrow> bool" where
  "cancelled_status task \<longleftrightarrow> status_field task \<in> {''cancelled'', ''canceled''}"

definition latest_task_snapshot :: "task_world \<Rightarrow> pdict \<Rightarrow> pdict" where
  "latest_task_snapshot w task =
     (let i = clean_field task ''id'' in
      if i = '''' then task
      else case find_task (tw_rt w) i of Some r \<Rightarrow> task_snapshot w r | None \<Rightarrow> task)"

definition ensure_task_cancel_token :: "task_world \<Rightarrow> pdict \<Rightarrow> task_world \<times> bool" where
  \<comment> \<open>the token of the task, created when there is none; the flag says whether it is cancelled\<close>
  "ensure_task_cancel_token w task =
     (let i = clean_field task ''id'' in
      if i = '''' then (w, False)
      else let cancelled = (map_of (tw_tokens w) i = Some True \<or> cancelled_status (latest_task_snapshot w task))
           in (w\<lparr>tw_tokens := AList.update i cancelled (tw_tokens w)\<rparr>, cancelled))"

definition release_task_cancel_token :: "task_world \<Rightarrow> pdict \<Rightarrow> task_world" where
  "release_task_cancel_token w task = w\<lparr>tw_tokens := AList.delete (clean_field task ''id'') (tw_tokens w)\<rparr>"

definition task_is_cancelled :: "task_world \<Rightarrow> pdict \<Rightarrow> task_world \<times> bool" where
  "task_is_cancelled w task =
     (let i = clean_field task ''id'' in
      if map_of (tw_tokens w) i = Some True then (w, True)
      else if cancelled_status (latest_task_snapshot w task)
      then (if map_of (tw_tokens w) i = None then w else w\<lparr>tw_tokens := AList.update i True (tw_tokens w)\<rparr>, True)
      else (w, False))"

definition cancelled_task_result :: "task_world \<Rightarrow> pdict \<Rightarrow> string \<Rightarrow> pdict" where
  "cancelled_task_result w task summary =
     (let latest = latest_task_snapshot w task in
      if cancelled_status latest \<and> summary \<noteq> '''' then dput ''resultSummary'' (PStr summary) latest else latest)"

section \<open>The audit of approvals\<close>

definition audit_details :: "string \<Rightarrow> pdict \<Rightarrow> pdict \<Rightarrow> pdict" where
  \<comment> \<open>what the kind of approval adds to the item\<close>
  "audit_details kind req item =
     (if kind = ''completion_review''
      then let ev = the_dict (dget req ''completionEvidence'');
               gate = the_dict (dget (the_dict (dget req ''structuredResult'')) ''completionGate'')
           in dupdate item [(''evidenceLevel'', dget ev ''evidenceLevel''),
                (''gateStatus'', por (dget item ''gateStatus'') (dget gate ''status'')),
                (''summary'', PStr (utake 500 (clean_field req ''summary'')))]
      else if kind = ''worktree_merge''
      then let review = the_dict (dget req ''review'')
           in dupdate item [(''reviewStatus'', por (dget review ''status'') (dget req ''reviewStatus'')),
                (''reviewer'', por (dget review ''reviewer'') (dget req ''reviewer'')),
                (''reviewerSummary'', por (dget review ''summary'') (dget req ''reviewerSummary'')),
                (''verificationStatus'', dget req ''verificationStatus''), (''targetBranch'', dget req ''targetBranch'')]
      else item)"

definition completion_approval_audit_item :: "pdict \<Rightarrow> pdict" where
  "completion_approval_audit_item ap =
     (let req = the_dict (dget ap ''request'');
          kind = strip (py_str (por (por (dget ap ''kind'') (dget req ''kind'')) (PStr '''')));
          noted = filter (\<lambda>k. is_str (dget req k) \<and> strip (the_str (dget req k)) \<noteq> '''') [''reason'', ''risk'', ''gateStatus'', ''source'']
      in drop_void (audit_details kind req
          ([(''approvalId'', dget ap ''id''), (''taskId'', dget ap ''taskId''), (''kind'', PStr kind),
            (''decision'', por (dget ap ''decision'') (PStr ''pending'')), (''decidedBy'', dget ap ''decidedBy''),
            (''createdAt'', dget ap ''createdAt''), (''decidedAt'', dget ap ''decidedAt'')] @
           map (\<lambda>k. (k, PStr (strip (the_str (dget req k))))) noted)))"

definition take_last :: "nat \<Rightarrow> 'a list \<Rightarrow> 'a list" where
  \<comment> \<open>\<open>xs[-n:]\<close>\<close>
  "take_last n xs = drop (length xs - n) xs"

definition completion_approval_audit :: "(string \<Rightarrow> pdict list) \<Rightarrow> string \<Rightarrow> pdict list" where
  "completion_approval_audit approvals task_id =
     (if strip task_id = '''' then []
      else take_last 20 (filter (\<lambda>x. x \<noteq> []) (map completion_approval_audit_item (approvals task_id))))"

definition created_at :: "pdict \<Rightarrow> int" where
  "created_at item = (case dget item ''createdAt'' of PInt n \<Rightarrow> n | _ \<Rightarrow> 0)"

definition completion_approval_audit_for_completion ::
  "(string \<Rightarrow> pdict list) \<Rightarrow> pdict \<Rightarrow> pdict list \<Rightarrow> pdict list" where
  "completion_approval_audit_for_completion approvals task child_tasks =
     (let ids = clean_field task ''id'' #
            map (\<lambda>c. clean_field c ''id'') (filter (\<lambda>c. dget c ''source'' = PStr ''child_runtime_task'') child_tasks)
      in take_last 50 (sort_key created_at
          (concat (map (completion_approval_audit approvals) (dedupe [] (filter (\<lambda>i. i \<noteq> '''') ids))))))"

definition completion_approval_counts :: "pdict list \<Rightarrow> pdict" where
  "completion_approval_counts approvals =
     (let decided = (\<lambda>a. lower (strip (py_str (por (dget a ''decision'') (PStr ''pending'')))));
          count = (\<lambda>P. PInt (int (length (filter (\<lambda>a. P (decided a)) approvals))))
      in [(''total'', count (\<lambda>_. True)), (''approved'', count (\<lambda>d. d = ''approved'')),
          (''rejected'', count (\<lambda>d. d = ''rejected'')), (''pending'', count (\<lambda>d. d \<notin> {''approved'', ''rejected''}))])"

section \<open>The gate\<close>

definition completion_pending_approval_items :: "pdict list \<Rightarrow> pdict list" where
  "completion_pending_approval_items approvals =
     filter (\<lambda>a. lower (strip (py_str (por (dget a ''decision'') (PStr ''pending'')))) = ''pending'' \<and>
         lower (clean_field a ''kind'') \<notin> {''completion_review'', ''advisor_tool''}) approvals"

definition completion_unresolved_child_tasks :: "pdict list \<Rightarrow> pdict list" where
  "completion_unresolved_child_tasks child_tasks =
     filter (\<lambda>c. status_field c \<notin> {'''', ''completed'', ''success'', ''failed'', ''cancelled''}) child_tasks"

definition first_three :: "string list \<Rightarrow> string" where
  "first_three xs = join '', '' (take 3 xs) @ (if 3 < length xs then ''...'' else '''')"

definition completion_unresolved_runtime_work_gate :: "pdict list \<Rightarrow> pdict list \<Rightarrow> string option" where
  \<comment> \<open>the reason to wait, if there is one; the other fields of the decision are constant\<close>
  "completion_unresolved_runtime_work_gate approvals child_tasks =
     (let waiting = completion_pending_approval_items approvals; children = completion_unresolved_child_tasks child_tasks;
          kinds = filter (\<lambda>k. k \<noteq> '''') (map (\<lambda>a. clean_field a ''kind'') waiting);
          details = map (\<lambda>c. py_str (dget c ''id'') @ '':'' @ py_str (dget c ''status''))
            (filter (\<lambda>c. truthy (dget c ''id'') \<and> truthy (dget c ''status'')) children);
          parts = (if waiting \<noteq> [] then [''pending approval(s): '' @ first_three kinds] else []) @
            (if children \<noteq> [] then [''unresolved child task(s): '' @ first_three details] else [])
      in if parts = [] then None
         else Some (''Completion is waiting for runtime work to settle. '' @ join ''; '' parts @ ''.''))"

section \<open>Messages\<close>

definition update_message :: "task_world \<Rightarrow> string \<Rightarrow> string \<Rightarrow> string \<Rightarrow> string option \<Rightarrow> task_world \<times> bool" where
  \<comment> \<open>the flag says whether the message exists\<close>
  "update_message w i content status kind =
     (w\<lparr>tw_messages := map (\<lambda>m. if m_id m = i
          then m\<lparr>m_content := content, m_status := status, m_kind := (case kind of Some k \<Rightarrow> k | None \<Rightarrow> m_kind m)\<rparr> else m)
        (tw_messages w)\<rparr>,
      list_ex (\<lambda>m. m_id m = i) (tw_messages w))"

definition create_message :: "end_env \<Rightarrow> task_world \<Rightarrow> chat_message \<Rightarrow> task_world \<times> string" where
  "create_message en w m =
     (let i = en_message_id en (length (tw_messages w)) in (w\<lparr>tw_messages := tw_messages w @ [m\<lparr>m_id := i\<rparr>]\<rparr>, i))"

definition previous_content :: "task_world \<Rightarrow> string \<Rightarrow> string \<Rightarrow> string" where
  \<comment> \<open>among the first thousand messages of the session\<close>
  "previous_content w session i =
     (case find (\<lambda>m. m_id m = i) (take 1000 (filter (\<lambda>m. m_session m = session) (tw_messages w))) of
        Some m \<Rightarrow> m_content m | None \<Rightarrow> '''')"

definition final_message ::
  "end_env \<Rightarrow> task_world \<Rightarrow> string \<Rightarrow> pdict \<Rightarrow> string \<Rightarrow> string \<Rightarrow> string \<Rightarrow> task_world \<times> string option" where
  \<comment> \<open>the last message of the task gets a status and its content; None when it does not exist\<close>
  "final_message en w session task status kind summary =
     (case dget task ''activeAssistantMessageId'' of
        PStr (c # cs) \<Rightarrow>
          let content = merge_active_assistant_completion_content (en_ratio en) (previous_content w session (c # cs)) summary;
              (w', found) = update_message w (c # cs) content status (if kind = ''failure'' then Some kind else None)
          in (w', if found then Some (c # cs) else None)
      | _ \<Rightarrow>
          let (w', i) = create_message en w
            \<lparr>m_id = '''', m_session = session, m_task = task_key task, m_role = ''assistant'', m_content = summary,
             m_status = status, m_kind = kind\<rparr>
          in (w', Some i))"

section \<open>Validation after the task\<close>

definition run_validation_tool ::
  "end_env \<Rightarrow> task_world \<Rightarrow> pdict \<Rightarrow> string \<Rightarrow> pdict \<Rightarrow> task_world \<times> pdict" where
  "run_validation_tool en w task name arguments =
     (case en_run_tool en w task name arguments of
        (w', Inl err) \<Rightarrow> (w', [(''name'', PStr name), (''status'', PStr ''failed''), (''error'', PStr err)])
      | (w', Inr tool_result) \<Rightarrow>
          let r = the_dict (dget tool_result ''result'');
              status = (case dget r ''status'' of PStr (c # cs) \<Rightarrow> c # cs | _ \<Rightarrow> ''completed'')
          in (w', [(''name'', PStr name), (''status'', PStr status), (''result'', PDict r)] @
                  (if name = ''run_command'' \<and> is_str (dget arguments ''command'')
                   then [(''command'', dget arguments ''command'')] else [])))"

definition skipped_check :: "string \<Rightarrow> string \<Rightarrow> pdict" where
  "skipped_check name why = [(''name'', PStr name), (''status'', PStr ''skipped''), (''reason'', PStr why)]"

definition post_task_validation_git_snapshot_enabled :: "pdict \<Rightarrow> bool" where
  "post_task_validation_git_snapshot_enabled ctx =
     (case filter is_bool (map (dget (the_dict (dget ctx ''post_task_validation'')))
         [''gitSnapshot'', ''git_snapshot'', ''includeGitSnapshot'', ''include_git_snapshot'']) of
        PBool b # _ \<Rightarrow> b | _ \<Rightarrow> False)"

definition git_checks :: "end_env \<Rightarrow> task_world \<Rightarrow> pdict \<Rightarrow> pdict \<Rightarrow> task_world \<times> pdict list" where
  "git_checks en w task ctx =
     (let root = dget ctx ''workspace_root''; arguments = [(''workspaceRoot'', root)];
          why = ''Workspace is not a Git repository.'' in
      if \<not> post_task_validation_git_snapshot_enabled ctx then (w, [])
      else if \<not> en_git_root en root then (w, [skipped_check ''git_status'' why, skipped_check ''git_diff'' why])
      else let (w1, c1) = run_validation_tool en w task ''git_status'' arguments;
               (w2, c2) = run_validation_tool en w1 task ''git_diff'' arguments
           in (w2, [c1, c2]))"

definition command_check ::
  "end_env \<Rightarrow> task_world \<Rightarrow> pdict \<Rightarrow> pdict \<Rightarrow> string option \<Rightarrow> task_world \<times> pdict list" where
  "command_check en w task ctx command =
     (case command of
        Some c \<Rightarrow>
          let (w', check) = run_validation_tool en w task ''run_command''
            [(''workspaceRoot'', dget ctx ''workspace_root''), (''cwd'', PStr ''.''), (''command'', PStr c),
             (''internalValidation'', PBool True)]
          in (w', [check])
      | None \<Rightarrow>
          (w, if post_task_validation_git_snapshot_enabled ctx
              then [skipped_check ''run_command'' ''No validation command was configured.''] else []))"

text \<open>The caller's copy takes over what the store returns, its status included.\<close>

definition record_task_verification :: "task_world \<Rightarrow> pdict \<Rightarrow> pdict \<Rightarrow> end_error + (task_world \<times> pdict)" where
  "record_task_verification w task validation =
     (let records = verification_records_from_validation validation in
      if records = [] then Inr (w, task)
      else rbind (store_update_task w (task_key task) None [(''verification'', PList (map PDict records))]) (\<lambda>(w', updated).
        let task' = dupdate task updated in
        Inr (effects_on [Published ''task.updated'' (task_key task') (held_status task')] w', task')))"

definition run_post_task_validation ::
  "end_env \<Rightarrow> task_world \<Rightarrow> pdict \<Rightarrow> pdict \<Rightarrow> pv list \<Rightarrow> end_error + (task_world \<times> pdict \<times> pdict)" where
  \<comment> \<open>the empty dictionary stands for None\<close>
  "run_post_task_validation en w task ctx tool_results =
     (let patches = completed_patch_results (map the_dict (filter is_dict tool_results));
          command = resolve_validation_command (es_command_logs (tw_evidence w)) ctx patches task;
          (w1, git) = git_checks en w task ctx;
          (w2, cmd) = command_check en w1 task ctx command;
          checks = git @ cmd;
          payload = [(''patches'', PList (map PDict patches)), (''checks'', PList (map PDict checks)),
             (''ran'', PList (map (\<lambda>c. dget c ''name'') (filter (\<lambda>c. dget c ''status'' = PStr ''completed'') checks))),
             (''command'', case cmd of c # _ \<Rightarrow> PDict c | [] \<Rightarrow> PNone),
             (''summary'', PStr (format_validation_summary patches checks command))]
      in if patches = [] then Inr (w, task, [])
         else if checks = []
         then Inr (w2, task, payload @ [(''verification'', por (dget task ''verification'') (PList [])), (''changeSummaryOnly'', PBool True)])
         else rbind (record_task_verification w2 task payload) (\<lambda>(w3, task').
           Inr (effects_on [Published ''task.validation.completed'' (task_key task') ''''] w3, task',
                payload @ [(''verification'', por (dget task' ''verification'') (PList []))])))"

section \<open>Completing and failing\<close>

definition validate_worker_output :: "task_world \<Rightarrow> pdict \<Rightarrow> task_world" where
  "validate_worker_output w task =
     (if dget_or task ''role'' (PStr ''root'') = PStr ''root'' \<or> \<not> truthy (dget task ''rootTaskId'') \<or>
         dget task ''rootTaskId'' = dget task ''id'' \<or> (truthy (dget task ''testsRun'') \<and> truthy (dget task ''risks''))
      then w else effects_on [Published ''task.worker.validation'' (task_key task) ''''] w)"

definition drain_unless :: "bool \<Rightarrow> string \<Rightarrow> task_world \<Rightarrow> end_error + task_world" where
  "drain_unless skip session w =
     (if skip then Inr w
      else rbind (store_result (drain_session_queue (tw_rt w) session)) (\<lambda>rt. Inr (w\<lparr>tw_rt := rt\<rparr>)))"

definition plan_columns :: "pdict \<Rightarrow> string \<Rightarrow> pdict" where
  "plan_columns task summary =
     [(''plan'', PList (the_list (dget task ''plan''))), (''summary'', PStr summary), (''resultSummary'', PStr summary)]"

definition mark_completion_waiting_on_runtime_work ::
  "task_world \<Rightarrow> string \<Rightarrow> pdict \<Rightarrow> string \<Rightarrow> pdict \<Rightarrow> string \<Rightarrow> bool \<Rightarrow> end_error + (task_world \<times> pdict)" where
  "mark_completion_waiting_on_runtime_work w session task summary structured_result why skip_drain =
     (let gate = [(''status'', PStr ''waiting_runtime_work''), (''reason'', PStr why),
            (''risk'', PStr ''runtime has unresolved child work or pending approvals''),
            (''decision'', PStr ''unresolved_runtime_work''), (''internal'', PBool True)];
          waiting = dupdate structured_result [(''status'', PStr ''waiting_runtime_work''), (''completionGate'', PDict gate)]
      in rbind (store_update_task w (task_key task) (if held_status task \<noteq> ''running'' then Some ''running'' else None)
            (plan_columns task summary @ [(''structuredResult'', PDict waiting)])) (\<lambda>(w1, t).
        let task' = dupdate t [(''plan'', PList (the_list (dget task ''plan''))), (''resultSummary'', PStr summary)];
            i = task_key task';
            w2 = (case dget task' ''activeAssistantMessageId'' of
                PStr (c # cs) \<Rightarrow> fst (update_message w1 (c # cs) summary ''streaming'' None) | _ \<Rightarrow> w1);
            w3 = effects_on [Published ''agent.decision.completion'' i ''unresolved_runtime_work'',
                             Published ''task.runtime_work_waiting'' i ''running'', MetricsRecorded i ''running''] w2
        in rbind (drain_unless skip_drain session w3) (\<lambda>w4. Inr (w4, task'))))"

definition finalize_completed_task ::
  "end_env \<Rightarrow> task_world \<Rightarrow> string \<Rightarrow> pdict \<Rightarrow> string \<Rightarrow> pdict \<Rightarrow> bool \<Rightarrow> end_error + (task_world \<times> pdict)" where
  "finalize_completed_task en w session task summary structured_result skip_drain =
     rbind (store_update_task w (task_key task) (Some ''completed'')
         (plan_columns task summary @ [(''structuredResult'', PDict structured_result)])) (\<lambda>(w1, t).
       let task' = dupdate t [(''plan'', PList (the_list (dget task ''plan''))), (''resultSummary'', PStr summary)];
           i = task_key task';
           (w2, message) = final_message en w1 session task' ''completed'' ''normal'' summary;
           w3 = effects_on [TaskRemembered i, MemoriesConsolidated session, PendingReactCleared i, MetricsRecorded i ''completed''] w2
       in case message of
         None \<Rightarrow> Inl (MissingMessage w3)
       | Some _ \<Rightarrow>
           let w4 = effects_on [Published ''message.completed'' i '''', Published ''task.completed'' i (held_status task'),
                      HookFired ''after_task_complete'' i] w3
           in rbind (drain_unless skip_drain session (validate_worker_output w4 task')) (\<lambda>w5. Inr (w5, task')))"

definition ended_statuses :: "string list" where
  "ended_statuses = [''completed'', ''failed'', ''cancelled'']"

definition lifecycle_complete_task ::
  "end_env \<Rightarrow> task_world \<Rightarrow> string \<Rightarrow> pdict \<Rightarrow> string \<Rightarrow> pdict \<Rightarrow> pv list \<Rightarrow> bool \<Rightarrow> end_error + (task_world \<times> pdict)" where
  "lifecycle_complete_task en w session task summary ctx tool_results skip_drain =
     (case task_is_cancelled w task of
        (w0, True) \<Rightarrow> Inr (w0, cancelled_task_result w0 task summary)
      | (w0, False) \<Rightarrow>
          rbind (run_post_task_validation en w0 task ctx tool_results) (\<lambda>(w1, task1, validation).
            let final_summary = completion_summary_with_required_anchors (merge_completion_summary summary validation) task1 ctx;
                evidence = build_completion_evidence (tw_evidence w1) task1 ctx validation tool_results;
                approvals = completion_approval_audit_for_completion (tw_approvals w1) task1 (ev_child_tasks evidence);
                plan = advance (map the_dict (the_list (dget task1 ''plan''))) ''summarize-findings'' None (Some ''completed'');
                task2 = dput ''plan'' (PList (map PDict plan)) task1;
                structured_result = [(''summary'', PStr final_summary), (''status'', PStr (ev_status evidence)),
                  (''changedFiles'', por (dget task2 ''changedFiles'') (PList [])), (''testsRun'', por (dget task2 ''testsRun'') (PList [])),
                  (''risks'', por (dget task2 ''risks'') (PList [])), (''keyFindings'', PList [])]
            in if held_status task2 \<in> set ended_statuses then Inr (w1, dput ''resultSummary'' (PStr final_summary) task2)
               else case completion_unresolved_runtime_work_gate approvals (ev_child_tasks evidence) of
                 Some why \<Rightarrow> mark_completion_waiting_on_runtime_work w1 session task2 final_summary structured_result why skip_drain
               | None \<Rightarrow> finalize_completed_task en w1 session task2 final_summary structured_result skip_drain))"

definition lifecycle_fail_task ::
  "end_env \<Rightarrow> task_world \<Rightarrow> string \<Rightarrow> pdict \<Rightarrow> string \<Rightarrow> string \<Rightarrow> bool \<Rightarrow> pdict option \<Rightarrow> end_error + (task_world \<times> pdict)" where
  "lifecycle_fail_task en w session task summary error_code skip_drain structured_result =
     (case task_is_cancelled w task of
        (w0, True) \<Rightarrow> Inr (w0, cancelled_task_result w0 task summary)
      | (w0, False) \<Rightarrow>
          if held_status task \<in> set ended_statuses
          then Inr (w0, dupdate task [(''errorCode'', PStr error_code), (''resultSummary'', PStr summary)])
          else
          let w1 = effects_on [PendingToolTerminated (task_key task) ''failed''] w0 in
          rbind (store_update_task w1 (task_key task) (Some ''failed'')
             (plan_columns task summary @ [(''errorCode'', PStr error_code)] @
              (case structured_result of Some d \<Rightarrow> [(''structuredResult'', PDict d)] | None \<Rightarrow> []))) (\<lambda>(w2, t).
            let task' = dupdate t [(''plan'', PList (the_list (dget task ''plan''))), (''errorCode'', PStr error_code)];
                i = task_key task';
                (w3, message) = final_message en w2 session task' ''failed'' ''failure'' summary;
                w4 = effects_on [TaskRemembered i, PendingReactCleared i, MetricsRecorded i ''failed'',
                       Published ''agent.decision.completion'' i ''failed''] w3
            in case message of
              None \<Rightarrow> Inl (MissingMessage w4)
            | Some _ \<Rightarrow>
                let w5 = effects_on [Published ''message.failed'' i '''', Published ''task.failed'' i (held_status task'),
                           HookFired ''on_task_failed'' i] w4
                in rbind (drain_unless skip_drain session w5) (\<lambda>w6. Inr (w6, task'))))"

end
