(* ===== verification/TaskEndProps.thy ===== *)
theory TaskEndProps
  imports TaskEnd
begin

text \<open>
  What completing and failing a task do: the exact end status and trace, tasks that ended before, and
  the situations the code does not handle.
\<close>

section \<open>Lemmas\<close>

lemma dupdate_Nil [simp]: "dupdate d [] = d"
  by (simp add: dupdate_def)

lemma dupdate_append: "dupdate d (e @ f) = dupdate (dupdate d e) f"
  by (simp add: dupdate_def)

lemma dupdate_Cons [simp]: "dupdate d ((k, v) # e) = dupdate (dput k v d) e"
  by (simp add: dupdate_def)

lemma dget_dupdate_other: "k \<notin> fst ` set e \<Longrightarrow> dget (dupdate d e) k = dget d k"
  by (induction e arbitrary: d) (auto simp: dget_dput)

lemma dget_snapshot: "dget (task_snapshot w r) k = (if k = ''status'' then PStr (t_status r) else dget (tw_details w (t_id r)) k)"
  by (simp add: task_snapshot_def dget_def dpop_def map_add_def delete_conv' split: option.split)

lemma held_after_update [simp]: "held_status (dupdate d (task_snapshot w r)) = t_status r"
  by (simp add: held_status_def task_snapshot_def dupdate_append dget_dput)

lemma store_result_Inr [simp]: "store_result (Inr x) = Inr x"
  by (simp add: store_result_def)

lemma effects_emit [simp]: "effects (emit es st) = effects st @ es"
  by (simp add: emit_def)

lemma effects_set_status [simp]: "effects (set_status i s st) = effects st"
  by (simp add: set_status_def)

lemma find_touch:
  "find_task (st\<lparr>tasks := map (\<lambda>r. if t_id r = i then r\<lparr>t_updated := c\<rparr> else r) (tasks st)\<rparr>) j =
     (if j = i then map_option (\<lambda>r. r\<lparr>t_updated := c\<rparr>) (find_task st i) else find_task st j)"
proof -
  have "List.find (\<lambda>r. t_id r = j) (map (\<lambda>r. if t_id r = i then r\<lparr>t_updated := c\<rparr> else r) rs) =
     (if j = i then map_option (\<lambda>r. r\<lparr>t_updated := c\<rparr>) (List.find (\<lambda>r. t_id r = i) rs)
      else List.find (\<lambda>r. t_id r = j) rs)" for rs :: "task_row list"
    by (induction rs) auto
  then show ?thesis by (simp add: find_task_def)
qed

lemma update_task_found:
  assumes "find_task (tw_rt w) i = Some r"
  obtains w' r' where "store_update_task w i status columns = Inr (w', task_snapshot w' r')"
    "find_task (tw_rt w') i = Some r'" "t_id r' = i" "t_status r' = (case status of Some s \<Rightarrow> s | None \<Rightarrow> t_status r)"
    "\<forall>j. j \<noteq> i \<longrightarrow> status_at (tw_rt w') j = status_at (tw_rt w) j"
    "effects (tw_rt w') = effects (tw_rt w) @
       (case status of Some s \<Rightarrow> if terminal_status s then [StorageCleanup (''task_'' @ s)] else [] | None \<Rightarrow> [])"
    "tw_messages w' = tw_messages w" "tw_tokens w' = tw_tokens w"
    "\<forall>k. k \<notin> fst ` set columns \<union> {''currentStep''} \<longrightarrow> dget (tw_details w' i) k = dget (tw_details w i) k"
proof -
  define step where "step = (case dget columns ''plan'' of
      PList xs \<Rightarrow> (case current_step_from_plan (map the_dict xs) of Some s \<Rightarrow> [(''currentStep'', PStr s)] | None \<Rightarrow> [])
    | _ \<Rightarrow> [])"
  define w1 where "w1 = w\<lparr>tw_details := (tw_details w)(i := dupdate (tw_details w i) (columns @ step))\<rparr>"
  have step: "fst ` set step \<subseteq> {''currentStep''}" by (auto simp: step_def split: pv.splits option.splits)
  then have d: "dget (tw_details w1 i) k = dget (tw_details w i) k" if "k \<notin> fst ` set columns \<union> {''currentStep''}" for k
  proof -
    have "k \<notin> fst ` set (columns @ step)" using that step by (auto simp del: set_simps)
    then show ?thesis by (simp add: w1_def dget_dupdate_other del: set_append)
  qed
  have rid: "t_id r = i" using find_task_id [OF assms] by simp
  obtain rt r' where rt: "(case status of Some s \<Rightarrow> update_task_with_status (tw_rt w1) i s | None \<Rightarrow> touch_task i (tw_rt w1)) = Inr (rt, r')"
    and r': "find_task rt i = Some r'" "t_id r' = i" "t_status r' = (case status of Some s \<Rightarrow> s | None \<Rightarrow> t_status r)"
    and other: "\<forall>j. j \<noteq> i \<longrightarrow> status_at rt j = status_at (tw_rt w) j"
    and eff: "effects rt = effects (tw_rt w) @
       (case status of Some s \<Rightarrow> if terminal_status s then [StorageCleanup (''task_'' @ s)] else [] | None \<Rightarrow> [])"
  proof (cases status)
    case (Some s)
    let ?rt = "if terminal_status s then emit [StorageCleanup (''task_'' @ s)] (set_status i s (tw_rt w)) else set_status i s (tw_rt w)"
    show ?thesis
      by (rule that [of ?rt "r\<lparr>t_status := s, t_updated := clock (tw_rt w)\<rparr>"])
        (use assms rid in \<open>auto simp: Some w1_def update_task_with_status_found find_task_set_status status_at_set_status
           effects_set_status effects_emit\<close>)
  next
    case None
    show ?thesis
      by (rule that [of "(tw_rt w)\<lparr>tasks := map (\<lambda>r. if t_id r = i then r\<lparr>t_updated := clock (tw_rt w)\<rparr> else r) (tasks (tw_rt w))\<rparr>"
            "r\<lparr>t_updated := clock (tw_rt w)\<rparr>"])
        (use assms rid in \<open>auto simp: None w1_def find_touch touch_task_def Let_def get_task_def status_at_def\<close>)
  qed
  have up: "store_update_task w i status columns = Inr (w1\<lparr>tw_rt := rt\<rparr>, task_snapshot (w1\<lparr>tw_rt := rt\<rparr>) r')"
    unfolding store_update_task_def Let_def step_def [symmetric] w1_def [symmetric] rt by simp
  have d': "\<forall>k. k \<notin> fst ` set columns \<union> {''currentStep''} \<longrightarrow> dget (tw_details (w1\<lparr>tw_rt := rt\<rparr>) i) k = dget (tw_details w i) k"
    using d by simp
  show ?thesis by (rule that [OF up _ r'(2,3) _ _ _ _ d']) (use r'(1) other eff in \<open>simp_all add: w1_def\<close>)
qed

lemma update_task_to:
  assumes "find_task (tw_rt w) i = Some r" "terminal_status s"
  obtains w' r' where "store_update_task w i (Some s) columns = Inr (w', task_snapshot w' r')"
    "find_task (tw_rt w') i = Some r'" "t_id r' = i" "t_status r' = s"
    "\<forall>j. j \<noteq> i \<longrightarrow> status_at (tw_rt w') j = status_at (tw_rt w) j"
    "effects (tw_rt w') = effects (tw_rt w) @ [StorageCleanup (''task_'' @ s)]"
    "tw_messages w' = tw_messages w" "tw_tokens w' = tw_tokens w"
    "\<forall>k. k \<notin> fst ` set columns \<union> {''currentStep''} \<longrightarrow> dget (tw_details w' i) k = dget (tw_details w i) k"
  by (rule update_task_found [OF assms(1), of "Some s" columns, unfolded option.case if_P [OF assms(2)]]) (rule that)

lemma str_field_PStr: "dget d k = PStr s \<Longrightarrow> str_field d k = s"
  by (simp add: str_field_def por_def)

lemma clean_field_PStr: "dget d k = PStr s \<Longrightarrow> clean_field d k = strip s"
  by (simp add: clean_field_def str_field_PStr)

lemma status_snapshot: "status_field (task_snapshot w r) = lower (strip (t_status r))"
  by (simp add: status_field_def clean_field_PStr [of _ _ "t_status r"] dget_snapshot)

lemma not_cancelled:
  assumes "dget task ''id'' = PStr i" "strip i = i" "i \<noteq> ''''"
    and "map_of (tw_tokens w) i \<noteq> Some True" and "find_task (tw_rt w) i = Some r"
    and "lower (strip (t_status r)) \<notin> {''cancelled'', ''canceled''}"
  shows "task_is_cancelled w task = (w, False)"
proof -
  have i: "clean_field task ''id'' = i" using assms(1,2) clean_field_PStr by metis
  show ?thesis
    using assms by (simp add: task_is_cancelled_def i Let_def latest_task_snapshot_def cancelled_status_def status_snapshot)
qed

lemma final_message_frame:
  assumes "final_message en w session task status kind summary = (w', m)"
  shows "tw_rt w' = tw_rt w \<and> tw_details w' = tw_details w \<and>
    (m = None \<longleftrightarrow> (\<exists>c cs. dget task ''activeAssistantMessageId'' = PStr (c # cs) \<and> \<not> list_ex (\<lambda>m. m_id m = c # cs) (tw_messages w)))"
  using assms unfolding final_message_def
  by (cases "dget task ''activeAssistantMessageId''") (auto simp: Let_def update_message_def create_message_def split: list.splits if_splits)

definition message_known :: "task_world \<Rightarrow> pdict \<Rightarrow> bool" where
  \<comment> \<open>the active message of the task, if it has one, exists\<close>
  "message_known w d \<longleftrightarrow>
     (case dget d ''activeAssistantMessageId'' of
        PStr s \<Rightarrow> s = '''' \<or> list_ex (\<lambda>m. m_id m = s) (tw_messages w) | _ \<Rightarrow> True)"

lemma final_message_known:
  assumes "message_known w task"
  obtains w' m where "final_message en w session task status kind summary = (w', Some m)"
    "tw_rt w' = tw_rt w" "tw_details w' = tw_details w"
proof -
  obtain w' m where e: "final_message en w session task status kind summary = (w', m)" by fastforce
  then have "m \<noteq> None" using final_message_frame [OF e] assms by (auto simp: message_known_def)
  then show ?thesis using that e final_message_frame [OF e] by auto
qed

lemma gate_None:
  "completion_unresolved_runtime_work_gate approvals children = None \<longleftrightarrow>
     completion_pending_approval_items approvals = [] \<and> completion_unresolved_child_tasks children = []"
  by (simp add: completion_unresolved_runtime_work_gate_def Let_def)

lemma evidence_children:
  "ev_child_tasks (build_completion_evidence es task ctx validation results) = ce_tasks (completion_child_task_evidence es task)"
  unfolding build_completion_evidence_def Let_def by (simp only: completion_evidence.simps case_prod_beta)

lemma effects_on_simps [simp]:
  "tw_rt (effects_on es w) = emit es (tw_rt w)" "tw_details (effects_on es w) = tw_details w"
  "tw_messages (effects_on es w) = tw_messages w" "tw_tokens (effects_on es w) = tw_tokens w"
  by (simp_all add: effects_on_def)

lemma find_status_at: "find_task st i = Some r \<Longrightarrow> status_at st i = Some (t_status r)"
  by (simp add: status_at_def)

definition root_details :: "task_world \<Rightarrow> string \<Rightarrow> bool" where
  \<comment> \<open>the columns of a task that is not a worker's\<close>
  "root_details w i \<longleftrightarrow>
     dget (tw_details w i) ''id'' = PStr i \<and> dget (tw_details w i) ''rootTaskId'' \<in> {PNone, PStr i} \<and>
     message_known w (tw_details w i)"

lemma terminal_completed: "terminal_status ''completed''" "terminal_status ''failed''"
  by (simp_all add: terminal_status_def)

definition kept_keys :: "string set" where
  "kept_keys = {''id'', ''activeAssistantMessageId'', ''rootTaskId''}"

definition written_keys :: "string set" where
  "written_keys = {''plan'', ''summary'', ''resultSummary'', ''structuredResult'', ''errorCode'', ''currentStep''}"

lemma kept_keys_other: "k \<in> kept_keys \<Longrightarrow> k \<notin> insert ''status'' written_keys"
  unfolding kept_keys_def written_keys_def by (elim insertE emptyE) simp_all

lemma copy_after_update:
  assumes "t_id r1 = i" "k \<in> kept_keys" "fst ` set columns \<subseteq> written_keys" "fst ` set e \<subseteq> written_keys"
    and "\<forall>k. k \<notin> fst ` set columns \<union> {''currentStep''} \<longrightarrow> dget (tw_details w1 i) k = dget (tw_details w i) k"
  shows "dget (dupdate (task_snapshot w1 r1) e) k = dget (tw_details w i) k"
proof -
  have k: "k \<notin> written_keys" "k \<noteq> ''status''" using kept_keys_other [OF assms(2)] by simp_all
  have c: "''currentStep'' \<in> written_keys" by (simp add: written_keys_def)
  have "dget (tw_details w1 i) k = dget (tw_details w i) k" using assms(3,5) k(1) c by blast
  moreover have "dget (dupdate (task_snapshot w1 r1) e) k = dget (task_snapshot w1 r1) k"
    using k(1) assms(4) by (intro dget_dupdate_other) blast
  ultimately show ?thesis using k(2) assms(1) by (simp add: dget_snapshot)
qed

lemma status_after_update:
  assumes "fst ` set e \<subseteq> written_keys"
  shows "held_status (dupdate (task_snapshot w1 r1) e) = t_status r1"
proof -
  have "''status'' \<notin> written_keys" by (simp add: written_keys_def)
  then have "''status'' \<notin> fst ` set e" using assms by blast
  then show ?thesis by (simp add: held_status_def dget_dupdate_other dget_snapshot)
qed

lemma written_columns: "fst ` set (plan_columns task summary) \<subseteq> written_keys"
  by (simp add: plan_columns_def written_keys_def)

lemma finalize_exact:
  assumes "find_task (tw_rt w) i = Some r" "dget task ''id'' = PStr i" "root_details w i"
  shows "\<exists>w' t'. finalize_completed_task en w session task summary structured_result True = Inr (w', t') \<and>
    held_status t' = ''completed'' \<and> status_at (tw_rt w') i = Some ''completed'' \<and>
    (\<forall>j. j \<noteq> i \<longrightarrow> status_at (tw_rt w') j = status_at (tw_rt w) j) \<and>
    effects (tw_rt w') = effects (tw_rt w) @
      [StorageCleanup ''task_completed'', TaskRemembered i, MemoriesConsolidated session, PendingReactCleared i,
       MetricsRecorded i ''completed'', Published ''message.completed'' i '''', Published ''task.completed'' i ''completed'',
       HookFired ''after_task_complete'' i]"
proof -
  let ?cols = "plan_columns task summary @ [(''structuredResult'', PDict structured_result)]"
  have key: "task_key task = i" by (simp add: task_key_def assms(2))
  obtain w1 r1 where u: "store_update_task w i (Some ''completed'') ?cols = Inr (w1, task_snapshot w1 r1)"
      "find_task (tw_rt w1) i = Some r1" "t_id r1 = i" "t_status r1 = ''completed''"
      "\<forall>j. j \<noteq> i \<longrightarrow> status_at (tw_rt w1) j = status_at (tw_rt w) j"
      "effects (tw_rt w1) = effects (tw_rt w) @ [StorageCleanup (''task_'' @ ''completed'')]"
      "tw_messages w1 = tw_messages w" "tw_tokens w1 = tw_tokens w"
      "\<forall>k. k \<notin> fst ` set ?cols \<union> {''currentStep''} \<longrightarrow> dget (tw_details w1 i) k = dget (tw_details w i) k"
    by (rule update_task_to [OF assms(1) terminal_completed(1), of ?cols]) (rule that)
  let ?e = "[(''plan'', PList (the_list (dget task ''plan''))), (''resultSummary'', PStr summary)]"
  define t' where "t' = dupdate (task_snapshot w1 r1) ?e"
  have e: "fst ` set ?e \<subseteq> written_keys" "fst ` set ?cols \<subseteq> written_keys"
    using written_columns [of task summary] by (simp_all add: written_keys_def)
  have t': "dget t' k = dget (tw_details w i) k" if "k \<in> kept_keys" for k
    unfolding t'_def by (rule copy_after_update [OF u(3) that e(2,1) u(9)])
  have h: "held_status t' = ''completed''" unfolding t'_def status_after_update [OF e(1)] by (rule u(4))
  have k: "task_key t' = i" using t' [of "''id''"] assms(3) by (simp add: task_key_def root_details_def kept_keys_def)
  have "message_known w1 t'"
    using assms(3) t' [of "''activeAssistantMessageId''"] unfolding message_known_def root_details_def u(7) kept_keys_def by simp
  then obtain w2 m where m: "final_message en w1 session t' ''completed'' ''normal'' summary = (w2, Some m)" "tw_rt w2 = tw_rt w1"
    by (rule final_message_known)
  have v: "validate_worker_output x t' = x" for x
    using t' [of "''rootTaskId''"] t' [of "''id''"] assms(3) by (auto simp: validate_worker_output_def root_details_def kept_keys_def)
  show ?thesis
    unfolding finalize_completed_task_def key u(1) rbind_Inr case_prod_conv Let_def t'_def [symmetric] m(1) v
    using m(2) h k u(2,4,5,6) by (simp add: drain_unless_def find_status_at)
qed

lemma wait_exact:
  assumes "find_task (tw_rt w) i = Some r" "t_status r = ''running''" "held_status task = ''running''"
    "dget task ''id'' = PStr i" "root_details w i"
  shows "\<exists>w' t'. mark_completion_waiting_on_runtime_work w session task summary structured_result why True = Inr (w', t') \<and>
    held_status t' = ''running'' \<and> status_at (tw_rt w') i = Some ''running'' \<and>
    (\<forall>j. j \<noteq> i \<longrightarrow> status_at (tw_rt w') j = status_at (tw_rt w) j) \<and>
    effects (tw_rt w') = effects (tw_rt w) @
      [Published ''agent.decision.completion'' i ''unresolved_runtime_work'',
       Published ''task.runtime_work_waiting'' i ''running'', MetricsRecorded i ''running'']"
proof -
  define gate where "gate = [(''status'', PStr ''waiting_runtime_work''), (''reason'', PStr why),
            (''risk'', PStr ''runtime has unresolved child work or pending approvals''),
            (''decision'', PStr ''unresolved_runtime_work''), (''internal'', PBool True)]"
  let ?cols = "plan_columns task summary @ [(''structuredResult'', PDict (dupdate structured_result
    [(''status'', PStr ''waiting_runtime_work''), (''completionGate'', PDict gate)]))]"
  have key: "task_key task = i" by (simp add: task_key_def assms(4))
  have none: "(if held_status task \<noteq> ''running'' then Some ''running'' else None) = None" using assms(3) by simp
  obtain w1 r1 where u: "store_update_task w i None ?cols = Inr (w1, task_snapshot w1 r1)"
      "find_task (tw_rt w1) i = Some r1" "t_id r1 = i" "t_status r1 = t_status r"
      "\<forall>j. j \<noteq> i \<longrightarrow> status_at (tw_rt w1) j = status_at (tw_rt w) j"
      "effects (tw_rt w1) = effects (tw_rt w) @ []"
      "tw_messages w1 = tw_messages w" "tw_tokens w1 = tw_tokens w"
      "\<forall>k. k \<notin> fst ` set ?cols \<union> {''currentStep''} \<longrightarrow> dget (tw_details w1 i) k = dget (tw_details w i) k"
    by (rule update_task_found [OF assms(1), of None ?cols, unfolded option.case]) (rule that)
  let ?e = "[(''plan'', PList (the_list (dget task ''plan''))), (''resultSummary'', PStr summary)]"
  define t' where "t' = dupdate (task_snapshot w1 r1) ?e"
  have e: "fst ` set ?e \<subseteq> written_keys" "fst ` set ?cols \<subseteq> written_keys"
    using written_columns [of task summary] by (simp_all add: written_keys_def)
  have t': "dget t' k = dget (tw_details w i) k" if "k \<in> kept_keys" for k
    unfolding t'_def by (rule copy_after_update [OF u(3) that e(2,1) u(9)])
  have h: "held_status t' = ''running''" unfolding t'_def status_after_update [OF e(1)] u(4) by (rule assms(2))
  have k: "task_key t' = i" using t' [of "''id''"] assms(5) by (simp add: task_key_def root_details_def kept_keys_def)
  define w2 where "w2 = (case dget t' ''activeAssistantMessageId'' of
                PStr (c # cs) \<Rightarrow> fst (update_message w1 (c # cs) summary ''streaming'' None) | _ \<Rightarrow> w1)"
  have w2: "tw_rt w2 = tw_rt w1" by (simp add: w2_def update_message_def split: pv.split list.split)
  show ?thesis
    unfolding mark_completion_waiting_on_runtime_work_def key none gate_def [symmetric] Let_def u(1) rbind_Inr case_prod_conv
      t'_def [symmetric] w2_def [symmetric]
    using w2 h k u(2,4,5,6) assms(2) by (simp add: drain_unless_def find_status_at)
qed


lemma validation_without_patches:
  "completed_patch_results (map the_dict (filter is_dict results)) = [] \<Longrightarrow>
   run_post_task_validation en w task ctx results = Inr (w, task, [])"
  by (simp add: run_post_task_validation_def case_prod_beta Let_def)

lemma complete_without_patches:
  assumes "task_is_cancelled w task = (w, False)" "held_status task \<notin> set ended_statuses" "dget task ''id'' = PStr i"
    and "completed_patch_results (map the_dict (filter is_dict results)) = []"
    and "children = ce_tasks (completion_child_task_evidence (tw_evidence w) task)"
    and "approvals = completion_approval_audit_for_completion (tw_approvals w) task children"
  obtains task2 fs sr where "dget task2 ''id'' = PStr i" "held_status task2 = held_status task"
    "lifecycle_complete_task en w session task summary ctx results skip =
      (case completion_unresolved_runtime_work_gate approvals children of
         Some why \<Rightarrow> mark_completion_waiting_on_runtime_work w session task2 fs sr why skip
       | None \<Rightarrow> finalize_completed_task en w session task2 fs sr skip)"
proof -
  define plan where "plan = advance (map the_dict (the_list (dget task ''plan''))) ''summarize-findings'' None (Some ''completed'')"
  define task2 where "task2 = dput ''plan'' (PList (map PDict plan)) task"
  have t2: "dget task2 ''id'' = PStr i" "held_status task2 = held_status task"
    using assms(3) by (simp_all add: task2_def held_status_def dget_dput)
  have open': "held_status task2 \<notin> set ended_statuses" using assms(2) by (simp add: t2)
  obtain fs sr where "lifecycle_complete_task en w session task summary ctx results skip =
      (case completion_unresolved_runtime_work_gate approvals children of
         Some why \<Rightarrow> mark_completion_waiting_on_runtime_work w session task2 fs sr why skip
       | None \<Rightarrow> finalize_completed_task en w session task2 fs sr skip)"
    unfolding lifecycle_complete_task_def assms(1) case_prod_conv bool.case validation_without_patches [OF assms(4)] rbind_Inr Let_def
      evidence_children assms(5) [symmetric] assms(6) [symmetric] plan_def [symmetric] task2_def [symmetric]
      if_not_P [OF open'] by blast
  then show ?thesis using that t2 by blast
qed

lemma finalize_missing:
  assumes "find_task (tw_rt w) i = Some r" "dget task ''id'' = PStr i" "dget (tw_details w i) ''id'' = PStr i"
    and "dget (tw_details w i) ''activeAssistantMessageId'' = PStr (c # cs)" "\<not> list_ex (\<lambda>m. m_id m = c # cs) (tw_messages w)"
  shows "\<exists>w'. finalize_completed_task en w session task summary structured_result skip = Inl (MissingMessage w') \<and>
    status_at (tw_rt w') i = Some ''completed'' \<and>
    effects (tw_rt w') = effects (tw_rt w) @
      [StorageCleanup ''task_completed'', TaskRemembered i, MemoriesConsolidated session, PendingReactCleared i,
       MetricsRecorded i ''completed'']"
proof -
  let ?cols = "plan_columns task summary @ [(''structuredResult'', PDict structured_result)]"
  have key: "task_key task = i" by (simp add: task_key_def assms(2))
  obtain w1 r1 where u: "store_update_task w i (Some ''completed'') ?cols = Inr (w1, task_snapshot w1 r1)"
      "find_task (tw_rt w1) i = Some r1" "t_id r1 = i" "t_status r1 = ''completed''"
      "\<forall>j. j \<noteq> i \<longrightarrow> status_at (tw_rt w1) j = status_at (tw_rt w) j"
      "effects (tw_rt w1) = effects (tw_rt w) @ [StorageCleanup (''task_'' @ ''completed'')]"
      "tw_messages w1 = tw_messages w" "tw_tokens w1 = tw_tokens w"
      "\<forall>k. k \<notin> fst ` set ?cols \<union> {''currentStep''} \<longrightarrow> dget (tw_details w1 i) k = dget (tw_details w i) k"
    by (rule update_task_to [OF assms(1) terminal_completed(1), of ?cols]) (rule that)
  let ?e = "[(''plan'', PList (the_list (dget task ''plan''))), (''resultSummary'', PStr summary)]"
  define t' where "t' = dupdate (task_snapshot w1 r1) ?e"
  have e: "fst ` set ?e \<subseteq> written_keys" "fst ` set ?cols \<subseteq> written_keys"
    using written_columns [of task summary] by (simp_all add: written_keys_def)
  have t': "dget t' k = dget (tw_details w i) k" if "k \<in> kept_keys" for k
    unfolding t'_def by (rule copy_after_update [OF u(3) that e(2,1) u(9)])
  have k: "task_key t' = i" using t' [of "''id''"] assms(3) by (simp add: task_key_def kept_keys_def)
  obtain w2 m where m: "final_message en w1 session t' ''completed'' ''normal'' summary = (w2, m)" by fastforce
  have m2: "tw_rt w2 = tw_rt w1" "m = None"
    using final_message_frame [OF m] t' [of "''activeAssistantMessageId''"] assms(4,5)
    by (simp_all add: u(7) kept_keys_def)
  show ?thesis
    unfolding finalize_completed_task_def key u(1) rbind_Inr case_prod_conv Let_def t'_def [symmetric] m m2(2) option.case
    using m2(1) k u(2,4,6) by (simp add: find_status_at)
qed


lemma update_task_Inr:
  assumes "store_update_task w i status columns = Inr (w', t)"
  shows "\<exists>r. find_task (tw_rt w') i = Some r \<and> t = task_snapshot w' r"
  using assms unfolding store_update_task_def Let_def rbind_eq_Inr store_result_def
  by (auto simp: update_task_with_status_def touch_task_def Let_def rbind_eq_Inr get_task_Inr split: sum.splits option.splits)

lemma git_checks_none: "git_checks en w task ctx = (w', []) \<Longrightarrow> w' = w"
  by (auto simp: git_checks_def Let_def case_prod_beta split: if_splits)

lemma command_check_none: "command_check en w task ctx c = (w', []) \<Longrightarrow> w' = w"
  by (auto simp: command_check_def Let_def case_prod_beta split: option.splits)

lemma checks_recorded:
  assumes "dget v ''checks'' = PList (map PDict checks)" "checks \<noteq> []"
  shows "verification_records_from_validation v \<noteq> []"
proof -
  have "dget_or v ''checks'' (PList []) = PList (map PDict checks)"
    using assms(1) by (auto simp: dget_def dget_or_def split: option.splits)
  then show ?thesis using assms(2) by (cases checks) (simp_all add: verification_records_from_validation_def dict_items_def)
qed

lemma validation_fresh:
  assumes "run_post_task_validation en w task ctx results = Inr (w', task', v)" "task_key task = i"
    and "status_at (tw_rt w) i = Some (held_status task)"
  shows "status_at (tw_rt w') i = Some (held_status task')"
proof -
  define patches where "patches = completed_patch_results (map the_dict (filter is_dict results))"
  define command where "command = resolve_validation_command (es_command_logs (tw_evidence w)) ctx patches task"
  obtain w1 git where g: "git_checks en w task ctx = (w1, git)" by fastforce
  obtain w2 cmd where c: "command_check en w1 task ctx command = (w2, cmd)" by fastforce
  define checks where "checks = git @ cmd"
  define payload where "payload = [(''patches'', PList (map PDict patches)), (''checks'', PList (map PDict checks)),
             (''ran'', PList (map (\<lambda>c. dget c ''name'') (filter (\<lambda>c. dget c ''status'' = PStr ''completed'') checks))),
             (''command'', case cmd of c # _ \<Rightarrow> PDict c | [] \<Rightarrow> PNone),
             (''summary'', PStr (format_validation_summary patches checks command))]"
  have run: "run_post_task_validation en w task ctx results =
      (if patches = [] then Inr (w, task, [])
       else if checks = []
       then Inr (w2, task, payload @ [(''verification'', por (dget task ''verification'') (PList [])), (''changeSummaryOnly'', PBool True)])
       else rbind (record_task_verification w2 task payload) (\<lambda>(w3, task').
           Inr (effects_on [Published ''task.validation.completed'' (task_key task') ''''] w3, task',
                payload @ [(''verification'', por (dget task' ''verification'') (PList []))])))"
    unfolding run_post_task_validation_def Let_def patches_def [symmetric] command_def [symmetric] g c case_prod_conv
      checks_def [symmetric] payload_def [symmetric] ..
  show ?thesis
  proof (cases "patches = [] \<or> checks = []")
    case True
    moreover have "w2 = w" if "checks = []"
      using that g c git_checks_none [of en w task ctx w1] command_check_none [of en w1 task ctx command w2]
      by (simp add: checks_def)
    ultimately show ?thesis using assms(1,3) run by (auto split: if_splits)
  next
    case False
    have p: "dget payload ''checks'' = PList (map PDict checks)" by (simp add: payload_def dget_Cons)
    have rec: "verification_records_from_validation payload \<noteq> []" using checks_recorded [OF p] False by blast
    obtain w3 task3 where r3: "record_task_verification w2 task payload = Inr (w3, task3)"
      and w': "w' = effects_on [Published ''task.validation.completed'' (task_key task3) ''''] w3" "task' = task3"
      using assms(1) run False by (auto simp: rbind_eq_Inr)
    obtain w4 updated where u: "store_update_task w2 (task_key task) None
          [(''verification'', PList (map PDict (verification_records_from_validation payload)))] = Inr (w4, updated)"
      and w3: "tw_rt w3 = emit [Published ''task.updated'' (task_key task3) (held_status task3)] (tw_rt w4)"
        "task3 = dupdate task updated"
      using r3 rec by (auto simp: record_task_verification_def Let_def rbind_eq_Inr)
    obtain r where "find_task (tw_rt w4) i = Some r" "updated = task_snapshot w4 r"
      using update_task_Inr [OF u] assms(2) by auto
    then show ?thesis by (simp add: w' w3 find_status_at)
  qed
qed

text \<open>
  C24. A cancelled task stays as it is when it is completed or failed, whatever copy the caller holds;
  and a task that ends while the validation of its completion runs keeps the status it ended with.
\<close>

theorem ended_tasks_stay_ended:
  assumes "dget task ''id'' = PStr i" "strip i = i" "i \<noteq> ''''"
  shows
   "(status_at (tw_rt w) i = Some ''cancelled'' \<longrightarrow>
      (\<exists>w' t'. lifecycle_complete_task en w session task summary ctx results skip = Inr (w', t') \<and>
         lifecycle_fail_task en w session task summary code skip structured_result = Inr (w', t') \<and>
         tw_rt w' = tw_rt w \<and> tw_messages w' = tw_messages w)) \<and>
    (task_is_cancelled w task = (w, False) \<and> status_at (tw_rt w) i = Some (held_status task) \<and>
     run_post_task_validation en w task ctx results = Inr (w1, task1, v) \<and>
     status_at (tw_rt w1) i = Some s \<and> s \<in> set ended_statuses \<longrightarrow>
      (\<exists>t'. lifecycle_complete_task en w session task summary ctx results skip = Inr (w1, t') \<and> held_status t' = s))"
proof (intro conjI impI)
  assume "status_at (tw_rt w) i = Some ''cancelled''"
  then obtain r where r: "find_task (tw_rt w) i = Some r" "t_status r = ''cancelled''" by (auto simp: status_at_def)
  have i: "clean_field task ''id'' = i" using assms(1,2) clean_field_PStr by metis
  have "lower (strip ''cancelled'') = ''cancelled''" by code_simp
  then have "cancelled_status (latest_task_snapshot w task)"
    by (simp add: latest_task_snapshot_def i assms(3) r cancelled_status_def status_snapshot)
  then have "snd (task_is_cancelled w task)" "tw_rt (fst (task_is_cancelled w task)) = tw_rt w"
      "tw_messages (fst (task_is_cancelled w task)) = tw_messages w"
    by (simp_all add: task_is_cancelled_def Let_def)
  then obtain w0 where w0: "task_is_cancelled w task = (w0, True)" "tw_rt w0 = tw_rt w" "tw_messages w0 = tw_messages w"
    by (cases "task_is_cancelled w task") auto
  show "\<exists>w' t'. lifecycle_complete_task en w session task summary ctx results skip = Inr (w', t') \<and>
         lifecycle_fail_task en w session task summary code skip structured_result = Inr (w', t') \<and>
         tw_rt w' = tw_rt w \<and> tw_messages w' = tw_messages w"
    using w0 by (simp add: lifecycle_complete_task_def lifecycle_fail_task_def)
next
  assume a: "task_is_cancelled w task = (w, False) \<and> status_at (tw_rt w) i = Some (held_status task) \<and>
     run_post_task_validation en w task ctx results = Inr (w1, task1, v) \<and>
     status_at (tw_rt w1) i = Some s \<and> s \<in> set ended_statuses"
  have key: "task_key task = i" by (simp add: task_key_def assms(1))
  have h: "held_status task1 = s"
    using validation_fresh [of en w task ctx results w1 task1 v i] a key by simp
  have "held_status (dput ''plan'' p task1) = s" "held_status (dput ''resultSummary'' q (dput ''plan'' p task1)) = s" for p q
    using h by (simp_all add: held_status_def dget_dput)
  then show "\<exists>t'. lifecycle_complete_task en w session task summary ctx results skip = Inr (w1, t') \<and> held_status t' = s"
    using a by (simp add: lifecycle_complete_task_def Let_def)
qed

section \<open>Instances\<close>

definition plain_env :: end_env where
  "plain_env = \<lparr>en_run_tool = (\<lambda>w task name arguments. (w, Inr [(''result'', PDict [(''status'', PStr ''completed'')])])),
     en_git_root = (\<lambda>_. False), en_ratio = (\<lambda>_ _. 0), en_message_id = (\<lambda>n. ''m'' @ nat_digits n)\<rparr>"

definition end_world :: "string \<Rightarrow> task_world" where
  "end_world status =
     \<lparr>tw_rt = \<lparr>tasks = [\<lparr>t_id = ''t'', t_session = ''s'', t_status = status, t_created = 0, t_updated = 0\<rparr>], clock = 1, effects = []\<rparr>,
      tw_details = (\<lambda>_. [(''id'', PStr ''t''), (''sessionId'', PStr ''s'')]), tw_messages = [], tw_tokens = [],
      tw_approvals = (\<lambda>_. []), tw_evidence = no_store\<rparr>"

definition held_copy :: "string \<Rightarrow> pdict" where
  "held_copy status = [(''id'', PStr ''t''), (''sessionId'', PStr ''s''), (''status'', PStr status)]"

definition end_row :: "string \<Rightarrow> task_row" where
  "end_row status = \<lparr>t_id = ''t'', t_session = ''s'', t_status = status, t_created = 0, t_updated = 0\<rparr>"

lemma end_world_row: "find_task (tw_rt (end_world status)) ''t'' = Some (end_row status)"
  by (simp add: end_world_def end_row_def find_task_def)

lemma end_world_root: "root_details (end_world status) ''t''"
  by (simp add: end_world_def root_details_def message_known_def dget_Cons)

lemma held_copy_fields: "dget (held_copy status) ''id'' = PStr ''t''" "held_status (held_copy status) = status"
  by (simp_all add: held_copy_def held_status_def dget_Cons)

lemma plain_key: "strip ''t'' = ''t''" "''t'' \<noteq> ''''"
  by (code_simp, simp)



definition cancelling_env :: end_env where
  "cancelling_env = plain_env\<lparr>en_run_tool := (\<lambda>w task name arguments.
     (w\<lparr>tw_rt := set_status ''t'' ''cancelled'' (tw_rt w)\<rparr>, Inr [(''result'', PDict [(''status'', PStr ''completed'')])]))\<rparr>"

definition patch_results :: "pv list" where
  "patch_results = [PDict [(''name'', PStr ''apply_patch''),
     (''result'', PDict [(''status'', PStr ''applied''), (''changedPaths'', PList [PStr ''a.py''])])]]"

definition validating_context :: pdict where
  "validating_context = [(''post_task_validation'', PDict [(''command'', PStr ''pytest'')])]"

theorem ended_tasks_stay_ended_witness:
  "\<exists>w' t'. lifecycle_complete_task cancelling_env (end_world ''running'') ''s'' (held_copy ''running'') ''done'' validating_context patch_results False =
       Inr (w', t') \<and> status_at (tw_rt w') ''t'' = Some ''cancelled'' \<and> held_status t' = ''cancelled''"
proof -
  define run where "run = run_post_task_validation cancelling_env (end_world ''running'') (held_copy ''running'') validating_context patch_results"
  have "(case run of Inr (w1, _) \<Rightarrow> status_at (tw_rt w1) ''t'' = Some ''cancelled'' | Inl _ \<Rightarrow> False)"
    unfolding run_def by code_simp
  then obtain w1 task1 v where r: "run = Inr (w1, task1, v)" "status_at (tw_rt w1) ''t'' = Some ''cancelled''"
    by (auto split: sum.splits)
  have s: "lower (strip (t_status (end_row ''running''))) \<notin> {''cancelled'', ''canceled''}" by code_simp
  have n: "map_of (tw_tokens (end_world ''running'')) ''t'' \<noteq> Some True" by (simp add: end_world_def)
  note nc = not_cancelled [OF held_copy_fields(1) plain_key n end_world_row s]
  have f: "status_at (tw_rt (end_world ''running'')) ''t'' = Some (held_status (held_copy ''running''))"
    by (simp add: find_status_at [OF end_world_row] held_copy_fields end_row_def)
  have "\<exists>t'. lifecycle_complete_task cancelling_env (end_world ''running'') ''s'' (held_copy ''running'') ''done'' validating_context patch_results False =
       Inr (w1, t') \<and> held_status t' = ''cancelled''"
    using ended_tasks_stay_ended [OF held_copy_fields(1) plain_key, THEN conjunct2, rule_format,
        OF conjI [OF nc conjI [OF f conjI [OF r(1) [unfolded run_def] conjI [OF r(2)]]]]]
    by (simp add: ended_statuses_def)
  then show ?thesis using r(2) by blast
qed

definition chat_of :: "string \<Rightarrow> chat_message" where
  "chat_of i = \<lparr>m_id = i, m_session = ''s'', m_task = ''t'', m_role = ''assistant'', m_content = ''text'', m_status = ''streaming'', m_kind = ''normal''\<rparr>"

definition old_request :: pdict where
  "old_request = [(''id'', PStr ''a''), (''kind'', PStr ''run_command'')]"

definition granted_request :: pdict where
  "granted_request = [(''id'', PStr ''b''), (''kind'', PStr ''run_command''), (''decision'', PStr ''approved'')]"

lemma only_recent_approvals:
  "completion_pending_approval_items (completion_approval_audit_for_completion
      (\<lambda>_. old_request # replicate 20 granted_request) (held_copy status) []) = []"
proof -
  have a: "completion_approval_audit_item old_request =
      [(''approvalId'', PStr ''a''), (''kind'', PStr ''run_command''), (''decision'', PStr ''pending'')]" by code_simp
  have b: "completion_approval_audit_item granted_request =
      [(''approvalId'', PStr ''b''), (''kind'', PStr ''run_command''), (''decision'', PStr ''approved'')]" (is "_ = ?b") by code_simp
  have t: "completion_approval_audit (\<lambda>_. old_request # replicate 20 granted_request) ''t'' = replicate 20 ?b"
    by (simp add: completion_approval_audit_def plain_key a b take_last_def)
  have i: "clean_field (held_copy status) ''id'' = ''t''"
    using clean_field_PStr [OF held_copy_fields(1)] plain_key by simp
  have p: "lower (strip (py_str (por (dget ?b ''decision'') (PStr ''pending'')))) \<noteq> ''pending''" by code_simp
  have s: "sort_key created_at (replicate 20 ?b) = replicate 20 ?b"
    by (rule sort_key_id_if_sorted) (simp add: sorted_replicate)
  show ?thesis
    using p unfolding completion_approval_audit_for_completion_def Let_def i
    by (simp add: t s take_last_def completion_pending_approval_items_def)
qed


end
