(* ===== verification/TokenBudget.thy ===== *)
theory TokenBudget
  imports Prelude
begin

text \<open>
  The estimate of tokens and the budget of a prompt (\<open>context/token_budget.py\<close>). Texts are UTF-8 and
  are counted in code points. The ratios are computed exactly; the source computes them in floating
  point. The caches change no result. Serialising a value that is not a text is a parameter.
\<close>

section \<open>Estimates\<close>

definition code_point :: "string \<Rightarrow> nat" where
  \<comment> \<open>of the bytes of one character\<close>
  "code_point bytes =
     (case map (of_char :: char \<Rightarrow> nat) bytes of
        [a, b] \<Rightarrow> (a mod 32) * 64 + b mod 64
      | [a, b, c] \<Rightarrow> ((a mod 16) * 64 + b mod 64) * 64 + c mod 64
      | [a, b, c, d] \<Rightarrow> (((a mod 8) * 64 + b mod 64) * 64 + c mod 64) * 64 + d mod 64
      | a # _ \<Rightarrow> a
      | [] \<Rightarrow> 0)"

definition cjk_ranges :: "(nat \<times> nat) list" where
  "cjk_ranges =
     [(0x2e80, 0x2fff), (0x3000, 0x303f), (0x3040, 0x30ff), (0x3400, 0x4dbf), (0x4e00, 0x9fff), (0xf900, 0xfaff),
      (0xfe30, 0xfe4f), (0x20000, 0x2a6df), (0x2a700, 0x2b73f), (0x2b740, 0x2b81f), (0xac00, 0xd7af), (0xff00, 0xffef)]"

definition cjk :: "string \<Rightarrow> bool" where
  "cjk bytes \<longleftrightarrow> (let n = code_point bytes in list_ex (\<lambda>(a, b). a \<le> n \<and> n \<le> b) cjk_ranges)"

definition count_cjk_chars :: "string \<Rightarrow> nat" where
  "count_cjk_chars s = length (filter cjk (utf8_chars s))"

definition estimate_string_tokens :: "string \<Rightarrow> nat" where
  \<comment> \<open>\<open>int(c / 1.5 + 0.5)\<close> is \<open>(4 * c + 3) div 6\<close>\<close>
  "estimate_string_tokens s =
     (if s = '''' then 0
      else let c = count_cjk_chars s; l = ulen s - c in
        max 1 ((if c \<noteq> 0 then (4 * c + 3) div 6 else 0) + (if l \<noteq> 0 then (l + 3) div 4 else 0)))"

definition estimate_tokens :: "(pv \<Rightarrow> string) \<Rightarrow> pv \<Rightarrow> nat" where
  "estimate_tokens dumps v =
     (case v of PNone \<Rightarrow> 0 | PStr s \<Rightarrow> estimate_string_tokens s | _ \<Rightarrow> estimate_string_tokens (dumps v))"

section \<open>Trimming a text\<close>

definition effective_max_chars :: "string \<Rightarrow> int \<Rightarrow> nat" where
  \<comment> \<open>the weighted characters per token are \<open>(8 * t - 5 * c) / (2 * t)\<close>\<close>
  "effective_max_chars s max_tokens =
     (let t = int (ulen s); c = int (count_cjk_chars s) in
      if t = 0 \<or> c = 0 then nat (max_tokens * 4) else nat ((max_tokens * (8 * t - 5 * c)) div (2 * t)))"

definition truncation_marker :: "nat \<Rightarrow> string" where
  "truncation_marker omitted = CHR 0x0A # ''[truncated '' @ nat_digits omitted @ '' chars]''"

definition trim_text_to_tokens :: "string \<Rightarrow> int \<Rightarrow> string" where
  "trim_text_to_tokens s max_tokens =
     (let max_chars = effective_max_chars s max_tokens; marker = truncation_marker (ulen s - max_chars) in
      if ulen s \<le> max_chars then s
      else if max_chars = 0 then ''''
      else if max_chars \<le> length marker then drop (length marker - max_chars) marker
      else rstrip_by is_ws (utake (max_chars - length marker) s) @ marker)"

section \<open>Fitting sections\<close>

record budget_section =
  bs_name :: string
  bs_text :: string
  bs_priority :: int
  bs_truncatable :: bool
  bs_minimum :: int

definition tokens_of :: "budget_section \<Rightarrow> int" where
  "tokens_of s = int (estimate_string_tokens (bs_text s))"

record fit_state =
  fs_kept :: "budget_section list"
  fs_total :: int
  fs_trimmed :: "string list"
  fs_dropped :: "string list"

fun replace_first :: "'a \<Rightarrow> 'a \<Rightarrow> 'a list \<Rightarrow> 'a list" where
  \<comment> \<open>\<open>xs[xs.index(x)] = y\<close>\<close>
  "replace_first x y [] = []"
| "replace_first x y (z # zs) = (if z = x then y # zs else z # replace_first x y zs)"

definition drop_section :: "budget_section \<Rightarrow> fit_state \<Rightarrow> fit_state" where
  \<comment> \<open>\<open>kept.remove\<close> takes the first equal section\<close>
  "drop_section s st =
     st\<lparr>fs_kept := remove1 s (fs_kept st), fs_total := fs_total st - tokens_of s, fs_dropped := fs_dropped st @ [bs_name s]\<rparr>"

definition fit_step :: "int \<Rightarrow> budget_section \<Rightarrow> fit_state \<Rightarrow> fit_state" where
  \<comment> \<open>the body of the loop; a total within the budget ends it\<close>
  "fit_step limit s st =
     (let target = max (bs_minimum s) (tokens_of s - (fs_total st - limit)); trimmed = trim_text_to_tokens (bs_text s) target;
          s' = s\<lparr>bs_text := trimmed\<rparr> in
      if fs_total st \<le> limit \<or> s \<notin> set (fs_kept st) \<or> \<not> bs_truncatable s then st
      else if target \<le> 0 \<or> trimmed = '''' then drop_section s st
      else st\<lparr>fs_kept := replace_first s s' (fs_kept st), fs_total := fs_total st + (tokens_of s' - tokens_of s),
              fs_trimmed := fs_trimmed st @ [bs_name s]\<rparr>)"

definition lowest_priority :: "budget_section list \<Rightarrow> budget_section option" where
  \<comment> \<open>the first of the truncatable sections of the least priority\<close>
  "lowest_priority kept =
     (case filter bs_truncatable kept of [] \<Rightarrow> None
      | x # xs \<Rightarrow> Some (foldl (\<lambda>m y. if bs_priority y < bs_priority m then y else m) x xs))"

function drop_lowest :: "int \<Rightarrow> fit_state \<Rightarrow> fit_state" where
  "drop_lowest limit st =
     (case lowest_priority (fs_kept st) of
        Some s \<Rightarrow> if limit < fs_total st \<and> s \<in> set (fs_kept st) then drop_lowest limit (drop_section s st) else st
      | None \<Rightarrow> st)"
  by pat_completeness auto
termination
  by (relation "measure (\<lambda>(limit, st). length (fs_kept st))")
    (auto simp: drop_section_def length_remove1 dest: length_pos_if_in_set intro: diff_less)

declare drop_lowest.simps [simp del]

definition fit :: "int \<Rightarrow> budget_section list \<Rightarrow> int \<Rightarrow> fit_state" where
  \<comment> \<open>the sections kept, the estimate, and the names trimmed and dropped\<close>
  "fit max_context_tokens sections fixed_tokens =
     (let limit = max 1 max_context_tokens;
          st = \<lparr>fs_kept = sections, fs_total = max 0 fixed_tokens + sum_list (map tokens_of sections), fs_trimmed = [], fs_dropped = []\<rparr>
      in drop_lowest limit (fold (fit_step limit) (sort_key bs_priority sections) st))"

section \<open>Trimmed texts\<close>

lemma ulen_count: "ulen s = length (filter (\<lambda>c. \<not> cont_byte c) s) + (if s \<noteq> [] \<and> cont_byte (hd s) then 1 else 0)"
proof (induction s rule: utf8_chars.induct)
  case 1
  then show ?case by (simp add: ulen_def)
next
  case (2 c cs)
  let ?r = "dropWhile cont_byte cs"
  have "filter (\<lambda>c. \<not> cont_byte c) cs = filter (\<lambda>c. \<not> cont_byte c) ?r"
    by (induction cs) auto
  moreover have "\<not> (?r \<noteq> [] \<and> cont_byte (hd ?r))" using hd_dropWhile by blast
  ultimately show ?case using 2 by (auto simp: ulen_def)
qed

lemma ulen_append: "ulen (a @ b) \<le> ulen a + ulen b"
  by (cases a; cases b) (auto simp: ulen_count)

lemma ulen_prefix: "prefix a s \<Longrightarrow> ulen a \<le> ulen s"
  by (cases a) (auto simp: ulen_count prefix_def)

lemma prefix_rstrip_by: "prefix (rstrip_by p s) s"
proof -
  have "s = rev (dropWhile p (rev s)) @ rev (takeWhile p (rev s))"
    by (metis rev_append rev_rev_ident takeWhile_dropWhile_id)
  then show ?thesis unfolding rstrip_by_def prefix_def by blast
qed

lemma ulen_marker: "list_all (\<lambda>c. \<not> cont_byte c) (truncation_marker n)"
  using digits_ascii [of n] by (simp add: truncation_marker_def cont_byte_def Let_def)

lemma trimmed_length: "ulen (trim_text_to_tokens s n) \<le> effective_max_chars s n"
proof -
  define k where "k = effective_max_chars s n"
  define m where "m = truncation_marker (ulen s - k)"
  have m: "list_all (\<lambda>c. \<not> cont_byte c) m" unfolding m_def by (rule ulen_marker)
  have t: "trim_text_to_tokens s n =
      (if ulen s \<le> k then s else if k = 0 then '''' else if k \<le> length m then drop (length m - k) m
       else rstrip_by is_ws (utake (k - length m) s) @ m)"
    unfolding trim_text_to_tokens_def Let_def k_def [symmetric] m_def [symmetric] ..
  have d: "ulen (drop (length m - k) m) \<le> k" if "k \<le> length m"
  proof -
    have "list_all (\<lambda>c. \<not> cont_byte c) (drop (length m - k) m)" using m by (auto simp: list_all_iff dest: in_set_dropD)
    then show ?thesis using that by (simp add: ulen_ascii)
  qed
  have a: "ulen (rstrip_by is_ws (utake (k - length m) s) @ m) \<le> k" if "length m < k"
  proof -
    have "ulen (rstrip_by is_ws (utake (k - length m) s)) \<le> k - length m"
      using ulen_prefix [OF prefix_rstrip_by] ulen_utake [of "k - length m" s] by (metis le_trans min.cobounded1)
    then show ?thesis using ulen_append [of "rstrip_by is_ws (utake (k - length m) s)" m] ulen_ascii [OF m] that by linarith
  qed
  show ?thesis unfolding k_def [symmetric] t using d a by (auto simp: ulen_def [of "''''"])
qed

section \<open>The total of a fit\<close>

definition fit_consistent :: "int \<Rightarrow> fit_state \<Rightarrow> bool" where
  "fit_consistent fixed st \<longleftrightarrow> fs_total st = fixed + sum_list (map tokens_of (fs_kept st))"

lemma sum_remove1: "s \<in> set xs \<Longrightarrow> sum_list (map tokens_of (remove1 s xs)) = sum_list (map tokens_of xs) - tokens_of s"
  by (induction xs) auto

lemma sum_replace_first:
  "s \<in> set xs \<Longrightarrow> sum_list (map tokens_of (replace_first s t xs)) = sum_list (map tokens_of xs) + (tokens_of t - tokens_of s)"
  by (induction s t xs rule: replace_first.induct) auto

lemma drop_consistent: "fit_consistent fixed st \<Longrightarrow> s \<in> set (fs_kept st) \<Longrightarrow> fit_consistent fixed (drop_section s st)"
  by (simp add: fit_consistent_def drop_section_def sum_remove1)

definition trim_section :: "budget_section \<Rightarrow> string \<Rightarrow> fit_state \<Rightarrow> fit_state" where
  "trim_section s x st =
     st\<lparr>fs_kept := replace_first s (s\<lparr>bs_text := x\<rparr>) (fs_kept st),
        fs_total := fs_total st + (tokens_of (s\<lparr>bs_text := x\<rparr>) - tokens_of s), fs_trimmed := fs_trimmed st @ [bs_name s]\<rparr>"

lemma fit_stepE:
  obtains (unchanged) "fit_step limit s st = st"
  | (dropped) "s \<in> set (fs_kept st)" "bs_truncatable s" "fit_step limit s st = drop_section s st"
  | (trimmed) x where "s \<in> set (fs_kept st)" "bs_truncatable s" "fit_step limit s st = trim_section s x st"
proof -
  define target where "target = max (bs_minimum s) (tokens_of s - (fs_total st - limit))"
  define x where "x = trim_text_to_tokens (bs_text s) target"
  have e: "fit_step limit s st =
      (if fs_total st \<le> limit \<or> s \<notin> set (fs_kept st) \<or> \<not> bs_truncatable s then st
       else if target \<le> 0 \<or> x = '''' then drop_section s st else trim_section s x st)"
    unfolding fit_step_def Let_def trim_section_def x_def target_def ..
  show thesis using that e by (cases "fs_total st \<le> limit \<or> s \<notin> set (fs_kept st) \<or> \<not> bs_truncatable s";
    cases "target \<le> 0 \<or> x = ''''") auto
qed

lemma trim_consistent: "fit_consistent fixed st \<Longrightarrow> s \<in> set (fs_kept st) \<Longrightarrow> fit_consistent fixed (trim_section s x st)"
  by (simp add: fit_consistent_def trim_section_def sum_replace_first)

lemma step_consistent: "fit_consistent fixed st \<Longrightarrow> fit_consistent fixed (fit_step limit s st)"
  by (rule fit_stepE [of limit s st]) (simp_all add: drop_consistent trim_consistent)

definition firm :: "budget_section list \<Rightarrow> budget_section list" where
  "firm = filter (\<lambda>s. \<not> bs_truncatable s)"

lemma firm_remove1: "bs_truncatable s \<Longrightarrow> firm (remove1 s xs) = firm xs"
  by (induction xs) (auto simp: firm_def)

lemma firm_replace_first: "bs_truncatable s \<Longrightarrow> bs_truncatable t \<Longrightarrow> firm (replace_first s t xs) = firm xs"
  by (induction s t xs rule: replace_first.induct) (auto simp: firm_def)

lemma step_firm: "firm (fs_kept (fit_step limit s st)) = firm (fs_kept st)"
  by (rule fit_stepE [of limit s st]) (simp_all add: drop_section_def trim_section_def firm_remove1 firm_replace_first)

definition shrunk :: "budget_section \<Rightarrow> budget_section \<Rightarrow> bool" where
  \<comment> \<open>the same section, perhaps with a shorter text\<close>
  "shrunk t s \<longleftrightarrow> bs_name t = bs_name s \<and> bs_priority t = bs_priority s \<and> bs_truncatable t = bs_truncatable s \<and> bs_minimum t = bs_minimum s"

lemma set_replace_first: "set (replace_first s t xs) \<subseteq> insert t (set xs)"
  by (induction s t xs rule: replace_first.induct) auto

lemma step_shrunk:
  assumes "\<And>t. t \<in> set (fs_kept st) \<Longrightarrow> \<exists>s\<in>S. shrunk t s" "t \<in> set (fs_kept (fit_step limit s st))"
  shows "\<exists>s\<in>S. shrunk t s"
proof (rule fit_stepE [of limit s st])
  assume "fit_step limit s st = st"
  then show ?thesis using assms by simp
next
  assume "fit_step limit s st = drop_section s st"
  then have "t \<in> set (fs_kept st)" using assms(2) set_remove1_subset [of s "fs_kept st"] by (simp add: drop_section_def subsetD)
  then show ?thesis by (rule assms(1))
next
  fix x
  assume s: "s \<in> set (fs_kept st)" and "fit_step limit s st = trim_section s x st"
  then have "t \<in> insert (s\<lparr>bs_text := x\<rparr>) (set (fs_kept st))"
    using assms(2) subsetD [OF set_replace_first [of s "s\<lparr>bs_text := x\<rparr>" "fs_kept st"]] by (simp add: trim_section_def)
  moreover obtain s' where "s' \<in> S" "shrunk s s'" using assms(1) [OF s] by blast
  then have "\<exists>s'\<in>S. shrunk (s\<lparr>bs_text := x\<rparr>) s'" by (auto simp: shrunk_def)
  ultimately show ?thesis using assms(1) by blast
qed

lemma foldl_choice_member: "(\<And>a b. f a b \<in> {a, b}) \<Longrightarrow> foldl f x xs \<in> set (x # xs)"
proof (induction xs arbitrary: x)
  case (Cons y ys)
  have "foldl f (f x y) ys \<in> set (f x y # ys)" by (rule Cons.IH [OF Cons.prems])
  moreover have "f x y = x \<or> f x y = y" using Cons.prems [of x y] by simp
  ultimately show ?case by auto
qed simp

lemma foldl_min_member: "foldl (\<lambda>m y. if bs_priority y < bs_priority m then y else m) x xs \<in> set (x # xs)"
  by (rule foldl_choice_member) simp

lemma lowest_priority_facts:
  "lowest_priority kept = None \<longleftrightarrow> filter bs_truncatable kept = []"
  "lowest_priority kept = Some s \<Longrightarrow> s \<in> set kept \<and> bs_truncatable s"
proof -
  show "lowest_priority kept = None \<longleftrightarrow> filter bs_truncatable kept = []"
    by (simp add: lowest_priority_def split: list.split)
  assume "lowest_priority kept = Some s"
  then obtain x xs where "filter bs_truncatable kept = x # xs"
    and "s = foldl (\<lambda>m y. if bs_priority y < bs_priority m then y else m) x xs"
    by (auto simp: lowest_priority_def split: list.splits)
  then have "s \<in> set (filter bs_truncatable kept)" using foldl_min_member [of x xs] by simp
  then show "s \<in> set kept \<and> bs_truncatable s" by simp
qed
lemma drop_lowest_facts:
  assumes "fit_consistent fixed st"
  shows "fit_consistent fixed (drop_lowest limit st) \<and> firm (fs_kept (drop_lowest limit st)) = firm (fs_kept st) \<and>
    set (fs_kept (drop_lowest limit st)) \<subseteq> set (fs_kept st) \<and>
    (fs_total (drop_lowest limit st) \<le> limit \<or> filter bs_truncatable (fs_kept (drop_lowest limit st)) = [])"
  using assms
proof (induction limit st rule: drop_lowest.induct)
  case (1 limit st)
  show ?case
  proof (cases "lowest_priority (fs_kept st)")
    case None
    then have "drop_lowest limit st = st" by (subst drop_lowest.simps) simp
    then show ?thesis using 1(2) None lowest_priority_facts(1) by simp
  next
    case (Some s)
    have s: "s \<in> set (fs_kept st)" "bs_truncatable s" using lowest_priority_facts(2) [OF Some] by simp_all
    show ?thesis
    proof (cases "limit < fs_total st")
      case True
      have "drop_lowest limit st = drop_lowest limit (drop_section s st)"
        using Some True s(1) by (subst drop_lowest.simps) simp
      moreover have "firm (fs_kept (drop_section s st)) = firm (fs_kept st)"
        using s(2) by (simp add: drop_section_def firm_remove1)
      moreover have "set (fs_kept (drop_section s st)) \<subseteq> set (fs_kept st)"
        by (simp add: drop_section_def set_remove1_subset)
      ultimately show ?thesis
        using 1(1) [OF Some conjI [OF True s(1)] drop_consistent [OF 1(2) s(1)]] by auto
    next
      case False
      then have "drop_lowest limit st = st" using Some by (subst drop_lowest.simps) simp
      then show ?thesis using False 1(2) by simp
    qed
  qed
qed

lemma fold_fit:
  assumes "fit_consistent fixed st" "\<And>t. t \<in> set (fs_kept st) \<Longrightarrow> \<exists>s\<in>S. shrunk t s"
  shows "fit_consistent fixed (fold (fit_step limit) xs st) \<and> firm (fs_kept (fold (fit_step limit) xs st)) = firm (fs_kept st) \<and>
    (\<forall>t\<in>set (fs_kept (fold (fit_step limit) xs st)). \<exists>s\<in>S. shrunk t s)"
  using assms
proof (induction xs arbitrary: st)
  case Nil
  then show ?case by simp
next
  case (Cons x xs)
  show ?case
    using Cons.IH [of "fit_step limit x st"] step_consistent [OF Cons.prems(1)] step_shrunk [OF Cons.prems(2)] step_firm
    by simp
qed

text \<open>
  C27. However large the sections are, fitting keeps every section that must not be cut, in order and
  with its text; every kept section is one of the given ones, perhaps with a shorter text; the
  reported estimate is the fixed part plus the estimate of what is kept; and it is within the limit
  unless nothing that may be cut is left.
\<close>

theorem fit_within_budget:
  "let out = fit max_context_tokens sections fixed_tokens in
     firm (fs_kept out) = firm sections \<and>
     list_all (\<lambda>t. list_ex (shrunk t) sections) (fs_kept out) \<and>
     fs_total out = max 0 fixed_tokens + sum_list (map tokens_of (fs_kept out)) \<and>
     (fs_total out \<le> max 1 max_context_tokens \<or> list_all (\<lambda>t. bs_truncatable t = False) (fs_kept out))"
proof -
  define limit where "limit = max 1 max_context_tokens"
  define st where "st = \<lparr>fs_kept = sections, fs_total = max 0 fixed_tokens + sum_list (map tokens_of sections),
    fs_trimmed = [], fs_dropped = []\<rparr>"
  define mid where "mid = fold (fit_step limit) (sort_key bs_priority sections) st"
  have fit: "fit max_context_tokens sections fixed_tokens = drop_lowest limit mid"
    unfolding fit_def Let_def limit_def st_def mid_def ..
  have c: "fit_consistent (max 0 fixed_tokens) st" by (simp add: fit_consistent_def st_def)
  have "\<exists>s\<in>set sections. shrunk t s" if "t \<in> set (fs_kept st)" for t
    using that by (auto simp: st_def shrunk_def)
  note f = fold_fit [OF c this, of limit "sort_key bs_priority sections", folded mid_def]
  note d = drop_lowest_facts [of "max 0 fixed_tokens" mid limit]
  have kept: "\<exists>s\<in>set sections. shrunk t s" if "t \<in> set (fs_kept (drop_lowest limit mid))" for t
    using that f d by blast
  have "list_all (\<lambda>t. list_ex (shrunk t) sections) (fs_kept (drop_lowest limit mid))"
    using kept by (simp add: list_all_iff list_ex_iff)
  moreover have "firm (fs_kept (drop_lowest limit mid)) = firm sections" using f d by (simp add: st_def)
  moreover have "fs_total (drop_lowest limit mid) = max 0 fixed_tokens + sum_list (map tokens_of (fs_kept (drop_lowest limit mid)))"
    using f d by (simp add: fit_consistent_def)
  moreover have "fs_total (drop_lowest limit mid) \<le> limit \<or> list_all (\<lambda>t. bs_truncatable t = False) (fs_kept (drop_lowest limit mid))"
    using f d by (auto simp: list_all_iff filter_empty_conv)
  ultimately show ?thesis unfolding Let_def fit limit_def [symmetric] by blast
qed

end
