(* ===== verification/Compaction.thy ===== *)
theory Compaction
  imports TokenBudget Evidence
begin

text \<open>
  The compaction of a conversation (\<open>context/compactor.py\<close>) with the facts about failed tools it hands
  over (\<open>tools/failure_analysis.py\<close>). Messages are dictionaries. The text a model generates, reading and
  writing JSON, the hash of the primers and the task of the store are parameters; a decision leaves out
  the counts it repeats.
\<close>

section \<open>Failed tools\<close>

definition first_truthy :: "pv list \<Rightarrow> pv" where
  \<comment> \<open>\<open>a or b or ...\<close>\<close>
  "first_truthy vs = (case filter truthy vs of v # _ \<Rightarrow> v | [] \<Rightarrow> last vs)"

definition tool_failure_summary :: "pdict \<Rightarrow> string" where
  "tool_failure_summary payload =
     utake 500 (py_str (first_truthy [dget payload ''summary'', dget payload ''error'', dget payload ''message'',
       dget payload ''content'', PStr ''Tool failed.'']))"

definition classify_tool_failure :: "string \<Rightarrow> string \<Rightarrow> string \<Rightarrow> pdict \<Rightarrow> string" where
  "classify_tool_failure tool_name status summary payload =
     (let t = lower (join '' '' [tool_name, status, summary]); s = lower status in
      if is_true (dget payload ''timeout'') \<or> any_sub [''timeout'', ''timed out''] t then ''timeout''
      else if s \<in> {''blocked'', ''approval_required''} \<or>
        any_sub [''permission'', ''denied'', ''blocked'', ''not allowed'', ''allowlist''] t then ''permission_denied''
      else if s = ''partial'' \<or> any_sub [''partial'', ''incomplete''] t then ''partial_response''
      else if tool_name = ''apply_patch'' \<and> s = ''validation_failed'' then ''patch_validation_failed''
      else if starts ''mcp__'' tool_name \<and> any_sub [''unavailable'', ''not connected'', ''connection'', ''server'', ''transport''] t
      then ''mcp_server_unavailable''
      else if starts ''mcp__'' tool_name then ''mcp_tool_failed''
      else ''tool_failed'')"

definition tool_recovery_hint :: "string \<Rightarrow> string \<Rightarrow> string" where
  "tool_recovery_hint tool_name kind =
     (if kind = ''mcp_server_unavailable''
      then ''Check MCP server configuration/connection, refresh tools, then retry '' @ tool_name @ ''.''
      else if kind = ''permission_denied''
      then ''Adjust tool, MCP, or skill policy, or choose an allowed fallback before retrying '' @ tool_name @ ''.''
      else if kind = ''partial_response''
      then ''Use the partial result if sufficient; otherwise retry '' @ tool_name @ '' with narrower arguments.''
      else if kind = ''patch_validation_failed''
      then ''Retry with a smaller valid patch, or use write_file for new files and full-file replacements when that tool is available.''
      else if kind = ''timeout''
      then ''Retry '' @ tool_name @ '' with a smaller request or longer timeout if policy allows.''
      else if kind = ''mcp_tool_failed''
      then ''Inspect MCP tool error details and retry '' @ tool_name @ '' only after the server/tool state is healthy.''
      else ''Inspect the tool error and choose a safe fallback before retrying '' @ tool_name @ ''.'')"

definition build_tool_failure_record :: "string \<Rightarrow> pdict \<Rightarrow> string option \<Rightarrow> string option \<Rightarrow> pdict" where
  "build_tool_failure_record tool_name payload status summary =
     (let s = strip (case status of Some x \<Rightarrow> x | None \<Rightarrow> str_field payload ''status'');
          t = (case summary of Some x \<Rightarrow> utake 500 x | None \<Rightarrow> tool_failure_summary payload);
          kind = classify_tool_failure tool_name s t payload
      in [(''name'', PStr tool_name), (''status'', PStr (if s \<noteq> '''' then s else ''failed'')), (''summary'', PStr t),
          (''failureKind'', PStr kind), (''recoveryHint'', PStr (tool_recovery_hint tool_name kind))])"

section \<open>Calls and their results\<close>

definition message_role :: "pdict \<Rightarrow> string" where
  "message_role m = the_str (dget m ''role'')"

definition message_tool_call_ids :: "pdict \<Rightarrow> string list" where
  "message_tool_call_ids m =
     (if dget m ''role'' \<noteq> PStr ''assistant'' then []
      else filter (\<lambda>i. i \<noteq> '''') (map (\<lambda>v. the_str (dget (the_dict v) ''id'')) (the_list (dget m ''tool_calls''))))"

definition assistant_tool_call_ids :: "pdict list \<Rightarrow> string list" where
  "assistant_tool_call_ids ms = concat (map message_tool_call_ids ms)"

definition tool_result_id :: "pdict \<Rightarrow> string option" where
  "tool_result_id m =
     (if dget m ''role'' \<noteq> PStr ''tool'' then None
      else case dget m ''tool_call_id'' of PStr (c # cs) \<Rightarrow> Some (c # cs) | _ \<Rightarrow> None)"

definition orphan_ids :: "pdict list \<Rightarrow> string list" where
  \<comment> \<open>the results whose call is not among the messages\<close>
  "orphan_ids ms = filter (\<lambda>i. i \<notin> set (assistant_tool_call_ids ms)) (List.map_filter tool_result_id ms)"

definition calls_one_of :: "string list \<Rightarrow> pdict \<Rightarrow> bool" where
  "calls_one_of ids m \<longleftrightarrow> list_ex (\<lambda>i. i \<in> set ids) (message_tool_call_ids m)"

definition last_index :: "('a \<Rightarrow> bool) \<Rightarrow> 'a list \<Rightarrow> nat option" where
  "last_index P xs = find (\<lambda>i. P (xs ! i)) (rev [0..<length xs])"

definition drop_orphans :: "pdict list \<Rightarrow> pdict list" where
  "drop_orphans recents =
     filter (\<lambda>m. case tool_result_id m of Some i \<Rightarrow> i \<notin> set (orphan_ids recents) | None \<Rightarrow> True) recents"

lemma last_index_bound: "last_index P xs = Some i \<Longrightarrow> i < length xs \<and> P (xs ! i)"
proof -
  assume "last_index P xs = Some i"
  then have "i \<in> set (rev [0..<length xs])" "P (xs ! i)"
    by (auto simp: last_index_def find_Some_iff in_set_conv_nth simp del: set_rev)
  then show ?thesis by simp
qed

lemma drop_orphans_shorter:
  assumes "orphan_ids recents \<noteq> []"
  shows "length (drop_orphans recents) < length recents"
proof -
  obtain i where i: "i \<in> set (orphan_ids recents)" using assms by (cases "orphan_ids recents") auto
  then obtain m where "m \<in> set recents" "tool_result_id m = Some i"
    by (auto simp: orphan_ids_def map_filter_def)
  then show ?thesis unfolding drop_orphans_def using i by (intro length_filter_less [of m]) auto
qed

function repair_loop :: "pdict list \<Rightarrow> pdict list \<Rightarrow> pdict list \<times> pdict list" where
  "repair_loop history recents =
     (let orphans = orphan_ids recents in
      if orphans = [] then (history, recents)
      else case last_index (calls_one_of orphans) history of
        Some b \<Rightarrow> repair_loop (take b history) (drop b history @ recents)
      | None \<Rightarrow> (let kept = drop_orphans recents in if kept = [] then (history, kept) else repair_loop history kept))"
  by pat_completeness auto
termination
  by (relation "measures [\<lambda>(history, recents). length history, \<lambda>(history, recents). length recents]")
    (auto simp: drop_orphans_shorter dest: last_index_bound)

declare repair_loop.simps [simp del]

definition repair_recent_tool_call_pairs :: "pdict list \<Rightarrow> pdict list \<Rightarrow> pdict list \<times> pdict list" where
  "repair_recent_tool_call_pairs history recents =
     (if history = [] \<or> recents = [] then (history, recents) else repair_loop history recents)"

section \<open>Segments\<close>

definition is_primer_message :: "pdict \<Rightarrow> bool" where
  "is_primer_message m \<longleftrightarrow>
     dget m ''role'' = PStr ''system'' \<or>
     (dget m ''role'' = PStr ''user'' \<and> (case dget m ''content'' of PStr s \<Rightarrow> starts ''Stable context prefix:'' s | _ \<Rightarrow> False))"

definition split_segments :: "nat \<Rightarrow> pdict list \<Rightarrow> pdict list \<times> pdict list \<times> pdict list" where
  "split_segments recent_turns messages =
     (let body = dropWhile is_primer_message messages; n = length body - recent_turns
      in (takeWhile is_primer_message messages, take n body, drop n body))"

definition udrop :: "nat \<Rightarrow> string \<Rightarrow> string" where
  \<comment> \<open>\<open>s[n:]\<close>\<close>
  "udrop n s = concat (drop n (utf8_chars s))"

definition ellipsis :: string where
  "ellipsis = [CHR 0xE2, CHR 0x80, CHR 0xA6]"

definition oversized_tool_output :: "pdict \<Rightarrow> bool" where
  "oversized_tool_output m \<longleftrightarrow>
     dget m ''role'' = PStr ''tool'' \<and> (case dget m ''content'' of PStr s \<Rightarrow> 1000 < ulen s | _ \<Rightarrow> False)"

definition truncate_tool_output :: "pdict \<Rightarrow> pdict" where
  "truncate_tool_output m =
     (let s = the_str (dget m ''content''); summary = strip (the_str (dget m ''resultSummary'')) in
      if \<not> oversized_tool_output m then m
      else if summary \<noteq> '''' then dput ''content'' (PStr (''[Summary] '' @ summary)) m
      else dput ''content'' (PStr (utake 600 s @ CHR 0x0A # ellipsis @ ''[truncated '' @ nat_digits (ulen s - 1000) @ '' chars]'' @
          ellipsis @ [CHR 0x0A] @ udrop (ulen s - 400) s)) m)"

definition truncate_tool_outputs :: "pdict list \<Rightarrow> pdict list" where
  "truncate_tool_outputs = map truncate_tool_output"

definition message_content :: "pdict \<Rightarrow> pv" where
  "message_content m = dget_or m ''content'' (PStr '''')"

record compactor =
  cp_recent_turns :: nat
  cp_generate :: "(string \<Rightarrow> pdict option) option"  \<comment> \<open>the provider; a call may raise\<close>
  cp_loads :: "string \<Rightarrow> pv option"
  cp_dumps :: "pv \<Rightarrow> string"
  cp_hash :: "string \<Rightarrow> string"
  cp_get_task :: "string \<Rightarrow> pdict option"  \<comment> \<open>the store; None when it raises\<close>

definition conversation_tokens :: "compactor \<Rightarrow> pdict list \<Rightarrow> nat" where
  "conversation_tokens cp ms = sum_list (map (\<lambda>m. estimate_tokens (cp_dumps cp) (message_content m)) ms)"

section \<open>The summary\<close>

definition provider_text :: "compactor \<Rightarrow> string \<Rightarrow> string option" where
  \<comment> \<open>the text of the reply; None without a provider, when it raises or replies with no text\<close>
  "provider_text cp prompt =
     (case cp_generate cp of
        None \<Rightarrow> None
      | Some g \<Rightarrow>
          (case g prompt of
             None \<Rightarrow> None
           | Some r \<Rightarrow> (case por (dget r ''message'') (dget r ''content'') of PStr (c # cs) \<Rightarrow> Some (c # cs) | _ \<Rightarrow> None)))"

definition history_text :: "pdict list \<Rightarrow> string" where
  "history_text history =
     join [CHR 0x0A] (map (\<lambda>m. ''['' @ py_str (dget_or m ''role'' (PStr ''?'')) @ ''] '' @ py_str (message_content m)) history)"

definition generate_summary :: "compactor \<Rightarrow> pdict list \<Rightarrow> int \<Rightarrow> string option" where
  "generate_summary cp history token_budget =
     (let t = history_text history;
          prompt = ''Summarize the following conversation history concisely. Preserve key decisions, facts, and any code references.'' @
            [CHR 0x0A, CHR 0x0A] @ utake 8000 t;
          limit = (if 0 < token_budget then max (nat token_budget * 4) 500 else 4000)
      in if history = [] then None
         else case provider_text cp prompt of
           Some raw \<Rightarrow> Some (utake limit raw)
         | None \<Rightarrow>
             Some (if ulen t \<le> limit then t
               else utake (limit div 2) t @ CHR 0x0A # ellipsis @ ''[truncated]'' @ ellipsis @ [CHR 0x0A] @
                 udrop (ulen t - limit div 2) t))"

section \<open>The handoff\<close>

definition is_failed_status :: "pv \<Rightarrow> bool" where
  "is_failed_status v \<longleftrightarrow>
     (let t = lower (py_str (por v (PStr ''''))) in
      t \<in> {''failed'', ''error'', ''timeout'', ''killed'', ''cancelled''} \<or> starts ''fail'' t)"

definition dedupe_text :: "string list \<Rightarrow> string list" where
  "dedupe_text items = dedupe [] (filter (\<lambda>s. s \<noteq> '''') (map strip items))"

definition dedupe_records :: "string list \<Rightarrow> pdict list \<Rightarrow> pdict list" where
  "dedupe_records keys items =
     filter (\<lambda>d. d \<noteq> []) (keep_first [] (\<lambda>d. map (\<lambda>k. lower (strip (py_str (por (dget d k) (PStr ''''))))) keys) (map drop_void items))"

definition clipped :: "nat \<Rightarrow> pv \<Rightarrow> string list" where
  \<comment> \<open>the first characters of a value that is not empty\<close>
  "clipped n v = (if truthy v then [utake n (py_str v)] else [])"

definition handoff_objective :: "pdict \<Rightarrow> pdict list \<Rightarrow> pv" where
  "handoff_objective task messages =
     (if truthy (dget task ''goal'') then PStr (utake 500 (py_str (dget task ''goal'')))
      else case find (\<lambda>m. dget m ''role'' = PStr ''user'' \<and> truthy (dget m ''content'')) (rev messages) of
        Some m \<Rightarrow> PStr (utake 500 (py_str (dget m ''content''))) | None \<Rightarrow> PNone)"

definition step_title :: "pdict \<Rightarrow> pv" where
  "step_title step = por (dget step ''title'') (dget step ''id'')"

definition plan_steps :: "pdict \<Rightarrow> pdict list" where
  "plan_steps task = dict_items (dget task ''plan'')"

definition handoff_completed_work :: "pdict \<Rightarrow> string option \<Rightarrow> string list" where
  "handoff_completed_work task summary =
     dedupe_text
       (concat (map (\<lambda>st. clipped 240 (step_title st)) (filter (\<lambda>st. dget st ''status'' = PStr ''completed'') (plan_steps task))) @
        clipped 500 (por (dget task ''resultSummary'') (dget task ''summary'')) @
        (case summary of Some s \<Rightarrow> clipped 500 (PStr s) | None \<Rightarrow> []))"

definition handoff_modified_files :: "pdict \<Rightarrow> pdict list" where
  "handoff_modified_files task =
     dedupe_records [''path'', ''status'', ''summary'']
       (concat (map (\<lambda>v. case v of
           PDict d \<Rightarrow>
             let path = por (por (dget d ''path'') (dget d ''file'')) (dget d ''name'') in
             if truthy path
             then [[(''path'', PStr (py_str path)), (''status'', dget d ''status''), (''summary'', dget d ''summary'')]] else []
         | PStr s \<Rightarrow> [[(''path'', PStr s)]]
         | _ \<Rightarrow> []) (the_list (dget task ''changedFiles''))))"

definition handoff_commands :: "pdict \<Rightarrow> pdict list" where
  "handoff_commands task =
     dedupe_records [''command'', ''status'', ''exitCode'', ''summary'']
       (map (\<lambda>d. [(''command'', por (dget d ''command'') (dget d ''name'')), (''status'', dget d ''status''),
              (''exitCode'', dget d ''exitCode''), (''summary'', dget d ''summary'')])
         (dict_items (dget task ''commands'')))"

definition handoff_verification :: "pdict \<Rightarrow> pdict list" where
  "handoff_verification task =
     dedupe_records [''name'', ''status'', ''summary'']
       (map (\<lambda>d. [(''name'', por (por (dget d ''name'') (dget d ''command'')) (dget d ''suite'')), (''status'', dget d ''status''),
              (''summary'', dget d ''summary'')])
         (dict_items (dget task ''verification'') @ dict_items (dget task ''testsRun'')))"

definition failed_tool_of :: "(string \<Rightarrow> pv option) \<Rightarrow> pdict \<Rightarrow> ((string \<times> string \<times> string) \<times> pdict) option" where
  \<comment> \<open>the identity of the failure that a message reports, and its record\<close>
  "failed_tool_of loads m =
     (case (dget m ''role'' = PStr ''tool'', dget m ''content'') of
        (True, PStr content) \<Rightarrow>
          if strip content = '''' then None
          else (case loads content of
            Some (PDict payload) \<Rightarrow>
              let status = clean_field payload ''status'';
                  name = py_str (first_truthy [dget m ''name'', dget payload ''tool'', dget payload ''name'', PStr ''unknown'']);
                  t = tool_failure_summary payload; failure = build_tool_failure_record name payload (Some status) (Some t)
              in if \<not> is_failed_status (PStr status) \<and> dget payload ''ok'' \<noteq> PBool False then None
                 else Some ((name, status, utake 200 t),
                   if is_dict (dget payload ''recoveryDecision'')
                   then dput ''recoveryDecision'' (dget payload ''recoveryDecision'') failure else failure)
          | _ \<Rightarrow> None)
      | _ \<Rightarrow> None)"

fun first_of_keys :: "'k list \<Rightarrow> ('k \<times> 'a) list \<Rightarrow> 'a list" where
  "first_of_keys seen [] = []"
| "first_of_keys seen ((k, x) # xs) = (if k \<in> set seen then first_of_keys seen xs else x # first_of_keys (k # seen) xs)"

definition handoff_failed_tools :: "(string \<Rightarrow> pv option) \<Rightarrow> pdict list \<Rightarrow> pdict list" where
  "handoff_failed_tools loads messages = first_of_keys [] (List.map_filter (failed_tool_of loads) messages)"

definition handoff_risks :: "pdict \<Rightarrow> string list" where
  "handoff_risks task =
     dedupe_text (concat (map (\<lambda>v. clipped 300 (case v of
         PDict d \<Rightarrow> por (por (dget d ''summary'') (dget d ''risk'')) (dget d ''message'') | _ \<Rightarrow> v))
       (the_list (dget task ''risks''))))"

definition handoff_decisions :: "pdict \<Rightarrow> string option \<Rightarrow> string list" where
  "handoff_decisions task summary =
     (let routing = the_dict (dget task ''routing''); skill = por (dget routing ''skill_id'') (dget routing ''skillId'') in
      dedupe_text ((case summary of Some s \<Rightarrow> clipped 300 (PStr s) | None \<Rightarrow> []) @
        (if truthy skill then [''skill: '' @ py_str skill] else [])))"

definition handoff_verification_status :: "pdict list \<Rightarrow> pdict list \<Rightarrow> pdict list \<Rightarrow> string" where
  "handoff_verification_status verification commands failed_tools =
     (let statuses = map (\<lambda>d. lower (str_field d ''status'')) (verification @ commands) in
      if failed_tools \<noteq> [] then ''failed''
      else if list_ex (\<lambda>s. is_failed_status (PStr s)) statuses then ''failed''
      else if list_ex (\<lambda>s. s \<in> {''passed'', ''completed'', ''success'', ''ok''}) statuses then ''passed''
      else ''missing'')"

definition handoff_next_action :: "pdict \<Rightarrow> pdict list \<Rightarrow> pdict list \<Rightarrow> pv" where
  "handoff_next_action task commands failed_tools =
     (case filter (\<lambda>c. is_failed_status (dget c ''status'') \<and> truthy (dget c ''command'')) commands of
        c # _ \<Rightarrow> PStr (''Fix or rerun failed command: '' @ py_str (dget c ''command''))
      | [] \<Rightarrow>
          (case failed_tools of
             f # _ \<Rightarrow> PStr (''Recover failed tool: '' @ py_str (dget f ''name''))
           | [] \<Rightarrow>
               (case filter (\<lambda>st. dget st ''status'' \<in> {PStr ''active'', PStr ''pending''} \<and> truthy (step_title st)) (plan_steps task) of
                  st # _ \<Rightarrow> PStr (utake 300 (py_str (step_title st)))
                | [] \<Rightarrow> (case clipped 300 (dget task ''currentStep'') of s # _ \<Rightarrow> PStr s | [] \<Rightarrow> PNone))))"

definition handoff_recent_context :: "pdict list \<Rightarrow> pdict list" where
  "handoff_recent_context messages =
     concat (map (\<lambda>m. let content = clean_field m ''content'' in
         if content = '''' then []
         else [[(''role'', PStr (py_str (por (dget m ''role'') (PStr ''unknown'')))), (''content'', PStr (utake 300 content))]])
       (drop (length messages - 6) messages))"

definition texts :: "string list \<Rightarrow> pv" where
  "texts ss = PList (map PStr ss)"

definition records :: "pdict list \<Rightarrow> pv" where
  "records ds = PList (map PDict ds)"

definition load_task_for_handoff :: "compactor \<Rightarrow> string option \<Rightarrow> pdict" where
  \<comment> \<open>the empty dictionary stands for no task\<close>
  "load_task_for_handoff cp task_id =
     (case task_id of Some (c # cs) \<Rightarrow> (case cp_get_task cp (c # cs) of Some d \<Rightarrow> d | None \<Rightarrow> []) | _ \<Rightarrow> [])"

definition build_handoff_summary ::
  "compactor \<Rightarrow> string \<Rightarrow> string option \<Rightarrow> pdict list \<Rightarrow> pdict list \<Rightarrow> string option \<Rightarrow> pdict" where
  "build_handoff_summary cp session_id task_id history recents summary =
     (let task = load_task_for_handoff cp task_id; messages = history @ recents; commands = handoff_commands task; verification = handoff_verification task;
          failed_tools = handoff_failed_tools (cp_loads cp) messages
      in [(''version'', PInt 1), (''sessionId'', PStr session_id), (''taskId'', (case task_id of Some t \<Rightarrow> PStr t | None \<Rightarrow> PNone)),
          (''objective'', handoff_objective task messages), (''currentStep'', dget task ''currentStep''),
          (''completedWork'', texts (take 8 (handoff_completed_work task summary))),
          (''modifiedFiles'', records (take 20 (handoff_modified_files task))),
          (''failedCommands'', records (take 8 (filter (\<lambda>c. is_failed_status (dget c ''status'')) commands))),
          (''failedTools'', records (take 8 failed_tools)),
          (''verificationStatus'', PStr (handoff_verification_status verification commands failed_tools)),
          (''verification'', records (take 8 verification)), (''pendingEvidence'', PList []),
          (''decisions'', texts (take 8 (handoff_decisions task summary))), (''risks'', texts (take 8 (handoff_risks task))),
          (''nextCommand'', handoff_next_action task commands failed_tools),
          (''recentContext'', records (handoff_recent_context messages))])"

definition bulleted :: "string \<Rightarrow> nat \<Rightarrow> ('a \<Rightarrow> string list) \<Rightarrow> 'a list \<Rightarrow> string list" where
  \<comment> \<open>a title over the first items, nothing without items\<close>
  "bulleted title n f items = (if items = [] then [] else title # concat (map f (take n items)))"

definition labelled :: "string \<Rightarrow> pv \<Rightarrow> string list" where
  "labelled label v = (if truthy v then [label @ py_str v] else [])"

definition format_handoff_summary :: "pdict \<Rightarrow> string" where
  "format_handoff_summary h =
     (let str = (\<lambda>d k. py_str (dget d k));
          dash = (\<lambda>v. [''- '' @ py_str v])
      in join [CHR 0x0A]
        (labelled ''Objective: '' (dget h ''objective'') @ labelled ''Current step: '' (dget h ''currentStep'') @
         [''Verification status: '' @ py_str (por (dget h ''verificationStatus'') (PStr ''missing''))] @
         bulleted ''Completed work:'' 5 dash (the_list (dget h ''completedWork'')) @
         bulleted ''Modified files:'' 8
           (\<lambda>d. [''- '' @ str d ''path'' @ (if truthy (dget d ''summary'') then '' - '' @ str d ''summary'' else '''')])
           (dict_items (dget h ''modifiedFiles'')) @
         bulleted ''Failed commands:'' 5 (\<lambda>d. [''- '' @ str d ''command'' @ '' ('' @ str d ''status'' @ '')''])
           (dict_items (dget h ''failedCommands'')) @
         bulleted ''Failed tools:'' 5
           (\<lambda>d. (''- '' @ str d ''name'' @ '' ('' @ str d ''status'' @ ''): '' @ str d ''summary'') #
              labelled ''  Recovery: '' (dget d ''recoveryHint''))
           (dict_items (dget h ''failedTools'')) @
         bulleted ''Risks:'' 5 dash (the_list (dget h ''risks'')) @
         labelled ''Next action: '' (dget h ''nextCommand'')))"

section \<open>Compacting\<close>

record compaction_row =
  cw_id :: string
  cw_session :: string
  cw_task :: "string option"
  cw_before :: nat
  cw_after :: nat
  cw_summary :: "string option"
  cw_primer_hash :: string
  cw_covered :: "string list"
  cw_handoff :: pdict
  cw_created_at :: int

record compaction =
  kept_messages :: "pdict list"
  cr_before :: nat
  cr_after :: nat
  cr_strategy :: string
  cr_row :: "compaction_row option"  \<comment> \<open>the row written; the summary and the handoff are read from it\<close>

definition hash_primers :: "compactor \<Rightarrow> pdict list \<Rightarrow> string option" where
  \<comment> \<open>joining a content that is no text raises\<close>
  "hash_primers cp primers =
     (if list_all (\<lambda>m. is_str (message_content m)) primers
      then Some (take 16 (cp_hash cp (join ''|'' (map (\<lambda>m. the_str (message_content m)) primers))))
      else None)"

definition handoff_message :: "string option \<Rightarrow> string \<Rightarrow> pdict" where
  "handoff_message summary handoff_text =
     [(''role'', PStr ''system''),
      (''content'', PStr (join [CHR 0x0A, CHR 0x0A]
        ((case summary of Some (c # cs) \<Rightarrow> [''[Conversation summary]'' @ CHR 0x0A # c # cs] | _ \<Rightarrow> []) @
         (if handoff_text \<noteq> '''' then [''[Structured handoff]'' @ CHR 0x0A # handoff_text] else []))))]"

definition covered_ids :: "nat \<Rightarrow> pdict list \<Rightarrow> pdict list \<Rightarrow> string list \<Rightarrow> string list" where
  \<comment> \<open>the identifiers of the messages between the primers and the split point\<close>
  "covered_ids recent_turns messages primers message_ids =
     take (length messages - length primers - recent_turns) (drop (length primers) message_ids)"

definition unchanged_compaction :: "compactor \<Rightarrow> pdict list \<Rightarrow> compaction" where
  "unchanged_compaction cp messages =
     \<lparr>kept_messages = messages, cr_before = conversation_tokens cp messages, cr_after = conversation_tokens cp messages,
      cr_strategy = ''primer_summary_recent'', cr_row = None\<rparr>"

definition truncated_compaction :: "compactor \<Rightarrow> pdict list \<Rightarrow> compaction" where
  "truncated_compaction cp messages =
     \<lparr>kept_messages = truncate_tool_outputs messages, cr_before = conversation_tokens cp messages,
      cr_after = conversation_tokens cp (truncate_tool_outputs messages), cr_strategy = ''tool_output_truncation'', cr_row = None\<rparr>"

definition full_compaction ::
  "compactor \<Rightarrow> string \<Rightarrow> int \<Rightarrow> string \<Rightarrow> pdict list \<Rightarrow> int \<Rightarrow> string list \<Rightarrow> string option \<Rightarrow> compaction option" where
  "full_compaction cp new_id now session_id messages max_tokens message_ids task_id =
     (let (primers, history0, recents0) = split_segments (cp_recent_turns cp) messages;
          (history, recents) = repair_recent_tool_call_pairs history0 recents0;
          budget = max_tokens - int (conversation_tokens cp primers) - int (conversation_tokens cp recents);
          summary = generate_summary cp history budget;
          handoff = build_handoff_summary cp session_id task_id history recents summary;
          kept = primers @ [handoff_message summary (format_handoff_summary handoff)] @ recents
      in case hash_primers cp primers of
        None \<Rightarrow> None
      | Some h \<Rightarrow>
          Some \<lparr>kept_messages = kept, cr_before = conversation_tokens cp messages, cr_after = conversation_tokens cp kept,
            cr_strategy = ''primer_summary_recent'',
            cr_row = Some \<lparr>cw_id = new_id, cw_session = session_id, cw_task = task_id,
              cw_before = conversation_tokens cp messages, cw_after = conversation_tokens cp kept, cw_summary = summary,
              cw_primer_hash = h, cw_covered = covered_ids (cp_recent_turns cp) messages primers message_ids,
              cw_handoff = handoff, cw_created_at = now\<rparr>\<rparr>)"

definition compact ::
  "compactor \<Rightarrow> string \<Rightarrow> int \<Rightarrow> string \<Rightarrow> pdict list \<Rightarrow> int \<Rightarrow> string list \<Rightarrow> string option \<Rightarrow> bool \<Rightarrow> compaction option" where
  \<comment> \<open>None when it raises; the new identifier and the time are arguments\<close>
  "compact cp new_id now session_id messages max_tokens message_ids task_id force =
     (if int (conversation_tokens cp messages) \<le> max_tokens \<and> \<not> force then Some (unchanged_compaction cp messages)
      else if conversation_tokens cp messages < 220000 \<and> \<not> force \<and>
        int (conversation_tokens cp (truncate_tool_outputs messages)) \<le> max_tokens
      then Some (truncated_compaction cp messages)
      else full_compaction cp new_id now session_id messages max_tokens message_ids task_id)"

section \<open>Deciding\<close>

record compaction_decision =
  dc_compact :: bool
  dc_reason :: string
  dc_source :: string
  dc_force :: bool

definition json_object_text :: "string \<Rightarrow> string option" where
  \<comment> \<open>from the first opening brace to the last closing one\<close>
  "json_object_text raw =
     (let body = dropWhile (\<lambda>c. c \<noteq> CHR ''{'') raw
      in if CHR ''}'' \<in> set body then Some (rev (dropWhile (\<lambda>c. c \<noteq> CHR ''}'') (rev body))) else None)"

definition decision_prompt :: "pdict list \<Rightarrow> nat \<Rightarrow> int \<Rightarrow> string" where
  "decision_prompt messages tokens_before max_tokens =
     ''Decide whether to compact this conversation context before the next model call.'' @ [CHR 0x0A] @
     ''Return ONLY JSON: {\"shouldCompact\": true|false, \"reason\": \"short reason\"}.'' @ [CHR 0x0A] @
     ''Prefer compaction when older details can be summarized safely; avoid compaction '' @
     ''when exact recent tool outputs or code snippets are still critical.'' @ [CHR 0x0A, CHR 0x0A] @
     ''Estimated tokens: '' @ nat_digits tokens_before @ [CHR 0x0A] @
     ''Max tokens: '' @ py_str (PInt max_tokens) @ [CHR 0x0A] @
     ''Recent context preview:'' @ [CHR 0x0A] @
     join [CHR 0x0A] (map (\<lambda>m. ''['' @ py_str (dget_or m ''role'' (PStr ''?'')) @ ''] '' @
         utake 500 (py_str (message_content m)))
       (drop (length messages - 8) messages))"

definition llm_compaction_decision :: "compactor \<Rightarrow> pdict list \<Rightarrow> nat \<Rightarrow> int \<Rightarrow> compaction_decision option" where
  "llm_compaction_decision cp messages tokens_before max_tokens =
     (case provider_text cp (decision_prompt messages tokens_before max_tokens) of
        None \<Rightarrow> None
      | Some raw \<Rightarrow>
          (case Option.bind (json_object_text raw) (cp_loads cp) of
             Some (PDict payload) \<Rightarrow>
               let should = truthy (dget payload ''shouldCompact'') in
               Some \<lparr>dc_compact = should,
                 dc_reason = utake 240 (strip (py_str (por (dget payload ''reason'') (PStr ''provider compaction proposal'')))),
                 dc_source = ''llm'', dc_force = (should \<and> int tokens_before < max_tokens)\<rparr>
           | _ \<Rightarrow> None))"

definition tier_two :: string where
  "tier_two = ''tier 2: truncate oversized tool outputs''"

definition near_budget :: "int \<Rightarrow> int" where
  \<comment> \<open>\<open>int(max_tokens * 0.92)\<close>, which is exact below \<open>10 ^ 13\<close>\<close>
  "near_budget max_tokens = (max_tokens * 92) div 100"

definition should_compact :: "compactor \<Rightarrow> pdict list \<Rightarrow> int \<Rightarrow> compaction_decision" where
  \<comment> \<open>with the ratios every caller leaves at their defaults\<close>
  "should_compact cp messages max_tokens =
     (let tokens = conversation_tokens cp messages;
          rule = (\<lambda>compact reason. \<lparr>dc_compact = compact, dc_reason = reason, dc_source = ''rule'', dc_force = False\<rparr>)
      in if max_tokens \<le> 0 then (rule True ''invalid or exhausted token budget'')\<lparr>dc_force := True\<rparr>
         else if max_tokens \<le> int tokens then rule True ''context exceeds token budget (tier 3: full compact)''
         else if tokens < 50000 then rule False ''context is small (tier 1: no compaction)''
         else if list_ex oversized_tool_output messages then rule True tier_two
         else if int tokens < near_budget max_tokens then rule False ''context is comfortably within token budget''
         else case llm_compaction_decision cp messages tokens max_tokens of
           Some d \<Rightarrow> d
         | None \<Rightarrow> \<lparr>dc_compact = (near_budget max_tokens \<le> int tokens),
             dc_reason = ''near token budget; provider unavailable or undecidable'', dc_source = ''rule_fallback'',
             dc_force = (int tokens < max_tokens)\<rparr>)"

section \<open>What repairing keeps\<close>

definition answered :: "string list \<Rightarrow> pdict \<Rightarrow> bool" where
  \<comment> \<open>no result, or the result of one of the calls\<close>
  "answered calls m \<longleftrightarrow> (case tool_result_id m of None \<Rightarrow> True | Some i \<Rightarrow> i \<in> set calls)"

lemma assistant_tool_call_ids_append [simp]:
  "assistant_tool_call_ids (xs @ ys) = assistant_tool_call_ids xs @ assistant_tool_call_ids ys"
  by (simp add: assistant_tool_call_ids_def)

lemma set_assistant_tool_call_ids: "set (assistant_tool_call_ids xs) = (\<Union>m\<in>set xs. set (message_tool_call_ids m))"
  by (simp add: assistant_tool_call_ids_def)

lemma result_calls_nothing: "tool_result_id m = Some i \<Longrightarrow> message_tool_call_ids m = []"
  by (auto simp: tool_result_id_def message_tool_call_ids_def split: if_splits)

lemma orphan_ids_set:
  "i \<in> set (orphan_ids xs) \<longleftrightarrow> (\<exists>m\<in>set xs. tool_result_id m = Some i) \<and> i \<notin> set (assistant_tool_call_ids xs)"
  by (auto simp: orphan_ids_def map_filter_def image_iff)

lemma orphan_ids_Nil_iff: "orphan_ids xs = [] \<longleftrightarrow> list_all (answered (assistant_tool_call_ids xs)) xs"
proof
  assume "orphan_ids xs = []"
  then have "\<And>i. i \<notin> set (orphan_ids xs)" by simp
  then show "list_all (answered (assistant_tool_call_ids xs)) xs"
    unfolding orphan_ids_set list_all_iff answered_def by (auto split: option.splits)
next
  assume a: "list_all (answered (assistant_tool_call_ids xs)) xs"
  have "i \<notin> set (orphan_ids xs)" for i
    using a unfolding orphan_ids_set list_all_iff answered_def by (force split: option.splits)
  then show "orphan_ids xs = []" by (cases "orphan_ids xs") auto
qed

lemma drop_orphans_calls: "set (assistant_tool_call_ids (drop_orphans xs)) = set (assistant_tool_call_ids xs)"
proof -
  have "set (message_tool_call_ids m) \<subseteq> set (assistant_tool_call_ids (drop_orphans xs))" if "m \<in> set xs" for m
  proof (cases "tool_result_id m")
    case None
    then have "m \<in> set (drop_orphans xs)" using that by (simp add: drop_orphans_def)
    then show ?thesis by (auto simp: set_assistant_tool_call_ids)
  next
    case (Some i)
    then show ?thesis by (simp add: result_calls_nothing)
  qed
  moreover have "set (drop_orphans xs) \<subseteq> set xs" by (auto simp: drop_orphans_def)
  ultimately show ?thesis by (simp only: set_assistant_tool_call_ids) blast
qed

lemma last_index_None: "last_index P xs = None \<Longrightarrow> x \<in> set xs \<Longrightarrow> \<not> P x"
  by (auto simp: last_index_def find_None_iff in_set_conv_nth)

lemma uncalled_orphans:
  assumes "last_index (calls_one_of (orphan_ids recents)) history = None" "i \<in> set (orphan_ids recents)"
  shows "i \<notin> set (assistant_tool_call_ids (history @ recents))"
proof -
  have "i \<notin> set (message_tool_call_ids m)" if "m \<in> set history" for m
    using last_index_None [OF assms(1) that] assms(2) by (auto simp: calls_one_of_def list_ex_iff)
  moreover have "i \<notin> set (assistant_tool_call_ids recents)" using assms(2) by (simp add: orphan_ids_set)
  ultimately show ?thesis by (simp add: set_assistant_tool_call_ids)
qed

lemma answered_cong: "set xs = set ys \<Longrightarrow> answered xs = answered ys"
  by (auto simp: answered_def fun_eq_iff split: option.splits)

lemma drop_orphans_answered:
  assumes "last_index (calls_one_of (orphan_ids recents)) history = None"
  shows "filter (answered (assistant_tool_call_ids (history @ recents))) (drop_orphans recents) =
    filter (answered (assistant_tool_call_ids (history @ recents))) recents"
  unfolding drop_orphans_def filter_filter
  by (rule filter_cong [OF refl]) (use uncalled_orphans [OF assms] in \<open>auto simp: answered_def split: option.splits\<close>)

lemma repair_loop_prefix: "prefix (fst (repair_loop history recents)) history"
proof (induction history recents rule: repair_loop.induct)
  case (1 history recents)
  show ?case
  proof (cases "last_index (calls_one_of (orphan_ids recents)) history")
    case None
    then show ?thesis using 1(1) by (subst repair_loop.simps) (simp add: Let_def)
  next
    case (Some b)
    then show ?thesis
      using prefix_order.trans [OF 1(2) take_is_prefix] by (subst repair_loop.simps) (simp add: Let_def)
  qed
qed

lemma repair_loop_paired: "orphan_ids (snd (repair_loop history recents)) = []"
proof (induction history recents rule: repair_loop.induct)
  case (1 history recents)
  show ?case
    by (subst repair_loop.simps) (auto simp: Let_def 1 split: option.splits, simp add: orphan_ids_def map_filter_def)
qed

lemma repair_loop_keeps:
  "repair_loop history recents = (h, r) \<Longrightarrow>
   set (assistant_tool_call_ids (h @ r)) = set (assistant_tool_call_ids (history @ recents)) \<and>
   filter (answered (assistant_tool_call_ids (history @ recents))) (h @ r) =
     filter (answered (assistant_tool_call_ids (history @ recents))) (history @ recents)"
proof (induction history recents rule: repair_loop.induct)
  case (1 history recents)
  let ?o = "orphan_ids recents" and ?k = "drop_orphans recents"
  show ?case
  proof (cases "?o = []")
    case True
    then show ?thesis using 1(3) by (simp add: repair_loop.simps)
  next
    case False
    show ?thesis
    proof (cases "last_index (calls_one_of ?o) history")
      case (Some b)
      then have "repair_loop (take b history) (drop b history @ recents) = (h, r)"
        using 1(3) False by (simp add: repair_loop.simps [of history recents])
      from 1(2) [OF refl False Some this] show ?thesis
        by (simp add: append_assoc [symmetric] del: append_assoc filter_append assistant_tool_call_ids_append)
    next
      case None
      have c: "set (assistant_tool_call_ids (history @ ?k)) = set (assistant_tool_call_ids (history @ recents))"
        by (simp add: drop_orphans_calls)
      have a: "filter (answered (assistant_tool_call_ids (history @ recents))) (history @ ?k) =
          filter (answered (assistant_tool_call_ids (history @ recents))) (history @ recents)"
        using drop_orphans_answered [OF None] by simp
      show ?thesis
      proof (cases "?k = []")
        case True
        then have "h = history" "r = ?k" using 1(3) False None by (auto simp: repair_loop.simps [of history recents])
        then show ?thesis using c a by simp
      next
        case k: False
        then have "repair_loop history ?k = (h, r)" using 1(3) False None by (simp add: repair_loop.simps [of history recents])
        from 1(1) [OF refl False None refl k this] show ?thesis using a c answered_cong [OF c] by simp
      qed
    qed
  qed
qed

lemma repair_pairs:
  assumes "repair_recent_tool_call_pairs history recents = (h, r)"
  shows "prefix h history"
    and "history = [] \<or> orphan_ids r = []"
    and "filter (answered (assistant_tool_call_ids (history @ recents))) (h @ r) =
      filter (answered (assistant_tool_call_ids (history @ recents))) (history @ recents)"
    and "set (assistant_tool_call_ids (h @ r)) = set (assistant_tool_call_ids (history @ recents))"
  using assms repair_loop_prefix [of history recents] repair_loop_paired [of history recents] repair_loop_keeps [of history recents h r]
  by (auto simp: repair_recent_tool_call_pairs_def orphan_ids_def map_filter_def split: if_splits)

text \<open>
  C28. Repairing the cut between the history and the recent messages always ends. The new history
  is a prefix of the old one; unless there was no history, every result among the recent messages
  has its call there; and nothing but results that no message of the conversation calls is lost or moved.
\<close>

theorem repair_keeps_pairs:
  "case repair_recent_tool_call_pairs history recents of (h, r) \<Rightarrow>
     prefix h history \<and> (history = [] \<or> orphan_ids r = []) \<and>
     (let calls = assistant_tool_call_ids (history @ recents) in
      filter (answered calls) (h @ r) = filter (answered calls) (history @ recents))"
proof (cases "repair_recent_tool_call_pairs history recents")
  case (Pair h r)
  show ?thesis using repair_pairs [OF Pair] by (simp only: Pair Let_def prod.case)
qed

section \<open>What compacting keeps\<close>

lemma primer_plain: "is_primer_message m \<Longrightarrow> tool_result_id m = None \<and> message_tool_call_ids m = []"
  by (auto simp: is_primer_message_def tool_result_id_def message_tool_call_ids_def)

lemma primers_plain: "assistant_tool_call_ids (takeWhile is_primer_message ms) = []"
  using primer_plain by (auto simp: assistant_tool_call_ids_def dest: set_takeWhileD)

lemma handoff_message_plain:
  "tool_result_id (handoff_message s t) = None" "message_tool_call_ids (handoff_message s t) = []"
  "is_primer_message (handoff_message s t)"
  by (simp_all add: handoff_message_def tool_result_id_def message_tool_call_ids_def is_primer_message_def dget_def)

lemma paired_suffix:
  assumes "orphan_ids messages = []"
    and "repair_recent_tool_call_pairs (take n (dropWhile is_primer_message messages)) (drop n (dropWhile is_primer_message messages)) = (h, r)"
  shows "h @ r = dropWhile is_primer_message messages" "orphan_ids r = []"
proof -
  let ?b = "dropWhile is_primer_message messages"
  have "assistant_tool_call_ids messages = assistant_tool_call_ids ?b"
    using primers_plain by (subst takeWhile_dropWhile_id [of is_primer_message messages, symmetric], subst assistant_tool_call_ids_append) simp
  then have b: "list_all (answered (assistant_tool_call_ids ?b)) ?b"
    using assms(1) unfolding orphan_ids_Nil_iff list_all_iff by (metis set_dropWhileD)
  note p = repair_pairs [OF assms(2), unfolded append_take_drop_id]
  show r: "orphan_ids r = []"
  proof (cases "take n ?b = []")
    case True
    then have "r = drop n ?b" using assms(2) by (simp only: repair_recent_tool_call_pairs_def True simp_thms if_True prod.inject)
    moreover have "drop n ?b = ?b" using True by (metis append_take_drop_id append_Nil)
    ultimately have "r = ?b" by simp
    then show ?thesis using b by (auto simp: orphan_ids_Nil_iff)
  next
    case False
    then show ?thesis using p(2) by blast
  qed
  have "set h \<subseteq> set ?b" using p(1) by (auto dest!: set_mono_prefix in_set_takeD)
  then have "list_all (answered (assistant_tool_call_ids ?b)) h" using b by (auto simp: list_all_iff)
  moreover have "list_all (answered (assistant_tool_call_ids ?b)) r"
    using r p(4) unfolding orphan_ids_Nil_iff list_all_iff answered_def by (fastforce split: option.splits)
  ultimately have "filter (answered (assistant_tool_call_ids ?b)) (h @ r) = h @ r"
    by (intro filter_True) (auto simp: list_all_iff)
  then show "h @ r = ?b" using p(3) b by (simp add: list_all_iff)
qed

lemma truncate_plain:
  "tool_result_id (truncate_tool_output m) = tool_result_id m" "message_tool_call_ids (truncate_tool_output m) = message_tool_call_ids m"
  by (simp_all add: truncate_tool_output_def Let_def tool_result_id_def message_tool_call_ids_def dget_dput)

lemma orphan_ids_truncated: "orphan_ids (truncate_tool_outputs ms) = orphan_ids ms"
proof -
  have "assistant_tool_call_ids (truncate_tool_outputs ms) = assistant_tool_call_ids ms"
    by (simp add: assistant_tool_call_ids_def truncate_tool_outputs_def truncate_plain o_def)
  moreover have "List.map_filter tool_result_id (truncate_tool_outputs ms) = List.map_filter tool_result_id ms"
    by (simp add: map_filter_def truncate_tool_outputs_def filter_map truncate_plain o_def)
  ultimately show ?thesis by (simp add: orphan_ids_def)
qed

lemma full_compactionE:
  assumes "full_compaction cp i now sid messages mx ids tid = Some c"
  obtains n h r s t where "repair_recent_tool_call_pairs (take n (dropWhile is_primer_message messages))
      (drop n (dropWhile is_primer_message messages)) = (h, r)"
    "n = length (dropWhile is_primer_message messages) - cp_recent_turns cp"
    "kept_messages c = takeWhile is_primer_message messages @ handoff_message s t # r" "cr_row c \<noteq> None"
  using assms unfolding full_compaction_def split_segments_def Let_def
  by (auto split: prod.splits option.splits intro!: that)

text \<open>
  C29. A conversation in which every tool result has its call keeps that property when it is
  compacted. When no row is written the messages are the same up to the contents of tool results and
  fit the limit; otherwise they are the primers, one system message, and a suffix of the conversation
  that holds at least the last messages asked for.
\<close>

theorem compact_keeps_pairs:
  assumes "compact cp i now sid messages mx ids tid force = Some c"
    and "orphan_ids messages = []"
  shows "orphan_ids (kept_messages c) = [] \<and>
    (case cr_row c of
       None \<Rightarrow> (kept_messages c = messages \<or> kept_messages c = truncate_tool_outputs messages) \<and> int (cr_after c) \<le> mx
     | Some w \<Rightarrow> \<exists>h s t r. messages = takeWhile is_primer_message messages @ h @ r \<and>
         min (cp_recent_turns cp) (length (dropWhile is_primer_message messages)) \<le> length r \<and>
         kept_messages c = takeWhile is_primer_message messages @ handoff_message s t # r)"
proof (cases "full_compaction cp i now sid messages mx ids tid = Some c")
  case True
  then obtain n h r s t where f: "repair_recent_tool_call_pairs (take n (dropWhile is_primer_message messages))
      (drop n (dropWhile is_primer_message messages)) = (h, r)"
    "n = length (dropWhile is_primer_message messages) - cp_recent_turns cp"
    "kept_messages c = takeWhile is_primer_message messages @ handoff_message s t # r" "cr_row c \<noteq> None"
    by (rule full_compactionE)
  note p = paired_suffix [OF assms(2) f(1)]
  have "length h \<le> n" using prefix_length_le [OF repair_pairs(1) [OF f(1)]] by simp
  then have "min (cp_recent_turns cp) (length (dropWhile is_primer_message messages)) \<le> length r"
    using arg_cong [OF p(1), of length] f(2) by simp
  moreover have "assistant_tool_call_ids (kept_messages c) = assistant_tool_call_ids r"
    by (simp add: f(3) primers_plain) (simp add: assistant_tool_call_ids_def handoff_message_plain)
  then have "orphan_ids (kept_messages c) = []"
    using p(2) primer_plain unfolding orphan_ids_Nil_iff list_all_iff f(3)
    by (auto simp: answered_def handoff_message_plain dest: set_takeWhileD)
  moreover have "messages = takeWhile is_primer_message messages @ h @ r" using p(1) by simp
  ultimately show ?thesis using f(3,4) by (cases "cr_row c") auto
next
  case False
  then show ?thesis using assms
    by (auto simp: compact_def unchanged_compaction_def truncated_compaction_def orphan_ids_truncated split: if_splits)
qed

definition sample_compactor :: compactor where
  "sample_compactor =
     \<lparr>cp_recent_turns = 2, cp_generate = None, cp_loads = (\<lambda>_. None), cp_dumps = (\<lambda>_. ''''), cp_hash = (\<lambda>s. s), cp_get_task = (\<lambda>_. None)\<rparr>"

definition call_message :: "string \<Rightarrow> pdict" where
  "call_message i = [(''role'', PStr ''assistant''), (''tool_calls'', PList [PDict [(''id'', PStr i)]])]"

definition result_message :: "string \<Rightarrow> pdict" where
  "result_message i = [(''role'', PStr ''tool''), (''tool_call_id'', PStr i), (''content'', PStr ''ok'')]"

definition user_message :: "string \<Rightarrow> pdict" where
  "user_message s = [(''role'', PStr ''user''), (''content'', PStr s)]"

definition sample_messages :: "pdict list" where
  "sample_messages = [user_message ''u'', call_message ''c'', result_message ''c'', user_message ''v'']"

lemma sample_tokens: "conversation_tokens sample_compactor sample_messages = 3"
  by (simp add: conversation_tokens_def sample_messages_def user_message_def call_message_def result_message_def message_content_def
      dget_or_def estimate_tokens_def estimate_string_tokens_def count_cjk_chars_def ulen_def cjk_def code_point_def cjk_ranges_def)

lemma compact_keeps_pairs_witness:
  "orphan_ids sample_messages = [] \<and>
   compact sample_compactor ''i'' 0 ''s'' sample_messages 10 [] None False = Some (unchanged_compaction sample_compactor sample_messages) \<and>
   orphan_ids (kept_messages (unchanged_compaction sample_compactor sample_messages)) = []"
proof -
  have a: "orphan_ids sample_messages = []" by code_simp
  have b: "compact sample_compactor ''i'' 0 ''s'' sample_messages 10 [] None False =
      Some (unchanged_compaction sample_compactor sample_messages)"
    by (simp add: compact_def sample_tokens)
  show ?thesis using a b compact_keeps_pairs [OF b a] by blast
qed

section \<open>Deciding and compacting\<close>

definition compacted_messages ::
  "compactor \<Rightarrow> string \<Rightarrow> int \<Rightarrow> string \<Rightarrow> pdict list \<Rightarrow> int \<Rightarrow> string option \<Rightarrow> pdict list option" where
  \<comment> \<open>what the loop goes on with after the result of a tool\<close>
  "compacted_messages cp i now sid messages threshold tid =
     (let d = should_compact cp messages threshold in
      if dc_compact d then map_option kept_messages (compact cp i now sid messages threshold [] tid (dc_force d)) else Some messages)"

text \<open>
  What the loop goes on with, when no provider is asked. The contents of tools are truncated only
  above the limit; below it a conversation with an oversized result is left alone, although the
  decision says that it is to be truncated, and one without is compacted in full from 92 percent on.
\<close>

theorem compaction_decided:
  assumes "cp_generate cp = None" "0 < limit"
  shows "compacted_messages cp i now sid messages limit tid =
    (let n = conversation_tokens cp messages;
         full = map_option kept_messages (full_compaction cp i now sid messages limit [] tid);
         truncated = truncate_tool_outputs messages
     in if limit < int n
        then (if n < 220000 \<and> int (conversation_tokens cp truncated) \<le> limit then Some truncated else full)
        else if 50000 \<le> n \<and> int n < limit \<and> \<not> list_ex oversized_tool_output messages \<and> near_budget limit \<le> int n then full
        else Some messages)"
proof -
  have llm: "llm_compaction_decision cp messages n limit = None" for n
    using assms(1) by (simp add: llm_compaction_decision_def provider_text_def)
  consider (over) "limit < int (conversation_tokens cp messages)" | (full) "int (conversation_tokens cp messages) = limit"
    | (under) "int (conversation_tokens cp messages) < limit"
    by linarith
  then show ?thesis
  proof cases
    case over
    then have "dc_compact (should_compact cp messages limit)" "\<not> dc_force (should_compact cp messages limit)"
      using assms(2) by (simp_all add: should_compact_def Let_def)
    then show ?thesis using over by (simp add: compacted_messages_def compact_def Let_def truncated_compaction_def)
  next
    case full
    then have "dc_compact (should_compact cp messages limit)" "\<not> dc_force (should_compact cp messages limit)"
      using assms(2) by (simp_all add: should_compact_def Let_def)
    then show ?thesis using full by (simp add: compacted_messages_def compact_def Let_def unchanged_compaction_def)
  next
    case under
    let ?n = "conversation_tokens cp messages"
    have "dc_compact (should_compact cp messages limit) =
        (50000 \<le> ?n \<and> (list_ex oversized_tool_output messages \<or> near_budget limit \<le> int ?n))"
      "dc_force (should_compact cp messages limit) =
        (50000 \<le> ?n \<and> \<not> list_ex oversized_tool_output messages \<and> near_budget limit \<le> int ?n)"
      using under assms(2) by (auto simp: should_compact_def Let_def llm)
    then show ?thesis using under
      by (cases "list_ex oversized_tool_output messages")
        (simp_all add: compacted_messages_def compact_def Let_def unchanged_compaction_def)
  qed
qed

lemma compaction_decided_witness:
  "compacted_messages sample_compactor ''i'' 0 ''s'' sample_messages 10 None = Some sample_messages"
proof -
  have "cp_generate sample_compactor = None" by (simp add: sample_compactor_def)
  then show ?thesis using compaction_decided [of sample_compactor 10 "''i''" 0 "''s''" sample_messages None]
    by (simp add: sample_tokens)
qed

section \<open>What compacting does not do\<close>

lemma utf8_chars_ascii: "list_all (\<lambda>c. \<not> cont_byte c) s \<Longrightarrow> utf8_chars s = map (\<lambda>c. [c]) s"
proof (induction s rule: utf8_chars.induct)
  case (2 c cs)
  then have "takeWhile cont_byte cs = []" "dropWhile cont_byte cs = cs" by (cases cs; auto)+
  then show ?case using 2 by simp
qed simp

lemma utake_ascii: "list_all (\<lambda>c. \<not> cont_byte c) s \<Longrightarrow> utake n s = take n s"
  by (simp add: utake_def utf8_chars_ascii take_map concat_map_singleton)

lemma udrop_ascii: "list_all (\<lambda>c. \<not> cont_byte c) s \<Longrightarrow> udrop n s = drop n s"
  by (simp add: udrop_def utf8_chars_ascii drop_map concat_map_singleton)

definition long_result :: pdict where
  "long_result = [(''role'', PStr ''tool''), (''content'', PStr (replicate 1001 (CHR ''a'')))]"

lemma long_result_truncated:
  "dget (truncate_tool_output long_result) ''content'' =
     PStr (replicate 600 (CHR ''a'') @ CHR 0x0A # ellipsis @ ''[truncated 1 chars]'' @ ellipsis @ CHR 0x0A # replicate 400 (CHR ''a''))"
  "dget (truncate_tool_output long_result) ''role'' = PStr ''tool''"
proof -
  have a: "list_all (\<lambda>c. \<not> cont_byte c) (replicate 1001 (CHR ''a''))" by (simp add: list_all_iff cont_byte_def)
  have f: "dget long_result ''content'' = PStr (replicate 1001 (CHR ''a''))" "dget long_result ''role'' = PStr ''tool''"
    "dget long_result ''resultSummary'' = PNone"
    by (simp_all add: long_result_def dget_def)
  moreover have "strip '''' = ''''" by code_simp
  moreover have "nat_digits 1 = ''1''" by code_simp
  ultimately show "dget (truncate_tool_output long_result) ''content'' =
     PStr (replicate 600 (CHR ''a'') @ CHR 0x0A # ellipsis @ ''[truncated 1 chars]'' @ ellipsis @ CHR 0x0A # replicate 400 (CHR ''a''))"
    using a by (simp add: truncate_tool_output_def oversized_tool_output_def ulen_ascii utake_ascii udrop_ascii dget_dput Let_def)
  show "dget (truncate_tool_output long_result) ''role'' = PStr ''tool''"
    using f by (simp add: truncate_tool_output_def dget_dput Let_def)
qed

lemma long_result_longer:
  "ulen (the_str (dget (truncate_tool_output long_result) ''content'')) = 1023"
  "oversized_tool_output (truncate_tool_output long_result)"
proof -
  have "ulen (replicate 600 (CHR ''a'') @ CHR 0x0A # ellipsis @ ''[truncated 1 chars]'' @ ellipsis @ CHR 0x0A # replicate 400 (CHR ''a'')) = 1023"
    by (simp add: ulen_count ellipsis_def cont_byte_def)
  then show "ulen (the_str (dget (truncate_tool_output long_result) ''content'')) = 1023"
    "oversized_tool_output (truncate_tool_output long_result)"
    by (simp_all add: long_result_truncated oversized_tool_output_def)
qed

lemma small_compaction:
  assumes "\<not> is_primer_message m" "list_all (\<lambda>m. is_primer_message m \<and> is_str (message_content m)) ps" "0 < cp_recent_turns cp"
  shows "\<exists>s t. map_option kept_messages (compact cp i now sid (ps @ [m]) mx ids tid True) = Some (ps @ [handoff_message s t, m])"
proof -
  have "takeWhile is_primer_message (ps @ [m]) = ps" "dropWhile is_primer_message (ps @ [m]) = [m]"
    using assms(1,2) by (auto simp: list_all_iff takeWhile_append2 dropWhile_append2)
  moreover have "hash_primers cp ps \<noteq> None" using assms(2) by (auto simp: hash_primers_def list_all_iff)
  ultimately show ?thesis using assms(3)
    by (auto simp: compact_def full_compaction_def split_segments_def repair_recent_tool_call_pairs_def Let_def
        split: option.splits)
qed

lemma handoff_accumulates:
  assumes "0 < cp_recent_turns cp" "\<not> is_primer_message m"
  shows "\<exists>s t s' t'. map_option kept_messages (compact cp i now sid [m] mx ids tid True) = Some [handoff_message s t, m] \<and>
    map_option kept_messages (compact cp i now sid [handoff_message s t, m] mx ids tid True) =
      Some [handoff_message s t, handoff_message s' t', m]"
proof -
  obtain s t where a: "map_option kept_messages (compact cp i now sid [m] mx ids tid True) = Some [handoff_message s t, m]"
    using small_compaction [of m "[]" cp i now sid mx ids tid] assms by auto
  have "is_str (message_content (handoff_message s t))" by (simp add: handoff_message_def message_content_def dget_or_def)
  then obtain s' t' where "map_option kept_messages (compact cp i now sid [handoff_message s t, m] mx ids tid True) =
      Some [handoff_message s t, handoff_message s' t', m]"
    using small_compaction [of m "[handoff_message s t]" cp i now sid mx ids tid] assms handoff_message_plain(3) [of s t]
    by auto
  with a show ?thesis by blast
qed

definition batch_messages :: "pdict list" where
  "batch_messages = [call_message ''c'', result_message ''c'', user_message ''u'', user_message ''v'']"

lemma covered_but_kept:
  assumes "cp_recent_turns cp = 3"
  shows "\<exists>c s t. compact cp i now sid batch_messages mx [''1'', ''2'', ''3'', ''4''] tid True = Some c \<and>
    kept_messages c = handoff_message s t # batch_messages \<and> map_option cw_covered (cr_row c) = Some [''1'']"
proof -
  have "takeWhile is_primer_message batch_messages = []" "dropWhile is_primer_message batch_messages = batch_messages"
    "repair_recent_tool_call_pairs (take 1 batch_messages) (drop 1 batch_messages) = ([], batch_messages)"
    "length batch_messages = 4"
    by code_simp+
  then show ?thesis using assms
    by (simp add: compact_def full_compaction_def split_segments_def hash_primers_def covered_ids_def Let_def) blast
qed

text \<open>
  What compacting does not do. Truncating a result of 1001 characters makes it longer and leaves it
  oversized. A compaction adds a handoff that the next one takes for a primer, so that handoffs pile up.
  A call moved back to its result is kept, and recorded as covered by the summary. A reply that says
  ''false'' as a text decides for compaction.
\<close>

theorem compaction_escapes:
  "(ulen (the_str (dget (truncate_tool_output long_result) ''content'')) = 1023 \<and>
    oversized_tool_output (truncate_tool_output long_result)) \<and>
   (\<exists>s t s' t'. map_option kept_messages (compact sample_compactor i now sid [user_message ''hi''] mx ids tid True) =
      Some [handoff_message s t, user_message ''hi''] \<and>
    map_option kept_messages (compact sample_compactor i now sid [handoff_message s t, user_message ''hi''] mx ids tid True) =
      Some [handoff_message s t, handoff_message s' t', user_message ''hi'']) \<and>
   (\<exists>c s t. compact (cp\<lparr>cp_recent_turns := 3\<rparr>) i now sid batch_messages mx [''1'', ''2'', ''3'', ''4''] tid True = Some c \<and>
     kept_messages c = handoff_message s t # batch_messages \<and> map_option cw_covered (cr_row c) = Some [''1'']) \<and>
   map_option dc_compact (llm_compaction_decision
     (cp\<lparr>cp_generate := Some (\<lambda>_. Some [(''message'', PStr ''{}'')]),
         cp_loads := \<lambda>_. Some (PDict [(''shouldCompact'', PStr ''false'')])\<rparr>) messages n mx) = Some True"
proof (intro conjI)
  have "\<not> is_primer_message (user_message ''hi'')" by code_simp
  then show "\<exists>s t s' t'. map_option kept_messages (compact sample_compactor i now sid [user_message ''hi''] mx ids tid True) =
      Some [handoff_message s t, user_message ''hi''] \<and>
    map_option kept_messages (compact sample_compactor i now sid [handoff_message s t, user_message ''hi''] mx ids tid True) =
      Some [handoff_message s t, handoff_message s' t', user_message ''hi'']"
    by (intro handoff_accumulates) (simp_all add: sample_compactor_def)
  show "map_option dc_compact (llm_compaction_decision
     (cp\<lparr>cp_generate := Some (\<lambda>_. Some [(''message'', PStr ''{}'')]),
         cp_loads := \<lambda>_. Some (PDict [(''shouldCompact'', PStr ''false'')])\<rparr>) messages n mx) = Some True"
    by (simp add: llm_compaction_decision_def provider_text_def dget_def por_def json_object_text_def Let_def)
  show "\<exists>c s t. compact (cp\<lparr>cp_recent_turns := 3\<rparr>) i now sid batch_messages mx [''1'', ''2'', ''3'', ''4''] tid True = Some c \<and>
     kept_messages c = handoff_message s t # batch_messages \<and> map_option cw_covered (cr_row c) = Some [''1'']"
    by (rule covered_but_kept) simp
qed (simp_all add: long_result_longer)

end
