(* ===== verification/ProviderTurn.thy ===== *)
theory ProviderTurn
  imports Compaction TextMatch
begin

text \<open>
  One turn of the provider: how a failure is classified (\<open>provider/failure_recovery.py\<close>), what is done
  about it, the context the request is made smaller to, and the requests a turn makes
  (\<open>orchestrator/provider_turn.py\<close>). The provider is a parameter: what the n-th request streams,
  returns or raises. Traces, published events and the budget of the provider are left out.
\<close>

section \<open>Classifying a failure\<close>

record provider_failure =
  pf_category :: string
  pf_retryable :: bool
  pf_recoverable :: bool
  pf_action :: string
  pf_reason :: string
  pf_user_message :: string
  pf_http_status :: "int option"

definition http_status_rx :: rx where
  \<comment> \<open>\<open>\\bHTTP\\s+(\\d{3})\\b\<close>, ignoring case\<close>
  "http_status_rx =
     rseq [RWordB, rseq (map (\<lambda>c. RCls (\<lambda>d. lower_char d = c)) ''http''), rplus rspace, RGroup 1 (rseq [rdigit, rdigit, rdigit]), RWordB]"

definition plain_status_rx :: rx where
  "plain_status_rx =
     rseq [RWordB, RGroup 1 (ralt (map rlit [''400'', ''401'', ''403'', ''408'', ''413'', ''429'', ''500'', ''502'', ''503'', ''504''])), RWordB]"

definition status_group :: "rx \<Rightarrow> string \<Rightarrow> int option" where
  "status_group r s =
     (case rx_search r s of None \<Rightarrow> None
      | Some (i, j, c) \<Rightarrow> (case group s c 1 of None \<Rightarrow> None | Some g \<Rightarrow> parse_int g))"

definition http_status :: "string \<Rightarrow> int option" where
  "http_status s = (if rx_found http_status_rx s then status_group http_status_rx s else status_group plain_status_rx s)"

definition failure_decision :: "string \<Rightarrow> int option \<Rightarrow> bool \<Rightarrow> bool \<Rightarrow> string \<Rightarrow> string \<Rightarrow> string \<Rightarrow> provider_failure" where
  "failure_decision category status retryable recoverable action reason message =
     (let preview = utake 400 (squash message) in
      \<lparr>pf_category = category, pf_retryable = retryable, pf_recoverable = recoverable, pf_action = action, pf_reason = reason,
       pf_user_message = (if preview \<noteq> '''' then preview else reason), pf_http_status = status\<rparr>)"

definition classify_provider_failure :: "string \<Rightarrow> provider_failure" where
  "classify_provider_failure message =
     (let lowered = lower message; status = http_status message;
          has = (\<lambda>markers. any_sub markers lowered); is = (\<lambda>codes. status \<in> Some ` set codes)
      in if has [''environment variable'', ''api key'', ''apikey'', ''auth token'', ''not set'']
      then failure_decision ''auth'' status False False ''fix_provider_credentials''
        ''provider credentials are missing or invalid'' message
      else if is [401, 403] \<or> has [''unauthorized'', ''authentication'', ''forbidden'', ''permission denied'']
      then failure_decision ''auth'' status False False ''fix_provider_credentials''
        ''provider rejected authentication or authorization'' message
      else if is [429] \<or> has [''rate limit'', ''rate_limit'', ''too many requests'', ''throttle'', ''throttled'', ''concurrency limit'',
          ''concurrent request'', ''too many concurrent'']
      then failure_decision ''rate_limit'' status True True ''retry_with_backoff'' ''provider rate limited the request'' message
      else if is [408, 504] \<or> has [''timed out'', ''timeout'', ''deadline exceeded'', ''read timed out'',
          ''streaming response exceeded'', ''before completion'']
      then failure_decision ''timeout'' status True True ''retry'' ''provider request timed out before a complete response'' message
      else if is [413] \<or> has [''context length'', ''context_length_exceeded'', ''maximum context'', ''token limit'', ''too many tokens'',
          ''input is too long'', ''input too long'', ''payload too large'', ''request too large'',
          ''tool call arguments exceeded'', ''maximum request length'']
      then failure_decision ''context_too_large'' status False True ''compact_or_split_context''
        ''request context or tool arguments exceed provider limits'' message
      else if has [''refused'', ''refusal'', ''content filter'', ''safety'', ''policy_violation'', ''not allowed'']
      then failure_decision ''refusal'' status False False ''ask_user_or_change_request'' ''provider refused the request'' message
      else if is [500, 502, 503] \<or> has [''internal server error'', ''bad gateway'', ''service unavailable'']
      then failure_decision ''server_error'' status True True ''retry_with_backoff''
        ''provider returned a transient server failure'' message
      else if has [''connection'', ''reset'', ''unreachable'', ''dns'', ''name resolution'', ''temporary failure'', ''connection refused'']
      then failure_decision ''network'' status True True ''retry'' ''network path to provider failed'' message
      else if has [''api format'', ''not supported'', ''unsupported'']
      then failure_decision ''unsupported_format'' status False True ''fix_provider_api_format''
        ''provider API format or feature is unsupported'' message
      else if has [''bad request'', ''invalid model'', ''invalid request'', ''unknown parameter'', ''validation'', ''parameter''] \<or> is [400]
      then failure_decision ''request_validation'' status False True ''fix_provider_request''
        ''provider rejected the request parameters'' message
      else if has [''invalid json'', ''non-utf-8'', ''invalid response'', ''missing choices'', ''invalid sse'']
      then failure_decision ''invalid_response'' status True True ''retry''
        ''provider returned a malformed response that may be transient'' message
      else failure_decision ''unknown'' status False False ''surface_error''
        ''provider failure did not match a known recoverable pattern'' message)"

section \<open>What to do about it\<close>

definition transient_categories :: "string list" where
  "transient_categories = [''timeout'', ''rate_limit'', ''network'', ''server_error'', ''invalid_response'']"

definition can_fallback_to_non_stream :: "provider_failure \<Rightarrow> bool \<Rightarrow> bool" where
  "can_fallback_to_non_stream f partial \<longleftrightarrow>
     pf_category f = ''invalid_response'' \<or> (partial \<and> pf_category f \<in> {''timeout'', ''network'', ''server_error''})"

definition provider_recovery_strategy :: "provider_failure \<Rightarrow> bool \<Rightarrow> bool \<Rightarrow> bool \<Rightarrow> string" where
  "provider_recovery_strategy f stream can_non_stream partial =
     (if pf_category f = ''auth'' then ''fix_provider_credentials''
      else if pf_category f = ''refusal'' then ''ask_user_or_change_request''
      else if \<not> pf_recoverable f then ''surface_error''
      else if stream \<and> can_non_stream then ''fallback''
      else if pf_category f = ''context_too_large'' then ''compact_or_split_context''
      else if pf_category f = ''unsupported_format'' then ''fix_provider_api_format''
      else if pf_category f = ''request_validation'' then ''fix_provider_request''
      else if pf_category f = ''invalid_response'' then ''inspect_provider_response''
      else if pf_retryable f \<and> partial
      then (if pf_category f \<in> {''rate_limit'', ''server_error''} then ''retry_with_backoff'' else ''retry'')
      else ''surface_error'')"

definition provider_recovery_should_retry :: "provider_failure \<Rightarrow> string \<Rightarrow> bool \<Rightarrow> bool" where
  "provider_recovery_should_retry f strategy partial =
     (if \<not> pf_recoverable f then False
      else if strategy \<in> {''ask_user'', ''ask_user_or_change_request'', ''abort'', ''surface_error''} then False
      else if strategy \<in> {''fix_provider_credentials'', ''fix_provider_request'', ''fix_provider_api_format'', ''inspect_provider_response''}
      then False
      else if strategy \<in> {''retry'', ''retry_with_backoff''} then pf_retryable f \<and> partial
      else pf_category f = ''context_too_large'' \<or> (partial \<and> pf_category f \<in> set transient_categories))"

definition provider_failure_runtime_gate :: "provider_failure \<Rightarrow> bool \<Rightarrow> bool \<Rightarrow> bool \<times> string" where
  \<comment> \<open>whether recovering is allowed, and why\<close>
  "provider_failure_runtime_gate f recovery_retry partial =
     (if recovery_retry then (False, ''recovery_retry_already_used'')
      else if pf_category f \<in> {''auth'', ''refusal''} \<or> \<not> pf_recoverable f then (False, ''hard_provider_failure'')
      else if partial then (True, ''partial_output_available'')
      else (False, ''no_partial_output''))"

record recovery_decision =
  rd_strategy :: string
  rd_max_retries :: nat
  rd_gate :: "bool \<times> string"

definition provider_failure_recovery_decision :: "bool \<Rightarrow> provider_failure \<Rightarrow> bool \<Rightarrow> bool \<Rightarrow> bool \<Rightarrow> recovery_decision" where
  "provider_failure_recovery_decision has_generate f stream recovery_retry partial =
     (let strategy = provider_recovery_strategy f stream (has_generate \<and> can_fallback_to_non_stream f partial) partial in
      \<lparr>rd_strategy = strategy,
       rd_max_retries = (if \<not> recovery_retry \<and> provider_recovery_should_retry f strategy partial then 1 else 0),
       rd_gate = provider_failure_runtime_gate f recovery_retry partial\<rparr>)"

section \<open>A smaller request\<close>

definition provider_recovery_trim_message :: "pdict \<Rightarrow> pdict" where
  "provider_recovery_trim_message m =
     (case dget m ''content'' of
        PStr s \<Rightarrow>
          if 6000 < ulen s
          then dput ''content'' (PStr (utake 3000 s @ CHR 0x0A # ''...[provider recovery compacted middle]...'' @
            CHR 0x0A # udrop (ulen s - 3000) s)) m
          else m
      | _ \<Rightarrow> m)"

definition instructs :: "pdict \<Rightarrow> bool" where
  "instructs m \<longleftrightarrow> lower (clean_field m ''role'') \<in> {''system'', ''developer''}"

fun split_instructions :: "nat \<Rightarrow> pdict list \<Rightarrow> pdict list \<times> pdict list" where
  \<comment> \<open>the first instructions, and the other messages\<close>
  "split_instructions n [] = ([], [])"
| "split_instructions n (m # ms) =
     (if 0 < n \<and> instructs m then (let (a, b) = split_instructions (n - 1) ms in (m # a, b))
      else (let (a, b) = split_instructions n ms in (a, m # b)))"

definition notice :: "string \<Rightarrow> pdict" where
  "notice s = [(''role'', PStr ''system''), (''content'', PStr s)]"

definition shortened :: "nat \<Rightarrow> string \<Rightarrow> pdict list \<Rightarrow> pdict list" where
  \<comment> \<open>two instructions, a notice and the last messages\<close>
  "shortened keep s messages =
     (let (system, conversation) = split_instructions 2 (map provider_recovery_trim_message messages)
      in system @ [notice s] @ drop (length conversation - keep) conversation)"

definition provider_preflight_compact_messages :: "pdict list \<Rightarrow> pdict list" where
  "provider_preflight_compact_messages =
     shortened 8 (''Provider preflight compacted the request context before the model call. '' @
       ''Continue from the recent context below; ask for missing details only if required.'')"

definition provider_recovery_compact_messages :: "provider_failure \<Rightarrow> pdict list \<Rightarrow> pdict list" where
  "provider_recovery_compact_messages f =
     shortened 6 (''A previous provider request failed with '' @ pf_category f @
       ''. Continue from the recent context below; ask for missing details only if required.'')"

definition provider_recovery_retry_messages :: "provider_failure \<Rightarrow> string \<Rightarrow> pdict list \<Rightarrow> pdict list" where
  \<comment> \<open>the messages of \<open>_provider_recovery_retry_context\<close>\<close>
  "provider_recovery_retry_messages f strategy messages =
     (if strategy = ''compact_or_split_context'' \<or> pf_category f = ''context_too_large''
      then provider_recovery_compact_messages f messages else messages)"

section \<open>Before the request\<close>

definition preflight_max_context :: "pdict \<Rightarrow> int option" where
  "preflight_max_context ctx =
     (let config = the_dict (dget ctx ''config'');
          own = dget (the_dict (dget ctx ''budgetStats'')) ''maxContextTokens'';
          of_provider = dget (the_dict (dget config ''provider'')) ''maxContextTokens'';
          v = (if own \<noteq> PNone then own else if of_provider \<noteq> PNone then of_provider else dget config ''maxContextTokens'')
      in if v = PNone then None else case py_int v of Inl _ \<Rightarrow> None | Inr i \<Rightarrow> Some i)"

definition preflight_threshold :: "int \<Rightarrow> int option \<Rightarrow> int" where
  "preflight_threshold compaction_threshold max_context =
     max 1 (if compaction_threshold \<noteq> 0 then compaction_threshold
       else case max_context of Some i \<Rightarrow> if i \<noteq> 0 then i else 1 | None \<Rightarrow> 1)"

definition over_context_limit :: "pdict \<Rightarrow> int \<Rightarrow> int \<Rightarrow> bool" where
  "over_context_limit ctx tokens compaction_threshold \<longleftrightarrow>
     (let max_context = preflight_max_context ctx in
      preflight_threshold compaction_threshold max_context \<le> tokens \<or>
      (case max_context of Some i \<Rightarrow> 0 < i \<and> i \<le> tokens | None \<Rightarrow> False))"

definition provider_preflight_recent_failure :: "pdict \<Rightarrow> pdict option" where
  \<comment> \<open>the recovery of the latest of the last five results that carries one\<close>
  "provider_preflight_recent_failure ctx =
     (let results = the_list (dget ctx ''tool_results'');
          recoveries = map (\<lambda>v. let d = the_dict (dget (the_dict v) ''result'') in por (dget d ''failureRecovery'') (dget d ''failure_recovery''))
            (rev (drop (length results - 5) results))
      in case filter is_dict recoveries of
        v # _ \<Rightarrow> Some [(''category'', dget (the_dict v) ''category''), (''strategy'', dget (the_dict v) ''strategy''),
          (''recoverable'', dget (the_dict v) ''recoverable'')]
      | [] \<Rightarrow> None)"

definition provider_preflight_messages :: "pdict \<Rightarrow> int \<Rightarrow> int \<Rightarrow> pdict list \<Rightarrow> pdict list" where
  \<comment> \<open>the messages that \<open>_provider_preflight_decision\<close> goes on with\<close>
  "provider_preflight_messages ctx tokens compaction_threshold messages =
     (if over_context_limit ctx tokens compaction_threshold then provider_preflight_compact_messages messages else messages)"

section \<open>Whether to stream\<close>

definition without_profiles :: "pdict \<Rightarrow> pdict" where
  "without_profiles d = filter (\<lambda>(k, v). k \<notin> {''profiles'', ''activeProfileId''}) d"

definition provider_trace_provider_config :: "pdict \<Rightarrow> pdict" where
  "provider_trace_provider_config c =
     (let profiles = map the_dict (filter is_dict (the_list (dget c ''profiles'')));
          active = (case dget c ''activeProfileId'' of PStr (x # xs) \<Rightarrow> find (\<lambda>d. dget d ''id'' = PStr (x # xs)) profiles | _ \<Rightarrow> None);
          selected = (case active of Some d \<Rightarrow> d | None \<Rightarrow> (case profiles of d # _ \<Rightarrow> d | [] \<Rightarrow> []))
      in dupdate (without_profiles c) (without_profiles selected))"

definition dashed :: "string \<Rightarrow> string" where
  "dashed s = replace_char (CHR ''_'') (CHR ''-'') (lower (strip s))"

definition provider_trace_api_format :: "pdict \<Rightarrow> string" where
  "provider_trace_api_format c =
     (let raw = por (por (dget c ''apiFormat'') (dget c ''api_format'')) (dget c ''providerApiFormat'');
          mode = dashed (py_str (por (por (dget c ''mode'') (dget c ''providerMode'')) (PStr '''')));
          normalized = dashed (py_str (por raw (PStr ''openai-chat'')))
      in if raw = PNone \<and> mode \<in> {''anthropic'', ''anthropic-messages''} then ''anthropic-messages''
         else if normalized \<in> {''chat-completions'', ''custom-openai-compatible''} then ''openai-chat''
         else if normalized \<in> {''openai-chat'', ''openai-responses'', ''anthropic-messages''} then normalized
         else ''openai-chat'')"

definition stream_flag_of :: "pv \<Rightarrow> bool option" where
  "stream_flag_of v =
     (case v of
        PBool b \<Rightarrow> Some b
      | PStr s \<Rightarrow> (let t = lower (strip s) in
          if t \<in> {''true'', ''1'', ''yes'', ''on''} then Some True
          else if t \<in> {''false'', ''0'', ''no'', ''off''} then Some False else None)
      | _ \<Rightarrow> None)"

definition provider_stream_flag :: "pdict \<Rightarrow> bool option" where
  "provider_stream_flag c =
     (case List.map_filter (\<lambda>k. stream_flag_of (dget c k)) [''streamingEnabled'', ''streamResponses'', ''stream''] of
        b # _ \<Rightarrow> Some b | [] \<Rightarrow> None)"

definition streaming_modes :: "string list" where
  "streaming_modes =
     [''openai'', ''openai-compatible'', ''openai_compatible'', ''openai-compatible-chat'', ''anthropic'', ''anthropic-messages'',
      ''anthropic_messages'']"

definition should_stream_provider :: "bool \<Rightarrow> pdict \<Rightarrow> bool" where
  "should_stream_provider has_stream ctx =
     (has_stream \<and>
      (case dget (the_dict (dget ctx ''config'')) ''provider'' of
         PDict p \<Rightarrow>
           (let c = provider_trace_provider_config p in
            provider_trace_api_format c \<in> {''openai-chat'', ''openai-responses'', ''anthropic-messages''} \<and>
            (case provider_stream_flag c of
               Some b \<Rightarrow> b
             | None \<Rightarrow> lower (strip (py_str (por (por (dget c ''mode'') (dget c ''providerMode'')) (PStr '''')))) \<in> set streaming_modes))
       | _ \<Rightarrow> False))"

section \<open>Requests\<close>

datatype stream_event = ContentDelta string | FinalResponse pv | OtherEvent

record provider_error =
  pe_text :: string
  pe_adapter :: bool  \<comment> \<open>raised by the adapter of the provider\<close>

record stream_run =
  sr_events :: "stream_event list"
  sr_error :: "provider_error option"  \<comment> \<open>raised after the events\<close>

datatype turn_request = StreamRequest "pdict list" | GenerateRequest "pdict list"

record provider_world =
  pw_stream :: "nat \<Rightarrow> pdict list \<Rightarrow> stream_run"
  pw_generate :: "nat \<Rightarrow> pdict list \<Rightarrow> provider_error + pdict"
  pw_has_stream :: bool
  pw_has_generate :: bool
  pw_cancelled :: "nat \<Rightarrow> bool"  \<comment> \<open>whether the task is cancelled after so many requests\<close>

definition occurs_often :: "nat \<Rightarrow> 'a list \<Rightarrow> bool" where
  "occurs_often n xs \<longleftrightarrow> list_ex (\<lambda>x. n \<le> length (filter (\<lambda>y. y = x) xs)) xs"

definition detect_stream_repetition :: "string list \<Rightarrow> bool" where
  \<comment> \<open>a chunk of 40 characters, one starting every 20, three times among the last 4000\<close>
  "detect_stream_repetition parts =
     (let chars = utf8_chars (concat parts);
          tail = drop (length chars - 4000) chars;
          chunks = map (\<lambda>i. take 40 (drop (20 * i) tail)) [0..<(length tail - 20) div 20]
      in 3 \<le> length parts \<and> 120 \<le> length chars \<and> occurs_often 3 (filter (\<lambda>c. strip (concat c) \<noteq> '''') chunks))"

fun consume_stream :: "string list \<Rightarrow> pdict option \<Rightarrow> stream_event list \<Rightarrow> string list \<times> pdict option \<times> bool" where
  \<comment> \<open>the texts, the final response, and whether a repetition ended the stream\<close>
  "consume_stream parts final [] = (parts, final, False)"
| "consume_stream parts final (ContentDelta d # es) =
     (if d = '''' then consume_stream parts final es
      else if detect_stream_repetition (parts @ [d]) then (parts @ [d], final, True)
      else consume_stream (parts @ [d]) final es)"
| "consume_stream parts final (FinalResponse v # es) =
     consume_stream parts (case v of PDict d \<Rightarrow> Some d | _ \<Rightarrow> final) es"
| "consume_stream parts final (OtherEvent # es) = consume_stream parts final es"

definition cancelled_error :: provider_error where
  "cancelled_error = \<lparr>pe_text = ''Task was cancelled.'', pe_adapter = False\<rparr>"

definition generate_response ::
  "provider_world \<Rightarrow> pdict list \<Rightarrow> turn_request list \<Rightarrow> (provider_error + pdict) \<times> turn_request list" where
  "generate_response w messages done = (pw_generate w (length done) messages, done @ [GenerateRequest messages])"

definition request_non_streaming ::
  "provider_world \<Rightarrow> bool \<Rightarrow> pdict list \<Rightarrow> turn_request list \<Rightarrow> (provider_error + pdict) \<times> turn_request list" where
  \<comment> \<open>the request, and the one retry of \<open>recovery_retry\<close>\<close>
  "request_non_streaming w fallback messages done =
     (let transport = dput ''_response_transport'' (PStr (if fallback then ''fallback_non_stream'' else ''non_stream''))
      in case generate_response w messages done of
        (Inr r, done') \<Rightarrow> (Inr (transport r), done')
      | (Inl e, done') \<Rightarrow>
          (let f = classify_provider_failure (pe_text e);
               d = provider_failure_recovery_decision (pw_has_generate w) f False False False
           in if provider_recovery_should_retry f (rd_strategy d) False
              then (case generate_response w (provider_recovery_retry_messages f (rd_strategy d) messages) done' of
                (Inr r, done'') \<Rightarrow> (Inr (transport r), done'')
              | (Inl e', done'') \<Rightarrow> (Inl e', done''))
              else (Inl e, done')))"

definition stream_response :: "string list \<Rightarrow> pdict \<Rightarrow> provider_error + pdict" where
  \<comment> \<open>without the prompt and the context it repeats; a content that is no text raises unless there are calls\<close>
  "stream_response parts final =
     (let assistant = dget_or final ''message'' (PDict []); calls = por (dget (the_dict assistant) ''tool_calls'') (PList []);
          message = dget_or (the_dict assistant) ''content'' (PStr '''');
          answer = (if strip (the_str message) = '''' \<and> parts \<noteq> [] then PStr (concat parts) else message)
      in if \<not> is_dict assistant then Inl \<lparr>pe_text = ''Provider stream returned invalid final response.'', pe_adapter = False\<rparr>
         else if \<not> truthy calls \<and> \<not> is_str message then Inl \<lparr>pe_text = ''strip'', pe_adapter = False\<rparr>
         else Inr ([(''message'', message), (''assistant_message'', assistant), (''tool_calls'', calls),
           (''finish_reason'', dget final ''finish_reason''), (''raw'', dget_or final ''raw'' (PDict [])),
           (''_streamed_content'', PBool (parts \<noteq> [])), (''_response_transport'', PStr ''stream'')] @
           (if truthy calls then [] else [(''final'', answer), (''final_answer'', answer)])))"

definition finish_stream ::
  "provider_world \<Rightarrow> pdict list \<Rightarrow> string list \<Rightarrow> pdict option \<Rightarrow> turn_request list \<Rightarrow>
   (provider_error + pdict) \<times> turn_request list" where
  "finish_stream w messages parts final done =
     (case final of
        Some r \<Rightarrow> (stream_response parts r, done)
      | None \<Rightarrow>
          if pw_has_generate w then request_non_streaming w True messages done
          else (Inl \<lparr>pe_text = ''Provider stream ended without a final response.'', pe_adapter = False\<rparr>, done))"

fun request_streaming ::
  "provider_world \<Rightarrow> nat \<Rightarrow> pdict list \<Rightarrow> turn_request list \<Rightarrow> (provider_error + pdict) \<times> turn_request list" where
  \<comment> \<open>with the number of retries left\<close>
  "request_streaming w retries messages done =
     (let run = pw_stream w (length done) messages;
          done' = done @ [StreamRequest messages];
          (parts, final, stopped) = consume_stream [] None (sr_events run);
          partial = (parts \<noteq> [] \<or> (case final of Some r \<Rightarrow> r \<noteq> [] | None \<Rightarrow> False))
      in if pw_cancelled w (length done') then (Inl (case (stopped, sr_error run) of (False, Some e) \<Rightarrow> e | _ \<Rightarrow> cancelled_error), done')
         else case (stopped, sr_error run) of
           (False, Some e) \<Rightarrow>
             (let f = classify_provider_failure (pe_text e);
                  strategy = rd_strategy (provider_failure_recovery_decision (pw_has_generate w) f True False partial);
                  again = pe_adapter e \<and> provider_recovery_should_retry f strategy partial;
                  messages' = (if strategy = ''compact_or_split_context'' then provider_recovery_retry_messages f strategy messages else messages)
              in if strategy = ''fallback'' \<and> pw_has_generate w \<and> can_fallback_to_non_stream f partial
                 then request_non_streaming w True messages done'
                 else case retries of
                   Suc n \<Rightarrow> if again then request_streaming w n messages' done' else (Inl e, done')
                 | 0 \<Rightarrow> (Inl e, done'))
         | _ \<Rightarrow> finish_stream w messages parts final done')"

declare request_streaming.simps [simp del]

definition request_provider_response ::
  "provider_world \<Rightarrow> pdict \<Rightarrow> pdict list \<Rightarrow> (provider_error + pdict) \<times> turn_request list" where
  \<comment> \<open>the response or the error, and the requests made\<close>
  "request_provider_response w ctx messages =
     (if should_stream_provider (pw_has_stream w) ctx then request_streaming w 1 messages []
      else request_non_streaming w False messages [])"

section \<open>Which failures are retried\<close>

lemma failure_decision_sel [simp]:
  "pf_category (failure_decision c st rt rc a r m) = c" "pf_retryable (failure_decision c st rt rc a r m) = rt"
  "pf_recoverable (failure_decision c st rt rc a r m) = rc"
  by (simp_all add: failure_decision_def Let_def)

definition failure_table :: "(string \<times> bool \<times> bool) list" where
  \<comment> \<open>category, retryable, recoverable\<close>
  "failure_table =
     [(''auth'', False, False), (''rate_limit'', True, True), (''timeout'', True, True), (''context_too_large'', False, True),
      (''refusal'', False, False), (''server_error'', True, True), (''network'', True, True), (''unsupported_format'', False, True),
      (''request_validation'', False, True), (''invalid_response'', True, True), (''unknown'', False, False)]"

lemma classified_in_table:
  "(pf_category (classify_provider_failure s), pf_retryable (classify_provider_failure s), pf_recoverable (classify_provider_failure s))
    \<in> set failure_table"
  unfolding classify_provider_failure_def Let_def by (simp add: failure_table_def)

definition retried :: "bool \<Rightarrow> string \<Rightarrow> bool \<Rightarrow> bool \<Rightarrow> bool" where
  "retried has_generate category stream partial =
     (category = ''context_too_large'' \<or>
      (partial \<and> (if stream \<and> has_generate then category = ''rate_limit''
        else category \<in> {''timeout'', ''rate_limit'', ''network'', ''server_error''})))"

lemma retried_table:
  assumes "(pf_category f, pf_retryable f, pf_recoverable f) \<in> set failure_table"
  shows "(rd_strategy (provider_failure_recovery_decision g f stream b partial) \<noteq> ''fallback'' \<and>
     provider_recovery_should_retry f (rd_strategy (provider_failure_recovery_decision g f stream b partial)) partial) =
    retried g (pf_category f) stream partial"
  using assms unfolding failure_table_def set_simps
  by (elim insertE emptyE)
    (simp_all add: provider_failure_recovery_decision_def provider_recovery_strategy_def provider_recovery_should_retry_def
      can_fallback_to_non_stream_def transient_categories_def retried_def Let_def)

lemma fallback_table:
  assumes "(pf_category f, pf_retryable f, pf_recoverable f) \<in> set failure_table"
  shows "rd_strategy (provider_failure_recovery_decision g f stream b partial) = ''fallback'' \<longleftrightarrow>
      stream \<and> g \<and> can_fallback_to_non_stream f partial"
  using assms unfolding failure_table_def set_simps
  by (elim insertE emptyE)
    (simp_all add: provider_failure_recovery_decision_def provider_recovery_strategy_def can_fallback_to_non_stream_def Let_def, blast+)


section \<open>How many requests, and how large\<close>

definition is_stream_request :: "turn_request \<Rightarrow> bool" where
  "is_stream_request r \<longleftrightarrow> (case r of StreamRequest _ \<Rightarrow> True | GenerateRequest _ \<Rightarrow> False)"

definition bounded_requests :: "nat \<Rightarrow> turn_request list \<Rightarrow> bool" where
  \<comment> \<open>so many streams at most, and then two other requests at most\<close>
  "bounded_requests n rs \<longleftrightarrow>
     length (takeWhile is_stream_request rs) \<le> n \<and> length (dropWhile is_stream_request rs) \<le> 2 \<and>
     list_all (\<lambda>r. \<not> is_stream_request r) (dropWhile is_stream_request rs)"

lemma non_streaming_requests:
  "\<exists>gs. snd (request_non_streaming w b ms reqs) = reqs @ gs \<and> length gs \<le> 2 \<and> list_all (\<lambda>r. \<not> is_stream_request r) gs"
  by (auto simp: request_non_streaming_def generate_response_def Let_def is_stream_request_def split: sum.splits prod.splits)

lemma finish_stream_requests:
  "\<exists>gs. snd (finish_stream w ms parts final reqs) = reqs @ gs \<and> length gs \<le> 2 \<and> list_all (\<lambda>r. \<not> is_stream_request r) gs"
  using non_streaming_requests [of w True ms reqs] by (auto simp: finish_stream_def split: option.split)

lemma streaming_step:
  obtains r where "request_streaming w n ms reqs = (r, reqs @ [StreamRequest ms])"
  | "request_streaming w n ms reqs = request_non_streaming w True ms (reqs @ [StreamRequest ms])"
  | parts final where "request_streaming w n ms reqs = finish_stream w ms parts final (reqs @ [StreamRequest ms])"
  | k ms' where "n = Suc k" "request_streaming w n ms reqs = request_streaming w k ms' (reqs @ [StreamRequest ms])"
proof -
  obtain parts final stopped where c: "consume_stream [] None (sr_events (pw_stream w (length reqs) ms)) = (parts, final, stopped)"
    by (metis prod_cases3)
  have "(\<exists>r. request_streaming w n ms reqs = (r, reqs @ [StreamRequest ms])) \<or>
      request_streaming w n ms reqs = request_non_streaming w True ms (reqs @ [StreamRequest ms]) \<or>
      request_streaming w n ms reqs = finish_stream w ms parts final (reqs @ [StreamRequest ms]) \<or>
      (\<exists>k ms'. n = Suc k \<and> request_streaming w n ms reqs = request_streaming w k ms' (reqs @ [StreamRequest ms]))"
    by (subst (1 2 3 4) request_streaming.simps) (auto simp: c Let_def split: bool.split option.split nat.split)
  then show ?thesis using that by blast
qed

lemma streaming_requests:
  "\<exists>ss gs. snd (request_streaming w n ms reqs) = reqs @ ss @ gs \<and> length ss \<le> Suc n \<and> list_all is_stream_request ss \<and>
     length gs \<le> 2 \<and> list_all (\<lambda>r. \<not> is_stream_request r) gs"
proof (induction n arbitrary: ms reqs rule: less_induct)
  case (less n)
  let ?s = "StreamRequest ms"
  have s: "is_stream_request ?s" by (simp add: is_stream_request_def)
  have one: ?case if "snd (request_streaming w n ms reqs) = (reqs @ [?s]) @ gs" "length gs \<le> 2" "list_all (\<lambda>r. \<not> is_stream_request r) gs"
    for gs using that s by (intro exI [of _ "[?s]"] exI [of _ gs]) simp
  show ?case
  proof (rule streaming_step [of w n ms reqs])
    fix r assume "request_streaming w n ms reqs = (r, reqs @ [?s])"
    then show ?case using one [of "[]"] by simp
  next
    assume "request_streaming w n ms reqs = request_non_streaming w True ms (reqs @ [?s])"
    then show ?case using one non_streaming_requests [of w True ms "reqs @ [?s]"] by metis
  next
    fix parts final assume "request_streaming w n ms reqs = finish_stream w ms parts final (reqs @ [?s])"
    then show ?case using one finish_stream_requests [of w ms parts final "reqs @ [?s]"] by metis
  next
    fix k ms' assume k: "n = Suc k" "request_streaming w n ms reqs = request_streaming w k ms' (reqs @ [?s])"
    obtain ss gs where "snd (request_streaming w k ms' (reqs @ [?s])) = (reqs @ [?s]) @ ss @ gs" "length ss \<le> Suc k"
      "list_all is_stream_request ss" "length gs \<le> 2" "list_all (\<lambda>r. \<not> is_stream_request r) gs"
      using less [of k ms' "reqs @ [?s]"] k(1) by blast
    then show ?case using k s by (intro exI [of _ "?s # ss"] exI [of _ gs]) simp
  qed
qed

text \<open>
  C31. A turn asks the provider a bounded number of times, whatever the provider does: at most two streams,
  and then at most two requests that do not stream.
\<close>

theorem requests_bounded: "bounded_requests 2 (snd (request_provider_response w ctx ms))"
proof -
  have "\<exists>ss gs. snd (request_provider_response w ctx ms) = ss @ gs \<and> length ss \<le> 2 \<and> list_all is_stream_request ss \<and>
      length gs \<le> 2 \<and> list_all (\<lambda>r. \<not> is_stream_request r) gs"
    using streaming_requests [of w 1 ms "[]"] non_streaming_requests [of w False ms "[]"]
    by (cases "should_stream_provider (pw_has_stream w) ctx") (fastforce simp: request_provider_response_def)+
  then obtain ss gs where r: "snd (request_provider_response w ctx ms) = ss @ gs" "length ss \<le> 2" "list_all is_stream_request ss"
    "length gs \<le> 2" "list_all (\<lambda>r. \<not> is_stream_request r) gs"
    by blast
  then have "takeWhile is_stream_request (ss @ gs) = ss" "dropWhile is_stream_request (ss @ gs) = gs"
    by (cases gs; auto simp: list_all_iff takeWhile_append2 dropWhile_append2)+
  then show ?thesis using r by (simp add: bounded_requests_def)
qed

definition short_content :: "pdict \<Rightarrow> bool" where
  "short_content m \<longleftrightarrow> (case dget m ''content'' of PStr s \<Rightarrow> ulen s \<le> 6044 | _ \<Rightarrow> True)"

lemma ulen_udrop: "ulen (udrop n s) \<le> ulen s - n"
proof -
  have "ulen (concat cs) \<le> length cs" if "\<forall>c\<in>set cs. ulen c \<le> 1" for cs
    using that
  proof (induction cs)
    case Nil
    then show ?case by (simp add: ulen_def)
  next
    case (Cons c cs)
    then show ?case using ulen_append [of c "concat cs"] by force
  qed
  moreover have "\<forall>c\<in>set (utf8_chars s). ulen c \<le> 1"
  proof (induction s rule: utf8_chars.induct)
    case (2 c cs)
    have "dropWhile cont_byte (takeWhile cont_byte cs) = []" by (auto simp: dropWhile_eq_Nil_conv dest: set_takeWhileD)
    then have "ulen (c # takeWhile cont_byte cs) \<le> 1" by (simp add: ulen_def del: dropWhile_eq_Nil_conv)
    then show ?case using 2 by simp
  qed simp
  ultimately show ?thesis using set_drop_subset [of n "utf8_chars s"] by (fastforce simp: udrop_def ulen_def [of s])
qed

lemma trimmed_short: "short_content (provider_recovery_trim_message m)"
proof (cases "dget m ''content''")
  case (PStr s)
  have "short_content (provider_recovery_trim_message m)" if mid: "mid = ''...[provider recovery compacted middle]...''" for mid
  proof -
    let ?t = "utake 3000 s @ CHR 0x0A # mid @ CHR 0x0A # udrop (ulen s - 3000) s"
    have "provider_recovery_trim_message m = (if 6000 < ulen s then dput ''content'' (PStr ?t) m else m)"
      by (simp only: provider_recovery_trim_message_def PStr pv.case mid)
    moreover have "ulen mid = 42" by (simp add: mid ulen_ascii cont_byte_def)
    then have "ulen ?t \<le> 6044"
      using ulen_append [of "utake 3000 s" "[CHR 0x0A] @ mid @ [CHR 0x0A] @ udrop (ulen s - 3000) s"]
        ulen_append [of "[CHR 0x0A]" "mid @ [CHR 0x0A] @ udrop (ulen s - 3000) s"]
        ulen_append [of mid "[CHR 0x0A] @ udrop (ulen s - 3000) s"] ulen_append [of "[CHR 0x0A]" "udrop (ulen s - 3000) s"]
        ulen_utake [of 3000 s] ulen_udrop [of "ulen s - 3000" s] ulen_ascii [of "[CHR 0x0A]"]
      by (simp add: cont_byte_def) arith
    moreover have "ulen s \<le> 6044" if "\<not> 6000 < ulen s" using that by linarith
    ultimately show ?thesis
      by (cases "6000 < ulen s") (simp_all only: short_content_def dget_dput PStr if_True if_False pv.case simp_thms)
  qed
  then show ?thesis by blast
qed (simp_all add: provider_recovery_trim_message_def short_content_def)

lemma split_instructions_length: "length (fst (split_instructions n ms)) \<le> n"
  by (induction n ms rule: split_instructions.induct) (auto simp: Let_def split_def)

lemma split_instructions_set: "set (fst (split_instructions n ms)) \<union> set (snd (split_instructions n ms)) = set ms"
proof (induction n ms rule: split_instructions.induct)
  case (2 n m ms)
  then show ?case by (cases "0 < n \<and> instructs m") (auto simp: Let_def split_def)
qed simp

lemma shortened_short:
  assumes "ulen s \<le> 6044"
  shows "length (shortened k s ms) \<le> k + 3 \<and> list_all short_content (shortened k s ms)"
proof -
  let ?s = "split_instructions 2 (map provider_recovery_trim_message ms)"
  have n: "short_content (notice s)" using assms by (simp add: short_content_def notice_def dget_def)
  have m: "short_content m" if "m \<in> set (fst ?s) \<union> set (snd ?s)" for m
    using that trimmed_short unfolding split_instructions_set by auto
  have "list_all short_content (shortened k s ms)"
    using n m set_drop_subset [of "length (snd ?s) - k" "snd ?s"] by (auto simp: shortened_def split_def Let_def list_all_iff)
  moreover have "length (shortened k s ms) \<le> k + 3"
    using split_instructions_length [of 2 "map provider_recovery_trim_message ms"] by (simp add: shortened_def split_def Let_def)
  ultimately show ?thesis by blast
qed

lemma recovery_notice_short:
  "ulen (''A previous provider request failed with '' @ pf_category (classify_provider_failure t) @
     ''. Continue from the recent context below; ask for missing details only if required.'') \<le> 6044"
proof -
  have "pf_category (classify_provider_failure t) \<in> fst ` set failure_table"
    using classified_in_table [of t] by force
  then show ?thesis unfolding failure_table_def by (auto simp: ulen_ascii cont_byte_def)
qed

text \<open>
  The request that follows a failure, and the one that replaces a request over the limit, are small: at
  most 9 and 11 messages, whose texts have at most 6044 characters.
\<close>

theorem shortened_requests:
  "length (provider_preflight_compact_messages ms) \<le> 11 \<and> list_all short_content (provider_preflight_compact_messages ms) \<and>
   length (provider_recovery_compact_messages (classify_provider_failure t) ms) \<le> 9 \<and>
   list_all short_content (provider_recovery_compact_messages (classify_provider_failure t) ms)"
proof -
  have "ulen (''Provider preflight compacted the request context before the model call. '' @
      ''Continue from the recent context below; ask for missing details only if required.'') \<le> 6044"
    by (simp add: ulen_ascii cont_byte_def)
  then show ?thesis
    using shortened_short [of _ 8 ms] shortened_short [OF recovery_notice_short, of 6 t ms]
    unfolding provider_preflight_compact_messages_def provider_recovery_compact_messages_def by fastforce
qed

section \<open>What a turn gets wrong\<close>

definition dashes :: string where
  "dashes = replicate 40 (CHR ''-'')"

definition dashed_stream :: "pdict \<Rightarrow> stream_run" where
  \<comment> \<open>a horizontal rule of 120 characters, and the final response\<close>
  "dashed_stream r =
     \<lparr>sr_events = [ContentDelta dashes, ContentDelta dashes, ContentDelta dashes, FinalResponse (PDict r)], sr_error = None\<rparr>"

lemma dashes_repeat:
  "detect_stream_repetition [dashes, dashes, dashes]" "\<not> detect_stream_repetition [dashes]" "\<not> detect_stream_repetition [dashes, dashes]"
  by code_simp+

lemma dashed_consumed: "consume_stream [] None (sr_events (dashed_stream r)) = ([dashes, dashes, dashes], None, True)"
proof -
  have "dashes \<noteq> ''''" by (simp add: dashes_def)
  then show ?thesis by (simp add: dashed_stream_def dashes_repeat)
qed

definition paired_messages :: "pdict list" where
  "paired_messages = [call_message ''c'', result_message ''c''] @ map (\<lambda>c. user_message [c]) ''abcdefg''"

lemma paired_untrimmed: "map provider_recovery_trim_message paired_messages = paired_messages"
  by (simp add: paired_messages_def user_message_def call_message_def result_message_def provider_recovery_trim_message_def
      dget_def ulen_ascii cont_byte_def)

lemma paired_shortened: "orphan_ids (provider_preflight_compact_messages paired_messages) = [''c'']"
proof -
  have "split_instructions 2 paired_messages = ([], paired_messages)" by code_simp
  moreover have "orphan_ids (notice s # drop 1 paired_messages) = orphan_ids (drop 1 paired_messages)" for s
    by (simp add: orphan_ids_def map_filter_def assistant_tool_call_ids_def notice_def tool_result_id_def message_tool_call_ids_def dget_def)
  moreover have "orphan_ids (drop 1 paired_messages) = [''c'']" "length paired_messages = 9" by code_simp+
  ultimately show ?thesis by (simp add: provider_preflight_compact_messages_def shortened_def paired_untrimmed)
qed


section \<open>The attempts of the adapter\<close>

definition provider_retry_attempts :: nat where
  "provider_retry_attempts = 2"

definition is_retryable_provider_error :: "provider_error \<Rightarrow> bool" where
  "is_retryable_provider_error e \<longleftrightarrow> pf_retryable (classify_provider_failure (pe_text e))"

fun chat_attempts ::
  "(nat \<Rightarrow> provider_error + pdict) \<Rightarrow> (provider_error + pdict) \<Rightarrow> bool \<Rightarrow> nat \<Rightarrow> nat \<Rightarrow> (provider_error + pdict) \<times> nat" where
  \<comment> \<open>the loop of \<open>chat\<close> with the attempts left: the client, what streaming instead gives, whether the format is
    \<open>openai-responses\<close>; the number of attempts made is returned too\<close>
  "chat_attempts client streamed responses 0 i = (Inl \<lparr>pe_text = ''Provider request failed before a response was returned.'', pe_adapter = True\<rparr>, i)"
| "chat_attempts client streamed responses (Suc n) i =
     (case client i of
        Inr r \<Rightarrow> (Inr r, Suc i)
      | Inl e \<Rightarrow>
          if \<not> pe_adapter e then (Inl e, Suc i)
          else if responses \<and> pf_category (classify_provider_failure (pe_text e)) = ''invalid_response'' then (streamed, Suc i)
          else if n = 0 \<or> \<not> is_retryable_provider_error e then (Inl e, Suc i)
          else chat_attempts client streamed responses n (Suc i))"

fun stream_attempts :: "(nat \<Rightarrow> stream_run) \<Rightarrow> nat \<Rightarrow> nat \<Rightarrow> stream_run \<times> nat" where
  \<comment> \<open>the loop of \<open>chat_stream\<close>: an attempt that emitted an event is not repeated\<close>
  "stream_attempts client 0 i =
     (\<lparr>sr_events = [], sr_error = Some \<lparr>pe_text = ''Provider stream failed before a response was returned.'', pe_adapter = True\<rparr>\<rparr>, i)"
| "stream_attempts client (Suc n) i =
     (case sr_error (client i) of
        None \<Rightarrow> (client i, Suc i)
      | Some e \<Rightarrow>
          if \<not> pe_adapter e \<or> sr_events (client i) \<noteq> [] \<or> n = 0 \<or> \<not> is_retryable_provider_error e then (client i, Suc i)
          else stream_attempts client n (Suc i))"

definition adapter_chat :: "(nat \<Rightarrow> provider_error + pdict) \<Rightarrow> (provider_error + pdict) \<Rightarrow> bool \<Rightarrow> (provider_error + pdict) \<times> nat" where
  "adapter_chat client streamed responses = chat_attempts client streamed responses provider_retry_attempts 0"

definition adapter_stream :: "(nat \<Rightarrow> stream_run) \<Rightarrow> stream_run \<times> nat" where
  "adapter_stream client = stream_attempts client provider_retry_attempts 0"

text \<open>
  A failure is tried once more when it is retryable and, for a stream, nothing was emitted: what the client
  gives the second time is final. In particular a refused connection is not tried again.
\<close>

theorem adapter_attempts:
  "adapter_chat client streamed False =
     (case client 0 of
        Inr r \<Rightarrow> (Inr r, 1)
      | Inl e \<Rightarrow> if pe_adapter e \<and> is_retryable_provider_error e then (client 1, 2) else (Inl e, 1)) \<and>
   adapter_stream runs =
     (case sr_error (runs 0) of
        None \<Rightarrow> (runs 0, 1)
      | Some e \<Rightarrow>
          if pe_adapter e \<and> sr_events (runs 0) = [] \<and> is_retryable_provider_error e then (runs 1, 2) else (runs 0, 1)) \<and>
   is_retryable_provider_error \<lparr>pe_text = ''connection refused'', pe_adapter = True\<rparr> = False"
proof (intro conjI)
  show "is_retryable_provider_error \<lparr>pe_text = ''connection refused'', pe_adapter = True\<rparr> = False" by code_simp
qed (auto simp: adapter_chat_def adapter_stream_def provider_retry_attempts_def numeral_2_eq_2 split: sum.split option.split)

end
