(* ===== verification/CancelTokens.thy ===== *)
theory CancelTokens
  imports Prelude
begin

text \<open>
  Cancel tokens (\<open>execution/cancel_token.py\<close>): a forest of tokens in the order of their creation, each
  with its reason, the reasons it accepts and the children registered with it. One operation runs at a
  time, and a token is held while it is used; waiting and its futures are left out.
\<close>

section \<open>Tokens\<close>

record token =
  tk_reason :: "string option"
  tk_filter :: "string list option"
  tk_children :: "nat list"

definition fresh_token :: "string list option \<Rightarrow> token" where
  "fresh_token reason_filter = \<lparr>tk_reason = None, tk_filter = reason_filter, tk_children = []\<rparr>"

definition accepts_reason :: "token \<Rightarrow> string \<Rightarrow> bool" where
  "accepts_reason t r \<longleftrightarrow> (case tk_filter t of None \<Rightarrow> True | Some rs \<Rightarrow> r \<in> set rs)"

definition cancelled :: "token list \<Rightarrow> nat \<Rightarrow> bool" where
  "cancelled ts i \<longleftrightarrow> tk_reason (ts ! i) \<noteq> None"

definition accepting_children :: "token list \<Rightarrow> string \<Rightarrow> nat \<Rightarrow> nat list" where
  "accepting_children ts r i = filter (\<lambda>j. j < length ts \<and> accepts_reason (ts ! j) r) (tk_children (ts ! i))"

definition mark :: "nat \<Rightarrow> string \<Rightarrow> token list \<Rightarrow> token list" where
  "mark i r ts = ts[i := (ts ! i)\<lparr>tk_reason := Some r\<rparr>]"

definition open_tokens :: "token list \<Rightarrow> nat" where
  "open_tokens ts = length (filter (\<lambda>t. tk_reason t = None) ts)"

lemma open_tokens_mark:
  assumes "i < length ts" "\<not> cancelled ts i"
  shows "open_tokens (mark i r ts) < open_tokens ts"
proof -
  have ts: "ts = take i ts @ ts ! i # drop (Suc i) ts" using assms(1) by (rule id_take_nth_drop)
  have "open_tokens (mark i r ts) = length (filter (\<lambda>t. tk_reason t = None) (take i ts)) + length (filter (\<lambda>t. tk_reason t = None) (drop (Suc i) ts))"
    using assms by (simp add: open_tokens_def mark_def upd_conv_take_nth_drop)
  moreover have "open_tokens ts = length (filter (\<lambda>t. tk_reason t = None) (take i ts)) + Suc (length (filter (\<lambda>t. tk_reason t = None) (drop (Suc i) ts)))"
    using assms(2) by (subst ts) (simp add: open_tokens_def cancelled_def)
  ultimately show ?thesis by simp
qed

function cancel_all :: "string \<Rightarrow> nat list \<Rightarrow> token list \<Rightarrow> token list" where
  \<comment> \<open>the calls of \<open>cancel\<close> still to be made, in order; a token cancelled before returns at once\<close>
  "cancel_all r [] ts = ts"
| "cancel_all r (i # todo) ts =
     (if length ts \<le> i \<or> cancelled ts i then cancel_all r todo ts
      else cancel_all r (accepting_children ts r i @ todo) (mark i r ts))"
  by pat_completeness auto
termination
  by (relation "measures [\<lambda>(r, todo, ts). open_tokens ts, \<lambda>(r, todo, ts). length todo]") (auto simp: open_tokens_mark)

definition cancel :: "nat \<Rightarrow> string \<Rightarrow> token list \<Rightarrow> token list" where
  "cancel i r ts = cancel_all r [i] ts"

definition create_token :: "token list \<Rightarrow> token list" where
  \<comment> \<open>a root\<close>
  "create_token ts = ts @ [fresh_token None]"

definition create_child :: "nat \<Rightarrow> string list option \<Rightarrow> token list \<Rightarrow> token list" where
  \<comment> \<open>the new token is the last; \<open>_add_child\<close> registers it unless the parent is cancelled\<close>
  "create_child p reason_filter ts =
     (let c = fresh_token reason_filter; new = length ts in
      case tk_reason (ts ! p) of
        Some r \<Rightarrow> if accepts_reason c r then cancel new r (ts @ [c]) else ts @ [c]
      | None \<Rightarrow> ts[p := (ts ! p)\<lparr>tk_children := tk_children (ts ! p) @ [new]\<rparr>] @ [c])"

definition copy_token :: "nat \<Rightarrow> token list \<Rightarrow> token list" where
  "copy_token i ts = ts @ [fresh_token None]"

definition deepcopy_token :: "nat \<Rightarrow> token list \<Rightarrow> token list" where
  "deepcopy_token i ts = ts @ [(fresh_token None)\<lparr>tk_reason := tk_reason (ts ! i)\<rparr>]"

definition check_token :: "nat \<Rightarrow> token list \<Rightarrow> string option" where
  \<comment> \<open>the error it raises\<close>
  "check_token i ts =
     (case tk_reason (ts ! i) of
        None \<Rightarrow> None
      | Some r \<Rightarrow> Some (''Operation cancelled: '' @ (if r \<noteq> '''' then r else ''unknown'')))"

section \<open>How far a cancellation reaches\<close>

inductive reached :: "token list \<Rightarrow> string \<Rightarrow> nat list \<Rightarrow> nat \<Rightarrow> bool" for ts r todo where
  start: "i \<in> set todo \<Longrightarrow> i < length ts \<Longrightarrow> \<not> cancelled ts i \<Longrightarrow> reached ts r todo i"
| child: "reached ts r todo i \<Longrightarrow> j \<in> set (accepting_children ts r i) \<Longrightarrow> \<not> cancelled ts j \<Longrightarrow> reached ts r todo j"

lemma accepting_bound: "j \<in> set (accepting_children ts r i) \<Longrightarrow> j < length ts"
  by (simp add: accepting_children_def)

lemma reached_open: "reached ts r todo i \<Longrightarrow> i < length ts \<and> \<not> cancelled ts i"
  by (induction rule: reached.induct) (auto dest: accepting_bound)

lemma reached_mono: "reached ts r todo i \<Longrightarrow> set todo \<subseteq> set todo' \<Longrightarrow> reached ts r todo' i"
  by (induction rule: reached.induct) (auto intro: reached.intros)

lemma length_mark [simp]: "length (mark i r ts) = length ts"
  by (simp add: mark_def)

lemma cancelled_mark: "j < length ts \<Longrightarrow> cancelled (mark i r ts) j \<longleftrightarrow> j = i \<or> cancelled ts j"
  by (cases "j = i") (auto simp: cancelled_def mark_def)

lemma accepting_mark: "i < length ts \<Longrightarrow> accepting_children (mark i r' ts) r k = accepting_children ts r k"
  by (auto simp: accepting_children_def mark_def accepts_reason_def nth_list_update intro!: filter_cong)

lemma reached_nil: "\<not> reached ts r [] i"
proof
  assume "reached ts r [] i"
  then show False by (induction rule: reached.induct) auto
qed

lemma reached_skip:
  assumes "length ts \<le> i \<or> cancelled ts i"
  shows "reached ts r (i # todo) j \<longleftrightarrow> reached ts r todo j"
proof
  assume "reached ts r (i # todo) j"
  then show "reached ts r todo j"
    using assms by (induction rule: reached.induct) (auto intro: reached.intros)
qed (auto intro: reached_mono)

lemma reached_mark:
  assumes i: "i < length ts" "\<not> cancelled ts i"
  shows "reached ts r (i # todo) j \<longleftrightarrow> j = i \<or> reached (mark i r ts) r (accepting_children ts r i @ todo) j"
proof
  assume "reached ts r (i # todo) j"
  then show "j = i \<or> reached (mark i r ts) r (accepting_children ts r i @ todo) j"
  proof (induction rule: reached.induct)
    case (start k)
    then show ?case using i by (auto intro!: reached.start simp: cancelled_mark)
  next
    case (child k l)
    have l: "l < length ts" using accepting_bound [OF child.hyps(2)] .
    show ?case
    proof (cases "l = i")
      case False
      then have open_l: "\<not> cancelled (mark i r ts) l" using child.hyps(3) l by (simp add: cancelled_mark)
      from child.IH show ?thesis
      proof
        assume "k = i"
        then show ?thesis using child.hyps(2) l open_l by (auto intro: reached.start)
      next
        assume "reached (mark i r ts) r (accepting_children ts r i @ todo) k"
        then show ?thesis using child.hyps(2) open_l i by (auto intro: reached.child simp: accepting_mark)
      qed
    qed simp
  qed
next
  assume "j = i \<or> reached (mark i r ts) r (accepting_children ts r i @ todo) j"
  then show "reached ts r (i # todo) j"
  proof
    assume "j = i"
    then show ?thesis using i by (auto intro: reached.start)
  next
    have s: "reached ts r (i # todo) i" using i by (auto intro: reached.start)
    assume "reached (mark i r ts) r (accepting_children ts r i @ todo) j"
    then show ?thesis
    proof (induction rule: reached.induct)
      case (start k)
      then show ?case using i s by (auto simp: cancelled_mark intro: reached.start reached.child)
    next
      case (child k l)
      then show ?case using i accepting_bound [of l ts r k] by (auto simp: cancelled_mark accepting_mark intro: reached.child)
    qed
  qed
qed

definition reason_after :: "token list \<Rightarrow> string \<Rightarrow> nat list \<Rightarrow> token list \<Rightarrow> bool" where
  \<comment> \<open>exactly the tokens reached have the reason; nothing else is different\<close>
  "reason_after ts r todo ts' \<longleftrightarrow>
     length ts' = length ts \<and>
     (\<forall>j<length ts. (reached ts r todo j \<longrightarrow> ts' ! j = (ts ! j)\<lparr>tk_reason := Some r\<rparr>) \<and> (\<not> reached ts r todo j \<longrightarrow> ts' ! j = ts ! j))"

lemma cancel_all_reaches: "reason_after ts r todo (cancel_all r todo ts)"
proof (induction r todo ts rule: cancel_all.induct)
  case (1 r ts)
  then show ?case by (simp add: reason_after_def reached_nil)
next
  case (2 r i todo ts)
  show ?case
  proof (cases "length ts \<le> i \<or> cancelled ts i")
    case True
    then show ?thesis using 2(1) [OF True] by (simp add: reason_after_def reached_skip)
  next
    case False
    then have i: "i < length ts" "\<not> cancelled ts i" by auto
    have "\<not> reached (mark i r ts) r (accepting_children ts r i @ todo) i"
      using reached_open [of "mark i r ts" r _ i] i by (auto simp: cancelled_mark)
    then show ?thesis using 2(2) [OF False] i False
      by (auto simp: reason_after_def reached_mark mark_def nth_list_update)
  qed
qed

text \<open>
  Cancelling a token gives the reason to the tokens that a path of open tokens reaches, each child
  accepting the reason, and changes nothing else; a token that was cancelled before keeps its reason.
\<close>

theorem cancel_reaches:
  "length (cancel i r ts) = length ts \<and>
   list_all (\<lambda>j. cancel i r ts ! j = (if reached ts r [i] j then (ts ! j)\<lparr>tk_reason := Some r\<rparr> else ts ! j)) [0..<length ts]"
  using cancel_all_reaches [of ts r "[i]"] by (auto simp: cancel_def reason_after_def list_all_iff)

lemma cancel_nth: "j < length ts \<Longrightarrow> cancel i r ts ! j = (if reached ts r [i] j then (ts ! j)\<lparr>tk_reason := Some r\<rparr> else ts ! j)"
  using cancel_all_reaches [of ts r "[i]"] by (auto simp: cancel_def reason_after_def)

lemma length_cancel [simp]: "length (cancel i r ts) = length ts"
  using cancel_reaches by blast

section \<open>The forest\<close>

definition forest :: "token list \<Rightarrow> bool" where
  \<comment> \<open>children come after their parent\<close>
  "forest ts \<longleftrightarrow> (\<forall>i<length ts. list_all (\<lambda>j. i < j \<and> j < length ts) (tk_children (ts ! i)))"

definition propagated :: "token list \<Rightarrow> bool" where
  \<comment> \<open>a cancelled token has cancelled the children that accept its reason\<close>
  "propagated ts \<longleftrightarrow>
     (\<forall>i<length ts. \<forall>r. tk_reason (ts ! i) = Some r \<longrightarrow> list_all (cancelled ts) (accepting_children ts r i))"

inductive token_forest :: "token list \<Rightarrow> bool" where
  "token_forest []"
| "token_forest ts \<Longrightarrow> token_forest (create_token ts)"
| "token_forest ts \<Longrightarrow> p < length ts \<Longrightarrow> token_forest (create_child p reason_filter ts)"
| "token_forest ts \<Longrightarrow> token_forest (cancel i r ts)"
| "token_forest ts \<Longrightarrow> i < length ts \<Longrightarrow> token_forest (copy_token i ts)"
| "token_forest ts \<Longrightarrow> i < length ts \<Longrightarrow> token_forest (deepcopy_token i ts)"

lemma cancel_children: "j < length ts \<Longrightarrow> tk_children (cancel i r ts ! j) = tk_children (ts ! j) \<and> tk_filter (cancel i r ts ! j) = tk_filter (ts ! j)"
  by (simp add: cancel_nth)

lemma forestD: "forest ts \<Longrightarrow> i < length ts \<Longrightarrow> j \<in> set (tk_children (ts ! i)) \<Longrightarrow> i < j \<and> j < length ts"
  unfolding forest_def list_all_iff by blast

lemma accepting_extended:
  assumes "forest ts" "i < length ts" "length ts \<le> length us" "tk_children (us ! i) = tk_children (ts ! i)"
    "\<And>j. j < length ts \<Longrightarrow> tk_filter (us ! j) = tk_filter (ts ! j)"
  shows "accepting_children us r i = accepting_children ts r i"
  unfolding accepting_children_def assms(4)
proof (rule filter_cong [OF refl])
  fix j assume "j \<in> set (tk_children (ts ! i))"
  then have "j < length ts" using forestD [OF assms(1,2)] by blast
  then show "(j < length us \<and> accepts_reason (us ! j) r) = (j < length ts \<and> accepts_reason (ts ! j) r)"
    using assms(3,5) by (simp add: accepts_reason_def)
qed

lemma forest_cancel: "forest ts \<Longrightarrow> forest (cancel i r ts)"
  by (simp add: forest_def cancel_children)

lemma forest_append: "forest ts \<Longrightarrow> tk_children t = [] \<Longrightarrow> forest (ts @ [t])"
  by (auto simp: forest_def nth_append less_Suc_eq list.pred_mono_strong)

lemma accepting_cancel: "j < length ts \<Longrightarrow> accepting_children (cancel i r ts) r' j = accepting_children ts r' j"
  by (auto simp: accepting_children_def cancel_children accepts_reason_def intro!: filter_cong)

lemma propagated_cancel:
  assumes "propagated ts"
  shows "propagated (cancel i r ts)"
  unfolding propagated_def
proof (intro allI impI)
  fix j r' assume j: "j < length (cancel i r ts)" and r': "tk_reason (cancel i r ts ! j) = Some r'"
  have keep: "cancelled (cancel i r ts) k" if "k < length ts" "cancelled ts k \<or> reached ts r [i] k" for k
    using that by (auto simp: cancelled_def cancel_nth)
  have "k < length ts \<and> (cancelled ts k \<or> reached ts r [i] k)" if k: "k \<in> set (accepting_children ts r' j)" for k
  proof (cases "reached ts r [i] j")
    case True
    then have "r' = r" using r' j by (simp add: cancel_nth)
    then show ?thesis using k True accepting_bound [OF k] reached.child [OF True] by blast
  next
    case False
    then have "tk_reason (ts ! j) = Some r'" using r' j by (simp add: cancel_nth)
    then show ?thesis using assms k j accepting_bound [OF k] by (auto simp: propagated_def list_all_iff)
  qed
  then show "list_all (cancelled (cancel i r ts)) (accepting_children (cancel i r ts) r' j)"
    using j keep by (simp add: accepting_cancel list_all_iff)
qed

lemma propagated_append:
  assumes "forest ts" "propagated ts" "tk_children t = []"
  shows "propagated (ts @ [t])"
proof -
  have "accepting_children (ts @ [t]) r i = accepting_children ts r i" if "i < length ts" for i r
    by (rule accepting_extended [OF assms(1) that]) (use that in \<open>simp_all add: nth_append\<close>)
  moreover have "cancelled (ts @ [t]) j = cancelled ts j" if "j < length ts" for j
    using that by (simp add: cancelled_def nth_append)
  moreover have "accepting_children (ts @ [t]) r (length ts) = []" for r
    using assms(3) by (simp add: accepting_children_def)
  ultimately show ?thesis
    using assms(2) accepting_bound [of _ ts] by (auto simp: propagated_def list_all_iff less_Suc_eq nth_append)
qed

lemma registered_child:
  assumes "forest ts" "propagated ts" "p < length ts" "tk_reason (ts ! p) = None" "tk_children t = []"
  shows "forest (ts[p := (ts ! p)\<lparr>tk_children := tk_children (ts ! p) @ [length ts]\<rparr>] @ [t])"
    and "propagated (ts[p := (ts ! p)\<lparr>tk_children := tk_children (ts ! p) @ [length ts]\<rparr>] @ [t])"
proof -
  let ?u = "ts[p := (ts ! p)\<lparr>tk_children := tk_children (ts ! p) @ [length ts]\<rparr>]"
  let ?ts = "?u @ [t]"
  show "forest ?ts"
    unfolding forest_def
  proof (intro allI impI)
    fix i assume i: "i < length ?ts"
    have "list_all (\<lambda>j. i < j \<and> j < length ts) (tk_children (ts ! i))" if "i < length ts"
      using assms(1) that by (simp add: forest_def)
    then have "list_all (\<lambda>j. i < j \<and> j < length ?ts) (tk_children (ts ! i))" if "i < length ts"
      using that by (auto elim: list.pred_mono_strong)
    then show "list_all (\<lambda>j. i < j \<and> j < length ?ts) (tk_children (?ts ! i))"
      using i assms(3,5) by (cases "i = length ts"; cases "i = p") (simp_all add: nth_append)
  qed
  have r: "tk_reason (?u ! i) = tk_reason (ts ! i)" "tk_filter (?u ! i) = tk_filter (ts ! i)" if "i < length ts" for i
    using assms(3) that by (cases "i = p"; simp)+
  have c: "cancelled ?ts j = cancelled ts j" if "j < length ts" for j
    using r that by (simp add: cancelled_def nth_append)
  show "propagated ?ts"
    unfolding propagated_def
  proof (intro allI impI)
    fix i r' assume i: "i < length ?ts" and r': "tk_reason (?ts ! i) = Some r'"
    show "list_all (cancelled ?ts) (accepting_children ?ts r' i)"
    proof (cases "i = length ts")
      case True
      then show ?thesis using assms(5) by (simp add: accepting_children_def nth_append)
    next
      case False
      then have l: "i < length ts" using i by simp
      then have ri: "tk_reason (ts ! i) = Some r'" using r' r(1) by (simp add: nth_append)
      then have "i \<noteq> p" using assms(4) by auto
      then have "accepting_children ?ts r' i = accepting_children ts r' i"
        by (intro accepting_extended [OF assms(1) l]) (use l r(2) in \<open>simp_all add: nth_append\<close>)
      then show ?thesis using assms(2) l ri c accepting_bound [of _ ts r' i] by (auto simp: propagated_def list_all_iff)
    qed
  qed
qed

lemma token_forest_inv: "token_forest ts \<Longrightarrow> forest ts \<and> propagated ts"
proof (induction rule: token_forest.induct)
  case 1
  then show ?case by (simp add: forest_def propagated_def)
next
  case (3 ts p reason_filter)
  then show ?case
    using registered_child [of ts p "fresh_token reason_filter"]
    by (auto simp: create_child_def Let_def fresh_token_def forest_cancel propagated_cancel forest_append propagated_append split: option.splits)
qed (simp_all add: create_token_def copy_token_def deepcopy_token_def fresh_token_def forest_append propagated_append forest_cancel propagated_cancel)

text \<open>
  C33. However tokens were created, cancelled and copied: a cancelled token has cancelled every child that
  is registered with it and accepts its reason, and cancelling a token changes none that was created before it.
\<close>

theorem tokens_propagate:
  assumes "token_forest ts"
  shows "(\<forall>i<length ts. \<forall>r. tk_reason (ts ! i) = Some r \<longrightarrow> list_all (cancelled ts) (accepting_children ts r i)) \<and>
    (\<forall>i<length ts. \<forall>j<i. cancel i r ts ! j = ts ! j)"
proof
  show "\<forall>i<length ts. \<forall>r. tk_reason (ts ! i) = Some r \<longrightarrow> list_all (cancelled ts) (accepting_children ts r i)"
    using token_forest_inv [OF assms] by (simp add: propagated_def)
  have "j \<ge> i" if "reached ts r [i] j" for i j
    using that
  proof (induction rule: reached.induct)
    case (child k l)
    then have "k < l" using token_forest_inv [OF assms] reached_open [OF child.hyps(1)]
      by (auto simp: accepting_children_def dest: forestD)
    then show ?case using child.IH by simp
  qed simp
  then show "\<forall>i<length ts. \<forall>j<i. cancel i r ts ! j = ts ! j"
    by (metis cancel_nth less_trans not_le)
qed

definition filtered_chain :: "token list" where
  \<comment> \<open>a root, a child that only a failing sibling cancels, and a child of that\<close>
  "filtered_chain = create_child 1 None (create_child 0 (Some [''sibling_failure'']) (create_token []))"

lemma filtered_chain_forest: "token_forest filtered_chain"
proof -
  have "token_forest (create_token [])" by (intro token_forest.intros)
  moreover have "length (create_token []) = 1" by (simp add: create_token_def)
  ultimately have "token_forest (create_child 0 (Some [''sibling_failure'']) (create_token []))"
    by (simp add: token_forest.intros(3))
  moreover have "length (create_child 0 (Some [''sibling_failure'']) (create_token [])) = 2" by code_simp
  ultimately show ?thesis unfolding filtered_chain_def by (simp add: token_forest.intros(3))
qed

lemma tokens_propagate_witness:
  "token_forest filtered_chain \<and> cancel 2 ''timeout'' filtered_chain ! 1 = filtered_chain ! 1"
proof -
  have "length filtered_chain = 3" by code_simp
  then have "cancel 2 ''timeout'' filtered_chain ! 1 = filtered_chain ! 1"
    using tokens_propagate [OF filtered_chain_forest, of "''timeout''"] by simp
  with filtered_chain_forest show ?thesis by blast
qed

text \<open>
  What a cancellation does not reach. A child that does not accept the reason keeps its own children, which
  would accept it, from being cancelled; and once a token was cancelled for another reason, a child that
  waits for the interruption of the user is never cancelled. A copied token forgets that it was cancelled.
\<close>

theorem cancellation_escapes:
  "map tk_reason (cancel 0 ''user_interrupt'' filtered_chain) = [Some ''user_interrupt'', None, None] \<and>
   map tk_reason (cancel 0 ''sibling_failure'' (cancel 0 ''user_interrupt'' filtered_chain)) = [Some ''user_interrupt'', None, None] \<and>
   (map tk_reason (copy_token 0 (cancel 0 ''timeout'' (create_token []))) = [Some ''timeout'', None] \<and>
    map tk_reason (deepcopy_token 0 (cancel 0 ''timeout'' (create_token []))) = [Some ''timeout'', Some ''timeout''])"
  by (intro conjI) code_simp+

end
