(* ===== verification/Hooks.thy ===== *)
theory Hooks
  imports TextMatch
begin

text \<open>
  The hooks of a workspace: which of them an event fires, what each decides, and how the decisions are
  aggregated (\<open>services/hook_service.py\<close>, \<open>services/hook_overrides.py\<close>). A hook is a dictionary; what
  executing it records, or the exception it raises, is a parameter, as is reading JSON. Recording of
  executions is left out.
\<close>

section \<open>Overrides\<close>

record hook_overrides =
  ho_decision :: "string option"
  ho_reason :: pv
  ho_updated_input :: "pdict option"
  ho_replace_output :: "pdict option"
  ho_contexts :: "string list"
  ho_prevent_continuation :: bool
  ho_stop_reason :: pv
  ho_retry :: bool
  ho_blocking_error :: pv

definition no_overrides :: hook_overrides where
  "no_overrides =
     \<lparr>ho_decision = None, ho_reason = PNone, ho_updated_input = None, ho_replace_output = None, ho_contexts = [],
      ho_prevent_continuation = False, ho_stop_reason = PNone, ho_retry = False, ho_blocking_error = PNone\<rparr>"

definition denied :: "hook_overrides \<Rightarrow> bool" where
  "denied o1 \<longleftrightarrow> ho_decision o1 = Some ''deny''"

definition hook_allowed :: "hook_overrides \<Rightarrow> bool" where
  "hook_allowed o1 \<longleftrightarrow> ho_decision o1 = Some ''allow''"

definition merge_decision :: "hook_overrides \<Rightarrow> hook_overrides \<Rightarrow> string option \<times> pv" where
  "merge_decision a b =
     (let reason = (if ho_reason b \<noteq> PNone then ho_reason b else ho_reason a) in
      if ho_decision a = None \<and> ho_decision b \<noteq> None then (ho_decision b, reason)
      else if ho_decision b = Some ''deny'' \<and> ho_decision a \<noteq> Some ''deny'' then (Some ''deny'', reason)
      else (ho_decision a, ho_reason a))"

definition merge_dicts :: "pdict option \<Rightarrow> pdict option \<Rightarrow> pdict option" where
  "merge_dicts a b = (case b of None \<Rightarrow> a | Some e \<Rightarrow> Some (case a of None \<Rightarrow> e | Some d \<Rightarrow> dupdate d e))"

definition add_context :: "string \<Rightarrow> string list \<Rightarrow> string list" where
  "add_context c cs = (if c \<in> set cs then cs else cs @ [c])"

definition merge_overrides :: "hook_overrides \<Rightarrow> hook_overrides \<Rightarrow> hook_overrides" where
  "merge_overrides a b =
     \<lparr>ho_decision = fst (merge_decision a b), ho_reason = snd (merge_decision a b),
      ho_updated_input = merge_dicts (ho_updated_input a) (ho_updated_input b),
      ho_replace_output = merge_dicts (ho_replace_output a) (ho_replace_output b),
      ho_contexts = fold add_context (ho_contexts b) (ho_contexts a),
      ho_prevent_continuation = (ho_prevent_continuation a \<or> ho_prevent_continuation b),
      ho_stop_reason = (if ho_stop_reason b \<noteq> PNone then ho_stop_reason b else ho_stop_reason a),
      ho_retry = (ho_retry a \<or> ho_retry b),
      ho_blocking_error = (if ho_blocking_error a = PNone then ho_blocking_error b else ho_blocking_error a)\<rparr>"

section \<open>What one hook decides\<close>

definition decision_of :: "pv \<Rightarrow> string option" where
  "decision_of v = (case v of PStr s \<Rightarrow> if s \<in> {''allow'', ''deny'', ''ask''} then Some s else None | _ \<Rightarrow> None)"

definition dict_of :: "pv \<Rightarrow> pdict option" where
  "dict_of v = (case v of PDict d \<Rightarrow> Some d | _ \<Rightarrow> None)"

definition with_decision :: "pv \<Rightarrow> pv \<Rightarrow> hook_overrides \<Rightarrow> hook_overrides" where
  "with_decision decision reason h =
     (case decision_of decision of None \<Rightarrow> h | Some s \<Rightarrow> h\<lparr>ho_decision := Some s, ho_reason := reason\<rparr>)"

definition script_overrides :: "(string \<Rightarrow> pv option) \<Rightarrow> pv \<Rightarrow> hook_overrides" where
  \<comment> \<open>what the output of a script says; output that is no JSON object says nothing\<close>
  "script_overrides loads output =
     (case output of
        PStr s \<Rightarrow>
          (if \<not> starts ''{'' s then no_overrides
           else case loads s of
             Some (PDict d) \<Rightarrow>
               (with_decision (dget d ''decision'') (dget d ''reason'') no_overrides)
                 \<lparr>ho_updated_input := dict_of (dget d ''updatedInput''), ho_replace_output := dict_of (dget d ''replaceOutput''),
                  ho_prevent_continuation := truthy (dget d ''preventContinuation''), ho_retry := truthy (dget d ''retry'')\<rparr>
           | _ \<Rightarrow> no_overrides)
      | _ \<Rightarrow> no_overrides)"

definition action_type :: "pdict \<Rightarrow> pv" where
  "action_type action = dget_or action ''type'' (PStr ''audit_note'')"

definition action_overrides :: "(string \<Rightarrow> pv option) \<Rightarrow> pdict \<Rightarrow> pdict \<Rightarrow> hook_overrides" where
  "action_overrides loads exec_result action =
     (if action_type action = PStr ''policy_decision'' then with_decision (dget action ''decision'') (dget action ''reason'') no_overrides
      else if action_type action = PStr ''input_rewrite''
      then no_overrides\<lparr>ho_updated_input := (case dget action ''updatedInput'' of PDict (e # d) \<Rightarrow> Some (e # d) | _ \<Rightarrow> None)\<rparr>
      else if action_type action = PStr ''script'' then script_overrides loads (dget_or exec_result ''outputSummary'' (PStr ''''))
      else no_overrides)"

definition extract_overrides :: "(string \<Rightarrow> pv option) \<Rightarrow> pdict \<Rightarrow> pdict \<Rightarrow> hook_overrides option" where
  "extract_overrides loads exec_result action =
     (let h = action_overrides loads exec_result action;
          h = (if truthy (dget action ''preventContinuation'') then h\<lparr>ho_prevent_continuation := True\<rparr> else h);
          h = (if truthy (dget action ''blockingError'') then h\<lparr>ho_blocking_error := dget action ''blockingError''\<rparr> else h);
          h = (case dget action ''additionalContext'' of
                 PList cs \<Rightarrow> if cs = [] then h else h\<lparr>ho_contexts := map py_str (filter truthy cs)\<rparr>
               | PStr s \<Rightarrow> if s = '''' then h else h\<lparr>ho_contexts := [s]\<rparr>
               | _ \<Rightarrow> h)
      in if ho_decision h \<noteq> None \<or> ho_updated_input h \<noteq> None \<or> ho_replace_output h \<noteq> None \<or> ho_contexts h \<noteq> [] \<or>
           ho_prevent_continuation h \<or> ho_blocking_error h \<noteq> PNone \<or> ho_retry h
         then Some h else None)"

section \<open>When a hook fires\<close>

definition changed_path :: "pv \<Rightarrow> string" where
  "changed_path f = py_str (por (case f of PDict d \<Rightarrow> dget d ''path'' | _ \<Rightarrow> f) (PStr ''''))"

definition evaluate_conditions :: "pv \<Rightarrow> pdict \<Rightarrow> string" where
  \<comment> \<open>\<open>matched\<close> or the reason; the lists of the conditions are lists\<close>
  "evaluate_conditions conditions ctx =
     (let c = the_dict conditions; statuses = dget c ''taskStatus''; patterns = the_list (dget c ''changedFiles'');
          files = the_list (dget_or ctx ''changedFiles'' (PList [])); status = dget_or ctx ''taskStatus'' (PStr '''')
      in if truthy statuses \<and> \<not> py_mem status (the_list statuses)
         then ''taskStatus mismatch: '' @ py_str status @ '' not in '' @ py_str statuses
         else if patterns \<noteq> [] \<and> files = [] then ''changedFiles: no files in context''
         else if patterns \<noteq> [] \<and> \<not> list_ex (\<lambda>f. list_ex (\<lambda>p. fnmatch (changed_path f) (the_str p)) patterns) files
         then ''changedFiles: no match''
         else ''matched'')"

definition action_types :: "string list" where
  "action_types =
     [''audit_note'', ''notification'', ''run_command'', ''webhook'', ''memory_write'', ''auto_verification_suggestion'', ''external_sync'',
      ''policy_decision'', ''input_rewrite'', ''script'']"

definition execute_action :: "(pdict \<Rightarrow> string + pdict) \<Rightarrow> pdict \<Rightarrow> string + pdict" where
  \<comment> \<open>two types of action only record their intent; a type that is not known raises\<close>
  "execute_action run hook =
     (let action = the_dict (dget hook ''action'')
      in case action_type action of
        PStr t \<Rightarrow>
          if t \<in> {''policy_decision'', ''input_rewrite''} then Inr [(''status'', PStr ''completed'')]
          else if t \<in> set action_types then run hook else Inl (''Unknown action type: '' @ t)
      | v \<Rightarrow> Inl (''Unknown action type: '' @ py_str v))"

record hook_world =
  hw_run :: "pdict \<Rightarrow> string + pdict"
  hw_loads :: "string \<Rightarrow> pv option"

definition hook_applies :: "pdict \<Rightarrow> pdict \<Rightarrow> bool" where
  "hook_applies ctx hook \<longleftrightarrow>
     truthy (dget_or hook ''enabled'' (PBool True)) \<and> evaluate_conditions (dget_or hook ''conditions'' (PDict [])) ctx = ''matched''"

fun run_hooks :: "hook_world \<Rightarrow> hook_overrides \<Rightarrow> pdict list \<Rightarrow> string + hook_overrides" where
  \<comment> \<open>the hooks that apply, in order; none runs after a denial\<close>
  "run_hooks hw acc [] = Inr acc"
| "run_hooks hw acc (h # hs) =
     (if denied acc then run_hooks hw acc hs
      else case execute_action (hw_run hw) h of
        Inl e \<Rightarrow>
          if dget_or h ''onFailure'' (PStr ''warn'') \<in> {PStr ''warn'', PStr ''ignore''} then run_hooks hw acc hs else Inl e
      | Inr r \<Rightarrow>
          run_hooks hw (case extract_overrides (hw_loads hw) r (the_dict (dget h ''action'')) of None \<Rightarrow> acc | Some o1 \<Rightarrow> merge_overrides acc o1) hs)"

definition invoke_hooks :: "hook_world \<Rightarrow> pdict list \<Rightarrow> pdict \<Rightarrow> string + hook_overrides" where
  \<comment> \<open>the hooks are those the store lists for the workspace and the event\<close>
  "invoke_hooks hw hooks ctx =
     (if \<not> truthy (dget ctx ''workspaceId'') then Inr no_overrides else run_hooks hw no_overrides (filter (hook_applies ctx) hooks))"

definition fire_hooks :: "hook_world \<Rightarrow> pdict list option \<Rightarrow> pdict \<Rightarrow> hook_overrides" where
  \<comment> \<open>\<open>_fire_hooks\<close> with overrides: None stands for a missing service or session; an exception is swallowed\<close>
  "fire_hooks hw hooks ctx =
     (case hooks of None \<Rightarrow> no_overrides
      | Some hs \<Rightarrow> (case invoke_hooks hw hs ctx of Inl _ \<Rightarrow> no_overrides | Inr o1 \<Rightarrow> o1))"

section \<open>What the aggregate decides\<close>

lemma denied_merge [simp]: "denied (merge_overrides a b) \<longleftrightarrow> denied a \<or> denied b"
  by (auto simp: denied_def merge_overrides_def merge_decision_def Let_def)

lemma merge_first_decision:
  "\<not> denied b \<Longrightarrow> ho_decision (merge_overrides a b) = (if ho_decision a = None then ho_decision b else ho_decision a)"
  by (auto simp: denied_def merge_overrides_def merge_decision_def Let_def)

definition denies :: "hook_world \<Rightarrow> pdict \<Rightarrow> bool" where
  \<comment> \<open>what the hook would decide\<close>
  "denies hw h \<longleftrightarrow>
     (case execute_action (hw_run hw) h of
        Inl _ \<Rightarrow> False
      | Inr r \<Rightarrow> (case extract_overrides (hw_loads hw) r (the_dict (dget h ''action'')) of None \<Rightarrow> False | Some o1 \<Rightarrow> denied o1))"

definition harmless_hook :: "hook_world \<Rightarrow> pdict \<Rightarrow> bool" where
  \<comment> \<open>the hook does not raise, or its failure is to be ignored\<close>
  "harmless_hook hw h \<longleftrightarrow>
     dget_or h ''onFailure'' (PStr ''warn'') \<in> {PStr ''warn'', PStr ''ignore''} \<or>
     (case execute_action (hw_run hw) h of Inl _ \<Rightarrow> False | Inr _ \<Rightarrow> True)"

lemma run_hooks_denied:
  assumes "list_all (harmless_hook hw) hs"
  shows "\<exists>o1. run_hooks hw acc hs = Inr o1 \<and> (denied o1 \<longleftrightarrow> denied acc \<or> list_ex (denies hw) hs)"
  using assms
proof (induction hs arbitrary: acc)
  case (Cons h hs)
  then have IH: "\<exists>o1. run_hooks hw a hs = Inr o1 \<and> (denied o1 \<longleftrightarrow> denied a \<or> list_ex (denies hw) hs)" for a
    by simp
  show ?case
  proof (cases "execute_action (hw_run hw) h")
    case (Inl e)
    then have "\<not> denies hw h" by (simp add: denies_def)
    moreover have "dget_or h ''onFailure'' (PStr ''warn'') \<in> {PStr ''warn'', PStr ''ignore''}"
      using Cons.prems Inl by (simp add: harmless_hook_def)
    ultimately show ?thesis using IH [of acc] Inl by auto
  next
    case (Inr r)
    let ?o = "extract_overrides (hw_loads hw) r (the_dict (dget h ''action''))"
    have "denies hw h \<longleftrightarrow> (case ?o of None \<Rightarrow> False | Some o1 \<Rightarrow> denied o1)" using Inr by (simp add: denies_def)
    then show ?thesis using Inr IH [of acc] IH [of "case ?o of None \<Rightarrow> acc | Some o1 \<Rightarrow> merge_overrides acc o1"]
      by (cases "denied acc"; cases ?o) auto
  qed
qed simp

text \<open>
  C34. When no hook whose failure is to block raises, an event is denied exactly when one of the hooks that
  apply to it denies, whatever the others decide before or after.
\<close>

theorem hooks_deny_exact:
  assumes "truthy (dget ctx ''workspaceId'')" "list_all (harmless_hook hw) (filter (hook_applies ctx) hooks)"
  shows "denied (fire_hooks hw (Some hooks) ctx) = list_ex (denies hw) (filter (hook_applies ctx) hooks)"
  using run_hooks_denied [OF assms(2), of no_overrides] assms(1)
  by (auto simp: fire_hooks_def invoke_hooks_def denied_def no_overrides_def)

definition decision_hook :: "string \<Rightarrow> pdict" where
  "decision_hook d = [(''action'', PDict [(''type'', PStr ''policy_decision''), (''decision'', PStr d)])]"

definition script_hook :: pdict where
  "script_hook = [(''action'', PDict [(''type'', PStr ''script'')]), (''onFailure'', PStr ''block'')]"

definition in_workspace :: pdict where
  "in_workspace = [(''workspaceId'', PStr ''w'')]"

definition quiet_hooks :: hook_world where
  "quiet_hooks = \<lparr>hw_run = (\<lambda>_. Inr []), hw_loads = (\<lambda>_. None)\<rparr>"

lemma hooks_deny_exact_witness:
  "denied (fire_hooks quiet_hooks (Some [decision_hook ''allow'', decision_hook ''deny'']) in_workspace)"
proof -
  have "truthy (dget in_workspace ''workspaceId'')" by code_simp
  moreover have "list_all (harmless_hook quiet_hooks) (filter (hook_applies in_workspace) [decision_hook ''allow'', decision_hook ''deny''])"
    "list_ex (denies quiet_hooks) (filter (hook_applies in_workspace) [decision_hook ''allow'', decision_hook ''deny''])"
    by code_simp+
  ultimately show ?thesis using hooks_deny_exact by blast
qed

text \<open>
  What hooks escape. A hook whose failure is to block raises: everything that the hooks before it decided is
  dropped, and nothing is blocked. A script that answers with the documented key decides nothing. A denial
  without a reason keeps the reason of the permission it overrules.
\<close>

theorem hooks_escape:
  "(ho_prevent_continuation (fire_hooks (quiet_hooks\<lparr>hw_run := \<lambda>_. Inl ''raised''\<rparr>)
      (Some [[(''action'', PDict [(''type'', PStr ''input_rewrite''), (''preventContinuation'', PBool True)])], script_hook]) in_workspace) = False) \<and>
   fire_hooks (quiet_hooks\<lparr>hw_run := \<lambda>_. Inr [(''outputSummary'', PStr ''{}'')],
       hw_loads := \<lambda>_. Some (PDict [(''permissionDecision'', PStr ''deny'')])\<rparr>) (Some [script_hook]) in_workspace = no_overrides \<and>
   merge_decision (with_decision (PStr ''allow'') (PStr ''trusted'') no_overrides) (with_decision (PStr ''deny'') PNone no_overrides) =
     (Some ''deny'', PStr ''trusted'')"
  by (intro conjI) code_simp+

end
