(* ===== verification/ToolPipeline.thy ===== *)
theory ToolPipeline
  imports Hooks Workers ReactTools Compaction
begin

text \<open>
  One call of a tool, from the specification that the loop hands over to the result that goes back
  (\<open>ToolExecutionMixin\<close> in \<open>execution/tool_pipeline.py\<close>, \<open>execution/tool_recovery.py\<close>,
  \<open>normalize_agent_tool_params\<close> in \<open>tools/task.py\<close>). Parameters are the registry that executes, the service
  that dispatches subagents with what its result shows of itself, the hooks and the creation of worktrees. Texts for display,
  progress, spans and the token object among the arguments are left out.
\<close>

section \<open>Arguments\<close>

definition worktree_bound_tools :: "string list" where
  "worktree_bound_tools =
     [''list_dir'', ''search_files'', ''read_file'', ''run_command'', ''apply_patch'', ''git_status'', ''git_diff'', ''write_file'',
      ''code_search'', ''notebook'']"

definition lazy_worktree_bind_tools :: "string list" where
  "lazy_worktree_bind_tools = [''apply_patch'', ''write_file'']"

definition active_worktree_statuses :: "string list" where
  "active_worktree_statuses = [''creating'', ''active'', ''paused'', ''ready_for_review'']"

definition subagent_tool_names :: "string list" where
  "subagent_tool_names = [''agent'', ''task'']"

definition dset :: "string \<Rightarrow> pv \<Rightarrow> pdict \<Rightarrow> pdict" where
  \<comment> \<open>\<open>d.setdefault(k, v)\<close>\<close>
  "dset k v d = (if dhas d k then d else dput k v d)"

definition blank :: "pv \<Rightarrow> bool" where
  "blank v \<longleftrightarrow> strip (the_str v) = ''''"

definition tool_batch_metadata :: "pdict \<Rightarrow> pdict" where
  "tool_batch_metadata spec =
     (let texts = (\<lambda>ks f. concat (map (\<lambda>k. if blank (dget spec k) then [] else [(k, PStr (f (the_str (dget spec k))))]) ks));
          ints = (\<lambda>ks. concat (map (\<lambda>k. case dget spec k of PInt i \<Rightarrow> [(k, PInt i)] | PBool b \<Rightarrow> [(k, PBool b)] | _ \<Rightarrow> []) ks))
      in texts [''toolGroupId''] (\<lambda>s. s) @ texts [''toolOperationId'', ''toolOperationLabel''] strip @
         ints [''toolIndex'', ''toolTotal'', ''batchIndex'', ''batchSize''] @
         (case dget spec ''isConcurrencySafe'' of PBool b \<Rightarrow> [(''isConcurrencySafe'', PBool b)] | _ \<Rightarrow> []))"

definition apply_task_worktree_to_tool_arguments :: "pdict option \<Rightarrow> string \<Rightarrow> pdict \<Rightarrow> pdict" where
  \<comment> \<open>the worktree is that of the task in the store\<close>
  "apply_task_worktree_to_tool_arguments worktree name arguments =
     (case worktree of
        None \<Rightarrow> arguments
      | Some w \<Rightarrow>
          if name \<notin> set worktree_bound_tools \<or> the_str (dget w ''status'') \<notin> set active_worktree_statuses \<or> blank (dget w ''worktreePath'')
          then arguments
          else
            (let root = por (dget arguments ''workspaceRoot'') (dget arguments ''workspace_root''); path = dget w ''worktreePath'';
                 bound = (if truthy root \<and> root \<noteq> path then dput ''originalWorkspaceRoot'' root arguments else arguments);
                 bound = dput ''activeWorktreeId'' (dget w ''id'') (dput ''workspaceRoot'' path bound)
             in if name = ''run_command'' then dset ''cwd'' (PStr ''.'') bound else bound))"

definition agent_type_of :: "pdict \<Rightarrow> string" where
  \<comment> \<open>\<open>_first_text\<close> with the default \<open>explorer\<close>\<close>
  "agent_type_of d =
     (case filter (\<lambda>v. \<not> blank v) (map (dget d) [''subagent_type'', ''agent_type'', ''agentType'', ''role'']) of
        v # _ \<Rightarrow> strip (the_str v) | [] \<Rightarrow> ''explorer'')"

definition first_given :: "pdict \<Rightarrow> string list \<Rightarrow> pv" where
  "first_given d ks = (case filter (\<lambda>v. v \<noteq> PNone) (map (dget d) ks) of v # _ \<Rightarrow> v | [] \<Rightarrow> PNone)"

definition profile_of :: "pdict \<Rightarrow> pdict" where
  "profile_of d =
     dset ''source'' (PStr ''agent_tool'')
       (fold (\<lambda>(k, p) acc. if dget d k \<noteq> PNone then dput p (dget d k) acc else acc)
         [(''cwd'', ''cwd''), (''mode'', ''mode''), (''plan_mode_required'', ''planModeRequired''), (''planModeRequired'', ''planModeRequired'')]
         (the_dict (dget d ''profile'')))"

definition normalize_agent_tool_params :: "pdict \<Rightarrow> pdict" where
  "normalize_agent_tool_params params =
     (let t = PStr (agent_type_of params);
          d = dput ''subagent_type'' t (dput ''agent_type'' t (dput ''agentType'' t params));
          d = dput ''title'' (PStr (strip (py_str (por (por (dget d ''description'') (dget d ''title'')) t)))) d;
          allow = first_given d [''tool_allowlist'', ''toolAllowlist'', ''child_tool_allowlist'', ''childToolAllowlist''];
          d = (if allow \<noteq> PNone then dput ''child_tool_allowlist'' allow (dput ''childToolAllowlist'' allow d) else d);
          d = dput ''profile'' (PDict (profile_of d)) d;
          budget = the_dict (dget d ''budget'');
          budget = (if allow \<noteq> PNone then dput ''childToolAllowlist'' allow budget else budget)
      in if budget \<noteq> [] then dput ''budget'' (PDict budget) d else d)"

definition int_or_none :: "pv \<Rightarrow> int option" where
  "int_or_none v = (if v = PNone then None else case py_int v of Inl _ \<Rightarrow> None | Inr i \<Rightarrow> Some i)"

definition raise_quota :: "int \<Rightarrow> string \<Rightarrow> string \<Rightarrow> string \<Rightarrow> string \<Rightarrow> pdict \<Rightarrow> pdict" where
  \<comment> \<open>no smaller than the least, whichever of the keys are given\<close>
  "raise_quota least max_key max_alias remaining_key remaining_alias budget =
     (let given = (\<lambda>k a. int_or_none (dget_or budget k (dget budget a)));
          opt = (\<lambda>m. case m of None \<Rightarrow> [] | Some i \<Rightarrow> [i]);
          remaining = given remaining_key remaining_alias;
          effective = fold max (opt (given max_key max_alias) @ opt remaining) least
      in if list_ex (dhas budget) [max_key, max_alias, remaining_key, remaining_alias]
         then dput ''normalizedByRuntime'' (PBool True)
           (dput remaining_key (PInt (max effective (case remaining of Some i \<Rightarrow> i | None \<Rightarrow> 0))) (dput max_key (PInt effective) budget))
         else budget)"

definition normalize_subagent_budget :: "pdict \<Rightarrow> pdict" where
  "normalize_subagent_budget arguments =
     (let budget = the_dict (dget arguments ''budget'')
      in if budget = [] then arguments
         else dput ''budget'' (PDict
           (raise_quota 12 ''maxToolCalls'' ''max_tool_calls'' ''remainingToolCalls'' ''remaining_tool_calls''
             (raise_quota 16000 ''maxTokens'' ''max_tokens'' ''remainingTokens'' ''remaining_tokens'' budget))) arguments)"

section \<open>Guards of a child\<close>

definition tool_allowed_for_child :: "string list option \<Rightarrow> string \<Rightarrow> bool" where
  \<comment> \<open>otherwise \<open>_ensure_tool_allowed_for_child_worker\<close> raises\<close>
  "tool_allowed_for_child allowlist name =
     (case allowlist of None \<Rightarrow> True | Some names \<Rightarrow> name \<in> set names \<or> (starts ''mcp__'' name \<and> ''mcp__*'' \<in> set names))"

definition git_rx :: "string \<Rightarrow> rx" where
  "git_rx verb = rseq [RWordB, rlit ''git'', rplus rspace, rlit verb, RWordB]"

definition command_safe_for_child :: "string list option \<Rightarrow> pv \<Rightarrow> bool" where
  \<comment> \<open>otherwise \<open>_ensure_command_safe_for_child_worker\<close> raises\<close>
  "command_safe_for_child allowlist command =
     (case (allowlist, command) of
        (Some _, PStr s) \<Rightarrow> \<not> found_ci (git_rx ''commit'') s \<and> \<not> found_ci (git_rx ''push'') s
      | _ \<Rightarrow> True)"

section \<open>State and environment\<close>

datatype pipe_event =
    PipeRan string pdict
  | PipeDispatched pdict
  | PipeFired string
  | PipePublished string
  | PipeRecorded pdict

datatype pipe_error =
    ToolForbidden string
  | GitForbidden
  | OverBudget budget_error
  | UnboundLocal string  \<comment> \<open>a local function called before its definition\<close>
  | StatusForbidden task_error

record pipe =
  pi_trace :: "pipe_event list"
  pi_fired :: nat  \<comment> \<open>events fired so far\<close>
  pi_status :: string  \<comment> \<open>of the task, in the store and in the copy of the loop\<close>
  pi_token :: "string option"  \<comment> \<open>the reason its token was cancelled for\<close>
  pi_budget :: worker_budget
  pi_worktree :: "pdict option"  \<comment> \<open>of the task in the store\<close>

record pipeline_world =
  tw_child_allowlist :: "string list option"
  tw_new_id :: "nat \<Rightarrow> string"
  tw_hooks :: "nat \<Rightarrow> string \<Rightarrow> hook_overrides"
  tw_execute :: "nat \<Rightarrow> string \<Rightarrow> pdict \<Rightarrow> string + pdict"
  tw_dispatch :: "nat \<Rightarrow> pdict \<Rightarrow> string + pdict"
  tw_public :: "pdict \<Rightarrow> pdict"  \<comment> \<open>what leaves the boundary of a subagent\<close>
  tw_session_known :: bool
  tw_bind :: "pdict \<Rightarrow> pdict option"
  tw_routing :: pdict
  tw_task_id :: string
  tw_session_id :: string

definition log_event :: "pipe_event \<Rightarrow> pipe \<Rightarrow> pipe" where
  "log_event e st = st\<lparr>pi_trace := pi_trace st @ [e]\<rparr>"

definition fire_event :: "pipeline_world \<Rightarrow> string \<Rightarrow> pipe \<Rightarrow> hook_overrides \<times> pipe" where
  "fire_event w event st = (tw_hooks w (pi_fired st) event, (log_event (PipeFired event) st)\<lparr>pi_fired := Suc (pi_fired st)\<rparr>)"

definition honor_prevent_continuation :: "hook_overrides \<Rightarrow> string \<Rightarrow> pipe \<Rightarrow> pipe" where
  "honor_prevent_continuation h event st =
     (if \<not> ho_prevent_continuation h \<or> pi_token st \<noteq> None then st
      else st\<lparr>pi_token := Some (py_str (por (ho_stop_reason h) (PStr (''hook_prevent:'' @ event))))\<rparr>)"

section \<open>Before the tool runs\<close>

definition ensure_worktree_for_write_tool :: "pipeline_world \<Rightarrow> string \<Rightarrow> pipe \<Rightarrow> pdict option \<times> pipe" where
  \<comment> \<open>the result that replaces the execution, if any\<close>
  "ensure_worktree_for_write_tool w name st =
     (let required = (dget (tw_routing w) ''worktreeBindingRequired'' = PBool True);
          preferred = (dget (tw_routing w) ''preferredWorktree'' = PBool True);
          failure = [(''status'', PStr ''failed''), (''ok'', PBool False),
            (''error'', PStr ''Write-oriented tool requires an active worktree, but worktree binding failed.''),
            (''summary'', PStr ''Write-oriented tool requires an active worktree, but worktree binding failed.''),
            (''failureKind'', PStr ''worktree_binding_failed'')]
      in if name \<notin> set lazy_worktree_bind_tools \<or> dget (tw_routing w) ''disableWorktreeBinding'' = PBool True \<or>
           (\<not> required \<and> \<not> preferred) \<or> pi_worktree st \<noteq> None \<or> \<not> tw_session_known w
         then (None, st)
         else case tw_bind w (dput ''worktreeBindingRequired'' (PBool True) (tw_routing w)) of
           Some t \<Rightarrow> (None, st\<lparr>pi_worktree := Some t\<rparr>)
         | None \<Rightarrow> (if preferred \<and> \<not> required then None else Some failure, st))"

definition tool_call_id :: "pipeline_world \<Rightarrow> pdict \<Rightarrow> pipe \<Rightarrow> pv" where
  "tool_call_id w spec st = por (dget spec ''id'') (PStr (tw_new_id w (length (pi_trace st))))"

definition tool_arguments :: "pipeline_world \<Rightarrow> pdict \<Rightarrow> pdict \<Rightarrow> pipe \<Rightarrow> pdict" where
  "tool_arguments w spec ctx st =
     (let name = the_str (dget spec ''name'');
          a = dupdate (the_dict (dget spec ''arguments'')) [(''taskId'', PStr (tw_task_id w)), (''sessionId'', PStr (tw_session_id w))];
          a = fold (\<lambda>(k, v). dset k v) (tool_batch_metadata spec) a;
          a = (if name = ''run_command'' then dset ''toolUseId'' (tool_call_id w spec st) a else a);
          a = (if name = ''run_command'' \<and> truthy (dget spec ''parentToolUseId'')
               then dset ''parentToolUseId'' (dget spec ''parentToolUseId'') a else a);
          signals = the_list (dget ctx ''untrustedContentSignals'');
          a = (if signals \<noteq> [] then dput ''untrustedContentSignals'' (PList (filter is_dict signals)) a else a);
          a = apply_task_worktree_to_tool_arguments (pi_worktree st) name a;
          a = (if name = ''agent'' then normalize_agent_tool_params a else a)
      in if name \<in> set subagent_tool_names then normalize_subagent_budget a else a)"

definition consume_budget :: "bool \<Rightarrow> pipe \<Rightarrow> pipe_error + pipe" where
  \<comment> \<open>a call without a budget consumes nothing\<close>
  "consume_budget budgeted st =
     (if \<not> budgeted then Inr st
      else case consume_tool_call (PInt 1) (pi_budget st) of
        Inl e \<Rightarrow> Inl (OverBudget e)
      | Inr b \<Rightarrow> Inr (log_event (PipePublished ''collab.worker.budget.updated'') (st\<lparr>pi_budget := b\<rparr>)))"

definition hook_gate :: "pipeline_world \<Rightarrow> string \<Rightarrow> string list \<Rightarrow> pdict \<Rightarrow> pipe \<Rightarrow> (pipe_error + pdict) \<times> pipe" where
  \<comment> \<open>a denial publishes with \<open>tool_event_payload\<close>, which is defined further down only\<close>
  "hook_gate w event published args st =
     (let (h, st1) = fire_event w event st; st2 = honor_prevent_continuation h event st1
      in if denied h then (Inl (UnboundLocal ''tool_event_payload''), fold (\<lambda>p. log_event (PipePublished p)) published st2)
         else (Inr (case ho_updated_input h of None \<Rightarrow> args | Some d \<Rightarrow> dupdate args d), st2))"

definition hook_gates :: "pipeline_world \<Rightarrow> string \<Rightarrow> pdict \<Rightarrow> pipe \<Rightarrow> (pipe_error + pdict) \<times> pipe" where
  "hook_gates w name args st =
     (case hook_gate w ''before_tool_call'' [''tool.failure''] args st of
        (Inl e, st1) \<Rightarrow> (Inl e, st1)
      | (Inr a, st1) \<Rightarrow> if name = ''apply_patch'' then hook_gate w ''before_patch_apply'' [] a st1 else (Inr a, st1))"

section \<open>Running it\<close>

definition blocked_by_hook :: "hook_overrides \<Rightarrow> string \<Rightarrow> pdict" where
  "blocked_by_hook h message =
     [(''status'', PStr ''blocked''), (''ok'', PBool False), (''error'', por (ho_reason h) (PStr message))]"

definition raised_result :: "string \<Rightarrow> string \<Rightarrow> pdict" where
  "raised_result name e =
     [(''status'', PStr ''failed''), (''ok'', PBool False), (''error'', PStr e),
      (''summary'', PStr (''Tool '' @ name @ '' raised an exception: '' @ e))]"

definition dispatch_subagent :: "pipeline_world \<Rightarrow> string \<Rightarrow> pdict \<Rightarrow> pipe \<Rightarrow> pdict \<times> pipe" where
  "dispatch_subagent w name args st =
     (let (h, st1) = fire_event w ''before_subagent_start'' st;
          a = (case ho_updated_input h of None \<Rightarrow> args | Some d \<Rightarrow> dupdate args d)
      in if denied h then (blocked_by_hook h ''Blocked by before_subagent_start hook.'', st1)
         else (let st2 = log_event (PipeDispatched a) st1
               in case tw_dispatch w (length (pi_trace st1)) a of
                 Inl e \<Rightarrow> (raised_result name e, snd (fire_event w ''on_subagent_failed'' st2))
               | Inr r \<Rightarrow>
                   (r, snd (fire_event w (if dget r ''status'' = PStr ''failed'' then ''on_subagent_failed'' else ''after_subagent_complete'') st2))))"

definition run_tool :: "pipeline_world \<Rightarrow> string \<Rightarrow> pdict option \<Rightarrow> pdict \<Rightarrow> pipe \<Rightarrow> pdict \<times> pipe" where
  "run_tool w name binding_failure args st =
     (case binding_failure of
        Some r \<Rightarrow> (r, st)
      | None \<Rightarrow>
          if name \<in> set subagent_tool_names then dispatch_subagent w name args st
          else (case tw_execute w (length (pi_trace st)) name args of
            Inl e \<Rightarrow> (raised_result name e, log_event (PipeRan name args) st)
          | Inr r \<Rightarrow> (r, log_event (PipeRan name args) st)))"

section \<open>After it ran\<close>

datatype tool_end = Finished pdict | RetryWanted

definition annotate_failed :: "string \<Rightarrow> pdict \<Rightarrow> pdict" where
  "annotate_failed name r =
     (let f = build_tool_failure_record name r None None
      in dset ''recoveryHint'' (dget f ''recoveryHint'') (dset ''failureKind'' (dget f ''failureKind'') r))"

definition after_call :: "pipeline_world \<Rightarrow> string \<Rightarrow> pipe \<Rightarrow> hook_overrides \<times> pipe" where
  "after_call w label st = (let (h, st1) = fire_event w ''after_tool_call'' st in (h, honor_prevent_continuation h label st1))"

definition replaced :: "hook_overrides \<Rightarrow> pdict \<Rightarrow> pdict" where
  "replaced h r = (case ho_replace_output h of None \<Rightarrow> r | Some d \<Rightarrow> dupdate r d)"

definition end_subagent :: "pipeline_world \<Rightarrow> pdict \<Rightarrow> pipe \<Rightarrow> tool_end \<times> pipe" where
  "end_subagent w raw st =
     (let blocked = (dget raw ''status'' \<in> {PStr ''approval_required'', PStr ''blocked''});
          (h, st1) = after_call w ''after_tool_call(subagent)'' st;
          completed = (\<not> blocked \<and> \<not> tool_failed raw)
      in (Finished (if completed then replaced h (tw_public w raw) else tw_public w raw),
          log_event (PipePublished (if blocked then ''tool.blocked'' else if completed then ''tool.completed'' else ''tool.failed'')) st1))"

definition end_completed :: "pipeline_world \<Rightarrow> string \<Rightarrow> pdict \<Rightarrow> pipe \<Rightarrow> tool_end \<times> pipe" where
  "end_completed w name r st =
     (let writes = (name \<in> {''apply_patch'', ''write_file''});
          st = (if name = ''run_command'' \<or> writes then log_event (PipeRecorded r) st else st);
          (h, st) = after_call w
            (if name = ''run_command'' then ''after_tool_call(run_command)'' else if writes then ''after_tool_call(patch/write)''
             else ''after_tool_call(default)'') st;
          r = replaced h r; st = log_event (PipePublished ''tool.completed'') st;
          st = (if name = ''apply_patch'' then snd (fire_event w ''after_patch_apply'' st)
                else if name = ''memory.remember'' \<and> truthy (dget_or r ''ok'' (PBool True)) then snd (fire_event w ''on_memory_write'' st)
                else st)
      in (Finished r, st))"

definition end_failed :: "pipeline_world \<Rightarrow> string \<Rightarrow> pdict \<Rightarrow> pipe \<Rightarrow> tool_end \<times> pipe" where
  "end_failed w name r st =
     (let r = annotate_failed name r;
          st = log_event (PipePublished ''tool.failed'') (log_event (PipeRecorded r) (log_event (PipePublished ''tool.failure'') st));
          (h, st) = after_call w ''after_tool_call(failed)'' st
      in (if ho_retry h then RetryWanted else Finished r, st))"

definition end_run :: "pipeline_world \<Rightarrow> string \<Rightarrow> pdict \<Rightarrow> pipe \<Rightarrow> tool_end \<times> pipe" where
  \<comment> \<open>a result that does not wait for an approval\<close>
  "end_run w name r st =
     (if is_patch_validation_failure name r
      then (Finished (annotate_failed name r), log_event (PipePublished ''tool.failed'') (log_event (PipePublished ''tool.failure'') st))
      else if tool_failed r then end_failed w name r st
      else end_completed w name r st)"

definition approve_by_hook :: "pdict \<Rightarrow> pdict" where
  "approve_by_hook r =
     dput ''ok'' (PBool True) (dput ''status'' (PStr ''ok'')
       (case dget r ''approval'' of PDict a \<Rightarrow> dput ''approval'' (PDict (dput ''status'' (PStr ''approved'') a)) r | _ \<Rightarrow> r))"

definition end_waiting :: "pipeline_world \<Rightarrow> string \<Rightarrow> pdict \<Rightarrow> pipe \<Rightarrow> (pipe_error + tool_end) \<times> pipe" where
  "end_waiting w name r st =
     (case validate_task_transition (pi_status st) ''waiting_approval'' (tw_task_id w) False of
        Inl e \<Rightarrow> (Inl (StatusForbidden e), st)
      | Inr _ \<Rightarrow>
          (let st = log_event (PipePublished ''approval.requested'') (st\<lparr>pi_status := ''waiting_approval''\<rparr>);
               (h, st) = fire_event w ''on_approval_required'' st
           in if denied h
              then (Inr (Finished (blocked_by_hook h ''Denied by permission_request hook.'')), log_event (PipePublished ''tool.blocked'') st)
              else if hook_allowed h then (let (e, st) = end_run w name (approve_by_hook r) st in (Inr e, st))
              else (Inr (Finished r), log_event (PipePublished ''tool.blocked'') (log_event (PipePublished ''task.waiting_approval'') st))))"

definition settle :: "pipeline_world \<Rightarrow> string \<Rightarrow> pdict \<Rightarrow> pipe \<Rightarrow> (pipe_error + tool_end) \<times> pipe" where
  "settle w name r st =
     (if name \<in> set subagent_tool_names then (let (e, st) = end_subagent w r st in (Inr e, st))
      else if dget r ''status'' = PStr ''blocked''
      then (Inr (Finished (annotate_failed name r)), log_event (PipePublished ''tool.blocked'') (log_event (PipePublished ''tool.failure'') st))
      else if dget r ''status'' = PStr ''approval_required'' then end_waiting w name r st
      else (let (e, st) = end_run w name r st in (Inr e, st)))"

section \<open>The pipeline\<close>

definition execute_once :: "pipeline_world \<Rightarrow> bool \<Rightarrow> pdict \<Rightarrow> pdict \<Rightarrow> pipe \<Rightarrow> (pipe_error + tool_end) \<times> pipe" where
  \<comment> \<open>\<open>_execute_tool\<close> up to its retry: with a budget or without, the specification and the context\<close>
  "execute_once w budgeted spec ctx st =
     (let name = the_str (dget spec ''name'')
      in if \<not> tool_allowed_for_child (tw_child_allowlist w) name then (Inl (ToolForbidden name), st)
         else if name = ''run_command'' \<and> \<not> command_safe_for_child (tw_child_allowlist w) (dget (the_dict (dget spec ''arguments'')) ''command'')
         then (Inl GitForbidden, st)
         else
           (let (binding_failure, st) = ensure_worktree_for_write_tool w name st; args = tool_arguments w spec ctx st
            in case consume_budget budgeted st of
              Inl e \<Rightarrow> (Inl e, st)
            | Inr st1 \<Rightarrow>
                (case hook_gates w name args (log_event (PipePublished ''tool.started'') st1) of
                   (Inl e, st2) \<Rightarrow> (Inl e, st2)
                 | (Inr a, st2) \<Rightarrow> (let (r, st3) = run_tool w name binding_failure a st2 in settle w name r st3))))"

fun execute_call :: "nat \<Rightarrow> pipeline_world \<Rightarrow> bool \<Rightarrow> pdict \<Rightarrow> pdict \<Rightarrow> pipe \<Rightarrow> ((pipe_error + pdict) \<times> pipe) option" where
  \<comment> \<open>a hook may ask for a retry as often as it likes; the retry has neither the budget nor the context\<close>
  "execute_call 0 w budgeted spec ctx st = None"
| "execute_call (Suc n) w budgeted spec ctx st =
     (case execute_once w budgeted spec ctx st of
        (Inl e, st') \<Rightarrow> Some (Inl e, st')
      | (Inr (Finished r), st') \<Rightarrow> Some (Inr r, st')
      | (Inr RetryWanted, st') \<Rightarrow> execute_call n w False spec [] st')"

section \<open>What runs\<close>

definition is_run :: "pipe_event \<Rightarrow> bool" where
  "is_run e \<longleftrightarrow> (case e of PipeRan _ _ \<Rightarrow> True | PipeDispatched _ \<Rightarrow> True | _ \<Rightarrow> False)"

definition runs :: "pipe \<Rightarrow> pipe_event list" where
  "runs st = filter is_run (pi_trace st)"

lemma runs_log [simp]: "runs (log_event e st) = (if is_run e then runs st @ [e] else runs st)"
  by (simp add: runs_def log_event_def)

lemma runs_update [simp]:
  "runs (st\<lparr>pi_fired := n\<rparr>) = runs st" "runs (st\<lparr>pi_status := s\<rparr>) = runs st" "runs (st\<lparr>pi_token := t\<rparr>) = runs st"
  "runs (st\<lparr>pi_budget := b\<rparr>) = runs st" "runs (st\<lparr>pi_worktree := x\<rparr>) = runs st"
  by (simp_all add: runs_def)

lemma is_run_simps [simp]:
  "is_run (PipeRan n a)" "is_run (PipeDispatched a)" "\<not> is_run (PipeFired s)" "\<not> is_run (PipePublished s)" "\<not> is_run (PipeRecorded r)"
  by (simp_all add: is_run_def)

lemma runs_fire [simp]: "runs (snd (fire_event w e st)) = runs st"
  by (simp add: fire_event_def)

lemma runs_fireD: "fire_event w e st = (h, st') \<Longrightarrow> runs st' = runs st"
  using runs_fire [of w e st] by simp

lemma runs_prevent [simp]: "runs (honor_prevent_continuation h e st) = runs st"
  by (simp add: honor_prevent_continuation_def)

lemma runs_published [simp]: "runs (fold (\<lambda>p. log_event (PipePublished p)) ps st) = runs st"
  by (induction ps arbitrary: st) simp_all

lemma runs_worktree [simp]: "runs (snd (ensure_worktree_for_write_tool w name st)) = runs st"
  by (simp add: ensure_worktree_for_write_tool_def Let_def split: option.split)

lemma runs_budget: "consume_budget b st = Inr st' \<Longrightarrow> runs st' = runs st"
  by (auto simp: consume_budget_def split: if_splits sum.splits)

lemma runs_gate [simp]: "runs (snd (hook_gate w e ps a st)) = runs st"
  by (simp add: hook_gate_def fire_event_def Let_def)

lemma runs_gates [simp]: "runs (snd (hook_gates w name a st)) = runs st"
  using runs_gate [of w "''before_tool_call''" "[''tool.failure'']" a st]
  by (cases "hook_gate w ''before_tool_call'' [''tool.failure''] a st") (auto simp: hook_gates_def split: sum.split)

lemma runs_after [simp]: "runs (snd (after_call w l st)) = runs st"
  by (simp add: after_call_def fire_event_def Let_def)

lemma runs_ends [simp]:
  "runs (snd (end_subagent w r st)) = runs st" "runs (snd (end_completed w name r st)) = runs st" "runs (snd (end_failed w name r st)) = runs st"
  by (simp_all add: end_subagent_def end_completed_def end_failed_def after_call_def fire_event_def Let_def)

lemma runs_end_run [simp]: "runs (snd (end_run w name r st)) = runs st"
  by (simp add: end_run_def)

lemma runs_end_waiting [simp]: "runs (snd (end_waiting w name r st)) = runs st"
  by (simp add: end_waiting_def fire_event_def Let_def case_prod_beta split: sum.split)

lemma runs_settle [simp]: "runs (snd (settle w name r st)) = runs st"
  by (simp add: settle_def Let_def case_prod_beta)

lemma runs_run_tool: "\<exists>new. runs (snd (run_tool w name f a st)) = runs st @ new \<and> length new \<le> 1"
  by (auto simp: run_tool_def dispatch_subagent_def fire_event_def Let_def split: option.split sum.split)

lemma worktree_keeps:
  "ensure_worktree_for_write_tool w name st = (f, st') \<Longrightarrow> pi_fired st' = pi_fired st \<and> pi_budget st' = pi_budget st \<and> pi_trace st' = pi_trace st"
  by (auto simp: ensure_worktree_for_write_tool_def Let_def split: if_splits option.splits)

lemma gate_passes: "hook_gate w e ps a st = (Inr a', st') \<Longrightarrow> \<not> denied (tw_hooks w (pi_fired st) e) \<and> pi_fired st' = Suc (pi_fired st)"
  by (auto simp: hook_gate_def fire_event_def log_event_def honor_prevent_continuation_def Let_def split: if_splits)

lemma gates_pass:
  assumes "hook_gates w name a st = (Inr a', st')"
  shows "\<not> denied (tw_hooks w (pi_fired st) ''before_tool_call'')"
    and "name = ''apply_patch'' \<Longrightarrow> \<not> denied (tw_hooks w (Suc (pi_fired st)) ''before_patch_apply'')"
proof -
  obtain x st1 where 1: "hook_gate w ''before_tool_call'' [''tool.failure''] a st = (Inr x, st1)"
    using assms by (auto simp: hook_gates_def split: prod.splits sum.splits)
  show "\<not> denied (tw_hooks w (pi_fired st) ''before_tool_call'')" using gate_passes [OF 1] by simp
  show "\<not> denied (tw_hooks w (Suc (pi_fired st)) ''before_patch_apply'')" if "name = ''apply_patch''"
  proof -
    have "hook_gate w ''before_patch_apply'' [] x st1 = (Inr a', st')" using assms 1 that by (simp add: hook_gates_def)
    then show ?thesis using gate_passes [OF 1] gate_passes by fastforce
  qed
qed

definition spec_command :: "pdict \<Rightarrow> pv" where
  "spec_command spec = dget (the_dict (dget spec ''arguments'')) ''command''"

definition guarded :: "pipeline_world \<Rightarrow> bool \<Rightarrow> pdict \<Rightarrow> pipe \<Rightarrow> bool" where
  \<comment> \<open>what has to hold for a tool to run\<close>
  "guarded w budgeted spec st \<longleftrightarrow>
     (let name = the_str (dget spec ''name'') in
      tool_allowed_for_child (tw_child_allowlist w) name \<and>
      (if name = ''run_command'' then command_safe_for_child (tw_child_allowlist w) (spec_command spec) else True) \<and>
      (if budgeted then (case consume_tool_call (PInt 1) (pi_budget st) of Inl _ \<Rightarrow> False | Inr _ \<Rightarrow> True) else True) \<and>
      fst (ensure_worktree_for_write_tool w name st) = None \<and>
      denied (tw_hooks w (pi_fired st) ''before_tool_call'') = False \<and>
      (if name = ''apply_patch'' then denied (tw_hooks w (Suc (pi_fired st)) ''before_patch_apply'') = False else True))"

lemma execute_once_cases:
  obtains (stopped) "runs (snd (execute_once w budgeted spec ctx st)) = runs st"
  | (ran) f st0 st1 a st2 where
    "tool_allowed_for_child (tw_child_allowlist w) (the_str (dget spec ''name'')) \<and>
      (if the_str (dget spec ''name'') = ''run_command'' then command_safe_for_child (tw_child_allowlist w) (spec_command spec) else True)"
    "ensure_worktree_for_write_tool w (the_str (dget spec ''name'')) st = (f, st0)" "consume_budget budgeted st0 = Inr st1"
    "hook_gates w (the_str (dget spec ''name'')) (tool_arguments w spec ctx st0) (log_event (PipePublished ''tool.started'') st1) = (Inr a, st2)"
    "runs st2 = runs st"
    "execute_once w budgeted spec ctx st = (let (r, st3) = run_tool w (the_str (dget spec ''name'')) f a st2 in settle w (the_str (dget spec ''name'')) r st3)"
proof -
  let ?n = "the_str (dget spec ''name'')" and ?x = "execute_once w budgeted spec ctx st"
  let ?allowed = "tool_allowed_for_child (tw_child_allowlist w) ?n \<and>
      (if ?n = ''run_command'' then command_safe_for_child (tw_child_allowlist w) (spec_command spec) else True)"
  obtain f st0 where wt: "ensure_worktree_for_write_tool w ?n st = (f, st0)" by fastforce
  then have st0: "runs st0 = runs st" using worktree_keeps [OF wt] by (simp add: runs_def)
  show thesis
  proof (cases ?allowed)
    case False
    then have "snd ?x = st" by (auto simp: execute_once_def spec_command_def Let_def split: if_splits)
    then show thesis by (intro stopped) simp
  next
    case allowed: True
    show thesis
    proof (cases "consume_budget budgeted st0")
      case (Inl e)
      then have "snd ?x = st0" using allowed by (auto simp: execute_once_def spec_command_def wt Let_def split: if_splits)
      then show thesis using st0 by (intro stopped) simp
    next
      case b: (Inr st1)
      obtain g st2 where g: "hook_gates w ?n (tool_arguments w spec ctx st0) (log_event (PipePublished ''tool.started'') st1) = (g, st2)"
        by fastforce
      have st2: "runs st2 = runs st"
        using runs_gates [of w ?n "tool_arguments w spec ctx st0" "log_event (PipePublished ''tool.started'') st1"] runs_budget [OF b]
        by (simp add: g st0)
      have x: "?x = (case g of Inl e \<Rightarrow> (Inl e, st2) | Inr a \<Rightarrow> (let (r, st3) = run_tool w ?n f a st2 in settle w ?n r st3))"
        using allowed by (auto simp: execute_once_def spec_command_def wt b g Let_def split: if_splits sum.split)
      show thesis
      proof (cases g)
        case (Inl e)
        then show thesis using x st2 by (intro stopped) simp
      next
        case (Inr a)
        then show thesis using ran [OF allowed wt b _ st2] g x by simp
      qed
    qed
  qed
qed


section \<open>What hooks break\<close>

definition plain_world :: pipeline_world where
  "plain_world =
     \<lparr>tw_child_allowlist = None, tw_new_id = (\<lambda>_. ''tc''), tw_hooks = (\<lambda>_ _. no_overrides), tw_execute = (\<lambda>_ _ _. Inr []),
      tw_dispatch = (\<lambda>_ _. Inr []), tw_public = (\<lambda>r. r), tw_session_known = True, tw_bind = (\<lambda>_. None), tw_routing = [],
      tw_task_id = ''t'', tw_session_id = ''s''\<rparr>"

definition plain_pipe :: pipe where
  "plain_pipe =
     \<lparr>pi_trace = [], pi_fired = 0, pi_status = ''running'', pi_token = None, pi_budget = small_budget, pi_worktree = None\<rparr>"

definition deny_all :: "nat \<Rightarrow> string \<Rightarrow> hook_overrides" where
  "deny_all = (\<lambda>_ _. no_overrides\<lparr>ho_decision := Some ''deny'', ho_reason := PStr ''no''\<rparr>)"

definition read_spec :: pdict where
  "read_spec = [(''name'', PStr ''read_file''), (''arguments'', PDict [(''path'', PStr ''a'')])]"

definition patch_spec :: pdict where
  "patch_spec = [(''name'', PStr ''apply_patch''), (''arguments'', PDict [])]"

definition status_spec :: pdict where
  "status_spec = [(''name'', PStr ''run_command''), (''arguments'', PDict [(''command'', PStr ''git status'')])]"

lemma gates_open:
  assumes "\<And>k e. \<not> denied (tw_hooks w k e) \<and> ho_updated_input (tw_hooks w k e) = None" "name \<noteq> ''apply_patch''"
  shows "\<exists>st'. hook_gates w name a st = (Inr a, st')"
  using assms by (simp add: hook_gates_def hook_gate_def fire_event_def Let_def)

lemma raised_retries:
  assumes "\<And>k e. ho_retry (tw_hooks w k e)"
  shows "\<exists>st'. settle w ''read_file'' (raised_result ''read_file'' e) st = (Inr RetryWanted, st')"
proof -
  let ?r = "raised_result ''read_file'' e"
  have r: "dget ?r ''status'' = PStr ''failed''" by (simp add: raised_result_def dget_def)
  then have "tool_failed ?r" "\<not> is_patch_validation_failure ''read_file'' ?r"
    by (simp_all add: tool_failed_def pin_tuple_def is_patch_validation_failure_def)
  moreover have "''read_file'' \<notin> set subagent_tool_names" by (simp add: subagent_tool_names_def)
  moreover have "fst (end_failed w ''read_file'' ?r st) = RetryWanted"
    using assms by (simp add: end_failed_def after_call_def fire_event_def Let_def)
  ultimately show ?thesis using r by (simp add: settle_def end_run_def case_prod_beta)
qed

lemma endless_retry:
  assumes "\<And>k e. ho_retry (tw_hooks w k e) \<and> \<not> denied (tw_hooks w k e) \<and> ho_updated_input (tw_hooks w k e) = None"
    and "\<And>n a. tw_execute w n ''read_file'' a = Inl ''failed''" "tw_child_allowlist w = None"
  shows "execute_call n w False read_spec ctx st = None"
proof (induction n arbitrary: ctx st)
  case (Suc n)
  have name: "the_str (dget read_spec ''name'') = ''read_file''" by (simp add: read_spec_def dget_def)
  have wt: "ensure_worktree_for_write_tool w ''read_file'' st = (None, st)"
    by (simp add: ensure_worktree_for_write_tool_def lazy_worktree_bind_tools_def)
  obtain st2 where g: "hook_gates w ''read_file'' (tool_arguments w read_spec ctx st) (log_event (PipePublished ''tool.started'') st) =
      (Inr (tool_arguments w read_spec ctx st), st2)"
    using gates_open [of w "''read_file''"] assms(1) by fastforce
  have "''read_file'' \<notin> set subagent_tool_names" by (simp add: subagent_tool_names_def)
  then obtain st3 where r: "run_tool w ''read_file'' None (tool_arguments w read_spec ctx st) st2 = (raised_result ''read_file'' ''failed'', st3)"
    using assms(2) by (simp add: run_tool_def)
  obtain st4 where "settle w ''read_file'' (raised_result ''read_file'' ''failed'') st3 = (Inr RetryWanted, st4)"
    using raised_retries [of w] assms(1) by blast
  then have "execute_once w False read_spec ctx st = (Inr RetryWanted, st4)"
    using assms(3) by (simp add: execute_once_def name wt g r tool_allowed_for_child_def consume_budget_def Let_def)
  then show ?case using Suc.IH by simp
qed simp

definition on_event :: "string \<Rightarrow> hook_overrides \<Rightarrow> nat \<Rightarrow> string \<Rightarrow> hook_overrides" where
  "on_event event h = (\<lambda>_ e. if e = event then h else no_overrides)"

definition run_args :: "pipe \<Rightarrow> pdict list" where
  "run_args st = concat (map (\<lambda>e. case e of PipeRan _ a \<Rightarrow> [a] | _ \<Rightarrow> []) (pi_trace st))"

definition retry_once :: pipeline_world where
  "retry_once =
     plain_world\<lparr>tw_hooks := \<lambda>k e. if k = 1 then no_overrides\<lparr>ho_retry := True\<rparr> else no_overrides, tw_execute := \<lambda>_ _ _. Inl ''failed''\<rparr>"

definition approving :: pipeline_world where
  "approving =
     plain_world\<lparr>tw_hooks := on_event ''on_approval_required'' (no_overrides\<lparr>ho_decision := Some ''allow''\<rparr>),
       tw_execute := \<lambda>_ _ _. Inr [(''status'', PStr ''approval_required'')]\<rparr>"

definition rewriting :: pipeline_world where
  "rewriting =
     plain_world\<lparr>tw_child_allowlist := Some [''run_command''],
       tw_hooks := on_event ''before_tool_call'' (no_overrides\<lparr>ho_updated_input := Some [(''command'', PStr ''git push'')]\<rparr>)\<rparr>"

definition with_signals :: pdict where
  "with_signals = [(''untrustedContentSignals'', PList [PDict [(''source'', PStr ''web'')]])]"

lemma denial_raises:
  "fst (execute_once (plain_world\<lparr>tw_hooks := deny_all\<rparr>) False read_spec [] plain_pipe) = Inl (UnboundLocal ''tool_event_payload'')"
  by code_simp

lemma retry_unguarded:
  "map_option (\<lambda>(r, st). (map (\<lambda>a. dhas a ''untrustedContentSignals'') (run_args st), b_consumed (wb_calls (pi_budget st))))
     (execute_call 2 retry_once True read_spec with_signals plain_pipe) = Some ([True, False], 2)"
  by code_simp

lemma approval_not_run:
  "map_option (\<lambda>(r, st). (map_sum (\<lambda>e. ()) (\<lambda>d. dget d ''status'') r, length (run_args st), pi_status st))
     (execute_call 1 approving False patch_spec [] plain_pipe) = Some (Inr (PStr ''ok''), 1, ''waiting_approval'')"
  by code_simp

lemma command_rewritten:
  "map_option (\<lambda>(r, st). map (\<lambda>a. dget a ''command'') (run_args st)) (execute_call 1 rewriting False status_spec [] plain_pipe) =
     Some [PStr ''git push'']"
  by code_simp


end
