(* ===== verification/ProviderWire.thy ===== *)
theory ProviderWire
  imports Patch
begin

text \<open>
  What travels to and from a provider that speaks the chat format (\<open>provider/openai_compatible.py\<close>): the
  names and schemas of tools, the messages of a request, reading the stream of server-sent events, and the
  response made of it. Texts are UTF-8 bytes, as everywhere; reading and writing JSON are parameters. Sockets
  and the formats of the two other vendors are left out.
\<close>

section \<open>Tools of a request\<close>

definition unsupported_request_schema_keys :: "string list" where
  "unsupported_request_schema_keys =
     [''$defs'', ''$id'', ''$schema'', ''additionalProperties'', ''allOf'', ''anyOf'', ''const'', ''default'', ''definitions'',
      ''dependencies'', ''dependentSchemas'', ''else'', ''examples'', ''exclusiveMaximum'', ''exclusiveMinimum'', ''format'', ''if'',
      ''maxItems'', ''maxLength'', ''maximum'', ''minItems'', ''minLength'', ''minimum'', ''multipleOf'', ''not'', ''nullable'',
      ''oneOf'', ''pattern'', ''patternProperties'', ''propertyNames'', ''then'', ''title'', ''uniqueItems'']"

fun sanitize_request_schema :: "pv \<Rightarrow> pv" where
  "sanitize_request_schema (PDict d) =
     PDict (map (\<lambda>(k, v). (k, sanitize_request_schema v)) (filter (\<lambda>(k, _). k \<notin> set unsupported_request_schema_keys) d))"
| "sanitize_request_schema (PList xs) = PList (map sanitize_request_schema xs)"
| "sanitize_request_schema v = v"

definition name_char :: "char \<Rightarrow> bool" where
  "name_char c \<longleftrightarrow>
     (let n = of_char c :: nat in 48 \<le> n \<and> n \<le> 57 \<or> 65 \<le> n \<and> n \<le> 90 \<or> 97 \<le> n \<and> n \<le> 122 \<or> n = 95 \<or> n = 45)"

definition plain_name :: "string \<Rightarrow> bool" where
  "plain_name s \<longleftrightarrow> s \<noteq> [] \<and> length s \<le> 64 \<and> list_all name_char s"

definition safe_name :: "string \<Rightarrow> bool" where
  \<comment> \<open>the dollar of the expression also matches before a line feed at the end\<close>
  "safe_name s \<longleftrightarrow> plain_name s \<or> (s \<noteq> [] \<and> last s = CHR 0x0A \<and> plain_name (butlast s))"

fun replace_unsafe :: "bool \<Rightarrow> string \<Rightarrow> string" where
  \<comment> \<open>each run of other characters becomes one underscore; the flag tells that a run has begun\<close>
  "replace_unsafe run [] = []"
| "replace_unsafe run (c # cs) =
     (if name_char c then c # replace_unsafe False cs
      else if run then replace_unsafe True cs
      else CHR ''_'' # replace_unsafe True cs)"

definition name_or :: "string \<Rightarrow> string \<Rightarrow> string" where
  "name_or s fallback = (if s = '''' then fallback else s)"

definition base_name :: "string \<Rightarrow> nat \<Rightarrow> string" where
  "base_name name index =
     (let fallback = ''tool_'' @ nat_digits index; base = name_or (strip_chars ''_'' (replace_unsafe False name)) fallback
      in name_or (strip_chars ''_'' (take 64 base)) fallback)"

definition numbered_name :: "string \<Rightarrow> nat \<Rightarrow> nat \<Rightarrow> string" where
  "numbered_name base index n =
     (let suffix = ''_'' @ nat_digits n
      in name_or (strip_chars ''_'' (take (64 - length suffix) base @ suffix)) (''tool_'' @ nat_digits index @ ''_'' @ nat_digits n))"

fun free_name :: "nat \<Rightarrow> string list \<Rightarrow> string \<Rightarrow> nat \<Rightarrow> nat \<Rightarrow> string \<Rightarrow> string option" where
  \<comment> \<open>the loop, with fuel\<close>
  "free_name 0 used base index n candidate = None"
| "free_name (Suc fuel) used base index n candidate =
     (if candidate \<in> set used \<or> \<not> safe_name candidate
      then free_name fuel used base index (Suc n) (numbered_name base index n)
      else Some candidate)"

definition safe_tool_name :: "string \<Rightarrow> string list \<Rightarrow> nat \<Rightarrow> string option" where
  "safe_tool_name name used index =
     (if safe_name name \<and> name \<notin> set used then Some name
      else (let base = base_name name index in free_name (length used + 2) used base index 2 base))"

definition tool_function :: "pv \<Rightarrow> pdict" where
  "tool_function tool = the_dict (dget (the_dict tool) ''function'')"

definition raw_tool_name :: "pv \<Rightarrow> string" where
  "raw_tool_name tool = the_str (dget (tool_function tool) ''name'')"

definition outbound_tool :: "string \<Rightarrow> pv \<Rightarrow> pv" where
  "outbound_tool safe tool =
     (let f = dput ''name'' (PStr safe) (tool_function tool);
          f = (case dget f ''parameters'' of PDict p \<Rightarrow> dput ''parameters'' (sanitize_request_schema (PDict p)) f | _ \<Rightarrow> f)
      in PDict (dput ''function'' (PDict f) (the_dict tool)))"

fun prepare_tools :: "nat \<Rightarrow> pv list \<Rightarrow> string list \<Rightarrow> (pv list \<times> (string \<times> string) list) option" where
  \<comment> \<open>the tools from an index on, with the names in use; each safe name is a new key of the map\<close>
  "prepare_tools index [] used = Some ([], [])"
| "prepare_tools index (tool # tools) used =
     (if raw_tool_name tool = '''' then prepare_tools (Suc index) tools used
      else case safe_tool_name (raw_tool_name tool) used index of
        None \<Rightarrow> None
      | Some safe \<Rightarrow>
          map_option (\<lambda>(prepared, names). (outbound_tool safe tool # prepared, (safe, raw_tool_name tool) # names))
            (prepare_tools (Suc index) tools (safe # used)))"

definition prepare_tools_for_request :: "pv list \<Rightarrow> (pv list \<times> (string \<times> string) list) option" where
  "prepare_tools_for_request tools = prepare_tools 1 tools []"

definition original_tool_name :: "(string \<times> string) list \<Rightarrow> string \<Rightarrow> string" where
  "original_tool_name names name = (case map_of names name of None \<Rightarrow> name | Some raw \<Rightarrow> raw)"

section \<open>A free name is found\<close>

lemma name_char_digit: "is_digit c \<Longrightarrow> name_char c \<and> c \<noteq> CHR ''_''"
  by (auto simp: is_digit_def name_char_def Let_def)

lemma digits_names: "list_all name_char (nat_digits n) \<and> CHR ''_'' \<notin> set (nat_digits n) \<and> nat_digits n \<noteq> []"
  using nat_digits_digits [of n] name_char_digit by (auto simp: list_all_iff)

lemma nat_digits_inj: "nat_digits m = nat_digits n \<Longrightarrow> m = n"
  by (metis digits_value_digits)

lemma length_digits: "n < 10 ^ k \<Longrightarrow> 0 < k \<Longrightarrow> length (nat_digits n) \<le> k"
proof (induction k arbitrary: n)
  case (Suc k)
  show ?case
  proof (cases "n < 10")
    case True
    then show ?thesis by (subst nat_digits.simps) simp
  next
    case False
    then have k: "0 < k" using Suc.prems by (cases k) auto
    have "n div 10 < 10 ^ k" using Suc.prems by (simp add: div_less_iff_less_mult mult.commute)
    then have "length (nat_digits (n div 10)) \<le> k" using Suc.IH k by simp
    then show ?thesis using False by (subst nat_digits.simps) simp
  qed
qed simp

lemma replace_unsafe_chars: "list_all name_char (replace_unsafe b s)"
  by (induction b s rule: replace_unsafe.induct) (auto simp: name_char_def)


lemma strip_by_id: "s \<noteq> [] \<Longrightarrow> \<not> p (hd s) \<Longrightarrow> \<not> p (last s) \<Longrightarrow> strip_by p s = s"
proof -
  assume s: "s \<noteq> []" "\<not> p (hd s)" "\<not> p (last s)"
  from s have "dropWhile p s = s" by (cases s) auto
  moreover from s have "rstrip_by p s = s" by (cases s rule: rev_cases) (auto simp: rstrip_by_def)
  ultimately show ?thesis by (simp add: strip_by_def)
qed

lemma set_rstrip_by: "set (rstrip_by p s) \<subseteq> set s"
  using set_dropWhileD [of _ p "rev s"] by (auto simp: rstrip_by_def)

lemma set_strip_by: "set (strip_by p s) \<subseteq> set s"
  using set_rstrip_by [of p "dropWhile p s"] set_dropWhileD [of _ p s] by (auto simp: strip_by_def)

lemma length_strip_by: "length (strip_by p s) \<le> length s"
  using length_dropWhile_le [of p s] length_dropWhile_le [of p "rev (dropWhile p s)"] by (simp add: strip_by_def rstrip_by_def)

lemma hd_strip_by: "strip_by p s \<noteq> [] \<Longrightarrow> \<not> p (hd (strip_by p s))"
  unfolding strip_by_def by (metis hd_dropWhile hd_rstrip_by rstrip_by_Nil)

definition stem :: "string \<Rightarrow> bool" where
  \<comment> \<open>a name that numbers can be put after\<close>
  "stem s \<longleftrightarrow> plain_name s \<and> hd s \<noteq> CHR ''_''"

lemma stripped_stem:
  assumes "list_all name_char s" "length s \<le> 64" "stem fallback"
  shows "stem (name_or (strip_chars ''_'' s) fallback)"
  using assms set_strip_by [of "\<lambda>c. c \<in> set ''_''" s] length_strip_by [of "\<lambda>c. c \<in> set ''_''" s] hd_strip_by [of "\<lambda>c. c \<in> set ''_''" s]
  by (auto simp: stem_def plain_name_def name_or_def strip_chars_def list_all_iff)

lemma numbered_fallback_stem: "n < 10 ^ 50 \<Longrightarrow> stem (''tool_'' @ nat_digits n)"
  using digits_names [of n] length_digits [of n 50] by (simp add: stem_def plain_name_def name_char_def)

lemma base_name_stem:
  assumes "index < 10 ^ 50"
  shows "stem (base_name name index)"
proof -
  let ?f = "''tool_'' @ nat_digits index" and ?s = "strip_chars ''_'' (replace_unsafe False name)"
  have f: "stem ?f" using assms by (rule numbered_fallback_stem)
  have "list_all name_char ?s"
    using replace_unsafe_chars [of False name] set_strip_by [of "\<lambda>c. c \<in> set ''_''" "replace_unsafe False name"]
    by (auto simp: strip_chars_def list_all_iff)
  then have "list_all name_char (take 64 (name_or ?s ?f))"
    using f by (auto simp: name_or_def stem_def plain_name_def list_all_iff dest: in_set_takeD)
  then show ?thesis unfolding base_name_def Let_def by (intro stripped_stem f) simp_all
qed

lemma numbered_name_eq:
  assumes "stem base" "n < 10 ^ 50"
  shows "numbered_name base index n = take (63 - length (nat_digits n)) base @ ''_'' @ nat_digits n"
proof -
  let ?d = "nat_digits n"
  let ?s = "take (64 - length (''_'' @ ?d)) base @ ''_'' @ ?d"
  have l: "length ?d \<le> 50" using assms(2) by (simp add: length_digits)
  then have "take (64 - length (''_'' @ ?d)) base \<noteq> []" "hd ?s = hd base"
    using assms(1) by (auto simp: stem_def plain_name_def hd_append)
  moreover have "last ?s \<noteq> CHR ''_''" using digits_names [of n] last_in_set by fastforce
  ultimately have "strip_chars ''_'' ?s = ?s"
    unfolding strip_chars_def using assms(1) by (intro strip_by_id) (auto simp: stem_def)
  then show ?thesis using l by (simp add: numbered_name_def name_or_def)
qed

lemma numbered_name_plain:
  assumes "stem base" "n < 10 ^ 50"
  shows "plain_name (numbered_name base index n)"
  using assms digits_names [of n] length_digits [of n 50]
  by (auto simp: numbered_name_eq stem_def plain_name_def name_char_def list_all_iff dest: in_set_takeD)

lemma numbered_name_inj:
  assumes "stem base" "m < 10 ^ 50" "n < 10 ^ 50" "numbered_name base index m = numbered_name base index n"
  shows "m = n"
proof -
  have tail: "takeWhile (\<lambda>c. c \<noteq> CHR ''_'') (rev (numbered_name base index k)) = rev (nat_digits k)" if "k < 10 ^ 50" for k
  proof -
    have "c \<noteq> CHR ''_''" if "c \<in> set (rev (nat_digits k))" for c using digits_names [of k] that by auto
    then have "takeWhile (\<lambda>c. c \<noteq> CHR ''_'') (rev (nat_digits k) @ CHR ''_'' # r) = rev (nat_digits k)" for r
      by (subst takeWhile_append2) auto
    then show ?thesis using that assms(1) by (simp add: numbered_name_eq)
  qed
  show ?thesis using tail [OF assms(2)] tail [OF assms(3)] assms(4) by (auto dest: nat_digits_inj)
qed

lemma free_name_None:
  "free_name fuel used base index n c = None \<Longrightarrow> Suc k < fuel \<Longrightarrow>
   numbered_name base index (n + k) \<in> set used \<or> \<not> safe_name (numbered_name base index (n + k))"
proof (induction fuel arbitrary: n c k)
  case (Suc fuel)
  then have IH: "free_name fuel used base index (Suc n) (numbered_name base index n) = None"
    by (auto split: if_splits)
  show ?case
  proof (cases k)
    case 0
    then show ?thesis using IH Suc.prems(2) by (cases fuel) (auto split: if_splits)
  next
    case (Suc j)
    then show ?thesis using Suc.IH [OF IH, of j] Suc.prems(2) by simp
  qed
qed simp

lemma free_name_Some: "free_name fuel used base index n c = Some s \<Longrightarrow> s \<notin> set used \<and> safe_name s"
  by (induction fuel arbitrary: n c) (auto split: if_splits)

lemma free_name_ends:
  assumes "stem base" "length used < 10 ^ 40"
  shows "free_name (length used + 2) used base index 2 c \<noteq> None"
proof
  assume none: "free_name (length used + 2) used base index 2 c = None"
  let ?ns = "{2 ..< length used + 3}"
  have bound: "n < 10 ^ 50" if "n \<in> ?ns" for n
  proof -
    have "n < 10 ^ 40 + 3" using that assms(2) by simp
    also have "(10 :: nat) ^ 40 + 3 \<le> 10 ^ 50" by simp
    finally show ?thesis .
  qed
  have "numbered_name base index n \<in> set used" if n: "n \<in> ?ns" for n
  proof -
    have "safe_name (numbered_name base index n)"
      using numbered_name_plain [OF assms(1) bound [OF n]] by (simp add: safe_name_def)
    moreover obtain k where "n = 2 + k" using n by (metis atLeastLessThan_iff le_Suc_ex)
    ultimately show ?thesis using free_name_None [OF none, of k] n by simp
  qed
  moreover have "inj_on (numbered_name base index) ?ns"
    using numbered_name_inj [OF assms(1) bound bound] by (intro inj_onI) blast
  ultimately have "card ?ns \<le> card (set used)" by (intro card_inj_on_le) auto
  then show False using card_length [of used] by simp
qed

lemma safe_tool_name_new:
  "safe_tool_name name used index = Some s \<Longrightarrow> s \<notin> set used \<and> safe_name s"
  by (auto simp: safe_tool_name_def Let_def dest: free_name_Some split: if_splits)

lemma safe_tool_name_found: "index < 10 ^ 50 \<Longrightarrow> length used < 10 ^ 40 \<Longrightarrow> safe_tool_name name used index \<noteq> None"
  unfolding safe_tool_name_def Let_def using free_name_ends [OF base_name_stem] by simp

lemma prepare_tools_ends:
  "index + length tools < 10 ^ 40 \<Longrightarrow> length used + length tools < 10 ^ 40 \<Longrightarrow> prepare_tools index tools used \<noteq> None"
proof (induction tools arbitrary: index used)
  case (Cons tool tools)
  have "index < 10 ^ 50" using Cons.prems(1) by simp
  then have "safe_tool_name (raw_tool_name tool) used index \<noteq> None"
    using Cons.prems(2) by (intro safe_tool_name_found) simp_all
  then show ?case using Cons.IH [of "Suc index"] Cons.prems by (auto split: option.split)
qed simp

lemma raw_outbound: "raw_tool_name (outbound_tool safe tool) = safe"
  by (simp add: raw_tool_name_def tool_function_def outbound_tool_def Let_def dget_dput split: pv.split)

lemma prepare_tools_names:
  "prepare_tools index tools used = Some (prepared, names) \<Longrightarrow>
   distinct (map fst names) \<and> list_all (\<lambda>s. safe_name s \<and> s \<notin> set used) (map fst names) \<and>
   map raw_tool_name prepared = map fst names \<and> map snd names = filter (\<lambda>s. s \<noteq> '''') (map raw_tool_name tools)"
proof (induction tools arbitrary: index used prepared names)
  case (Cons tool tools)
  show ?case
  proof (cases "raw_tool_name tool = ''''")
    case True
    then show ?thesis using Cons.IH [of "Suc index" used prepared names] Cons.prems by simp
  next
    case False
    then obtain s ps ns where s: "safe_tool_name (raw_tool_name tool) used index = Some s"
      and r: "prepare_tools (Suc index) tools (s # used) = Some (ps, ns)"
      and eq: "prepared = outbound_tool s tool # ps" "names = (s, raw_tool_name tool) # ns"
      using Cons.prems by (auto split: option.splits)
    have "s \<notin> set (map fst ns)" using Cons.IH [OF r] by (auto simp: list_all_iff)
    then show ?thesis
      using Cons.IH [OF r] safe_tool_name_new [OF s] False by (auto simp: eq raw_outbound list_all_iff)
  qed
qed simp

lemma original_names: "distinct (map fst names) \<Longrightarrow> map (original_tool_name names) (map fst names) = map snd names"
  by (auto simp: original_tool_name_def)

text \<open>
  C40. Renaming the tools of a request for the provider always ends. The names sent are all different and
  acceptable, and each is read back as the name of its tool.
\<close>

theorem tool_names_restored:
  assumes "length tools < 10 ^ 30"
  shows "\<exists>prepared names. prepare_tools_for_request tools = Some (prepared, names) \<and>
    distinct (map raw_tool_name prepared) \<and> list_all safe_name (map raw_tool_name prepared) \<and>
    map (original_tool_name names) (map raw_tool_name prepared) = filter (\<lambda>s. s \<noteq> '''') (map raw_tool_name tools)"
proof -
  have "length tools + 1 < 10 ^ 40" using assms by simp
  then obtain prepared names where p: "prepare_tools 1 tools [] = Some (prepared, names)"
    using prepare_tools_ends [of 1 tools "[]"] by auto
  from prepare_tools_names [OF p] have n: "distinct (map fst names)" "list_all safe_name (map fst names)"
    "map raw_tool_name prepared = map fst names" "map snd names = filter (\<lambda>s. s \<noteq> '''') (map raw_tool_name tools)"
    by (auto simp: list_all_iff)
  have "map (original_tool_name names) (map raw_tool_name prepared) = filter (\<lambda>s. s \<noteq> '''') (map raw_tool_name tools)"
    unfolding n(3) using original_names [OF n(1)] n(4) by (rule trans)
  then show ?thesis using p n(1-3) unfolding prepare_tools_for_request_def by metis
qed

definition named_tool :: "string \<Rightarrow> pv" where
  "named_tool name = PDict [(''type'', PStr ''function''), (''function'', PDict [(''name'', PStr name)])]"

lemma tool_names_restored_witness:
  "\<exists>prepared names. prepare_tools_for_request [named_tool ''memory.recall'', named_tool ''memory_recall''] = Some (prepared, names) \<and>
     distinct (map raw_tool_name prepared) \<and>
     map (original_tool_name names) (map raw_tool_name prepared) = [''memory.recall'', ''memory_recall'']"
proof -
  have "filter (\<lambda>s. s \<noteq> '''') (map raw_tool_name [named_tool ''memory.recall'', named_tool ''memory_recall'']) = [''memory.recall'', ''memory_recall'']"
    by code_simp
  then show ?thesis using tool_names_restored [of "[named_tool ''memory.recall'', named_tool ''memory_recall'']"] by force
qed

end
