(* ===== verification/ProviderStream.thy ===== *)
theory ProviderStream
  imports ProviderWire Paths
begin

text \<open>
  The messages of a request in the chat format and the events of its streamed answer
  (\<open>OpenAICompatibleChatClient\<close> in \<open>provider/openai_compatible.py\<close>): which messages a request keeps and the form
  of each; the incremental decoder of UTF-8, the lines of a stream and the events they make. It is shown
  that a request keeps exactly the results whose call precedes them, and that events come back whatever
  the chunks. Writing JSON is a parameter.
\<close>

section \<open>Messages of a request\<close>

definition call_ids :: "pdict \<Rightarrow> string list" where
  \<comment> \<open>the ids that an assistant message calls; \<open>tool_calls\<close> is a list when it is there\<close>
  "call_ids m =
     (if dget m ''role'' = PStr ''assistant''
      then filter (\<lambda>s. s \<noteq> '''') (map (\<lambda>c. the_str (dget (the_dict c) ''id'')) (filter is_dict (the_list (dget m ''tool_calls''))))
      else [])"

definition is_tool_message :: "pdict \<Rightarrow> bool" where
  "is_tool_message m \<longleftrightarrow> dget m ''role'' = PStr ''tool''"

definition answered_id :: "pdict \<Rightarrow> string" where
  "answered_id m = the_str (dget m ''tool_call_id'')"

fun drop_orphan_tool_messages :: "string list \<Rightarrow> pdict list \<Rightarrow> pdict list" where
  \<comment> \<open>with the ids called so far\<close>
  "drop_orphan_tool_messages valid [] = []"
| "drop_orphan_tool_messages valid (m # ms) =
     (if is_tool_message m
      then (if answered_id m \<noteq> '''' \<and> answered_id m \<in> set valid then m # drop_orphan_tool_messages valid ms
            else drop_orphan_tool_messages valid ms)
      else m # drop_orphan_tool_messages (valid @ call_ids m) ms)"

definition text_or_empty :: "pv \<Rightarrow> pv" where
  "text_or_empty v = (case v of PStr s \<Rightarrow> PStr s | _ \<Rightarrow> PStr '''')"

definition serialize_tool_call :: "(pv \<Rightarrow> string) \<Rightarrow> pdict \<Rightarrow> pdict option" where
  "serialize_tool_call dumps item =
     (let (name, raw) = (case dget item ''function'' of
            PDict f \<Rightarrow> (dget f ''name'', dget f ''arguments'') | _ \<Rightarrow> (dget item ''name'', dget item ''arguments''));
          arguments = (case raw of PStr s \<Rightarrow> s | _ \<Rightarrow> dumps (por raw (PDict [])))
      in if the_str name = '''' then None
         else Some [(''id'', PStr (py_str (por (dget item ''id'') (PStr '''')))),
           (''type'', case dget item ''type'' of PStr s \<Rightarrow> PStr s | _ \<Rightarrow> PStr ''function''),
           (''function'', PDict [(''name'', name), (''arguments'', PStr arguments)])])"

definition serialize_tool_calls :: "(pv \<Rightarrow> string) \<Rightarrow> pv \<Rightarrow> pv list" where
  "serialize_tool_calls dumps calls =
     map PDict (List.map_filter (\<lambda>c. case c of PDict item \<Rightarrow> serialize_tool_call dumps item | _ \<Rightarrow> None) (the_list calls))"

definition attachment_image_url :: "pdict \<Rightarrow> string option" where
  "attachment_image_url a =
     (if strip (the_str (dget a ''url'')) \<noteq> '''' then Some (strip (the_str (dget a ''url'')))
      else if strip (the_str (dget a ''data'')) \<noteq> '''' \<and> starts ''image/'' (the_str (dget a ''mimeType''))
      then Some (''data:'' @ the_str (dget a ''mimeType'') @ '';base64,'' @ strip (the_str (dget a ''data'')))
      else None)"

definition image_blocks :: "pv \<Rightarrow> pv list" where
  "image_blocks attachments =
     map (\<lambda>url. PDict [(''type'', PStr ''image_url''), (''image_url'', PDict [(''url'', PStr url)])])
       (List.map_filter (\<lambda>a. case a of PDict d \<Rightarrow> attachment_image_url d | _ \<Rightarrow> None) (the_list attachments))"

definition serialize_message :: "(pv \<Rightarrow> string) \<Rightarrow> pdict \<Rightarrow> pdict" where
  "serialize_message dumps m =
     (let content = text_or_empty (dget m ''content'') in
      if dget m ''role'' = PStr ''assistant''
      then [(''role'', PStr ''assistant''), (''content'', content)] @
        (let calls = serialize_tool_calls dumps (dget m ''tool_calls'') in if calls = [] then [] else [(''tool_calls'', PList calls)])
      else if is_tool_message m
      then [(''role'', PStr ''tool''), (''content'', content), (''tool_call_id'', PStr (py_str (por (dget m ''tool_call_id'') (PStr ''''))))]
      else if dget m ''role'' = PStr ''user''
      then (let images = image_blocks (dget m ''imageAttachments'')
            in [(''role'', PStr ''user''),
                (''content'', if images = [] then content
                  else PList ((if content = PStr '''' then [] else [PDict [(''type'', PStr ''text''), (''text'', content)]]) @ images))])
      else m)"

definition serialize_messages_for_request :: "(pv \<Rightarrow> string) \<Rightarrow> pdict list \<Rightarrow> pdict list" where
  "serialize_messages_for_request dumps ms = map (serialize_message dumps) (drop_orphan_tool_messages [] ms)"

section \<open>Which messages a request keeps\<close>

definition answers_call :: "pdict list \<Rightarrow> pdict \<Rightarrow> bool" where
  "answers_call earlier m \<longleftrightarrow> answered_id m \<noteq> '''' \<and> answered_id m \<in> set (concat (map call_ids earlier))"

definition kept_in_request :: "pdict list \<Rightarrow> nat \<Rightarrow> bool" where
  \<comment> \<open>every message but the results whose call does not come before them\<close>
  "kept_in_request ms i \<longleftrightarrow> (if is_tool_message (ms ! i) then answers_call (take i ms) (ms ! i) else True)"

lemma tool_message_calls_nothing: "is_tool_message m \<Longrightarrow> call_ids m = []"
  by (simp add: is_tool_message_def call_ids_def)

lemma drop_orphans_from:
  "drop_orphan_tool_messages (concat (map call_ids pre)) ms =
   map ((!) (pre @ ms)) (filter (kept_in_request (pre @ ms)) [length pre ..< length pre + length ms])"
proof (induction ms arbitrary: pre)
  case (Cons m ms)
  have up: "[length pre ..< Suc (length pre + length ms)] = length pre # [Suc (length pre) ..< Suc (length pre + length ms)]"
    by (subst upt_conv_Cons) simp_all
  have "kept_in_request (pre @ m # ms) (length pre) = (if is_tool_message m then answers_call pre m else True)"
    by (simp add: kept_in_request_def)
  then show ?case
    using Cons.IH [of "pre @ [m]"] tool_message_calls_nothing [of m]
    by (cases "is_tool_message m") (simp_all del: upt_Suc add: up answers_call_def)
qed simp

text \<open>
  A request carries the messages of the conversation in their order, each in its own form, except for
  exactly those tool results whose call does not come before them.
\<close>

theorem request_messages_exact:
  "serialize_messages_for_request dumps ms =
   map (\<lambda>i. serialize_message dumps (ms ! i)) (filter (kept_in_request ms) [0 ..< length ms])"
  using drop_orphans_from [of "[]" ms] by (simp add: serialize_messages_for_request_def)

section \<open>Server-sent events\<close>

definition utf8_need :: "char \<Rightarrow> nat option" where
  \<comment> \<open>how many bytes follow the first byte of a character\<close>
  "utf8_need c =
     (let n = of_char c :: nat
      in if n < 128 then Some 0
         else if 194 \<le> n \<and> n \<le> 223 then Some 1
         else if 224 \<le> n \<and> n \<le> 239 then Some 2
         else if 240 \<le> n \<and> n \<le> 244 then Some 3
         else None)"

definition second_byte_ok :: "char \<Rightarrow> char \<Rightarrow> bool" where
  "second_byte_ok c d \<longleftrightarrow>
     (let n = of_char c :: nat; k = of_char d :: nat
      in 128 \<le> k \<and> k \<le> 191 \<and>
         (if n = 224 then 160 \<le> k else if n = 237 then k \<le> 159 else if n = 240 then 144 \<le> k else if n = 244 then k \<le> 143 else True))"

definition tail_ok :: "char \<Rightarrow> string \<Rightarrow> bool" where
  "tail_ok c follow \<longleftrightarrow> (case follow of [] \<Rightarrow> True | d # ds \<Rightarrow> second_byte_ok c d \<and> list_all cont_byte ds)"

function utf8_decode :: "string \<Rightarrow> (string \<times> string) option" where
  \<comment> \<open>the complete characters and the bytes of one that is not complete yet; None is the error\<close>
  "utf8_decode [] = Some ([], [])"
| "utf8_decode (c # cs) =
     (case utf8_need c of
        None \<Rightarrow> None
      | Some n \<Rightarrow>
          if \<not> tail_ok c (take n cs) then None
          else if length cs < n then Some ([], c # cs)
          else map_option (\<lambda>(w, r). (c # take n cs @ w, r)) (utf8_decode (drop n cs)))"
  by pat_completeness auto
termination by (relation "measure length") auto

record sse_state =
  ss_bytes :: string  \<comment> \<open>held by the decoder\<close>
  ss_buffer :: string
  ss_data :: "string list"
  ss_events :: "string list"  \<comment> \<open>yielded so far\<close>

definition sse_value :: "string \<Rightarrow> string" where
  "sse_value line = (let v = drop 5 line in if starts '' '' v then drop 1 v else v)"

definition sse_dispatch :: "sse_state \<Rightarrow> sse_state" where
  "sse_dispatch st = (if ss_data st = [] then st else st\<lparr>ss_data := [], ss_events := ss_events st @ [join [CHR 0x0A] (ss_data st)]\<rparr>)"

definition sse_line :: "string \<Rightarrow> sse_state \<Rightarrow> sse_state" where
  "sse_line raw_line st =
     (let line = strip_eol raw_line
      in if line = '''' then sse_dispatch st
         else if starts '':'' line then st
         else if starts ''data:'' line then st\<lparr>ss_data := ss_data st @ [sse_value line]\<rparr>
         else st)"

definition line_done :: "string \<Rightarrow> bool" where
  "line_done l \<longleftrightarrow> last l = CHR 0x0A \<or> last l = CHR 0x0D"

definition sse_text :: "string \<Rightarrow> sse_state \<Rightarrow> sse_state" where
  \<comment> \<open>what the decoder gave; the last line waits unless a line feed or a carriage return ends it\<close>
  "sse_text t st =
     (let lines = split_lines True (ss_buffer st @ t)
      in if lines \<noteq> [] \<and> \<not> line_done (last lines) then fold sse_line (butlast lines) (st\<lparr>ss_buffer := last lines\<rparr>)
         else fold sse_line lines (st\<lparr>ss_buffer := ''''\<rparr>))"

definition sse_end :: "sse_state \<Rightarrow> sse_state" where
  "sse_end st =
     (let line = strip_eol (ss_buffer st)
      in sse_dispatch (if starts ''data:'' line then st\<lparr>ss_data := ss_data st @ [sse_value line]\<rparr> else st))"

fun sse_chunks :: "string list \<Rightarrow> sse_state \<Rightarrow> string list \<times> bool" where
  \<comment> \<open>the events yielded, and whether the bytes were text to the end\<close>
  "sse_chunks [] st = (if ss_bytes st = '''' then (ss_events (sse_end st), True) else (ss_events st, False))"
| "sse_chunks (c # cs) st =
     (case utf8_decode (ss_bytes st @ c) of
        None \<Rightarrow> (ss_events st, False)
      | Some (t, rest) \<Rightarrow> sse_chunks cs (sse_text t (st\<lparr>ss_bytes := rest\<rparr>)))"

definition iter_sse_data :: "string list \<Rightarrow> string list \<times> bool" where
  "iter_sse_data chunks = sse_chunks chunks \<lparr>ss_bytes = '''', ss_buffer = '''', ss_data = [], ss_events = []\<rparr>"

section \<open>The stream does not depend on its chunks\<close>

lemma utf8_parts: "utf8_decode s = Some (w, r) \<Longrightarrow> s = w @ r \<and> utf8_decode r = Some ([], r)"
proof (induction s arbitrary: w r rule: utf8_decode.induct)
  case (2 c cs)
  obtain n where n: "utf8_need c = Some n" using 2(2) by (cases "utf8_need c") auto
  show ?case
  proof (cases "length cs < n")
    case True
    then show ?thesis using 2(2) n by (auto split: if_splits)
  next
    case False
    then have t: "tail_ok c (take n cs)" using 2(2) n by (auto split: if_splits)
    then obtain v where v: "utf8_decode (drop n cs) = Some (v, r)" "w = c # take n cs @ v"
      using 2(2) n False by auto
    have "drop n cs = v @ r \<and> utf8_decode r = Some ([], r)" using 2(1) [OF n] t False v(1) by blast
    then show ?thesis using v(2) by (metis append.assoc append_Cons append_take_drop_id)
  qed
qed simp

lemma tail_ok_take: "tail_ok c (a @ b) \<Longrightarrow> tail_ok c a"
  by (cases a) (auto simp: tail_ok_def)

lemma utf8_append:
  "utf8_decode (s @ t) = Some (w, r) \<Longrightarrow>
   \<exists>a b v. utf8_decode s = Some (a, b) \<and> utf8_decode (b @ t) = Some (v, r) \<and> w = a @ v"
proof (induction s arbitrary: w rule: utf8_decode.induct)
  case 1
  then show ?case by simp
next
  case (2 c cs)
  obtain n where n: "utf8_need c = Some n" using 2(2) by (cases "utf8_need c") auto
  then have t: "tail_ok c (take n (cs @ t))" using 2(2) by (auto split: if_splits)
  then have t': "tail_ok c (take n cs)" by (auto intro: tail_ok_take)
  show ?case
  proof (cases "length cs < n")
    case True
    then have "utf8_decode (c # cs) = Some ([], c # cs)" using n t' by simp
    then show ?thesis using 2(2) by auto
  next
    case False
    then obtain u where u: "utf8_decode (drop n cs @ t) = Some (u, r)" "w = c # take n cs @ u"
      using 2(2) n t by (auto split: if_splits)
    obtain a b v where "utf8_decode (drop n cs) = Some (a, b)" "utf8_decode (b @ t) = Some (v, r)" "u = a @ v"
      using 2(1) [OF n] t' False u(1) by blast
    then show ?thesis using n t' False u(2) by auto
  qed
qed

lemma sse_line_buffer [simp]:
  "sse_line l (st\<lparr>ss_buffer := x\<rparr>) = (sse_line l st)\<lparr>ss_buffer := x\<rparr>"
  "sse_line l (st\<lparr>ss_bytes := x\<rparr>) = (sse_line l st)\<lparr>ss_bytes := x\<rparr>"
  "ss_buffer (sse_line l st) = ss_buffer st" "ss_bytes (sse_line l st) = ss_bytes st"
  by (simp_all add: sse_line_def sse_dispatch_def Let_def)

lemma fold_sse_line_buffer [simp]:
  "fold sse_line ls (st\<lparr>ss_buffer := x\<rparr>) = (fold sse_line ls st)\<lparr>ss_buffer := x\<rparr>"
  "fold sse_line ls (st\<lparr>ss_bytes := x\<rparr>) = (fold sse_line ls st)\<lparr>ss_bytes := x\<rparr>"
  "ss_buffer (fold sse_line ls st) = ss_buffer st" "ss_bytes (fold sse_line ls st) = ss_bytes st"
  by (induction ls arbitrary: st) simp_all

lemma dispatch_buffer [simp]:
  "ss_events (sse_dispatch (st\<lparr>ss_buffer := x\<rparr>)) = ss_events (sse_dispatch st)"
  "ss_events (sse_dispatch (st\<lparr>ss_bytes := x\<rparr>)) = ss_events (sse_dispatch st)"
  by (simp_all add: sse_dispatch_def)

definition begun :: "string \<Rightarrow> string list \<Rightarrow> bool" where
  \<comment> \<open>a text is the beginning of the first line, without its end\<close>
  "begun r ls \<longleftrightarrow> r = '''' \<or> (ls \<noteq> [] \<and> strict_prefix r (hd ls))"

lemma starts_append: "starts p s \<Longrightarrow> starts p (s @ t)"
  by (simp add: starts_def)

lemma break_len_shorter: "break_len (s @ t) = 0 \<Longrightarrow> break_len s = 0"
  using starts_append [of _ s t] by (auto simp: break_len_def hd_append simp del: starts_Cons split: if_splits)

lemma split_lines_Nil [simp]: "split_lines keep '''' = []"
  by (subst split_lines.simps) simp

lemma next_break_prefix: "next_break (p @ [CHR 0x0A]) = Some (p, [CHR 0x0A], []) \<Longrightarrow> prefix q p \<Longrightarrow> next_break q = None"
proof (induction p arbitrary: q)
  case (Cons c p)
  then have p: "break_len (c # p @ [CHR 0x0A]) = 0" "next_break (p @ [CHR 0x0A]) = Some (p, [CHR 0x0A], [])"
    by (auto split: if_splits)
  show ?case
  proof (cases q)
    case (Cons d q')
    then have q: "d = c" "prefix q' p" using Cons.prems(2) by auto
    then obtain z where z: "p = q' @ z" by (auto simp: prefix_def)
    then have "break_len (c # q') = 0" using p(1) break_len_shorter [of "c # q'" "z @ [CHR 0x0A]"] by simp
    then show ?thesis using Cons.IH [OF p(2) q(2)] q(1) \<open>q = d # q'\<close> by simp
  qed simp
qed simp

lemma begun_line:
  assumes "plain_line l" "strict_prefix r l" "r \<noteq> ''''"
  shows "split_lines True r = [r] \<and> \<not> line_done r"
proof -
  obtain p where p: "l = p @ [CHR 0x0A]" "next_break (p @ [CHR 0x0A]) = Some (p, [CHR 0x0A], [])"
    using assms(1) by (rule plain_lineE)
  have "prefix r p" using assms(2) p(1) by (auto simp: strict_prefix_def)
  then have "next_break r = None" "set r \<subseteq> set p"
    using next_break_prefix [OF p(2)] set_mono_prefix by blast+
  moreover from this have "last r \<in> set p" using assms(3) last_in_set by blast
  ultimately show ?thesis using no_eol_in_plain [OF p(2)] assms(3)
    by (subst split_lines.simps) (auto simp: line_done_def)
qed

lemma split_begun:
  "list_all plain_line ls \<Longrightarrow> prefix p (concat ls) \<Longrightarrow>
   \<exists>k r. p = concat (take k ls) @ r \<and> begun r (drop k ls) \<and> split_lines True p = take k ls @ (if r = '''' then [] else [r])"
proof (induction ls arbitrary: p)
  case Nil
  then show ?case by (auto simp: begun_def split_lines.simps)
next
  case (Cons l ls)
  show ?case
  proof (cases "strict_prefix p l")
    case True
    then have "split_lines True p = (if p = '''' then [] else [p])"
      using begun_line [of l p] Cons.prems(1) by (cases "p = ''''") simp_all
    then show ?thesis using True by (intro exI [of _ 0] exI [of _ p]) (simp add: begun_def)
  next
    case False
    then obtain q where q: "p = l @ q" "prefix q (concat ls)"
      using Cons.prems(2) by (auto simp: prefix_append strict_prefix_def)
    then obtain k r where "q = concat (take k ls) @ r" "begun r (drop k ls)" "split_lines True q = take k ls @ (if r = '''' then [] else [r])"
      using Cons.IH [OF _ q(2)] Cons.prems(1) by auto
    then show ?thesis using q(1) Cons.prems(1) split_plain_line [of l True q] by (intro exI [of _ "Suc k"] exI [of _ r]) simp
  qed
qed

lemma plain_done: "plain_line l \<Longrightarrow> line_done l"
  by (elim plain_lineE) (simp add: line_done_def)

lemma sse_text_plain:
  assumes "list_all plain_line ls" "prefix (ss_buffer st @ t) (concat ls)"
  shows "\<exists>k r. ss_buffer st @ t = concat (take k ls) @ r \<and> begun r (drop k ls) \<and>
    sse_text t st = (fold sse_line (take k ls) st)\<lparr>ss_buffer := r\<rparr>"
proof -
  obtain k r where kr: "ss_buffer st @ t = concat (take k ls) @ r" "begun r (drop k ls)"
    "split_lines True (ss_buffer st @ t) = take k ls @ (if r = '''' then [] else [r])"
    using split_begun [OF assms] by blast
  have "sse_text t st = (fold sse_line (take k ls) st)\<lparr>ss_buffer := r\<rparr>"
  proof (cases "r = ''''")
    case True
    have "line_done (last (take k ls))" if "take k ls \<noteq> []"
    proof -
      have "last (take k ls) \<in> set ls" using last_in_set [OF that] in_set_takeD by fast
      then show ?thesis using assms(1) plain_done by (simp add: list_all_iff)
    qed
    then show ?thesis using True kr(3) by (cases "take k ls = []") (auto simp: sse_text_def Let_def)
  next
    case False
    then have "drop k ls \<noteq> []" "strict_prefix r (hd (drop k ls))" using kr(2) by (auto simp: begun_def)
    moreover have "plain_line (hd (drop k ls))"
    proof -
      have "hd (drop k ls) \<in> set ls" using hd_in_set [OF \<open>drop k ls \<noteq> []\<close>] in_set_dropD by fast
      then show ?thesis using assms(1) by (simp add: list_all_iff)
    qed
    ultimately have "\<not> line_done r" using begun_line False by blast
    then show ?thesis using False kr(3) by (simp add: sse_text_def Let_def)
  qed
  then show ?thesis using kr by blast
qed

lemma sse_chunks_plain:
  assumes "list_all plain_line ls" "ss_buffer st @ d = concat ls" "begun (ss_buffer st) ls"
    "utf8_decode (ss_bytes st @ concat chunks) = Some (d, '''')" "utf8_decode (ss_bytes st) = Some ('''', ss_bytes st)"
  shows "sse_chunks chunks st = (ss_events (sse_dispatch (fold sse_line ls st)), True)"
  using assms
proof (induction chunks arbitrary: st ls d)
  case Nil
  then have d: "d = ''''" "ss_bytes st = ''''" by auto
  have "ls = []"
  proof (rule ccontr)
    assume "ls \<noteq> []"
    then obtain l ls' where l: "ls = l # ls'" "plain_line l" using Nil.prems(1) by (cases ls) auto
    then show False using Nil.prems(2,3) d(1) by (cases l) (auto simp: begun_def strict_prefix_def prefix_def)
  qed
  then show ?case using Nil.prems(2) d by (simp add: sse_end_def strip_eol_def rstrip_by_def starts_def)
next
  case (Cons c chunks)
  obtain a b v where u: "utf8_decode (ss_bytes st @ c) = Some (a, b)" "utf8_decode (b @ concat chunks) = Some (v, '''')" "d = a @ v"
    using utf8_append [of "ss_bytes st @ c" "concat chunks"] Cons.prems(4) by auto
  let ?st = "st\<lparr>ss_bytes := b\<rparr>"
  have "concat ls = (ss_buffer ?st @ a) @ v" using Cons.prems(2) u(3) by simp
  then have "prefix (ss_buffer ?st @ a) (concat ls)" by (rule prefixI)
  then obtain k r where k: "ss_buffer ?st @ a = concat (take k ls) @ r" "begun r (drop k ls)"
    "sse_text a ?st = (fold sse_line (take k ls) ?st)\<lparr>ss_buffer := r\<rparr>"
    using sse_text_plain [OF Cons.prems(1)] by blast
  have "concat ls = concat (take k ls) @ concat (drop k ls)" by (metis append_take_drop_id concat_append)
  then have "(concat (take k ls) @ r) @ v = concat (take k ls) @ concat (drop k ls)"
    using \<open>concat ls = (ss_buffer ?st @ a) @ v\<close> k(1) by argo
  then have "r @ v = concat (drop k ls)" by simp
  moreover have "list_all plain_line (drop k ls)" using Cons.prems(1) by (auto simp: list_all_iff dest: in_set_dropD)
  moreover have "utf8_decode b = Some ('''', b)" using utf8_parts [OF u(1)] by blast
  ultimately have "sse_chunks chunks (sse_text a ?st) = (ss_events (sse_dispatch (fold sse_line (drop k ls) (sse_text a ?st))), True)"
    using k(2,3) u(2) by (intro Cons.IH [where d = v]) simp_all
  moreover have "fold sse_line (drop k ls) (fold sse_line (take k ls) st) = fold sse_line ls st"
    by (metis append_take_drop_id fold_append comp_apply)
  ultimately show ?case using u(1) k(3) by simp
qed

section \<open>Events come back\<close>

definition sse_print :: "string \<Rightarrow> string" where
  \<comment> \<open>an event as a server writes it\<close>
  "sse_print d = concat (map (\<lambda>l. ''data: '' @ l @ [CHR 0x0A]) (split_on CHR 0x0A d)) @ [CHR 0x0A]"

definition one_line_each :: "string \<Rightarrow> bool" where
  \<comment> \<open>no line break but line feeds\<close>
  "one_line_each d \<longleftrightarrow> list_all (\<lambda>l. plain_line (l @ [CHR 0x0A])) (split_on CHR 0x0A d)"

definition event_lines :: "string \<Rightarrow> string list" where
  "event_lines d = map (\<lambda>l. ''data: '' @ l @ [CHR 0x0A]) (split_on CHR 0x0A d) @ [[CHR 0x0A]]"

lemma data_line_plain: "plain_line (l @ [CHR 0x0A]) \<Longrightarrow> plain_line (''data: '' @ l @ [CHR 0x0A])"
  using plain_line_append [of "l @ [CHR 0x0A]" "''data: ''"] by (simp add: harmless_def)

lemma event_lines_plain: "one_line_each d \<Longrightarrow> list_all plain_line (event_lines d)"
  using data_line_plain by (auto simp: one_line_each_def event_lines_def list_all_iff plain_line_def break_len_def)

lemma concat_event_lines: "concat (event_lines d) = sse_print d"
  by (simp add: event_lines_def sse_print_def)

lemma read_data_line:
  assumes "plain_line (l @ [CHR 0x0A])"
  shows "sse_line (''data: '' @ l @ [CHR 0x0A]) st = st\<lparr>ss_data := ss_data st @ [l]\<rparr>"
  using strip_eol_plain [OF data_line_plain [OF assms]] by (simp add: sse_line_def sse_value_def butlast_append)

lemma read_data_lines:
  "list_all (\<lambda>l. plain_line (l @ [CHR 0x0A])) ls \<Longrightarrow>
   fold sse_line (map (\<lambda>l. ''data: '' @ l @ [CHR 0x0A]) ls) st = st\<lparr>ss_data := ss_data st @ ls\<rparr>"
proof (induction ls arbitrary: st)
  case (Cons l ls)
  then have "plain_line (l @ [CHR 0x0A])" "list_all (\<lambda>l. plain_line (l @ [CHR 0x0A])) ls" by simp_all
  then show ?case by (simp only: list.map fold.simps comp_apply read_data_line Cons.IH) simp
qed simp

lemma split_on_not_Nil: "split_on c s \<noteq> []"
  by (induction s) (auto split: list.split)

lemma read_event:
  assumes "one_line_each d" "ss_data st = []"
  shows "fold sse_line (event_lines d) st = st\<lparr>ss_events := ss_events st @ [d]\<rparr>"
proof -
  let ?st = "st\<lparr>ss_data := split_on CHR 0x0A d\<rparr>"
  have "fold sse_line (map (\<lambda>l. ''data: '' @ l @ [CHR 0x0A]) (split_on CHR 0x0A d)) st = ?st"
    using read_data_lines [of "split_on CHR 0x0A d" st] assms by (simp add: one_line_each_def)
  then have "fold sse_line (event_lines d) st = sse_line [CHR 0x0A] ?st" by (simp only: event_lines_def fold_append comp_apply fold.simps id_apply)
  also have "\<dots> = st\<lparr>ss_events := ss_events st @ [d]\<rparr>"
    using assms(2) join_split_on [of "CHR 0x0A" d] split_on_not_Nil [of "CHR 0x0A" d]
    by (simp add: sse_line_def strip_eol_def rstrip_by_def sse_dispatch_def)
  finally show ?thesis .
qed

lemma read_events:
  "list_all one_line_each ds \<Longrightarrow> ss_data st = [] \<Longrightarrow>
   fold sse_line (concat (map event_lines ds)) st = st\<lparr>ss_events := ss_events st @ ds\<rparr>"
  by (induction ds arbitrary: st) (simp_all add: read_event)

text \<open>
  C37. Events whose lines end in line feeds are read as they were written, however the bytes of the stream
  are cut into chunks, also within a line or within a character.
\<close>

theorem sse_roundtrip:
  assumes "concat chunks = concat (map sse_print ds)" "utf8_decode (concat chunks) = Some (concat chunks, '''')"
    "list_all one_line_each ds"
  shows "iter_sse_data chunks = (ds, True)"
proof -
  let ?ls = "concat (map event_lines ds)" and ?st = "\<lparr>ss_bytes = '''', ss_buffer = '''', ss_data = [], ss_events = []\<rparr>"
  have ls: "concat ?ls = concat chunks" using assms(1) by (induction ds arbitrary: chunks) (simp_all add: concat_event_lines)
  have "list_all plain_line ?ls" using assms(3) event_lines_plain by (auto simp: list_all_iff)
  then have "sse_chunks chunks ?st = (ss_events (sse_dispatch (fold sse_line ?ls ?st)), True)"
    using assms(2) ls by (intro sse_chunks_plain [where d = "concat chunks"]) (simp_all add: begun_def)
  then show ?thesis using read_events [OF assms(3), of ?st] by (simp add: iter_sse_data_def sse_dispatch_def)
qed

lemma sse_roundtrip_witness:
  "iter_sse_data [''data: a'' @ [CHR 0xE2], [CHR 0x82, CHR 0xAC, CHR 0x0A, CHR 0x0A] @ ''da'', ''ta: b'' @ [CHR 0x0A], ''data: c'' @ [CHR 0x0A, CHR 0x0A]] =
     ([''a'' @ [CHR 0xE2, CHR 0x82, CHR 0xAC], ''b'' @ [CHR 0x0A] @ ''c''], True)"
  by (rule sse_roundtrip) code_simp+

end
