(* ===== verification/ProviderChat.thy ===== *)
theory ProviderChat
  imports ProviderStream
begin

text \<open>
  Responses in the chat format (\<open>OpenAICompatibleChatClient\<close> in \<open>provider/openai_compatible.py\<close>): a whole
  response, and one that a stream of events adds up to, with the deltas it yields on the way. An error is the
  text of the \<open>ProviderAdapterError\<close>; reading JSON is a parameter, and so is the clock: which event comes too
  late.
\<close>

section \<open>Arguments of a tool call\<close>

function drop_trailing_commas :: "string \<Rightarrow> string" where
  \<comment> \<open>\<open>re.sub(r",\\s*([}\\]])", r"\\1", s)\<close>\<close>
  "drop_trailing_commas [] = []"
| "drop_trailing_commas (c # cs) =
     (let rest = dropWhile is_ws cs
      in if c = CHR '','' \<and> rest \<noteq> [] \<and> hd rest \<in> set [CHR ''}'', CHR '']''] then hd rest # drop_trailing_commas (tl rest)
         else c # drop_trailing_commas cs)"
  by pat_completeness auto
termination
proof (relation "measure length", simp_all)
  fix cs :: string
  show "length (dropWhile is_ws cs) - Suc 0 < Suc (length cs)"
    using length_dropWhile_le [of is_ws cs] by simp
qed

definition braced :: "string \<Rightarrow> string" where
  \<comment> \<open>from the first opening brace to the last closing one, which is put there when there is none\<close>
  "braced s =
     (let s = (if \<not> starts ''{'' s \<and> CHR ''{'' \<in> set s then dropWhile (\<lambda>c. c \<noteq> CHR ''{'') s else s)
      in if ends ''}'' s then s
         else if CHR ''}'' \<in> set s then rev (dropWhile (\<lambda>c. c \<noteq> CHR ''}'') (rev s))
         else s @ ''}'')"

definition try_repair_json :: "(string \<Rightarrow> pv option) \<Rightarrow> string \<Rightarrow> pdict option" where
  "try_repair_json loads raw =
     (let s = strip raw
      in if s = '''' then None
         else case loads (drop_trailing_commas (braced s)) of Some (PDict d) \<Rightarrow> Some d | _ \<Rightarrow> None)"

definition parse_tool_arguments :: "(string \<Rightarrow> pv option) \<Rightarrow> string \<Rightarrow> pv \<Rightarrow> string + pdict" where
  "parse_tool_arguments loads name arguments =
     (case arguments of
        PNone \<Rightarrow> Inr []
      | PDict d \<Rightarrow> Inr d
      | PStr s \<Rightarrow>
          if s = '''' then Inr []
          else (case loads s of
            None \<Rightarrow> Inr (case try_repair_json loads s of Some d \<Rightarrow> d | None \<Rightarrow> [])
          | Some (PDict d) \<Rightarrow> Inr d
          | Some _ \<Rightarrow> Inl (''Provider returned invalid tool call arguments for '' @ name @ '': expected JSON object''))
      | _ \<Rightarrow> Inl (''Provider returned invalid tool call arguments for '' @ name @ '': expected JSON object string''))"

section \<open>A response\<close>

definition parent_keys :: "string list" where
  "parent_keys = [''parentToolUseId'', ''parent_tool_use_id'', ''parentToolCallId'', ''parent_tool_call_id'', ''parentId'', ''parent_id'']"

definition wire_parent_id :: "pdict \<Rightarrow> string option" where
  "wire_parent_id call =
     (let texts = (\<lambda>d. filter (\<lambda>s. s \<noteq> '''') (map (\<lambda>k. strip (the_str (dget d k))) parent_keys))
      in case texts call @ texts (the_dict (dget call ''metadata'')) of s # _ \<Rightarrow> Some s | [] \<Rightarrow> None)"

definition invalid_response :: "string \<Rightarrow> string" where
  "invalid_response what = ''Provider returned invalid response: '' @ what"

definition normalize_tool_call :: "(string \<Rightarrow> pv option) \<Rightarrow> (string \<times> string) list \<Rightarrow> nat \<Rightarrow> pv \<Rightarrow> string + pdict" where
  "normalize_tool_call loads names count v =
     (case v of
        PDict item \<Rightarrow>
          (case por (dget item ''function'') (PDict []) of
             PDict f \<Rightarrow>
               (let name = original_tool_name names (the_str (dget f ''name'')); i = the_str (dget item ''id'')
                in if the_str (dget f ''name'') = '''' then Inl (invalid_response ''tool call is missing function name'')
                   else rbind (parse_tool_arguments loads name (dget f ''arguments'')) (\<lambda>arguments.
                     Inr ([(''id'', PStr (if i = '''' then ''call_'' @ nat_digits count else i)),
                       (''type'', por (dget item ''type'') (PStr ''function'')), (''name'', PStr name), (''arguments'', PDict arguments)] @
                       (case wire_parent_id item of None \<Rightarrow> [] | Some p \<Rightarrow> [(''parentToolUseId'', PStr p)]))))
           | _ \<Rightarrow> Inl (invalid_response ''tool function must be an object''))
      | _ \<Rightarrow> Inl (invalid_response ''tool call must be an object''))"

definition normalize_tool_calls :: "(string \<Rightarrow> pv option) \<Rightarrow> (string \<times> string) list \<Rightarrow> pv \<Rightarrow> string + pdict list" where
  "normalize_tool_calls loads names calls =
     (case calls of
        PList xs \<Rightarrow> rconcat (\<lambda>(k, v). map_sum id (\<lambda>c. [c]) (normalize_tool_call loads names k v)) (enum xs)
      | _ \<Rightarrow> Inl (invalid_response ''tool_calls must be a list''))"

definition thinking_text_from_chat_payload :: "pdict \<Rightarrow> string option" where
  "thinking_text_from_chat_payload payload =
     (let keys = [''reasoning_content'', ''reasoningContent'', ''reasoning_delta'', ''reasoningDelta'', ''thinking'', ''thinking_delta'', ''thinkingDelta''];
          inner = [''delta'', ''text_delta'', ''textDelta'', ''text'', ''content'', ''summary''];
          texts = map (\<lambda>k. the_str (dget payload k)) keys @ [the_str (dget payload ''reasoning'')] @
            map (\<lambda>k. the_str (dget (the_dict (dget payload ''reasoning'')) k)) inner
      in case filter (\<lambda>s. s \<noteq> '''') texts of s # _ \<Rightarrow> Some s | [] \<Rightarrow> None)"

definition contains_error :: "pdict \<Rightarrow> bool" where
  "contains_error d \<longleftrightarrow> dget d ''error'' \<noteq> PNone \<and> dget d ''error'' \<noteq> PStr ''''"

definition provider_error_message :: "pdict \<Rightarrow> string" where
  "provider_error_message d =
     (let e = dget d ''error''
      in case e of
        PDict x \<Rightarrow> py_str (por (por (dget x ''message'') (dget x ''type'')) e)
      | _ \<Rightarrow> py_str (por e (por (dget d ''detail'') (por (dget d ''message'') (PStr ''unknown provider error'')))))"

definition normalize_response :: "(string \<Rightarrow> pv option) \<Rightarrow> (string \<times> string) list \<Rightarrow> pdict \<Rightarrow> string + pdict" where
  "normalize_response loads names d =
     (case dget d ''choices'' of
        PList (PDict choice # _) \<Rightarrow>
          (case dget choice ''message'' of
             PDict m \<Rightarrow>
               rbind (normalize_tool_calls loads names (por (dget m ''tool_calls'') (PList []))) (\<lambda>calls.
                 Inr ([(''message'', PDict [(''role'', por (dget m ''role'') (PStr ''assistant'')), (''content'', text_or_empty (dget m ''content'')),
                     (''tool_calls'', PList (map PDict calls))]),
                   (''finish_reason'', dget choice ''finish_reason''),
                   (''raw'', PDict [(''id'', dget d ''id''), (''model'', dget d ''model''), (''usage'', dget d ''usage'')])] @
                   (case thinking_text_from_chat_payload m of
                      None \<Rightarrow> [] | Some t \<Rightarrow> [(''thought_summary'', PStr t), (''thoughtSummary'', PStr t)])))
           | _ \<Rightarrow> Inl (invalid_response ''missing assistant message''))
      | PList (_ # _) \<Rightarrow> Inl (invalid_response ''choice must be an object'')
      | _ \<Rightarrow> Inl (invalid_response ''missing choices''))"

section \<open>A streamed response\<close>

datatype chat_event =
    ChatThinking string
  | ChatContent string
  | ChatToolCall int pv pv pv string  \<comment> \<open>index, id, type, name and the piece of the arguments\<close>
  | ChatFinish pv
  | ChatFinal pdict

record tool_part =
  tp_id :: pv
  tp_type :: string
  tp_name :: pv
  tp_arguments :: string
  tp_parent :: "string option"

record chat_stream =
  cs_content :: "string list"
  cs_role :: string
  cs_parts :: "(int \<times> tool_part) list"
  cs_finish :: pv
  cs_response_id :: pv
  cs_model :: pv
  cs_usage :: pv
  cs_yielded :: "chat_event list"

definition fresh_stream :: chat_stream where
  "fresh_stream =
     \<lparr>cs_content = [], cs_role = ''assistant'', cs_parts = [], cs_finish = PNone, cs_response_id = PNone, cs_model = PNone,
      cs_usage = PNone, cs_yielded = []\<rparr>"

record chat_settings =
  st_names :: "(string \<times> string) list"
  st_loads :: "string \<Rightarrow> pv option"
  st_max_tool_argument_chars :: nat
  st_late :: "nat \<Rightarrow> bool"  \<comment> \<open>the time is up when this event is read\<close>

definition yield_event :: "chat_event \<Rightarrow> chat_stream \<Rightarrow> chat_stream" where
  "yield_event e st = st\<lparr>cs_yielded := cs_yielded st @ [e]\<rparr>"

definition new_part :: tool_part where
  "new_part = \<lparr>tp_id = PNone, tp_type = ''function'', tp_name = PNone, tp_arguments = '''', tp_parent = None\<rparr>"

definition part_at :: "int \<Rightarrow> chat_stream \<Rightarrow> tool_part" where
  "part_at i st = (case map_of (cs_parts st) i of None \<Rightarrow> new_part | Some p \<Rightarrow> p)"

definition invalid_chunk :: "string \<Rightarrow> string" where
  "invalid_chunk what = ''Provider returned invalid SSE chunk: '' @ what"

definition renamed :: "(string \<times> string) list \<Rightarrow> pv \<Rightarrow> pv" where
  "renamed names v = (case v of PStr s \<Rightarrow> PStr (original_tool_name names s) | _ \<Rightarrow> PNone)"

definition str_or_none :: "pv \<Rightarrow> pv" where
  "str_or_none v = (case v of PStr s \<Rightarrow> PStr s | _ \<Rightarrow> PNone)"

definition tool_index :: "pv \<Rightarrow> int option" where
  \<comment> \<open>\<open>isinstance(index, int)\<close>, which a truth value is too\<close>
  "tool_index v = (case v of PInt i \<Rightarrow> Some i | PBool b \<Rightarrow> Some (if b then 1 else 0) | _ \<Rightarrow> None)"

definition tool_call_delta :: "chat_settings \<Rightarrow> pdict \<Rightarrow> pdict \<Rightarrow> tool_part \<Rightarrow> tool_part" where
  "tool_call_delta cfg item f p =
     (let p = (case wire_parent_id item of None \<Rightarrow> p | Some s \<Rightarrow> p\<lparr>tp_parent := Some s\<rparr>);
          p = (if the_str (dget item ''id'') \<noteq> '''' then p\<lparr>tp_id := dget item ''id''\<rparr> else p);
          p = (if the_str (dget item ''type'') \<noteq> '''' then p\<lparr>tp_type := the_str (dget item ''type'')\<rparr> else p);
          p = (if the_str (dget f ''name'') \<noteq> '''' then p\<lparr>tp_name := renamed (st_names cfg) (dget f ''name'')\<rparr> else p)
      in p\<lparr>tp_arguments := tp_arguments p @ the_str (dget f ''arguments'')\<rparr>)"

definition apply_tool_call_delta :: "chat_settings \<Rightarrow> nat \<Rightarrow> pv \<Rightarrow> chat_stream \<Rightarrow> (string \<times> chat_stream) + chat_stream" where
  "apply_tool_call_delta cfg fallback v st =
     (case v of
        PDict item \<Rightarrow>
          (case tool_index (dget_or item ''index'' (PInt (int fallback))) of
             Some i \<Rightarrow>
               (case por (dget item ''function'') (PDict []) of
                  PDict f \<Rightarrow>
                    (let p = tool_call_delta cfg item f (part_at i st); piece = the_str (dget f ''arguments'')
                     in if is_str (dget f ''arguments'') \<and> st_max_tool_argument_chars cfg < ulen (tp_arguments p)
                        then Inl (''Provider tool call arguments exceeded '' @ nat_digits (st_max_tool_argument_chars cfg) @
                          '' characters before completion.'', st)
                        else Inr (yield_event (ChatToolCall i (str_or_none (dget item ''id'')) (str_or_none (dget item ''type''))
                            (renamed (st_names cfg) (dget f ''name'')) piece)
                          (st\<lparr>cs_parts := AList.update i p (cs_parts st)\<rparr>)))
                | _ \<Rightarrow> Inl (invalid_chunk ''tool function must be an object'', st))
           | None \<Rightarrow> Inl (invalid_chunk ''tool call index must be an integer'', st))
      | _ \<Rightarrow> Inl (invalid_chunk ''tool call must be an object'', st))"

definition apply_tool_call_deltas :: "chat_settings \<Rightarrow> pv \<Rightarrow> chat_stream \<Rightarrow> (string \<times> chat_stream) + chat_stream" where
  "apply_tool_call_deltas cfg calls st =
     (case calls of
        PNone \<Rightarrow> Inr st
      | PList xs \<Rightarrow> rfold (\<lambda>(k, v). apply_tool_call_delta cfg k v) (enum xs) st
      | _ \<Rightarrow> Inl (invalid_chunk ''tool_calls must be a list'', st))"

definition apply_delta :: "chat_settings \<Rightarrow> pdict \<Rightarrow> pdict \<Rightarrow> chat_stream \<Rightarrow> (string \<times> chat_stream) + chat_stream" where
  \<comment> \<open>the delta of a choice: role, thinking, content, tool calls and the end\<close>
  "apply_delta cfg choice delta st =
     (let content = the_str (dget delta ''content'');
          st = (if the_str (dget delta ''role'') \<noteq> '''' then st\<lparr>cs_role := the_str (dget delta ''role'')\<rparr> else st);
          st = (case thinking_text_from_chat_payload delta of None \<Rightarrow> st | Some t \<Rightarrow> yield_event (ChatThinking t) st);
          st = (if content \<noteq> '''' then yield_event (ChatContent content) (st\<lparr>cs_content := cs_content st @ [content]\<rparr>) else st)
      in rbind (apply_tool_call_deltas cfg (dget delta ''tool_calls'') st) (\<lambda>st.
        Inr (if dget choice ''finish_reason'' \<noteq> PNone
             then yield_event (ChatFinish (dget choice ''finish_reason'')) (st\<lparr>cs_finish := dget choice ''finish_reason''\<rparr>)
             else st)))"

definition apply_chunk :: "chat_settings \<Rightarrow> pdict \<Rightarrow> chat_stream \<Rightarrow> (string \<times> chat_stream) + chat_stream" where
  "apply_chunk cfg chunk st =
     (if contains_error chunk then Inl (''Provider returned error: '' @ provider_error_message chunk, st)
      else
        (let st = st\<lparr>cs_response_id := dget_or chunk ''id'' (cs_response_id st), cs_model := dget_or chunk ''model'' (cs_model st),
               cs_usage := dget_or chunk ''usage'' (cs_usage st)\<rparr>
         in if \<not> truthy (dget chunk ''choices'') then Inr st
            else case dget chunk ''choices'' of
              PList (PDict choice # _) \<Rightarrow>
                (case por (dget choice ''delta'') (PDict []) of
                   PDict delta \<Rightarrow> apply_delta cfg choice delta st
                 | _ \<Rightarrow> Inl (invalid_chunk ''delta must be an object'', st))
            | PList _ \<Rightarrow> Inl (invalid_chunk ''choice must be an object'', st)
            | _ \<Rightarrow> Inl (invalid_chunk ''choices must be a list'', st)))"

datatype stream_end = StreamDone | StreamOut | StreamFailed string

fun stream_loop :: "chat_settings \<Rightarrow> nat \<Rightarrow> string list \<Rightarrow> chat_stream \<Rightarrow> stream_end \<times> chat_stream" where
  \<comment> \<open>over the events; data that is no JSON object is passed over\<close>
  "stream_loop cfg n [] st = (StreamOut, st)"
| "stream_loop cfg n (d # ds) st =
     (if st_late cfg n then (StreamFailed ''Provider streaming response exceeded its time before completion.'', st)
      else if d = ''[DONE]'' then (StreamDone, st)
      else case st_loads cfg d of
        Some (PDict chunk) \<Rightarrow>
          (case apply_chunk cfg chunk st of
             Inl (e, st') \<Rightarrow> (StreamFailed e, st')
           | Inr st' \<Rightarrow> stream_loop cfg (Suc n) ds st')
      | _ \<Rightarrow> stream_loop cfg (Suc n) ds st)"

definition streamed_call :: "tool_part \<Rightarrow> pv" where
  "streamed_call p =
     PDict ([(''id'', tp_id p), (''type'', PStr (tp_type p))] @
       (case tp_parent p of None \<Rightarrow> [] | Some s \<Rightarrow> [(''parentToolUseId'', PStr s)]) @
       [(''function'', PDict [(''name'', tp_name p), (''arguments'', PStr (tp_arguments p))])])"

definition final_stream_response :: "chat_settings \<Rightarrow> chat_stream \<Rightarrow> string + pdict" where
  "final_stream_response cfg st =
     rbind (normalize_tool_calls (st_loads cfg) (st_names cfg)
         (PList (map (\<lambda>i. streamed_call (part_at i st)) (sorted_list_of_set (set (map fst (cs_parts st))))))) (\<lambda>calls.
       Inr [(''message'', PDict [(''role'', PStr (cs_role st)), (''content'', PStr (concat (cs_content st))), (''tool_calls'', PList (map PDict calls))]),
         (''finish_reason'', cs_finish st),
         (''raw'', PDict [(''id'', cs_response_id st), (''model'', cs_model st), (''usage'', cs_usage st)])])"

definition normalize_stream :: "chat_settings \<Rightarrow> string list \<Rightarrow> chat_event list \<times> string option" where
  \<comment> \<open>the events yielded for the chunks of a stream, and the error that ends it\<close>
  "normalize_stream cfg chunks =
     (let (datas, valid) = iter_sse_data chunks; (ended, st) = stream_loop cfg 0 datas fresh_stream
      in case ended of
        StreamFailed e \<Rightarrow> (cs_yielded st, Some e)
      | _ \<Rightarrow>
          if ended = StreamOut \<and> \<not> valid then (cs_yielded st, Some ''Provider returned non-UTF-8 SSE stream'')
          else (case final_stream_response cfg st of
            Inl e \<Rightarrow> (cs_yielded st, Some e)
          | Inr r \<Rightarrow> (cs_yielded st @ [ChatFinal r], None)))"

section \<open>The stream adds up\<close>

definition content_of :: "chat_event list \<Rightarrow> string" where
  "content_of es = concat (map (\<lambda>e. case e of ChatContent t \<Rightarrow> t | _ \<Rightarrow> '''') es)"

definition arguments_of :: "int \<Rightarrow> chat_event list \<Rightarrow> string" where
  "arguments_of i es = concat (map (\<lambda>e. case e of ChatToolCall j _ _ _ t \<Rightarrow> if j = i then t else '''' | _ \<Rightarrow> '''') es)"

definition adds_up :: "chat_settings \<Rightarrow> chat_stream \<Rightarrow> bool" where
  "adds_up cfg st \<longleftrightarrow>
     concat (cs_content st) = content_of (cs_yielded st) \<and>
     (\<forall>i. tp_arguments (part_at i st) = arguments_of i (cs_yielded st)) \<and>
     (\<forall>i. ulen (arguments_of i (cs_yielded st)) \<le> st_max_tool_argument_chars cfg)"

definition result_state :: "('e \<times> 's) + 's \<Rightarrow> 's" where
  "result_state r = (case r of Inl (e, st) \<Rightarrow> st | Inr st \<Rightarrow> st)"

lemma result_state_simps [simp]: "result_state (Inl (e, st)) = st" "result_state (Inr st) = st"
  by (simp_all add: result_state_def)

lemma result_bind: "result_state (rbind r f) = (case r of Inl (e, st) \<Rightarrow> st | Inr st \<Rightarrow> result_state (f st))"
  by (simp add: rbind_def result_state_def split: sum.split)

lemma yielded_snoc [simp]:
  "content_of (es @ [e]) = content_of es @ content_of [e]" "arguments_of i (es @ [e]) = arguments_of i es @ arguments_of i [e]"
  by (simp_all add: content_of_def arguments_of_def)

lemma yield_simps [simp]:
  "cs_content (yield_event e st) = cs_content st" "cs_yielded (yield_event e st) = cs_yielded st @ [e]"
  "part_at i (yield_event e st) = part_at i st"
  by (simp_all add: yield_event_def part_at_def)

lemma part_at_simps [simp]:
  "part_at i (st\<lparr>cs_content := c\<rparr>) = part_at i st" "part_at i (st\<lparr>cs_role := ro\<rparr>) = part_at i st"
  "part_at i (st\<lparr>cs_finish := x\<rparr>) = part_at i st" "part_at i (st\<lparr>cs_response_id := x\<rparr>) = part_at i st"
  "part_at i (st\<lparr>cs_model := x\<rparr>) = part_at i st" "part_at i (st\<lparr>cs_usage := x\<rparr>) = part_at i st"
  "part_at j (st\<lparr>cs_parts := AList.update k p (cs_parts st)\<rparr>) = (if j = k then p else part_at j st)"
  by (simp_all add: part_at_def update_conv)

lemma event_simps [simp]:
  "content_of [ChatContent t] = t" "content_of [ChatThinking t] = ''''" "content_of [ChatToolCall j a b n t] = ''''"
  "content_of [ChatFinish v] = ''''" "content_of [ChatFinal d] = ''''"
  "arguments_of i [ChatContent t] = ''''" "arguments_of i [ChatThinking t] = ''''"
  "arguments_of i [ChatToolCall j a b n t] = (if j = i then t else '''')"
  "arguments_of i [ChatFinish v] = ''''" "arguments_of i [ChatFinal d] = ''''"
  by (simp_all add: content_of_def arguments_of_def)

lemma delta_arguments: "tp_arguments (tool_call_delta cfg item f p) = tp_arguments p @ the_str (dget f ''arguments'')"
  by (simp add: tool_call_delta_def Let_def split: option.split)

lemma adds_up_call:
  assumes "adds_up cfg st"
  shows "adds_up cfg (result_state (apply_tool_call_delta cfg k v st))"
proof -
  have "adds_up cfg (yield_event (ChatToolCall i a b n (the_str (dget f ''arguments'')))
      (st\<lparr>cs_parts := AList.update i (tool_call_delta cfg item f (part_at i st)) (cs_parts st)\<rparr>))"
    if "\<not> (is_str (dget f ''arguments'') \<and> st_max_tool_argument_chars cfg < ulen (tp_arguments (tool_call_delta cfg item f (part_at i st))))"
    for i a b n f item
  proof -
    have "ulen (tp_arguments (part_at i st) @ the_str (dget f ''arguments'')) \<le> st_max_tool_argument_chars cfg"
      using that assms by (cases "dget f ''arguments''") (auto simp: adds_up_def delta_arguments)
    then show ?thesis using assms by (simp add: adds_up_def delta_arguments)
  qed
  then show ?thesis using assms by (simp add: apply_tool_call_delta_def Let_def split: pv.split option.split)
qed

lemma rfold_result:
  assumes "\<And>x s. P s \<Longrightarrow> P (result_state (f x s))" "P s"
  shows "P (result_state (rfold f xs s))"
  using assms(2)
proof (induction xs arbitrary: s)
  case (Cons x xs)
  then have "P (result_state (f x s))" using assms(1) by blast
  then show ?case using Cons.IH by (cases "f x s") (auto simp: result_bind)
qed simp

lemma adds_up_calls:
  assumes "adds_up cfg st"
  shows "adds_up cfg (result_state (apply_tool_call_deltas cfg calls st))"
proof -
  have "adds_up cfg (result_state (rfold (\<lambda>(k, v). apply_tool_call_delta cfg k v) xs st))" for xs
    by (rule rfold_result [where P = "adds_up cfg"]) (use assms adds_up_call in \<open>auto split: prod.split\<close>)
  then show ?thesis using assms by (simp add: apply_tool_call_deltas_def split: pv.split)
qed

lemma adds_up_delta:
  assumes "adds_up cfg st"
  shows "adds_up cfg (result_state (apply_delta cfg choice delta st))"
proof -
  define a where "a = (if the_str (dget delta ''role'') \<noteq> '''' then st\<lparr>cs_role := the_str (dget delta ''role'')\<rparr> else st)"
  define b where "b = (case thinking_text_from_chat_payload delta of None \<Rightarrow> a | Some t \<Rightarrow> yield_event (ChatThinking t) a)"
  define c where "c = (if the_str (dget delta ''content'') \<noteq> ''''
    then yield_event (ChatContent (the_str (dget delta ''content''))) (b\<lparr>cs_content := cs_content b @ [the_str (dget delta ''content'')]\<rparr>) else b)"
  have "adds_up cfg a" using assms by (simp add: a_def adds_up_def)
  then have "adds_up cfg b" by (simp add: b_def adds_up_def split: option.split)
  then have "adds_up cfg c" by (simp add: c_def adds_up_def)
  then have d: "adds_up cfg (result_state (apply_tool_call_deltas cfg (dget delta ''tool_calls'') c))" by (rule adds_up_calls)
  have "apply_delta cfg choice delta st = rbind (apply_tool_call_deltas cfg (dget delta ''tool_calls'') c) (\<lambda>st.
      Inr (if dget choice ''finish_reason'' \<noteq> PNone
           then yield_event (ChatFinish (dget choice ''finish_reason'')) (st\<lparr>cs_finish := dget choice ''finish_reason''\<rparr>) else st))"
    by (simp only: apply_delta_def Let_def a_def b_def c_def)
  then show ?thesis using d
    by (cases "apply_tool_call_deltas cfg (dget delta ''tool_calls'') c") (auto simp: adds_up_def result_state_def)
qed

lemma adds_up_chunk:
  assumes "adds_up cfg st"
  shows "adds_up cfg (result_state (apply_chunk cfg chunk st))"
proof -
  define st1 where "st1 = st\<lparr>cs_response_id := dget_or chunk ''id'' (cs_response_id st), cs_model := dget_or chunk ''model'' (cs_model st),
    cs_usage := dget_or chunk ''usage'' (cs_usage st)\<rparr>"
  have "adds_up cfg st1" using assms by (simp add: st1_def adds_up_def)
  then show ?thesis using assms adds_up_delta [of cfg st1]
    by (simp add: apply_chunk_def Let_def st1_def [symmetric] split: pv.split list.split)
qed

lemma stream_loop_adds_up: "adds_up cfg st \<Longrightarrow> adds_up cfg (snd (stream_loop cfg n datas st))"
proof (induction datas arbitrary: n st)
  case (Cons d ds)
  have "adds_up cfg (snd (case apply_chunk cfg chunk st of Inl (e, st') \<Rightarrow> (StreamFailed e, st') | Inr st' \<Rightarrow> stream_loop cfg (Suc n) ds st'))" for chunk
    using adds_up_chunk [OF Cons.prems, of chunk] Cons.IH by (cases "apply_chunk cfg chunk st") auto
  then show ?case using Cons.IH Cons.prems by (simp split: option.split pv.split)
qed simp

lemma fresh_adds_up: "adds_up cfg fresh_stream"
  by (simp add: adds_up_def fresh_stream_def content_of_def arguments_of_def part_at_def new_part_def ulen_def)

lemma rconcat_member: "rconcat f xs = Inr ys \<Longrightarrow> y \<in> set ys \<Longrightarrow> \<exists>x zs. x \<in> set xs \<and> f x = Inr zs \<and> y \<in> set zs"
proof (induction xs arbitrary: ys)
  case (Cons a xs)
  then obtain as zs where z: "f a = Inr as" "rconcat f xs = Inr zs" "ys = as @ zs" by (auto simp: rbind_eq_Inr)
  then show ?case using Cons.IH [OF z(2)] Cons.prems(2) by (auto intro: exI [of _ a])
qed simp

lemma normalize_streamed_call:
  assumes "normalize_tool_call loads names k (streamed_call p) = Inr c"
  shows "parse_tool_arguments loads (the_str (dget c ''name'')) (PStr (tp_arguments p)) = Inr (the_dict (dget c ''arguments''))"
  using assms
  by (cases "tp_parent p")
    (auto simp: normalize_tool_call_def streamed_call_def por_def dget_def Let_def rbind_eq_Inr split: if_splits option.splits)

definition arguments_read :: "chat_settings \<Rightarrow> chat_event list \<Rightarrow> pv \<Rightarrow> bool" where
  \<comment> \<open>the arguments of a call are read from what was yielded for one index\<close>
  "arguments_read cfg es v \<longleftrightarrow>
     (\<exists>i c. v = PDict c \<and> parse_tool_arguments (st_loads cfg) (the_str (dget c ''name'')) (PStr (arguments_of i es)) = Inr (the_dict (dget c ''arguments'')))"

lemma final_calls:
  assumes "adds_up cfg st" "final_stream_response cfg st = Inr r"
  shows "\<exists>m. dget r ''message'' = PDict m \<and> dget m ''content'' = PStr (content_of (cs_yielded st)) \<and>
    list_all (arguments_read cfg (cs_yielded st)) (the_list (dget m ''tool_calls''))"
proof -
  let ?parts = "PList (map (\<lambda>i. streamed_call (part_at i st)) (sorted_list_of_set (set (map fst (cs_parts st)))))"
  obtain calls where calls: "normalize_tool_calls (st_loads cfg) (st_names cfg) ?parts = Inr calls"
    and r: "dget r ''message'' = PDict [(''role'', PStr (cs_role st)), (''content'', PStr (concat (cs_content st))), (''tool_calls'', PList (map PDict calls))]"
    using assms(2) by (auto simp: final_stream_response_def rbind_eq_Inr dget_def)
  have "arguments_read cfg (cs_yielded st) (PDict c)" if c: "c \<in> set calls" for c
  proof -
    have rc: "rconcat (\<lambda>(k, v). map_sum id (\<lambda>c. [c]) (normalize_tool_call (st_loads cfg) (st_names cfg) k v)) (enum (the_list ?parts)) = Inr calls"
      using calls by (simp add: normalize_tool_calls_def)
    obtain x zs where x: "x \<in> set (enum (the_list ?parts))"
      "map_sum id (\<lambda>c. [c]) (normalize_tool_call (st_loads cfg) (st_names cfg) (fst x) (snd x)) = Inr zs" "c \<in> set zs"
      using rconcat_member [OF rc c] by (auto simp: case_prod_beta)
    then have "normalize_tool_call (st_loads cfg) (st_names cfg) (fst x) (snd x) = Inr c"
      by (cases "normalize_tool_call (st_loads cfg) (st_names cfg) (fst x) (snd x)") auto
    with x(1) obtain x where "x \<in> set (enum (the_list ?parts))" "normalize_tool_call (st_loads cfg) (st_names cfg) (fst x) (snd x) = Inr c"
      by blast
    moreover from this have "snd x \<in> set (the_list ?parts)" using snd_set_enum by fast
    ultimately obtain i where "normalize_tool_call (st_loads cfg) (st_names cfg) (fst x) (streamed_call (part_at i st)) = Inr c" by auto
    then show ?thesis using normalize_streamed_call assms(1) unfolding arguments_read_def adds_up_def by metis
  qed
  then show ?thesis using r assms(1) by (auto simp: dget_def adds_up_def list_all_iff)
qed


section \<open>What the format loses\<close>

definition two_tools :: "pv list" where
  \<comment> \<open>a name with a dot, and the name that it is given\<close>
  "two_tools = [named_tool ''memory.recall'', named_tool ''memory_recall'']"

definition call_second :: "pv" where
  \<comment> \<open>a call of the second tool under the name that was sent for it\<close>
  "call_second =
     PList [PDict [(''id'', PStr ''c''), (''function'', PDict [(''name'', PStr ''memory_recall_2''), (''arguments'', PStr '''')])]]"

definition two_settings :: chat_settings where
  "two_settings =
     \<lparr>st_names = snd (the (prepare_tools_for_request two_tools)),
      st_loads = (\<lambda>_. Some (PDict [(''choices'', PList [PDict [(''delta'', PDict [(''tool_calls'', call_second)])]])])),
      st_max_tool_argument_chars = 9, st_late = (\<lambda>_. False)\<rparr>"

definition called_names :: "pdict \<Rightarrow> pv list" where
  "called_names r = map (\<lambda>c. dget (the_dict c) ''name'') (the_list (dget (the_dict (dget r ''message'')) ''tool_calls''))"

definition whole_response :: pdict where
  "whole_response = [(''choices'', PList [PDict [(''message'', PDict [(''tool_calls'', call_second)])]])]"

definition titled_schema :: pv where
  "titled_schema =
     PDict [(''properties'', PDict [(''title'', PDict [(''type'', PStr ''string'')])]), (''required'', PList [PStr ''title''])]"

lemma called_twice_renamed:
  "map_sum id called_names (normalize_response (st_loads two_settings) (st_names two_settings) whole_response) = Inr [PStr ''memory_recall''] \<and>
   map_sum id called_names (final_stream_response two_settings
     (snd (stream_loop two_settings 0 [''{}''] fresh_stream))) = Inr [PStr ''memory.recall'']"
  by (rule conjI) code_simp+

lemma chunks_matter:
  "iter_sse_data [''data: a'' @ [CHR 0x0D], [CHR 0x0A] @ ''data: b'' @ [CHR 0x0A, CHR 0x0A]] = ([''a'', ''b''], True) \<and>
   iter_sse_data [''data: a'' @ [CHR 0x0D, CHR 0x0A] @ ''data: b'' @ [CHR 0x0A, CHR 0x0A]] = ([''a'' @ [CHR 0x0A] @ ''b''], True) \<and>
   iter_sse_data [''data: a'' @ [CHR 0xE2, CHR 0x80, CHR 0xA8] @ ''b'' @ [CHR 0x0A, CHR 0x0A]] = ([''a'' @ [CHR 0xE2, CHR 0x80, CHR 0xA8]], True)"
  by (intro conjI) code_simp+


end
